(* ===== verification/Prelude.thy ===== *)
theory Prelude
  imports Complex_Main "HOL-Library.Code_Target_Nat" "HOL-Library.AList" "HOL-Library.Char_ord" "HOL-Library.List_Lexorder"
begin

text \<open>
  What every component shares: Python's values and dictionaries, the exceptions the program
  raises and catches, the result type of pure code that may raise, and the state-passing
  functions of code that has effects and may raise. The named theorem collections
  \<open>res_simps\<close>, \<open>io_simps\<close> and \<open>dict_simps\<close> are the rewrite rules of these three layers.

  Strings are \<open>char list\<close>; a \<open>char\<close> stands for a code point below 256. Python's unbounded
  integers are \<open>int\<close>. Floating-point numbers appear only as values of tc options; a finite one is
  the exact rational it denotes.
\<close>

named_theorems res_simps \<open>rewrite rules for results of pure code that may raise\<close>
named_theorems io_simps \<open>rewrite rules for effectful code that may raise\<close>
named_theorems dict_simps \<open>rewrite rules for insertion-ordered dictionaries\<close>

section \<open>Dictionaries\<close>

text \<open>
  A Python dict keeps insertion order: assigning to a present key keeps its position, a new key
  goes to the end. That is \<open>AList.update\<close> on an association list with distinct keys.
\<close>

type_synonym ('k, 'v) dict = "('k \<times> 'v) list"

abbreviation dict_get :: "('k, 'v) dict \<Rightarrow> 'k \<Rightarrow> 'v option" where
  "dict_get d k \<equiv> map_of d k"

abbreviation dict_set :: "'k \<Rightarrow> 'v \<Rightarrow> ('k, 'v) dict \<Rightarrow> ('k, 'v) dict" where
  "dict_set k v d \<equiv> AList.update k v d"

abbreviation dict_del :: "'k \<Rightarrow> ('k, 'v) dict \<Rightarrow> ('k, 'v) dict" where
  "dict_del k d \<equiv> AList.delete k d"

abbreviation dict_keys :: "('k, 'v) dict \<Rightarrow> 'k list" where
  "dict_keys d \<equiv> map fst d"

abbreviation dict_values :: "('k, 'v) dict \<Rightarrow> 'v list" where
  "dict_values d \<equiv> map snd d"

text \<open>\<open>{k: f(v) for k, v in d.items()}\<close>, \<open>d.update(pairs)\<close> and \<open>dict(pairs)\<close>.\<close>

definition dict_map :: "('v \<Rightarrow> 'w) \<Rightarrow> ('k, 'v) dict \<Rightarrow> ('k, 'w) dict" where
  "dict_map f d = map (\<lambda>(k, v). (k, f v)) d"

definition dict_update :: "('k \<times> 'v) list \<Rightarrow> ('k, 'v) dict \<Rightarrow> ('k, 'v) dict" where
  "dict_update ps d = fold (\<lambda>(k, v) acc. dict_set k v acc) ps d"

definition dict_of :: "('k \<times> 'v) list \<Rightarrow> ('k, 'v) dict" where
  "dict_of ps = dict_update ps []"

text \<open>Equality of dicts ignores the order of the keys.\<close>

definition dict_eq :: "('v \<Rightarrow> 'v \<Rightarrow> bool) \<Rightarrow> ('k, 'v) dict \<Rightarrow> ('k, 'v) dict \<Rightarrow> bool" where
  "dict_eq eq d e \<longleftrightarrow> set (dict_keys d) = set (dict_keys e) \<and>
     (\<forall>k \<in> set (dict_keys d). case (dict_get d k, dict_get e k) of
        (Some v, Some v') \<Rightarrow> eq v v' | _ \<Rightarrow> False)"

text \<open>\<open>tuple(dict.fromkeys(xs))\<close>: the first occurrence of every element, in order.\<close>

definition dedup :: "'a list \<Rightarrow> 'a list" where
  "dedup xs = rev (remdups (rev xs))"

lemma dict_get_set [simp]: "dict_get (dict_set k v d) j = (if j = k then Some v else dict_get d j)"
  by (simp add: update_conv')

lemma dict_get_map [simp]: "dict_get (dict_map f d) k = map_option f (dict_get d k)"
  by (induction d) (auto simp: dict_map_def)

lemma dict_keys_map [simp]: "dict_keys (dict_map f d) = dict_keys d"
  by (induction d) (auto simp: dict_map_def)

lemma dict_keys_set [dict_simps]: "set (dict_keys (dict_set k v d)) = insert k (set (dict_keys d))"
  by (simp add: dom_update)

lemma dict_values_set: "set (dict_values (dict_set k v d)) \<subseteq> insert v (set (dict_values d))"
  by (induction d) auto

lemma dict_get_None [dict_simps]: "dict_get d k = None \<longleftrightarrow> k \<notin> set (dict_keys d)"
  by (simp add: map_of_eq_None_iff image_image)

lemma dict_get_SomeD: "dict_get d k = Some v \<Longrightarrow> k \<in> set (dict_keys d) \<and> v \<in> set (dict_values d)"
  by (force dest: map_of_SomeD)

lemma dict_get_in_keys: "k \<in> set (dict_keys d) \<Longrightarrow> \<exists>v. dict_get d k = Some v"
  by (metis dict_get_None not_None_eq)

lemma dict_set_append: "k \<notin> set (dict_keys d) \<Longrightarrow> dict_set k v d = d @ [(k, v)]"
  by (induction d) auto

lemma dict_get_del [simp]: "dict_get (dict_del k d) j = (if j = k then None else dict_get d j)"
  by (simp add: delete_conv')

lemma dict_keys_del [dict_simps]: "set (dict_keys (dict_del k d)) = set (dict_keys d) - {k}"
  by (auto simp only: AList.delete_keys set_removeAll)

lemma distinct_dict_set: "distinct (dict_keys d) \<Longrightarrow> distinct (dict_keys (dict_set k v d))"
  by (rule distinct_update)

lemma distinct_dict_del: "distinct (dict_keys d) \<Longrightarrow> distinct (dict_keys (dict_del k d))"
  by (rule distinct_delete)

lemma dict_eq_refl: "(\<And>v. v \<in> set (dict_values d) \<Longrightarrow> eq v v) \<Longrightarrow> dict_eq eq d d"
  by (auto simp: dict_eq_def split: option.splits dest: dict_get_SomeD)
    (metis dict_get_in_keys fst_conv image_eqI list.set_map option.distinct(1))

lemma dict_update_distinct:
  "distinct (map fst (d @ ps)) \<Longrightarrow> dict_update ps d = d @ ps"
proof (induction ps arbitrary: d)
  case (Cons p ps)
  obtain k v where p: "p = (k, v)" by (cases p)
  have "dict_update (p # ps) d = dict_update ps (dict_set k v d)" by (simp add: dict_update_def p)
  also have "dict_set k v d = d @ [(k, v)]" using Cons.prems by (intro dict_set_append) (auto simp: p)
  finally show ?case using Cons.IH [of "d @ [(k, v)]"] Cons.prems by (simp add: p)
qed (simp add: dict_update_def)

lemma dict_of_distinct: "distinct (map fst ps) \<Longrightarrow> dict_of ps = ps"
  using dict_update_distinct [of "[]" ps] by (simp add: dict_of_def)

lemma distinct_dict_update: "distinct (dict_keys d) \<Longrightarrow> distinct (dict_keys (dict_update ps d))"
  by (induction ps arbitrary: d) (auto simp: dict_update_def distinct_update)

lemma distinct_dict_of [simp]: "distinct (dict_keys (dict_of ps))"
  by (simp add: dict_of_def distinct_dict_update)

lemma set_dict_set: "set (dict_set k v d) \<subseteq> insert (k, v) (set d)"
  by (induction d) auto

lemma set_dict_update: "set (dict_update ps d) \<subseteq> set ps \<union> set d"
proof (induction ps arbitrary: d)
  case (Cons p ps)
  then show ?case using set_dict_set [of "fst p" "snd p" d] by (fastforce simp: dict_update_def case_prod_unfold)
qed (simp add: dict_update_def)

lemma set_dict_of: "set (dict_of ps) \<subseteq> set ps"
  using set_dict_update [of ps "[]"] by (simp add: dict_of_def)

lemma dict_keys_update: "set (dict_keys (dict_update ps d)) = set (map fst ps) \<union> set (dict_keys d)"
proof (induction ps arbitrary: d)
  case (Cons p ps)
  have "dict_update (p # ps) d = dict_update ps (dict_set (fst p) (snd p) d)"
    by (simp add: dict_update_def case_prod_unfold)
  then have "set (dict_keys (dict_update (p # ps) d)) =
      set (map fst ps) \<union> set (dict_keys (dict_set (fst p) (snd p) d))"
    by (simp only: Cons.IH)
  then show ?case by (simp only: dict_keys_set) simp
qed (simp add: dict_update_def)

lemma dict_keys_of: "set (dict_keys (dict_of ps)) = set (map fst ps)"
  using dict_keys_update [of ps "[]"] by (simp add: dict_of_def)

text \<open>Renaming the keys injectively commutes with building the dict.\<close>

definition retag :: "('k \<Rightarrow> 'l) \<Rightarrow> ('k, 'v) dict \<Rightarrow> ('l, 'v) dict" where
  "retag f d = map (\<lambda>(k, v). (f k, v)) d"

lemma dict_set_retag: "inj f \<Longrightarrow> dict_set (f k) v (retag f d) = retag f (dict_set k v d)"
  by (induction d) (auto simp: retag_def inj_eq)

lemma dict_of_retag: "inj f \<Longrightarrow> dict_of (retag f ps) = retag f (dict_of ps)"
proof -
  assume f: "inj f"
  have "dict_update (retag f ps) (retag f d) = retag f (dict_update ps d)" for d
  proof (induction ps arbitrary: d)
    case (Cons p ps)
    have "dict_update (retag f (p # ps)) (retag f d) =
        dict_update (retag f ps) (retag f (dict_set (fst p) (snd p) d))"
      unfolding dict_set_retag [OF f, symmetric]
      by (simp add: dict_update_def retag_def case_prod_unfold)
    then show ?case unfolding Cons by (simp add: dict_update_def case_prod_unfold)
  qed (simp add: dict_update_def retag_def)
  from this [of "[]"] show ?thesis by (simp add: dict_of_def retag_def)
qed

lemma set_dedup [simp]: "set (dedup xs) = set xs"
  by (simp add: dedup_def)

lemma distinct_dedup [simp]: "distinct (dedup xs)"
  by (simp add: dedup_def)

lemma dedup_distinct: "distinct xs \<Longrightarrow> dedup xs = xs"
  by (simp add: dedup_def distinct_remdups_id)

section \<open>Python values\<close>

datatype pyfloat = Finite rat | PosInf | NegInf | NaN

text \<open>
  A value of the type \<open>object\<close>: what JSON documents, error details and recorded interfaces are made
  of. \<open>PProxy\<close> is a \<open>MappingProxyType\<close> view, \<open>POther\<close> any object of another type, by type name.
\<close>

datatype pyobj =
    PNone
  | PBool bool
  | PInt int
  | PFloat pyfloat
  | PStr string
  | PList "pyobj list"
  | PTuple "pyobj list"
  | PDict "(pyobj \<times> pyobj) list"
  | PProxy "(pyobj \<times> pyobj) list"
  | POther string

definition pdict :: "(string, pyobj) dict \<Rightarrow> pyobj" where
  "pdict d = PDict (map (\<lambda>(k, v). (PStr k, v)) d)"

definition pstr_opt :: "string option \<Rightarrow> pyobj" where
  "pstr_opt s = (case s of None \<Rightarrow> PNone | Some t \<Rightarrow> PStr t)"

definition pint_opt :: "int option \<Rightarrow> pyobj" where
  "pint_opt s = (case s of None \<Rightarrow> PNone | Some t \<Rightarrow> PInt t)"

text \<open>The items of a value that is a \<open>Mapping\<close>, and the lookup \<open>value.get(key)\<close>.\<close>

fun mapping_items :: "pyobj \<Rightarrow> (pyobj \<times> pyobj) list option" where
  "mapping_items (PDict d) = Some d"
| "mapping_items (PProxy d) = Some d"
| "mapping_items _ = None"

fun is_mapping :: "pyobj \<Rightarrow> bool" where
  "is_mapping (PDict d) = True"
| "is_mapping (PProxy d) = True"
| "is_mapping _ = False"

definition mapping_get :: "pyobj \<Rightarrow> string \<Rightarrow> pyobj option" where
  "mapping_get v k = (case mapping_items v of None \<Rightarrow> None | Some d \<Rightarrow> map_of d (PStr k))"

text \<open>
  Python's \<open>==\<close>: numbers compare by value across bool, int and float, a list never equals a tuple,
  mappings ignore the order of their items.
\<close>

fun num_value :: "pyobj \<Rightarrow> rat option" where
  "num_value (PBool b) = Some (if b then 1 else 0)"
| "num_value (PInt i) = Some (of_int i)"
| "num_value (PFloat (Finite q)) = Some q"
| "num_value _ = None"

fun py_eq :: "pyobj \<Rightarrow> pyobj \<Rightarrow> bool" where
  "py_eq PNone v = (v = PNone)"
| "py_eq (PStr s) v = (v = PStr s)"
| "py_eq (PBool b) v = (num_value v = num_value (PBool b))"
| "py_eq (PInt i) v = (num_value v = num_value (PInt i))"
| "py_eq (PFloat f) v = (case f of
      Finite q \<Rightarrow> num_value v = Some q | PosInf \<Rightarrow> v = PFloat PosInf | NegInf \<Rightarrow> v = PFloat NegInf
    | NaN \<Rightarrow> False)"
| "py_eq (PList a) v = (case v of PList b \<Rightarrow> list_all2 py_eq a b | _ \<Rightarrow> False)"
| "py_eq (PTuple a) v = (case v of PTuple b \<Rightarrow> list_all2 py_eq a b | _ \<Rightarrow> False)"
| "py_eq (PDict a) v = (case mapping_items v of None \<Rightarrow> False | Some b \<Rightarrow>
      length a = length b \<and>
      (\<forall>p \<in> set a. \<exists>q \<in> set b. py_eq (fst p) (fst q) \<and> py_eq (snd p) (snd q)))"
| "py_eq (PProxy a) v = (case mapping_items v of None \<Rightarrow> False | Some b \<Rightarrow>
      length a = length b \<and>
      (\<forall>p \<in> set a. \<exists>q \<in> set b. py_eq (fst p) (fst q) \<and> py_eq (snd p) (snd q)))"
| "py_eq (POther s) v = (v = POther s)"

text \<open>No float of the value is NaN, the one value Python does not find equal to itself.\<close>

fun nan_free :: "pyobj \<Rightarrow> bool" where
  "nan_free (PFloat f) = (f \<noteq> NaN)"
| "nan_free (PList a) = (\<forall>v \<in> set a. nan_free v)"
| "nan_free (PTuple a) = (\<forall>v \<in> set a. nan_free v)"
| "nan_free (PDict a) = (\<forall>p \<in> set a. nan_free (fst p) \<and> nan_free (snd p))"
| "nan_free (PProxy a) = (\<forall>p \<in> set a. nan_free (fst p) \<and> nan_free (snd p))"
| "nan_free _ = True"

lemma py_eq_refl: "nan_free v \<Longrightarrow> py_eq v v"
proof (induction v rule: nan_free.induct)
  case (1 f)
  then show ?case by (cases f) auto
next
  case (2 a)
  then show ?case by (auto intro!: list.rel_refl_strong)
next
  case (3 a)
  then show ?case by (auto intro!: list.rel_refl_strong)
next
  case (4 a)
  then have "\<forall>p \<in> set a. py_eq (fst p) (fst p) \<and> py_eq (snd p) (snd p)" by simp
  then have "\<forall>p \<in> set a. \<exists>q \<in> set a. py_eq (fst p) (fst q) \<and> py_eq (snd p) (snd q)" by blast
  then show ?case by (simp only: py_eq.simps mapping_items.simps option.case)
next
  case (5 a)
  then have "\<forall>p \<in> set a. py_eq (fst p) (fst p) \<and> py_eq (snd p) (snd p)" by simp
  then have "\<forall>p \<in> set a. \<exists>q \<in> set a. py_eq (fst p) (fst q) \<and> py_eq (snd p) (snd q)" by blast
  then show ?case by (simp only: py_eq.simps mapping_items.simps option.case)
qed auto

section \<open>Exceptions\<close>

text \<open>
  \<open>NslabError\<close> carries a code, a message and mutable details; \<open>OperationCancelled\<close> is its subclass
  with the code \<open>OPERATION_CANCELLED\<close>; \<open>PyError\<close> is any other subclass of \<open>Exception\<close>, by type
  name, text and \<open>errno\<close> where it has one. \<open>KeyboardInterrupt\<close> is no \<open>Exception\<close>. The last two
  carry the notes \<open>add_note\<close> appends, as the key and value each note renders.
\<close>

datatype exc =
    NslabError (err_code: string) (err_message: string) (err_details: "(string, pyobj) dict")
  | OperationCancelled (err_message: string) (err_details: "(string, pyobj) dict")
  | PyError (err_type: string) (err_message: string) (err_errno: "int option")
      (err_notes: "(string \<times> pyobj) list")
  | KeyboardInterrupt (err_notes: "(string \<times> pyobj) list")

definition value_error :: "string \<Rightarrow> exc" where
  "value_error msg = PyError ''ValueError'' msg None []"

definition key_error :: "string \<Rightarrow> exc" where
  "key_error msg = PyError ''KeyError'' msg None []"

definition assertion_error :: exc where
  "assertion_error = PyError ''AssertionError'' [] None []"

definition os_error :: "string \<Rightarrow> string \<Rightarrow> int \<Rightarrow> exc" where
  "os_error t msg n = PyError t msg (Some n) []"

fun is_nslab_error :: "exc \<Rightarrow> bool" where
  "is_nslab_error (NslabError c m d) = True"
| "is_nslab_error (OperationCancelled m d) = True"
| "is_nslab_error _ = False"

fun is_cancelled :: "exc \<Rightarrow> bool" where
  "is_cancelled (OperationCancelled m d) = True"
| "is_cancelled _ = False"

fun is_interrupt :: "exc \<Rightarrow> bool" where
  "is_interrupt (KeyboardInterrupt n) = True"
| "is_interrupt _ = False"

fun code_of :: "exc \<Rightarrow> string" where
  "code_of (NslabError c m d) = c"
| "code_of (OperationCancelled m d) = ''OPERATION_CANCELLED''"
| "code_of _ = []"

section \<open>Pure code that may raise\<close>

type_synonym 'a res = "exc + 'a"

definition res_bind :: "'a res \<Rightarrow> ('a \<Rightarrow> 'b res) \<Rightarrow> 'b res" where
  "res_bind r f = (case r of Inl e \<Rightarrow> Inl e | Inr x \<Rightarrow> f x)"

fun res_map :: "('a \<Rightarrow> 'b res) \<Rightarrow> 'a list \<Rightarrow> 'b list res" where
  "res_map f [] = Inr []"
| "res_map f (x # xs) = res_bind (f x) (\<lambda>y. res_bind (res_map f xs) (\<lambda>ys. Inr (y # ys)))"

fun res_fold :: "('a \<Rightarrow> 'b \<Rightarrow> 'b res) \<Rightarrow> 'a list \<Rightarrow> 'b \<Rightarrow> 'b res" where
  "res_fold f [] b = Inr b"
| "res_fold f (x # xs) b = res_bind (f x b) (res_fold f xs)"

text \<open>\<open>for x in xs: if not test(x): return False\<close> followed by \<open>return True\<close>.\<close>

fun res_all :: "('a \<Rightarrow> bool res) \<Rightarrow> 'a list \<Rightarrow> bool res" where
  "res_all f [] = Inr True"
| "res_all f (x # xs) = res_bind (f x) (\<lambda>b. if b then res_all f xs else Inr False)"

definition res_assert :: "bool \<Rightarrow> exc \<Rightarrow> unit res" where
  "res_assert b e = (if b then Inr () else Inl e)"

definition res_of_option :: "exc \<Rightarrow> 'a option \<Rightarrow> 'a res" where
  "res_of_option e v = (case v of None \<Rightarrow> Inl e | Some x \<Rightarrow> Inr x)"

lemma res_bind_Inr [simp]: "res_bind (Inr x) f = f x"
  and res_bind_Inl [simp]: "res_bind (Inl e) f = Inl e"
  by (simp_all add: res_bind_def)

lemma res_bind_eq_Inr [res_simps]: "res_bind r f = Inr y \<longleftrightarrow> (\<exists>x. r = Inr x \<and> f x = Inr y)"
  by (cases r) auto

lemma res_bind_eq_Inl [res_simps]:
  "res_bind r f = Inl e \<longleftrightarrow> r = Inl e \<or> (\<exists>x. r = Inr x \<and> f x = Inl e)"
  by (cases r) auto

lemma res_assert_simps [simp]: "res_assert True e = Inr ()" "res_assert False e = Inl e"
  by (simp_all add: res_assert_def)

lemma res_of_option_simps [simp]:
  "res_of_option e (Some x) = Inr x" "res_of_option e None = Inl e"
  by (simp_all add: res_of_option_def)

lemma res_of_option_eq_Inr [res_simps]: "res_of_option e v = Inr x \<longleftrightarrow> v = Some x"
  by (cases v) auto

lemma res_map_all: "(\<And>x. x \<in> set xs \<Longrightarrow> f x = Inr (g x)) \<Longrightarrow> res_map f xs = Inr (map g xs)"
  by (induction xs) auto

lemma res_all_True: "(\<And>x. x \<in> set xs \<Longrightarrow> f x = Inr True) \<Longrightarrow> res_all f xs = Inr True"
  by (induction xs) auto

lemma res_all_TrueD: "res_all f xs = Inr True \<Longrightarrow> x \<in> set xs \<Longrightarrow> f x = Inr True"
  by (induction xs) (auto simp: res_bind_eq_Inr split: if_splits)

section \<open>Effectful code that may raise\<close>

text \<open>
  A call takes the state of the world and returns its outcome, an exception or a value, with the
  world it leaves behind: the effects made before a raise remain.
\<close>

type_synonym ('w, 'a) io = "'w \<Rightarrow> 'a res \<times> 'w"

definition io_return :: "'a \<Rightarrow> ('w, 'a) io" where
  "io_return x w = (Inr x, w)"

definition io_raise :: "exc \<Rightarrow> ('w, 'a) io" where
  "io_raise e w = (Inl e, w)"

definition io_bind :: "('w, 'a) io \<Rightarrow> ('a \<Rightarrow> ('w, 'b) io) \<Rightarrow> ('w, 'b) io" where
  "io_bind m f w = (case m w of (r, w') \<Rightarrow> (case r of Inl e \<Rightarrow> (Inl e, w') | Inr x \<Rightarrow> f x w'))"

definition io_seq :: "('w, 'a) io \<Rightarrow> ('w, 'b) io \<Rightarrow> ('w, 'b) io" where
  "io_seq m n = io_bind m (\<lambda>_. n)"

text \<open>\<open>try: m\<close> with the handlers written as a case split on the outcome.\<close>

definition io_attempt :: "('w, 'a) io \<Rightarrow> ('w, 'a res) io" where
  "io_attempt m w = (case m w of (r, w') \<Rightarrow> (Inr r, w'))"

definition io_lift :: "'a res \<Rightarrow> ('w, 'a) io" where
  "io_lift r w = (r, w)"

definition io_get :: "('w \<Rightarrow> 'a) \<Rightarrow> ('w, 'a) io" where
  "io_get f w = (Inr (f w), w)"

definition io_modify :: "('w \<Rightarrow> 'w) \<Rightarrow> ('w, unit) io" where
  "io_modify f w = (Inr (), f w)"

fun io_for :: "('a \<Rightarrow> ('w, unit) io) \<Rightarrow> 'a list \<Rightarrow> ('w, unit) io" where
  "io_for f [] = io_return ()"
| "io_for f (x # xs) = io_seq (f x) (io_for f xs)"

fun io_fold :: "('a \<Rightarrow> 'b \<Rightarrow> ('w, 'b) io) \<Rightarrow> 'a list \<Rightarrow> 'b \<Rightarrow> ('w, 'b) io" where
  "io_fold f [] b = io_return b"
| "io_fold f (x # xs) b = io_bind (f x b) (io_fold f xs)"

lemma io_return_app [simp]: "io_return x w = (Inr x, w)"
  and io_raise_app [simp]: "io_raise e w = (Inl e, w)"
  and io_lift_app [simp]: "io_lift r w = (r, w)"
  and io_get_app [simp]: "io_get f w = (Inr (f w), w)"
  and io_modify_app [simp]: "io_modify g w = (Inr (), g w)"
  by (simp_all add: io_return_def io_raise_def io_lift_def io_get_def io_modify_def)

lemma io_bind_Inr [io_simps]: "m w = (Inr x, w') \<Longrightarrow> io_bind m f w = f x w'"
  and io_bind_Inl [io_simps]: "m w = (Inl e, w') \<Longrightarrow> io_bind m f w = (Inl e, w')"
  by (simp_all add: io_bind_def)

lemma io_seq_Inr [io_simps]: "m w = (Inr x, w') \<Longrightarrow> io_seq m n w = n w'"
  and io_seq_Inl [io_simps]: "m w = (Inl e, w') \<Longrightarrow> io_seq m n w = (Inl e, w')"
  by (simp_all add: io_seq_def io_bind_def)

lemma io_attempt_app [io_simps]: "io_attempt m w = (Inr (fst (m w)), snd (m w))"
  by (simp add: io_attempt_def split: prod.split)

lemma io_bind_cases:
  assumes "io_bind m f w = (r, w'')"
  obtains (raised) e where "m w = (Inl e, w'')" and "r = Inl e"
  | (returned) x w' where "m w = (Inr x, w')" and "f x w' = (r, w'')"
  using assms by (auto simp: io_bind_def split: prod.splits sum.splits)

lemma io_seq_cases:
  assumes "io_seq m n w = (r, w'')"
  obtains (raised) e where "m w = (Inl e, w'')" and "r = Inl e"
  | (returned) x w' where "m w = (Inr x, w')" and "n w' = (r, w'')"
  using assms by (auto simp: io_seq_def io_bind_def split: prod.splits sum.splits)

text \<open>
  \<open>io_keeps P m\<close>: whatever the outcome of \<open>m\<close>, it keeps \<open>P\<close> of the world. The rules follow the
  way code is composed, so a frame property of a composed operation is one of its parts.
\<close>

definition io_keeps :: "('w \<Rightarrow> bool) \<Rightarrow> ('w, 'a) io \<Rightarrow> bool" where
  "io_keeps P m \<longleftrightarrow> (\<forall>w. P w \<longrightarrow> P (snd (m w)))"

lemma io_keepsD: "io_keeps P m \<Longrightarrow> P w \<Longrightarrow> m w = (r, w') \<Longrightarrow> P w'"
  by (auto simp: io_keeps_def dest!: spec [of _ w])

lemma io_keeps_return [intro, simp]: "io_keeps P (io_return x)"
  and io_keeps_raise [intro, simp]: "io_keeps P (io_raise e)"
  and io_keeps_lift [intro, simp]: "io_keeps P (io_lift r)"
  and io_keeps_get [intro, simp]: "io_keeps P (io_get f)"
  by (simp_all add: io_keeps_def)

lemma io_keeps_bind [intro]:
  "io_keeps P m \<Longrightarrow> (\<And>x. io_keeps P (f x)) \<Longrightarrow> io_keeps P (io_bind m f)"
  unfolding io_keeps_def io_bind_def by (fastforce split: prod.split sum.split)

lemma io_keeps_seq [intro]: "io_keeps P m \<Longrightarrow> io_keeps P n \<Longrightarrow> io_keeps P (io_seq m n)"
  unfolding io_seq_def by (rule io_keeps_bind)

lemma io_keeps_attempt [intro]: "io_keeps P m \<Longrightarrow> io_keeps P (io_attempt m)"
  by (simp add: io_keeps_def io_attempt_app)

lemma io_keeps_for [intro]: "(\<And>x. x \<in> set xs \<Longrightarrow> io_keeps P (f x)) \<Longrightarrow> io_keeps P (io_for f xs)"
  by (induction xs) auto

lemma io_keeps_fold [intro]:
  "(\<And>x b. x \<in> set xs \<Longrightarrow> io_keeps P (f x b)) \<Longrightarrow> io_keeps P (io_fold f xs b)"
  by (induction xs arbitrary: b) auto

text \<open>
  \<open>io_wp m Q E w\<close>: run from \<open>w\<close>, \<open>m\<close> returns a value and a world with \<open>Q\<close> or raises an exception
  with \<open>E\<close>. The equations compute it along the structure of the code.
\<close>

definition io_wp :: "('w, 'a) io \<Rightarrow> ('a \<Rightarrow> 'w \<Rightarrow> bool) \<Rightarrow> (exc \<Rightarrow> 'w \<Rightarrow> bool) \<Rightarrow> 'w \<Rightarrow> bool" where
  "io_wp m Q E w = (case m w of (r, w') \<Rightarrow> (case r of Inl e \<Rightarrow> E e w' | Inr x \<Rightarrow> Q x w'))"

named_theorems wp_simps \<open>equations of the weakest precondition\<close>

lemma io_wp_return [wp_simps]: "io_wp (io_return x) Q E = Q x"
  and io_wp_raise [wp_simps]: "io_wp (io_raise e) Q E = E e"
  and io_wp_lift [wp_simps]: "io_wp (io_lift r) Q E = (case r of Inl e \<Rightarrow> E e | Inr x \<Rightarrow> Q x)"
  and io_wp_get [wp_simps]: "io_wp (io_get f) Q E = (\<lambda>w. Q (f w) w)"
  by (auto simp: io_wp_def fun_eq_iff split: sum.split)

lemma io_wp_modify [wp_simps]: "io_wp (io_modify g) Q E = (\<lambda>w. Q () (g w))"
  by (simp add: io_wp_def fun_eq_iff)

lemma io_wp_bind [wp_simps]:
  "io_wp (io_bind m f) Q E = io_wp m (\<lambda>x. io_wp (f x) Q E) E"
  by (auto simp: io_wp_def io_bind_def fun_eq_iff split: prod.splits sum.splits)

lemma io_wp_seq [wp_simps]: "io_wp (io_seq m n) Q E = io_wp m (\<lambda>_. io_wp n Q E) E"
  by (simp add: io_seq_def io_wp_bind)

lemma io_wp_attempt [wp_simps]:
  "io_wp (io_attempt m) Q E = io_wp m (\<lambda>x. Q (Inr x)) (\<lambda>e. Q (Inl e))"
  by (auto simp: io_wp_def io_attempt_def fun_eq_iff split: prod.splits sum.splits)

lemma io_wp_mono:
  assumes "io_wp m Q E w" and "\<And>x w'. Q x w' \<Longrightarrow> Q' x w'" and "\<And>e w'. E e w' \<Longrightarrow> E' e w'"
  shows "io_wp m Q' E' w"
  using assms by (auto simp: io_wp_def split: prod.splits sum.splits)

lemma io_wp_conj:
  "io_wp m Q E w \<Longrightarrow> io_wp m Q' E' w \<Longrightarrow>
   io_wp m (\<lambda>x w'. Q x w' \<and> Q' x w') (\<lambda>e w'. E e w' \<and> E' e w') w"
  by (auto simp: io_wp_def split: prod.splits sum.splits)

lemma io_wpI:
  "(\<And>x w'. m w = (Inr x, w') \<Longrightarrow> Q x w') \<Longrightarrow> (\<And>e w'. m w = (Inl e, w') \<Longrightarrow> E e w') \<Longrightarrow> io_wp m Q E w"
  by (auto simp: io_wp_def split: prod.splits sum.splits)

lemma io_wp_InrD: "io_wp m Q E w \<Longrightarrow> m w = (Inr x, w') \<Longrightarrow> Q x w'"
  and io_wp_InlD: "io_wp m Q E w \<Longrightarrow> m w = (Inl e, w') \<Longrightarrow> E e w'"
  by (simp_all add: io_wp_def)

lemma io_wp_run: "io_wp m Q E w \<Longrightarrow> case fst (m w) of Inl e \<Rightarrow> E e (snd (m w)) | Inr x \<Rightarrow> Q x (snd (m w))"
  by (cases "m w") (auto simp: io_wp_def split: sum.splits)

lemma io_keeps_wp: "io_keeps P m \<Longrightarrow> P w \<Longrightarrow> io_wp m (\<lambda>_. P) (\<lambda>_. P) w"
  by (auto simp: io_keeps_def io_wp_def split: prod.splits sum.splits dest!: spec [of _ w])

end
