(* ===== verification/Tc.thy ===== *)
theory Tc
  imports Text
begin

text \<open>
  \<open>src/nslab/tc.py\<close>: the tc rates and sizes of a manifest. A rate is a text such as \<open>10mbit\<close> that
  is normalised to the largest unit that divides it; a size is a number of bytes or a text such as
  \<open>32kb\<close>. The lemmas show that a printed rate or size reads back as the same number.
\<close>

definition rate_units :: "(string, int) dict" where
  "rate_units = [(''bit'', 1), (''kbit'', 1000), (''mbit'', 1000000), (''gbit'', 1000000000)]"

definition size_units :: "(string, int) dict" where
  "size_units = [(''b'', 1), (''k'', 1024), (''kb'', 1024), (''m'', 1048576), (''mb'', 1048576),
     (''g'', 1073741824), (''gb'', 1073741824)]"

definition max_rate_bytes_per_second :: int where
  "max_rate_bytes_per_second = 4294967295"

definition max_size_bytes :: int where
  "max_size_bytes = 4294967295"

text \<open>
  \<open>_RATE_PATTERN.fullmatch\<close> and \<open>_SIZE_PATTERN.fullmatch\<close>: a non-empty run of ASCII digits and a
  unit in any case, as the pair of the two groups.
\<close>

definition match_quantity :: "(string, int) dict \<Rightarrow> string \<Rightarrow> (string \<times> string) option" where
  "match_quantity units s =
     (let digits = takeWhile is_digit s; unit = dropWhile is_digit s
      in if digits \<noteq> [] \<and> lower unit \<in> set (dict_keys units) then Some (digits, unit) else None)"

text \<open>The first unit of a list that divides a number, with the quotient printed before it.\<close>

fun format_in_units :: "(string \<times> int) list \<Rightarrow> int \<Rightarrow> string option" where
  "format_in_units [] n = None"
| "format_in_units ((unit, multiplier) # us) n =
     (if n mod multiplier = 0 then Some (show_int (n div multiplier) @ unit)
      else format_in_units us n)"

definition rate_format_units :: "(string \<times> int) list" where
  "rate_format_units = [(''gbit'', 1000000000), (''mbit'', 1000000), (''kbit'', 1000), (''bit'', 1)]"

definition size_format_units :: "(string \<times> int) list" where
  "size_format_units = [(''gb'', 1073741824), (''mb'', 1048576), (''kb'', 1024), (''b'', 1)]"

definition format_rate_bytes :: "int \<Rightarrow> string res" where
  "format_rate_bytes bytes_per_second =
     (case format_in_units rate_format_units (bytes_per_second * 8) of
        Some s \<Rightarrow> Inr s
      | None \<Rightarrow> Inl (value_error
          ''rate cannot be represented as a whole number of bits per second''))"

definition normalize_rate :: "pyobj \<Rightarrow> string res" where
  "normalize_rate v = (case v of
      PStr s \<Rightarrow>
        (case match_quantity rate_units (strip s) of
           None \<Rightarrow> Inl (value_error (''rate must match '<integer>(bit|kbit|mbit|gbit)'' @ [CHR 0x27]))
         | Some (digits, unit) \<Rightarrow>
             res_bind (py_int digits) (\<lambda>amount.
             res_bind (res_of_option (key_error unit) (dict_get rate_units (lower unit))) (\<lambda>factor.
             let bits_per_second = amount * factor in
             if bits_per_second < 8 \<or> bits_per_second mod 8 \<noteq> 0
             then Inl (value_error
               ''rate must be at least 8bit and represent a whole number of bytes'')
             else let bytes_per_second = bits_per_second div 8 in
             if bytes_per_second > max_rate_bytes_per_second
             then Inl (value_error ''rate is too large for the supported tc netlink attributes'')
             else format_rate_bytes bytes_per_second)))
    | _ \<Rightarrow> Inl (value_error (''rate must be a string such as '10mbit'' @ [CHR 0x27])))"

definition rate_to_bytes_per_second :: "string \<Rightarrow> int res" where
  "rate_to_bytes_per_second text =
     res_bind (normalize_rate (PStr text)) (\<lambda>canonical.
     case match_quantity rate_units canonical of
       None \<Rightarrow> Inl assertion_error
     | Some (digits, unit) \<Rightarrow>
         res_bind (py_int digits) (\<lambda>amount.
         res_bind (res_of_option (key_error unit) (dict_get rate_units unit)) (\<lambda>factor.
         Inr (amount * factor div 8))))"

definition format_rate :: "pyobj \<Rightarrow> string res" where
  "format_rate v = (case v of
      PInt bytes_per_second \<Rightarrow>
        if 0 < bytes_per_second \<and> bytes_per_second \<le> max_rate_bytes_per_second
        then format_rate_bytes bytes_per_second
        else Inl (value_error ''kernel rate is outside the supported range'')
    | _ \<Rightarrow> Inl (value_error ''kernel rate is outside the supported range''))"

definition parse_size :: "pyobj \<Rightarrow> int res" where
  "parse_size v =
     res_bind
       (case v of
          PInt n \<Rightarrow> Inr n
        | PStr s \<Rightarrow>
            (case match_quantity size_units (strip s) of
               None \<Rightarrow> Inl (value_error ''size must be an integer or use b/kb/mb/gb'')
             | Some (digits, unit) \<Rightarrow>
                 res_bind (py_int digits) (\<lambda>amount.
                 res_bind (res_of_option (key_error unit) (dict_get size_units (lower unit)))
                   (\<lambda>factor. Inr (amount * factor))))
        | _ \<Rightarrow> Inl (value_error ''size must be an integer or use b/kb/mb/gb''))
       (\<lambda>amount.
          if amount \<le> 0 \<or> amount > max_size_bytes
          then Inl (value_error ''size must be in the range 1..4294967295 bytes'')
          else Inr amount)"

definition format_size :: "pyobj \<Rightarrow> string res" where
  "format_size v = (case v of
      PInt n \<Rightarrow>
        if n \<le> 0 then Inl (value_error ''size must be a positive integer'')
        else (case format_in_units size_format_units n of
            Some s \<Rightarrow> Inr s
          | None \<Rightarrow> Inl (value_error ''size cannot be represented''))
    | _ \<Rightarrow> Inl (value_error ''size must be a positive integer''))"

subsection \<open>Printing and reading a quantity\<close>

text \<open>A unit suffix: non-empty, no digit, already in lower case.\<close>

definition unit_suffix :: "string \<Rightarrow> bool" where
  "unit_suffix u \<longleftrightarrow> u \<noteq> [] \<and> \<not> is_digit (hd u) \<and> lower u = u \<and> \<not> is_space (last u)"

lemma format_in_units_find:
  "format_in_units us n =
     map_option (\<lambda>(u, m). show_int (n div m) @ u) (find (\<lambda>(u, m). n mod m = 0) us)"
  by (induction us n rule: format_in_units.induct) auto

lemma format_in_units_Some:
  assumes "format_in_units us n = Some s"
  obtains u m where "(u, m) \<in> set us" and "n mod m = 0" and "s = show_int (n div m) @ u"
proof -
  obtain u m where *: "find (\<lambda>(u, m). n mod m = 0) us = Some (u, m)" "s = show_int (n div m) @ u"
    using assms by (auto simp: format_in_units_find)
  then obtain i where "i < length us" "(u, m) = us ! i" "n mod m = 0"
    by (fastforce simp: find_Some_iff)
  with *(2) show thesis by (metis nth_mem that)
qed

lemma format_in_units_total: "(u, 1) \<in> set us \<Longrightarrow> \<exists>s. format_in_units us n = Some s"
  by (induction us n rule: format_in_units.induct) auto

lemma show_int_nonneg: "0 \<le> i \<Longrightarrow> show_int i = show_nat (nat i)"
  by (simp add: show_int_def)

lemma match_quantity_show:
  assumes "0 \<le> q" and "unit_suffix u" and "u \<in> set (dict_keys units)"
  shows "match_quantity units (show_int q @ u) = Some (show_int q, u)"
proof -
  have "takeWhile is_digit (show_int q @ u) = show_int q \<and> dropWhile is_digit (show_int q @ u) = u"
    using assms(1,2)
    by (intro takeWhile_all_append) (auto simp: show_int_nonneg show_nat_digits unit_suffix_def)
  then show ?thesis
    using assms by (simp add: match_quantity_def show_int_nonneg unit_suffix_def)
qed

lemma strip_show:
  assumes "0 \<le> q" and "unit_suffix u"
  shows "strip (show_int q @ u) = show_int q @ u"
proof (rule strip_id)
  have "list_all is_digit (show_int q)" "show_int q \<noteq> []"
    using assms(1) by (simp_all add: show_int_nonneg show_nat_digits)
  then show "show_int q @ u = [] \<or> \<not> is_space (hd (show_int q @ u))"
    by (cases "show_int q") (auto simp: is_digit_not_space)
  show "show_int q @ u = [] \<or> \<not> is_space (last (show_int q @ u))"
    using assms(2) by (simp add: unit_suffix_def)
qed

lemma py_int_show_int: "0 \<le> q \<Longrightarrow> q < 10 ^ 20 \<Longrightarrow> py_int (show_int q) = Inr q"
proof -
  assume q: "0 \<le> q" "q < 10 ^ 20"
  then have "nat q < 10 ^ 20" by (simp add: nat_less_iff)
  with q show ?thesis by (simp add: show_int_nonneg py_int_show_nat)
qed

lemma rate_format_unit_suffix:
  "(u, m) \<in> set rate_format_units \<Longrightarrow>
     unit_suffix u \<and> u \<in> set (dict_keys rate_units) \<and> dict_get rate_units u = Some m \<and> 0 < m"
proof -
  have "list_all (\<lambda>(u, m). unit_suffix u \<and> u \<in> set (dict_keys rate_units) \<and>
      dict_get rate_units u = Some m \<and> 0 < m) rate_format_units"
    by code_simp
  moreover assume "(u, m) \<in> set rate_format_units"
  ultimately show ?thesis by (auto simp: list_all_iff)
qed

lemma size_format_unit_suffix:
  "(u, m) \<in> set size_format_units \<Longrightarrow>
     unit_suffix u \<and> u \<in> set (dict_keys size_units) \<and> dict_get size_units u = Some m \<and> 0 < m"
proof -
  have "list_all (\<lambda>(u, m). unit_suffix u \<and> u \<in> set (dict_keys size_units) \<and>
      dict_get size_units u = Some m \<and> 0 < m) size_format_units"
    by code_simp
  moreover assume "(u, m) \<in> set size_format_units"
  ultimately show ?thesis by (auto simp: list_all_iff)
qed

lemma quotient_bound: "0 < (m::int) \<Longrightarrow> 0 \<le> n \<Longrightarrow> n < 10 ^ 20 \<Longrightarrow> 0 \<le> n div m \<and> n div m < 10 ^ 20"
  by (metis div_by_1 int_one_le_iff_zero_less le_less_trans pos_imp_zdiv_nonneg_iff zdiv_mono2 zero_less_one)

lemma format_rate_bytes_reads:
  assumes "0 < b" and "b \<le> max_rate_bytes_per_second"
  obtains q u m where "format_rate_bytes b = Inr (show_int q @ u)" and "0 \<le> q" and "q < 10 ^ 20"
    and "q * m = b * 8" and "unit_suffix u" and "u \<in> set (dict_keys rate_units)"
    and "dict_get rate_units u = Some m"
proof -
  obtain s where s: "format_in_units rate_format_units (b * 8) = Some s"
    using format_in_units_total [of "''bit''" rate_format_units] by (auto simp: rate_format_units_def)
  obtain u m where um: "(u, m) \<in> set rate_format_units" "b * 8 mod m = 0"
      "s = show_int (b * 8 div m) @ u"
    by (rule format_in_units_Some [OF s])
  have "0 \<le> b * 8 div m \<and> b * 8 div m < 10 ^ 20"
    using assms rate_format_unit_suffix [OF um(1)]
    by (intro quotient_bound) (auto simp: max_rate_bytes_per_second_def)
  moreover have "b * 8 div m * m = b * 8" using um(2) by auto
  ultimately show thesis
    using that [of "b * 8 div m" u m] s um rate_format_unit_suffix [OF um(1)]
    by (simp add: format_rate_bytes_def)
qed

text \<open>What a printed rate reads back as.\<close>

lemma normalize_shown:
  assumes "0 \<le> q" and "q < 10 ^ 20" and "unit_suffix u" and "dict_get rate_units u = Some m"
    and "q * m = b * 8" and "0 < b" and "b \<le> max_rate_bytes_per_second"
  shows "normalize_rate (PStr (show_int q @ u)) = format_rate_bytes b"
proof -
  from assms(4) have "u \<in> set (dict_keys rate_units)" by (rule dict_get_SomeD [THEN conjunct1])
  moreover from assms(3) have "lower u = u" by (simp add: unit_suffix_def)
  ultimately show ?thesis
    using assms
    by (simp add: normalize_rate_def strip_show match_quantity_show py_int_show_int Let_def
        del: lower_def)
qed

lemma normalize_printed:
  assumes "0 < b" and "b \<le> max_rate_bytes_per_second" and "format_rate_bytes b = Inr s"
  shows "normalize_rate (PStr s) = Inr s"
proof (rule format_rate_bytes_reads [OF assms(1,2)])
  fix q u m
  assume "format_rate_bytes b = Inr (show_int q @ u)" "0 \<le> q" "q < 10 ^ 20" "q * m = b * 8"
    "unit_suffix u" "dict_get rate_units u = Some m"
  with assms show ?thesis using normalize_shown [of q u m b] by simp
qed

lemma printed_rate_to_bytes:
  assumes "0 < b" and "b \<le> max_rate_bytes_per_second" and "format_rate_bytes b = Inr s"
  shows "rate_to_bytes_per_second s = Inr b"
proof (rule format_rate_bytes_reads [OF assms(1,2)])
  fix q u m
  assume *: "format_rate_bytes b = Inr (show_int q @ u)" "0 \<le> q" "q < 10 ^ 20" "q * m = b * 8"
    "unit_suffix u" "u \<in> set (dict_keys rate_units)" "dict_get rate_units u = Some m"
  then have s: "s = show_int q @ u" using assms(3) by simp
  have "match_quantity rate_units s = Some (show_int q, u)"
    unfolding s using * by (intro match_quantity_show)
  with * normalize_printed [OF assms] show ?thesis
    by (simp add: rate_to_bytes_per_second_def py_int_show_int)
qed

lemma normalize_rate_bytes:
  assumes "normalize_rate v = Inr s"
  obtains b where "0 < b" and "b \<le> max_rate_bytes_per_second" and "format_rate_bytes b = Inr s"
proof -
  from assms obtain bits where "8 \<le> bits" "bits div 8 \<le> max_rate_bytes_per_second"
      "format_rate_bytes (bits div 8) = Inr s"
    by (fastforce simp: normalize_rate_def Let_def res_simps not_less
        split: pyobj.splits option.splits if_splits)
  then show thesis using that [of "bits div 8"] by auto
qed

text \<open>
  C15. A rate the manifest accepts is a whole number of bytes per second between 1 and
  \<open>0xFFFFFFFF\<close>; its canonical text is the one the inventory prints for that number, it reads back
  as that number, and normalising it again changes nothing.
\<close>

theorem normalize_rate_canonical:
  assumes "normalize_rate v = Inr s"
  shows "\<exists>b. 0 < b \<and> b \<le> 4294967295 \<and> rate_to_bytes_per_second s = Inr b \<and>
    format_rate (PInt b) = Inr s \<and> normalize_rate (PStr s) = Inr s"
proof -
  from assms obtain b where b: "0 < b" "b \<le> max_rate_bytes_per_second" "format_rate_bytes b = Inr s"
    by (rule normalize_rate_bytes)
  then have "format_rate (PInt b) = Inr s" by (simp add: format_rate_def)
  with b printed_rate_to_bytes [OF b] normalize_printed [OF b] show ?thesis
    by (auto simp: max_rate_bytes_per_second_def)
qed

lemma rate_example: "normalize_rate (PStr '' 1000KBIT '') = Inr ''1mbit''"
  by (simp add: normalize_rate_def strip_def match_quantity_def is_digit_def lower_def lower_char_def
      py_int_def rate_units_def int_max_str_digits_def is_space_def read_nat_def digit_value_def
      max_rate_bytes_per_second_def format_rate_bytes_def rate_format_units_def show_int_def
      show_nat_def show_base.simps digit_char_def char_of_def bit_Suc_0_iff)

theorem normalize_rate_canonical_witness:
  "normalize_rate (PStr '' 1000KBIT '') = Inr ''1mbit'' \<and>
   (\<exists>b. 0 < b \<and> b \<le> 4294967295 \<and> rate_to_bytes_per_second ''1mbit'' = Inr b \<and>
    format_rate (PInt b) = Inr ''1mbit'' \<and> normalize_rate (PStr ''1mbit'') = Inr ''1mbit'')"
  using rate_example normalize_rate_canonical [OF rate_example] by blast

text \<open>
  C16. A byte count printed with the largest binary unit that divides it reads back as the same
  count, for every count the size parser accepts; and a kernel rate printed as text reads back as
  the same number of bytes per second.
\<close>

theorem format_parse_roundtrip:
  assumes "0 < n" and "n \<le> 4294967295"
  shows "(\<exists>s. format_size (PInt n) = Inr s \<and> parse_size (PStr s) = Inr n) \<and>
    (\<exists>r. format_rate (PInt n) = Inr r \<and> rate_to_bytes_per_second r = Inr n)"
proof
  obtain s where s: "format_in_units size_format_units n = Some s"
    using format_in_units_total [of "''b''" size_format_units] by (auto simp: size_format_units_def)
  obtain u m where um: "(u, m) \<in> set size_format_units" "n mod m = 0" "s = show_int (n div m) @ u"
    by (rule format_in_units_Some [OF s])
  note u = size_format_unit_suffix [OF um(1)]
  have q: "0 \<le> n div m \<and> n div m < 10 ^ 20"
    using assms u by (intro quotient_bound) auto
  have "n div m * m = n" using um(2) by auto
  moreover have "lower u = u" using u by (simp add: unit_suffix_def)
  ultimately have "parse_size (PStr s) = Inr n"
    using q u um(3) assms
    by (simp add: parse_size_def strip_show match_quantity_show py_int_show_int max_size_bytes_def)
  with s assms show "\<exists>s. format_size (PInt n) = Inr s \<and> parse_size (PStr s) = Inr n"
    by (auto simp: format_size_def)
next
  have n: "n \<le> max_rate_bytes_per_second" using assms by (simp add: max_rate_bytes_per_second_def)
  obtain r where r: "format_rate_bytes n = Inr r"
    using format_rate_bytes_reads [OF assms(1) n] by metis
  with printed_rate_to_bytes [OF assms(1) n r] assms n
  show "\<exists>r. format_rate (PInt n) = Inr r \<and> rate_to_bytes_per_second r = Inr n"
    by (auto simp: format_rate_def)
qed

theorem format_parse_roundtrip_witness:
  "(\<exists>s. format_size (PInt 32768) = Inr s \<and> parse_size (PStr s) = Inr 32768) \<and>
   (\<exists>r. format_rate (PInt 32768) = Inr r \<and> rate_to_bytes_per_second r = Inr 32768)"
  by (rule format_parse_roundtrip) simp_all

end
