(* ===== verification/Naming.thy ===== *)
theory Naming
  imports Text
begin

text \<open>
  \<open>src/nslab/naming.py\<close>: the namespace of a node and the temporary names of a veth pair. The digest
  \<open>blake2s(identity, digest_size=n).hexdigest()\<close> is a parameter; the lemmas use that its length is
  \<open>2 * n\<close> and, for identities across deployments, that the two identities do not collide.
\<close>

type_synonym blake2s = "string \<Rightarrow> nat \<Rightarrow> string"

definition namespace_identity :: "string \<Rightarrow> string \<Rightarrow> string" where
  "namespace_identity deployment node = deployment @ '':'' @ node"

definition namespace_name :: "blake2s \<Rightarrow> string \<Rightarrow> string \<Rightarrow> string" where
  "namespace_name h deployment node =
     (let identity = deployment @ '':'' @ node; digest = h identity 8
      in ''nslab-'' @ deployment @ ''-'' @ node @ ''-'' @ digest)"

definition temporary_veth_names :: "blake2s \<Rightarrow> string \<Rightarrow> nat \<Rightarrow> string \<times> string" where
  "temporary_veth_names h deployment link_index =
     (let identity = deployment @ '':'' @ show_nat link_index; digest = h identity 5
      in (''nl'' @ digest @ ''a'', ''nl'' @ digest @ ''b''))"

text \<open>Documented behaviour of the digest: a hexadecimal text of two characters per byte.\<close>

definition hex_digest :: "blake2s \<Rightarrow> bool" where
  "hex_digest h \<longleftrightarrow> (\<forall>s n. length (h s n) = 2 * n)"

text \<open>Within a deployment the name alone separates the nodes, whatever the digest.\<close>

lemma namespace_name_inject:
  assumes "hex_digest h"
  shows "namespace_name h d m = namespace_name h d n \<longleftrightarrow> m = n"
proof
  assume "namespace_name h d m = namespace_name h d n"
  then have eq: "(m @ ''-'') @ h (d @ '':'' @ m) 8 = (n @ ''-'') @ h (d @ '':'' @ n) 8"
    by (simp add: namespace_name_def Let_def)
  have "length (h (d @ '':'' @ m) 8) = length (h (d @ '':'' @ n) 8)"
    using assms by (simp add: hex_digest_def)
  from iffD1 [OF append_eq_append_conv [OF disjI2 [OF this]] eq] show "m = n" by simp
qed simp

lemma identity_inject:
  assumes "CHR '':'' \<notin> set d" and "CHR '':'' \<notin> set e" and "d @ '':'' @ m = e @ '':'' @ n"
  shows "d = e \<and> m = n"
proof -
  have "partition_colon (d @ '':'' @ m) = (d, True, m)" using assms(1) by (rule partition_colon_append)
  moreover have "partition_colon (e @ '':'' @ n) = (e, True, n)" using assms(2) by (rule partition_colon_append)
  ultimately have "(d, True, m) = (e, True, n)" unfolding assms(3) by (rule trans [OF sym])
  then show ?thesis by simp
qed


definition zero_digest :: blake2s where
  "zero_digest s n = replicate (2 * n) (CHR ''0'')"

lemma zero_digest_hex: "hex_digest zero_digest"
  by (simp add: hex_digest_def zero_digest_def)


text \<open>
  C18. A temporary veth name fits the 15 characters the kernel allows an interface name, the two
  ends of a link differ, and no end of a link is the other end of another one.
\<close>

theorem temporary_veth_names_fit:
  assumes "hex_digest h"
  shows "length (fst (temporary_veth_names h d i)) = 13 \<and>
    length (snd (temporary_veth_names h d i)) = 13 \<and>
    fst (temporary_veth_names h d i) \<noteq> snd (temporary_veth_names h e j)"
  using assms by (auto simp: temporary_veth_names_def hex_digest_def Let_def)

theorem temporary_veth_names_fit_witness:
  "length (fst (temporary_veth_names zero_digest ''lab'' 7)) = 13 \<and>
   length (snd (temporary_veth_names zero_digest ''lab'' 7)) = 13 \<and>
   fst (temporary_veth_names zero_digest ''lab'' 7) \<noteq> snd (temporary_veth_names zero_digest ''lab'' 8)"
  by (rule temporary_veth_names_fit [OF zero_digest_hex])

end
