(* ===== verification/Ip_Address.thy ===== *)
theory Ip_Address
  imports Text "HOL-Library.Word"
begin

unbundle bit_operations_syntax

text \<open>
  What the program uses of Python's \<open>ipaddress\<close>: addresses of both versions, interfaces (an address
  with a prefix length), networks, the network of an interface, membership, and the printed form. An
  IPv6 address may carry a scope id, which comparison includes and masking drops.
\<close>

type_synonym ipv4 = "32 word"

datatype ip_address =
    IPv4Address ipv4
  | IPv6Address "128 word" "string option"

datatype ip_interface = IPInterface (if_ip: ip_address) (if_prefixlen: nat)

datatype ip_network = IPNetwork (net_address: ip_address) (net_prefixlen: nat)

fun ip_version :: "ip_address \<Rightarrow> int" where
  "ip_version (IPv4Address w) = 4"
| "ip_version (IPv6Address w s) = 6"

definition if_version :: "ip_interface \<Rightarrow> int" where
  "if_version i = ip_version (if_ip i)"

definition net_version :: "ip_network \<Rightarrow> int" where
  "net_version n = ip_version (net_address n)"

text \<open>The mask of the \<open>p\<close> leading bits.\<close>

definition netmask :: "nat \<Rightarrow> 'a::len word" where
  "netmask p = push_bit (LENGTH('a) - p) (- 1)"

text \<open>\<open>interface.network\<close>: \<open>IPv4Network\<close> or \<open>IPv6Network\<close> with \<open>strict=False\<close>.\<close>

fun if_network :: "ip_interface \<Rightarrow> ip_network" where
  "if_network (IPInterface (IPv4Address w) p) = IPNetwork (IPv4Address (w AND netmask p)) p"
| "if_network (IPInterface (IPv6Address w s) p) =
     IPNetwork (IPv6Address (w AND netmask p) (if w AND netmask p = w then s else None)) p"

text \<open>\<open>address in network\<close>.\<close>

fun in_network :: "ip_address \<Rightarrow> ip_network \<Rightarrow> bool" where
  "in_network (IPv4Address w) (IPNetwork (IPv4Address n) p) = (w AND netmask p = n)"
| "in_network (IPv6Address w s) (IPNetwork (IPv6Address n t) p) = (w AND netmask p = n)"
| "in_network _ _ = False"

fun is_unspecified :: "ip_address \<Rightarrow> bool" where
  "is_unspecified (IPv4Address w) = (w = 0)"
| "is_unspecified (IPv6Address w s) = (w = 0)"

fun is_multicast :: "ip_address \<Rightarrow> bool" where
  "is_multicast (IPv4Address w) = (w AND netmask 4 = push_bit 24 224)"
| "is_multicast (IPv6Address w s) = (w AND netmask 8 = push_bit 120 255)"

section \<open>Printing\<close>

definition show_ipv4 :: "ipv4 \<Rightarrow> string" where
  "show_ipv4 w = join ''.'' (map (\<lambda>k. show_nat (unat (drop_bit k w AND 255))) [24, 16, 8, 0])"

text \<open>
  The longest run of at least two zero groups becomes \<open>::\<close>, the first one where several are longest.
  \<open>zero_runs\<close> lists the runs of zero groups as pairs of start and length.
\<close>

fun zero_runs :: "nat \<Rightarrow> string list \<Rightarrow> (nat \<times> nat) list" where
  "zero_runs i [] = []"
| "zero_runs i (x # xs) =
     (let k = length (takeWhile (\<lambda>y. y = ''0'') (x # xs))
      in if k = 0 then zero_runs (Suc i) xs else (i, k) # zero_runs (Suc i) xs)"

fun longest_run :: "(nat \<times> nat) list \<Rightarrow> nat \<times> nat" where
  "longest_run [] = (0, 0)"
| "longest_run ((i, k) # rs) = (let (j, l) = longest_run rs in if l \<le> k then (i, k) else (j, l))"

definition compress_hextets :: "string list \<Rightarrow> string list" where
  "compress_hextets hs =
     (let (start, len) = longest_run (zero_runs 0 hs)
      in if 1 < len
         then (if start = 0 then [[]] else []) @ take start hs @ [[]] @ drop (start + len) hs @
           (if start + len = length hs then [[]] else [])
         else hs)"

definition show_ipv6 :: "128 word \<Rightarrow> string" where
  "show_ipv6 w = join '':'' (compress_hextets
     (map (\<lambda>k. show_base 16 (unat (drop_bit k w AND 65535))) [112, 96, 80, 64, 48, 32, 16, 0]))"

fun show_ip :: "ip_address \<Rightarrow> string" where
  "show_ip (IPv4Address w) = show_ipv4 w"
| "show_ip (IPv6Address w s) = show_ipv6 w @ (case s of None \<Rightarrow> [] | Some z \<Rightarrow> ''%'' @ z)"

definition show_interface :: "ip_interface \<Rightarrow> string" where
  "show_interface i = show_ip (if_ip i) @ ''/'' @ show_nat (if_prefixlen i)"

definition show_network :: "ip_network \<Rightarrow> string" where
  "show_network n = show_ip (net_address n) @ ''/'' @ show_nat (net_prefixlen n)"

text \<open>An IPv4 address from its four octets.\<close>

definition ipv4_of :: "ipv4 \<Rightarrow> ipv4 \<Rightarrow> ipv4 \<Rightarrow> ipv4 \<Rightarrow> ipv4" where
  "ipv4_of a b c d = ((a * 256 + b) * 256 + c) * 256 + d"

section \<open>Facts\<close>

lemma and_netmask_idem: "(w AND netmask p) AND netmask p = (w AND netmask p :: 'a::len word)"
  by (simp add: and.assoc)

lemma net_version_if_network: "net_version (if_network i) = if_version i"
  by (cases i rule: if_network.cases) (simp_all add: net_version_def if_version_def)

text \<open>An interface's own address lies in its network.\<close>

lemma if_ip_in_network: "in_network (if_ip i) (if_network i)"
  by (cases i rule: if_network.cases) simp_all

end
