(* ===== verification/Manifest.thy ===== *)
theory Manifest
  imports Ip_Address Naming
begin

text \<open>
  The data of \<open>src/nslab/manifest.py\<close>: the configuration classes a manifest is parsed into, as
  records with the classes' fields and inheritance, the discriminated unions as datatypes, and the
  normalised document with its fingerprint. A \<open>Literal\<close> type of texts is \<open>string\<close>; a field that may
  be missing is an \<open>option\<close>. Parsing itself, that is pydantic's \<open>model_validate\<close>, and the raw
  \<open>model_dump\<close> are library code and appear as fields of the record \<open>ext\<close>.
\<close>

definition main_route_table :: int where
  "main_route_table = 254"

definition ipv6_minimum_link_mtu :: int where
  "ipv6_minimum_link_mtu = 1280"

definition pim_register_interface_name :: string where
  "pim_register_interface_name = ''pimreg''"

definition kernel_tunnel_fallback_names :: "string list" where
  "kernel_tunnel_fallback_names = [''gre0'', ''gretap0'', ''erspan0'', ''tunl0'']"

text \<open>\<open>NAME_PATTERN.fullmatch\<close> and \<open>IFNAME_PATTERN.fullmatch\<close>.\<close>

definition name_pattern :: "string \<Rightarrow> bool" where
  "name_pattern s = (case s of
      [] \<Rightarrow> False
    | c # cs \<Rightarrow> is_lower c \<and> length cs \<le> 31 \<and>
        list_all (\<lambda>d. is_lower d \<or> is_digit d \<or> d = CHR ''_'' \<or> d = CHR ''-'') cs)"

definition ifname_pattern :: "string \<Rightarrow> bool" where
  "ifname_pattern s \<longleftrightarrow> 1 \<le> length s \<and> length s \<le> 15 \<and>
     list_all (\<lambda>d. is_upper d \<or> is_lower d \<or> is_digit d \<or> d = CHR ''_'' \<or> d = CHR ''.'' \<or> d = CHR ''-'') s"

section \<open>Interfaces and devices\<close>

record interface_config =
  ic_addresses :: "ip_interface list"
  ic_mac :: "string option"

record vlan_device_config = interface_config +
  vlanc_link :: string
  vlanc_id :: int

record vrf_device_config =
  vrfc_table :: int
  vrfc_interfaces :: "string list"

record bond_device_config = interface_config +
  bondc_mode :: string
  bondc_interfaces :: "string list"
  bondc_miimon_ms :: int
  bondc_primary :: "string option"
  bondc_lacp_rate :: "string option"
  bondc_xmit_hash_policy :: "string option"
  bondc_min_links :: "int option"

record gre_device_config = interface_config +
  grec_link :: string
  grec_local :: ipv4
  grec_remote :: ipv4
  grec_key :: "int option"
  grec_ttl :: int
  grec_mtu :: "int option"

record ipip_device_config = interface_config +
  ipipc_link :: string
  ipipc_local :: ipv4
  ipipc_remote :: ipv4
  ipipc_ttl :: int
  ipipc_mtu :: "int option"

record dummy_device_config = interface_config +
  dummyc_mtu :: "int option"

record geneve_device_config = interface_config +
  genevec_vni :: int
  genevec_link :: string
  genevec_remote :: ip_address
  genevec_dst_port :: int
  genevec_mtu :: "int option"

record macvlan_device_config = interface_config +
  macvlanc_link :: string
  macvlanc_mode :: string
  macvlanc_mtu :: "int option"

record ipvlan_device_config = interface_config +
  ipvlanc_link :: string
  ipvlanc_mode :: string
  ipvlanc_mtu :: "int option"

record vxlan_device_config = interface_config +
  vxlanc_vni :: int
  vxlanc_link :: string
  vxlanc_local :: ip_address
  vxlanc_remote :: ip_address
  vxlanc_dst_port :: int
  vxlanc_learning :: bool
  vxlanc_mtu :: "int option"

datatype linux_device_config =
    VlanConfig vlan_device_config
  | VrfConfig vrf_device_config
  | BondConfig bond_device_config
  | GreConfig gre_device_config
  | IpipConfig ipip_device_config
  | VxlanConfig vxlan_device_config
  | DummyConfig dummy_device_config
  | GeneveConfig geneve_device_config
  | MacvlanConfig macvlan_device_config
  | IpvlanConfig ipvlan_device_config

datatype bridge_device_config =
    BridgeVxlanConfig vxlan_device_config
  | BridgeGeneveConfig geneve_device_config

section \<open>Routes, neighbors and rules\<close>

record route_nexthop_config =
  nhc_via :: "ip_address option"
  nhc_dev :: string
  nhc_weight :: int

record route_config =
  rc_dst :: ip_network
  rc_via :: "ip_address option"
  rc_dev :: "string option"
  rc_nexthops :: "route_nexthop_config list"
  rc_table :: "int option"

record neighbor_config =
  nc_dst :: ip_address
  nc_dev :: string
  nc_lladdr :: "string option"
  nc_state :: "string option"
  nc_proxy :: bool

record uid_range_config =
  urc_start :: int
  urc_end :: int

record port_range_config =
  prc_start :: int
  prc_end :: int

record realms_config =
  rmc_source :: int
  rmc_destination :: int

record policy_rule_config =
  pc_priority :: int
  pc_family :: "string option"
  pc_action :: string
  pc_table :: "int option"
  pc_goto :: "int option"
  pc_source :: "ip_network option"
  pc_destination :: "ip_network option"
  pc_invert :: bool
  pc_tos :: "int option"
  pc_fwmark :: "int option"
  pc_fwmask :: "int option"
  pc_iif :: "string option"
  pc_oif :: "string option"
  pc_l3mdev :: bool
  pc_uid_range :: "uid_range_config option"
  pc_protocol :: int
  pc_ip_protocol :: "int option"
  pc_source_port :: "port_range_config option"
  pc_destination_port :: "port_range_config option"
  pc_tunnel_id :: "int option"
  pc_suppress_prefix_length :: "int option"
  pc_suppress_interface_group :: "int option"
  pc_realms :: "realms_config option"

text \<open>The property \<open>PolicyRuleConfig.ip_version\<close>.\<close>

definition rule_ip_version :: "policy_rule_config \<Rightarrow> int" where
  "rule_ip_version r = (case pc_family r of
      Some family \<Rightarrow> if family = ''ipv4'' then 4 else 6
    | None \<Rightarrow> (case pc_source r of
        Some n \<Rightarrow> if net_version n = 4 then 4 else 6
      | None \<Rightarrow> (case pc_destination r of
          Some n \<Rightarrow> if net_version n = 4 then 4 else 6
        | None \<Rightarrow> 4)))"

section \<open>Dynamic routing\<close>

record ospf_config =
  oc_router_id :: ipv4
  oc_area :: ipv4
  oc_networks :: "ip_network list"
  oc_passive_interfaces :: "string list"

record bgp_neighbor_config =
  bnc_address :: ipv4
  bnc_remote_as :: int

record bgp_config =
  bgc_local_as :: int
  bgc_router_id :: ipv4
  bgc_neighbors :: "bgp_neighbor_config list"
  bgc_networks :: "ip_network list"

record pim_config =
  pmc_rp_address :: ipv4
  pmc_interfaces :: "string list"
  pmc_igmp_interfaces :: "string list"

record routing_config =
  rtc_ospf :: "ospf_config option"
  rtc_bgp :: "bgp_config option"
  rtc_pim :: "pim_config option"

section \<open>Nodes\<close>

record node_base =
  nb_interfaces :: "(string, interface_config) dict"
  nb_routes :: "route_config list"
  nb_neighbors :: "neighbor_config list"
  nb_sysctls :: "(string, int) dict"
  nb_routing :: "routing_config option"

record linux_node = node_base +
  ln_devices :: "(string, linux_device_config) dict"
  ln_rules :: "policy_rule_config list"

record bridge_vlan_config =
  bvc_vid :: int
  bvc_pvid :: bool
  bvc_untagged :: bool

record bridge_port_config =
  bpc_path_cost :: "int option"
  bpc_priority :: "int option"
  bpc_hairpin :: "bool option"
  bpc_isolated :: "bool option"
  bpc_learning :: "bool option"
  bpc_flood :: "bool option"
  bpc_multicast_flood :: "bool option"
  bpc_vlans :: "bridge_vlan_config list"

record bridge_config =
  bc_name :: string
  bc_stp :: bool
  bc_vlan_filtering :: bool
  bc_priority :: "int option"
  bc_ports :: "(string, bridge_port_config) dict"

record bridge_node = node_base +
  bn_devices :: "(string, bridge_device_config) dict"
  bn_bridge :: bridge_config

datatype node_config = LinuxNode linux_node | BridgeNode bridge_node

fun node_base_of :: "node_config \<Rightarrow> node_base" where
  "node_base_of (LinuxNode n) = node_base.truncate n"
| "node_base_of (BridgeNode n) = node_base.truncate n"

section \<open>Links\<close>

record netem_config =
  nec_delay_ms :: int
  nec_jitter_ms :: int
  nec_loss_percent :: int
  nec_rate :: "string option"

record tbf_config =
  tbc_rate :: string
  tbc_burst :: int
  tbc_latency_ms :: int

record fq_codel_config =
  fqc_target_ms :: int
  fqc_interval_ms :: int
  fqc_limit :: int
  fqc_ecn :: bool

record simple_qdisc_config =
  sqc_kind :: string
  sqc_limit :: "int option"
  sqc_target_ms :: "int option"
  sqc_interval_ms :: "int option"
  sqc_flows :: "int option"
  sqc_quantum :: "int option"
  sqc_perturb :: "int option"
  sqc_min :: "int option"
  sqc_max :: "int option"
  sqc_avpkt :: "int option"
  sqc_burst :: "int option"
  sqc_probability :: "pyfloat option"
  sqc_ecn :: "bool option"
  sqc_tupdate_ms :: "int option"
  sqc_alpha :: "int option"
  sqc_beta :: "int option"
  sqc_bytemode :: "bool option"

datatype htb_leaf_config = LeafFqCodelConfig fq_codel_config | LeafSimpleConfig simple_qdisc_config

record htb_config =
  hbc_rate :: string
  hbc_leaf :: htb_leaf_config

record cake_config =
  ckc_bandwidth :: string
  ckc_flow_mode :: string
  ckc_diffserv_mode :: string
  ckc_rtt_ms :: int
  ckc_nat :: bool

datatype qdisc_config =
    TbfConfig tbf_config
  | FqCodelConfig fq_codel_config
  | HtbConfig htb_config
  | CakeConfig cake_config
  | SimpleQdiscConfig simple_qdisc_config

record link_config =
  lc_endpoints :: "string \<times> string"
  lc_mtu :: int
  lc_netem :: "netem_config option"
  lc_qdisc :: "qdisc_config option"

record topology =
  tp_nodes :: "(string, node_config) dict"
  tp_links :: "link_config list"

record manifest =
  mf_version :: int
  mf_name :: string
  mf_topology :: topology

section \<open>Code outside the repository\<close>

text \<open>
  The functions of other packages the program calls: the two digests, compact JSON with sorted keys,
  pydantic's dump (\<open>mode="json", exclude_none=True, by_alias=True\<close>) and validation, whose error is its
  text, the two pyroute2 functions that evaluate RED parameters, and \<open>str\<close> and \<open>repr\<close> of the objects
  whose text is not spelled out in \<open>py_str\<close> and \<open>py_repr_obj\<close>.
\<close>

record ext =
  x_blake2s :: blake2s
  x_sha256 :: "string \<Rightarrow> string"
  x_json_dumps :: "pyobj \<Rightarrow> string"
  x_model_dump :: "manifest \<Rightarrow> pyobj"
  x_model_validate :: "pyobj \<Rightarrow> string + manifest"
  x_red_eval_ewma :: "int \<Rightarrow> int \<Rightarrow> int \<Rightarrow> int"
  x_red_eval_idle_damping :: "int \<Rightarrow> int \<Rightarrow> int \<Rightarrow> int"
  x_str :: "pyobj \<Rightarrow> string"
  x_repr :: "pyobj \<Rightarrow> string"

fun py_str :: "ext \<Rightarrow> pyobj \<Rightarrow> string" where
  "py_str x (PStr s) = s"
| "py_str x PNone = ''None''"
| "py_str x (PBool b) = (if b then ''True'' else ''False'')"
| "py_str x (PInt i) = show_int i"
| "py_str x (PFloat PosInf) = ''inf''"
| "py_str x (PFloat NegInf) = ''-inf''"
| "py_str x (PFloat NaN) = ''nan''"
| "py_str x v = x_str x v"

fun py_repr_obj :: "ext \<Rightarrow> pyobj \<Rightarrow> string" where
  "py_repr_obj x (PStr s) = py_repr s"
| "py_repr_obj x PNone = ''None''"
| "py_repr_obj x (PBool b) = (if b then ''True'' else ''False'')"
| "py_repr_obj x (PInt i) = show_int i"
| "py_repr_obj x v = x_repr x v"

text \<open>One instance of the outside functions, for evaluating definitions on concrete inputs.\<close>

definition sample_ext :: ext where
  "sample_ext = \<lparr>
     x_blake2s = zero_digest,
     x_sha256 = (\<lambda>_. replicate 64 (CHR ''0'')),
     x_json_dumps = (\<lambda>_. []),
     x_model_dump = (\<lambda>_. PNone),
     x_model_validate = (\<lambda>_. Inl []),
     x_red_eval_ewma = (\<lambda>_ _ _. 0),
     x_red_eval_idle_damping = (\<lambda>_ _ _. 0),
     x_str = (\<lambda>_. []),
     x_repr = (\<lambda>_. [])\<rparr>"

end
