(* ===== verification/Planner.thy ===== *)
theory Planner
  imports Manifest
begin

text \<open>
  The plan of \<open>src/nslab/planner.py\<close>: its frozen dataclasses as records, the union of device plans as
  a datatype, and the functions over a compiled plan: the MTU of every kind of device, the master of
  an interface, its routing table and the route tables of a node. \<open>Compile\<close> holds the compilation of
  a manifest into a plan.
\<close>

section \<open>Routes, neighbors and rules\<close>

record route_nexthop_plan =
  nh_via :: "ip_address option"
  nh_dev :: string
  nh_weight :: int

record route_plan =
  rt_dst :: ip_network
  rt_via :: "ip_address option"
  rt_dev :: "string option"
  rt_table :: int
  rt_nexthops :: "route_nexthop_plan list"

definition route_interfaces :: "route_plan \<Rightarrow> string list res" where
  "route_interfaces route =
     (if rt_nexthops route \<noteq> [] then Inr (map nh_dev (rt_nexthops route))
      else (case rt_dev route of None \<Rightarrow> Inl assertion_error | Some dev \<Rightarrow> Inr [dev]))"

record neighbor_plan =
  nb_dst :: ip_address
  nb_dev :: string
  nb_lladdr :: "string option"
  nb_state :: "string option"
  nb_proxy :: bool

record policy_rule_plan =
  pr_priority :: int
  pr_family :: int
  pr_action :: string
  pr_table :: "int option"
  pr_goto :: "int option"
  pr_source :: "ip_network option"
  pr_destination :: "ip_network option"
  pr_invert :: bool
  pr_tos :: "int option"
  pr_fwmark :: "int option"
  pr_fwmask :: "int option"
  pr_iif :: "string option"
  pr_oif :: "string option"
  pr_l3mdev :: bool
  pr_uid_range :: "(int \<times> int) option"
  pr_protocol :: int
  pr_ip_protocol :: "int option"
  pr_source_port :: "(int \<times> int) option"
  pr_destination_port :: "(int \<times> int) option"
  pr_tunnel_id :: "int option"
  pr_suppress_prefix_length :: "int option"
  pr_suppress_interface_group :: "int option"
  pr_realms :: "(int \<times> int) option"

section \<open>Dynamic routing\<close>

record ospf_plan =
  op_router_id :: ipv4
  op_area :: ipv4
  op_networks :: "ip_network list"
  op_passive_interfaces :: "string list"

record bgp_neighbor_plan =
  bnp_address :: ipv4
  bnp_remote_as :: int

record bgp_plan =
  bgp_local_as :: int
  bgp_router_id :: ipv4
  bgp_neighbors :: "bgp_neighbor_plan list"
  bgp_networks :: "ip_network list"

record pim_plan =
  pim_rp_address :: ipv4
  pim_interfaces :: "string list"
  pim_igmp_interfaces :: "string list"

record routing_plan =
  rp_ospf :: "ospf_plan option"
  rp_bgp :: "bgp_plan option"
  rp_pim :: "pim_plan option"

section \<open>Bridge ports and devices\<close>

record bridge_vlan_plan =
  bv_vid :: int
  bv_pvid :: bool
  bv_untagged :: bool

record bridge_port_plan =
  bp_path_cost :: "int option"
  bp_priority :: "int option"
  bp_vlans :: "bridge_vlan_plan list"
  bp_hairpin :: "bool option"
  bp_isolated :: "bool option"
  bp_learning :: "bool option"
  bp_flood :: "bool option"
  bp_multicast_flood :: "bool option"

record vlan_device_plan =
  vlan_name :: string
  vlan_link :: string
  vlan_vid :: int
  vlan_addresses :: "ip_interface list"

record vrf_device_plan =
  vrf_name :: string
  vrf_table :: int
  vrf_interfaces :: "string list"

record bond_device_plan =
  bond_name :: string
  bond_mode :: string
  bond_interfaces :: "string list"
  bond_addresses :: "ip_interface list"
  bond_miimon_ms :: int
  bond_primary :: "string option"
  bond_lacp_rate :: "string option"
  bond_xmit_hash_policy :: "string option"
  bond_min_links :: "int option"

record gre_device_plan =
  gre_name :: string
  gre_link :: string
  gre_local :: ipv4
  gre_remote :: ipv4
  gre_key :: "int option"
  gre_ttl :: int
  gre_mtu :: "int option"
  gre_addresses :: "ip_interface list"

record ipip_device_plan =
  ipip_name :: string
  ipip_link :: string
  ipip_local :: ipv4
  ipip_remote :: ipv4
  ipip_ttl :: int
  ipip_mtu :: "int option"
  ipip_addresses :: "ip_interface list"

record vxlan_device_plan =
  vxlan_name :: string
  vxlan_vni :: int
  vxlan_link :: string
  vxlan_local :: ip_address
  vxlan_remote :: ip_address
  vxlan_dst_port :: int
  vxlan_learning :: bool
  vxlan_mtu :: "int option"
  vxlan_addresses :: "ip_interface list"

record dummy_device_plan =
  dummy_name :: string
  dummy_mtu :: "int option"
  dummy_addresses :: "ip_interface list"

record geneve_device_plan =
  geneve_name :: string
  geneve_vni :: int
  geneve_link :: string
  geneve_remote :: ip_address
  geneve_dst_port :: int
  geneve_mtu :: "int option"
  geneve_addresses :: "ip_interface list"

record macvlan_device_plan =
  macvlan_name :: string
  macvlan_link :: string
  macvlan_mode :: string
  macvlan_mtu :: "int option"
  macvlan_addresses :: "ip_interface list"

record ipvlan_device_plan =
  ipvlan_name :: string
  ipvlan_link :: string
  ipvlan_mode :: string
  ipvlan_mtu :: "int option"
  ipvlan_addresses :: "ip_interface list"

datatype device_plan =
    VlanDevice vlan_device_plan
  | VrfDevice vrf_device_plan
  | BondDevice bond_device_plan
  | GreDevice gre_device_plan
  | IpipDevice ipip_device_plan
  | VxlanDevice vxlan_device_plan
  | DummyDevice dummy_device_plan
  | GeneveDevice geneve_device_plan
  | MacvlanDevice macvlan_device_plan
  | IpvlanDevice ipvlan_device_plan

text \<open>\<open>device.name\<close>.\<close>

fun device_name :: "device_plan \<Rightarrow> string" where
  "device_name (VlanDevice d) = vlan_name d"
| "device_name (VrfDevice d) = vrf_name d"
| "device_name (BondDevice d) = bond_name d"
| "device_name (GreDevice d) = gre_name d"
| "device_name (IpipDevice d) = ipip_name d"
| "device_name (VxlanDevice d) = vxlan_name d"
| "device_name (DummyDevice d) = dummy_name d"
| "device_name (GeneveDevice d) = geneve_name d"
| "device_name (MacvlanDevice d) = macvlan_name d"
| "device_name (IpvlanDevice d) = ipvlan_name d"

text \<open>\<open>device.addresses\<close>, which a VRF device does not have.\<close>

fun device_addresses :: "device_plan \<Rightarrow> ip_interface list option" where
  "device_addresses (VlanDevice d) = Some (vlan_addresses d)"
| "device_addresses (VrfDevice d) = None"
| "device_addresses (BondDevice d) = Some (bond_addresses d)"
| "device_addresses (GreDevice d) = Some (gre_addresses d)"
| "device_addresses (IpipDevice d) = Some (ipip_addresses d)"
| "device_addresses (VxlanDevice d) = Some (vxlan_addresses d)"
| "device_addresses (DummyDevice d) = Some (dummy_addresses d)"
| "device_addresses (GeneveDevice d) = Some (geneve_addresses d)"
| "device_addresses (MacvlanDevice d) = Some (macvlan_addresses d)"
| "device_addresses (IpvlanDevice d) = Some (ipvlan_addresses d)"

section \<open>Nodes, links and the topology\<close>

datatype node_kind = LinuxKind | BridgeKind

record node_plan =
  nd_name :: string
  nd_kind :: node_kind
  nd_namespace :: string
  nd_interfaces :: "(string, ip_interface list) dict"
  nd_routes :: "route_plan list"
  nd_sysctls :: "(string, int) dict"
  nd_mac_addresses :: "(string, string) dict"
  nd_neighbors :: "neighbor_plan list"
  nd_rules :: "policy_rule_plan list"
  nd_devices :: "(string, device_plan) dict"
  nd_bridge_name :: "string option"
  nd_stp :: "bool option"
  nd_vlan_filtering :: "bool option"
  nd_bridge_priority :: "int option"
  nd_bridge_ports :: "(string, bridge_port_plan) dict"
  nd_routing :: "routing_plan option"

record endpoint_plan =
  ep_node :: string
  ep_interface :: string
  ep_namespace :: string
  ep_temporary_name :: string

record netem_plan =
  ne_delay_ms :: int
  ne_jitter_ms :: int
  ne_loss_percent :: int
  ne_rate :: "string option"

record tbf_plan =
  tbf_rate :: string
  tbf_burst_bytes :: int
  tbf_latency_ms :: int

record fq_codel_plan =
  fq_target_ms :: int
  fq_interval_ms :: int
  fq_limit :: int
  fq_ecn :: bool

record simple_qdisc_plan =
  sq_kind :: string
  sq_options :: "(string, pyobj) dict"

datatype htb_leaf_plan = LeafFqCodel fq_codel_plan | LeafSimple simple_qdisc_plan

record htb_plan =
  htb_rate :: string
  htb_leaf :: htb_leaf_plan

record cake_plan =
  cake_bandwidth :: string
  cake_flow_mode :: string
  cake_diffserv_mode :: string
  cake_rtt_ms :: int
  cake_nat :: bool

datatype qdisc_plan =
    TbfQdisc tbf_plan
  | FqCodelQdisc fq_codel_plan
  | HtbQdisc htb_plan
  | CakeQdisc cake_plan
  | SimpleQdisc simple_qdisc_plan

record link_plan =
  lk_index :: nat
  lk_left :: endpoint_plan
  lk_right :: endpoint_plan
  lk_mtu :: int
  lk_netem :: "netem_plan option"
  lk_qdisc :: "qdisc_plan option"

record topology_plan =
  tpl_name :: string
  tpl_fingerprint :: string
  tpl_nodes :: "(string, node_plan) dict"
  tpl_links :: "link_plan list"

text \<open>\<open>(link.left, link.right)\<close>, and \<open>plan.nodes.values()\<close>.\<close>

definition link_endpoints :: "link_plan \<Rightarrow> endpoint_plan list" where
  "link_endpoints link = [lk_left link, lk_right link]"

definition plan_nodes :: "topology_plan \<Rightarrow> node_plan list" where
  "plan_nodes plan = dict_values (tpl_nodes plan)"

section \<open>The MTU of a device\<close>

text \<open>
  The MTU of the first link with the endpoint \<open>interface\<close> of the node, and the MTUs of all the links
  of the interfaces of a bond.
\<close>

definition linked_mtus :: "node_plan \<Rightarrow> topology_plan \<Rightarrow> (string \<Rightarrow> bool) \<Rightarrow> int list" where
  "linked_mtus node plan chosen =
     concat (map (\<lambda>link. map (\<lambda>_. lk_mtu link)
       (filter (\<lambda>e. ep_node e = nd_name node \<and> chosen (ep_interface e)) (link_endpoints link)))
       (tpl_links plan))"

definition first_mtu :: "node_plan \<Rightarrow> topology_plan \<Rightarrow> string \<Rightarrow> int option" where
  "first_mtu node plan interface =
     (case linked_mtus node plan (\<lambda>i. i = interface) of [] \<Rightarrow> None | m # ms \<Rightarrow> Some m)"

definition bond_device_mtu :: "node_plan \<Rightarrow> topology_plan \<Rightarrow> bond_device_plan \<Rightarrow> int res" where
  "bond_device_mtu node plan device =
     (let mtus = remdups (linked_mtus node plan (\<lambda>i. i \<in> set (bond_interfaces device)))
      in case mtus of
           [m] \<Rightarrow> Inr m
         | _ \<Rightarrow> Inl (value_error (''bond members do not have one planned MTU: '' @ nd_name node @
             '':'' @ bond_name device)))"

definition vxlan_device_mtu :: "node_plan \<Rightarrow> topology_plan \<Rightarrow> vxlan_device_plan \<Rightarrow> int res" where
  "vxlan_device_mtu node plan device = (case vxlan_mtu device of
      Some m \<Rightarrow> Inr m
    | None \<Rightarrow> (case first_mtu node plan (vxlan_link device) of
        None \<Rightarrow> Inl (value_error (''VXLAN underlay is not planned: '' @ nd_name node @ '':'' @
          vxlan_link device))
      | Some underlay_mtu \<Rightarrow>
          Inr (underlay_mtu - (if ip_version (vxlan_local device) = 4 then 50 else 70))))"

definition parent_device_mtu :: "node_plan \<Rightarrow> topology_plan \<Rightarrow> string \<Rightarrow> int res" where
  "parent_device_mtu node plan interface = (case first_mtu node plan interface of
      None \<Rightarrow> Inl (value_error (''device parent is not planned: '' @ nd_name node @ '':'' @ interface))
    | Some mtu \<Rightarrow> Inr mtu)"

definition dummy_device_mtu :: "node_plan \<Rightarrow> topology_plan \<Rightarrow> dummy_device_plan \<Rightarrow> int" where
  "dummy_device_mtu node plan device = (case dummy_mtu device of None \<Rightarrow> 1500 | Some m \<Rightarrow> m)"

definition geneve_device_mtu :: "node_plan \<Rightarrow> topology_plan \<Rightarrow> geneve_device_plan \<Rightarrow> int res" where
  "geneve_device_mtu node plan device = (case geneve_mtu device of
      Some m \<Rightarrow> Inr m
    | None \<Rightarrow> res_bind (parent_device_mtu node plan (geneve_link device)) (\<lambda>underlay_mtu.
        Inr (underlay_mtu - (if ip_version (geneve_remote device) = 4 then 50 else 70))))"

definition gre_device_mtu :: "node_plan \<Rightarrow> topology_plan \<Rightarrow> gre_device_plan \<Rightarrow> int res" where
  "gre_device_mtu node plan device = (case gre_mtu device of
      Some m \<Rightarrow> Inr m
    | None \<Rightarrow>
        (let overhead = 24 + (if gre_key device \<noteq> None then 4 else 0)
         in res_bind (parent_device_mtu node plan (gre_link device)) (\<lambda>m. Inr (m - overhead))))"

definition ipip_device_mtu :: "node_plan \<Rightarrow> topology_plan \<Rightarrow> ipip_device_plan \<Rightarrow> int res" where
  "ipip_device_mtu node plan device = (case ipip_mtu device of
      Some m \<Rightarrow> Inr m
    | None \<Rightarrow> res_bind (parent_device_mtu node plan (ipip_link device)) (\<lambda>m. Inr (m - 20)))"

definition macvlan_device_mtu :: "node_plan \<Rightarrow> topology_plan \<Rightarrow> macvlan_device_plan \<Rightarrow> int res" where
  "macvlan_device_mtu node plan device = (case macvlan_mtu device of
      None \<Rightarrow> parent_device_mtu node plan (macvlan_link device) | Some m \<Rightarrow> Inr m)"

definition ipvlan_device_mtu :: "node_plan \<Rightarrow> topology_plan \<Rightarrow> ipvlan_device_plan \<Rightarrow> int res" where
  "ipvlan_device_mtu node plan device = (case ipvlan_mtu device of
      None \<Rightarrow> parent_device_mtu node plan (ipvlan_link device) | Some m \<Rightarrow> Inr m)"

section \<open>Interfaces of a node\<close>

text \<open>
  \<open>{**node.interfaces, **{name: device.addresses ...}}\<close>: the address declarations of the linked
  interfaces, overridden and followed by those of the devices that have addresses.
\<close>

definition node_interface_addresses :: "node_plan \<Rightarrow> (string, ip_interface list) dict" where
  "node_interface_addresses node =
     dict_update
       (List.map_filter (\<lambda>(name, device). map_option (Pair name) (device_addresses device))
         (nd_devices node))
       (nd_interfaces node)"

fun is_vrf_member :: "string \<Rightarrow> device_plan \<Rightarrow> bool" where
  "is_vrf_member i (VrfDevice d) = (i \<in> set (vrf_interfaces d))"
| "is_vrf_member i _ = False"

fun is_bond_member :: "string \<Rightarrow> device_plan \<Rightarrow> bool" where
  "is_bond_member i (BondDevice d) = (i \<in> set (bond_interfaces d))"
| "is_bond_member i _ = False"

text \<open>\<open>isinstance(device, (VxlanDevicePlan, GeneveDevicePlan)) and device.link == interface\<close>.\<close>

fun is_overlay_on :: "string \<Rightarrow> device_plan \<Rightarrow> bool" where
  "is_overlay_on i (VxlanDevice d) = (vxlan_link d = i)"
| "is_overlay_on i (GeneveDevice d) = (geneve_link d = i)"
| "is_overlay_on i _ = False"

definition node_interface_vrf_master :: "node_plan \<Rightarrow> string \<Rightarrow> string option" where
  "node_interface_vrf_master node interface =
     map_option device_name (find (is_vrf_member interface) (dict_values (nd_devices node)))"

definition node_interface_master :: "node_plan \<Rightarrow> string \<Rightarrow> string option" where
  "node_interface_master node interface =
     (case map_option device_name
         (find (is_bond_member interface) (dict_values (nd_devices node))) of
        Some bond \<Rightarrow> Some bond
      | None \<Rightarrow> (case node_interface_vrf_master node interface of
          Some vrf \<Rightarrow> Some vrf
        | None \<Rightarrow>
            if nd_kind node \<noteq> BridgeKind then None
            else if Some interface = nd_bridge_name node then None
            else if \<exists>device \<in> set (dict_values (nd_devices node)). is_overlay_on interface device
              then None
            else nd_bridge_name node))"

definition node_interface_route_table :: "node_plan \<Rightarrow> string \<Rightarrow> int res" where
  "node_interface_route_table node interface =
     (case node_interface_vrf_master node interface of
        None \<Rightarrow> Inr main_route_table
      | Some master \<Rightarrow> (case dict_get (nd_devices node) master of
          None \<Rightarrow> Inl (key_error master)
        | Some (VrfDevice device) \<Rightarrow> Inr (vrf_table device)
        | Some _ \<Rightarrow> Inl assertion_error))"

fun vrf_table_of :: "device_plan \<Rightarrow> int option" where
  "vrf_table_of (VrfDevice d) = Some (vrf_table d)"
| "vrf_table_of _ = None"

definition node_route_tables :: "node_plan \<Rightarrow> int list" where
  "node_route_tables node =
     dedup (main_route_table #
       List.map_filter vrf_table_of (dict_values (nd_devices node)) @
       map rt_table (nd_routes node))"

section \<open>Equality of plans\<close>

text \<open>
  \<open>plan == other\<close> of the generated dataclass comparison: field by field, with mappings compared
  without regard to the order of their keys.
\<close>

definition simple_qdisc_eq :: "simple_qdisc_plan \<Rightarrow> simple_qdisc_plan \<Rightarrow> bool" where
  "simple_qdisc_eq a b \<longleftrightarrow> sq_kind a = sq_kind b \<and> dict_eq py_eq (sq_options a) (sq_options b)"

fun htb_leaf_eq :: "htb_leaf_plan \<Rightarrow> htb_leaf_plan \<Rightarrow> bool" where
  "htb_leaf_eq (LeafFqCodel a) (LeafFqCodel b) = (a = b)"
| "htb_leaf_eq (LeafSimple a) (LeafSimple b) = simple_qdisc_eq a b"
| "htb_leaf_eq _ _ = False"

fun qdisc_eq :: "qdisc_plan \<Rightarrow> qdisc_plan \<Rightarrow> bool" where
  "qdisc_eq (TbfQdisc a) (TbfQdisc b) = (a = b)"
| "qdisc_eq (FqCodelQdisc a) (FqCodelQdisc b) = (a = b)"
| "qdisc_eq (HtbQdisc a) (HtbQdisc b) = (htb_rate a = htb_rate b \<and> htb_leaf_eq (htb_leaf a) (htb_leaf b))"
| "qdisc_eq (CakeQdisc a) (CakeQdisc b) = (a = b)"
| "qdisc_eq (SimpleQdisc a) (SimpleQdisc b) = simple_qdisc_eq a b"
| "qdisc_eq _ _ = False"

definition option_eq :: "('a \<Rightarrow> 'a \<Rightarrow> bool) \<Rightarrow> 'a option \<Rightarrow> 'a option \<Rightarrow> bool" where
  "option_eq eq a b = (case (a, b) of (None, None) \<Rightarrow> True | (Some x, Some y) \<Rightarrow> eq x y | _ \<Rightarrow> False)"

definition link_eq :: "link_plan \<Rightarrow> link_plan \<Rightarrow> bool" where
  "link_eq a b \<longleftrightarrow> a\<lparr>lk_qdisc := None\<rparr> = b\<lparr>lk_qdisc := None\<rparr> \<and>
     option_eq qdisc_eq (lk_qdisc a) (lk_qdisc b)"

definition node_eq :: "node_plan \<Rightarrow> node_plan \<Rightarrow> bool" where
  "node_eq a b \<longleftrightarrow>
     dict_eq (=) (nd_interfaces a) (nd_interfaces b) \<and>
     dict_eq (=) (nd_sysctls a) (nd_sysctls b) \<and>
     dict_eq (=) (nd_mac_addresses a) (nd_mac_addresses b) \<and>
     dict_eq (=) (nd_devices a) (nd_devices b) \<and>
     dict_eq (=) (nd_bridge_ports a) (nd_bridge_ports b) \<and>
     a\<lparr>nd_interfaces := [], nd_sysctls := [], nd_mac_addresses := [], nd_devices := [],
       nd_bridge_ports := []\<rparr> =
     b\<lparr>nd_interfaces := [], nd_sysctls := [], nd_mac_addresses := [], nd_devices := [],
       nd_bridge_ports := []\<rparr>"

definition plan_eq :: "topology_plan \<Rightarrow> topology_plan \<Rightarrow> bool" where
  "plan_eq a b \<longleftrightarrow> tpl_name a = tpl_name b \<and> tpl_fingerprint a = tpl_fingerprint b \<and>
     dict_eq node_eq (tpl_nodes a) (tpl_nodes b) \<and>
     list_all2 link_eq (tpl_links a) (tpl_links b)"

section \<open>Facts\<close>

lemma node_eq_refl: "node_eq a a"
  by (simp add: node_eq_def dict_eq_refl)

lemma option_eq_refl: "(\<And>x. a = Some x \<Longrightarrow> eq x x) \<Longrightarrow> option_eq eq a a"
  by (simp add: option_eq_def split: option.split)

text \<open>A qdisc plan none of whose options is NaN equals itself.\<close>

fun qdisc_nan_free :: "qdisc_plan \<Rightarrow> bool" where
  "qdisc_nan_free (SimpleQdisc q) = (\<forall>v \<in> set (dict_values (sq_options q)). nan_free v)"
| "qdisc_nan_free (HtbQdisc q) = (case htb_leaf q of
      LeafSimple l \<Rightarrow> \<forall>v \<in> set (dict_values (sq_options l)). nan_free v | LeafFqCodel l \<Rightarrow> True)"
| "qdisc_nan_free _ = True"

lemma simple_qdisc_eq_refl:
  "(\<forall>v \<in> set (dict_values (sq_options q)). nan_free v) \<Longrightarrow> simple_qdisc_eq q q"
  by (auto simp: simple_qdisc_eq_def intro!: dict_eq_refl py_eq_refl)

lemma qdisc_eq_refl: "qdisc_nan_free q \<Longrightarrow> qdisc_eq q q"
proof (cases q)
  case (HtbQdisc h)
  then show "qdisc_nan_free q \<Longrightarrow> qdisc_eq q q"
    by (cases "htb_leaf h") (simp_all add: simple_qdisc_eq_refl)
qed (simp_all add: simple_qdisc_eq_refl)

lemma plan_eq_refl:
  assumes "\<And>l q. l \<in> set (tpl_links p) \<Longrightarrow> lk_qdisc l = Some q \<Longrightarrow> qdisc_nan_free q"
  shows "plan_eq p p"
  unfolding plan_eq_def link_eq_def using assms
  by (auto intro!: dict_eq_refl node_eq_refl list.rel_refl_strong option_eq_refl qdisc_eq_refl)

end
