(* ===== verification/Compile.thy ===== *)
theory Compile
  imports Planner
begin

text \<open>
  \<open>compile_plan\<close> of \<open>src/nslab/planner.py\<close> and the functions it calls, with
  \<open>normalized_manifest\<close> and \<open>manifest_fingerprint\<close> of \<open>src/nslab/manifest.py\<close>. Rebuilding an address
  from its text, as in \<open>ip_interface(str(address))\<close>, gives the same address and is left out.
\<close>

section \<open>The normalised manifest\<close>

text \<open>
  Reading, replacing and removing a key of a document that must be a \<open>dict\<close>. The code edits the dump
  in place; the model returns the edited document.
\<close>

fun doc_get :: "string \<Rightarrow> pyobj \<Rightarrow> pyobj option" where
  "doc_get k (PDict d) = map_of d (PStr k)"
| "doc_get k _ = None"

fun doc_item :: "string \<Rightarrow> pyobj \<Rightarrow> pyobj res" where
  "doc_item k (PDict d) = (case map_of d (PStr k) of
      None \<Rightarrow> Inl (key_error k) | Some (PDict e) \<Rightarrow> Inr (PDict e) | Some _ \<Rightarrow> Inl assertion_error)"
| "doc_item k _ = Inl assertion_error"

fun doc_set :: "string \<Rightarrow> pyobj \<Rightarrow> pyobj \<Rightarrow> pyobj" where
  "doc_set k v (PDict d) = PDict (dict_set (PStr k) v d)"
| "doc_set k v x = x"

fun doc_pop :: "string \<Rightarrow> pyobj \<Rightarrow> pyobj" where
  "doc_pop k (PDict d) = PDict (dict_del (PStr k) d)"
| "doc_pop k x = x"

definition doc_modify :: "string \<Rightarrow> (pyobj \<Rightarrow> pyobj res) \<Rightarrow> pyobj \<Rightarrow> pyobj res" where
  "doc_modify k f doc = res_bind (doc_item k doc) (\<lambda>v. res_bind (f v) (\<lambda>v'. Inr (doc_set k v' doc)))"

text \<open>\<open>for x, doc in zip(xs, docs, strict=True): if dropped(x): doc.pop(key, None)\<close>.\<close>

fun pop_zip :: "('a \<Rightarrow> bool) \<Rightarrow> string \<Rightarrow> 'a list \<Rightarrow> pyobj list \<Rightarrow> pyobj list res" where
  "pop_zip dropped k [] [] = Inr []"
| "pop_zip dropped k (x # xs) (PDict d # ds) =
     res_bind (pop_zip dropped k xs ds)
       (\<lambda>rest. Inr ((if dropped x then doc_pop k (PDict d) else PDict d) # rest))"
| "pop_zip dropped k (x # xs) (v # ds) = Inl assertion_error"
| "pop_zip dropped k _ _ = Inl (value_error ''zip() arguments have different lengths'')"

definition pop_in_list :: "string \<Rightarrow> ('a \<Rightarrow> bool) \<Rightarrow> string \<Rightarrow> 'a list \<Rightarrow> pyobj \<Rightarrow> pyobj res" where
  "pop_in_list field dropped k xs doc = (case doc_get field doc of
      Some (PList ds) \<Rightarrow> res_bind (pop_zip dropped k xs ds) (\<lambda>ds'. Inr (doc_set field (PList ds') doc))
    | _ \<Rightarrow> Inr doc)"

text \<open>The defaults of a bond in \<open>802.3ad\<close> mode, written into its document.\<close>

definition normalize_bond :: "string \<times> linux_device_config \<Rightarrow> pyobj \<Rightarrow> pyobj res" where
  "normalize_bond entry devices_document = (case entry of
      (dname, BondConfig device) \<Rightarrow>
        if bondc_mode device \<noteq> ''802.3ad'' then Inr devices_document
        else doc_modify dname (\<lambda>document. Inr
          (doc_set ''min_links'' (PInt (case bondc_min_links device of None \<Rightarrow> 0 | Some n \<Rightarrow> n))
          (doc_set ''xmit_hash_policy''
            (PStr (case bondc_xmit_hash_policy device of None \<Rightarrow> ''layer2'' | Some p \<Rightarrow> p))
          (doc_set ''lacp_rate'' (PStr (case bondc_lacp_rate device of None \<Rightarrow> ''slow'' | Some r \<Rightarrow> r))
            document)))) devices_document
    | _ \<Rightarrow> Inr devices_document)"

definition node_has_devices :: "node_config \<Rightarrow> bool" where
  "node_has_devices node = (case node of
      LinuxNode n \<Rightarrow> ln_devices n \<noteq> [] | BridgeNode n \<Rightarrow> bn_devices n \<noteq> [])"

definition normalize_node :: "node_config \<Rightarrow> pyobj \<Rightarrow> pyobj res" where
  "normalize_node node node_document =
     (let base = node_base_of node in
      res_bind (pop_in_list ''routes'' (\<lambda>r. rc_nexthops r = []) ''nexthops'' (nb_routes base)
        node_document) (\<lambda>doc.
      res_bind (pop_in_list ''neighbors'' (\<lambda>n. \<not> nc_proxy n) ''proxy'' (nb_neighbors base) doc) (\<lambda>doc.
      let doc = (if nb_neighbors base = [] then doc_pop ''neighbors'' doc else doc);
          doc = (if node_has_devices node then doc else doc_pop ''devices'' doc)
      in case node of
           LinuxNode n \<Rightarrow>
             res_bind
               (case doc_get ''devices'' doc of
                  Some (PDict d) \<Rightarrow>
                    res_bind (res_fold normalize_bond (ln_devices n) (PDict d))
                      (\<lambda>devices_document. Inr (doc_set ''devices'' devices_document doc))
                | _ \<Rightarrow> Inr doc)
               (\<lambda>doc. Inr (if ln_rules n = [] then doc_pop ''rules'' doc else doc))
         | BridgeNode n \<Rightarrow>
             if bc_ports (bn_bridge n) \<noteq> [] then Inr doc
             else doc_modify ''bridge'' (\<lambda>b. Inr (doc_pop ''ports'' b)) doc)))"

definition normalize_port :: "string \<times> bridge_port_config \<Rightarrow> pyobj \<Rightarrow> pyobj res" where
  "normalize_port entry ports_document = (case entry of (port_name, port) \<Rightarrow>
      if bpc_vlans port \<noteq> [] then Inr ports_document
      else doc_modify port_name (\<lambda>p. Inr (doc_pop ''vlans'' p)) ports_document)"

definition normalize_ports :: "node_config \<Rightarrow> pyobj \<Rightarrow> pyobj res" where
  "normalize_ports node node_document = (case node of
      LinuxNode n \<Rightarrow> Inr node_document
    | BridgeNode n \<Rightarrow>
        if bc_ports (bn_bridge n) = [] then Inr node_document
        else doc_modify ''bridge''
          (doc_modify ''ports'' (res_fold normalize_port (bc_ports (bn_bridge n)))) node_document)"

definition normalized_manifest :: "ext \<Rightarrow> manifest \<Rightarrow> pyobj res" where
  "normalized_manifest x m =
     doc_modify ''topology'' (doc_modify ''nodes'' (\<lambda>nodes.
       res_bind (res_fold (\<lambda>(name, node). doc_modify name (normalize_node node))
         (tp_nodes (mf_topology m)) nodes)
       (res_fold (\<lambda>(name, node). doc_modify name (normalize_ports node))
         (tp_nodes (mf_topology m)))))
     (x_model_dump x m)"

definition manifest_fingerprint :: "ext \<Rightarrow> manifest \<Rightarrow> string res" where
  "manifest_fingerprint x m =
     res_bind (normalized_manifest x m) (\<lambda>document. Inr (x_sha256 x (x_json_dumps x document)))"

section \<open>The parts of a node\<close>

definition policy_rule_fwmask :: "int option \<Rightarrow> int option \<Rightarrow> int option" where
  "policy_rule_fwmask fwmark fwmask = (case fwmark of
      None \<Rightarrow> None
    | Some _ \<Rightarrow> (case fwmask of None \<Rightarrow> Some 4294967295 | Some m \<Rightarrow> Some m))"

definition compile_vxlan :: "string \<Rightarrow> vxlan_device_config \<Rightarrow> vxlan_device_plan" where
  "compile_vxlan name config = \<lparr>
     vxlan_name = name,
     vxlan_vni = vxlanc_vni config,
     vxlan_link = vxlanc_link config,
     vxlan_local = vxlanc_local config,
     vxlan_remote = vxlanc_remote config,
     vxlan_dst_port = vxlanc_dst_port config,
     vxlan_learning = vxlanc_learning config,
     vxlan_mtu = vxlanc_mtu config,
     vxlan_addresses = ic_addresses config\<rparr>"

definition compile_geneve :: "string \<Rightarrow> geneve_device_config \<Rightarrow> geneve_device_plan" where
  "compile_geneve name config = \<lparr>
     geneve_name = name,
     geneve_vni = genevec_vni config,
     geneve_link = genevec_link config,
     geneve_remote = genevec_remote config,
     geneve_dst_port = genevec_dst_port config,
     geneve_mtu = genevec_mtu config,
     geneve_addresses = ic_addresses config\<rparr>"

definition compile_bond :: "string \<Rightarrow> bond_device_config \<Rightarrow> bond_device_plan" where
  "compile_bond name config =
     (let is_lacp = bondc_mode config = ''802.3ad'' in \<lparr>
       bond_name = name,
       bond_mode = bondc_mode config,
       bond_interfaces = bondc_interfaces config,
       bond_addresses = ic_addresses config,
       bond_miimon_ms = bondc_miimon_ms config,
       bond_primary = bondc_primary config,
       bond_lacp_rate = (if is_lacp
         then Some (case bondc_lacp_rate config of None \<Rightarrow> ''slow'' | Some r \<Rightarrow> r) else None),
       bond_xmit_hash_policy = (if is_lacp
         then Some (case bondc_xmit_hash_policy config of None \<Rightarrow> ''layer2'' | Some p \<Rightarrow> p) else None),
       bond_min_links = (if is_lacp
         then Some (case bondc_min_links config of None \<Rightarrow> 0 | Some n \<Rightarrow> n) else None)\<rparr>)"

fun compile_linux_device :: "string \<Rightarrow> linux_device_config \<Rightarrow> device_plan" where
  "compile_linux_device name (VlanConfig config) = VlanDevice \<lparr>
     vlan_name = name, vlan_link = vlanc_link config, vlan_vid = vlanc_id config,
     vlan_addresses = ic_addresses config\<rparr>"
| "compile_linux_device name (VrfConfig config) = VrfDevice \<lparr>
     vrf_name = name, vrf_table = vrfc_table config, vrf_interfaces = vrfc_interfaces config\<rparr>"
| "compile_linux_device name (VxlanConfig config) = VxlanDevice (compile_vxlan name config)"
| "compile_linux_device name (DummyConfig config) = DummyDevice \<lparr>
     dummy_name = name, dummy_mtu = dummyc_mtu config, dummy_addresses = ic_addresses config\<rparr>"
| "compile_linux_device name (GreConfig config) = GreDevice \<lparr>
     gre_name = name, gre_link = grec_link config, gre_local = grec_local config,
     gre_remote = grec_remote config, gre_key = grec_key config, gre_ttl = grec_ttl config,
     gre_mtu = grec_mtu config, gre_addresses = ic_addresses config\<rparr>"
| "compile_linux_device name (IpipConfig config) = IpipDevice \<lparr>
     ipip_name = name, ipip_link = ipipc_link config, ipip_local = ipipc_local config,
     ipip_remote = ipipc_remote config, ipip_ttl = ipipc_ttl config, ipip_mtu = ipipc_mtu config,
     ipip_addresses = ic_addresses config\<rparr>"
| "compile_linux_device name (GeneveConfig config) = GeneveDevice (compile_geneve name config)"
| "compile_linux_device name (MacvlanConfig config) = MacvlanDevice \<lparr>
     macvlan_name = name, macvlan_link = macvlanc_link config, macvlan_mode = macvlanc_mode config,
     macvlan_mtu = macvlanc_mtu config, macvlan_addresses = ic_addresses config\<rparr>"
| "compile_linux_device name (IpvlanConfig config) = IpvlanDevice \<lparr>
     ipvlan_name = name, ipvlan_link = ipvlanc_link config, ipvlan_mode = ipvlanc_mode config,
     ipvlan_mtu = ipvlanc_mtu config, ipvlan_addresses = ic_addresses config\<rparr>"
| "compile_linux_device name (BondConfig config) = BondDevice (compile_bond name config)"

fun compile_bridge_device :: "string \<Rightarrow> bridge_device_config \<Rightarrow> device_plan" where
  "compile_bridge_device name (BridgeVxlanConfig config) = VxlanDevice (compile_vxlan name config)"
| "compile_bridge_device name (BridgeGeneveConfig config) = GeneveDevice (compile_geneve name config)"

definition compile_devices :: "node_config \<Rightarrow> (string, device_plan) dict" where
  "compile_devices node = (case node of
      LinuxNode n \<Rightarrow> map (\<lambda>(name, config). (name, compile_linux_device name config)) (ln_devices n)
    | BridgeNode n \<Rightarrow> map (\<lambda>(name, config). (name, compile_bridge_device name config)) (bn_devices n))"

text \<open>\<open>config.mac\<close> of a device whose class extends \<open>InterfaceConfig\<close>: all but VRF.\<close>

fun linux_device_mac :: "linux_device_config \<Rightarrow> string option" where
  "linux_device_mac (VlanConfig c) = ic_mac c"
| "linux_device_mac (VrfConfig c) = None"
| "linux_device_mac (BondConfig c) = ic_mac c"
| "linux_device_mac (GreConfig c) = ic_mac c"
| "linux_device_mac (IpipConfig c) = ic_mac c"
| "linux_device_mac (VxlanConfig c) = ic_mac c"
| "linux_device_mac (DummyConfig c) = ic_mac c"
| "linux_device_mac (GeneveConfig c) = ic_mac c"
| "linux_device_mac (MacvlanConfig c) = ic_mac c"
| "linux_device_mac (IpvlanConfig c) = ic_mac c"

fun bridge_device_mac :: "bridge_device_config \<Rightarrow> string option" where
  "bridge_device_mac (BridgeVxlanConfig c) = ic_mac c"
| "bridge_device_mac (BridgeGeneveConfig c) = ic_mac c"

definition device_macs :: "node_config \<Rightarrow> (string \<times> string option) list" where
  "device_macs node = (case node of
      LinuxNode n \<Rightarrow> map (\<lambda>(name, config). (name, linux_device_mac config)) (ln_devices n)
    | BridgeNode n \<Rightarrow> map (\<lambda>(name, config). (name, bridge_device_mac config)) (bn_devices n))"

definition compile_mac_addresses :: "node_config \<Rightarrow> (string, string) dict" where
  "compile_mac_addresses node =
     dict_of (List.map_filter (\<lambda>(name, mac). map_option (Pair name) mac)
       (map (\<lambda>(name, config). (name, ic_mac config)) (nb_interfaces (node_base_of node)) @
        device_macs node))"

text \<open>The sysctls of a node: the declared ones, and the proxy switch of every proxy neighbor.\<close>

definition proxy_sysctl :: "neighbor_config \<Rightarrow> string" where
  "proxy_sysctl neighbor =
     (if ip_version (nc_dst neighbor) = 4
      then ''net.ipv4.conf.'' @ nc_dev neighbor @ ''.proxy_arp''
      else ''net.ipv6.conf.'' @ nc_dev neighbor @ ''.proxy_ndp'')"

definition compile_sysctls :: "node_base \<Rightarrow> (string, int) dict" where
  "compile_sysctls base =
     fold (\<lambda>neighbor d. if nc_proxy neighbor then dict_set (proxy_sysctl neighbor) 1 d else d)
       (nb_neighbors base) (nb_sysctls base)"

text \<open>
  \<open>tables_by_interface\<close>: the table of every member of a VRF device, the last device winning, and the
  routes with the table their interfaces belong to.
\<close>

definition tables_by_interface :: "(string, device_plan) dict \<Rightarrow> (string, int) dict" where
  "tables_by_interface devices =
     dict_of (concat (map (\<lambda>device. case device of
         VrfDevice d \<Rightarrow> map (\<lambda>i. (i, vrf_table d)) (vrf_interfaces d)
       | _ \<Rightarrow> []) (dict_values devices)))"

definition compile_route :: "(string, int) dict \<Rightarrow> route_config \<Rightarrow> route_plan res" where
  "compile_route tables route =
     (let nexthops = map (\<lambda>n. \<lparr>nh_via = nhc_via n, nh_dev = nhc_dev n, nh_weight = nhc_weight n\<rparr>)
        (rc_nexthops route)
      in res_bind
        (if nexthops \<noteq> [] then Inr (map nhc_dev (rc_nexthops route))
         else (case rc_dev route of None \<Rightarrow> Inl assertion_error | Some dev \<Rightarrow> Inr [dev]))
        (\<lambda>route_devices.
          let inferred_tables = remdups (map (\<lambda>i. case dict_get tables i of
            None \<Rightarrow> main_route_table | Some t \<Rightarrow> t) route_devices)
          in case inferred_tables of
               [inferred] \<Rightarrow> Inr \<lparr>
                 rt_dst = rc_dst route,
                 rt_via = rc_via route,
                 rt_dev = rc_dev route,
                 rt_table = (case rc_table route of None \<Rightarrow> inferred | Some t \<Rightarrow> t),
                 rt_nexthops = nexthops\<rparr>
             | _ \<Rightarrow> Inl assertion_error))"

definition compile_neighbor :: "neighbor_config \<Rightarrow> neighbor_plan" where
  "compile_neighbor neighbor = \<lparr>
     nb_dst = nc_dst neighbor,
     nb_dev = nc_dev neighbor,
     nb_lladdr = nc_lladdr neighbor,
     nb_state = (if nc_proxy neighbor then None
       else Some (case nc_state neighbor of None \<Rightarrow> ''permanent'' | Some s \<Rightarrow> s)),
     nb_proxy = nc_proxy neighbor\<rparr>"

text \<open>An option that Linux treats as absent when zero.\<close>

definition nonzero :: "int option \<Rightarrow> int option" where
  "nonzero v = (case v of None \<Rightarrow> None | Some n \<Rightarrow> if n = 0 then None else Some n)"

definition proper_prefix :: "ip_network option \<Rightarrow> ip_network option" where
  "proper_prefix v = (case v of None \<Rightarrow> None | Some n \<Rightarrow> if net_prefixlen n = 0 then None else Some n)"

definition compile_rule :: "policy_rule_config \<Rightarrow> policy_rule_plan" where
  "compile_rule rule = \<lparr>
     pr_priority = pc_priority rule,
     pr_family = rule_ip_version rule,
     pr_action = pc_action rule,
     pr_table = pc_table rule,
     pr_goto = pc_goto rule,
     pr_source = proper_prefix (pc_source rule),
     pr_destination = proper_prefix (pc_destination rule),
     pr_invert = pc_invert rule,
     pr_tos = nonzero (pc_tos rule),
     pr_fwmark = pc_fwmark rule,
     pr_fwmask = policy_rule_fwmask (pc_fwmark rule) (pc_fwmask rule),
     pr_iif = pc_iif rule,
     pr_oif = pc_oif rule,
     pr_l3mdev = pc_l3mdev rule,
     pr_uid_range = map_option (\<lambda>r. (urc_start r, urc_end r)) (pc_uid_range rule),
     pr_protocol = pc_protocol rule,
     pr_ip_protocol = nonzero (pc_ip_protocol rule),
     pr_source_port = map_option (\<lambda>r. (prc_start r, prc_end r)) (pc_source_port rule),
     pr_destination_port = map_option (\<lambda>r. (prc_start r, prc_end r)) (pc_destination_port rule),
     pr_tunnel_id = nonzero (pc_tunnel_id rule),
     pr_suppress_prefix_length = pc_suppress_prefix_length rule,
     pr_suppress_interface_group = pc_suppress_interface_group rule,
     pr_realms = map_option (\<lambda>r. (rmc_source r, rmc_destination r)) (pc_realms rule)\<rparr>"

definition compile_ospf :: "ospf_config \<Rightarrow> ospf_plan" where
  "compile_ospf config = \<lparr>
     op_router_id = oc_router_id config,
     op_area = oc_area config,
     op_networks = oc_networks config,
     op_passive_interfaces = oc_passive_interfaces config\<rparr>"

definition compile_bgp :: "bgp_config \<Rightarrow> bgp_plan" where
  "compile_bgp config = \<lparr>
     bgp_local_as = bgc_local_as config,
     bgp_router_id = bgc_router_id config,
     bgp_neighbors = map (\<lambda>n. \<lparr>bnp_address = bnc_address n, bnp_remote_as = bnc_remote_as n\<rparr>)
       (bgc_neighbors config),
     bgp_networks = bgc_networks config\<rparr>"

definition compile_pim :: "pim_config \<Rightarrow> pim_plan" where
  "compile_pim config = \<lparr>
     pim_rp_address = pmc_rp_address config,
     pim_interfaces = pmc_interfaces config,
     pim_igmp_interfaces = pmc_igmp_interfaces config\<rparr>"

definition compile_routing :: "routing_config option \<Rightarrow> routing_plan option" where
  "compile_routing c = map_option (\<lambda>config. \<lparr>
     rp_ospf = map_option compile_ospf (rtc_ospf config),
     rp_bgp = map_option compile_bgp (rtc_bgp config),
     rp_pim = map_option compile_pim (rtc_pim config)\<rparr>) c"

definition compile_bridge_port :: "bridge_port_config \<Rightarrow> bridge_port_plan" where
  "compile_bridge_port config = \<lparr>
     bp_path_cost = bpc_path_cost config,
     bp_priority = bpc_priority config,
     bp_vlans = map (\<lambda>v. \<lparr>bv_vid = bvc_vid v, bv_pvid = bvc_pvid v, bv_untagged = bvc_untagged v\<rparr>)
       (bpc_vlans config),
     bp_hairpin = bpc_hairpin config,
     bp_isolated = bpc_isolated config,
     bp_learning = bpc_learning config,
     bp_flood = bpc_flood config,
     bp_multicast_flood = bpc_multicast_flood config\<rparr>"

section \<open>Nodes, links and the plan\<close>

text \<open>The fields of a bridge node; \<open>None\<close> and the empty dict on a Linux node.\<close>

definition compile_bridge :: "node_config \<Rightarrow> node_plan \<Rightarrow> node_plan" where
  "compile_bridge node plan = (case node of
      LinuxNode n \<Rightarrow> plan
    | BridgeNode n \<Rightarrow> plan\<lparr>
        nd_bridge_name := Some (bc_name (bn_bridge n)),
        nd_stp := Some (bc_stp (bn_bridge n)),
        nd_vlan_filtering := Some (bc_vlan_filtering (bn_bridge n)),
        nd_bridge_priority := bc_priority (bn_bridge n),
        nd_bridge_ports := dict_map compile_bridge_port (bc_ports (bn_bridge n))\<rparr>)"

definition compile_node :: "ext \<Rightarrow> string \<Rightarrow> string \<Rightarrow> node_config \<Rightarrow> node_plan res" where
  "compile_node x deployment name node =
     (let base = node_base_of node; devices = compile_devices node in
      res_bind (res_map (compile_route (tables_by_interface devices)) (nb_routes base)) (\<lambda>routes.
      Inr (compile_bridge node \<lparr>
        nd_name = name,
        nd_kind = (case node of LinuxNode n \<Rightarrow> LinuxKind | BridgeNode n \<Rightarrow> BridgeKind),
        nd_namespace = namespace_name (x_blake2s x) deployment name,
        nd_interfaces = dict_map ic_addresses (nb_interfaces base),
        nd_routes = routes,
        nd_sysctls = compile_sysctls base,
        nd_mac_addresses = compile_mac_addresses node,
        nd_neighbors = map compile_neighbor (nb_neighbors base),
        nd_rules = (case node of LinuxNode n \<Rightarrow> map compile_rule (ln_rules n) | BridgeNode n \<Rightarrow> []),
        nd_devices = devices,
        nd_bridge_name = None,
        nd_stp = None,
        nd_vlan_filtering = None,
        nd_bridge_priority = None,
        nd_bridge_ports = [],
        nd_routing = compile_routing (nb_routing base)\<rparr>)))"

definition effective_deployment_name :: "manifest \<Rightarrow> string option \<Rightarrow> string res" where
  "effective_deployment_name m name_override = (case name_override of
      None \<Rightarrow> Inr (mf_name m)
    | Some name \<Rightarrow>
        if name_pattern name then Inr name
        else Inl (NslabError ''DEPLOYMENT_NAME_INVALID'' (''invalid deployment name: '' @ py_repr name)
          [(''name'', PStr name)]))"

definition compile_endpoint :: "string \<Rightarrow> string \<Rightarrow> (string, node_plan) dict \<Rightarrow> endpoint_plan res" where
  "compile_endpoint endpoint temporary_name nodes =
     (case partition_colon endpoint of (node, separator, interface) \<Rightarrow>
        if \<not> separator then Inl (value_error (''invalid planned endpoint: '' @ py_repr endpoint))
        else res_bind (res_of_option (key_error node) (dict_get nodes node)) (\<lambda>n. Inr \<lparr>
          ep_node = node,
          ep_interface = interface,
          ep_namespace = nd_namespace n,
          ep_temporary_name = temporary_name\<rparr>))"

definition compile_fq_codel :: "fq_codel_config \<Rightarrow> fq_codel_plan" where
  "compile_fq_codel config = \<lparr>
     fq_target_ms = fqc_target_ms config,
     fq_interval_ms = fqc_interval_ms config,
     fq_limit = fqc_limit config,
     fq_ecn = fqc_ecn config\<rparr>"

text \<open>\<open>config.model_dump(exclude={"kind"}, exclude_none=True)\<close>: the set options in declaration order.\<close>

definition simple_qdisc_options :: "simple_qdisc_config \<Rightarrow> (string, pyobj) dict" where
  "simple_qdisc_options c = List.map_filter (\<lambda>(k, v). map_option (Pair k) v)
     [(''limit'', map_option PInt (sqc_limit c)),
      (''target_ms'', map_option PInt (sqc_target_ms c)),
      (''interval_ms'', map_option PInt (sqc_interval_ms c)),
      (''flows'', map_option PInt (sqc_flows c)),
      (''quantum'', map_option PInt (sqc_quantum c)),
      (''perturb'', map_option PInt (sqc_perturb c)),
      (''min'', map_option PInt (sqc_min c)),
      (''max'', map_option PInt (sqc_max c)),
      (''avpkt'', map_option PInt (sqc_avpkt c)),
      (''burst'', map_option PInt (sqc_burst c)),
      (''probability'', map_option PFloat (sqc_probability c)),
      (''ecn'', map_option PBool (sqc_ecn c)),
      (''tupdate_ms'', map_option PInt (sqc_tupdate_ms c)),
      (''alpha'', map_option PInt (sqc_alpha c)),
      (''beta'', map_option PInt (sqc_beta c)),
      (''bytemode'', map_option PBool (sqc_bytemode c))]"

definition compile_simple_qdisc :: "simple_qdisc_config \<Rightarrow> simple_qdisc_plan" where
  "compile_simple_qdisc config = \<lparr>sq_kind = sqc_kind config, sq_options = simple_qdisc_options config\<rparr>"

fun compile_qdisc :: "qdisc_config \<Rightarrow> qdisc_plan" where
  "compile_qdisc (SimpleQdiscConfig config) = SimpleQdisc (compile_simple_qdisc config)"
| "compile_qdisc (TbfConfig config) = TbfQdisc \<lparr>
     tbf_rate = tbc_rate config, tbf_burst_bytes = tbc_burst config,
     tbf_latency_ms = tbc_latency_ms config\<rparr>"
| "compile_qdisc (FqCodelConfig config) = FqCodelQdisc (compile_fq_codel config)"
| "compile_qdisc (HtbConfig config) = HtbQdisc \<lparr>
     htb_rate = hbc_rate config,
     htb_leaf = (case hbc_leaf config of
       LeafFqCodelConfig leaf \<Rightarrow> LeafFqCodel (compile_fq_codel leaf)
     | LeafSimpleConfig leaf \<Rightarrow> LeafSimple (compile_simple_qdisc leaf))\<rparr>"
| "compile_qdisc (CakeConfig config) = CakeQdisc \<lparr>
     cake_bandwidth = ckc_bandwidth config, cake_flow_mode = ckc_flow_mode config,
     cake_diffserv_mode = ckc_diffserv_mode config, cake_rtt_ms = ckc_rtt_ms config,
     cake_nat = ckc_nat config\<rparr>"

definition compile_link :: "ext \<Rightarrow> string \<Rightarrow> (string, node_plan) dict \<Rightarrow> nat \<times> link_config \<Rightarrow> link_plan res" where
  "compile_link x deployment nodes entry = (case entry of (index, link) \<Rightarrow>
     (case temporary_veth_names (x_blake2s x) deployment index of (temporary_left, temporary_right) \<Rightarrow>
     (case lc_endpoints link of (left_endpoint, right_endpoint) \<Rightarrow>
       res_bind (compile_endpoint left_endpoint temporary_left nodes) (\<lambda>left.
       res_bind (compile_endpoint right_endpoint temporary_right nodes) (\<lambda>right. Inr \<lparr>
         lk_index = index,
         lk_left = left,
         lk_right = right,
         lk_mtu = lc_mtu link,
         lk_netem = map_option (\<lambda>n. \<lparr>ne_delay_ms = nec_delay_ms n, ne_jitter_ms = nec_jitter_ms n,
           ne_loss_percent = nec_loss_percent n, ne_rate = nec_rate n\<rparr>) (lc_netem link),
         lk_qdisc = map_option compile_qdisc (lc_qdisc link)\<rparr>)))))"

definition compile_plan :: "ext \<Rightarrow> manifest \<Rightarrow> string option \<Rightarrow> topology_plan res" where
  "compile_plan x m name_override =
     res_bind (effective_deployment_name m name_override) (\<lambda>deployment.
     res_bind (res_map (\<lambda>(name, node). res_bind (compile_node x deployment name node)
       (\<lambda>plan. Inr (name, plan))) (tp_nodes (mf_topology m))) (\<lambda>nodes.
     res_bind (res_map (compile_link x deployment nodes)
       (enumerate 0 (tp_links (mf_topology m)))) (\<lambda>links.
     res_bind (manifest_fingerprint x m) (\<lambda>fingerprint. Inr \<lparr>
       tpl_name = deployment,
       tpl_fingerprint = fingerprint,
       tpl_nodes = nodes,
       tpl_links = links\<rparr>))))"

end
