(* ===== verification/Inventory.thy ===== *)
theory Inventory
  imports Planner
begin

text \<open>
  The values of \<open>src/nslab/backend/base.py\<close>: what a backend observes of an interface, a namespace and
  the live topology, and what a plan expects of them. \<open>new_expected\<close> and \<open>new_interface\<close>
  are the class constructors with their defaults. The addresses of a device come as \<open>ip_address\<close>,
  as the inventory types them.
\<close>

section \<open>Observed state\<close>

record interface_inventory =
  iv_name :: string
  iv_kind :: string
  iv_ifindex :: "int option"
  iv_master :: "string option"
  iv_mtu :: int
  iv_up :: bool
  iv_addresses :: "ip_interface list"
  iv_mac :: "string option"
  iv_stp :: "bool option"
  iv_vlan_filtering :: "bool option"
  iv_bridge_priority :: "int option"
  iv_path_cost :: "int option"
  iv_port_priority :: "int option"
  iv_hairpin :: "bool option"
  iv_isolated :: "bool option"
  iv_learning :: "bool option"
  iv_flood :: "bool option"
  iv_multicast_flood :: "bool option"
  iv_bridge_vlans :: "bridge_vlan_plan list"
  iv_netem :: "netem_plan option"
  iv_qdisc :: "qdisc_plan option"
  iv_link_id :: "string option"
  iv_parent :: "string option"
  iv_vlan_id :: "int option"
  iv_vrf_table :: "int option"
  iv_bond_mode :: "string option"
  iv_bond_miimon_ms :: "int option"
  iv_bond_primary :: "string option"
  iv_bond_lacp_rate :: "string option"
  iv_bond_xmit_hash_policy :: "string option"
  iv_bond_min_links :: "int option"
  iv_vxlan_vni :: "int option"
  iv_vxlan_link :: "string option"
  iv_vxlan_local :: "ip_address option"
  iv_vxlan_remote :: "ip_address option"
  iv_vxlan_dst_port :: "int option"
  iv_vxlan_learning :: "bool option"
  iv_geneve_vni :: "int option"
  iv_geneve_link :: "string option"
  iv_geneve_remote :: "ip_address option"
  iv_geneve_dst_port :: "int option"
  iv_gre_link :: "string option"
  iv_gre_local :: "ip_address option"
  iv_gre_remote :: "ip_address option"
  iv_gre_key :: "int option"
  iv_gre_ttl :: "int option"
  iv_ipip_link :: "string option"
  iv_ipip_local :: "ip_address option"
  iv_ipip_remote :: "ip_address option"
  iv_ipip_ttl :: "int option"
  iv_macvlan_mode :: "string option"
  iv_ipvlan_mode :: "string option"

definition new_interface :: "string \<Rightarrow> string \<Rightarrow> int option \<Rightarrow> string option \<Rightarrow> int \<Rightarrow> bool \<Rightarrow> interface_inventory" where
  "new_interface name kind ifindex master mtu up = \<lparr>
     iv_name = name,
     iv_kind = kind,
     iv_ifindex = ifindex,
     iv_master = master,
     iv_mtu = mtu,
     iv_up = up,
     iv_addresses = [],
     iv_mac = None,
     iv_stp = None,
     iv_vlan_filtering = None,
     iv_bridge_priority = None,
     iv_path_cost = None,
     iv_port_priority = None,
     iv_hairpin = None,
     iv_isolated = None,
     iv_learning = None,
     iv_flood = None,
     iv_multicast_flood = None,
     iv_bridge_vlans = [],
     iv_netem = None,
     iv_qdisc = None,
     iv_link_id = None,
     iv_parent = None,
     iv_vlan_id = None,
     iv_vrf_table = None,
     iv_bond_mode = None,
     iv_bond_miimon_ms = None,
     iv_bond_primary = None,
     iv_bond_lacp_rate = None,
     iv_bond_xmit_hash_policy = None,
     iv_bond_min_links = None,
     iv_vxlan_vni = None,
     iv_vxlan_link = None,
     iv_vxlan_local = None,
     iv_vxlan_remote = None,
     iv_vxlan_dst_port = None,
     iv_vxlan_learning = None,
     iv_geneve_vni = None,
     iv_geneve_link = None,
     iv_geneve_remote = None,
     iv_geneve_dst_port = None,
     iv_gre_link = None,
     iv_gre_local = None,
     iv_gre_remote = None,
     iv_gre_key = None,
     iv_gre_ttl = None,
     iv_ipip_link = None,
     iv_ipip_local = None,
     iv_ipip_remote = None,
     iv_ipip_ttl = None,
     iv_macvlan_mode = None,
     iv_ipvlan_mode = None\<rparr>"

record namespace_inventory =
  ni_node :: string
  ni_kind :: node_kind
  ni_namespace :: string
  ni_exists :: bool
  ni_interfaces :: "(string, interface_inventory) dict"
  ni_routes :: "route_plan list"
  ni_sysctls :: "(string, int) dict"
  ni_rules :: "policy_rule_plan list"
  ni_neighbors :: "neighbor_plan list"

record live_inventory =
  li_namespaces :: "(string, namespace_inventory) dict"
  li_root_interfaces :: "(string, interface_inventory) dict"

record exec_result =
  xr_argv :: "string list"
  xr_returncode :: int
  xr_stdout :: string
  xr_stderr :: string

section \<open>Expected state\<close>

record expected_interface =
  ex_kind :: string
  ex_master :: "string option"
  ex_mtu :: "int option"
  ex_up :: bool
  ex_addresses :: "ip_interface list"
  ex_mac :: "string option"
  ex_stp :: "bool option"
  ex_vlan_filtering :: "bool option"
  ex_bridge_priority :: "int option"
  ex_path_cost :: "int option"
  ex_port_priority :: "int option"
  ex_hairpin :: "bool option"
  ex_isolated :: "bool option"
  ex_learning :: "bool option"
  ex_flood :: "bool option"
  ex_multicast_flood :: "bool option"
  ex_bridge_vlans :: "bridge_vlan_plan list"
  ex_netem :: "netem_plan option"
  ex_qdisc :: "qdisc_plan option"
  ex_parent :: "string option"
  ex_vlan_id :: "int option"
  ex_vrf_table :: "int option"
  ex_bond_mode :: "string option"
  ex_bond_miimon_ms :: "int option"
  ex_bond_primary :: "string option"
  ex_bond_lacp_rate :: "string option"
  ex_bond_xmit_hash_policy :: "string option"
  ex_bond_min_links :: "int option"
  ex_vxlan_vni :: "int option"
  ex_vxlan_link :: "string option"
  ex_vxlan_local :: "ip_address option"
  ex_vxlan_remote :: "ip_address option"
  ex_vxlan_dst_port :: "int option"
  ex_vxlan_learning :: "bool option"
  ex_geneve_vni :: "int option"
  ex_geneve_link :: "string option"
  ex_geneve_remote :: "ip_address option"
  ex_geneve_dst_port :: "int option"
  ex_gre_link :: "string option"
  ex_gre_local :: "ip_address option"
  ex_gre_remote :: "ip_address option"
  ex_gre_key :: "int option"
  ex_gre_ttl :: "int option"
  ex_ipip_link :: "string option"
  ex_ipip_local :: "ip_address option"
  ex_ipip_remote :: "ip_address option"
  ex_ipip_ttl :: "int option"
  ex_macvlan_mode :: "string option"
  ex_ipvlan_mode :: "string option"

definition new_expected :: "string \<Rightarrow> string option \<Rightarrow> int option \<Rightarrow> bool \<Rightarrow> ip_interface list \<Rightarrow> expected_interface" where
  "new_expected kind master mtu up addresses = \<lparr>
     ex_kind = kind,
     ex_master = master,
     ex_mtu = mtu,
     ex_up = up,
     ex_addresses = addresses,
     ex_mac = None,
     ex_stp = None,
     ex_vlan_filtering = None,
     ex_bridge_priority = None,
     ex_path_cost = None,
     ex_port_priority = None,
     ex_hairpin = None,
     ex_isolated = None,
     ex_learning = None,
     ex_flood = None,
     ex_multicast_flood = None,
     ex_bridge_vlans = [],
     ex_netem = None,
     ex_qdisc = None,
     ex_parent = None,
     ex_vlan_id = None,
     ex_vrf_table = None,
     ex_bond_mode = None,
     ex_bond_miimon_ms = None,
     ex_bond_primary = None,
     ex_bond_lacp_rate = None,
     ex_bond_xmit_hash_policy = None,
     ex_bond_min_links = None,
     ex_vxlan_vni = None,
     ex_vxlan_link = None,
     ex_vxlan_local = None,
     ex_vxlan_remote = None,
     ex_vxlan_dst_port = None,
     ex_vxlan_learning = None,
     ex_geneve_vni = None,
     ex_geneve_link = None,
     ex_geneve_remote = None,
     ex_geneve_dst_port = None,
     ex_gre_link = None,
     ex_gre_local = None,
     ex_gre_remote = None,
     ex_gre_key = None,
     ex_gre_ttl = None,
     ex_ipip_link = None,
     ex_ipip_local = None,
     ex_ipip_remote = None,
     ex_ipip_ttl = None,
     ex_macvlan_mode = None,
     ex_ipvlan_mode = None\<rparr>"

section \<open>What a plan expects\<close>

definition expected_bridge_port_vlans :: "node_plan \<Rightarrow> string \<Rightarrow> bridge_vlan_plan list" where
  "expected_bridge_port_vlans node interface =
     (if nd_kind node \<noteq> BridgeKind \<or> nd_vlan_filtering node \<noteq> Some True \<or>
         node_interface_master node interface \<noteq> nd_bridge_name node
      then []
      else (case dict_get (nd_bridge_ports node) interface of
          Some port \<Rightarrow> if bp_vlans port \<noteq> [] then bp_vlans port
            else [\<lparr>bv_vid = 1, bv_pvid = True, bv_untagged = True\<rparr>]
        | None \<Rightarrow> [\<lparr>bv_vid = 1, bv_pvid = True, bv_untagged = True\<rparr>]))"

definition loopback_network :: ip_network where
  "loopback_network = IPNetwork (IPv4Address (ipv4_of 127 0 0 0)) 8"

definition loopback_interface :: ip_interface where
  "loopback_interface = IPInterface (IPv4Address (ipv4_of 127 0 0 1)) 8"

definition connected_route :: "ip_network \<Rightarrow> string \<Rightarrow> int \<Rightarrow> route_plan" where
  "connected_route dst dev table = \<lparr>rt_dst = dst, rt_via = None, rt_dev = Some dev,
     rt_table = table, rt_nexthops = []\<rparr>"

definition expected_routes :: "node_plan \<Rightarrow> route_plan list res" where
  "expected_routes node =
     res_bind
       (res_map (\<lambda>(interface, address). res_bind (node_interface_route_table node interface)
            (\<lambda>table. Inr (connected_route (if_network address) interface table)))
          (concat (map (\<lambda>(interface, addresses). map (Pair interface) addresses)
            (node_interface_addresses node))))
       (\<lambda>connected. Inr (dedup (connected_route loopback_network ''lo'' main_route_table #
          connected @ nd_routes node)))"

definition expected_main_table_routes :: "node_plan \<Rightarrow> route_plan list res" where
  "expected_main_table_routes node = expected_routes node"

text \<open>\<open>None if port is None else port.path_cost\<close> and its like.\<close>

definition expect_port :: "bridge_port_plan option \<Rightarrow> expected_interface \<Rightarrow> expected_interface" where
  "expect_port port e = e\<lparr>
     ex_path_cost := Option.bind port bp_path_cost,
     ex_port_priority := Option.bind port bp_priority,
     ex_hairpin := Option.bind port bp_hairpin,
     ex_isolated := Option.bind port bp_isolated,
     ex_learning := Option.bind port bp_learning,
     ex_flood := Option.bind port bp_flood,
     ex_multicast_flood := Option.bind port bp_multicast_flood\<rparr>"

definition expected_loopback :: expected_interface where
  "expected_loopback = (new_expected ''loopback'' None None True [loopback_interface])"

text \<open>\<open>node.interfaces.get(name, ())\<close>.\<close>

definition interface_addresses :: "node_plan \<Rightarrow> string \<Rightarrow> ip_interface list" where
  "interface_addresses node interface =
     (case dict_get (nd_interfaces node) interface of None \<Rightarrow> [] | Some a \<Rightarrow> a)"

definition expected_bridge :: "node_plan \<Rightarrow> string \<Rightarrow> expected_interface" where
  "expected_bridge node bridge_name =
     (new_expected ''bridge'' None None True (interface_addresses node bridge_name))\<lparr>
       ex_stp := nd_stp node,
       ex_vlan_filtering := nd_vlan_filtering node,
       ex_bridge_priority := nd_bridge_priority node\<rparr>"

definition expected_veth :: "node_plan \<Rightarrow> link_plan \<Rightarrow> string \<Rightarrow> expected_interface" where
  "expected_veth node link interface =
     (expect_port (dict_get (nd_bridge_ports node) interface)
       (new_expected ''veth'' (node_interface_master node interface) (Some (lk_mtu link)) True
         (interface_addresses node interface)))\<lparr>
       ex_bridge_vlans := expected_bridge_port_vlans node interface,
       ex_netem := lk_netem link,
       ex_qdisc := lk_qdisc link\<rparr>"

fun expected_device :: "node_plan \<Rightarrow> topology_plan \<Rightarrow> device_plan \<Rightarrow> expected_interface res" where
  "expected_device node plan (VlanDevice device) = Inr
     ((new_expected ''vlan'' (node_interface_master node (vlan_name device)) None True
        (vlan_addresses device))\<lparr>
        ex_parent := Some (vlan_link device), ex_vlan_id := Some (vlan_vid device)\<rparr>)"
| "expected_device node plan (VrfDevice device) = Inr
     ((new_expected ''vrf'' None None True [])\<lparr>ex_vrf_table := Some (vrf_table device)\<rparr>)"
| "expected_device node plan (BondDevice device) =
     res_bind (bond_device_mtu node plan device) (\<lambda>mtu. Inr
     ((new_expected ''bond'' (node_interface_master node (bond_name device)) (Some mtu) True
        (bond_addresses device))\<lparr>
        ex_bond_mode := Some (bond_mode device),
        ex_bond_miimon_ms := Some (bond_miimon_ms device),
        ex_bond_primary := bond_primary device,
        ex_bond_lacp_rate := bond_lacp_rate device,
        ex_bond_xmit_hash_policy := bond_xmit_hash_policy device,
        ex_bond_min_links := bond_min_links device\<rparr>))"
| "expected_device node plan (GreDevice device) =
     res_bind (gre_device_mtu node plan device) (\<lambda>mtu. Inr
     ((new_expected ''gre'' (node_interface_master node (gre_name device)) (Some mtu) True
        (gre_addresses device))\<lparr>
        ex_gre_link := Some (gre_link device),
        ex_gre_local := Some (IPv4Address (gre_local device)),
        ex_gre_remote := Some (IPv4Address (gre_remote device)),
        ex_gre_key := gre_key device,
        ex_gre_ttl := Some (gre_ttl device)\<rparr>))"
| "expected_device node plan (IpipDevice device) =
     res_bind (ipip_device_mtu node plan device) (\<lambda>mtu. Inr
     ((new_expected ''ipip'' (node_interface_master node (ipip_name device)) (Some mtu) True
        (ipip_addresses device))\<lparr>
        ex_ipip_link := Some (ipip_link device),
        ex_ipip_local := Some (IPv4Address (ipip_local device)),
        ex_ipip_remote := Some (IPv4Address (ipip_remote device)),
        ex_ipip_ttl := Some (ipip_ttl device)\<rparr>))"
| "expected_device node plan (DummyDevice device) = Inr
     (new_expected ''dummy'' (node_interface_master node (dummy_name device))
        (Some (dummy_device_mtu node plan device)) True (dummy_addresses device))"
| "expected_device node plan (GeneveDevice device) =
     res_bind (geneve_device_mtu node plan device) (\<lambda>mtu. Inr
     ((expect_port (dict_get (nd_bridge_ports node) (geneve_name device))
        (new_expected ''geneve'' (node_interface_master node (geneve_name device)) (Some mtu) True
          (geneve_addresses device)))\<lparr>
        ex_bridge_vlans := expected_bridge_port_vlans node (geneve_name device),
        ex_geneve_vni := Some (geneve_vni device),
        ex_geneve_link := Some (geneve_link device),
        ex_geneve_remote := Some (geneve_remote device),
        ex_geneve_dst_port := Some (geneve_dst_port device)\<rparr>))"
| "expected_device node plan (MacvlanDevice device) =
     res_bind (macvlan_device_mtu node plan device) (\<lambda>mtu. Inr
     ((new_expected ''macvlan'' (node_interface_master node (macvlan_name device)) (Some mtu) True
        (macvlan_addresses device))\<lparr>
        ex_parent := Some (macvlan_link device),
        ex_macvlan_mode := Some (macvlan_mode device)\<rparr>))"
| "expected_device node plan (IpvlanDevice device) =
     res_bind (ipvlan_device_mtu node plan device) (\<lambda>mtu. Inr
     ((new_expected ''ipvlan'' (node_interface_master node (ipvlan_name device)) (Some mtu) True
        (ipvlan_addresses device))\<lparr>
        ex_parent := Some (ipvlan_link device),
        ex_ipvlan_mode := Some (ipvlan_mode device)\<rparr>))"
| "expected_device node plan (VxlanDevice device) =
     res_bind (vxlan_device_mtu node plan device) (\<lambda>mtu. Inr
     ((expect_port (dict_get (nd_bridge_ports node) (vxlan_name device))
        (new_expected ''vxlan'' (node_interface_master node (vxlan_name device)) (Some mtu) True
          (vxlan_addresses device)))\<lparr>
        ex_bridge_vlans := expected_bridge_port_vlans node (vxlan_name device),
        ex_vxlan_vni := Some (vxlan_vni device),
        ex_vxlan_link := Some (vxlan_link device),
        ex_vxlan_local := Some (vxlan_local device),
        ex_vxlan_remote := Some (vxlan_remote device),
        ex_vxlan_dst_port := Some (vxlan_dst_port device),
        ex_vxlan_learning := Some (vxlan_learning device)\<rparr>))"

text \<open>The links of a namespace: every endpoint in it with its link, in the order of the plan.\<close>

definition namespace_endpoints :: "topology_plan \<Rightarrow> string \<Rightarrow> (link_plan \<times> endpoint_plan) list" where
  "namespace_endpoints plan namespace =
     filter (\<lambda>(link, endpoint). ep_namespace endpoint = namespace)
       (concat (map (\<lambda>link. map (Pair link) (link_endpoints link)) (tpl_links plan)))"

definition expected_interfaces ::
    "node_plan \<Rightarrow> topology_plan \<Rightarrow> (string, expected_interface) dict res" where
  "expected_interfaces node plan =
     res_bind
       (case nd_kind node of
          LinuxKind \<Rightarrow> Inr [(''lo'', expected_loopback)]
        | BridgeKind \<Rightarrow> (case nd_bridge_name node of
            None \<Rightarrow> Inl assertion_error
          | Some bridge_name \<Rightarrow>
              Inr (dict_set bridge_name (expected_bridge node bridge_name)
                [(''lo'', expected_loopback)])))
       (\<lambda>expected.
     let expected = fold (\<lambda>(link, endpoint). dict_set (ep_interface endpoint)
           (expected_veth node link (ep_interface endpoint)))
         (namespace_endpoints plan (nd_namespace node)) expected
     in res_bind (res_fold (\<lambda>device expected. res_bind (expected_device node plan device)
           (\<lambda>e. Inr (dict_set (device_name device) e expected)))
         (dict_values (nd_devices node)) expected)
       (\<lambda>expected. Inr (map (\<lambda>(name, interface).
           (name, interface\<lparr>ex_mac := dict_get (nd_mac_addresses node) name\<rparr>)) expected)))"

definition runtime_managed_interface_names :: "node_plan \<Rightarrow> string list" where
  "runtime_managed_interface_names node = (case nd_routing node of
      Some r \<Rightarrow> if rp_pim r \<noteq> None then [pim_register_interface_name] else []
    | None \<Rightarrow> [])"

end
