(* ===== verification/Tc_Qdisc.thy ===== *)
theory Tc_Qdisc
  imports Planner
begin

text \<open>
  \<open>simple_qdisc_matches\<close> of \<open>src/nslab/backend/tc_qdisc.py\<close>: whether an observed qdisc satisfies a
  desired one, with RED's derived parameters. Floating-point arithmetic is exact rational arithmetic
  here; the two pyroute2 functions it calls are fields of \<open>ext\<close>.
\<close>

definition integer_option :: "(string, pyobj) dict \<Rightarrow> string \<Rightarrow> int option \<Rightarrow> int option" where
  "integer_option options name fallback = (case dict_get options name of
      None \<Rightarrow> fallback | Some (PInt n) \<Rightarrow> Some n | Some _ \<Rightarrow> None)"

definition pow_half :: "int \<Rightarrow> rat" where
  "pow_half n = (if n < 0 then 2 ^ nat (- n) else (1 / 2) ^ nat n)"

text \<open>\<open>None\<close> where the code raises \<open>KeyError\<close>, \<open>TypeError\<close>, \<open>ValueError\<close> or \<open>ArithmeticError\<close>.\<close>

definition red_effective_options :: "ext \<Rightarrow> (string, pyobj) dict \<Rightarrow> (string, pyobj) dict option" where
  "red_effective_options x options =
     Option.bind (integer_option options ''limit'' None) (\<lambda>limit.
     Option.bind (integer_option options ''avpkt'' None) (\<lambda>avpkt.
     Option.bind (integer_option options ''min'' (Some 0)) (\<lambda>minimum.
     Option.bind (integer_option options ''max'' (Some 0)) (\<lambda>maximum.
     let maximum = (if maximum \<noteq> 0 then maximum
           else if minimum \<noteq> 0 then minimum * 3 else limit div 4);
         minimum = (if minimum \<noteq> 0 then minimum else maximum div 3)
     in Option.bind (integer_option options ''burst'' (Some 0)) (\<lambda>burst.
        if avpkt = 0 then None
        else let burst = (if burst \<noteq> 0 then burst else (2 * minimum + maximum) div (3 * avpkt));
                 a = of_int burst + 1 - of_int minimum / of_int avpkt :: rat
        in if a < 1 then None
        else let ewma = (if a \<le> (1 - pow_half burst) / (1 / 2) then 1
                   else x_red_eval_ewma x minimum burst avpkt)
        in if \<not> (1 \<le> ewma \<and> ewma < 32) then None
        else let scell_log = x_red_eval_idle_damping x ewma avpkt 1250000
        in if \<not> (0 \<le> scell_log \<and> scell_log < 32) then None
        else Some (dict_update
          [(''min'', PInt minimum), (''max'', PInt maximum), (''ewma'', PInt ewma),
           (''Scell_log'', PInt scell_log),
           (''probability'', case dict_get options ''probability'' of
              None \<Rightarrow> PFloat (Finite (1 / 50)) | Some p \<Rightarrow> p),
           (''ecn'', case dict_get options ''ecn'' of None \<Rightarrow> PBool False | Some e \<Rightarrow> e),
           (''harddrop'', PBool False), (''adaptive'', PBool False), (''nodrop'', PBool False)]
          (filter (\<lambda>(name, v). name \<notin> {''avpkt'', ''burst''}) options)))))))"

fun is_number :: "pyobj \<Rightarrow> bool" where
  "is_number (PBool b) = True"
| "is_number (PInt i) = True"
| "is_number (PFloat f) = True"
| "is_number _ = False"

text \<open>\<open>math.isclose(a, b, rel_tol=5e-6, abs_tol=1 / 2**32)\<close>; infinities are close to themselves only.\<close>

definition is_close :: "pyobj \<Rightarrow> pyobj \<Rightarrow> bool" where
  "is_close a b = (case (num_value a, num_value b) of
      (Some p, Some q) \<Rightarrow> (let diff = \<bar>q - p\<bar>; rel = 5 / 1000000 :: rat in
        diff \<le> rel * \<bar>q\<bar> \<or> diff \<le> rel * \<bar>p\<bar> \<or> diff \<le> 1 / 4294967296)
    | _ \<Rightarrow> py_eq a b)"

definition qdisc_option_matches :: "string \<Rightarrow> (string, pyobj) dict \<Rightarrow> string \<times> pyobj \<Rightarrow> bool" where
  "qdisc_option_matches kind observed entry = (case entry of (name, value) \<Rightarrow>
     (case dict_get observed name of
        None \<Rightarrow> False
      | Some actual \<Rightarrow>
          if kind = ''red'' \<and> name = ''probability''
          then is_number actual \<and> is_number value \<and> is_close value actual
          else py_eq value actual))"

definition simple_qdisc_matches :: "ext \<Rightarrow> simple_qdisc_plan \<Rightarrow> simple_qdisc_plan \<Rightarrow> bool" where
  "simple_qdisc_matches x desired observed =
     (if sq_kind desired \<noteq> sq_kind observed then False
      else if simple_qdisc_eq desired observed then True
      else (case (if sq_kind desired = ''red'' then red_effective_options x (sq_options desired)
                  else Some (sq_options desired)) of
          None \<Rightarrow> False
        | Some expected \<Rightarrow> list_all (qdisc_option_matches (sq_kind desired) (sq_options observed)) expected))"

end
