(* ===== verification/Match.thy ===== *)
theory Match
  imports Inventory Tc_Qdisc
begin

text \<open>
  The comparison of live state with a plan, from \<open>src/nslab/backend/base.py\<close>: interfaces, qdiscs,
  routes, neighbors, sysctls, the identities of veth pairs, and \<open>inventory_matches_plan\<close>, which
  combines them. A comparison that reads a value the plan lacks raises, so it is of type
  \<open>bool res\<close>.
\<close>

section \<open>Qdiscs\<close>

fun htb_leaf_matches :: "ext \<Rightarrow> htb_leaf_plan \<Rightarrow> htb_leaf_plan \<Rightarrow> bool" where
  "htb_leaf_matches x (LeafSimple desired) (LeafSimple observed) = simple_qdisc_matches x desired observed"
| "htb_leaf_matches x (LeafFqCodel desired) (LeafFqCodel observed) = (desired = observed)"
| "htb_leaf_matches x _ _ = False"

fun qdisc_plan_matches :: "ext \<Rightarrow> qdisc_plan \<Rightarrow> qdisc_plan \<Rightarrow> bool" where
  "qdisc_plan_matches x (SimpleQdisc desired) (SimpleQdisc observed) =
     simple_qdisc_matches x desired observed"
| "qdisc_plan_matches x (HtbQdisc desired) (HtbQdisc observed) =
     (htb_rate desired = htb_rate observed \<and>
      htb_leaf_matches x (htb_leaf desired) (htb_leaf observed))"
| "qdisc_plan_matches x (TbfQdisc desired) (TbfQdisc observed) =
     (let burst_tolerance = max 2 (tbf_burst_bytes desired div 1000) in
      tbf_rate desired = tbf_rate observed \<and>
      \<bar>tbf_burst_bytes desired - tbf_burst_bytes observed\<bar> \<le> burst_tolerance \<and>
      \<bar>tbf_latency_ms desired - tbf_latency_ms observed\<bar> \<le> 1)"
| "qdisc_plan_matches x (FqCodelQdisc desired) (FqCodelQdisc observed) = (desired = observed)"
| "qdisc_plan_matches x (CakeQdisc desired) (CakeQdisc observed) = (desired = observed)"
| "qdisc_plan_matches x _ _ = False"

definition qdisc_matches :: "ext \<Rightarrow> qdisc_plan option \<Rightarrow> qdisc_plan option \<Rightarrow> bool" where
  "qdisc_matches x desired observed = (case (desired, observed) of
      (None, None) \<Rightarrow> True
    | (Some d, Some ob) \<Rightarrow> qdisc_plan_matches x d ob
    | _ \<Rightarrow> False)"

section \<open>Interfaces\<close>

text \<open>A field that is compared only where the plan sets it.\<close>

definition unset_or_equal :: "'a option \<Rightarrow> 'a option \<Rightarrow> bool" where
  "unset_or_equal desired observed \<longleftrightarrow> desired = None \<or> observed = desired"

text \<open>The fields every kind of interface has.\<close>

definition common_fields_match :: "ext \<Rightarrow> expected_interface \<Rightarrow> interface_inventory \<Rightarrow> bool" where
  "common_fields_match x desired observed \<longleftrightarrow>
     iv_kind observed = ex_kind desired \<and>
     iv_master observed = ex_master desired \<and>
     unset_or_equal (ex_mtu desired) (Some (iv_mtu observed)) \<and>
     iv_up observed = ex_up desired \<and>
     set (iv_addresses observed) = set (ex_addresses desired) \<and>
     unset_or_equal (ex_mac desired) (iv_mac observed) \<and>
     iv_stp observed = ex_stp desired \<and>
     iv_vlan_filtering observed = ex_vlan_filtering desired \<and>
     unset_or_equal (ex_bridge_priority desired) (iv_bridge_priority observed) \<and>
     unset_or_equal (ex_path_cost desired) (iv_path_cost observed) \<and>
     unset_or_equal (ex_port_priority desired) (iv_port_priority observed) \<and>
     unset_or_equal (ex_hairpin desired) (iv_hairpin observed) \<and>
     unset_or_equal (ex_isolated desired) (iv_isolated observed) \<and>
     unset_or_equal (ex_learning desired) (iv_learning observed) \<and>
     unset_or_equal (ex_flood desired) (iv_flood observed) \<and>
     unset_or_equal (ex_multicast_flood desired) (iv_multicast_flood observed) \<and>
     iv_bridge_vlans observed = ex_bridge_vlans desired \<and>
     iv_netem observed = ex_netem desired \<and>
     qdisc_matches x (ex_qdisc desired) (iv_qdisc observed)"

text \<open>
  The fields of one kind of device. Linux reports no underlay for a Geneve device, so its link is
  compared only where the inventory has one.
\<close>

definition device_fields_match :: "expected_interface \<Rightarrow> interface_inventory \<Rightarrow> bool" where
  "device_fields_match desired observed \<longleftrightarrow>
     iv_parent observed = ex_parent desired \<and>
     iv_vlan_id observed = ex_vlan_id desired \<and>
     iv_vrf_table observed = ex_vrf_table desired \<and>
     iv_bond_mode observed = ex_bond_mode desired \<and>
     iv_bond_miimon_ms observed = ex_bond_miimon_ms desired \<and>
     iv_bond_primary observed = ex_bond_primary desired \<and>
     iv_bond_lacp_rate observed = ex_bond_lacp_rate desired \<and>
     iv_bond_xmit_hash_policy observed = ex_bond_xmit_hash_policy desired \<and>
     iv_bond_min_links observed = ex_bond_min_links desired \<and>
     iv_vxlan_vni observed = ex_vxlan_vni desired \<and>
     iv_vxlan_link observed = ex_vxlan_link desired \<and>
     iv_vxlan_local observed = ex_vxlan_local desired \<and>
     iv_vxlan_remote observed = ex_vxlan_remote desired \<and>
     iv_vxlan_dst_port observed = ex_vxlan_dst_port desired \<and>
     iv_vxlan_learning observed = ex_vxlan_learning desired \<and>
     iv_geneve_vni observed = ex_geneve_vni desired \<and>
     (iv_geneve_link observed \<noteq> None \<longrightarrow> iv_geneve_link observed = ex_geneve_link desired) \<and>
     iv_geneve_remote observed = ex_geneve_remote desired \<and>
     iv_geneve_dst_port observed = ex_geneve_dst_port desired \<and>
     iv_gre_link observed = ex_gre_link desired \<and>
     iv_gre_local observed = ex_gre_local desired \<and>
     iv_gre_remote observed = ex_gre_remote desired \<and>
     iv_gre_key observed = ex_gre_key desired \<and>
     iv_gre_ttl observed = ex_gre_ttl desired \<and>
     iv_ipip_link observed = ex_ipip_link desired \<and>
     iv_ipip_local observed = ex_ipip_local desired \<and>
     iv_ipip_remote observed = ex_ipip_remote desired \<and>
     iv_ipip_ttl observed = ex_ipip_ttl desired \<and>
     iv_macvlan_mode observed = ex_macvlan_mode desired \<and>
     iv_ipvlan_mode observed = ex_ipvlan_mode desired"

definition interface_matches :: "ext \<Rightarrow> string \<Rightarrow> expected_interface \<Rightarrow> interface_inventory \<Rightarrow> bool" where
  "interface_matches x name desired observed \<longleftrightarrow>
     iv_name observed = name \<and> common_fields_match x desired observed \<and>
     device_fields_match desired observed"

definition interfaces_match ::
    "ext \<Rightarrow> (string, expected_interface) dict \<Rightarrow> (string, interface_inventory) dict \<Rightarrow> bool" where
  "interfaces_match x expected actual \<longleftrightarrow>
     set (dict_keys actual) = set (dict_keys expected) \<and>
     list_all (\<lambda>(name, desired). case dict_get actual name of
        None \<Rightarrow> False | Some observed \<Rightarrow> interface_matches x name desired observed) expected"

section \<open>Routes, sysctls and neighbors\<close>

definition routes_match :: "node_plan \<Rightarrow> route_plan list \<Rightarrow> route_plan list \<Rightarrow> bool" where
  "routes_match node desired actual \<longleftrightarrow>
     (if nd_routing node \<noteq> None then set desired \<subseteq> set actual else set actual = set desired)"

definition declared_sysctls_match :: "(string, int) dict \<Rightarrow> (string, int) dict \<Rightarrow> bool" where
  "declared_sysctls_match desired actual \<longleftrightarrow>
     list_all (\<lambda>(key, v). dict_get actual key = Some v) desired"

definition healthy_dynamic_neighbor_states :: "string list" where
  "healthy_dynamic_neighbor_states = [''reachable'', ''stale'', ''delay'', ''probe'']"

definition neighbor_matches :: "neighbor_plan \<Rightarrow> neighbor_plan \<Rightarrow> bool" where
  "neighbor_matches expected observed \<longleftrightarrow>
     nb_lladdr observed = nb_lladdr expected \<and>
     nb_proxy observed = nb_proxy expected \<and>
     (if nb_state expected \<in> {Some ''reachable'', Some ''stale''}
      then (case nb_state observed of
          None \<Rightarrow> False | Some s \<Rightarrow> s \<in> set healthy_dynamic_neighbor_states)
      else nb_state observed = nb_state expected)"

definition neighbor_identity :: "neighbor_plan \<Rightarrow> ip_address \<times> string" where
  "neighbor_identity n = (nb_dst n, nb_dev n)"

definition neighbors_match :: "neighbor_plan list \<Rightarrow> neighbor_plan list \<Rightarrow> bool" where
  "neighbors_match desired actual \<longleftrightarrow>
     length desired = length actual \<and>
     (let actual_by_identity = dict_of (map (\<lambda>n. (neighbor_identity n, n)) actual) in
      length actual_by_identity = length actual \<and>
      list_all (\<lambda>expected. case dict_get actual_by_identity (neighbor_identity expected) of
         None \<Rightarrow> False | Some observed \<Rightarrow> neighbor_matches expected observed) desired)"

section \<open>The identities of veth pairs\<close>

text \<open>The veth interfaces of an inventory, each with its namespace, name and link id.\<close>

definition veth_entries :: "live_inventory \<Rightarrow> ((string \<times> string) \<times> string option) list" where
  "veth_entries inventory = concat (map (\<lambda>(namespace, n).
     map (\<lambda>(name, i). ((namespace, name), iv_link_id i))
       (filter (\<lambda>(name, i). iv_kind i = ''veth'') (ni_interfaces n)))
     (li_namespaces inventory))"

definition observed_group :: "live_inventory \<Rightarrow> string \<Rightarrow> (string \<times> string) list" where
  "observed_group inventory link_id =
     map fst (filter (\<lambda>(e, i). i = Some link_id) (veth_entries inventory))"

text \<open>The non-empty link id the inventory has for an endpoint of the plan.\<close>

definition endpoint_key :: "endpoint_plan \<Rightarrow> string \<times> string" where
  "endpoint_key e = (ep_namespace e, ep_interface e)"

definition observed_interface :: "live_inventory \<Rightarrow> endpoint_plan \<Rightarrow> interface_inventory option" where
  "observed_interface inventory endpoint =
     Option.bind (dict_get (li_namespaces inventory) (ep_namespace endpoint))
       (\<lambda>n. dict_get (ni_interfaces n) (ep_interface endpoint))"

definition observed_link_id :: "live_inventory \<Rightarrow> endpoint_plan \<Rightarrow> string option" where
  "observed_link_id inventory endpoint =
     Option.bind (observed_interface inventory endpoint)
       (\<lambda>i. case iv_link_id i of None \<Rightarrow> None | Some s \<Rightarrow> if s = [] then None else Some s)"

fun links_match_from :: "live_inventory \<Rightarrow> link_plan list \<Rightarrow> string list \<Rightarrow> bool" where
  "links_match_from inventory [] seen = True"
| "links_match_from inventory (link # links) seen =
     (case (observed_link_id inventory (lk_left link), observed_link_id inventory (lk_right link)) of
        (Some link_id, Some right_id) \<Rightarrow>
          right_id = link_id \<and> link_id \<notin> set seen \<and>
          set (observed_group inventory link_id) = set (map endpoint_key (link_endpoints link)) \<and>
          links_match_from inventory links (link_id # seen)
      | _ \<Rightarrow> False)"

definition links_match :: "topology_plan \<Rightarrow> live_inventory \<Rightarrow> bool" where
  "links_match plan inventory \<longleftrightarrow>
     list_all (\<lambda>(e, link_id). link_id \<noteq> None \<and> link_id \<noteq> Some []) (veth_entries inventory) \<and>
     links_match_from inventory (tpl_links plan) []"

text \<open>The non-empty link id a recorded interface claims for an endpoint.\<close>

definition recorded_link_id :: "(string, pyobj) dict \<Rightarrow> endpoint_plan \<Rightarrow> string option" where
  "recorded_link_id recorded endpoint =
     (case dict_get recorded (ep_node endpoint @ '':'' @ ep_interface endpoint) of
        None \<Rightarrow> None
      | Some ownership \<Rightarrow>
          if \<not> is_mapping ownership then None
          else (case mapping_get ownership ''link_id'' of
              Some (PStr s) \<Rightarrow> if s = [] then None else Some s
            | _ \<Rightarrow> None))"

definition recorded_endpoint_id :: "live_inventory \<Rightarrow> (string, pyobj) dict \<Rightarrow> endpoint_plan \<Rightarrow> string option" where
  "recorded_endpoint_id inventory recorded endpoint =
     (case recorded_link_id recorded endpoint of
        None \<Rightarrow> None
      | Some link_id \<Rightarrow> (case observed_interface inventory endpoint of
          None \<Rightarrow> None
        | Some observed \<Rightarrow> if iv_link_id observed = Some link_id then Some link_id else None))"

fun recorded_links_from ::
    "live_inventory \<Rightarrow> (string, pyobj) dict \<Rightarrow> link_plan list \<Rightarrow> string list \<Rightarrow> bool" where
  "recorded_links_from inventory recorded [] seen = True"
| "recorded_links_from inventory recorded (link # links) seen =
     (case (recorded_endpoint_id inventory recorded (lk_left link),
            recorded_endpoint_id inventory recorded (lk_right link)) of
        (Some link_id, Some right_id) \<Rightarrow>
          right_id = link_id \<and> link_id \<notin> set seen \<and>
          recorded_links_from inventory recorded links (link_id # seen)
      | _ \<Rightarrow> False)"

definition recorded_link_ids_match_inventory ::
    "topology_plan \<Rightarrow> live_inventory \<Rightarrow> (string, pyobj) dict \<Rightarrow> bool" where
  "recorded_link_ids_match_inventory plan inventory recorded \<longleftrightarrow>
     links_match plan inventory \<and> recorded_links_from inventory recorded (tpl_links plan) []"

section \<open>The whole inventory\<close>

text \<open>\<open>{name: interface ... if name not in ignored_interfaces}\<close>.\<close>

definition managed_interfaces ::
    "node_plan \<Rightarrow> (string, interface_inventory) dict \<Rightarrow> (string, interface_inventory) dict" where
  "managed_interfaces node interfaces =
     filter (\<lambda>(name, i). name \<notin> set (runtime_managed_interface_names node)) interfaces"

definition node_matches :: "ext \<Rightarrow> topology_plan \<Rightarrow> live_inventory \<Rightarrow> node_plan \<Rightarrow> bool res" where
  "node_matches x plan inventory node =
     (case dict_get (li_namespaces inventory) (nd_namespace node) of
        None \<Rightarrow> Inl (key_error (nd_namespace node))
      | Some observed \<Rightarrow>
          if \<not> ni_exists observed then Inr False
          else if ni_node observed \<noteq> nd_name node then Inr False
          else if ni_kind observed \<noteq> nd_kind node then Inr False
          else if ni_namespace observed \<noteq> nd_namespace node then Inr False
          else res_bind (expected_interfaces node plan) (\<lambda>expected.
            if \<not> interfaces_match x expected (managed_interfaces node (ni_interfaces observed))
            then Inr False
            else res_bind (expected_routes node) (\<lambda>routes.
              if \<not> routes_match node routes (ni_routes observed) then Inr False
              else if set (ni_rules observed) \<noteq> set (nd_rules node) then Inr False
              else if \<not> neighbors_match (nd_neighbors node) (ni_neighbors observed) then Inr False
              else Inr (declared_sysctls_match (nd_sysctls node) (ni_sysctls observed)))))"

definition inventory_matches_plan :: "ext \<Rightarrow> topology_plan \<Rightarrow> live_inventory \<Rightarrow> bool res" where
  "inventory_matches_plan x plan inventory =
     (if li_root_interfaces inventory \<noteq> [] then Inr False
      else if set (dict_keys (li_namespaces inventory)) \<noteq> set (map nd_namespace (plan_nodes plan))
        then Inr False
      else res_bind (res_all (node_matches x plan inventory) (plan_nodes plan))
        (\<lambda>matching. if matching then Inr (links_match plan inventory) else Inr False))"

end
