(* ===== verification/Fake_Backend.thy ===== *)
theory Fake_Backend
  imports Inventory
begin

text \<open>
  \<open>src/nslab/backend/fake.py\<close>: the in-memory backend. Its state is the record \<open>fake\<close>; every method
  is a state-passing function that may raise, with the effects made before the raise kept. The call
  counter and \<open>fail_on_call\<close> inject a failure into the n-th call. A Python set is a list without
  duplicates.
\<close>

record fake_namespace =
  fs_node :: string
  fs_kind :: node_kind
  fs_namespace :: string
  fs_interfaces :: "(string, interface_inventory) dict"
  fs_routes :: "route_plan list"
  fs_sysctls :: "(string, int) dict"
  fs_rules :: "policy_rule_plan list"
  fs_neighbors :: "neighbor_plan list"

type_synonym endpoint_id = "string \<times> string"

record fake =
  fk_fail_on_call :: "int option"
  fk_execute_result :: "exec_result option"
  fk_calls :: "(string \<times> string) list"
  fk_execute_requests :: "(string \<times> string list \<times> bool) list"
  fk_namespaces :: "(string, fake_namespace) dict"
  fk_root_interfaces :: "(string, interface_inventory) dict"
  fk_call_count :: int
  fk_next_link_id :: int
  fk_next_ifindex :: "(string, int) dict"
  fk_veth_peers :: "(endpoint_id, endpoint_id) dict"
  fk_routing_deployments :: "string list"

definition new_fake :: "int option \<Rightarrow> exec_result option \<Rightarrow> fake" where
  "new_fake fail_on_call execute_result = \<lparr>
     fk_fail_on_call = fail_on_call,
     fk_execute_result = execute_result,
     fk_calls = [],
     fk_execute_requests = [],
     fk_namespaces = [],
     fk_root_interfaces = [],
     fk_call_count = 0,
     fk_next_link_id = 1,
     fk_next_ifindex = [],
     fk_veth_peers = [],
     fk_routing_deployments = []\<rparr>"

section \<open>Helpers\<close>

definition bridge_resource :: "node_plan \<Rightarrow> string" where
  "bridge_resource node = (case nd_bridge_name node of
      None \<Rightarrow> nd_namespace node | Some bridge_name \<Rightarrow> nd_namespace node @ '':'' @ bridge_name)"

definition link_resource :: "link_plan \<Rightarrow> string" where
  "link_resource link = ep_temporary_name (lk_left link) @ ''<->'' @ ep_temporary_name (lk_right link)"

definition resource_error :: "string \<Rightarrow> string \<Rightarrow> string \<Rightarrow> exc" where
  "resource_error code operation resource = NslabError code
     (if code = ''RESOURCE_EXISTS'' then ''network resource already exists: '' @ resource
      else ''network resource is missing: '' @ resource)
     [(''operation'', PStr operation), (''resource'', PStr resource)]"

definition fake_record :: "string \<Rightarrow> string \<Rightarrow> (fake, unit) io" where
  "fake_record operation resource w =
     (let w' = w\<lparr>fk_call_count := fk_call_count w + 1, fk_calls := fk_calls w @ [(operation, resource)]\<rparr>
      in if Some (fk_call_count w') = fk_fail_on_call w'
         then (Inl (NslabError ''BACKEND_FAILURE''
             (''injected backend failure during '' @ operation @ '': '' @ resource)
             [(''call'', PInt (fk_call_count w')), (''operation'', PStr operation),
              (''resource'', PStr resource)]), w')
         else (Inr (), w'))"

definition allocate_ifindex :: "string \<Rightarrow> (fake, int) io" where
  "allocate_ifindex namespace w =
     (let ifindex = (case dict_get (fk_next_ifindex w) namespace of None \<Rightarrow> 1 | Some i \<Rightarrow> i)
      in (Inr ifindex, w\<lparr>fk_next_ifindex := dict_set namespace (ifindex + 1) (fk_next_ifindex w)\<rparr>))"

definition require_namespace :: "string \<Rightarrow> string \<Rightarrow> string \<Rightarrow> (fake, fake_namespace) io" where
  "require_namespace namespace operation resource w =
     (res_of_option (resource_error ''RESOURCE_MISSING'' operation resource)
        (dict_get (fk_namespaces w) namespace), w)"

text \<open>An update of the state of one namespace, which callers have checked is there.\<close>

definition modify_namespace :: "string \<Rightarrow> (fake_namespace \<Rightarrow> fake_namespace) \<Rightarrow> fake \<Rightarrow> fake" where
  "modify_namespace namespace f w = (case dict_get (fk_namespaces w) namespace of
      None \<Rightarrow> w
    | Some state \<Rightarrow> w\<lparr>fk_namespaces := dict_set namespace (f state) (fk_namespaces w)\<rparr>)"

definition insert_interface :: "string \<Rightarrow> interface_inventory \<Rightarrow> (fake, unit) io" where
  "insert_interface namespace interface w =
     (if namespace \<notin> set (dict_keys (fk_namespaces w)) then (Inl (key_error namespace), w)
      else (Inr (), modify_namespace namespace
        (\<lambda>s. s\<lparr>fs_interfaces := dict_set (iv_name interface) interface (fs_interfaces s)\<rparr>) w))"

section \<open>Namespaces\<close>

definition fake_create_namespace :: "node_plan \<Rightarrow> (fake, unit) io" where
  "fake_create_namespace node =
     (let resource = nd_namespace node in
      io_seq (fake_record ''create_namespace'' resource)
     (io_bind (io_get fk_namespaces) (\<lambda>namespaces.
      if resource \<in> set (dict_keys namespaces)
      then io_raise (resource_error ''RESOURCE_EXISTS'' ''create_namespace'' resource)
      else
        io_seq (io_modify (\<lambda>w. w\<lparr>fk_next_ifindex := dict_set resource 1 (fk_next_ifindex w)\<rparr>))
       (io_bind (allocate_ifindex resource) (\<lambda>ifindex.
        let loopback = (new_interface ''lo'' ''loopback'' (Some ifindex) None 65536 True)
              \<lparr>iv_addresses := [loopback_interface]\<rparr>
        in io_bind (io_lift (expected_routes node)) (\<lambda>routes.
        io_modify (\<lambda>w. w\<lparr>fk_namespaces := dict_set resource \<lparr>
           fs_node = nd_name node,
           fs_kind = nd_kind node,
           fs_namespace = resource,
           fs_interfaces = [(''lo'', loopback)],
           fs_routes = take 1 routes,
           fs_sysctls = [],
           fs_rules = [],
           fs_neighbors = []\<rparr> (fk_namespaces w)\<rparr>)))))))"

text \<open>\<open>tuple(route for route in routes if interface not in route_interfaces(route))\<close>.\<close>

fun routes_without :: "string \<Rightarrow> route_plan list \<Rightarrow> route_plan list res" where
  "routes_without interface [] = Inr []"
| "routes_without interface (route # routes) =
     res_bind (route_interfaces route) (\<lambda>devices.
     res_bind (routes_without interface routes) (\<lambda>rest.
     Inr (if interface \<notin> set devices then route # rest else rest)))"

definition remove_peer :: "endpoint_id \<Rightarrow> (fake, unit) io" where
  "remove_peer peer =
     io_bind (io_get (\<lambda>w. dict_get (fk_namespaces w) (fst peer))) (\<lambda>peer_state.
     case peer_state of
       None \<Rightarrow> io_return ()
     | Some state \<Rightarrow>
         io_seq (io_modify (modify_namespace (fst peer)
           (\<lambda>s. s\<lparr>fs_interfaces := dict_del (snd peer) (fs_interfaces s)\<rparr>)))
        (io_bind (io_lift (routes_without (snd peer) (fs_routes state))) (\<lambda>routes.
         io_modify (modify_namespace (fst peer) (\<lambda>s. s\<lparr>fs_routes := routes,
           fs_neighbors := filter (\<lambda>n. nb_dev n \<noteq> snd peer) (fs_neighbors s)\<rparr>)))))"

definition remove_veth :: "endpoint_id \<Rightarrow> (fake, unit) io" where
  "remove_veth endpoint =
     io_bind (io_get (\<lambda>w. dict_get (fk_veth_peers w) endpoint)) (\<lambda>peer.
     case peer of
       None \<Rightarrow> io_return ()
     | Some p \<Rightarrow>
         io_seq (io_modify (\<lambda>w. w\<lparr>fk_veth_peers := dict_del p (dict_del endpoint (fk_veth_peers w))\<rparr>))
           (remove_peer p))"

definition fake_delete_namespace :: "string \<Rightarrow> (fake, unit) io" where
  "fake_delete_namespace namespace =
     io_seq (fake_record ''delete_namespace'' namespace)
    (io_bind (io_get (\<lambda>w. filter (\<lambda>e. fst e = namespace) (dict_keys (fk_veth_peers w)))) (\<lambda>endpoints.
     io_seq (io_for remove_veth endpoints)
      (io_modify (\<lambda>w. w\<lparr>
         fk_namespaces := dict_del namespace (fk_namespaces w),
         fk_next_ifindex := dict_del namespace (fk_next_ifindex w)\<rparr>))))"

section \<open>Bridges and veth pairs\<close>

definition fake_create_bridge :: "node_plan \<Rightarrow> (fake, unit) io" where
  "fake_create_bridge node =
     (let resource = bridge_resource node in
      io_seq (fake_record ''create_bridge'' resource)
     (io_bind (require_namespace (nd_namespace node) ''create_bridge'' resource) (\<lambda>state.
      case (nd_kind node, nd_bridge_name node) of
        (BridgeKind, Some bridge_name) \<Rightarrow>
          if bridge_name \<in> set (dict_keys (fs_interfaces state))
          then io_raise (resource_error ''RESOURCE_EXISTS'' ''create_bridge'' resource)
          else io_bind (allocate_ifindex (nd_namespace node)) (\<lambda>ifindex.
            insert_interface (nd_namespace node)
              ((new_interface bridge_name ''bridge'' (Some ifindex) None 1500 False)\<lparr>
                iv_stp := nd_stp node,
                iv_vlan_filtering := nd_vlan_filtering node,
                iv_bridge_priority := nd_bridge_priority node\<rparr>))
      | _ \<Rightarrow> io_raise (NslabError ''BACKEND_FAILURE''
          (''bridge operation requires a bridge node: '' @ nd_name node)
          [(''operation'', PStr ''create_bridge''), (''resource'', PStr resource)]))))"

definition insert_veth_endpoint :: "endpoint_plan \<Rightarrow> link_plan \<Rightarrow> string \<Rightarrow> (fake, unit) io" where
  "insert_veth_endpoint endpoint link link_id =
     io_bind (allocate_ifindex (ep_namespace endpoint)) (\<lambda>ifindex.
     insert_interface (ep_namespace endpoint)
       ((new_interface (ep_interface endpoint) ''veth'' (Some ifindex) None (lk_mtu link) False)\<lparr>
         iv_netem := lk_netem link,
         iv_qdisc := lk_qdisc link,
         iv_link_id := Some link_id\<rparr>))"

definition fake_create_veth :: "link_plan \<Rightarrow> (fake, unit) io" where
  "fake_create_veth link =
     (let resource = link_resource link; left = lk_left link; right = lk_right link in
      io_seq (fake_record ''create_veth'' resource)
     (io_bind (require_namespace (ep_namespace left) ''create_veth'' resource) (\<lambda>left_state.
      io_bind (require_namespace (ep_namespace right) ''create_veth'' resource) (\<lambda>right_state.
      if ep_interface left \<in> set (dict_keys (fs_interfaces left_state)) \<or>
         ep_interface right \<in> set (dict_keys (fs_interfaces right_state))
      then io_raise (resource_error ''RESOURCE_EXISTS'' ''create_veth'' resource)
      else io_bind (io_get fk_next_link_id) (\<lambda>n.
        let link_id = ''fake-link-'' @ show_int n;
            left_key = (ep_namespace left, ep_interface left);
            right_key = (ep_namespace right, ep_interface right)
        in io_seq (io_modify (\<lambda>w. w\<lparr>fk_next_link_id := n + 1\<rparr>))
          (io_seq (insert_veth_endpoint left link link_id)
          (io_seq (insert_veth_endpoint right link link_id)
          (io_modify (\<lambda>w. w\<lparr>fk_veth_peers :=
             dict_set right_key left_key (dict_set left_key right_key (fk_veth_peers w))\<rparr>)))))))))"

section \<open>Configuring a node\<close>

text \<open>
  Every loop over the devices of one kind checks the interface the device is linked to, where its
  kind has one, and that its name is free, then allocates an index and builds the interface.
\<close>

type_synonym interfaces = "(string, interface_inventory) dict"

definition missing_interface :: "string \<Rightarrow> string \<Rightarrow> exc" where
  "missing_interface resource name =
     resource_error ''RESOURCE_MISSING'' ''configure_node'' (resource @ '':'' @ name)"

definition add_interface ::
    "string \<Rightarrow> string option \<Rightarrow> string \<Rightarrow> int res \<Rightarrow> (int \<Rightarrow> int \<Rightarrow> interface_inventory) \<Rightarrow>
     interfaces \<Rightarrow> (fake, interfaces) io" where
  "add_interface resource link name mtu_result build interfaces =
     (if case link of None \<Rightarrow> False | Some l \<Rightarrow> l \<notin> set (dict_keys interfaces)
      then io_raise (missing_interface resource (the link))
      else if name \<in> set (dict_keys interfaces)
      then io_raise (resource_error ''RESOURCE_EXISTS'' ''configure_node'' (resource @ '':'' @ name))
      else io_bind (allocate_ifindex resource) (\<lambda>ifindex.
           io_bind (io_lift mtu_result) (\<lambda>mtu.
           io_return (dict_set name (build ifindex mtu) interfaces))))"

definition set_port :: "bridge_port_plan option \<Rightarrow> interface_inventory \<Rightarrow> interface_inventory" where
  "set_port port i = i\<lparr>
     iv_path_cost := Option.bind port bp_path_cost,
     iv_port_priority := Option.bind port bp_priority,
     iv_hairpin := Option.bind port bp_hairpin,
     iv_isolated := Option.bind port bp_isolated,
     iv_learning := Option.bind port bp_learning,
     iv_flood := Option.bind port bp_flood,
     iv_multicast_flood := Option.bind port bp_multicast_flood\<rparr>"

definition build_vxlan :: "node_plan \<Rightarrow> vxlan_device_plan \<Rightarrow> int \<Rightarrow> int \<Rightarrow> interface_inventory" where
  "build_vxlan node device ifindex mtu =
     (set_port (dict_get (nd_bridge_ports node) (vxlan_name device))
       (new_interface (vxlan_name device) ''vxlan'' (Some ifindex)
         (node_interface_master node (vxlan_name device)) mtu True))\<lparr>
       iv_addresses := vxlan_addresses device,
       iv_bridge_vlans := expected_bridge_port_vlans node (vxlan_name device),
       iv_vxlan_vni := Some (vxlan_vni device),
       iv_vxlan_link := Some (vxlan_link device),
       iv_vxlan_local := Some (vxlan_local device),
       iv_vxlan_remote := Some (vxlan_remote device),
       iv_vxlan_dst_port := Some (vxlan_dst_port device),
       iv_vxlan_learning := Some (vxlan_learning device)\<rparr>"

definition add_vxlan :: "node_plan \<Rightarrow> topology_plan \<Rightarrow> vxlan_device_plan \<Rightarrow> interfaces \<Rightarrow> (fake, interfaces) io" where
  "add_vxlan node plan device = add_interface (nd_namespace node) (Some (vxlan_link device))
     (vxlan_name device) (vxlan_device_mtu node plan device) (build_vxlan node device)"

definition build_dummy :: "node_plan \<Rightarrow> dummy_device_plan \<Rightarrow> int \<Rightarrow> int \<Rightarrow> interface_inventory" where
  "build_dummy node device ifindex mtu =
     (new_interface (dummy_name device) ''dummy'' (Some ifindex)
       (node_interface_master node (dummy_name device)) mtu True)\<lparr>
       iv_addresses := dummy_addresses device\<rparr>"

definition add_dummy :: "node_plan \<Rightarrow> topology_plan \<Rightarrow> dummy_device_plan \<Rightarrow> interfaces \<Rightarrow> (fake, interfaces) io" where
  "add_dummy node plan device = add_interface (nd_namespace node) None
     (dummy_name device) (Inr (dummy_device_mtu node plan device)) (build_dummy node device)"

definition build_gre :: "node_plan \<Rightarrow> gre_device_plan \<Rightarrow> int \<Rightarrow> int \<Rightarrow> interface_inventory" where
  "build_gre node device ifindex mtu =
     (new_interface (gre_name device) ''gre'' (Some ifindex)
       (node_interface_master node (gre_name device)) mtu True)\<lparr>
       iv_addresses := gre_addresses device,
       iv_gre_link := Some (gre_link device),
       iv_gre_local := Some (IPv4Address (gre_local device)),
       iv_gre_remote := Some (IPv4Address (gre_remote device)),
       iv_gre_key := gre_key device,
       iv_gre_ttl := Some (gre_ttl device)\<rparr>"

definition add_gre :: "node_plan \<Rightarrow> topology_plan \<Rightarrow> gre_device_plan \<Rightarrow> interfaces \<Rightarrow> (fake, interfaces) io" where
  "add_gre node plan device = add_interface (nd_namespace node) (Some (gre_link device))
     (gre_name device) (gre_device_mtu node plan device) (build_gre node device)"

definition build_ipip :: "node_plan \<Rightarrow> ipip_device_plan \<Rightarrow> int \<Rightarrow> int \<Rightarrow> interface_inventory" where
  "build_ipip node device ifindex mtu =
     (new_interface (ipip_name device) ''ipip'' (Some ifindex)
       (node_interface_master node (ipip_name device)) mtu True)\<lparr>
       iv_addresses := ipip_addresses device,
       iv_ipip_link := Some (ipip_link device),
       iv_ipip_local := Some (IPv4Address (ipip_local device)),
       iv_ipip_remote := Some (IPv4Address (ipip_remote device)),
       iv_ipip_ttl := Some (ipip_ttl device)\<rparr>"

definition add_ipip :: "node_plan \<Rightarrow> topology_plan \<Rightarrow> ipip_device_plan \<Rightarrow> interfaces \<Rightarrow> (fake, interfaces) io" where
  "add_ipip node plan device = add_interface (nd_namespace node) (Some (ipip_link device))
     (ipip_name device) (ipip_device_mtu node plan device) (build_ipip node device)"

definition build_geneve :: "node_plan \<Rightarrow> geneve_device_plan \<Rightarrow> int \<Rightarrow> int \<Rightarrow> interface_inventory" where
  "build_geneve node device ifindex mtu =
     (set_port (dict_get (nd_bridge_ports node) (geneve_name device))
       (new_interface (geneve_name device) ''geneve'' (Some ifindex)
         (node_interface_master node (geneve_name device)) mtu True))\<lparr>
       iv_addresses := geneve_addresses device,
       iv_bridge_vlans := expected_bridge_port_vlans node (geneve_name device),
       iv_geneve_vni := Some (geneve_vni device),
       iv_geneve_link := Some (geneve_link device),
       iv_geneve_remote := Some (geneve_remote device),
       iv_geneve_dst_port := Some (geneve_dst_port device)\<rparr>"

definition add_geneve :: "node_plan \<Rightarrow> topology_plan \<Rightarrow> geneve_device_plan \<Rightarrow> interfaces \<Rightarrow> (fake, interfaces) io" where
  "add_geneve node plan device = add_interface (nd_namespace node) (Some (geneve_link device))
     (geneve_name device) (geneve_device_mtu node plan device) (build_geneve node device)"

definition build_macvlan :: "node_plan \<Rightarrow> macvlan_device_plan \<Rightarrow> int \<Rightarrow> int \<Rightarrow> interface_inventory" where
  "build_macvlan node device ifindex mtu =
     (new_interface (macvlan_name device) ''macvlan'' (Some ifindex)
       (node_interface_master node (macvlan_name device)) mtu True)\<lparr>
       iv_addresses := macvlan_addresses device,
       iv_parent := Some (macvlan_link device),
       iv_macvlan_mode := Some (macvlan_mode device)\<rparr>"

definition add_macvlan :: "node_plan \<Rightarrow> topology_plan \<Rightarrow> macvlan_device_plan \<Rightarrow> interfaces \<Rightarrow> (fake, interfaces) io" where
  "add_macvlan node plan device = add_interface (nd_namespace node) (Some (macvlan_link device))
     (macvlan_name device) (macvlan_device_mtu node plan device) (build_macvlan node device)"

definition build_ipvlan :: "node_plan \<Rightarrow> ipvlan_device_plan \<Rightarrow> int \<Rightarrow> int \<Rightarrow> interface_inventory" where
  "build_ipvlan node device ifindex mtu =
     (new_interface (ipvlan_name device) ''ipvlan'' (Some ifindex)
       (node_interface_master node (ipvlan_name device)) mtu True)\<lparr>
       iv_addresses := ipvlan_addresses device,
       iv_parent := Some (ipvlan_link device),
       iv_ipvlan_mode := Some (ipvlan_mode device)\<rparr>"

definition add_ipvlan :: "node_plan \<Rightarrow> topology_plan \<Rightarrow> ipvlan_device_plan \<Rightarrow> interfaces \<Rightarrow> (fake, interfaces) io" where
  "add_ipvlan node plan device = add_interface (nd_namespace node) (Some (ipvlan_link device))
     (ipvlan_name device) (ipvlan_device_mtu node plan device) (build_ipvlan node device)"

definition build_bond :: "node_plan \<Rightarrow> bond_device_plan \<Rightarrow> int \<Rightarrow> int \<Rightarrow> interface_inventory" where
  "build_bond node device ifindex mtu =
     (new_interface (bond_name device) ''bond'' (Some ifindex)
       (node_interface_master node (bond_name device)) mtu True)\<lparr>
       iv_addresses := bond_addresses device,
       iv_bond_mode := Some (bond_mode device),
       iv_bond_miimon_ms := Some (bond_miimon_ms device),
       iv_bond_primary := bond_primary device,
       iv_bond_lacp_rate := bond_lacp_rate device,
       iv_bond_xmit_hash_policy := bond_xmit_hash_policy device,
       iv_bond_min_links := bond_min_links device\<rparr>"

definition add_bond :: "node_plan \<Rightarrow> topology_plan \<Rightarrow> bond_device_plan \<Rightarrow> interfaces \<Rightarrow> (fake, interfaces) io" where
  "add_bond node plan device = add_interface (nd_namespace node) None
     (bond_name device) (bond_device_mtu node plan device) (build_bond node device)"

definition build_vrf :: "node_plan \<Rightarrow> vrf_device_plan \<Rightarrow> int \<Rightarrow> int \<Rightarrow> interface_inventory" where
  "build_vrf node device ifindex mtu =
     (new_interface (vrf_name device) ''vrf'' (Some ifindex) None mtu True)\<lparr>
       iv_vrf_table := Some (vrf_table device)\<rparr>"

definition add_vrf :: "node_plan \<Rightarrow> topology_plan \<Rightarrow> vrf_device_plan \<Rightarrow> interfaces \<Rightarrow> (fake, interfaces) io" where
  "add_vrf node plan device = add_interface (nd_namespace node) None
     (vrf_name device) (Inr 65536) (build_vrf node device)"

definition build_vlan :: "node_plan \<Rightarrow> vlan_device_plan \<Rightarrow> int \<Rightarrow> int \<Rightarrow> interface_inventory" where
  "build_vlan node device ifindex mtu =
     (new_interface (vlan_name device) ''vlan'' (Some ifindex)
       (node_interface_master node (vlan_name device)) mtu True)\<lparr>
       iv_addresses := vlan_addresses device,
       iv_parent := Some (vlan_link device),
       iv_vlan_id := Some (vlan_vid device)\<rparr>"

definition add_vlan :: "node_plan \<Rightarrow> topology_plan \<Rightarrow> vlan_device_plan \<Rightarrow> interfaces \<Rightarrow> (fake, interfaces) io" where
  "add_vlan node plan device interfaces = add_interface (nd_namespace node) (Some (vlan_link device))
     (vlan_name device)
     (res_of_option (missing_interface (nd_namespace node) (vlan_link device))
       (map_option iv_mtu (dict_get interfaces (vlan_link device))))
     (build_vlan node device) interfaces"

text \<open>The kinds in the order their loops run.\<close>

datatype device_kind = KVxlan | KDummy | KGre | KIpip | KGeneve | KMacvlan | KIpvlan | KBond | KVrf | KVlan

fun kind_of_device :: "device_plan \<Rightarrow> device_kind" where
  "kind_of_device (VlanDevice d) = KVlan"
| "kind_of_device (VrfDevice d) = KVrf"
| "kind_of_device (BondDevice d) = KBond"
| "kind_of_device (GreDevice d) = KGre"
| "kind_of_device (IpipDevice d) = KIpip"
| "kind_of_device (VxlanDevice d) = KVxlan"
| "kind_of_device (DummyDevice d) = KDummy"
| "kind_of_device (GeneveDevice d) = KGeneve"
| "kind_of_device (MacvlanDevice d) = KMacvlan"
| "kind_of_device (IpvlanDevice d) = KIpvlan"

definition configure_order :: "device_kind list" where
  "configure_order = [KVxlan, KDummy, KGre, KIpip, KGeneve, KMacvlan, KIpvlan, KBond, KVrf, KVlan]"

fun add_device :: "node_plan \<Rightarrow> topology_plan \<Rightarrow> device_plan \<Rightarrow> interfaces \<Rightarrow> (fake, interfaces) io" where
  "add_device node plan (VlanDevice d) = add_vlan node plan d"
| "add_device node plan (VrfDevice d) = add_vrf node plan d"
| "add_device node plan (BondDevice d) = add_bond node plan d"
| "add_device node plan (GreDevice d) = add_gre node plan d"
| "add_device node plan (IpipDevice d) = add_ipip node plan d"
| "add_device node plan (VxlanDevice d) = add_vxlan node plan d"
| "add_device node plan (DummyDevice d) = add_dummy node plan d"
| "add_device node plan (GeneveDevice d) = add_geneve node plan d"
| "add_device node plan (MacvlanDevice d) = add_macvlan node plan d"
| "add_device node plan (IpvlanDevice d) = add_ipvlan node plan d"

definition add_devices_of_kind ::
    "node_plan \<Rightarrow> topology_plan \<Rightarrow> device_kind \<Rightarrow> interfaces \<Rightarrow> (fake, interfaces) io" where
  "add_devices_of_kind node plan kind interfaces =
     io_fold (\<lambda>device interfaces.
       if kind_of_device device \<noteq> kind then io_return interfaces
       else add_device node plan device interfaces)
     (dict_values (nd_devices node)) interfaces"

text \<open>The loops over the members of the VRF devices, the links and the declared MAC addresses.\<close>

definition enslave_member :: "node_plan \<Rightarrow> string \<Rightarrow> string \<Rightarrow> interfaces \<Rightarrow> interfaces res" where
  "enslave_member node master member interfaces = (case dict_get interfaces member of
      None \<Rightarrow> Inl (missing_interface (nd_namespace node) member)
    | Some interface \<Rightarrow> Inr (dict_set member (interface\<lparr>iv_master := Some master\<rparr>) interfaces))"

fun enslave_device :: "node_plan \<Rightarrow> device_plan \<Rightarrow> interfaces \<Rightarrow> interfaces res" where
  "enslave_device node (VrfDevice d) interfaces =
     res_fold (enslave_member node (vrf_name d)) (vrf_interfaces d) interfaces"
| "enslave_device node _ interfaces = Inr interfaces"

definition configure_endpoint ::
    "node_plan \<Rightarrow> link_plan \<times> endpoint_plan \<Rightarrow> interfaces \<Rightarrow> interfaces res" where
  "configure_endpoint node entry interfaces = (case entry of (link, endpoint) \<Rightarrow>
     let name = ep_interface endpoint in
     (case dict_get interfaces name of
        None \<Rightarrow> Inl (missing_interface (nd_namespace node) name)
      | Some interface \<Rightarrow> Inr (dict_set name
          ((set_port (dict_get (nd_bridge_ports node) name) interface)\<lparr>
            iv_master := node_interface_master node name,
            iv_mtu := lk_mtu link,
            iv_up := True,
            iv_addresses := interface_addresses node name,
            iv_bridge_vlans := expected_bridge_port_vlans node name,
            iv_netem := lk_netem link,
            iv_qdisc := lk_qdisc link\<rparr>) interfaces)))"

definition configure_mac :: "node_plan \<Rightarrow> string \<times> string \<Rightarrow> interfaces \<Rightarrow> interfaces res" where
  "configure_mac node entry interfaces = (case entry of (name, mac) \<Rightarrow>
     (case dict_get interfaces name of
        None \<Rightarrow> Inl (missing_interface (nd_namespace node) name)
      | Some interface \<Rightarrow> Inr (dict_set name (interface\<lparr>iv_mac := Some mac\<rparr>) interfaces)))"

text \<open>The loopback and the bridge of a node, brought up.\<close>

definition configure_base :: "node_plan \<Rightarrow> interfaces \<Rightarrow> interfaces res" where
  "configure_base node interfaces = (case dict_get interfaces ''lo'' of
      None \<Rightarrow> Inl (missing_interface (nd_namespace node) ''lo'')
    | Some loopback \<Rightarrow>
        let interfaces = dict_set ''lo'' (loopback\<lparr>iv_up := True\<rparr>) interfaces in
        if nd_kind node \<noteq> BridgeKind then Inr interfaces
        else (case nd_bridge_name node of
            None \<Rightarrow> Inl assertion_error
          | Some bridge_name \<Rightarrow> (case dict_get interfaces bridge_name of
              None \<Rightarrow> Inl (missing_interface (nd_namespace node) bridge_name)
            | Some bridge \<Rightarrow> Inr (dict_set bridge_name (bridge\<lparr>
                iv_master := None,
                iv_up := True,
                iv_addresses := interface_addresses node bridge_name,
                iv_stp := nd_stp node,
                iv_vlan_filtering := nd_vlan_filtering node,
                iv_bridge_priority := nd_bridge_priority node\<rparr>) interfaces))))"

definition configure_interfaces ::
    "node_plan \<Rightarrow> topology_plan \<Rightarrow> interfaces \<Rightarrow> (fake, interfaces) io" where
  "configure_interfaces node plan interfaces =
     io_bind (io_lift (configure_base node interfaces)) (\<lambda>interfaces.
     io_bind (io_fold (add_devices_of_kind node plan) configure_order interfaces) (\<lambda>interfaces.
     io_lift (res_bind (res_fold (enslave_device node) (dict_values (nd_devices node)) interfaces)
       (\<lambda>interfaces. res_bind (res_fold (configure_endpoint node)
           (namespace_endpoints plan (nd_namespace node)) interfaces)
       (res_fold (configure_mac node) (nd_mac_addresses node))))))"

definition fake_configure_node :: "node_plan \<Rightarrow> topology_plan \<Rightarrow> (fake, unit) io" where
  "fake_configure_node node plan =
     (let resource = nd_namespace node in
      io_seq (fake_record ''configure_node'' resource)
     (io_bind (require_namespace resource ''configure_node'' resource) (\<lambda>state.
      io_bind (configure_interfaces node plan (fs_interfaces state)) (\<lambda>interfaces.
      io_seq (io_modify (modify_namespace resource (\<lambda>s. s\<lparr>fs_interfaces := interfaces\<rparr>)))
     (io_bind (io_lift (expected_routes node)) (\<lambda>routes.
      io_modify (modify_namespace resource (\<lambda>s. s\<lparr>
        fs_routes := routes,
        fs_sysctls := nd_sysctls node,
        fs_rules := nd_rules node,
        fs_neighbors := nd_neighbors node\<rparr>))))))))"

section \<open>Routing, inventory and execution\<close>

definition plan_has_routing :: "topology_plan \<Rightarrow> bool" where
  "plan_has_routing plan = (\<exists>node \<in> set (plan_nodes plan). nd_routing node \<noteq> None)"

definition fake_start_routing :: "topology_plan \<Rightarrow> (fake, unit) io" where
  "fake_start_routing plan =
     (if \<not> plan_has_routing plan then io_return ()
      else io_seq (fake_record ''start_routing'' (tpl_name plan))
        (io_modify (\<lambda>w. w\<lparr>fk_routing_deployments := List.insert (tpl_name plan) (fk_routing_deployments w)\<rparr>)))"

definition fake_stop_routing :: "topology_plan \<Rightarrow> (fake, unit) io" where
  "fake_stop_routing plan =
     (if \<not> plan_has_routing plan then io_return ()
      else io_seq (fake_record ''stop_routing'' (tpl_name plan))
        (io_modify (\<lambda>w. w\<lparr>fk_routing_deployments := removeAll (tpl_name plan) (fk_routing_deployments w)\<rparr>)))"

definition fake_routing_ready :: "topology_plan \<Rightarrow> (fake, bool) io" where
  "fake_routing_ready plan =
     (if \<not> plan_has_routing plan then io_return True
      else io_get (\<lambda>w. tpl_name plan \<in> set (fk_routing_deployments w)))"

definition fake_namespace_inventory :: "fake \<Rightarrow> node_plan \<Rightarrow> namespace_inventory" where
  "fake_namespace_inventory w node = (case dict_get (fk_namespaces w) (nd_namespace node) of
      None \<Rightarrow> \<lparr>
        ni_node = nd_name node,
        ni_kind = nd_kind node,
        ni_namespace = nd_namespace node,
        ni_exists = False,
        ni_interfaces = [],
        ni_routes = [],
        ni_sysctls = [],
        ni_rules = [],
        ni_neighbors = []\<rparr>
    | Some state \<Rightarrow> \<lparr>
        ni_node = fs_node state,
        ni_kind = fs_kind state,
        ni_namespace = fs_namespace state,
        ni_exists = True,
        ni_interfaces = fs_interfaces state,
        ni_routes = fs_routes state,
        ni_sysctls = fs_sysctls state,
        ni_rules = fs_rules state,
        ni_neighbors = fs_neighbors state\<rparr>)"

definition fake_live_inventory :: "fake \<Rightarrow> topology_plan \<Rightarrow> live_inventory" where
  "fake_live_inventory w plan = \<lparr>
     li_namespaces = dict_of (map (\<lambda>node. (nd_namespace node, fake_namespace_inventory w node))
       (plan_nodes plan)),
     li_root_interfaces = fk_root_interfaces w\<rparr>"

definition fake_inventory :: "topology_plan \<Rightarrow> (fake, live_inventory) io" where
  "fake_inventory plan =
     io_seq (fake_record ''inventory'' (tpl_name plan)) (io_get (\<lambda>w. fake_live_inventory w plan))"

definition fake_execute :: "string \<Rightarrow> string list \<Rightarrow> bool \<Rightarrow> (fake, exec_result) io" where
  "fake_execute namespace argv capture_output =
     io_seq (fake_record ''execute'' namespace)
    (io_bind (require_namespace namespace ''execute'' namespace) (\<lambda>state.
     io_seq (io_modify (\<lambda>w. w\<lparr>fk_execute_requests :=
       fk_execute_requests w @ [(namespace, argv, capture_output)]\<rparr>))
    (io_get (\<lambda>w. case fk_execute_result w of
       None \<Rightarrow> \<lparr>xr_argv = argv, xr_returncode = 0, xr_stdout = [], xr_stderr = []\<rparr>
     | Some r \<Rightarrow> \<lparr>xr_argv = argv, xr_returncode = xr_returncode r,
         xr_stdout = (if capture_output then xr_stdout r else []),
         xr_stderr = (if capture_output then xr_stderr r else [])\<rparr>))))"

end
