(* ===== verification/State.thy ===== *)
theory State
  imports Manifest
begin

text \<open>
  The documents of \<open>src/nslab/state.py\<close>: frozen JSON values, the deployment snapshot with its
  conversions \<open>to_dict\<close> and \<open>from_dict\<close>, and the errors a state store reports. The lemmas show
  that freezing is idempotent on what it produces and that a snapshot survives the round trip
  through its document.
\<close>

section \<open>Frozen JSON values\<close>

definition type_error :: "string \<Rightarrow> exc" where
  "type_error msg = PyError ''TypeError'' msg None []"

lemma res_map_cong [fundef_cong]:
  "xs = ys \<Longrightarrow> (\<And>x. x \<in> set ys \<Longrightarrow> f x = g x) \<Longrightarrow> res_map f xs = res_map g ys"
  by (induction ys arbitrary: xs) auto

text \<open>A mapping becomes a read-only view, a list or tuple a tuple; numbers must be finite.\<close>

fun freeze_json :: "pyobj \<Rightarrow> pyobj res" where
  "freeze_json (PFloat f) = (case f of
      Finite q \<Rightarrow> Inr (PFloat f) | _ \<Rightarrow> Inl (value_error ''JSON numbers must be finite''))"
| "freeze_json (PDict d) =
     res_bind (res_map (\<lambda>p. case fst p of
        PStr k \<Rightarrow> res_bind (freeze_json (snd p)) (\<lambda>v. Inr (PStr k, v))
      | _ \<Rightarrow> Inl (value_error ''JSON object keys must be strings'')) d) (\<lambda>d. Inr (PProxy (dict_of d)))"
| "freeze_json (PProxy d) =
     res_bind (res_map (\<lambda>p. case fst p of
        PStr k \<Rightarrow> res_bind (freeze_json (snd p)) (\<lambda>v. Inr (PStr k, v))
      | _ \<Rightarrow> Inl (value_error ''JSON object keys must be strings'')) d) (\<lambda>d. Inr (PProxy (dict_of d)))"
| "freeze_json (PList xs) = res_bind (res_map freeze_json xs) (\<lambda>xs. Inr (PTuple xs))"
| "freeze_json (PTuple xs) = res_bind (res_map freeze_json xs) (\<lambda>xs. Inr (PTuple xs))"
| "freeze_json (POther t) = Inl (value_error (''value is not JSON serializable: '' @ t))"
| "freeze_json v = Inr v"

definition freeze_mapping :: "(string, pyobj) dict \<Rightarrow> (string, pyobj) dict res" where
  "freeze_mapping d =
     res_bind (res_map (\<lambda>p. res_bind (freeze_json (snd p)) (\<lambda>v. Inr (fst p, v))) d) (\<lambda>d. Inr (dict_of d))"

fun thaw_json :: "ext \<Rightarrow> pyobj \<Rightarrow> pyobj" where
  "thaw_json x (PDict d) = PDict (dict_of (map (\<lambda>p. (PStr (py_str x (fst p)), thaw_json x (snd p))) d))"
| "thaw_json x (PProxy d) = PDict (dict_of (map (\<lambda>p. (PStr (py_str x (fst p)), thaw_json x (snd p))) d))"
| "thaw_json x (PList xs) = PList (map (thaw_json x) xs)"
| "thaw_json x (PTuple xs) = PList (map (thaw_json x) xs)"
| "thaw_json x v = v"

fun is_text :: "pyobj \<Rightarrow> bool" where
  "is_text (PStr s) = True"
| "is_text _ = False"

lemma is_text_iff: "is_text v \<longleftrightarrow> (\<exists>s. v = PStr s)"
  by (cases v) auto

text \<open>What \<open>freeze_json\<close> returns: views with distinct text keys, tuples and finite numbers.\<close>

fun frozen :: "pyobj \<Rightarrow> bool" where
  "frozen (PFloat f) \<longleftrightarrow> f \<notin> {PosInf, NegInf, NaN}"
| "frozen (PTuple xs) \<longleftrightarrow> (\<forall>v \<in> set xs. frozen v)"
| "frozen (PProxy d) \<longleftrightarrow> distinct (map fst d) \<and>
     (\<forall>p \<in> set d. is_text (fst p) \<and> frozen (snd p))"
| "frozen (PDict d) = False"
| "frozen (PList xs) = False"
| "frozen (POther t) = False"
| "frozen v = True"

definition frozen_dict :: "(string, pyobj) dict \<Rightarrow> bool" where
  "frozen_dict d \<longleftrightarrow> distinct (dict_keys d) \<and> list_all frozen (dict_values d)"

section \<open>Errors\<close>

definition deployment_name_error :: "string \<Rightarrow> exc" where
  "deployment_name_error name = NslabError ''DEPLOYMENT_NAME_INVALID''
     (''invalid deployment name: '' @ py_repr name) [(''name'', PStr name)]"

definition validate_deployment_name :: "string \<Rightarrow> string res" where
  "validate_deployment_name name =
     (if name_pattern name then Inr name else Inl (deployment_name_error name))"

text \<open>\<open>type(error).__name__\<close>, \<open>str(error)\<close> and \<open>error.errno\<close>.\<close>

fun type_name :: "exc \<Rightarrow> string" where
  "type_name (NslabError c m d) = ''NslabError''"
| "type_name (OperationCancelled m d) = ''OperationCancelled''"
| "type_name (PyError t m n k) = t"
| "type_name (KeyboardInterrupt k) = ''KeyboardInterrupt''"

fun exc_text :: "exc \<Rightarrow> string" where
  "exc_text (NslabError c m d) = m"
| "exc_text (OperationCancelled m d) = m"
| "exc_text (PyError t m n k) = m"
| "exc_text (KeyboardInterrupt k) = []"

fun errno_of :: "exc \<Rightarrow> int option" where
  "errno_of (PyError t m n k) = n"
| "errno_of _ = None"

text \<open>Membership of \<open>except OSError\<close>, \<open>UnicodeError\<close>, \<open>ValueError\<close> and \<open>TypeError\<close>.\<close>

definition os_error_types :: "string list" where
  "os_error_types = [''OSError'', ''FileNotFoundError'', ''FileExistsError'', ''PermissionError'',
     ''NotADirectoryError'', ''IsADirectoryError'', ''BlockingIOError'', ''InterruptedError'',
     ''TimeoutError'', ''ChildProcessError'', ''ProcessLookupError'', ''ConnectionError'',
     ''BrokenPipeError'', ''ConnectionAbortedError'', ''ConnectionRefusedError'',
     ''ConnectionResetError'']"

definition unicode_error_types :: "string list" where
  "unicode_error_types = [''UnicodeError'', ''UnicodeDecodeError'', ''UnicodeEncodeError'',
     ''UnicodeTranslateError'']"

fun exc_type_in :: "string list \<Rightarrow> exc \<Rightarrow> bool" where
  "exc_type_in ts (PyError t m n k) = (t \<in> set ts)"
| "exc_type_in ts _ = False"

definition is_os_error :: "exc \<Rightarrow> bool" where
  "is_os_error = exc_type_in os_error_types"

definition is_file_not_found :: "exc \<Rightarrow> bool" where
  "is_file_not_found = exc_type_in [''FileNotFoundError'']"

definition is_unicode_error :: "exc \<Rightarrow> bool" where
  "is_unicode_error = exc_type_in unicode_error_types"

definition is_value_error :: "exc \<Rightarrow> bool" where
  "is_value_error = exc_type_in ([''ValueError'', ''JSONDecodeError''] @ unicode_error_types)"

definition is_type_error :: "exc \<Rightarrow> bool" where
  "is_type_error = exc_type_in [''TypeError'']"

definition error_details :: "string \<Rightarrow> exc \<Rightarrow> (string, pyobj) dict" where
  "error_details path error =
     [(''path'', PStr path), (''error'', PStr (exc_text error))] @
     (case errno_of error of None \<Rightarrow> [] | Some n \<Rightarrow> [(''errno'', PInt n)])"

definition state_error :: "string \<Rightarrow> string \<Rightarrow> string \<Rightarrow> exc \<Rightarrow> exc" where
  "state_error code action path error = NslabError code
     (''failed to '' @ action @ '' deployment state: '' @ path) (error_details path error)"

definition cause_details :: "exc \<Rightarrow> (string, pyobj) dict" where
  "cause_details error =
     [(''cause_type'', PStr (type_name error)), (''cause_message'', PStr (exc_text error))]"

definition durability_error :: "string \<Rightarrow> string \<Rightarrow> exc \<Rightarrow> exc" where
  "durability_error path operation error = NslabError ''STATE_DURABILITY_UNCERTAIN''
     (''deployment state '' @ operation @ '' committed but durability is uncertain: '' @ path)
     (dict_update ([(''operation'', PStr operation), (''committed'', PBool True)] @ cause_details error)
       (error_details path error))"

definition commit_outcome_unknown :: "string \<Rightarrow> string \<Rightarrow> exc \<Rightarrow> exc" where
  "commit_outcome_unknown path operation error = NslabError ''STATE_COMMIT_OUTCOME_UNKNOWN''
     (''deployment state '' @ operation @ '' outcome is unknown: '' @ path)
     ([(''path'', PStr path), (''operation'', PStr operation), (''committed'', PStr ''unknown'')] @
      cause_details error)"

definition invalid_state_error :: "string \<Rightarrow> exc \<Rightarrow> exc" where
  "invalid_state_error path error = NslabError ''STATE_INVALID''
     (''invalid deployment state: '' @ path) (error_details path error)"

section \<open>Snapshots\<close>

record state_snapshot =
  ss_schema :: int
  ss_name :: string
  ss_fingerprint :: string
  ss_manifest :: "(string, pyobj) dict"
  ss_namespaces :: "(string, string) dict"
  ss_interfaces :: "(string, pyobj) dict"
  ss_created_at :: string
  ss_status :: string

definition snapshot_statuses :: "string list" where
  "snapshot_statuses = [''deploying'', ''deployed'', ''destroying'']"

definition snapshot_fields :: "string list" where
  "snapshot_fields = [''schema'', ''name'', ''fingerprint'', ''manifest'', ''namespaces'',
     ''interfaces'', ''created_at'', ''status'']"

text \<open>The constructor freezes the manifest and the interfaces and copies the namespaces.\<close>

definition make_snapshot :: "int \<Rightarrow> string \<Rightarrow> string \<Rightarrow> (string, pyobj) dict \<Rightarrow> (string, string) dict \<Rightarrow>
    (string, pyobj) dict \<Rightarrow> string \<Rightarrow> string \<Rightarrow> state_snapshot res" where
  "make_snapshot schema name fingerprint manifest namespaces interfaces created_at status =
     res_bind (freeze_mapping manifest) (\<lambda>manifest.
     res_bind (freeze_mapping interfaces) (\<lambda>interfaces. Inr \<lparr>
       ss_schema = schema,
       ss_name = name,
       ss_fingerprint = fingerprint,
       ss_manifest = manifest,
       ss_namespaces = dict_of namespaces,
       ss_interfaces = interfaces,
       ss_created_at = created_at,
       ss_status = status\<rparr>))"

text \<open>Dataclass equality; the views compare as the mappings they show.\<close>

definition snapshot_eq :: "state_snapshot \<Rightarrow> state_snapshot \<Rightarrow> bool" where
  "snapshot_eq a b \<longleftrightarrow>
     ss_schema a = ss_schema b \<and> ss_name a = ss_name b \<and> ss_fingerprint a = ss_fingerprint b \<and>
     dict_eq py_eq (ss_manifest a) (ss_manifest b) \<and>
     dict_eq (=) (ss_namespaces a) (ss_namespaces b) \<and>
     dict_eq py_eq (ss_interfaces a) (ss_interfaces b) \<and>
     ss_created_at a = ss_created_at b \<and> ss_status a = ss_status b"

definition to_dict :: "ext \<Rightarrow> state_snapshot \<Rightarrow> (string, pyobj) dict" where
  "to_dict x s = [
     (''schema'', PInt (ss_schema s)),
     (''name'', PStr (ss_name s)),
     (''fingerprint'', PStr (ss_fingerprint s)),
     (''manifest'', pdict (dict_map (thaw_json x) (ss_manifest s))),
     (''namespaces'', pdict (dict_map PStr (ss_namespaces s))),
     (''interfaces'', pdict (dict_map (thaw_json x) (ss_interfaces s))),
     (''created_at'', PStr (ss_created_at s)),
     (''status'', PStr (ss_status s))]"

text \<open>
  \<open>_validate_object\<close> and \<open>_validate_string_mapping\<close>: a \<open>dict\<close> proper, copied item by item.
\<close>

definition string_item :: "string \<Rightarrow> pyobj \<times> pyobj \<Rightarrow> (string \<times> pyobj) res" where
  "string_item message p = (case fst p of
      PStr k \<Rightarrow> Inr (k, snd p) | _ \<Rightarrow> Inl (value_error message))"

definition validate_object :: "pyobj \<Rightarrow> string \<Rightarrow> (string, pyobj) dict res" where
  "validate_object value label = (case value of
      PDict d \<Rightarrow> res_bind (res_map (string_item (label @ '' keys must be strings'')) d)
        (\<lambda>items. Inr (dict_of items))
    | _ \<Rightarrow> Inl (value_error (label @ '' must be an object'')))"

definition validate_string_mapping :: "pyobj \<Rightarrow> string \<Rightarrow> (string, string) dict res" where
  "validate_string_mapping value label = (case value of
      PDict d \<Rightarrow> res_bind (res_map (\<lambda>p. case (fst p, snd p) of
          (PStr k, PStr v) \<Rightarrow> Inr (k, v)
        | _ \<Rightarrow> Inl (value_error (label @ '' keys and values must be strings''))) d)
        (\<lambda>items. Inr (dict_of items))
    | _ \<Rightarrow> Inl (value_error (label @ '' must be an object'')))"

definition is_hex_digit :: "char \<Rightarrow> bool" where
  "is_hex_digit c \<longleftrightarrow> c \<in> set ''0123456789abcdef''"

definition require_schema :: "ext \<Rightarrow> pyobj \<Rightarrow> int res" where
  "require_schema x value = (if value = PInt 1 then Inr 1
     else Inl (value_error (''unsupported snapshot schema: '' @ py_repr_obj x value)))"

definition require_snapshot_name :: "ext \<Rightarrow> pyobj \<Rightarrow> string res" where
  "require_snapshot_name x value =
     (let invalid = Inl (value_error (''invalid snapshot deployment name: '' @ py_repr_obj x value)) in
      case value of PStr s \<Rightarrow> if name_pattern s then Inr s else invalid | _ \<Rightarrow> invalid)"

definition require_fingerprint :: "pyobj \<Rightarrow> string res" where
  "require_fingerprint value =
     (let invalid = Inl (value_error ''snapshot fingerprint must be a lowercase SHA-256 digest'') in
      case value of PStr s \<Rightarrow> if length s = 64 \<and> list_all is_hex_digit s then Inr s else invalid
      | _ \<Rightarrow> invalid)"

definition require_created_at :: "pyobj \<Rightarrow> string res" where
  "require_created_at value =
     (let invalid = Inl (value_error ''snapshot creation timestamp must be a non-empty string'') in
      case value of PStr s \<Rightarrow> if s \<noteq> [] then Inr s else invalid | _ \<Rightarrow> invalid)"

definition require_status :: "ext \<Rightarrow> pyobj option \<Rightarrow> string res" where
  "require_status x value = (case value of
      None \<Rightarrow> Inr ''deployed''
    | Some v \<Rightarrow> (case v of
        PStr s \<Rightarrow> if s \<in> set snapshot_statuses then Inr s
          else Inl (value_error (''invalid snapshot status: '' @ py_repr_obj x v))
      | _ \<Rightarrow> Inl (value_error (''invalid snapshot status: '' @ py_repr_obj x v))))"

text \<open>
  The fields the document lacks and the ones it should not have, sorted. A key that is no text,
  which neither \<open>json.load\<close> nor \<open>to_dict\<close> produces, makes the sort or the join raise \<open>TypeError\<close>.
\<close>

definition missing_fields :: "(pyobj \<times> pyobj) list \<Rightarrow> string list" where
  "missing_fields d = sort (filter (\<lambda>f. f \<noteq> ''status'' \<and> PStr f \<notin> set (map fst d)) snapshot_fields)"

definition unexpected_fields :: "(pyobj \<times> pyobj) list \<Rightarrow> string list res" where
  "unexpected_fields d =
     res_bind (res_map (\<lambda>k. case k of
        PStr s \<Rightarrow> Inr s | _ \<Rightarrow> Inl (type_error ''expected str instance''))
       (filter (\<lambda>k. k \<notin> set (map PStr snapshot_fields)) (map fst d)))
     (\<lambda>names. Inr (sort names))"

definition check_fields :: "(pyobj \<times> pyobj) list \<Rightarrow> unit res" where
  "check_fields d =
     (if missing_fields d \<noteq> []
      then Inl (value_error (''snapshot is missing fields: '' @ join '', '' (missing_fields d)))
      else res_bind (unexpected_fields d) (\<lambda>unexpected. if unexpected \<noteq> []
        then Inl (value_error (''snapshot has unknown fields: '' @ join '', '' unexpected))
        else Inr ()))"

definition document_field :: "(pyobj \<times> pyobj) list \<Rightarrow> string \<Rightarrow> pyobj res" where
  "document_field d k = res_of_option (key_error k) (map_of d (PStr k))"

definition from_dict :: "ext \<Rightarrow> pyobj \<Rightarrow> state_snapshot res" where
  "from_dict x document = (case document of
      PDict d \<Rightarrow>
        res_bind (check_fields d) (\<lambda>_.
        res_bind (res_bind (document_field d ''schema'') (require_schema x)) (\<lambda>schema.
        res_bind (res_bind (document_field d ''name'') (require_snapshot_name x)) (\<lambda>name.
        res_bind (res_bind (document_field d ''fingerprint'') require_fingerprint) (\<lambda>fingerprint.
        res_bind (res_bind (document_field d ''created_at'') require_created_at) (\<lambda>created_at.
        res_bind (require_status x (map_of d (PStr ''status''))) (\<lambda>status.
        res_bind (document_field d ''manifest'') (\<lambda>v.
        res_bind (validate_object v ''manifest'') (\<lambda>manifest.
        res_bind (document_field d ''namespaces'') (\<lambda>v.
        res_bind (validate_string_mapping v ''namespaces'') (\<lambda>namespaces.
        res_bind (document_field d ''interfaces'') (\<lambda>v.
        res_bind (validate_object v ''interfaces'') (\<lambda>interfaces.
        res_bind (freeze_json (pdict manifest)) (\<lambda>_.
        res_bind (freeze_json (pdict interfaces)) (\<lambda>_.
        make_snapshot schema name fingerprint manifest namespaces interfaces created_at status))))))))))))))
    | _ \<Rightarrow> Inl (value_error ''snapshot must be a JSON object''))"

section \<open>Round trips\<close>

lemma res_map_map: "res_map f (map g xs) = res_map (\<lambda>x. f (g x)) xs"
  by (induction xs) auto

lemma res_map_id: "(\<And>x. x \<in> set xs \<Longrightarrow> f x = Inr x) \<Longrightarrow> res_map f xs = Inr xs"
  using res_map_all [of xs f "\<lambda>x. x"] by simp

lemma res_map_InrD: "res_map f xs = Inr ys \<Longrightarrow> list_all2 (\<lambda>x y. f x = Inr y) xs ys"
  by (induction xs arbitrary: ys) (auto simp: res_bind_eq_Inr)

text \<open>The keys of \<open>pdict d\<close> are the tagged keys of \<open>d\<close>.\<close>

lemma pdict_retag: "pdict d = PDict (retag PStr d)"
  by (simp add: pdict_def retag_def)

lemma inj_PStr [simp]: "inj PStr"
  by (simp add: inj_on_def)

lemma pdict_keys: "map fst (map (\<lambda>(k, v). (PStr k, v)) e) = map PStr (dict_keys e)"
  by (induction e) auto

lemma distinct_pstr: "distinct (map PStr ks) = distinct ks"
  by (simp add: distinct_map inj_on_def)

lemma freeze_thaw: "frozen v \<Longrightarrow> freeze_json (thaw_json x v) = Inr v"
proof (induction v rule: frozen.induct)
  case (3 d)
  let ?t = "\<lambda>p. (PStr (py_str x (fst p)), thaw_json x (snd p))"
  have keys: "PStr (py_str x (fst p)) = fst p" if "p \<in> set d" for p
    using that 3(2) by (auto simp: is_text_iff)
  then have "map fst (map ?t d) = map fst d" by simp
  then have "dict_of (map ?t d) = map ?t d" "dict_of d = d"
    using 3(2) by (auto intro!: dict_of_distinct simp only: frozen.simps)
  moreover have "(case fst (?t p) of
        PStr k \<Rightarrow> res_bind (freeze_json (snd (?t p))) (\<lambda>v. Inr (PStr k, v))
      | _ \<Rightarrow> Inl (value_error ''JSON object keys must be strings'')) = Inr p"
    if "p \<in> set d" for p
    using 3(1) [OF that] 3(2) that by (cases p) (auto simp: is_text_iff)
  ultimately show ?case by (simp add: res_map_map res_map_id)
qed (auto simp: res_map_map res_map_id split: pyfloat.splits)

lemma freeze_mapping_thaw:
  assumes "frozen_dict d"
  shows "freeze_mapping (dict_map (thaw_json x) d) = Inr d"
proof -
  have "res_map (\<lambda>p. res_bind (freeze_json (snd p)) (\<lambda>v. Inr (fst p, v))) (dict_map (thaw_json x) d) = Inr d"
    using assms by (auto simp: dict_map_def frozen_dict_def res_map_map list_all_iff freeze_thaw
        intro!: res_map_id)
  then show ?thesis using assms by (simp add: freeze_mapping_def frozen_dict_def dict_of_distinct)
qed

lemma freeze_json_pdict: "freeze_json (pdict d) = Inr w \<longleftrightarrow>
    (\<exists>e. freeze_mapping d = Inr e \<and> w = PProxy (map (\<lambda>(k, v). (PStr k, v)) e))"
proof -
  have "res_map (\<lambda>p. case fst p of
        PStr k \<Rightarrow> res_bind (freeze_json (snd p)) (\<lambda>v. Inr (PStr k, v))
      | _ \<Rightarrow> Inl (value_error ''JSON object keys must be strings'')) (retag PStr d) =
    res_bind (res_map (\<lambda>p. res_bind (freeze_json (snd p)) (\<lambda>v. Inr (fst p, v))) d)
      (\<lambda>e. Inr (retag PStr e))"
    by (induction d) (auto simp: retag_def res_bind_def split: sum.splits)
  then have "freeze_json (pdict d) = Inr w \<longleftrightarrow> (\<exists>e. freeze_mapping d = Inr e \<and> w = PProxy (retag PStr e))"
    by (auto simp: pdict_retag freeze_mapping_def res_bind_eq_Inr dict_of_retag)
  then show ?thesis by (simp only: retag_def)
qed

lemma string_items: "res_map (string_item m) (retag PStr d) = Inr d"
  by (auto simp: retag_def res_map_map string_item_def intro!: res_map_id)

lemma validate_object_pdict: "distinct (dict_keys d) \<Longrightarrow> validate_object (pdict d) label = Inr d"
  by (simp add: validate_object_def pdict_retag string_items dict_of_distinct)

lemma validate_string_mapping_pdict:
  assumes "distinct (dict_keys d)"
  shows "validate_string_mapping (pdict (dict_map PStr d)) label = Inr d"
proof -
  have "res_map (\<lambda>p. case (fst p, snd p) of
      (PStr k, PStr v) \<Rightarrow> Inr (k, v)
    | _ \<Rightarrow> Inl (value_error (label @ '' keys and values must be strings'')))
      (map (\<lambda>(k, v). (PStr k, v)) (dict_map PStr d)) = Inr d"
    by (auto simp: dict_map_def res_map_map intro!: res_map_id)
  then show ?thesis using assms by (simp add: validate_string_mapping_def pdict_def dict_of_distinct)
qed

text \<open>What a snapshot that \<open>from_dict\<close> accepts satisfies.\<close>

definition valid_snapshot :: "state_snapshot \<Rightarrow> bool" where
  "valid_snapshot s \<longleftrightarrow>
     ss_schema s = 1 \<and> name_pattern (ss_name s) \<and>
     length (ss_fingerprint s) = 64 \<and> list_all is_hex_digit (ss_fingerprint s) \<and>
     ss_created_at s \<noteq> [] \<and> ss_status s \<in> set snapshot_statuses \<and>
     frozen_dict (ss_manifest s) \<and> distinct (dict_keys (ss_namespaces s)) \<and>
     frozen_dict (ss_interfaces s)"

lemma check_fields_to_dict: "check_fields (map (\<lambda>(k, v). (PStr k, v)) (to_dict x s)) = Inr ()"
  by (simp add: check_fields_def missing_fields_def unexpected_fields_def snapshot_fields_def to_dict_def)

lemma from_dict_fieldsI:
  assumes "check_fields d = Inr ()"
    and "map_of d (PStr ''schema'') = Some (PInt 1)"
    and "map_of d (PStr ''name'') = Some (PStr name)" and "name_pattern name"
    and "map_of d (PStr ''fingerprint'') = Some (PStr fingerprint)"
    and "length fingerprint = 64" and "list_all is_hex_digit fingerprint"
    and "map_of d (PStr ''created_at'') = Some (PStr created_at)" and "created_at \<noteq> []"
    and "map_of d (PStr ''status'') = Some (PStr status)" and "status \<in> set snapshot_statuses"
    and "map_of d (PStr ''manifest'') = Some (pdict m)" and "freeze_mapping m = Inr manifest"
    and "map_of d (PStr ''namespaces'') = Some (pdict (dict_map PStr namespaces))"
    and "map_of d (PStr ''interfaces'') = Some (pdict i)" and "freeze_mapping i = Inr interfaces"
    and "distinct (dict_keys m)" and "distinct (dict_keys namespaces)" and "distinct (dict_keys i)"
  shows "from_dict x (PDict d) = Inr \<lparr>ss_schema = 1, ss_name = name, ss_fingerprint = fingerprint,
    ss_manifest = manifest, ss_namespaces = namespaces, ss_interfaces = interfaces,
    ss_created_at = created_at, ss_status = status\<rparr>"
proof -
  obtain m' i' where "freeze_json (pdict m) = Inr m'" "freeze_json (pdict i) = Inr i'"
    using assms(13,16) freeze_json_pdict by blast
  then show ?thesis
    unfolding from_dict_def pyobj.case document_field_def
    by (simp add: assms validate_object_pdict validate_string_mapping_pdict dict_of_distinct require_schema_def require_snapshot_name_def require_fingerprint_def
        require_created_at_def require_status_def make_snapshot_def)
qed

lemma from_dict_to_dict: "valid_snapshot s \<Longrightarrow> from_dict x (pdict (to_dict x s)) = Inr s"
proof -
  assume v: "valid_snapshot s"
  then have "freeze_mapping (dict_map (thaw_json x) (ss_manifest s)) = Inr (ss_manifest s)"
    "freeze_mapping (dict_map (thaw_json x) (ss_interfaces s)) = Inr (ss_interfaces s)"
    by (simp_all add: valid_snapshot_def freeze_mapping_thaw)
  then show ?thesis
    unfolding pdict_def [of "to_dict x s"] using v
    by (subst from_dict_fieldsI [OF check_fields_to_dict,
          where m = "dict_map (thaw_json x) (ss_manifest s)"
            and i = "dict_map (thaw_json x) (ss_interfaces s)"])
      (auto simp: valid_snapshot_def frozen_dict_def to_dict_def)
qed

section \<open>What documents give\<close>

definition freeze_item :: "pyobj \<times> pyobj \<Rightarrow> (pyobj \<times> pyobj) res" where
  "freeze_item p = (case fst p of
      PStr k \<Rightarrow> res_bind (freeze_json (snd p)) (\<lambda>v. Inr (PStr k, v))
    | _ \<Rightarrow> Inl (value_error ''JSON object keys must be strings''))"

lemma freeze_item_Inr: "freeze_item p = Inr q \<longleftrightarrow>
    is_text (fst p) \<and> fst q = fst p \<and> freeze_json (snd p) = Inr (snd q)"
  by (cases p; cases q; cases "fst p") (auto simp: freeze_item_def res_simps)

lemma res_map_in: "res_map f xs = Inr ys \<Longrightarrow> y \<in> set ys \<Longrightarrow> \<exists>x \<in> set xs. f x = Inr y"
  by (induction xs arbitrary: ys) (auto simp: res_bind_eq_Inr)

lemma freeze_frozen_items:
  assumes "res_map freeze_item d = Inr e"
    and "\<And>p w. p \<in> set d \<Longrightarrow> freeze_json (snd p) = Inr w \<Longrightarrow> frozen w"
  shows "frozen (PProxy (dict_of e))"
proof -
  have "is_text (fst q) \<and> frozen (snd q)" if "q \<in> set (dict_of e)" for q
    using res_map_in [OF assms(1)] set_dict_of [of e] assms(2) that
    by (fastforce simp: freeze_item_Inr)
  then show ?thesis by simp
qed

lemma freeze_json_dict:
    "freeze_json (PDict d) = res_bind (res_map freeze_item d) (\<lambda>d. Inr (PProxy (dict_of d)))"
    "freeze_json (PProxy d) = res_bind (res_map freeze_item d) (\<lambda>d. Inr (PProxy (dict_of d)))"
  unfolding freeze_item_def by simp_all

lemma freeze_json_frozen: "freeze_json v = Inr w \<Longrightarrow> frozen w"
proof (induction v arbitrary: w rule: freeze_json.induct)
  case (2 d)
  then obtain e where e: "res_map freeze_item d = Inr e" and w: "w = PProxy (dict_of e)"
    by (auto simp: freeze_json_dict res_simps simp del: freeze_json.simps)
  have "is_text (fst p)" if "p \<in> set d" for p
    using res_map_InrD [OF e] that by (induction rule: list_all2_induct) (auto simp: freeze_item_Inr)
  then show ?case unfolding w using freeze_frozen_items [OF e] 2(1) by (metis is_text_iff)
next
  case (3 d)
  then obtain e where e: "res_map freeze_item d = Inr e" and w: "w = PProxy (dict_of e)"
    by (auto simp: freeze_json_dict res_simps simp del: freeze_json.simps)
  have "is_text (fst p)" if "p \<in> set d" for p
    using res_map_InrD [OF e] that by (induction rule: list_all2_induct) (auto simp: freeze_item_Inr)
  then show ?case unfolding w using freeze_frozen_items [OF e] 3(1) by (metis is_text_iff)
next
  case (4 xs)
  then obtain ys where "res_map freeze_json xs = Inr ys" "w = PTuple ys" by (auto simp: res_simps)
  then show ?case using 4 res_map_in [of freeze_json xs ys] by fastforce
next
  case (5 xs)
  then obtain ys where "res_map freeze_json xs = Inr ys" "w = PTuple ys" by (auto simp: res_simps)
  then show ?case using 5 res_map_in [of freeze_json xs ys] by fastforce
qed (auto split: pyfloat.splits)

lemma freeze_mapping_frozen:
  assumes "freeze_mapping d = Inr e"
  shows "frozen_dict e"
proof -
  obtain items where items: "res_map (\<lambda>p. res_bind (freeze_json (snd p)) (\<lambda>v. Inr (fst p, v))) d = Inr items"
    and e: "e = dict_of items" using assms by (auto simp: freeze_mapping_def res_bind_eq_Inr)
  have "frozen (snd q)" if "q \<in> set e" for q
    using res_map_in [OF items, of q] subsetD [OF set_dict_of [of items], of q] that
    by (auto simp: e res_bind_eq_Inr dest: freeze_json_frozen)
  then show ?thesis by (auto simp: frozen_dict_def list_all_iff e)
qed

text \<open>The constructor's own guarantees, before any validation.\<close>

definition built_snapshot :: "state_snapshot \<Rightarrow> bool" where
  "built_snapshot s \<longleftrightarrow> frozen_dict (ss_manifest s) \<and> distinct (dict_keys (ss_namespaces s)) \<and>
     frozen_dict (ss_interfaces s)"

lemma make_snapshot_built: "make_snapshot a b c m n i t st = Inr s \<Longrightarrow> built_snapshot s"
  by (auto simp: make_snapshot_def res_bind_eq_Inr built_snapshot_def intro: freeze_mapping_frozen)

lemma from_dict_valid:
  assumes "from_dict x document = Inr s"
  shows "valid_snapshot s"
proof -
  obtain d where d: "document = PDict d" using assms by (auto simp: from_dict_def split: pyobj.splits)
  obtain v1 v2 v3 v4 schema name fingerprint created_at status m n i
    where h: "require_schema x v1 = Inr schema" "require_snapshot_name x v2 = Inr name"
      "require_fingerprint v3 = Inr fingerprint" "require_created_at v4 = Inr created_at"
      "require_status x (map_of d (PStr ''status'')) = Inr status"
      "make_snapshot schema name fingerprint m n i created_at status = Inr s"
    using assms unfolding from_dict_def document_field_def d
    by (auto simp: res_bind_eq_Inr res_of_option_eq_Inr)
  have "schema = 1" using h(1) by (auto simp: require_schema_def split: if_splits)
  moreover have "name_pattern name"
    using h(2) by (auto simp: require_snapshot_name_def Let_def split: pyobj.splits if_splits)
  moreover have "length fingerprint = 64 \<and> list_all is_hex_digit fingerprint"
    using h(3) by (auto simp: require_fingerprint_def Let_def split: pyobj.splits if_splits)
  moreover have "created_at \<noteq> []"
    using h(4) by (auto simp: require_created_at_def Let_def split: pyobj.splits if_splits)
  moreover have "status \<in> set snapshot_statuses"
    using h(5) by (auto simp: require_status_def snapshot_statuses_def
        split: option.splits pyobj.splits if_splits)
  moreover have "built_snapshot s" by (rule make_snapshot_built [OF h(6)])
  ultimately show ?thesis
    using h(6) by (auto simp: make_snapshot_def res_bind_eq_Inr valid_snapshot_def built_snapshot_def)
qed

lemma map_of_to_dict: "map_of (map (\<lambda>(k, v). (PStr k, v)) (to_dict x s)) (PStr k) = map_of (to_dict x s) k"
  by (simp add: to_dict_def)

lemma pdict_inject: "pdict d = pdict e \<longleftrightarrow> d = e"
proof
  assume "pdict d = pdict e"
  then have "map (\<lambda>(k, v). (PStr k, v)) d = map (\<lambda>(k, v). (PStr k, v)) e" by (simp add: pdict_def)
  then show "d = e" by (rule map_injective) (auto simp: inj_on_def)
qed simp

lemma map_pstr_inject: "dict_map PStr d = dict_map PStr e \<Longrightarrow> d = e"
  unfolding dict_map_def by (rule map_injective) (auto simp: inj_on_def)

lemma from_to_dict_built:
  assumes b: "built_snapshot s" and v: "from_dict x (pdict (to_dict x s)) = Inr v"
  shows "v = s \<and> valid_snapshot s"
proof -
  have f: "freeze_mapping (dict_map (thaw_json x) (ss_manifest s)) = Inr (ss_manifest s)"
    "freeze_mapping (dict_map (thaw_json x) (ss_interfaces s)) = Inr (ss_interfaces s)"
    using b by (simp_all add: built_snapshot_def freeze_mapping_thaw)
  let ?d = "map (\<lambda>(k, v). (PStr k, v)) (to_dict x s)"
  have look: "map_of ?d (PStr ''schema'') = Some (PInt (ss_schema s))"
    "map_of ?d (PStr ''name'') = Some (PStr (ss_name s))"
    "map_of ?d (PStr ''fingerprint'') = Some (PStr (ss_fingerprint s))"
    "map_of ?d (PStr ''manifest'') = Some (pdict (dict_map (thaw_json x) (ss_manifest s)))"
    "map_of ?d (PStr ''namespaces'') = Some (pdict (dict_map PStr (ss_namespaces s)))"
    "map_of ?d (PStr ''interfaces'') = Some (pdict (dict_map (thaw_json x) (ss_interfaces s)))"
    "map_of ?d (PStr ''created_at'') = Some (PStr (ss_created_at s))"
    "map_of ?d (PStr ''status'') = Some (PStr (ss_status s))"
    unfolding map_of_to_dict by (simp_all add: to_dict_def)
  have ok: "ss_schema s = 1" "name_pattern (ss_name s)"
    "length (ss_fingerprint s) = 64" "list_all is_hex_digit (ss_fingerprint s)"
    "ss_created_at s \<noteq> []" "ss_status s \<in> set snapshot_statuses"
    using v unfolding pdict_def [of "to_dict x s"] from_dict_def pyobj.case document_field_def look
    by (auto simp: res_bind_eq_Inr require_schema_def require_snapshot_name_def require_status_def
        require_fingerprint_def require_created_at_def Let_def split: if_splits)
  then have "valid_snapshot s" using b by (simp add: valid_snapshot_def built_snapshot_def)
  then show ?thesis using from_dict_to_dict [of s x] v by simp
qed

section \<open>Properties\<close>

text \<open>
  C19. A document that \<open>from_dict\<close> accepts gives a valid snapshot: schema 1, a deployment name, a
  SHA-256 fingerprint, a known status, a frozen manifest and frozen interfaces; and the document
  \<open>to_dict\<close> writes for it is accepted again and gives the same snapshot.
\<close>

theorem snapshot_document_roundtrip:
  assumes "from_dict x document = Inr s"
  shows "valid_snapshot s \<and> from_dict x (pdict (to_dict x s)) = Inr s"
  using from_dict_valid [OF assms] from_dict_to_dict by blast

definition sample_document :: pyobj where
  "sample_document = pdict [
     (''schema'', PInt 1),
     (''name'', PStr ''lab''),
     (''fingerprint'', PStr (replicate 64 (CHR ''a''))),
     (''manifest'', pdict [(''version'', PInt 1), (''tags'', PList [PStr ''x'', PNone])]),
     (''namespaces'', pdict [(''h1'', PStr ''nslab-lab-h1'')]),
     (''interfaces'', pdict [(''h1:eth0'', pdict [(''ifindex'', PInt 2)])]),
     (''created_at'', PStr ''2024-01-01T00:00:00+00:00'')]"

definition sample_snapshot :: state_snapshot where
  "sample_snapshot = \<lparr>ss_schema = 1, ss_name = ''lab'', ss_fingerprint = replicate 64 (CHR ''a''),
     ss_manifest = [(''version'', PInt 1), (''tags'', PTuple [PStr ''x'', PNone])],
     ss_namespaces = [(''h1'', ''nslab-lab-h1'')],
     ss_interfaces = [(''h1:eth0'', PProxy [(PStr ''ifindex'', PInt 2)])],
     ss_created_at = ''2024-01-01T00:00:00+00:00'', ss_status = ''deployed''\<rparr>"

lemma from_sample_document: "from_dict sample_ext sample_document = Inr sample_snapshot"
  by code_simp

theorem snapshot_document_roundtrip_witness:
  "valid_snapshot sample_snapshot \<and>
   from_dict sample_ext (pdict (to_dict sample_ext sample_snapshot)) = Inr sample_snapshot"
  by (rule snapshot_document_roundtrip [OF from_sample_document])

end
