(* ===== verification/Documents.thy ===== *)
theory Documents
  imports State
begin

text \<open>
  The text of a state file, as the document it stands for: what \<open>json.dumps\<close> with sorted keys
  writes and \<open>json.load\<close> reads back. The lemmas show that a snapshot written and read again equals
  the one that was written, in Python's sense, which ignores the order of the keys.
\<close>

section \<open>The text of a document\<close>

text \<open>
  The document that \<open>json.load\<close> reads from what \<open>json.dumps(value, sort_keys=True,
  allow_nan=False)\<close> writes: keys sorted, tuples as lists; numbers that are not finite or have more
  than 4300 digits, and objects of other types, raise.
\<close>

fun json_dumps :: "pyobj \<Rightarrow> pyobj res" where
  "json_dumps (PInt i) = (if int_max_str_digits < length (show_nat (nat \<bar>i\<bar>))
     then Inl (value_error (''Exceeds the limit (4300 digits) for integer string conversion; '' @
       ''use sys.set_int_max_str_digits() to increase the limit'')) else Inr (PInt i))"
| "json_dumps (PFloat f) = (case f of Finite q \<Rightarrow> Inr (PFloat f)
     | PosInf \<Rightarrow> Inl (value_error ''Out of range float values are not JSON compliant: inf'')
     | NegInf \<Rightarrow> Inl (value_error ''Out of range float values are not JSON compliant: -inf'')
     | NaN \<Rightarrow> Inl (value_error ''Out of range float values are not JSON compliant: nan''))"
| "json_dumps (PList xs) = res_bind (res_map json_dumps xs) (\<lambda>xs. Inr (PList xs))"
| "json_dumps (PTuple xs) = res_bind (res_map json_dumps xs) (\<lambda>xs. Inr (PList xs))"
| "json_dumps (PDict d) =
     res_bind (res_map (\<lambda>p. case fst p of
        PStr k \<Rightarrow> res_bind (json_dumps (snd p)) (\<lambda>v. Inr (k, v))
      | _ \<Rightarrow> Inl (type_error ''keys must be str, int, float, bool or None'')) d)
     (\<lambda>items. Inr (pdict (sort_key fst items)))"
| "json_dumps (PProxy d) = Inl (type_error ''Object of type mappingproxy is not JSON serializable'')"
| "json_dumps (POther t) =
     Inl (type_error (''Object of type '' @ t @ '' is not JSON serializable''))"
| "json_dumps v = Inr v"

section \<open>Equality up to the order of keys\<close>

lemma map_of_sort_key:
  assumes "distinct (map fst items)"
  shows "map_of (sort_key fst items) = map_of items"
proof
  fix k
  have d: "distinct (map fst (sort_key fst items))" using assms by (simp add: distinct_map)
  show "map_of (sort_key fst items) k = map_of items k"
  proof (cases "map_of items k")
    case None
    then have "k \<notin> fst ` set (sort_key fst items)" by (simp add: map_of_eq_None_iff)
    then show ?thesis using None by (metis map_of_eq_None_iff)
  next
    case (Some v)
    then have "(k, v) \<in> set (sort_key fst items)" by (simp add: map_of_SomeD)
    then show ?thesis using Some map_of_is_SomeI [OF d] by simp
  qed
qed

lemma distinct_sort_items: "distinct (map fst items) \<Longrightarrow> distinct (map fst (sort_key fst items))"
  by (simp add: distinct_map)

text \<open>The items of \<open>json_dumps\<close> and \<open>freeze_json\<close>, one by one.\<close>

definition dump_item :: "pyobj \<times> pyobj \<Rightarrow> (string \<times> pyobj) res" where
  "dump_item p = (case fst p of
      PStr k \<Rightarrow> res_bind (json_dumps (snd p)) (\<lambda>v. Inr (k, v))
    | _ \<Rightarrow> Inl (type_error ''keys must be str, int, float, bool or None''))"

lemma json_dumps_dict:
  "json_dumps (PDict d) = res_bind (res_map dump_item d) (\<lambda>items. Inr (pdict (sort_key fst items)))"
  unfolding dump_item_def by simp

lemma json_dumps_pdict: "json_dumps (pdict d) = res_bind
    (res_map (\<lambda>p. res_bind (json_dumps (snd p)) (\<lambda>v. Inr (fst p, v))) d)
    (\<lambda>items. Inr (pdict (sort_key fst items)))"
  by (simp add: pdict_def json_dumps_dict res_map_map dump_item_def case_prod_unfold
      del: json_dumps.simps)

lemma freeze_mapping_InrI:
  assumes "list_all2 (\<lambda>p q. fst q = fst p \<and> freeze_json (snd p) = Inr (snd q)) d e"
    and "distinct (dict_keys e)"
  shows "freeze_mapping d = Inr e"
proof -
  have "res_map (\<lambda>p. res_bind (freeze_json (snd p)) (\<lambda>v. Inr (fst p, v))) d = Inr e"
    using assms(1) by (induction rule: list_all2_induct) auto
  then show ?thesis by (simp add: freeze_mapping_def dict_of_distinct assms(2))
qed

lemma list_all2_choice:
  assumes "\<And>x. x \<in> set xs \<Longrightarrow> \<exists>y. R x y"
  obtains ys where "list_all2 R xs ys"
  using assms
proof (induction xs arbitrary: thesis)
  case (Cons x xs)
  obtain y where "R x y" using Cons.prems(2) [of x] by auto
  moreover obtain ys where "list_all2 R xs ys" using Cons.IH Cons.prems(2) by auto
  ultimately show ?case using Cons.prems(1) [of "y # ys"] by simp
qed simp

text \<open>
  The mapping read back from the sorted dump of a frozen mapping has the same keys, and under each
  an equal value.
\<close>

lemma reread_mapping:
  fixes d :: "(string, pyobj) dict"
  assumes d: "distinct (dict_keys d)"
    and items: "res_map (\<lambda>p. res_bind (json_dumps (thaw_json x (snd p))) (\<lambda>v. Inr (fst p, v))) d = Inr items"
    and reread: "\<And>p v. p \<in> set d \<Longrightarrow> json_dumps (thaw_json x (snd p)) = Inr v \<Longrightarrow>
      \<exists>u. freeze_json v = Inr u \<and> py_eq (snd p) u \<and> py_eq u (snd p)"
  obtains e where "freeze_mapping (sort_key fst items) = Inr e"
    and "distinct (dict_keys (sort_key fst items))" and "distinct (dict_keys e)"
    and "length e = length d"
    and "\<forall>p \<in> set d. \<exists>q \<in> set e. fst q = fst p \<and> py_eq (snd p) (snd q)"
    and "\<forall>q \<in> set e. \<exists>p \<in> set d. fst p = fst q \<and> py_eq (snd q) (snd p)"
proof -
  have all: "list_all2 (\<lambda>p q. fst q = fst p \<and> json_dumps (thaw_json x (snd p)) = Inr (snd q)) d items"
    using res_map_InrD [OF items] by (rule list_all2_mono) (auto simp: res_bind_eq_Inr)
  then have keys: "dict_keys items = dict_keys d" by (induction rule: list_all2_induct) auto
  have dumped: "\<exists>q \<in> set items. fst q = fst p \<and> json_dumps (thaw_json x (snd p)) = Inr (snd q)"
    if "p \<in> set d" for p
    using all that by (induction rule: list_all2_induct) auto
  have origin: "\<exists>p \<in> set d. fst q = fst p \<and> json_dumps (thaw_json x (snd p)) = Inr (snd q)"
    if "q \<in> set items" for q
    using all that by (induction rule: list_all2_induct) auto
  have "\<exists>r. fst r = fst q \<and> freeze_json (snd q) = Inr (snd r)"
    if "q \<in> set (sort_key fst items)" for q
    using origin [of q] reread that by fastforce
  then obtain e where e: "list_all2 (\<lambda>q r. fst r = fst q \<and> freeze_json (snd q) = Inr (snd r))
      (sort_key fst items) e"
    by (rule list_all2_choice)
  then have ekeys: "dict_keys e = dict_keys (sort_key fst items)"
    by (induction rule: list_all2_induct) auto
  have eforth: "\<exists>r \<in> set e. fst r = fst q \<and> freeze_json (snd q) = Inr (snd r)"
    if "q \<in> set (sort_key fst items)" for q
    using e that by (induction rule: list_all2_induct) auto
  have eback: "\<exists>q \<in> set (sort_key fst items). fst r = fst q \<and> freeze_json (snd q) = Inr (snd r)"
    if "r \<in> set e" for r
    using e that by (induction rule: list_all2_induct) auto
  have distinct: "distinct (dict_keys e)"
    unfolding ekeys using d by (simp add: distinct_map keys [symmetric])
  show thesis
  proof (rule that)
    show "freeze_mapping (sort_key fst items) = Inr e" by (rule freeze_mapping_InrI [OF e distinct])
    show "distinct (dict_keys (sort_key fst items))" using distinct unfolding ekeys .
    show "distinct (dict_keys e)" by (rule distinct)
    show "length e = length d"
      using list_all2_lengthD [OF e] list_all2_lengthD [OF all] by simp
    show "\<forall>p \<in> set d. \<exists>q \<in> set e. fst q = fst p \<and> py_eq (snd p) (snd q)"
    proof
      fix p assume p: "p \<in> set d"
      obtain q where q: "q \<in> set items" "fst q = fst p" "json_dumps (thaw_json x (snd p)) = Inr (snd q)"
        using dumped [OF p] by blast
      obtain r where "r \<in> set e" "fst r = fst q" "freeze_json (snd q) = Inr (snd r)"
        using eforth [of q] q(1) by auto
      then show "\<exists>q \<in> set e. fst q = fst p \<and> py_eq (snd p) (snd q)"
        using reread [OF p q(3)] q(2) by auto
    qed
    show "\<forall>q \<in> set e. \<exists>p \<in> set d. fst p = fst q \<and> py_eq (snd q) (snd p)"
    proof
      fix r assume "r \<in> set e"
      then obtain q where q: "q \<in> set items" "fst r = fst q" "freeze_json (snd q) = Inr (snd r)"
        using eback [of r] by auto
      obtain p where p: "p \<in> set d" "fst q = fst p" "json_dumps (thaw_json x (snd p)) = Inr (snd q)"
        using origin [OF q(1)] by blast
      then show "\<exists>p \<in> set d. fst p = fst r \<and> py_eq (snd r) (snd p)"
        using reread [OF p(1,3)] q p(2) by auto
    qed
  qed
qed

lemma thaw_proxy:
  assumes "frozen (PProxy d)"
  obtains d' where "d = map (\<lambda>(k, v). (PStr k, v)) d'" and "distinct (dict_keys d')"
    and "\<forall>p \<in> set d'. frozen (snd p)" and "thaw_json x (PProxy d) = pdict (dict_map (thaw_json x) d')"
proof -
  let ?u = "\<lambda>p. (case fst p of PStr k \<Rightarrow> (k, snd p) | _ \<Rightarrow> ([], snd p))"
  have d: "d = map (\<lambda>(k, v). (PStr k, v)) (map ?u d)"
    using assms by (auto simp: is_text_iff map_idI o_def case_prod_unfold intro!: map_idI [symmetric])
  have keys: "distinct (dict_keys (map ?u d))"
    using assms pdict_keys [of "map ?u d"] d distinct_pstr [of "dict_keys (map ?u d)"]
    by (metis frozen.simps(3))
  have vals: "\<forall>p \<in> set (map ?u d). frozen (snd p)"
    using assms by (auto split: pyobj.splits)
  have "thaw_json x (PProxy d) = pdict (dict_map (thaw_json x) (map ?u d))"
  proof -
    have eq: "map (\<lambda>p. (PStr (py_str x (fst p)), thaw_json x (snd p))) d =
        map (\<lambda>(k, v). (PStr k, v)) (dict_map (thaw_json x) (map ?u d))"
      using assms by (auto simp: dict_map_def is_text_iff)
    have "distinct (map fst (map (\<lambda>(k, v). (PStr k, v)) (dict_map (thaw_json x) (map ?u d))))"
      unfolding pdict_keys distinct_pstr dict_keys_map by (rule keys)
    then show ?thesis unfolding thaw_json.simps eq by (simp add: pdict_def dict_of_distinct)
  qed
  with d keys vals show thesis by (rule that)
qed

lemma py_eq_proxy:
  assumes "length a = length b" and "\<forall>p \<in> set a. \<exists>q \<in> set b. fst q = fst p \<and> py_eq (snd p) (snd q)"
  shows "py_eq (PProxy (map (\<lambda>(k, v). (PStr k, v)) a)) (PProxy (map (\<lambda>(k, v). (PStr k, v)) b))"
proof -
  have "\<exists>q \<in> set (map (\<lambda>(k, v). (PStr k, v)) b). py_eq (fst p) (fst q) \<and> py_eq (snd p) (snd q)"
    if p: "p \<in> set (map (\<lambda>(k, v). (PStr k, v)) a)" for p
  proof -
    obtain k v where kv: "(k, v) \<in> set a" "p = (PStr k, v)" using p by auto
    then obtain u where u: "(k, u) \<in> set b" "py_eq v u" using assms(2) by fastforce
    then have "(PStr k, u) \<in> set (map (\<lambda>(k, v). (PStr k, v)) b)" by force
    then show ?thesis using kv(2) u(2) by (intro bexI [of _ "(PStr k, u)"]) simp_all
  qed
  then show ?thesis using assms(1) by (simp only: py_eq.simps mapping_items.simps option.case length_map simp_thms) blast
qed

lemma reread:
  "frozen v \<Longrightarrow> json_dumps (thaw_json x v) = Inr d \<Longrightarrow>
   \<exists>u. freeze_json d = Inr u \<and> py_eq v u \<and> py_eq u v"
proof (induction v arbitrary: d rule: frozen.induct)
  case (1 f)
  then show ?case by (cases f) auto
next
  case (2 vs)
  then obtain ds where ds: "res_map (\<lambda>v. json_dumps (thaw_json x v)) vs = Inr ds" and d: "d = PList ds"
    by (auto simp: res_bind_eq_Inr res_map_map)
  have all: "list_all2 (\<lambda>v d. json_dumps (thaw_json x v) = Inr d) vs ds" by (rule res_map_InrD [OF ds])
  have "list_all2 (\<lambda>v d. \<exists>u. freeze_json d = Inr u \<and> py_eq v u \<and> py_eq u v) vs ds"
    using list.rel_mono_strong [OF all] 2 by auto
  then have "\<exists>us. res_map freeze_json ds = Inr us \<and> list_all2 py_eq vs us \<and> list_all2 py_eq us vs"
    by (induction rule: list_all2_induct) auto
  then show ?case by (auto simp: d)
next
  case (3 d0)
  obtain d' where d': "d0 = map (\<lambda>(k, v). (PStr k, v)) d'" "distinct (dict_keys d')"
    "\<forall>p \<in> set d'. frozen (snd p)" "thaw_json x (PProxy d0) = pdict (dict_map (thaw_json x) d')"
    using 3(2) by (rule thaw_proxy)
  obtain items where items:
    "res_map (\<lambda>p. res_bind (json_dumps (thaw_json x (snd p))) (\<lambda>v. Inr (fst p, v))) d' = Inr items"
    and d: "d = pdict (sort_key fst items)"
    using 3(3) unfolding d'(4) json_dumps_pdict
    by (auto simp: dict_map_def res_map_map res_bind_eq_Inr case_prod_unfold)
  have again: "\<exists>u. freeze_json v = Inr u \<and> py_eq (snd p) u \<and> py_eq u (snd p)"
    if "p \<in> set d'" "json_dumps (thaw_json x (snd p)) = Inr v" for p v
  proof -
    have "(PStr (fst p), snd p) \<in> set d0" using that(1) by (force simp: d'(1))
    from 3(1) [OF this] that d'(3) show ?thesis by auto
  qed
  obtain e where e: "freeze_mapping (sort_key fst items) = Inr e"
    and "distinct (dict_keys (sort_key fst items))" and "distinct (dict_keys e)" and e': "length e = length d'"
    "\<forall>p \<in> set d'. \<exists>q \<in> set e. fst q = fst p \<and> py_eq (snd p) (snd q)"
    "\<forall>q \<in> set e. \<exists>p \<in> set d'. fst p = fst q \<and> py_eq (snd q) (snd p)"
    by (rule reread_mapping [OF d'(2) items again])
  have "freeze_json d = Inr (PProxy (map (\<lambda>(k, v). (PStr k, v)) e))"
    by (simp add: d freeze_json_pdict e del: freeze_json.simps)
  moreover have "py_eq (PProxy d0) (PProxy (map (\<lambda>(k, v). (PStr k, v)) e))"
    "py_eq (PProxy (map (\<lambda>(k, v). (PStr k, v)) e)) (PProxy d0)"
    unfolding d'(1) using e' by (simp_all only: py_eq_proxy)
  ultimately show ?case by blast
qed (auto split: if_splits)

lemma dict_eqI:
  assumes "\<And>k v. dict_get a k = Some v \<Longrightarrow> \<exists>u. dict_get b k = Some u \<and> eq v u"
    and "set (dict_keys a) = set (dict_keys b)"
  shows "dict_eq eq a b"
  unfolding dict_eq_def
proof (intro conjI ballI)
  fix k assume "k \<in> set (dict_keys a)"
  then obtain v where v: "dict_get a k = Some v" using dict_get_in_keys by metis
  then obtain u where "dict_get b k = Some u" "eq v u" using assms(1) by blast
  then show "case (dict_get a k, dict_get b k) of (Some v, Some v') \<Rightarrow> eq v v' | _ \<Rightarrow> False"
    by (simp add: v)
qed (rule assms(2))

lemma dict_eq_of_items:
  assumes "distinct (dict_keys a)" and "distinct (dict_keys b)"
    and "\<forall>p \<in> set a. \<exists>q \<in> set b. fst q = fst p \<and> eq (snd p) (snd q)"
    and "\<forall>q \<in> set b. \<exists>p \<in> set a. fst p = fst q"
  shows "dict_eq eq a b"
proof -
  have "\<exists>u. dict_get b k = Some u \<and> eq v u" if kv: "dict_get a k = Some v" for k v
  proof -
    obtain q where "q \<in> set b" "fst q = k" "eq v (snd q)"
      using assms(3) map_of_SomeD [OF kv] by fastforce
    then show ?thesis using map_of_is_SomeI [OF assms(2), of k "snd q"] by (cases q) auto
  qed
  moreover have "set (dict_keys a) = set (dict_keys b)"
    using assms(3,4) by (intro set_eqI iffI) (auto, (metis fst_conv image_eqI)+)
  ultimately show ?thesis by (intro dict_eqI)
qed

text \<open>A frozen mapping, thawed, dumped, loaded and frozen again.\<close>

lemma reread_frozen_dict:
  assumes d: "frozen_dict d" and j: "json_dumps (pdict (dict_map (thaw_json x) d)) = Inr v"
  obtains e f where "v = pdict e" and "distinct (dict_keys e)" and "freeze_mapping e = Inr f"
    and "dict_eq py_eq f d"
    and "dict_eq py_eq d f"
proof -
  obtain items where items:
    "res_map (\<lambda>p. res_bind (json_dumps (thaw_json x (snd p))) (\<lambda>v. Inr (fst p, v))) d = Inr items"
    and v: "v = pdict (sort_key fst items)"
    using j unfolding json_dumps_pdict
    by (auto simp: dict_map_def res_map_map res_bind_eq_Inr case_prod_unfold)
  have keys: "distinct (dict_keys d)" using d by (simp add: frozen_dict_def)
  have again: "\<exists>u. freeze_json v = Inr u \<and> py_eq (snd p) u \<and> py_eq u (snd p)"
    if "p \<in> set d" "json_dumps (thaw_json x (snd p)) = Inr v" for p v
    using reread [OF _ that(2)] d that(1) by (auto simp: frozen_dict_def list_all_iff)
  obtain f where f: "freeze_mapping (sort_key fst items) = Inr f"
    and ik: "distinct (dict_keys (sort_key fst items))" and fk: "distinct (dict_keys f)"
    and "length f = length d"
    and f1: "\<forall>p \<in> set d. \<exists>q \<in> set f. fst q = fst p \<and> py_eq (snd p) (snd q)"
    and f2: "\<forall>q \<in> set f. \<exists>p \<in> set d. fst p = fst q \<and> py_eq (snd q) (snd p)"
    by (rule reread_mapping [OF keys items again])
  have "dict_eq py_eq f d" by (rule dict_eq_of_items [OF fk keys]) (use f1 f2 in blast)+
  moreover have "dict_eq py_eq d f" by (rule dict_eq_of_items [OF keys fk]) (use f1 f2 in blast)+
  ultimately show thesis by (rule that [OF v ik f])
qed

lemma json_dumps_strings:
  fixes d :: "(string, string) dict"
  shows "json_dumps (pdict (dict_map PStr d)) = Inr (pdict (dict_map PStr (sort_key fst d)))"
proof -
  have "res_map (\<lambda>p. res_bind (json_dumps (snd p)) (\<lambda>v. Inr (fst p, v))) (dict_map PStr d) =
      Inr (dict_map PStr d)"
    by (rule res_map_id) (auto simp: dict_map_def)
  moreover have "sort_key fst (dict_map PStr d) = dict_map PStr (sort_key fst d)"
  proof (induction d)
    case (Cons p d)
    have "insort_key fst (k, PStr v) (dict_map PStr d) = dict_map PStr (insort_key fst (k, v) d)" for k v d
      by (induction d) (auto simp: dict_map_def)
    then show ?case using Cons by (cases p) (simp add: dict_map_def)
  qed (simp add: dict_map_def)
  ultimately show ?thesis by (simp add: json_dumps_pdict)
qed

lemma map_of_tagged: "map_of (map (\<lambda>(k, v). (PStr k, v)) d) (PStr k) = map_of d k"
  by (induction d) auto

lemma check_fields_keys:
  assumes "set (map fst d) = set (map PStr snapshot_fields)"
  shows "check_fields d = Inr ()"
proof -
  have "missing_fields d = []" unfolding missing_fields_def assms by (auto simp: filter_empty_conv)
  moreover have "filter (\<lambda>k. k \<notin> set (map PStr snapshot_fields)) (map fst d) = []"
    using assms by (auto simp: filter_empty_conv)
  then have "unexpected_fields d = Inr []" unfolding unexpected_fields_def by simp
  ultimately show ?thesis by (simp add: check_fields_def)
qed

text \<open>A snapshot written by \<open>json.dumps\<close> and loaded again equals the one written.\<close>

lemma reread_snapshot:
  assumes s: "valid_snapshot s" and j: "json_dumps (pdict (to_dict x s)) = Inr d"
  obtains s' where "from_dict x d = Inr s'" and "snapshot_eq s' s" and "snapshot_eq s s'"
    and "ss_name s' = ss_name s" and "ss_status s' = ss_status s"
    and "ss_fingerprint s' = ss_fingerprint s"
proof -
  obtain m i where m: "json_dumps (pdict (dict_map (thaw_json x) (ss_manifest s))) = Inr m"
    and i: "json_dumps (pdict (dict_map (thaw_json x) (ss_interfaces s))) = Inr i"
    and d: "d = pdict (sort_key fst [
     (''schema'', PInt (ss_schema s)),
     (''name'', PStr (ss_name s)),
     (''fingerprint'', PStr (ss_fingerprint s)),
     (''manifest'', m),
     (''namespaces'', pdict (dict_map PStr (sort_key fst (ss_namespaces s)))),
     (''interfaces'', i),
     (''created_at'', PStr (ss_created_at s)),
     (''status'', PStr (ss_status s))])" (is "_ = pdict (sort_key fst ?items)")
    using j [unfolded json_dumps_pdict to_dict_def]
    by (auto simp: res_bind_eq_Inr json_dumps_strings simp del: sort_key_simps split: if_splits)
  obtain em fm where em: "m = pdict em" "distinct (dict_keys em)" "freeze_mapping em = Inr fm"
    and fm: "dict_eq py_eq fm (ss_manifest s)" "dict_eq py_eq (ss_manifest s) fm"
    using reread_frozen_dict [OF _ m] s by (auto simp: valid_snapshot_def)
  obtain ei fi where ei: "i = pdict ei" "distinct (dict_keys ei)" "freeze_mapping ei = Inr fi"
    and fi: "dict_eq py_eq fi (ss_interfaces s)" "dict_eq py_eq (ss_interfaces s) fi"
    using reread_frozen_dict [OF _ i] s by (auto simp: valid_snapshot_def)
  let ?d = "map (\<lambda>(k, v). (PStr k, v)) (sort_key fst ?items)"
  have "distinct (dict_keys ?items)" by simp
  then have look: "map_of ?d (PStr k) = map_of ?items k" for k
    by (simp only: map_of_tagged map_of_sort_key)
  have "set (map fst ?d) = set (map PStr snapshot_fields)"
    unfolding pdict_keys set_map set_sort by (auto simp: snapshot_fields_def)
  then have check: "check_fields ?d = Inr ()" by (rule check_fields_keys)
  let ?s = "\<lparr>ss_schema = 1, ss_name = ss_name s, ss_fingerprint = ss_fingerprint s,
    ss_manifest = fm, ss_namespaces = sort_key fst (ss_namespaces s), ss_interfaces = fi,
    ss_created_at = ss_created_at s, ss_status = ss_status s\<rparr>"
  have loaded: "from_dict x d = Inr ?s"
    unfolding d pdict_def [of "sort_key fst ?items"] using s
    by (intro from_dict_fieldsI [OF check, where m = em and i = ei]) 
      (simp_all only: look, simp_all add: valid_snapshot_def em ei distinct_sort_items)
  have ns: "distinct (dict_keys (ss_namespaces s))" using s by (simp add: valid_snapshot_def)
  have "dict_eq (=) (ss_namespaces s) (sort_key fst (ss_namespaces s))"
    "dict_eq (=) (sort_key fst (ss_namespaces s)) (ss_namespaces s)"
    by (intro dict_eqI; simp add: map_of_sort_key [OF ns])+
  then have "snapshot_eq ?s s" "snapshot_eq s ?s"
    using fm fi s by (simp_all add: snapshot_eq_def valid_snapshot_def)
  with loaded show thesis by (rule that) simp_all
qed

end
