(* ===== verification/Store.thy ===== *)
theory Store
  imports Documents
begin

text \<open>
  \<open>StateStore\<close> of \<open>src/nslab/state.py\<close> over a model of the directory it writes: files with their
  mode and content, open descriptors, and a schedule that lets any system call fail, before or
  after its effect. A file's content is what \<open>json.load\<close> makes of it, a document or the text of the
  \<open>ValueError\<close> (\<open>JSONDecodeError\<close>, \<open>UnicodeDecodeError\<close>) it raises. The lemmas show that \<open>save\<close> and \<open>delete\<close> change the file of one deployment from its
  old to its new content with nothing in between, and which errors mean which of the two.
\<close>

section \<open>The directory\<close>

datatype file_content = Document pyobj | Unreadable string

record state_file =
  fl_mode :: int
  fl_content :: file_content

text \<open>
  The machine as the store and the lock see it: the state directory with its mode, the files, the
  descriptors this process has open, the names \<open>mkstemp\<close> will draw, the system calls made so far and
  how each one ends, the lock files this process holds, and the two clocks. What happens at a system
  call: nothing special, or an exception raised instead of it or right
  after it, as a signal handler does that runs before the next statement.
\<close>

datatype fault = NoFault | FailBefore exc | FailAfter exc

record disk =
  dk_root :: string
  dk_pid :: string
  dk_root_mode :: "int option"
  dk_files :: "(string, state_file) dict"
  dk_open :: "string list"
  dk_random :: "nat \<Rightarrow> string"
  dk_drawn :: nat
  dk_faults :: "nat \<Rightarrow> fault"
  dk_calls :: nat
  dk_held :: "string list"
  dk_now :: rat
  dk_wall :: "nat \<Rightarrow> string"

definition syscall :: "(disk, 'a) io \<Rightarrow> (disk, 'a) io" where
  "syscall act w = (let w1 = w\<lparr>dk_calls := dk_calls w + 1\<rparr> in
     case dk_faults w (dk_calls w) of
       NoFault \<Rightarrow> act w1
     | FailBefore e \<Rightarrow> (Inl e, w1)
     | FailAfter e \<Rightarrow> (Inl e, snd (act w1)))"

definition file_not_found :: "string \<Rightarrow> exc" where
  "file_not_found path = os_error ''FileNotFoundError''
     (''[Errno 2] No such file or directory: '' @ py_repr path) 2"

definition file_exists :: "string \<Rightarrow> exc" where
  "file_exists path = os_error ''FileExistsError'' (''[Errno 17] File exists: '' @ py_repr path) 17"

text \<open>The content of an empty or half-written file.\<close>

definition partial_text :: file_content where
  "partial_text = Unreadable ''Expecting value: line 1 column 1 (char 0)''"

section \<open>System calls\<close>

definition sys_mkdir :: "int \<Rightarrow> (disk, unit) io" where
  "sys_mkdir mode = syscall (io_modify (\<lambda>w. w\<lparr>dk_root_mode := (case dk_root_mode w of
     None \<Rightarrow> Some mode | Some m \<Rightarrow> Some m)\<rparr>))"

definition sys_chmod_root :: "int \<Rightarrow> (disk, unit) io" where
  "sys_chmod_root mode = syscall (io_modify (\<lambda>w. w\<lparr>dk_root_mode := Some mode\<rparr>))"

definition set_content :: "string \<Rightarrow> file_content \<Rightarrow> disk \<Rightarrow> disk" where
  "set_content path content w = (case dict_get (dk_files w) path of
      None \<Rightarrow> w
    | Some f \<Rightarrow> w\<lparr>dk_files := dict_set path (f\<lparr>fl_content := content\<rparr>) (dk_files w)\<rparr>)"

definition set_mode :: "string \<Rightarrow> int \<Rightarrow> disk \<Rightarrow> disk" where
  "set_mode path mode w = (case dict_get (dk_files w) path of
      None \<Rightarrow> w
    | Some f \<Rightarrow> w\<lparr>dk_files := dict_set path (f\<lparr>fl_mode := mode\<rparr>) (dk_files w)\<rparr>)"

definition sys_create :: "string \<Rightarrow> (disk, unit) io" where
  "sys_create path = syscall (\<lambda>w.
     if dk_root_mode w = None then (Inl (file_not_found path), w)
     else if dict_get (dk_files w) path \<noteq> None then (Inl (file_exists path), w)
     else (Inr (), w\<lparr>
       dk_files := dict_set path \<lparr>fl_mode = 384, fl_content = partial_text\<rparr> (dk_files w),
       dk_open := path # dk_open w\<rparr>))"

definition sys_fchmod :: "string \<Rightarrow> int \<Rightarrow> (disk, unit) io" where
  "sys_fchmod path mode = syscall (io_modify (set_mode path mode))"

definition sys_fdopen :: "string \<Rightarrow> (disk, unit) io" where
  "sys_fdopen path = syscall (io_return ())"

definition sys_write :: "string \<Rightarrow> (disk, unit) io" where
  "sys_write path = syscall (io_modify (set_content path partial_text))"

definition sys_flush :: "string \<Rightarrow> pyobj \<Rightarrow> (disk, unit) io" where
  "sys_flush path document = syscall (io_modify (set_content path (Document document)))"

definition sys_fsync :: "string \<Rightarrow> (disk, unit) io" where
  "sys_fsync path = syscall (io_return ())"

definition sys_close :: "string \<Rightarrow> (disk, unit) io" where
  "sys_close path = syscall (io_modify (\<lambda>w. w\<lparr>dk_open := remove1 path (dk_open w)\<rparr>))"

definition sys_open_root :: "(disk, unit) io" where
  "sys_open_root = syscall (\<lambda>w.
     if dk_root_mode w = None then (Inl (file_not_found (dk_root w)), w)
     else (Inr (), w\<lparr>dk_open := dk_root w # dk_open w\<rparr>))"

definition sys_replace :: "string \<Rightarrow> string \<Rightarrow> (disk, unit) io" where
  "sys_replace source target = syscall (\<lambda>w. case dict_get (dk_files w) source of
      None \<Rightarrow> (Inl (file_not_found source), w)
    | Some f \<Rightarrow> (Inr (), w\<lparr>dk_files := dict_set target f (dict_del source (dk_files w))\<rparr>))"

definition sys_unlink :: "string \<Rightarrow> (disk, unit) io" where
  "sys_unlink path = syscall (\<lambda>w. case dict_get (dk_files w) path of
      None \<Rightarrow> (Inl (file_not_found path), w)
    | Some f \<Rightarrow> (Inr (), w\<lparr>dk_files := dict_del path (dk_files w)\<rparr>))"

definition sys_read :: "string \<Rightarrow> (disk, pyobj) io" where
  "sys_read path = syscall (\<lambda>w. case dict_get (dk_files w) path of
      None \<Rightarrow> (Inl (file_not_found path), w)
    | Some f \<Rightarrow> (case fl_content f of Document d \<Rightarrow> (Inr d, w)
      | Unreadable m \<Rightarrow> (Inl (PyError ''JSONDecodeError'' m None []), w)))"

text \<open>
  \<open>tempfile.mkstemp\<close>: an exclusive create under a random name, tried anew while the name is
  taken, at most \<open>TMP_MAX\<close> times.
\<close>

definition tmp_max :: nat where
  "tmp_max = 10000"

definition draw_random :: "(disk, string) io" where
  "draw_random w = (Inr (dk_random w (dk_drawn w)), w\<lparr>dk_drawn := dk_drawn w + 1\<rparr>)"

fun mkstemp :: "nat \<Rightarrow> string \<Rightarrow> (disk, string) io" where
  "mkstemp 0 prefix = io_raise (os_error ''FileExistsError''
     ''[Errno 17] No usable temporary file name found'' 17)"
| "mkstemp (Suc n) prefix =
     io_bind draw_random (\<lambda>characters.
     io_bind (io_attempt (sys_create (prefix @ characters))) (\<lambda>r. case r of
        Inl e \<Rightarrow> if exc_type_in [''FileExistsError''] e then mkstemp n prefix else io_raise e
      | Inr _ \<Rightarrow> io_return (prefix @ characters)))"

section \<open>The store\<close>

definition directory_mode :: int where
  "directory_mode = 493"

definition state_file_mode :: int where
  "state_file_mode = 420"

definition state_path :: "string \<Rightarrow> string \<Rightarrow> string" where
  "state_path directory name = directory @ ''/'' @ name @ ''.json''"

definition store_path :: "string \<Rightarrow> (disk, string) io" where
  "store_path name w = (res_bind (validate_deployment_name name)
     (\<lambda>valid. Inr (state_path (dk_root w) valid)), w)"

definition ensure_directory :: "string \<Rightarrow> string \<Rightarrow> (disk, unit) io" where
  "ensure_directory code action =
     io_bind (io_attempt (io_seq (sys_mkdir directory_mode) (sys_chmod_root directory_mode))) (\<lambda>r.
     case r of
       Inl e \<Rightarrow> io_bind (io_get dk_root) (\<lambda>directory.
         io_raise (if is_os_error e then state_error code action directory e else e))
     | Inr _ \<Rightarrow> io_return ())"

definition load_document :: "ext \<Rightarrow> string \<Rightarrow> pyobj \<Rightarrow> state_snapshot res" where
  "load_document x path document = (case from_dict x document of
      Inl e \<Rightarrow> Inl (if is_type_error e \<or> is_value_error e then invalid_state_error path e else e)
    | Inr s \<Rightarrow> Inr s)"

definition store_load :: "ext \<Rightarrow> string \<Rightarrow> (disk, state_snapshot option) io" where
  "store_load x name =
     io_bind (store_path name) (\<lambda>path.
     io_bind (io_attempt (sys_read path)) (\<lambda>r. case r of
        Inl e \<Rightarrow>
          if is_file_not_found e then io_return None
          else if is_unicode_error e \<or> is_value_error e then io_raise (invalid_state_error path e)
          else if is_os_error e then io_raise (state_error ''STATE_READ_FAILED'' ''read'' path e)
          else io_raise e
      | Inr document \<Rightarrow> io_lift (res_bind (load_document x path document) (\<lambda>s. Inr (Some s)))))"

text \<open>The validated and serialised document of a snapshot.\<close>

definition serialize :: "ext \<Rightarrow> string \<Rightarrow> state_snapshot \<Rightarrow> pyobj res" where
  "serialize x path s =
     (case res_bind (from_dict x (pdict (to_dict x s))) (\<lambda>v. json_dumps (pdict (to_dict x v))) of
        Inl e \<Rightarrow> Inl (if is_type_error e \<or> is_value_error e then invalid_state_error path e else e)
      | Inr document \<Rightarrow> Inr document)"

definition write_and_close :: "string \<Rightarrow> pyobj \<Rightarrow> (disk, unit) io" where
  "write_and_close temporary document =
     io_bind (io_attempt (io_seq (sys_write temporary)
       (io_seq (sys_flush temporary document) (sys_fsync temporary)))) (\<lambda>written.
     io_bind (io_attempt (sys_close temporary)) (\<lambda>closed.
     io_lift (case written of Inl e \<Rightarrow> Inl e | Inr _ \<Rightarrow> closed)))"

definition fsync_directory :: "(disk, unit) io" where
  "fsync_directory =
     io_seq sys_open_root (io_bind (io_get dk_root) (\<lambda>directory.
     io_bind (io_attempt (sys_fsync directory)) (\<lambda>synced.
     io_bind (io_attempt (sys_close directory)) (\<lambda>closed.
     io_lift (case closed of
        Inl e \<Rightarrow> if is_os_error e then synced else Inl e
      | Inr _ \<Rightarrow> synced)))))"

text \<open>The replacement: its outcome and whether \<open>replaced\<close> was set.\<close>

definition commit :: "string \<Rightarrow> string \<Rightarrow> (disk, unit res \<times> bool) io" where
  "commit temporary path =
     io_bind (io_attempt (sys_replace temporary path)) (\<lambda>r. case r of
        Inl e \<Rightarrow> io_return (Inl (commit_outcome_unknown path ''save'' e), False)
      | Inr _ \<Rightarrow> io_bind (io_attempt fsync_directory) (\<lambda>r. case r of
            Inl e \<Rightarrow> io_return (Inl (durability_error path ''save'' e), True)
          | Inr _ \<Rightarrow> io_return (Inr (), True)))"

text \<open>
  The body of \<open>save\<close>'s \<open>try\<close>: its outcome with the values of \<open>temporary_path\<close>, \<open>replaced\<close> and
  \<open>file_descriptor\<close> the \<open>finally\<close> block finds.
\<close>

definition save_body ::
    "string \<Rightarrow> pyobj \<Rightarrow> (disk, unit res \<times> string option \<times> bool \<times> string option) io" where
  "save_body path document =
     io_bind (io_get dk_pid) (\<lambda>pid.
     io_bind (io_attempt (mkstemp tmp_max (path @ ''.tmp-'' @ pid @ ''-''))) (\<lambda>r. case r of
        Inl e \<Rightarrow> io_return (Inl e, None, False, None)
      | Inr temporary \<Rightarrow>
     io_bind (io_attempt (sys_fchmod temporary state_file_mode)) (\<lambda>r. case r of
        Inl e \<Rightarrow> io_return (Inl e, Some temporary, False, Some temporary)
      | Inr _ \<Rightarrow>
     io_bind (io_attempt (sys_fdopen temporary)) (\<lambda>r. case r of
        Inl e \<Rightarrow> io_return (Inl e, Some temporary, False, Some temporary)
      | Inr _ \<Rightarrow>
     io_bind (io_attempt (write_and_close temporary document)) (\<lambda>r. case r of
        Inl e \<Rightarrow> io_return (Inl e, Some temporary, False, None)
      | Inr _ \<Rightarrow>
     io_bind (commit temporary path) (\<lambda>c.
       io_return (fst c, Some temporary, snd c, None)))))))"

definition close_leftover :: "string option \<Rightarrow> (disk, exc option) io" where
  "close_leftover descriptor = (case descriptor of
      None \<Rightarrow> io_return None
    | Some temporary \<Rightarrow> io_bind (io_attempt (sys_close temporary))
        (\<lambda>r. io_return (case r of Inl e \<Rightarrow> Some e | Inr _ \<Rightarrow> None)))"

definition unlink_leftover :: "string option \<Rightarrow> bool \<Rightarrow> (disk, exc option) io" where
  "unlink_leftover temporary_path replaced = (case temporary_path of
      None \<Rightarrow> io_return None
    | Some temporary \<Rightarrow> if replaced then io_return None
        else io_bind (io_attempt (sys_unlink temporary)) (\<lambda>r. io_return (case r of
            Inl e \<Rightarrow> if is_file_not_found e then None else Some e
          | Inr _ \<Rightarrow> None)))"

definition cleanup_temporary ::
    "string option \<Rightarrow> bool \<Rightarrow> string option \<Rightarrow> bool \<Rightarrow> (disk, unit) io" where
  "cleanup_temporary temporary_path replaced descriptor active_error =
     io_bind (close_leftover descriptor) (\<lambda>close_error.
     io_bind (unlink_leftover temporary_path replaced) (\<lambda>unlink_error.
     let cleanup_error = (case close_error of None \<Rightarrow> unlink_error | Some e \<Rightarrow> Some e) in
     (case cleanup_error of
        Some e \<Rightarrow> if active_error then io_return () else io_raise e
      | None \<Rightarrow> io_return ())))"

definition replace_file :: "string \<Rightarrow> pyobj \<Rightarrow> (disk, unit) io" where
  "replace_file path document =
     io_bind (save_body path document) (\<lambda>(outcome, temporary, replaced, descriptor).
     io_seq (cleanup_temporary temporary replaced descriptor (isl outcome))
     (io_lift (case outcome of
        Inl e \<Rightarrow> if is_os_error e \<or> is_unicode_error e
          then Inl (state_error ''STATE_WRITE_FAILED'' ''write'' path e) else Inl e
      | Inr _ \<Rightarrow> Inr ())))"

definition store_save :: "ext \<Rightarrow> state_snapshot \<Rightarrow> (disk, unit) io" where
  "store_save x snapshot =
     io_bind (store_path (ss_name snapshot)) (\<lambda>path.
     io_bind (io_lift (serialize x path snapshot)) (\<lambda>document.
     io_seq (ensure_directory ''STATE_WRITE_FAILED'' ''write'')
     (replace_file path document)))"

definition store_delete :: "string \<Rightarrow> (disk, unit) io" where
  "store_delete name =
     io_bind (store_path name) (\<lambda>path.
     io_bind (io_attempt (sys_unlink path)) (\<lambda>r. case r of
        Inl e \<Rightarrow> if is_file_not_found e then io_return ()
          else io_raise (commit_outcome_unknown path ''delete'' e)
      | Inr _ \<Rightarrow> io_bind (io_attempt fsync_directory) (\<lambda>r. case r of
            Inl e \<Rightarrow> io_raise (durability_error path ''delete'' e)
          | Inr _ \<Rightarrow> io_return ())))"

section \<open>What the store shows of the directory\<close>

text \<open>The content of a deployment's file.\<close>

definition stored :: "disk \<Rightarrow> string \<Rightarrow> file_content option" where
  "stored w name = (if name_pattern name
     then map_option fl_content (dict_get (dk_files w) (state_path (dk_root w) name)) else None)"

text \<open>
  The exceptions the schedule raises are those of the system and of signals: an \<open>OSError\<close>, an
  interrupt, but no \<open>NslabError\<close> other than \<open>OperationCancelled\<close>, and no report that a file is missing
  when it is there.
\<close>

fun foreign :: "exc \<Rightarrow> bool" where
  "foreign (NslabError c m d) = False"
| "foreign _ = True"

definition foreign_faults :: "disk \<Rightarrow> bool" where
  "foreign_faults w \<longleftrightarrow> (\<forall>k e. dk_faults w k = FailBefore e \<or> dk_faults w k = FailAfter e \<longrightarrow>
     foreign e \<and> \<not> is_file_not_found e)"

text \<open>What every call but the replacement and the removal of a state file leaves as it was.\<close>

definition settled :: "disk \<Rightarrow> disk \<Rightarrow> bool" where
  "settled w0 w \<longleftrightarrow> dk_root w = dk_root w0 \<and> dk_pid w = dk_pid w0 \<and> dk_faults w = dk_faults w0 \<and>
     stored w = stored w0"

definition no_state_path :: "disk \<Rightarrow> string \<Rightarrow> bool" where
  "no_state_path w path \<longleftrightarrow> (\<forall>name. name_pattern name \<longrightarrow> path \<noteq> state_path (dk_root w) name)"

lemma settled_refl [simp]: "settled w w"
  by (simp add: settled_def)

lemma name_pattern_no_dot: "name_pattern name \<Longrightarrow> CHR ''.'' \<notin> set name"
  by (auto simp: name_pattern_def list_all_iff is_lower_def is_digit_def split: list.splits)

lemma state_path_inj:
  "name_pattern a \<Longrightarrow> name_pattern b \<Longrightarrow> state_path d a = state_path d b \<Longrightarrow> a = b"
  by (simp add: state_path_def)

lemma temporary_no_state_path:
  assumes "name_pattern name"
  shows "no_state_path w (state_path (dk_root w) name @ ''.tmp-'' @ rest)"
proof -
  have "state_path (dk_root w) name @ ''.tmp-'' @ rest \<noteq> state_path (dk_root w) other"
    if other: "name_pattern other" for other
  proof
    assume "state_path (dk_root w) name @ ''.tmp-'' @ rest = state_path (dk_root w) other"
    then have eq: "name @ ''.json.tmp-'' @ rest = other @ ''.json''" by (simp add: state_path_def)
    let ?f = "takeWhile (\<lambda>c. c \<noteq> CHR ''.'')"
    have dots: "\<And>c. c \<in> set name \<Longrightarrow> c \<noteq> CHR ''.''" "\<And>c. c \<in> set other \<Longrightarrow> c \<noteq> CHR ''.''"
      using name_pattern_no_dot [OF assms] name_pattern_no_dot [OF other] by auto
    have "?f (name @ ''.json.tmp-'' @ rest) = name" "?f (other @ ''.json'') = other"
      by (subst takeWhile_append2, simp_all add: dots)+
    then have "name = other" using eq by metis
    then show False using eq by simp
  qed
  then show ?thesis by (simp add: no_state_path_def)
qed

lemma settled_set: "settled w0 w \<Longrightarrow> no_state_path w0 path \<Longrightarrow>
    settled w0 (w\<lparr>dk_files := dict_set path f (dk_files w)\<rparr>)"
  and settled_del: "settled w0 w \<Longrightarrow> no_state_path w0 path \<Longrightarrow>
    settled w0 (w\<lparr>dk_files := dict_del path (dk_files w)\<rparr>)"
proof -
  assume w: "settled w0 w" and p: "no_state_path w0 path"
  have "no_state_path w path" using w p by (simp add: settled_def no_state_path_def)
  then have "stored (w\<lparr>dk_files := dict_set path f (dk_files w)\<rparr>) = stored w"
    "stored (w\<lparr>dk_files := dict_del path (dk_files w)\<rparr>) = stored w"
    by (auto simp: stored_def no_state_path_def fun_eq_iff)
  then show "settled w0 (w\<lparr>dk_files := dict_set path f (dk_files w)\<rparr>)"
    "settled w0 (w\<lparr>dk_files := dict_del path (dk_files w)\<rparr>)"
    using w by (simp_all add: settled_def)
qed

lemma settled_other [simp]:
  "settled w0 (w\<lparr>dk_calls := n\<rparr>) = settled w0 w"
  "settled w0 (w\<lparr>dk_open := ps\<rparr>) = settled w0 w"
  "settled w0 (w\<lparr>dk_drawn := n\<rparr>) = settled w0 w"
  "settled w0 (w\<lparr>dk_root_mode := m\<rparr>) = settled w0 w"
  "settled w0 (w\<lparr>dk_held := ps\<rparr>) = settled w0 w"
  "settled w0 (w\<lparr>dk_now := t\<rparr>) = settled w0 w"
  "settled w0 (w\<lparr>dk_open := ps, dk_held := qs\<rparr>) = settled w0 w"
  "settled w0 (w\<lparr>dk_files := f, dk_open := ps\<rparr>) = settled w0 (w\<lparr>dk_files := f\<rparr>)"
  by (simp_all add: settled_def stored_def fun_eq_iff)

lemma settled_root: "settled w0 w \<Longrightarrow> dk_root w = dk_root w0"
  and settled_pid: "settled w0 w \<Longrightarrow> dk_pid w = dk_pid w0"
  by (simp_all add: settled_def)

lemma settled_set_content: "settled w0 w \<Longrightarrow> no_state_path w0 path \<Longrightarrow> settled w0 (set_content path c w)"
  and settled_set_mode: "settled w0 w \<Longrightarrow> no_state_path w0 path \<Longrightarrow> settled w0 (set_mode path m w)"
  by (auto simp: set_content_def set_mode_def settled_set split: option.split)

text \<open>
  \<open>quiet w0 m\<close>: from any world that agrees with \<open>w0\<close> on the state files, \<open>m\<close> ends in one that does,
  and raises foreign exceptions only.
\<close>

definition quiet :: "disk \<Rightarrow> (disk, 'a) io \<Rightarrow> bool" where
  "quiet w0 m \<longleftrightarrow> (\<forall>w. settled w0 w \<longrightarrow>
     io_wp m (\<lambda>_. settled w0) (\<lambda>e w'. foreign e \<and> settled w0 w') w)"

lemma quietD: "quiet w0 m \<Longrightarrow> settled w0 w \<Longrightarrow>
    io_wp m (\<lambda>_. settled w0) (\<lambda>e w'. foreign e \<and> settled w0 w') w"
  by (simp add: quiet_def)

lemma quiet_return [intro]: "quiet w0 (io_return x)"
  and quiet_get [intro]: "quiet w0 (io_get f)"
  and quiet_raise [intro]: "foreign e \<Longrightarrow> quiet w0 (io_raise e)"
  by (simp_all add: quiet_def wp_simps)

lemma quiet_bind [intro]: "quiet w0 m \<Longrightarrow> (\<And>x. quiet w0 (f x)) \<Longrightarrow> quiet w0 (io_bind m f)"
  unfolding quiet_def by (auto simp: wp_simps intro: io_wp_mono)

lemma quiet_seq [intro]: "quiet w0 m \<Longrightarrow> quiet w0 n \<Longrightarrow> quiet w0 (io_seq m n)"
  by (simp add: io_seq_def quiet_bind)

lemma quiet_syscall:
  assumes "foreign_faults w0"
    and "\<And>w. settled w0 w \<Longrightarrow> io_wp act (\<lambda>_. settled w0) (\<lambda>e w'. foreign e \<and> settled w0 w') w"
  shows "quiet w0 (syscall act)"
proof -
  have "io_wp (syscall act) (\<lambda>_. settled w0) (\<lambda>e w'. foreign e \<and> settled w0 w') w" if w: "settled w0 w" for w
  proof -
    let ?w = "w\<lparr>dk_calls := dk_calls w + 1\<rparr>"
    have act: "io_wp act (\<lambda>_. settled w0) (\<lambda>e w'. foreign e \<and> settled w0 w') ?w"
      using w by (intro assms(2)) simp
    moreover have "settled w0 (snd (act ?w))"
      using io_wp_run [OF act] by (auto split: sum.splits)
    moreover have "dk_faults w = dk_faults w0" using w by (simp add: settled_def)
    ultimately show ?thesis using assms(1) w
      by (auto simp: io_wp_def syscall_def foreign_faults_def Let_def split: fault.split)
  qed
  then show ?thesis by (simp add: quiet_def)
qed

lemma foreign_os_errors [simp]: "foreign (file_not_found p)" "foreign (file_exists p)"
    "foreign (os_error t m n)"
  by (simp_all add: file_not_found_def file_exists_def os_error_def)

lemma quiet_modify:
  assumes "foreign_faults w0" and "\<And>w. settled w0 w \<Longrightarrow> settled w0 (g w)"
  shows "quiet w0 (syscall (io_modify g))"
  by (rule quiet_syscall [OF assms(1)]) (simp add: wp_simps assms(2))

lemma quiet_sys:
  assumes "foreign_faults w0"
  shows "quiet w0 (sys_mkdir m)" "quiet w0 (sys_chmod_root m)" "quiet w0 (sys_fdopen p)"
    "quiet w0 (sys_fsync p)" "quiet w0 (sys_close p)"
  unfolding sys_mkdir_def sys_chmod_root_def sys_fdopen_def sys_fsync_def sys_close_def
  by (simp_all add: quiet_modify assms quiet_syscall wp_simps)

lemma quiet_sys_open_root: "foreign_faults w0 \<Longrightarrow> quiet w0 sys_open_root"
  unfolding sys_open_root_def by (rule quiet_syscall) (simp_all add: io_wp_def)

lemma quiet_sys_temporary:
  assumes "foreign_faults w0" and "no_state_path w0 p"
  shows "quiet w0 (sys_fchmod p m)" "quiet w0 (sys_write p)" "quiet w0 (sys_flush p d)"
  unfolding sys_fchmod_def sys_write_def sys_flush_def
  by (simp_all add: quiet_modify assms settled_set_content settled_set_mode)

lemma quiet_sys_create: "foreign_faults w0 \<Longrightarrow> no_state_path w0 p \<Longrightarrow> quiet w0 (sys_create p)"
  unfolding sys_create_def by (rule quiet_syscall) (auto simp: io_wp_def settled_set)

lemma quiet_sys_unlink: "foreign_faults w0 \<Longrightarrow> no_state_path w0 p \<Longrightarrow> quiet w0 (sys_unlink p)"
  unfolding sys_unlink_def by (rule quiet_syscall) (auto simp: io_wp_def settled_del split: option.split)

section \<open>Saving\<close>

lemma io_wp_True [simp]: "io_wp m (\<lambda>_ _. True) (\<lambda>_ _. True) w"
  by (simp add: io_wp_def split: prod.split sum.split)

lemma syscall_value:
  "io_wp act Q (\<lambda>_ _. True) (w\<lparr>dk_calls := dk_calls w + 1\<rparr>) \<Longrightarrow> io_wp (syscall act) Q (\<lambda>_ _. True) w"
  by (auto simp: io_wp_def syscall_def Let_def split: prod.splits sum.splits fault.splits)

definition file_at :: "string \<Rightarrow> disk \<Rightarrow> bool" where
  "file_at t w \<longleftrightarrow> dict_get (dk_files w) t \<noteq> None"

definition holds_document :: "string \<Rightarrow> pyobj \<Rightarrow> disk \<Rightarrow> bool" where
  "holds_document t d w \<longleftrightarrow> map_option fl_content (dict_get (dk_files w) t) = Some (Document d)"

lemma file_at_other [simp]:
  "file_at t (w\<lparr>dk_calls := n\<rparr>) = file_at t w"
  "holds_document t d (w\<lparr>dk_calls := n\<rparr>) = holds_document t d w"
  "holds_document t d (w\<lparr>dk_open := ps\<rparr>) = holds_document t d w"
  by (simp_all add: file_at_def holds_document_def)

lemma write_and_close_value:
  assumes "file_at t w"
  shows "io_wp (write_and_close t d) (\<lambda>_. holds_document t d) (\<lambda>_ _. True) w"
proof -
  have partial: "file_at t w \<Longrightarrow> io_wp (sys_write t) (\<lambda>_. file_at t) (\<lambda>_ _. True) w" for w
    unfolding sys_write_def
    by (rule syscall_value) (auto simp: wp_simps file_at_def set_content_def split: option.split)
  have flush: "file_at t w \<Longrightarrow> io_wp (sys_flush t d) (\<lambda>_. holds_document t d) (\<lambda>_ _. True) w" for w
    unfolding sys_flush_def
    by (rule syscall_value)
      (auto simp: wp_simps file_at_def holds_document_def set_content_def split: option.split)
  have fsync: "holds_document t d w \<Longrightarrow> io_wp (sys_fsync t) (\<lambda>_. holds_document t d) (\<lambda>_ _. True) w" for w
    unfolding sys_fsync_def by (rule syscall_value) (simp add: wp_simps)
  have close: "holds_document t d w \<Longrightarrow> io_wp (sys_close t) (\<lambda>_. holds_document t d) (\<lambda>_ _. True) w" for w
    unfolding sys_close_def by (rule syscall_value) (simp add: wp_simps)
  have "io_wp (io_seq (sys_write t) (io_seq (sys_flush t d) (sys_fsync t)))
      (\<lambda>_. holds_document t d) (\<lambda>_ _. True) w"
    unfolding io_wp_seq
    by (rule io_wp_mono [OF partial [OF assms]], rule io_wp_mono [OF flush], assumption, rule fsync) auto
  then show ?thesis
    unfolding write_and_close_def
    by (auto simp: wp_simps elim!: io_wp_mono intro: close)
qed

lemma quiet_write_and_close:
  assumes "foreign_faults w0" and t: "no_state_path w0 t"
  shows "quiet w0 (write_and_close t d)"
proof -
  have body: "quiet w0 (io_seq (sys_write t) (io_seq (sys_flush t d) (sys_fsync t)))"
    using assms by (intro quiet_seq quiet_sys_temporary quiet_sys)
  have close: "quiet w0 (sys_close t)" by (rule quiet_sys [OF assms(1)])
  have "io_wp (write_and_close t d) (\<lambda>_. settled w0) (\<lambda>e w'. foreign e \<and> settled w0 w') w"
    if w: "settled w0 w" for w
    unfolding write_and_close_def io_wp_bind io_wp_attempt io_wp_lift
    by (rule io_wp_mono [OF quietD [OF body w]])
      (auto intro!: io_wp_mono [OF quietD [OF close]])
  then show ?thesis by (simp add: quiet_def)
qed

lemma io_wp_draw [wp_simps]:
  "io_wp draw_random Q E = (\<lambda>w. Q (dk_random w (dk_drawn w)) (w\<lparr>dk_drawn := dk_drawn w + 1\<rparr>))"
  by (simp add: io_wp_def draw_random_def fun_eq_iff)

lemma mkstemp_wp:
  assumes ff: "foreign_faults w0" and p: "\<And>rest. no_state_path w0 (prefix @ rest)"
  shows "settled w0 w \<Longrightarrow> io_wp (mkstemp n prefix)
    (\<lambda>t w'. settled w0 w' \<and> no_state_path w0 t \<and> file_at t w')
    (\<lambda>e w'. foreign e \<and> settled w0 w') w"
proof (induction n arbitrary: w)
  case (Suc n)
  let ?t = "prefix @ dk_random w (dk_drawn w)" and ?w = "w\<lparr>dk_drawn := dk_drawn w + 1\<rparr>"
  have w: "settled w0 ?w" using Suc.prems by simp
  have "io_wp (sys_create ?t) (\<lambda>_. file_at ?t) (\<lambda>_ _. True) ?w"
    unfolding sys_create_def by (rule syscall_value) (simp add: io_wp_def file_at_def)
  from io_wp_conj [OF quietD [OF quiet_sys_create [OF ff p] w] this]
  have "io_wp (sys_create ?t) (\<lambda>_ w'. settled w0 w' \<and> file_at ?t w')
      (\<lambda>e w'. foreign e \<and> settled w0 w') ?w"
    by (rule io_wp_mono) auto
  then have "io_wp (sys_create ?t)
      (\<lambda>_ w'. settled w0 w' \<and> no_state_path w0 ?t \<and> file_at ?t w')
      (\<lambda>e. io_wp (if exc_type_in [''FileExistsError''] e then mkstemp n prefix else io_raise e)
        (\<lambda>t w'. settled w0 w' \<and> no_state_path w0 t \<and> file_at t w')
        (\<lambda>e w'. foreign e \<and> settled w0 w')) ?w"
    by (rule io_wp_mono) (auto simp: wp_simps p intro: Suc.IH)
  then show ?case by (simp add: wp_simps)
qed (simp add: wp_simps)

text \<open>The world with one deployment's file set to a document, or removed.\<close>

definition updated :: "disk \<Rightarrow> string \<Rightarrow> file_content option \<Rightarrow> disk \<Rightarrow> bool" where
  "updated w0 name content w \<longleftrightarrow> dk_root w = dk_root w0 \<and> dk_pid w = dk_pid w0 \<and>
     dk_faults w = dk_faults w0 \<and> stored w = (stored w0)(name := content)"

lemma updated_settled: "updated w0 name c w \<Longrightarrow> settled w w' \<Longrightarrow> updated w0 name c w'"
  by (simp add: updated_def settled_def)

lemma settled_trans: "settled w0 w \<Longrightarrow> settled w w' \<Longrightarrow> settled w0 w'"
  by (simp add: settled_def)

lemma foreign_faults_updated: "foreign_faults w0 \<Longrightarrow> updated w0 name c w \<Longrightarrow> foreign_faults w"
  and foreign_faults_settled: "foreign_faults w0 \<Longrightarrow> settled w0 w \<Longrightarrow> foreign_faults w"
  by (simp_all add: foreign_faults_def updated_def settled_def)

lemma updated_calls [simp]: "updated w0 name c (w\<lparr>dk_calls := k\<rparr>) = updated w0 name c w"
  by (simp add: updated_def stored_def fun_eq_iff)

definition durability_uncertain :: "exc \<Rightarrow> bool" where
  "durability_uncertain e \<longleftrightarrow> code_of e = ''STATE_DURABILITY_UNCERTAIN''"

definition outcome_unknown :: "exc \<Rightarrow> bool" where
  "outcome_unknown e \<longleftrightarrow> code_of e = ''STATE_COMMIT_OUTCOME_UNKNOWN''"

lemma error_codes [simp]:
  "durability_uncertain (durability_error p op e)" "\<not> outcome_unknown (durability_error p op e)"
  "outcome_unknown (commit_outcome_unknown p op e)"
  "\<not> durability_uncertain (commit_outcome_unknown p op e)"
  by (simp_all add: durability_uncertain_def outcome_unknown_def durability_error_def
      commit_outcome_unknown_def)

lemma foreign_code: "foreign e \<Longrightarrow> \<not> durability_uncertain e \<and> \<not> outcome_unknown e"
  by (cases e) (simp_all add: durability_uncertain_def outcome_unknown_def)

lemma other_codes [simp]:
  "\<not> durability_uncertain (state_error ''STATE_WRITE_FAILED'' a p e)"
  "\<not> outcome_unknown (state_error ''STATE_WRITE_FAILED'' a p e)"
  "\<not> durability_uncertain (invalid_state_error p e)" "\<not> outcome_unknown (invalid_state_error p e)"
  "\<not> durability_uncertain (deployment_name_error n)" "\<not> outcome_unknown (deployment_name_error n)"
  by (simp_all add: durability_uncertain_def outcome_unknown_def state_error_def
      invalid_state_error_def deployment_name_error_def)

lemma foreign_of_type: "is_os_error e \<or> is_unicode_error e \<Longrightarrow> foreign e"
  by (cases e) (auto simp: is_os_error_def is_unicode_error_def)

lemma quiet_fsync_directory:
  assumes "foreign_faults w0"
  shows "quiet w0 fsync_directory"
proof -
  have rest: "io_wp (io_bind (io_get dk_root) (\<lambda>directory.
     io_bind (io_attempt (sys_fsync directory)) (\<lambda>synced.
     io_bind (io_attempt (sys_close directory)) (\<lambda>closed.
     io_lift (case closed of
        Inl e \<Rightarrow> if is_os_error e then synced else Inl e
      | Inr _ \<Rightarrow> synced)))))
      (\<lambda>_. settled w0) (\<lambda>e w'. foreign e \<and> settled w0 w') w" if w: "settled w0 w" for w
    unfolding io_wp_bind io_wp_attempt io_wp_get io_wp_lift
    by (rule io_wp_mono [OF quietD [OF quiet_sys(4) [OF assms] w]])
      (auto intro!: io_wp_mono [OF quietD [OF quiet_sys(5) [OF assms]]])
  show ?thesis
    unfolding fsync_directory_def
    by (rule quiet_seq [OF quiet_sys_open_root [OF assms]]) (use rest in \<open>simp add: quiet_def\<close>)
qed

text \<open>The replacement of a state file: done, not done, or done with an exception raised after it.\<close>

lemma sys_replace_wp:
  assumes ff: "foreign_faults w0" and w: "settled w0 w" and t: "no_state_path w0 t"
    and n: "name_pattern n" and d: "holds_document t d w"
  shows "io_wp (sys_replace t (state_path (dk_root w0) n))
    (\<lambda>_. updated w0 n (Some (Document d)))
    (\<lambda>e w'. foreign e \<and> (settled w0 w' \<or> updated w0 n (Some (Document d)) w')) w"
proof -
  let ?p = "state_path (dk_root w0) n"
  obtain f where f: "dict_get (dk_files w) t = Some f" and fd: "fl_content f = Document d"
    using d by (auto simp: holds_document_def)
  let ?w = "w\<lparr>dk_calls := Suc (dk_calls w), dk_files := dict_set ?p f (dict_del t (dk_files w))\<rparr>"
  have other: "state_path (dk_root w0) m \<noteq> t" if "name_pattern m" for m
    using t that by (auto simp: no_state_path_def)
  have root: "dk_root w = dk_root w0" using w by (simp add: settled_def)
  have "stored ?w m = ((stored w)(n := Some (Document d))) m" for m
    using other [of m] state_path_inj [of m n "dk_root w0"] n fd
    by (auto simp: stored_def root)
  then have "stored ?w = (stored w0)(n := Some (Document d))" using w by (auto simp: settled_def fun_eq_iff)
  then have u: "updated w0 n (Some (Document d)) ?w" using w by (simp add: updated_def settled_def)
  have faults: "dk_faults w = dk_faults w0" using w by (simp add: settled_def)
  show ?thesis
    using f u w ff
    by (auto simp: io_wp_def sys_replace_def syscall_def foreign_faults_def Let_def faults
        split: fault.splits)
qed

lemma commit_wp:
  assumes ff: "foreign_faults w0" and w: "settled w0 w" and t: "no_state_path w0 t"
    and n: "name_pattern n" and d: "holds_document t d w"
  shows "io_wp (commit t (state_path (dk_root w0) n))
    (\<lambda>c w'. case c of
        (Inr _, replaced) \<Rightarrow> replaced \<and> updated w0 n (Some (Document d)) w'
      | (Inl e, True) \<Rightarrow> durability_uncertain e \<and> updated w0 n (Some (Document d)) w'
      | (Inl e, False) \<Rightarrow> outcome_unknown e \<and> (settled w0 w' \<or> updated w0 n (Some (Document d)) w'))
    (\<lambda>_ _. False) w"
  unfolding commit_def io_wp_bind io_wp_attempt
proof (rule io_wp_mono [OF sys_replace_wp [OF ff w t n d]], goal_cases)
  case (1 u w1)
  have "quiet w1 fsync_directory"
    by (rule quiet_fsync_directory) (rule foreign_faults_updated [OF ff 1])
  then have "io_wp fsync_directory (\<lambda>_. settled w1) (\<lambda>e w'. foreign e \<and> settled w1 w') w1"
    by (rule quietD) simp
  then have "io_wp fsync_directory (\<lambda>_. updated w0 n (Some (Document d)))
      (\<lambda>_. updated w0 n (Some (Document d))) w1"
    by (rule io_wp_mono) (use 1 updated_settled in blast)+
  then show ?case by (simp add: wp_simps)
next
  case (2 e w1)
  then show ?case by (simp add: wp_simps)
qed

text \<open>How the body of \<open>save\<close> ends, with what its \<open>finally\<close> block is handed.\<close>

definition body_outcome ::
    "disk \<Rightarrow> string \<Rightarrow> pyobj \<Rightarrow> unit res \<times> string option \<times> bool \<times> string option \<Rightarrow> disk \<Rightarrow> bool" where
  "body_outcome w0 n d b w = (case b of (outcome, temporary, replaced, descriptor) \<Rightarrow>
     (case outcome of
        Inr _ \<Rightarrow> replaced \<and> descriptor = None \<and> updated w0 n (Some (Document d)) w
      | Inl e \<Rightarrow>
          replaced \<and> descriptor = None \<and> durability_uncertain e \<and> updated w0 n (Some (Document d)) w
        \<or> \<not> replaced \<and> outcome_unknown e \<and> (settled w0 w \<or> updated w0 n (Some (Document d)) w)
        \<or> \<not> replaced \<and> foreign e \<and> settled w0 w) \<and>
     (\<forall>t. temporary = Some t \<longrightarrow> no_state_path w0 t))"

lemma save_body_wp:
  assumes ff: "foreign_faults w0" and w: "settled w0 w" and n: "name_pattern n"
  shows "io_wp (save_body (state_path (dk_root w0) n) d) (body_outcome w0 n d) (\<lambda>_ _. False) w"
proof -
  let ?Q = "body_outcome w0 n d" and ?p = "state_path (dk_root w0) n"
  have p: "no_state_path w0 ((?p @ ''.tmp-'' @ pid @ ''-'') @ rest)" for pid rest
    using temporary_no_state_path [OF n, of w0 "pid @ ''-'' @ rest"] by simp
  have wrote: "io_wp (write_and_close t d) (\<lambda>_ w'. settled w0 w' \<and> holds_document t d w')
      (\<lambda>e w'. foreign e \<and> settled w0 w') w"
    if "settled w0 w" "no_state_path w0 t" "file_at t w" for t w
    using io_wp_conj [OF quietD [OF quiet_write_and_close [OF ff that(2)] that(1), of d]
        write_and_close_value [OF that(3), of d]]
    by (rule io_wp_mono) auto
  have chmod: "io_wp (sys_fchmod t m) (\<lambda>_ w'. settled w0 w' \<and> file_at t w')
      (\<lambda>e w'. foreign e \<and> settled w0 w') w"
    if "settled w0 w" "no_state_path w0 t" "file_at t w" for t w m
  proof -
    have "io_wp (sys_fchmod t m) (\<lambda>_. file_at t) (\<lambda>_ _. True) w"
      unfolding sys_fchmod_def using that(3)
      by (intro syscall_value) (auto simp: wp_simps file_at_def set_mode_def split: option.split)
    from io_wp_conj [OF quietD [OF quiet_sys_temporary(1) [OF ff that(2)] that(1)] this]
    show ?thesis by (rule io_wp_mono) auto
  qed
  have fdopen: "io_wp (sys_fdopen t) (\<lambda>_ w'. settled w0 w' \<and> file_at t w')
      (\<lambda>e w'. foreign e \<and> settled w0 w') w"
    if "settled w0 w" "file_at t w" for t w
  proof -
    have "io_wp (sys_fdopen t) (\<lambda>_. file_at t) (\<lambda>_ _. True) w"
      unfolding sys_fdopen_def using that(2) by (intro syscall_value) (simp add: wp_simps)
    from io_wp_conj [OF quietD [OF quiet_sys(3) [OF ff] that(1)] this]
    show ?thesis by (rule io_wp_mono) auto
  qed
  have early: "?Q (Inl e, Some t, False, descriptor) w"
    if "foreign e" "settled w0 w" "no_state_path w0 t" for e t descriptor w
    using that by (simp add: body_outcome_def)
  show ?thesis
    unfolding save_body_def io_wp_bind io_wp_get io_wp_attempt
    apply (rule io_wp_mono [OF mkstemp_wp [OF ff p w]])
    subgoal for t w1
      apply (simp add: wp_simps)
      apply (rule io_wp_mono [OF chmod [of w1 t]]; (elim conjE)?; (simp add: wp_simps early)?)
      apply (rule io_wp_mono [OF fdopen]; (elim conjE)?; (simp add: wp_simps early)?)
      apply (rule io_wp_mono [OF wrote]; (elim conjE)?; (simp add: wp_simps early)?)
      apply (rule io_wp_mono [OF commit_wp [OF ff _ _ n]])
      apply (auto simp: body_outcome_def split: sum.splits bool.splits prod.splits)
      done
    by (simp add: wp_simps body_outcome_def)
qed

text \<open>The clean-up raises nothing while an exception is on its way, and finds nothing to do otherwise.\<close>

lemma cleanup_wp:
  assumes ff: "foreign_faults w0" and b: "body_outcome w0 n d (outcome, temporary, replaced, descriptor) w"
  shows "io_wp (cleanup_temporary temporary replaced descriptor (isl outcome))
    (\<lambda>_. settled w) (\<lambda>_ _. False) w"
proof (cases "isl outcome")
  case False
  then have "replaced" "descriptor = None"
    using b by (auto simp: body_outcome_def split: sum.splits)
  then show ?thesis
    by (simp add: cleanup_temporary_def close_leftover_def unlink_leftover_def wp_simps split: option.split)
next
  case True
  have ffw: "foreign_faults w"
    using b ff by (auto simp: body_outcome_def foreign_faults_def updated_def settled_def split: sum.splits)
  have "dk_root w = dk_root w0"
    using b by (auto simp: body_outcome_def updated_def settled_def split: sum.splits)
  then have t: "no_state_path w t" if "temporary = Some t" for t
    using b that by (simp add: body_outcome_def no_state_path_def)
  have close: "io_wp (close_leftover descriptor) (\<lambda>_. settled w) (\<lambda>_ _. False) w'"
    if "settled w w'" for w'
    unfolding close_leftover_def using that
    by (auto simp: wp_simps split: option.split
        intro!: io_wp_mono [OF quietD [OF quiet_sys(5) [OF ffw]]])
  have unlink: "io_wp (unlink_leftover temporary replaced) (\<lambda>_. settled w) (\<lambda>_ _. False) w'"
    if "settled w w'" for w'
    unfolding unlink_leftover_def using that t
    by (auto simp: wp_simps split: option.split
        intro!: io_wp_mono [OF quietD [OF quiet_sys_unlink [OF ffw]]])
  show ?thesis
    unfolding cleanup_temporary_def io_wp_bind
    by (rule io_wp_mono [OF close [OF settled_refl]]; simp)
      (rule io_wp_mono [OF unlink]; auto simp: wp_simps True Let_def split: option.split)
qed

text \<open>
  What an exception that leaves \<open>save\<close> or \<open>delete\<close> says: the new content is there, it may be, or
  nothing has changed.
\<close>

definition told :: "disk \<Rightarrow> string \<Rightarrow> file_content option \<Rightarrow> exc \<Rightarrow> disk \<Rightarrow> bool" where
  "told w0 n content e w \<longleftrightarrow>
     (if durability_uncertain e then updated w0 n content w
      else if outcome_unknown e then settled w0 w \<or> updated w0 n content w
      else settled w0 w)"

lemma replace_file_wp:
  assumes ff: "foreign_faults w0" and w: "settled w0 w" and n: "name_pattern n"
  shows "io_wp (replace_file (state_path (dk_root w0) n) d)
    (\<lambda>_. updated w0 n (Some (Document d))) (told w0 n (Some (Document d))) w"
  unfolding replace_file_def io_wp_bind
proof (rule io_wp_mono [OF save_body_wp [OF ff w n]], goal_cases)
  case (1 b w1)
  obtain outcome temporary replaced descriptor where b: "b = (outcome, temporary, replaced, descriptor)"
    by (metis prod_cases4)
  have c: "io_wp (cleanup_temporary temporary replaced descriptor (isl outcome))
      (\<lambda>_. settled w1) (\<lambda>_ _. False) w1"
    by (rule cleanup_wp [OF ff]) (use 1 b in simp)
  show ?case
    unfolding b split io_wp_seq
  proof (rule io_wp_mono [OF c])
    fix u w2 assume s: "settled w1 w2"
    show "io_wp (io_lift (case outcome of
        Inl e \<Rightarrow> if is_os_error e \<or> is_unicode_error e
          then Inl (state_error ''STATE_WRITE_FAILED'' ''write'' (state_path (dk_root w0) n) e)
          else Inl e
      | Inr _ \<Rightarrow> Inr ())) (\<lambda>_. updated w0 n (Some (Document d)))
        (told w0 n (Some (Document d))) w2"
    proof (cases outcome)
      case (Inr u)
      then show ?thesis using 1 s by (auto simp: b body_outcome_def wp_simps updated_settled)
    next
      case (Inl e)
      have codes: "foreign e \<Longrightarrow> \<not> durability_uncertain e \<and> \<not> outcome_unknown e" by (rule foreign_code)
      have os: "is_os_error e \<or> is_unicode_error e \<Longrightarrow> foreign e" by (rule foreign_of_type)
      have excl: "durability_uncertain e \<Longrightarrow> \<not> outcome_unknown e"
        by (simp add: durability_uncertain_def outcome_unknown_def)
      show ?thesis
        using 1 s codes os excl
        by (auto simp: Inl b body_outcome_def wp_simps told_def updated_settled intro: settled_trans)
    qed
  qed simp
qed simp

lemma ensure_directory_wp:
  assumes ff: "foreign_faults w0" and w: "settled w0 w"
  shows "io_wp (ensure_directory ''STATE_WRITE_FAILED'' a) (\<lambda>_. settled w0)
    (\<lambda>e w'. \<not> durability_uncertain e \<and> \<not> outcome_unknown e \<and> settled w0 w') w"
proof -
  have q: "quiet w0 (io_seq (sys_mkdir m) (sys_chmod_root m'))" for m m'
    by (intro quiet_seq quiet_sys ff)
  show ?thesis
    unfolding ensure_directory_def io_wp_bind io_wp_attempt
    by (rule io_wp_mono [OF quietD [OF q w]]) (auto simp: wp_simps foreign_code)
qed

text \<open>Reading and printing a document raises built-in exceptions only.\<close>

lemma res_map_InlD: "res_map f xs = Inl e \<Longrightarrow> \<exists>x \<in> set xs. f x = Inl e"
  by (induction xs) (auto simp: res_bind_eq_Inl)

lemma foreign_py [simp]: "foreign (value_error m)" "foreign (key_error m)" "foreign (type_error m)"
  by (simp_all add: value_error_def key_error_def type_error_def)

lemma freeze_json_foreign: "freeze_json v = Inl e \<Longrightarrow> foreign e"
proof (induction v arbitrary: e rule: freeze_json.induct)
  case (2 d)
  then obtain p where "p \<in> set d" and "(case fst p of
        PStr k \<Rightarrow> res_bind (freeze_json (snd p)) (\<lambda>v. Inr (PStr k, v))
      | _ \<Rightarrow> Inl (value_error ''JSON object keys must be strings'')) = Inl e"
    by (auto simp: res_bind_eq_Inl dest: res_map_InlD)
  then show ?case using 2(1) by (auto simp: res_bind_eq_Inl split: pyobj.splits)
next
  case (3 d)
  then obtain p where "p \<in> set d" and "(case fst p of
        PStr k \<Rightarrow> res_bind (freeze_json (snd p)) (\<lambda>v. Inr (PStr k, v))
      | _ \<Rightarrow> Inl (value_error ''JSON object keys must be strings'')) = Inl e"
    by (auto simp: res_bind_eq_Inl dest: res_map_InlD)
  then show ?case using 3(1) by (auto simp: res_bind_eq_Inl split: pyobj.splits)
next
  case (4 xs)
  then show ?case by (auto simp: res_bind_eq_Inl dest: res_map_InlD)
next
  case (5 xs)
  then show ?case by (auto simp: res_bind_eq_Inl dest: res_map_InlD)
qed (auto split: pyfloat.splits)

lemma json_dumps_foreign: "json_dumps v = Inl e \<Longrightarrow> foreign e"
proof (induction v arbitrary: e rule: json_dumps.induct)
  case (5 d)
  then obtain p where "p \<in> set d" and "(case fst p of
        PStr k \<Rightarrow> res_bind (json_dumps (snd p)) (\<lambda>v. Inr (k, v))
      | _ \<Rightarrow> Inl (type_error ''keys must be str, int, float, bool or None'')) = Inl e"
    by (auto simp: res_bind_eq_Inl dest: res_map_InlD)
  then show ?case using 5(1) by (auto simp: res_bind_eq_Inl split: pyobj.splits)
next
  case (3 xs)
  then show ?case by (auto simp: res_bind_eq_Inl dest: res_map_InlD)
next
  case (4 xs)
  then show ?case by (auto simp: res_bind_eq_Inl dest: res_map_InlD)
qed (auto split: pyfloat.splits if_splits)

lemma freeze_mapping_foreign: "freeze_mapping d = Inl e \<Longrightarrow> foreign e"
  by (auto simp: freeze_mapping_def res_bind_eq_Inl dest!: res_map_InlD freeze_json_foreign)

lemma validate_foreign:
  "validate_object v l = Inl e \<Longrightarrow> foreign e" "validate_string_mapping v l = Inl e \<Longrightarrow> foreign e"
  by (auto simp: validate_object_def validate_string_mapping_def string_item_def res_bind_eq_Inl
      split: pyobj.splits dest!: res_map_InlD)

lemma check_fields_foreign: "check_fields d = Inl e \<Longrightarrow> foreign e"
  by (auto simp: check_fields_def unexpected_fields_def res_bind_eq_Inl
      split: if_splits pyobj.splits dest!: res_map_InlD)

lemma document_field_foreign: "document_field d k = Inl e \<Longrightarrow> foreign e"
  by (cases "map_of d (PStr k)") (auto simp: document_field_def)

lemma require_foreign:
  "require_schema x v = Inl e \<Longrightarrow> foreign e" "require_snapshot_name x v = Inl e \<Longrightarrow> foreign e"
  "require_fingerprint v = Inl e \<Longrightarrow> foreign e" "require_created_at v = Inl e \<Longrightarrow> foreign e"
  "require_status x u = Inl e \<Longrightarrow> foreign e"
  by (auto simp: require_schema_def require_snapshot_name_def require_fingerprint_def Let_def
      require_created_at_def require_status_def split: pyobj.splits option.splits if_splits)

lemma from_dict_foreign: "from_dict x document = Inl e \<Longrightarrow> foreign e"
  unfolding from_dict_def make_snapshot_def
  by (auto simp: res_bind_eq_Inl split: pyobj.splits
      dest: check_fields_foreign document_field_foreign require_foreign validate_foreign
        freeze_json_foreign freeze_mapping_foreign)

lemma serialize_codes: "serialize x p s = Inl e \<Longrightarrow> \<not> durability_uncertain e \<and> \<not> outcome_unknown e"
  by (auto simp: serialize_def res_bind_eq_Inl split: sum.splits if_splits
      dest!: from_dict_foreign json_dumps_foreign foreign_code)

lemma store_path_cases: "store_path name w = (if name_pattern name
    then (Inr (state_path (dk_root w) name), w) else (Inl (deployment_name_error name), w))"
  by (simp add: store_path_def validate_deployment_name_def)

lemma io_wp_store_path: "name_pattern n \<Longrightarrow>
    io_wp (io_bind (store_path n) f) Q E w = io_wp (f (state_path (dk_root w) n)) Q E w"
  by (simp add: io_wp_def io_bind_def store_path_cases)

lemma store_save_wp:
  assumes ff: "foreign_faults w0"
  shows "io_wp (store_save x s)
    (\<lambda>_ w'. \<exists>d. serialize x (state_path (dk_root w0) (ss_name s)) s = Inr d \<and>
       name_pattern (ss_name s) \<and> updated w0 (ss_name s) (Some (Document d)) w')
    (\<lambda>e w'. (\<exists>d. serialize x (state_path (dk_root w0) (ss_name s)) s = Inr d \<and>
        told w0 (ss_name s) (Some (Document d)) e w') \<or>
       \<not> durability_uncertain e \<and> \<not> outcome_unknown e \<and> settled w0 w') w0"
proof (cases "name_pattern (ss_name s)")
  case False
  then show ?thesis by (simp add: io_wp_def store_save_def io_bind_def store_path_cases)
next
  case n: True
  let ?p = "state_path (dk_root w0) (ss_name s)"
  show ?thesis
  proof (cases "serialize x ?p s")
    case (Inl e)
    then show ?thesis using n serialize_codes [OF Inl]
      by (simp add: io_wp_def store_save_def io_bind_def store_path_cases)
  next
    case (Inr d)
    have "io_wp (io_seq (ensure_directory ''STATE_WRITE_FAILED'' ''write'') (replace_file ?p d))
        (\<lambda>_. updated w0 (ss_name s) (Some (Document d)))
        (\<lambda>e w'. told w0 (ss_name s) (Some (Document d)) e w' \<or>
           \<not> durability_uncertain e \<and> \<not> outcome_unknown e \<and> settled w0 w') w0"
      unfolding io_wp_seq
      by (rule io_wp_mono [OF ensure_directory_wp [OF ff settled_refl]])
        (auto elim!: io_wp_mono [OF replace_file_wp [OF ff _ n]])
    then have "io_wp (store_save x s)
        (\<lambda>_. updated w0 (ss_name s) (Some (Document d)))
        (\<lambda>e w'. told w0 (ss_name s) (Some (Document d)) e w' \<or>
           \<not> durability_uncertain e \<and> \<not> outcome_unknown e \<and> settled w0 w') w0"
      by (simp add: io_wp_def [of "store_save x s"] store_save_def io_bind_def store_path_cases n Inr
          io_wp_def)
    then show ?thesis by (rule io_wp_mono) (auto simp: Inr n)
  qed
qed

section \<open>Deleting and loading\<close>

lemma sys_unlink_state_wp:
  assumes ff: "foreign_faults w0" and n: "name_pattern n"
  shows "io_wp (sys_unlink (state_path (dk_root w0) n)) (\<lambda>_. updated w0 n None)
    (\<lambda>e w'. if is_file_not_found e then updated w0 n None w'
       else foreign e \<and> (settled w0 w' \<or> updated w0 n None w')) w0"
proof -
  let ?p = "state_path (dk_root w0) n"
  let ?w = "w0\<lparr>dk_calls := Suc (dk_calls w0), dk_files := dict_del ?p (dk_files w0)\<rparr>"
  have "stored ?w m = ((stored w0)(n := None)) m" for m
    using state_path_inj [of m n "dk_root w0"] n by (auto simp: stored_def)
  then have u: "updated w0 n None ?w" by (simp add: updated_def fun_eq_iff)
  have gone: "updated w0 n None (w0\<lparr>dk_calls := k\<rparr>)" if "dict_get (dk_files w0) ?p = None" for k
    using that by (auto simp: updated_def stored_def fun_eq_iff)
  have missing: "is_file_not_found (file_not_found ?p)"
    by (simp add: is_file_not_found_def file_not_found_def os_error_def)
  show ?thesis
    using ff u gone missing
    by (auto simp: io_wp_def sys_unlink_def syscall_def foreign_faults_def Let_def
        split: fault.splits option.splits)
qed

lemma store_delete_wp:
  assumes ff: "foreign_faults w0"
  shows "io_wp (store_delete n) (\<lambda>_. updated w0 n None) (told w0 n None) w0"
proof (cases "name_pattern n")
  case False
  then show ?thesis by (simp add: io_wp_def store_delete_def io_bind_def store_path_cases told_def)
next
  case n: True
  let ?p = "state_path (dk_root w0) n"
  have "io_wp (io_bind (io_attempt (sys_unlink ?p)) (\<lambda>r. case r of
        Inl e \<Rightarrow> if is_file_not_found e then io_return ()
          else io_raise (commit_outcome_unknown ?p ''delete'' e)
      | Inr _ \<Rightarrow> io_bind (io_attempt fsync_directory) (\<lambda>r. case r of
            Inl e \<Rightarrow> io_raise (durability_error ?p ''delete'' e)
          | Inr _ \<Rightarrow> io_return ()))) (\<lambda>_. updated w0 n None) (told w0 n None) w0"
    unfolding io_wp_bind io_wp_attempt
  proof (rule io_wp_mono [OF sys_unlink_state_wp [OF ff n]], goal_cases)
    case (1 u w1)
    have "quiet w1 fsync_directory"
      by (rule quiet_fsync_directory) (rule foreign_faults_updated [OF ff 1])
    then have "io_wp fsync_directory (\<lambda>_. settled w1) (\<lambda>e w'. foreign e \<and> settled w1 w') w1"
      by (rule quietD) simp
    then have "io_wp fsync_directory (\<lambda>_. updated w0 n None) (\<lambda>_. updated w0 n None) w1"
      by (rule io_wp_mono) (use 1 updated_settled in blast)+
    then show ?case by (simp add: wp_simps told_def)
  next
    case (2 e w1)
    then show ?case by (simp add: wp_simps told_def split: if_splits)
  qed
  then show ?thesis unfolding store_delete_def io_wp_store_path [OF n] .
qed

lemma sys_read_wp:
  assumes ff: "foreign_faults w0" and n: "name_pattern n"
  shows "io_wp (sys_read (state_path (dk_root w0) n))
    (\<lambda>d w'. settled w0 w' \<and> stored w0 n = Some (Document d))
    (\<lambda>e w'. settled w0 w' \<and> (is_file_not_found e \<longrightarrow> stored w0 n = None)) w0"
  using ff n
  by (auto simp: io_wp_def sys_read_def syscall_def foreign_faults_def Let_def stored_def
      is_file_not_found_def split: fault.splits option.splits file_content.splits)

lemma store_load_wp:
  assumes ff: "foreign_faults w0"
  shows "io_wp (store_load x n)
    (\<lambda>r w'. settled w0 w' \<and> (case r of
        None \<Rightarrow> stored w0 n = None
      | Some s \<Rightarrow> \<exists>d. stored w0 n = Some (Document d) \<and> from_dict x d = Inr s))
    (\<lambda>_. settled w0) w0"
proof (cases "name_pattern n")
  case False
  then show ?thesis by (simp add: io_wp_def store_load_def io_bind_def store_path_cases)
next
  case n: True
  let ?p = "state_path (dk_root w0) n"
  have "io_wp (io_bind (io_attempt (sys_read ?p)) (\<lambda>r. case r of
        Inl e \<Rightarrow>
          if is_file_not_found e then io_return None
          else if is_unicode_error e \<or> is_value_error e then io_raise (invalid_state_error ?p e)
          else if is_os_error e then io_raise (state_error ''STATE_READ_FAILED'' ''read'' ?p e)
          else io_raise e
      | Inr document \<Rightarrow> io_lift (res_bind (load_document x ?p document) (\<lambda>s. Inr (Some s)))))
    (\<lambda>r w'. settled w0 w' \<and> (case r of
        None \<Rightarrow> stored w0 n = None
      | Some s \<Rightarrow> \<exists>d. stored w0 n = Some (Document d) \<and> from_dict x d = Inr s))
    (\<lambda>_. settled w0) w0"
    unfolding io_wp_bind io_wp_attempt
    by (rule io_wp_mono [OF sys_read_wp [OF ff n]])
      (auto simp: wp_simps load_document_def split: sum.splits)
  then show ?thesis unfolding store_load_def io_wp_store_path [OF n] .
qed

section \<open>Properties\<close>

definition sample_disk :: "(nat \<Rightarrow> fault) \<Rightarrow> disk" where
  "sample_disk faults = \<lparr>dk_root = ''/run/nslab'', dk_pid = ''7'', dk_root_mode = None,
     dk_files = [(''/run/nslab/old.json'', \<lparr>fl_mode = 420, fl_content = Document sample_document\<rparr>)],
     dk_open = [], dk_random = (\<lambda>_. ''a1b2c3d4''), dk_drawn = 0, dk_faults = faults, dk_calls = 0,
     dk_held = [], dk_now = 0, dk_wall = (\<lambda>_. ''2024-01-01T00:00:00+00:00'')\<rparr>"

definition fail_at :: "nat \<Rightarrow> exc \<Rightarrow> nat \<Rightarrow> fault" where
  "fail_at n e k = (if k = n then FailBefore e else NoFault)"

definition io_failure :: exc where
  "io_failure = os_error ''OSError'' ''[Errno 5] Input/output error'' 5"

lemma foreign_faults_sample: "foreign_faults (sample_disk (fail_at n io_failure))"
  by (auto simp: foreign_faults_def sample_disk_def fail_at_def io_failure_def os_error_def
      is_file_not_found_def)

text \<open>
  C20. Whatever system call fails while a snapshot is saved, the files of all other deployments keep
  their content, and the deployment's own file holds either its old content or the whole new
  document. If \<open>save\<close> returns it holds the new one. An error with the code
  \<open>STATE_DURABILITY_UNCERTAIN\<close> means it does too; only \<open>STATE_COMMIT_OUTCOME_UNKNOWN\<close> leaves it open;
  after every other exception the old content is there.
\<close>

theorem save_atomic:
  assumes "foreign_faults w" and "store_save x s w = (r, w')"
  shows "(\<forall>n. n \<noteq> ss_name s \<longrightarrow> stored w' n = stored w n) \<and>
    (let old = stored w (ss_name s); new = stored w' (ss_name s);
         saved = (\<exists>d. serialize x (state_path (dk_root w) (ss_name s)) s = Inr d \<and> new = Some (Document d)) in
     (new = old \<or> saved) \<and>
     (case r of
        Inr _ \<Rightarrow> saved
      | Inl e \<Rightarrow> (if code_of e = ''STATE_DURABILITY_UNCERTAIN'' then saved
          else code_of e \<noteq> ''STATE_COMMIT_OUTCOME_UNKNOWN'' \<longrightarrow> new = old)))"
proof -
  have "case r of
      Inr _ \<Rightarrow> \<exists>d. serialize x (state_path (dk_root w) (ss_name s)) s = Inr d \<and>
        updated w (ss_name s) (Some (Document d)) w'
    | Inl e \<Rightarrow> (\<exists>d. serialize x (state_path (dk_root w) (ss_name s)) s = Inr d \<and>
        told w (ss_name s) (Some (Document d)) e w') \<or>
       \<not> durability_uncertain e \<and> \<not> outcome_unknown e \<and> settled w w'"
    using io_wp_run [OF store_save_wp [OF assms(1), of x s]] by (auto simp: assms(2) split: sum.splits)
  then show ?thesis
    by (auto simp: Let_def told_def updated_def settled_def durability_uncertain_def
        outcome_unknown_def split: sum.splits if_splits)
qed

theorem save_atomic_witness:
  "let w = sample_disk (fail_at 11 io_failure);
       w' = snd (store_save sample_ext sample_snapshot w);
       n = ss_name sample_snapshot in
   (\<forall>m. m \<noteq> n \<longrightarrow> stored w' m = stored w m) \<and>
   (stored w' n = stored w n \<or> (\<exists>d. serialize sample_ext (state_path (dk_root w) n) sample_snapshot = Inr d \<and>
      stored w' n = Some (Document d))) \<and>
   map_option code_of (case fst (store_save sample_ext sample_snapshot w) of Inl e \<Rightarrow> Some e | _ \<Rightarrow> None) =
     Some ''STATE_DURABILITY_UNCERTAIN''"
proof -
  let ?w = "sample_disk (fail_at 11 io_failure)"
  have "map_option code_of (case fst (store_save sample_ext sample_snapshot ?w) of Inl e \<Rightarrow> Some e | _ \<Rightarrow> None) =
     Some ''STATE_DURABILITY_UNCERTAIN''" by code_simp
  then show ?thesis
    using save_atomic [OF foreign_faults_sample [of 11] prod.collapse [symmetric], of sample_snapshot sample_ext]
    unfolding Let_def by blast
qed

text \<open>
  C21. A snapshot that was saved is the one a later \<open>load\<close> returns: equal to it in Python's sense,
  that is up to the order of keys, and valid.
\<close>

theorem save_then_load:
  assumes "foreign_faults w" and "built_snapshot s" and "store_save x s w = (Inr (), w1)"
    and "settled w1 w2" and "store_load x (ss_name s) w2 = (Inr r, w3)"
  shows "valid_snapshot s \<and> (\<exists>s'. r = Some s' \<and> snapshot_eq s' s \<and> snapshot_eq s s' \<and>
    ss_status s' = ss_status s)"
proof -
  obtain d where d: "serialize x (state_path (dk_root w) (ss_name s)) s = Inr d"
    and u: "updated w (ss_name s) (Some (Document d)) w1"
    using io_wp_InrD [OF store_save_wp [OF assms(1)] assms(3)] by blast
  obtain v where v: "from_dict x (pdict (to_dict x s)) = Inr v" "json_dumps (pdict (to_dict x v)) = Inr d"
    using d by (auto simp: serialize_def res_bind_eq_Inr split: sum.splits)
  have s: "v = s" "valid_snapshot s" using from_to_dict_built [OF assms(2) v(1)] by simp_all
  have ff: "foreign_faults w2"
    by (rule foreign_faults_settled [OF foreign_faults_updated [OF assms(1) u] assms(4)])
  have "stored w2 (ss_name s) = Some (Document d)" using u assms(4) by (simp add: updated_def settled_def)
  then obtain s' where s': "r = Some s'" "from_dict x d = Inr s'"
    using io_wp_InrD [OF store_load_wp [OF ff] assms(5)] by (auto split: option.splits)
  obtain s'' where "from_dict x d = Inr s''" "snapshot_eq s'' s" "snapshot_eq s s''" "ss_status s'' = ss_status s"
    by (rule reread_snapshot [OF s(2) v(2) [unfolded s(1)]])
  then show ?thesis using s' s(2) by auto
qed

theorem save_then_load_witness:
  "valid_snapshot sample_snapshot \<and>
   (\<exists>s'. fst (store_load sample_ext ''lab'' (snd (store_save sample_ext sample_snapshot
       (sample_disk (\<lambda>_. NoFault))))) = Inr (Some s') \<and>
     snapshot_eq s' sample_snapshot \<and> snapshot_eq sample_snapshot s' \<and> ss_status s' = ''deployed'')"
proof -
  let ?w = "sample_disk (\<lambda>_. NoFault)"
  let ?w1 = "snd (store_save sample_ext sample_snapshot ?w)"
  let ?r = "fst (store_load sample_ext (ss_name sample_snapshot) ?w1)"
  have "foreign_faults ?w" by (simp add: foreign_faults_def sample_disk_def)
  moreover have "built_snapshot sample_snapshot" by code_simp
  moreover have "fst (store_save sample_ext sample_snapshot ?w) = Inr ()" by code_simp
  then have "store_save sample_ext sample_snapshot ?w = (Inr (), ?w1)" by (simp add: prod_eq_iff)
  moreover have "\<not> isl ?r" by code_simp
  then obtain r where r: "?r = Inr r" by (cases ?r) auto
  then have "store_load sample_ext (ss_name sample_snapshot) ?w1 =
      (Inr r, snd (store_load sample_ext (ss_name sample_snapshot) ?w1))" by (simp add: prod_eq_iff)
  moreover have "ss_name sample_snapshot = ''lab''" "ss_status sample_snapshot = ''deployed''"
    by (simp_all add: sample_snapshot_def)
  ultimately show ?thesis
    using save_then_load [OF _ _ _ settled_refl, of ?w sample_snapshot sample_ext ?w1 r] r by simp
qed

text \<open>
  C22. Whatever fails while a snapshot is deleted, the files of all other deployments keep their
  content; if \<open>delete\<close> returns, the file is gone, also when it had not been there. After
  \<open>STATE_DURABILITY_UNCERTAIN\<close> it is gone, after \<open>STATE_COMMIT_OUTCOME_UNKNOWN\<close> it is gone or as it
  was, and after every other exception it is as it was.
\<close>

theorem delete_atomic:
  assumes "foreign_faults w" and "store_delete n w = (r, w')"
  shows "(\<forall>m. m \<noteq> n \<longrightarrow> stored w' m = stored w m) \<and>
    (case r of
       Inr _ \<Rightarrow> stored w' n = None
     | Inl e \<Rightarrow> (if code_of e = ''STATE_DURABILITY_UNCERTAIN'' then stored w' n = None
         else if code_of e = ''STATE_COMMIT_OUTCOME_UNKNOWN'' then stored w' n \<in> {None, stored w n}
         else stored w' n = stored w n))"
proof -
  have "case r of Inr _ \<Rightarrow> updated w n None w' | Inl e \<Rightarrow> told w n None e w'"
    using io_wp_run [OF store_delete_wp [OF assms(1), of n]] by (auto simp: assms(2) split: sum.splits)
  then show ?thesis
    by (auto simp: told_def updated_def settled_def durability_uncertain_def
        outcome_unknown_def split: sum.splits if_splits)
qed

theorem delete_atomic_witness:
  "let w = sample_disk (fail_at 0 io_failure);
       w' = snd (store_delete ''old'' w) in
   (\<forall>m. m \<noteq> ''old'' \<longrightarrow> stored w' m = stored w m) \<and> stored w' ''old'' \<in> {None, stored w ''old''} \<and>
   stored w' ''old'' = Some (Document sample_document)"
proof -
  let ?w = "sample_disk (fail_at 0 io_failure)"
  have "stored (snd (store_delete ''old'' ?w)) ''old'' = Some (Document sample_document)" by code_simp
  moreover have "stored ?w ''old'' = Some (Document sample_document)" by code_simp
  ultimately show ?thesis
    using delete_atomic [OF foreign_faults_sample [of 0] prod.collapse [symmetric], of "''old''"]
    unfolding Let_def by simp
qed

end
