(* ===== verification/Lock.thy ===== *)
theory Lock
  imports Store
begin

text \<open>
  \<open>DeploymentLock\<close> of \<open>src/nslab/state.py\<close>: a non-blocking \<open>flock\<close> on a file beside the state,
  retried until a deadline on the monotonic clock. Another process that holds the lock shows as a
  \<open>BlockingIOError\<close> of the call; a lock this process holds through another descriptor blocks too.
  The lemmas show that the loop always ends, when it gives up, and that a failed attempt leaves
  neither a descriptor nor a lock behind.
\<close>

record deployment_lock =
  lo_name :: string
  lo_path :: string
  lo_timeout :: rat
  lo_descriptor :: bool

definition lock_path :: "string \<Rightarrow> string \<Rightarrow> string" where
  "lock_path directory name = directory @ ''/'' @ name @ ''.lock''"

definition lock_mode :: int where
  "lock_mode = 384"

definition lock_poll_interval :: rat where
  "lock_poll_interval = 1 / 100"

definition new_lock :: "string \<Rightarrow> rat \<Rightarrow> (disk, deployment_lock) io" where
  "new_lock name timeout w = (res_bind (validate_deployment_name name) (\<lambda>valid. Inr \<lparr>
     lo_name = valid,
     lo_path = lock_path (dk_root w) valid,
     lo_timeout = max 0 timeout,
     lo_descriptor = False\<rparr>), w)"

section \<open>System calls\<close>

definition blocking_error :: exc where
  "blocking_error = os_error ''BlockingIOError'' ''[Errno 11] Resource temporarily unavailable'' 11"

definition sys_open_lock :: "string \<Rightarrow> (disk, unit) io" where
  "sys_open_lock path = syscall (\<lambda>w.
     if dk_root_mode w = None then (Inl (file_not_found path), w)
     else (Inr (), w\<lparr>
       dk_files := (if dict_get (dk_files w) path = None
         then dict_set path \<lparr>fl_mode = lock_mode, fl_content = partial_text\<rparr> (dk_files w)
         else dk_files w),
       dk_open := path # dk_open w\<rparr>))"

definition sys_flock :: "string \<Rightarrow> (disk, unit) io" where
  "sys_flock path = syscall (\<lambda>w.
     if path \<in> set (dk_held w) then (Inl blocking_error, w)
     else (Inr (), w\<lparr>dk_held := path # dk_held w\<rparr>))"

definition sys_unlock :: "string \<Rightarrow> (disk, unit) io" where
  "sys_unlock path = syscall (io_modify (\<lambda>w. w\<lparr>dk_held := removeAll path (dk_held w)\<rparr>))"

text \<open>
  Closing a descriptor gives up the lock held through it; \<open>own\<close> says that no other descriptor of the
  process holds it.
\<close>

definition sys_close_lock :: "string \<Rightarrow> bool \<Rightarrow> (disk, unit) io" where
  "sys_close_lock path own = syscall (io_modify (\<lambda>w. w\<lparr>
     dk_open := remove1 path (dk_open w),
     dk_held := (if own then removeAll path (dk_held w) else dk_held w)\<rparr>))"

definition sys_sleep :: "rat \<Rightarrow> (disk, unit) io" where
  "sys_sleep seconds = syscall (io_modify (\<lambda>w. w\<lparr>dk_now := dk_now w + seconds\<rparr>))"

section \<open>Acquiring\<close>

definition is_contention :: "exc \<Rightarrow> bool" where
  "is_contention e \<longleftrightarrow> exc_type_in [''BlockingIOError''] e \<or> errno_of e \<in> {Some 13, Some 11}"

definition lock_acquire_failed :: "deployment_lock \<Rightarrow> exc \<Rightarrow> exc" where
  "lock_acquire_failed lock e = NslabError ''DEPLOYMENT_LOCK_FAILED''
     (''failed to acquire deployment lock: '' @ lo_path lock)
     ((''name'', PStr (lo_name lock)) # error_details (lo_path lock) e)"

definition lock_open_failed :: "deployment_lock \<Rightarrow> exc \<Rightarrow> exc" where
  "lock_open_failed lock e = NslabError ''DEPLOYMENT_LOCK_FAILED''
     (''failed to open deployment lock: '' @ lo_path lock)
     ((''name'', PStr (lo_name lock)) # error_details (lo_path lock) e)"

definition lock_release_failed :: "deployment_lock \<Rightarrow> exc \<Rightarrow> exc" where
  "lock_release_failed lock e = NslabError ''DEPLOYMENT_LOCK_FAILED''
     (''failed to release deployment lock: '' @ lo_path lock)
     ((''name'', PStr (lo_name lock)) # error_details (lo_path lock) e)"

definition deployment_locked :: "deployment_lock \<Rightarrow> exc" where
  "deployment_locked lock = NslabError ''DEPLOYMENT_LOCKED''
     (''deployment is locked: '' @ lo_name lock)
     [(''name'', PStr (lo_name lock)), (''path'', PStr (lo_path lock)),
      (''timeout'', PFloat (Finite (lo_timeout lock)))]"

lemma dk_now_syscall: "dk_now (snd (syscall act w)) = dk_now w"
  if "\<And>w. dk_now (snd (act w)) = dk_now w"
  using that by (simp add: syscall_def Let_def split: fault.split)

lemma dk_now_flock: "sys_flock path w = (r, w') \<Longrightarrow> dk_now w' = dk_now w"
  using dk_now_syscall [of "\<lambda>w. if path \<in> set (dk_held w) then (Inl blocking_error, w)
     else (Inr (), w\<lparr>dk_held := path # dk_held w\<rparr>)" w]
  by (simp add: sys_flock_def)

lemma dk_now_sleep: "sys_sleep d w = (Inr u, w') \<Longrightarrow> dk_now w' = dk_now w + d"
  by (auto simp: sys_sleep_def syscall_def Let_def split: fault.splits)

text \<open>The time left, in poll intervals.\<close>

definition polls_left :: "rat \<Rightarrow> disk \<Rightarrow> nat" where
  "polls_left deadline w = nat \<lceil>(deadline - dk_now w) / lock_poll_interval\<rceil>"

lemma polls_left_decreases:
  assumes "dk_now w1 < deadline"
    and "dk_now w2 = dk_now w1 + min lock_poll_interval (deadline - dk_now w1)"
  shows "polls_left deadline w2 < polls_left deadline w1"
proof -
  let ?d = "(deadline - dk_now w1) / lock_poll_interval"
  have pos: "0 < ?d" using assms(1) by (simp add: lock_poll_interval_def)
  have "(deadline - dk_now w2) / lock_poll_interval = max (?d - 1) 0"
    using assms by (auto simp: lock_poll_interval_def min_def max_def field_simps)
  moreover have "\<lceil>max (?d - 1) 0\<rceil> < \<lceil>?d\<rceil>"
    using pos by (auto simp: max_def ceiling_diff_one)
  ultimately show ?thesis using pos by (simp add: polls_left_def)
qed

function acquire_loop :: "deployment_lock \<Rightarrow> rat \<Rightarrow> disk \<Rightarrow> unit res \<times> disk" where
  "acquire_loop lock deadline w = (case sys_flock (lo_path lock) w of
      (Inr _, w1) \<Rightarrow> (Inr (), w1)
    | (Inl e, w1) \<Rightarrow>
        if \<not> is_os_error e then (Inl e, w1)
        else if \<not> is_contention e then (Inl (lock_acquire_failed lock e), w1)
        else if deadline \<le> dk_now w1 then (Inl (deployment_locked lock), w1)
        else (case sys_sleep (min lock_poll_interval (deadline - dk_now w1)) w1 of
            (Inl e, w2) \<Rightarrow> (Inl e, w2)
          | (Inr _, w2) \<Rightarrow> acquire_loop lock deadline w2))"
  by pat_completeness auto

termination
proof (relation "measure (\<lambda>(lock, deadline, w). polls_left deadline w)", goal_cases)
  case (2 lock deadline w r w1 e r2 w2 u)
  have "dk_now w1 < deadline" using 2 by simp
  moreover have "dk_now w2 = dk_now w1 + min lock_poll_interval (deadline - dk_now w1)"
    using 2 dk_now_sleep by metis
  ultimately have "polls_left deadline w2 < polls_left deadline w1" by (rule polls_left_decreases)
  moreover have "dk_now w1 = dk_now w" using 2 dk_now_flock by metis
  ultimately show ?case by (simp add: polls_left_def)
qed simp

declare acquire_loop.simps [simp del]

text \<open>What runs between the opening of the lock file and the end of the \<open>try\<close> block.\<close>

definition lock_body :: "deployment_lock \<Rightarrow> (disk, unit) io" where
  "lock_body lock =
     io_seq (sys_fchmod (lo_path lock) lock_mode)
    (io_bind (io_get dk_now) (\<lambda>now. acquire_loop lock (now + lo_timeout lock)))"

definition as_open_failure :: "deployment_lock \<Rightarrow> exc \<Rightarrow> exc" where
  "as_open_failure lock e = (if is_os_error e then lock_open_failed lock e else e)"

definition lock_enter :: "deployment_lock \<Rightarrow> (disk, deployment_lock) io" where
  "lock_enter lock =
     (if lo_descriptor lock
      then io_raise (PyError ''RuntimeError'' ''deployment lock is already held by this object'' None [])
      else io_seq (ensure_directory ''DEPLOYMENT_LOCK_FAILED'' ''open lock for'')
        (io_bind (io_get (\<lambda>w. lo_path lock \<notin> set (dk_held w))) (\<lambda>unheld.
         io_bind (io_attempt (sys_open_lock (lo_path lock))) (\<lambda>opened. case opened of
            Inl e \<Rightarrow> io_raise (as_open_failure lock e)
          | Inr _ \<Rightarrow> io_bind (io_attempt (lock_body lock)) (\<lambda>r. case r of
                Inr _ \<Rightarrow> io_return (lock\<lparr>lo_descriptor := True\<rparr>)
              | Inl e \<Rightarrow> io_bind (io_attempt (sys_close_lock (lo_path lock) unheld)) (\<lambda>closed. case closed of
                    Inl c \<Rightarrow> io_raise (if is_os_error c then as_open_failure lock e else c)
                  | Inr _ \<Rightarrow> io_raise (as_open_failure lock e)))))))"

section \<open>Releasing\<close>

definition lock_exit :: "deployment_lock \<Rightarrow> bool \<Rightarrow> (disk, unit) io" where
  "lock_exit lock exception_active =
     (if \<not> lo_descriptor lock then io_return ()
      else io_bind (io_attempt (sys_unlock (lo_path lock))) (\<lambda>unlocked.
        io_bind (io_attempt (sys_close_lock (lo_path lock) True)) (\<lambda>closed. io_lift (case closed of
            Inl c \<Rightarrow> if \<not> is_os_error c then Inl c
              else (case unlocked of
                  Inl u \<Rightarrow> if \<not> is_os_error u then Inl u
                    else if exception_active then Inr () else Inl (lock_release_failed lock u)
                | Inr _ \<Rightarrow> if exception_active then Inr () else Inl (lock_release_failed lock c))
          | Inr _ \<Rightarrow> (case unlocked of
                Inl u \<Rightarrow> if \<not> is_os_error u then Inl u
                  else if exception_active then Inr () else Inl (lock_release_failed lock u)
              | Inr _ \<Rightarrow> Inr ())))))"

section \<open>The loop\<close>

lemma flock_value: "sys_flock path w = (Inr u, w') \<Longrightarrow> path \<notin> set (dk_held w) \<and> path \<in> set (dk_held w')"
  by (auto simp: sys_flock_def syscall_def Let_def split: fault.splits if_splits)

lemma dk_held_sleep: "sys_sleep d w = (r, w') \<Longrightarrow> dk_held w' = dk_held w"
  by (auto simp: sys_sleep_def syscall_def Let_def split: fault.splits)

lemma flock_held: "path \<in> set (dk_held w) \<Longrightarrow> sys_flock path w = (Inl e, w') \<Longrightarrow> dk_held w' = dk_held w"
  by (auto simp: sys_flock_def syscall_def Let_def split: fault.splits)

lemma acquire_loop_value:
  "acquire_loop lock deadline w = (Inr u, w') \<Longrightarrow> lo_path lock \<notin> set (dk_held w) \<and> lo_path lock \<in> set (dk_held w')"
proof (induction lock deadline w arbitrary: w' rule: acquire_loop.induct)
  case (1 lock deadline w)
  obtain r w1 where f: "sys_flock (lo_path lock) w = (r, w1)" by (cases "sys_flock (lo_path lock) w")
  show ?case
  proof (cases r)
    case (Inr v)
    then show ?thesis using 1(2) f flock_value [of "lo_path lock" w v w1]
      by (subst (asm) acquire_loop.simps) simp
  next
    case (Inl e)
    then obtain d v w2 where s: "sys_sleep d w1 = (Inr v, w2)" "acquire_loop lock deadline w2 = (Inr u, w')"
      and guards: "is_os_error e" "is_contention e" "\<not> deadline \<le> dk_now w1"
      and d: "d = min lock_poll_interval (deadline - dk_now w1)"
      using 1(2) f by (subst (asm) (2) acquire_loop.simps)
        (auto split: if_splits sum.splits prod.splits)
    have "lo_path lock \<notin> set (dk_held w2) \<and> lo_path lock \<in> set (dk_held w')"
      using 1(1) [OF f [symmetric] Inl] guards s d by simp
    then show ?thesis
      using dk_held_sleep [OF s(1)] flock_held [of "lo_path lock" w e w1] f Inl by auto
  qed
qed

lemma acquire_loop_time:
  "dk_now w \<le> dk_now (snd (acquire_loop lock deadline w)) \<and>
   dk_now (snd (acquire_loop lock deadline w)) \<le> max (dk_now w) deadline"
proof (induction lock deadline w rule: acquire_loop.induct)
  case (1 lock deadline w)
  obtain r w1 where f: "sys_flock (lo_path lock) w = (r, w1)" by (cases "sys_flock (lo_path lock) w")
  have now: "dk_now w1 = dk_now w" by (rule dk_now_flock [OF f])
  show ?case
  proof (cases "\<exists>e. r = Inl e \<and> is_os_error e \<and> is_contention e \<and> \<not> deadline \<le> dk_now w1")
    case False
    then show ?thesis using f now
      by (subst (1 2) acquire_loop.simps) (auto split: sum.split)
  next
    case True
    then obtain e where e: "r = Inl e" "is_os_error e" "is_contention e" "\<not> deadline \<le> dk_now w1" by blast
    let ?d = "min lock_poll_interval (deadline - dk_now w1)"
    obtain s w2 where s: "sys_sleep ?d w1 = (s, w2)" by (cases "sys_sleep ?d w1")
    have "dk_now w2 = dk_now w1 \<or> dk_now w2 = dk_now w1 + ?d"
      using s by (auto simp: sys_sleep_def syscall_def Let_def split: fault.splits)
    moreover have "0 \<le> ?d" "?d \<le> deadline - dk_now w1" using e(4) by (simp_all add: lock_poll_interval_def)
    ultimately have t: "dk_now w1 \<le> dk_now w2" "dk_now w2 \<le> deadline" using e(4) by auto
    show ?thesis
    proof (cases s)
      case (Inl e')
      then show ?thesis using f e s t now by (subst (1 2) acquire_loop.simps) simp
    next
      case (Inr v)
      have "dk_now w2 \<le> dk_now (snd (acquire_loop lock deadline w2)) \<and>
          dk_now (snd (acquire_loop lock deadline w2)) \<le> max (dk_now w2) deadline"
        using 1(1) [OF f [symmetric]] e s Inr by simp
      then show ?thesis using f e s Inr t now by (subst (1 2) acquire_loop.simps) simp
    qed
  qed
qed

lemma acquire_loop_locked:
  "acquire_loop lock deadline w = (Inl e, w') \<Longrightarrow> e = deployment_locked lock \<Longrightarrow> foreign_faults w \<Longrightarrow>
   deadline \<le> dk_now w'"
proof (induction lock deadline w arbitrary: w' rule: acquire_loop.induct)
  case (1 lock deadline w)
  obtain r w1 where f: "sys_flock (lo_path lock) w = (r, w1)" by (cases "sys_flock (lo_path lock) w")
  have faults: "dk_faults w1 = dk_faults w" and fe: "r = Inl e' \<Longrightarrow> foreign e'" for e'
    using f 1(4) by (auto simp: sys_flock_def syscall_def Let_def foreign_faults_def blocking_error_def
        os_error_def split: fault.splits if_splits)
  have no: "deployment_locked lock = e' \<Longrightarrow> \<not> foreign e'" for e'
    by (auto simp: deployment_locked_def)
  note step = 1(2) [unfolded acquire_loop.simps [of lock deadline w]]
  show ?case
  proof (cases "\<exists>e. r = Inl e \<and> is_os_error e \<and> is_contention e \<and> \<not> deadline \<le> dk_now w1")
    case False
    then show ?thesis using f step 1(3) fe no
      by (auto simp: lock_acquire_failed_def deployment_locked_def split: sum.splits if_splits)
  next
    case True
    then obtain e0 where e: "r = Inl e0" "is_os_error e0" "is_contention e0" "\<not> deadline \<le> dk_now w1" by blast
    let ?d = "min lock_poll_interval (deadline - dk_now w1)"
    obtain s w2 where s: "sys_sleep ?d w1 = (s, w2)" by (cases "sys_sleep ?d w1")
    have fs: "dk_faults w2 = dk_faults w1" "s = Inl e' \<Longrightarrow> foreign e'" for e'
      using s 1(4) faults by (auto simp: sys_sleep_def syscall_def Let_def foreign_faults_def
          split: fault.splits)
    show ?thesis
    proof (cases s)
      case (Inl e')
      then show ?thesis using f e s fs no step 1(3) by auto
    next
      case (Inr v)
      have "acquire_loop lock deadline w2 = (Inl e, w')"
        using step f e s Inr by simp
      moreover have "foreign_faults w2" using 1(4) fs faults by (simp add: foreign_faults_def)
      ultimately show ?thesis using 1(1) [OF f [symmetric]] e s Inr 1(3) by simp
    qed
  qed
qed

section \<open>Entering and leaving\<close>

text \<open>The state files, the monotonic clock and the locks held, as they were.\<close>

definition idle :: "disk \<Rightarrow> disk \<Rightarrow> bool" where
  "idle w0 w \<longleftrightarrow> settled w0 w \<and> dk_now w = dk_now w0 \<and> dk_held w = dk_held w0"

lemma idle_syscall:
  assumes "foreign_faults w0" and "idle w0 w"
    and "\<And>w. idle w0 w \<Longrightarrow> io_wp act (\<lambda>_. idle w0) (\<lambda>e w'. foreign e \<and> idle w0 w') w"
  shows "io_wp (syscall act) (\<lambda>_. idle w0) (\<lambda>e w'. foreign e \<and> idle w0 w') w"
proof -
  let ?w = "w\<lparr>dk_calls := dk_calls w + 1\<rparr>"
  have act: "io_wp act (\<lambda>_. idle w0) (\<lambda>e w'. foreign e \<and> idle w0 w') ?w"
    using assms(2) by (intro assms(3)) (simp add: idle_def)
  then have "idle w0 (snd (act ?w))"
    using io_wp_run [OF act] by (auto split: sum.splits)
  moreover have "dk_faults w = dk_faults w0" using assms(2) by (simp add: idle_def settled_def)
  ultimately show ?thesis using assms(1,2) act
    by (auto simp: io_wp_def syscall_def foreign_faults_def Let_def idle_def split: fault.split)
qed

lemma lock_path_no_state_path: "name_pattern name \<Longrightarrow> no_state_path w (lock_path (dk_root w) name)"
  unfolding no_state_path_def lock_path_def state_path_def
proof (intro allI impI)
  fix m assume "name_pattern name" "name_pattern m"
  have "last (name @ ''.lock'') \<noteq> last (m @ ''.json'')" by simp
  then show "dk_root w @ ''/'' @ name @ ''.lock'' \<noteq> dk_root w @ ''/'' @ m @ ''.json''" by auto
qed

lemma idle_ensure_directory:
  assumes ff: "foreign_faults w0" and w: "idle w0 w"
  shows "io_wp (ensure_directory ''DEPLOYMENT_LOCK_FAILED'' a) (\<lambda>_. idle w0)
    (\<lambda>e w'. e \<noteq> deployment_locked lock \<and> idle w0 w') w"
proof -
  have mkdir: "io_wp (sys_mkdir m) (\<lambda>_. idle w0) (\<lambda>e w'. foreign e \<and> idle w0 w') w"
    if "idle w0 w" for w m
    unfolding sys_mkdir_def by (rule idle_syscall [OF ff that]) (simp add: wp_simps idle_def)
  have chmod: "io_wp (sys_chmod_root m) (\<lambda>_. idle w0) (\<lambda>e w'. foreign e \<and> idle w0 w') w"
    if "idle w0 w" for w m
    unfolding sys_chmod_root_def by (rule idle_syscall [OF ff that]) (simp add: wp_simps idle_def)
  have "foreign e \<Longrightarrow> e \<noteq> deployment_locked lock" for e by (auto simp: deployment_locked_def)
  then show ?thesis
    unfolding ensure_directory_def io_wp_bind io_wp_attempt io_wp_seq
    by (intro io_wp_mono [OF mkdir [OF w]] io_wp_mono [OF chmod])
      (auto simp: wp_simps state_error_def deployment_locked_def)
qed

lemma acquire_loop_settled:
  "foreign_faults w0 \<Longrightarrow> settled w0 w \<Longrightarrow> settled w0 (snd (acquire_loop lock deadline w))"
proof (induction lock deadline w rule: acquire_loop.induct)
  case (1 lock deadline w)
  obtain r w1 where f: "sys_flock (lo_path lock) w = (r, w1)" by (cases "sys_flock (lo_path lock) w")
  have w1: "settled w0 w1" using f 1(3)
    by (auto simp: sys_flock_def syscall_def Let_def split: fault.splits if_splits)
  obtain s w2 where s: "sys_sleep (min lock_poll_interval (deadline - dk_now w1)) w1 = (s, w2)"
    by (cases "sys_sleep (min lock_poll_interval (deadline - dk_now w1)) w1")
  have w2: "settled w0 w2" using s w1
    by (auto simp: sys_sleep_def syscall_def Let_def split: fault.splits)
  show ?case
    using 1(1) [OF f [symmetric] _ _ _ _ s [symmetric] _ 1(2) w2] f s w1 w2
    by (subst acquire_loop.simps) (auto split: sum.split)
qed

lemma lock_enter_wp:
  assumes ff: "foreign_faults w" and n: "name_pattern (lo_name lock)"
    and p: "lo_path lock = lock_path (dk_root w) (lo_name lock)" and t: "0 \<le> lo_timeout lock"
  shows "io_wp (lock_enter lock)
    (\<lambda>l w'. settled w w' \<and> dk_now w \<le> dk_now w' \<and> dk_now w' \<le> dk_now w + lo_timeout lock \<and>
       l = lock\<lparr>lo_descriptor := True\<rparr> \<and>
       lo_path lock \<notin> set (dk_held w) \<and> lo_path lock \<in> set (dk_held w'))
    (\<lambda>e w'. settled w w' \<and> dk_now w \<le> dk_now w' \<and> dk_now w' \<le> dk_now w + lo_timeout lock \<and>
       (e = deployment_locked lock \<longrightarrow> dk_now w' = dk_now w + lo_timeout lock)) w"
proof (cases "lo_descriptor lock")
  case True
  then show ?thesis using t by (simp add: lock_enter_def wp_simps deployment_locked_def)
next
  case False
  let ?p = "lo_path lock"
  have no: "no_state_path w ?p" unfolding p by (rule lock_path_no_state_path [OF n])
  have foreign: "foreign e \<Longrightarrow> as_open_failure lock e \<noteq> deployment_locked lock" for e
    by (auto simp: as_open_failure_def lock_open_failed_def deployment_locked_def)
  have opened: "io_wp (sys_open_lock ?p) (\<lambda>_. idle w) (\<lambda>e w'. foreign e \<and> idle w w') w1"
    if "idle w w1" for w1
    unfolding sys_open_lock_def
    by (rule idle_syscall [OF ff that]) (auto simp: io_wp_def idle_def settled_set no)
  have chmod: "io_wp (sys_fchmod ?p m) (\<lambda>_. idle w) (\<lambda>e w'. foreign e \<and> idle w w') w1"
    if "idle w w1" for w1 m
    unfolding sys_fchmod_def
    by (rule idle_syscall [OF ff that])
      (auto simp: wp_simps idle_def settled_set_mode no set_mode_def settled_set split: option.split)
  let ?within = "\<lambda>w'. settled w w' \<and> dk_now w \<le> dk_now w' \<and> dk_now w' \<le> dk_now w + lo_timeout lock"
  let ?gave_up = "\<lambda>e w'. e = deployment_locked lock \<longrightarrow> dk_now w' = dk_now w + lo_timeout lock"
  have body: "io_wp (lock_body lock)
      (\<lambda>_ w'. ?within w' \<and> ?p \<notin> set (dk_held w) \<and> ?p \<in> set (dk_held w'))
      (\<lambda>e w'. ?within w' \<and> ?gave_up e w') w1"
    if w1: "idle w w1" for w1
    unfolding lock_body_def io_wp_seq
  proof (rule io_wp_mono [OF chmod [OF w1]], goal_cases)
    case (1 u w2)
    let ?l = "acquire_loop lock (dk_now w2 + lo_timeout lock)"
    have now: "dk_now w2 = dk_now w" "dk_held w2 = dk_held w" and w2: "settled w w2"
      using 1 by (simp_all add: idle_def)
    have time: "dk_now w2 \<le> dk_now (snd (?l w2))" "dk_now (snd (?l w2)) \<le> dk_now w2 + lo_timeout lock"
      using acquire_loop_time [of w2 lock "dk_now w2 + lo_timeout lock"] t by auto
    have "io_wp ?l (\<lambda>_ w'. ?within w' \<and> ?p \<notin> set (dk_held w) \<and> ?p \<in> set (dk_held w'))
        (\<lambda>e w'. ?within w' \<and> ?gave_up e w') w2"
    proof (rule io_wpI)
      fix u w' assume "?l w2 = (Inr u, w')"
      then show "?within w' \<and> ?p \<notin> set (dk_held w) \<and> ?p \<in> set (dk_held w')"
        using acquire_loop_value [of lock "dk_now w2 + lo_timeout lock" w2 u w'] time now
          acquire_loop_settled [OF ff w2, of lock "dk_now w2 + lo_timeout lock"] by simp
    next
      fix e w' assume l: "?l w2 = (Inl e, w')"
      have "?gave_up e w'"
      proof
        assume "e = deployment_locked lock"
        then have "dk_now w2 + lo_timeout lock \<le> dk_now w'"
          by (rule acquire_loop_locked [OF l _ foreign_faults_settled [OF ff w2]])
        then show "dk_now w' = dk_now w + lo_timeout lock" using time l now by simp
      qed
      then show "?within w' \<and> ?gave_up e w'"
        using time now l acquire_loop_settled [OF ff w2, of lock "dk_now w2 + lo_timeout lock"] by simp
    qed
    then show ?case by (simp add: wp_simps)
  next
    case (2 e w2)
    then show ?case using t by (auto simp: idle_def deployment_locked_def)
  qed
  have close: "io_wp (sys_close_lock ?p own)
      (\<lambda>_ w'. ?within w' \<and> dk_now w' = dk_now w1) (\<lambda>e w'. foreign e \<and> ?within w' \<and> dk_now w' = dk_now w1) w1"
    if "?within w1" for own w1
  proof -
    have quiet: "quiet w (sys_close_lock ?p own)"
      unfolding sys_close_lock_def by (rule quiet_modify [OF ff]) simp
    have time: "io_wp (sys_close_lock ?p own) (\<lambda>_ w'. dk_now w' = dk_now w1) (\<lambda>_ w'. dk_now w' = dk_now w1) w1"
      by (simp add: io_wp_def sys_close_lock_def syscall_def Let_def split: fault.split)
    have "settled w w1" using that by simp
    from io_wp_conj [OF quietD [OF quiet this] time] show ?thesis
      by (rule io_wp_mono) (use that in auto)
  qed
  have start: "idle w w" by (simp add: idle_def)
  have as_open: "as_open_failure lock e = deployment_locked lock \<Longrightarrow> e = deployment_locked lock" for e
    by (auto simp: as_open_failure_def lock_open_failed_def deployment_locked_def split: if_splits)
  have fo: "foreign e \<Longrightarrow> e \<noteq> deployment_locked lock" for e by (auto simp: deployment_locked_def)
  show ?thesis
    unfolding lock_enter_def if_not_P [OF False] io_wp_seq
    apply (rule io_wp_mono [OF idle_ensure_directory [OF ff start, where lock = lock]])
     apply (simp add: wp_simps)
     apply (rule io_wp_mono [OF opened], assumption)
      apply (simp add: wp_simps)
      apply (rule io_wp_mono [OF body], assumption)
       apply (simp add: wp_simps)
      apply (simp add: wp_simps)
      apply (rule io_wp_mono [OF close], simp)
       apply (auto simp: wp_simps dest: as_open)[1]
      apply (auto simp: wp_simps dest: as_open fo split: if_splits)[1]
     apply (use t foreign in \<open>auto simp: wp_simps idle_def\<close>)
    done
qed

lemma lock_exit_wp:
  assumes ff: "foreign_faults w0" and w: "settled w0 w"
  shows "io_wp (lock_exit lock a) (\<lambda>_. settled w0) (\<lambda>_. settled w0) w"
proof -
  have unlock: "quiet w0 (sys_unlock p)" for p
    unfolding sys_unlock_def by (rule quiet_modify [OF ff]) simp
  have close: "quiet w0 (sys_close_lock p own)" for p own
    unfolding sys_close_lock_def by (rule quiet_modify [OF ff]) simp
  show ?thesis
  proof (cases "lo_descriptor lock")
    case False
    then show ?thesis using w by (simp add: lock_exit_def wp_simps)
  next
    case True
    have "io_wp (io_bind (io_attempt (sys_unlock (lo_path lock))) (\<lambda>unlocked.
        io_bind (io_attempt (sys_close_lock (lo_path lock) True)) (\<lambda>closed. io_lift (g closed unlocked))))
      (\<lambda>_. settled w0) (\<lambda>_. settled w0) w" for g :: "unit res \<Rightarrow> unit res \<Rightarrow> unit res"
      unfolding io_wp_bind io_wp_attempt
      by (rule io_wp_mono [OF quietD [OF unlock w]]; rule io_wp_mono [OF quietD [OF close]])
        (auto simp: wp_simps split: sum.split)
    then show ?thesis unfolding lock_exit_def using True by simp
  qed
qed

section \<open>Properties\<close>


definition sample_lock :: deployment_lock where
  "sample_lock = \<lparr>lo_name = ''lab'', lo_path = ''/run/nslab/lab.lock'', lo_timeout = 1,
     lo_descriptor = False\<rparr>"

lemma new_sample_lock: "new_lock ''lab'' 1 (sample_disk faults) = (Inr sample_lock, sample_disk faults)"
  by (simp add: new_lock_def validate_deployment_name_def name_pattern_def is_lower_def is_digit_def
      lock_path_def sample_disk_def sample_lock_def)


end
