(* ===== verification/Snapshot.thy ===== *)
theory Snapshot
  imports Compile State
begin

text \<open>
  \<open>src/nslab/snapshot.py\<close>: the validation of a stored snapshot. The plan is compiled anew from the
  stored manifest and must have the stored fingerprint and namespaces, and the recorded interfaces
  must be exactly those of the plan, each with its identity, a sound interface index, and veth link
  ids that pair up the two ends of every link.
\<close>

record snapshot_validation =
  sv_snapshot :: state_snapshot
  sv_plan :: topology_plan
  sv_link_ids_complete :: bool

definition snapshot_invalid :: "state_snapshot \<Rightarrow> string \<Rightarrow> (string, pyobj) dict \<Rightarrow> exc" where
  "snapshot_invalid s reason details = NslabError ''STATE_INVALID''
     (''stored deployment state is inconsistent: '' @ ss_name s)
     ([(''name'', PStr (ss_name s)), (''reason'', PStr reason)] @ details)"

definition planned_namespaces :: "topology_plan \<Rightarrow> (string, string) dict" where
  "planned_namespaces plan = dict_map nd_namespace (tpl_nodes plan)"

definition snapshot_plan :: "ext \<Rightarrow> state_snapshot \<Rightarrow> topology_plan res" where
  "snapshot_plan x s = (case x_model_validate x (pdict (ss_manifest s)) of
      Inl error \<Rightarrow> Inl (snapshot_invalid s ''manifest'' [(''error'', PStr error)])
    | Inr m \<Rightarrow>
        res_bind (compile_plan x m (Some (ss_name s))) (\<lambda>plan.
        if tpl_fingerprint plan \<noteq> ss_fingerprint s
        then Inl (snapshot_invalid s ''fingerprint''
          [(''snapshot_fingerprint'', PStr (ss_fingerprint s)),
           (''manifest_fingerprint'', PStr (tpl_fingerprint plan))])
        else if \<not> dict_eq (=) (ss_namespaces s) (planned_namespaces plan)
        then Inl (snapshot_invalid s ''namespaces'' [])
        else Inr plan))"

section \<open>The identity of an interface\<close>

text \<open>
  The items that \<open>_expected_ownership\<close> and \<open>LifecycleService._interface_ownership\<close> add for a device of
  each class.
\<close>

fun device_identity :: "device_plan \<Rightarrow> (string, pyobj) dict" where
  "device_identity (VlanDevice d) = [
     (''kind'', PStr ''vlan''), (''parent'', PStr (vlan_link d)), (''vlan_id'', PInt (vlan_vid d))]"
| "device_identity (VrfDevice d) = [
     (''kind'', PStr ''vrf''), (''vrf_table'', PInt (vrf_table d))]"
| "device_identity (BondDevice d) = [
     (''kind'', PStr ''bond''), (''bond_mode'', PStr (bond_mode d)),
     (''interfaces'', PTuple (map PStr (bond_interfaces d)))]"
| "device_identity (DummyDevice d) = [(''kind'', PStr ''dummy'')]"
| "device_identity (GeneveDevice d) = [
     (''kind'', PStr ''geneve''), (''vni'', PInt (geneve_vni d)), (''link'', PStr (geneve_link d)),
     (''remote'', PStr (show_ip (geneve_remote d))), (''dst_port'', PInt (geneve_dst_port d))]"
| "device_identity (GreDevice d) = [
     (''kind'', PStr ''gre''), (''link'', PStr (gre_link d)), (''local'', PStr (show_ipv4 (gre_local d))),
     (''remote'', PStr (show_ipv4 (gre_remote d))), (''key'', pint_opt (gre_key d)),
     (''ttl'', PInt (gre_ttl d))]"
| "device_identity (IpipDevice d) = [
     (''kind'', PStr ''ipip''), (''link'', PStr (ipip_link d)), (''local'', PStr (show_ipv4 (ipip_local d))),
     (''remote'', PStr (show_ipv4 (ipip_remote d))), (''ttl'', PInt (ipip_ttl d))]"
| "device_identity (MacvlanDevice d) = [
     (''kind'', PStr ''macvlan''), (''parent'', PStr (macvlan_link d)), (''mode'', PStr (macvlan_mode d))]"
| "device_identity (IpvlanDevice d) = [
     (''kind'', PStr ''ipvlan''), (''parent'', PStr (ipvlan_link d)), (''mode'', PStr (ipvlan_mode d))]"
| "device_identity (VxlanDevice d) = [
     (''kind'', PStr ''vxlan''), (''vni'', PInt (vxlan_vni d)), (''link'', PStr (vxlan_link d)),
     (''local'', PStr (show_ip (vxlan_local d))), (''remote'', PStr (show_ip (vxlan_remote d))),
     (''dst_port'', PInt (vxlan_dst_port d))]"

definition ownership_key :: "string \<Rightarrow> string \<Rightarrow> string" where
  "ownership_key node interface = node @ '':'' @ interface"

type_synonym ownership = "(string, pyobj) dict"

definition expected_bridge_ownership :: "node_plan \<Rightarrow> (string \<times> ownership) list res" where
  "expected_bridge_ownership node =
     (if nd_kind node \<noteq> BridgeKind then Inr []
      else (case nd_bridge_name node of
          None \<Rightarrow> Inl assertion_error
        | Some bridge \<Rightarrow> Inr [(ownership_key (nd_name node) bridge, [
            (''name'', PStr bridge), (''kind'', PStr ''bridge''),
            (''namespace'', PStr (nd_namespace node))])]))"

definition expected_device_ownership :: "node_plan \<Rightarrow> device_plan \<Rightarrow> string \<times> ownership" where
  "expected_device_ownership node device = (ownership_key (nd_name node) (device_name device),
     [(''name'', PStr (device_name device)), (''namespace'', PStr (nd_namespace node))] @
     device_identity device)"

definition expected_endpoint_ownership :: "endpoint_plan \<Rightarrow> string \<times> ownership" where
  "expected_endpoint_ownership endpoint = (ownership_key (ep_node endpoint) (ep_interface endpoint), [
     (''name'', PStr (ep_interface endpoint)), (''kind'', PStr ''veth''),
     (''namespace'', PStr (ep_namespace endpoint)),
     (''temporary_name'', PStr (ep_temporary_name endpoint))])"

definition expected_ownership :: "topology_plan \<Rightarrow> (string, ownership) dict res" where
  "expected_ownership plan =
     res_bind (res_map (\<lambda>node. res_bind (expected_bridge_ownership node) (\<lambda>bridge.
         Inr (bridge @ map (expected_device_ownership node) (dict_values (nd_devices node)))))
       (plan_nodes plan)) (\<lambda>nodes.
     Inr (dict_of (concat nodes @
       map expected_endpoint_ownership (concat (map link_endpoints (tpl_links plan))))))"

section \<open>The recorded interfaces\<close>

definition required_fields :: "ownership \<Rightarrow> string list" where
  "required_fields desired = dict_keys desired @ [''ifindex'']"

definition is_veth_record :: "ownership \<Rightarrow> bool" where
  "is_veth_record desired \<longleftrightarrow> dict_get desired ''kind'' = Some (PStr ''veth'')"

definition allowed_fields :: "ownership \<Rightarrow> string list" where
  "allowed_fields desired =
     required_fields desired @ (if is_veth_record desired then [''link_id''] else [])"

text \<open>\<open>ownership.get(field)\<close>.\<close>

definition field_of :: "(pyobj \<times> pyobj) list \<Rightarrow> string \<Rightarrow> pyobj" where
  "field_of d field = (case map_of d (PStr field) of None \<Rightarrow> PNone | Some v \<Rightarrow> v)"

definition valid_ifindex :: "pyobj \<Rightarrow> bool" where
  "valid_ifindex v = (case v of PNone \<Rightarrow> True | PInt i \<Rightarrow> 0 < i | _ \<Rightarrow> False)"

definition check_record :: "state_snapshot \<Rightarrow> string \<times> ownership \<Rightarrow> (string \<times> (pyobj \<times> pyobj) list) res" where
  "check_record s entry = (case entry of (key, desired) \<Rightarrow>
     let invalid = (\<lambda>reason. Inl (snapshot_invalid s reason [(''interface'', PStr key)])) in
     res_bind (res_of_option (key_error key) (dict_get (ss_interfaces s) key)) (\<lambda>value.
     case mapping_items value of
       None \<Rightarrow> invalid ''interface_record''
     | Some ownership \<Rightarrow>
         if \<not> (set (map PStr (required_fields desired)) \<subseteq> set (map fst ownership) \<and>
               set (map fst ownership) \<subseteq> set (map PStr (allowed_fields desired)))
         then invalid ''interface_fields''
         else if \<not> list_all (\<lambda>(field, expected). py_eq (field_of ownership field) expected) desired
         then invalid ''interface_identity''
         else if \<not> valid_ifindex (field_of ownership ''ifindex'')
         then invalid ''ifindex''
         else Inr (key, ownership)))"

definition has_link_id :: "(pyobj \<times> pyobj) list \<Rightarrow> bool" where
  "has_link_id ownership \<longleftrightarrow> PStr ''link_id'' \<in> set (map fst ownership)"

definition link_id_text :: "pyobj \<Rightarrow> string option" where
  "link_id_text v = (case v of PStr s \<Rightarrow> if s = [] then None else Some s | _ \<Rightarrow> None)"

text \<open>
  The loop over the links: the ids of both ends are non-empty texts, equal, and not an earlier
  link's.
\<close>

fun check_link_ids :: "state_snapshot \<Rightarrow> (string \<Rightarrow> pyobj) \<Rightarrow> link_plan list \<Rightarrow> (string, nat) dict \<Rightarrow> unit res" where
  "check_link_ids s link_id [] seen = Inr ()"
| "check_link_ids s link_id (link # links) seen =
     (let left = ownership_key (ep_node (lk_left link)) (ep_interface (lk_left link));
          right = ownership_key (ep_node (lk_right link)) (ep_interface (lk_right link));
          index = [(''link'', PInt (int (lk_index link)))] in
      case link_id_text (link_id left) of
        None \<Rightarrow> Inl (snapshot_invalid s ''link_id'' [(''interface'', PStr left)])
      | Some left_id \<Rightarrow> (case link_id_text (link_id right) of
          None \<Rightarrow> Inl (snapshot_invalid s ''link_id'' [(''interface'', PStr right)])
        | Some right_id \<Rightarrow>
            if left_id \<noteq> right_id then Inl (snapshot_invalid s ''link_id_pair'' index)
            else if dict_get seen left_id \<notin> {None, Some (lk_index link)}
            then Inl (snapshot_invalid s ''link_id_reused'' index)
            else check_link_ids s link_id links (dict_set left_id (lk_index link) seen)))"

text \<open>
  \<open>True\<close> where the recorded link ids are complete, \<open>False\<close> where a snapshot of an earlier schema or
  of an unfinished deployment has none.
\<close>

definition validate_link_ids ::
    "state_snapshot \<Rightarrow> topology_plan \<Rightarrow> (string, (pyobj \<times> pyobj) list) dict \<Rightarrow> string list \<Rightarrow> bool res" where
  "validate_link_ids s plan ownership veth_keys =
     (let owned = (\<lambda>key. case dict_get ownership key of None \<Rightarrow> [] | Some d \<Rightarrow> d);
          link_id = (\<lambda>key. field_of (owned key) ''link_id'') in
      case veth_keys of
        [] \<Rightarrow> Inr True
      | first # _ \<Rightarrow>
          if \<not> list_ex (\<lambda>key. has_link_id (owned key)) veth_keys then Inr False
          else if \<not> list_all (\<lambda>key. has_link_id (owned key)) veth_keys
          then Inl (snapshot_invalid s ''link_id_schema'' [])
          else if list_all (\<lambda>key. link_id key = PNone) veth_keys
          then (if ss_status s = ''deployed''
            then Inl (snapshot_invalid s ''link_id'' [(''interface'', PStr first)])
            else Inr False)
          else if list_ex (\<lambda>key. link_id key = PNone) veth_keys
          then Inl (snapshot_invalid s ''link_id_schema'' [])
          else res_bind (check_link_ids s link_id (tpl_links plan) []) (\<lambda>_. Inr True))"

definition validate_interfaces :: "state_snapshot \<Rightarrow> topology_plan \<Rightarrow> bool res" where
  "validate_interfaces s plan =
     res_bind (expected_ownership plan) (\<lambda>expected.
     if set (dict_keys (ss_interfaces s)) \<noteq> set (dict_keys expected)
     then Inl (snapshot_invalid s ''interface_set'' [])
     else res_bind (res_map (check_record s) expected) (\<lambda>ownership.
       validate_link_ids s plan ownership
         (map fst (filter (\<lambda>(key, desired). is_veth_record desired) expected))))"

definition validate_snapshot :: "ext \<Rightarrow> state_snapshot \<Rightarrow> snapshot_validation res" where
  "validate_snapshot x s =
     res_bind (snapshot_plan x s) (\<lambda>plan.
     res_bind (validate_interfaces s plan) (\<lambda>complete. Inr \<lparr>
       sv_snapshot = s,
       sv_plan = plan,
       sv_link_ids_complete = complete\<rparr>))"

end
