(* ===== verification/Services.thy ===== *)
theory Services
  imports Match State
begin

text \<open>
  What the lifecycle and the executor call: the \<open>NetworkBackend\<close> protocol of
  \<open>src/nslab/backend/base.py\<close>, the state store, the deployment lock and the clock, as the fields of one
  record over a world \<open>'w\<close>. The three routing methods may be missing, as \<open>getattr\<close> allows. Also the
  helpers of \<open>src/nslab/lifecycle.py\<close> that attach diagnostics to an exception, and
  \<open>src/nslab/executor.py\<close>.
\<close>

record 'w services =
  sv_create_namespace :: "node_plan \<Rightarrow> ('w, unit) io"
  sv_delete_namespace :: "string \<Rightarrow> ('w, unit) io"
  sv_create_bridge :: "node_plan \<Rightarrow> ('w, unit) io"
  sv_create_veth :: "link_plan \<Rightarrow> ('w, unit) io"
  sv_configure_node :: "node_plan \<Rightarrow> topology_plan \<Rightarrow> ('w, unit) io"
  sv_start_routing :: "(topology_plan \<Rightarrow> ('w, unit) io) option"
  sv_stop_routing :: "(topology_plan \<Rightarrow> ('w, unit) io) option"
  sv_routing_ready :: "(topology_plan \<Rightarrow> ('w, bool) io) option"
  sv_inventory :: "topology_plan \<Rightarrow> ('w, live_inventory) io"
  sv_execute :: "string \<Rightarrow> string list \<Rightarrow> bool \<Rightarrow> ('w, exec_result) io"
  sv_load :: "string \<Rightarrow> ('w, state_snapshot option) io"
  sv_save :: "state_snapshot \<Rightarrow> ('w, unit) io"
  sv_delete :: "string \<Rightarrow> ('w, unit) io"
  sv_acquire :: "string \<Rightarrow> ('w, unit) io"
  sv_release :: "string \<Rightarrow> bool \<Rightarrow> ('w, unit) io"
  sv_timestamp :: "('w, string) io"

section \<open>Executing a command in a node\<close>

definition node_not_found :: "topology_plan \<Rightarrow> string \<Rightarrow> exc" where
  "node_not_found plan node = NslabError ''NODE_NOT_FOUND''
     (''topology node is not defined: '' @ node)
     [(''name'', PStr (tpl_name plan)), (''node'', PStr node)]"

definition command_required :: "topology_plan \<Rightarrow> string \<Rightarrow> exc" where
  "command_required plan node = NslabError ''EXEC_COMMAND_REQUIRED''
     (''an execution command is required for node: '' @ node)
     [(''name'', PStr (tpl_name plan)), (''node'', PStr node)]"

definition argument_invalid :: "topology_plan \<Rightarrow> string \<Rightarrow> nat \<Rightarrow> exc" where
  "argument_invalid plan node index = NslabError ''EXEC_ARGUMENT_INVALID''
     (''execution argument contains a NUL character for node: '' @ node)
     [(''name'', PStr (tpl_name plan)), (''node'', PStr node), (''argument_index'', PInt (int index))]"

text \<open>The index of the first argument with a NUL character.\<close>

fun nul_argument :: "nat \<Rightarrow> string list \<Rightarrow> nat option" where
  "nul_argument index [] = None"
| "nul_argument index (argument # arguments) =
     (if CHR 0x00 \<in> set argument then Some index else nul_argument (Suc index) arguments)"

definition execute_in_node ::
    "'w services \<Rightarrow> topology_plan \<Rightarrow> string \<Rightarrow> string list \<Rightarrow> bool \<Rightarrow> ('w, exec_result) io" where
  "execute_in_node sv plan node argv capture_output =
     (case dict_get (tpl_nodes plan) node of
        None \<Rightarrow> io_raise (node_not_found plan node)
      | Some planned_node \<Rightarrow>
          if argv = [] then io_raise (command_required plan node)
          else (case nul_argument 0 argv of
              Some index \<Rightarrow> io_raise (argument_invalid plan node index)
            | None \<Rightarrow> sv_execute sv (nd_namespace planned_node) argv capture_output))"

section \<open>Diagnostics on exceptions\<close>

fun json_safe :: "ext \<Rightarrow> pyobj \<Rightarrow> pyobj" where
  "json_safe x (PFloat f) = (case f of Finite q \<Rightarrow> PFloat f | _ \<Rightarrow> PStr (py_str x (PFloat f)))"
| "json_safe x (PDict d) = PDict (dict_of (map (\<lambda>p. (PStr (py_str x (fst p)), json_safe x (snd p))) d))"
| "json_safe x (PProxy d) = PDict (dict_of (map (\<lambda>p. (PStr (py_str x (fst p)), json_safe x (snd p))) d))"
| "json_safe x (PList vs) = PList (map (json_safe x) vs)"
| "json_safe x (PTuple vs) = PList (map (json_safe x) vs)"
| "json_safe x (POther t) = PStr (py_str x (POther t))"
| "json_safe x v = v"

definition as_dict :: "string \<Rightarrow> string \<Rightarrow> (string, pyobj) dict \<Rightarrow> pyobj" where
  "as_dict code message details =
     pdict [(''code'', PStr code), (''message'', PStr message), (''details'', pdict details)]"

fun error_payload :: "ext \<Rightarrow> exc \<Rightarrow> pyobj" where
  "error_payload x (NslabError c m d) = json_safe x (as_dict c m d)"
| "error_payload x (OperationCancelled m d) = json_safe x (as_dict ''OPERATION_CANCELLED'' m d)"
| "error_payload x e = pdict [(''type'', PStr (type_name e)), (''message'', PStr (exc_text e))]"

fun attach :: "exc \<Rightarrow> string \<Rightarrow> pyobj \<Rightarrow> exc" where
  "attach (NslabError c m d) key v = NslabError c m (dict_set key v d)"
| "attach (OperationCancelled m d) key v = OperationCancelled m (dict_set key v d)"
| "attach (PyError t m n notes) key v = PyError t m n (notes @ [(key, v)])"
| "attach (KeyboardInterrupt notes) key v = KeyboardInterrupt (notes @ [(key, v)])"

text \<open>The value last attached under a key.\<close>

fun attached :: "exc \<Rightarrow> string \<Rightarrow> pyobj option" where
  "attached (NslabError c m d) key = dict_get d key"
| "attached (OperationCancelled m d) key = dict_get d key"
| "attached (PyError t m n notes) key = map_of (rev notes) key"
| "attached (KeyboardInterrupt notes) key = map_of (rev notes) key"

lemma attached_attach [simp]: "attached (attach e k v) j = (if j = k then Some v else attached e j)"
  by (cases e) auto

lemma code_of_attach [simp]: "code_of (attach e k v) = code_of e"
  by (cases e) auto

lemma exc_class_attach [simp]:
  "is_nslab_error (attach e k v) = is_nslab_error e" "is_cancelled (attach e k v) = is_cancelled e"
  "is_interrupt (attach e k v) = is_interrupt e" "type_name (attach e k v) = type_name e"
  "exc_text (attach e k v) = exc_text e"
  by (cases e; simp)+

end
