(* ===== verification/Lifecycle.thy ===== *)
theory Lifecycle
  imports Services Snapshot
begin

text \<open>
  \<open>LifecycleService\<close> of \<open>src/nslab/lifecycle.py\<close>: deploy, destroy and redeploy over the services of a
  network backend, a state store, a lock and a clock. An \<open>except\<close> clause is a case split on the
  outcome of an attempt; an exception that the code annotates and raises again is passed on as the
  annotated value.
\<close>

definition uncertain_state_codes :: "string list" where
  "uncertain_state_codes = [''STATE_COMMIT_OUTCOME_UNKNOWN'', ''STATE_DURABILITY_UNCERTAIN'']"

record lifecycle_result =
  lr_action :: string
  lr_name :: string
  lr_changed :: bool
  lr_status :: string
  lr_message :: string

record reconciliation =
  rc_snapshot :: "state_snapshot option"
  rc_inventory :: "live_inventory option"
  rc_diagnostics :: "(string, pyobj) dict"

record delete_gate =
  dg_reconciliation :: reconciliation
  dg_conclusive :: bool
  dg_live_absent :: bool
  dg_expected_snapshot :: bool

definition retry_safe :: "delete_gate \<Rightarrow> bool" where
  "retry_safe gate \<longleftrightarrow> dg_conclusive gate \<and> dg_expected_snapshot gate \<and> dg_live_absent gate"

definition requires_reconciliation :: "exc \<Rightarrow> bool" where
  "requires_reconciliation e \<longleftrightarrow> is_cancelled e \<or> is_interrupt e \<or>
     is_nslab_error e \<and> code_of e \<in> set uncertain_state_codes"

text \<open>\<open>isinstance(error, (OperationCancelled, KeyboardInterrupt))\<close>.\<close>

definition is_raw_interrupt :: "exc \<Rightarrow> bool" where
  "is_raw_interrupt e \<longleftrightarrow> is_cancelled e \<or> is_interrupt e"

section \<open>Guards\<close>

definition plan_manifest_mismatch :: "topology_plan \<Rightarrow> string \<Rightarrow> exc" where
  "plan_manifest_mismatch plan fingerprint = NslabError ''PLAN_MANIFEST_MISMATCH''
     (''topology plan does not match manifest: '' @ tpl_name plan)
     [(''name'', PStr (tpl_name plan)), (''plan_fingerprint'', PStr (tpl_fingerprint plan)),
      (''manifest_fingerprint'', PStr fingerprint)]"

definition validate_plan_manifest :: "ext \<Rightarrow> topology_plan \<Rightarrow> manifest \<Rightarrow> unit res" where
  "validate_plan_manifest x plan m =
     res_bind (compile_plan x m (Some (tpl_name plan))) (\<lambda>expected.
     res_bind (manifest_fingerprint x m) (\<lambda>fingerprint.
     if tpl_fingerprint plan \<noteq> fingerprint \<or> \<not> plan_eq plan expected \<or>
        dict_keys (tpl_nodes plan) \<noteq> dict_keys (tpl_nodes expected)
     then Inl (plan_manifest_mismatch plan fingerprint)
     else Inr ()))"

definition require_snapshot_identity :: "state_snapshot \<Rightarrow> string \<Rightarrow> unit res" where
  "require_snapshot_identity s requested_name =
     (if ss_name s = requested_name then Inr ()
      else Inl (NslabError ''STATE_INVALID''
        (''deployment state identity does not match its requested path: '' @ requested_name)
        [(''requested_name'', PStr requested_name), (''snapshot_name'', PStr (ss_name s))]))"

definition deployment_interrupted :: "state_snapshot \<Rightarrow> exc" where
  "deployment_interrupted s = NslabError ''DEPLOYMENT_INTERRUPTED''
     (''deployment has interrupted '' @ ss_status s @ '' state: '' @ ss_name s)
     [(''name'', PStr (ss_name s)), (''status'', PStr (ss_status s))]"

definition require_stable_snapshot :: "state_snapshot \<Rightarrow> unit res" where
  "require_stable_snapshot s =
     (if ss_status s = ''deployed'' then Inr () else Inl (deployment_interrupted s))"

definition ownership_unknown :: "string \<Rightarrow> exc" where
  "ownership_unknown name = NslabError ''OWNERSHIP_UNKNOWN''
     (''cannot prove ownership of live resources: '' @ name) [(''name'', PStr name)]"

definition deployment_conflict :: "topology_plan \<Rightarrow> state_snapshot \<Rightarrow> exc" where
  "deployment_conflict plan current = NslabError ''DEPLOYMENT_CONFLICT''
     (''deployment already exists with different topology: '' @ tpl_name plan)
     [(''name'', PStr (tpl_name plan)), (''expected_fingerprint'', PStr (tpl_fingerprint plan)),
      (''actual_fingerprint'', PStr (ss_fingerprint current))]"

definition deployment_drift :: "topology_plan \<Rightarrow> exc" where
  "deployment_drift plan = NslabError ''DEPLOYMENT_DRIFT''
     (''deployed topology does not match live resources: '' @ tpl_name plan)
     [(''name'', PStr (tpl_name plan)), (''fingerprint'', PStr (tpl_fingerprint plan))]"

definition verification_failed :: "topology_plan \<Rightarrow> exc" where
  "verification_failed plan = NslabError ''DEPLOYMENT_VERIFICATION_FAILED''
     (''deployed topology failed live verification: '' @ tpl_name plan)
     [(''name'', PStr (tpl_name plan)), (''fingerprint'', PStr (tpl_fingerprint plan))]"

definition plan_name_mismatch :: "string \<Rightarrow> string \<Rightarrow> exc" where
  "plan_name_mismatch name plan_name = NslabError ''PLAN_NAME_MISMATCH''
     (''destroy plan name does not match requested deployment: '' @ name)
     [(''name'', PStr name), (''plan_name'', PStr plan_name)]"

definition destroy_incomplete :: "string \<Rightarrow> exc" where
  "destroy_incomplete name = NslabError ''DESTROY_INCOMPLETE''
     (''topology resources remain after destroy: '' @ name) [(''name'', PStr name)]"

definition namespace_absent :: "live_inventory \<Rightarrow> node_plan \<Rightarrow> bool" where
  "namespace_absent inventory node = (case dict_get (li_namespaces inventory) (nd_namespace node) of
      None \<Rightarrow> False
    | Some observed \<Rightarrow>
        ni_node observed = nd_name node \<and> ni_kind observed = nd_kind node \<and>
        ni_namespace observed = nd_namespace node \<and>
        \<not> ni_exists observed \<and> ni_interfaces observed = [] \<and> ni_routes observed = [] \<and>
        ni_rules observed = [] \<and> ni_neighbors observed = [] \<and> ni_sysctls observed = [])"

definition inventory_is_absent :: "topology_plan \<Rightarrow> live_inventory \<Rightarrow> bool" where
  "inventory_is_absent plan inventory \<longleftrightarrow>
     li_root_interfaces inventory = [] \<and>
     set (dict_keys (li_namespaces inventory)) = set (map nd_namespace (plan_nodes plan)) \<and>
     list_all (namespace_absent inventory) (plan_nodes plan)"

section \<open>The snapshot of a plan\<close>

definition observed_record ::
    "live_inventory option \<Rightarrow> string \<Rightarrow> string option \<Rightarrow> interface_inventory option res" where
  "observed_record inventory namespace interface = (case inventory of
      None \<Rightarrow> Inr None
    | Some live \<Rightarrow>
        res_bind (res_of_option (key_error namespace) (dict_get (li_namespaces live) namespace)) (\<lambda>n.
        case interface of
          None \<Rightarrow> Inl (key_error ''None'')
        | Some name \<Rightarrow> res_bind (res_of_option (key_error name) (dict_get (ni_interfaces n) name))
            (\<lambda>i. Inr (Some i))))"

definition ifindex_value :: "interface_inventory option \<Rightarrow> pyobj" where
  "ifindex_value observed = (case observed of None \<Rightarrow> PNone | Some i \<Rightarrow> pint_opt (iv_ifindex i))"

definition link_id_value :: "interface_inventory option \<Rightarrow> pyobj" where
  "link_id_value observed = (case observed of None \<Rightarrow> PNone | Some i \<Rightarrow> pstr_opt (iv_link_id i))"

definition bridge_ownership ::
    "live_inventory option \<Rightarrow> string \<Rightarrow> node_plan \<Rightarrow> (string \<times> pyobj) list res" where
  "bridge_ownership inventory node_name node =
     (if nd_kind node \<noteq> BridgeKind then Inr []
      else res_bind (observed_record inventory (nd_namespace node) (nd_bridge_name node)) (\<lambda>observed.
        Inr [(ownership_key node_name (case nd_bridge_name node of None \<Rightarrow> ''None'' | Some b \<Rightarrow> b),
          pdict [(''name'', pstr_opt (nd_bridge_name node)), (''kind'', PStr ''bridge''),
            (''namespace'', PStr (nd_namespace node)), (''ifindex'', ifindex_value observed)])]))"

definition device_ownership ::
    "live_inventory option \<Rightarrow> string \<Rightarrow> node_plan \<Rightarrow> device_plan \<Rightarrow> (string \<times> pyobj) res" where
  "device_ownership inventory node_name node device =
     res_bind (observed_record inventory (nd_namespace node) (Some (device_name device))) (\<lambda>observed.
     Inr (ownership_key node_name (device_name device),
       pdict ([(''name'', PStr (device_name device)), (''namespace'', PStr (nd_namespace node)),
         (''ifindex'', ifindex_value observed)] @ device_identity device)))"

definition endpoint_ownership ::
    "live_inventory option \<Rightarrow> string \<Rightarrow> endpoint_plan \<Rightarrow> (string \<times> pyobj) res" where
  "endpoint_ownership inventory node_name endpoint =
     res_bind (observed_record inventory (ep_namespace endpoint) (Some (ep_interface endpoint))) (\<lambda>observed.
     Inr (ownership_key node_name (ep_interface endpoint),
       pdict [(''name'', PStr (ep_interface endpoint)), (''kind'', PStr ''veth''),
         (''namespace'', PStr (ep_namespace endpoint)), (''ifindex'', ifindex_value observed),
         (''temporary_name'', PStr (ep_temporary_name endpoint)), (''link_id'', link_id_value observed)]))"

definition node_endpoints :: "topology_plan \<Rightarrow> string \<Rightarrow> endpoint_plan list" where
  "node_endpoints plan node_name =
     filter (\<lambda>e. ep_node e = node_name) (concat (map link_endpoints (tpl_links plan)))"

definition node_ownership ::
    "topology_plan \<Rightarrow> live_inventory option \<Rightarrow> string \<times> node_plan \<Rightarrow> (string \<times> pyobj) list res" where
  "node_ownership plan inventory entry = (case entry of (node_name, node) \<Rightarrow>
     res_bind (bridge_ownership inventory node_name node) (\<lambda>bridge.
     res_bind (res_map (device_ownership inventory node_name node) (dict_values (nd_devices node))) (\<lambda>devices.
     res_bind (res_map (endpoint_ownership inventory node_name) (node_endpoints plan node_name)) (\<lambda>endpoints.
     Inr (bridge @ devices @ endpoints)))))"

definition interface_ownership :: "topology_plan \<Rightarrow> live_inventory option \<Rightarrow> (string, pyobj) dict res" where
  "interface_ownership plan inventory =
     res_bind (res_map (node_ownership plan inventory) (tpl_nodes plan)) (\<lambda>nodes.
     Inr (dict_of (concat nodes)))"

definition snapshot_for_plan ::
    "ext \<Rightarrow> topology_plan \<Rightarrow> manifest \<Rightarrow> string \<Rightarrow> string \<Rightarrow> live_inventory option \<Rightarrow> state_snapshot res" where
  "snapshot_for_plan x plan m created_at status inventory =
     res_bind (normalized_manifest x m) (\<lambda>document.
     res_bind (interface_ownership plan inventory) (\<lambda>interfaces.
     res_bind (validate_object document ''manifest'') (\<lambda>items.
     make_snapshot 1 (tpl_name plan) (tpl_fingerprint plan) items (planned_namespaces plan)
       interfaces created_at status)))"

definition plan_from_snapshot :: "ext \<Rightarrow> state_snapshot \<Rightarrow> topology_plan res" where
  "plan_from_snapshot x s = res_bind (validate_snapshot x s) (\<lambda>v. Inr (sv_plan v))"

section \<open>Routing\<close>

definition has_routing :: "topology_plan \<Rightarrow> bool" where
  "has_routing plan \<longleftrightarrow> list_ex (\<lambda>node. nd_routing node \<noteq> None) (plan_nodes plan)"

definition routing_unsupported :: "topology_plan \<Rightarrow> exc" where
  "routing_unsupported plan = NslabError ''ROUTING_UNSUPPORTED''
     (''network backend does not support dynamic routing: '' @ tpl_name plan)
     [(''name'', PStr (tpl_name plan))]"

definition start_routing :: "'w services \<Rightarrow> topology_plan \<Rightarrow> ('w, unit) io" where
  "start_routing sv plan = (if \<not> has_routing plan then io_return ()
     else (case sv_start_routing sv of
         None \<Rightarrow> io_raise (routing_unsupported plan) | Some call \<Rightarrow> call plan))"

definition stop_routing :: "'w services \<Rightarrow> topology_plan \<Rightarrow> ('w, unit) io" where
  "stop_routing sv plan = (if \<not> has_routing plan then io_return ()
     else (case sv_stop_routing sv of
         None \<Rightarrow> io_raise (routing_unsupported plan) | Some call \<Rightarrow> call plan))"

definition routing_ready :: "'w services \<Rightarrow> topology_plan \<Rightarrow> ('w, bool) io" where
  "routing_ready sv plan = (if \<not> has_routing plan then io_return True
     else (case sv_routing_ready sv of
         None \<Rightarrow> io_raise (routing_unsupported plan) | Some call \<Rightarrow> call plan))"

section \<open>Reconciliation\<close>

definition snapshot_diagnostics :: "state_snapshot option \<Rightarrow> pyobj" where
  "snapshot_diagnostics s = (case s of None \<Rightarrow> PNone | Some s \<Rightarrow> pdict [
     (''name'', PStr (ss_name s)), (''fingerprint'', PStr (ss_fingerprint s)),
     (''status'', PStr (ss_status s))])"

definition inventory_diagnostics :: "ext \<Rightarrow> topology_plan \<Rightarrow> live_inventory \<Rightarrow> (string, pyobj) dict" where
  "inventory_diagnostics x plan inventory = (case inventory_matches_plan x plan inventory of
      Inl e \<Rightarrow> [(''inventory_error'', error_payload x e)]
    | Inr matching \<Rightarrow> [(''inventory'', pdict [
        (''absent'', PBool (inventory_is_absent plan inventory)), (''matches'', PBool matching)])])"

definition reconcile :: "ext \<Rightarrow> 'w services \<Rightarrow> topology_plan \<Rightarrow> ('w, reconciliation) io" where
  "reconcile x sv plan =
     io_bind (io_attempt (sv_load sv (tpl_name plan))) (\<lambda>loaded.
     io_bind (io_attempt (sv_inventory sv plan)) (\<lambda>observed.
     io_return \<lparr>
       rc_snapshot = (case loaded of Inl e \<Rightarrow> None | Inr s \<Rightarrow> s),
       rc_inventory = (case observed of Inl e \<Rightarrow> None | Inr i \<Rightarrow> Some i),
       rc_diagnostics =
         (case loaded of
            Inl e \<Rightarrow> [(''state_error'', error_payload x e)]
          | Inr s \<Rightarrow> [(''state'', snapshot_diagnostics s)]) @
         (case observed of
            Inl e \<Rightarrow> [(''inventory_error'', error_payload x e)]
          | Inr i \<Rightarrow> inventory_diagnostics x plan i)\<rparr>))"

text \<open>Neither \<open>state_error\<close> nor \<open>inventory_error\<close> among the diagnostics.\<close>

definition conclusive :: "reconciliation \<Rightarrow> bool" where
  "conclusive rc \<longleftrightarrow> ''state_error'' \<notin> set (dict_keys (rc_diagnostics rc)) \<and>
     ''inventory_error'' \<notin> set (dict_keys (rc_diagnostics rc))"

definition delete_gate_for ::
    "ext \<Rightarrow> 'w services \<Rightarrow> topology_plan \<Rightarrow> state_snapshot \<Rightarrow> ('w, delete_gate) io" where
  "delete_gate_for x sv plan expected =
     io_bind (reconcile x sv plan) (\<lambda>rc. io_return \<lparr>
       dg_reconciliation = rc,
       dg_conclusive = conclusive rc,
       dg_live_absent = (case rc_inventory rc of None \<Rightarrow> False | Some i \<Rightarrow> inventory_is_absent plan i),
       dg_expected_snapshot = (case rc_snapshot rc of None \<Rightarrow> False | Some s \<Rightarrow> snapshot_eq s expected)\<rparr>)"

definition diagnostics_of :: "delete_gate \<Rightarrow> pyobj" where
  "diagnostics_of gate = pdict (rc_diagnostics (dg_reconciliation gate))"

definition attach_reconciliation :: "ext \<Rightarrow> 'w services \<Rightarrow> topology_plan \<Rightarrow> exc \<Rightarrow> ('w, exc) io" where
  "attach_reconciliation x sv plan e =
     io_bind (reconcile x sv plan) (\<lambda>rc.
     io_return (attach e ''reconciliation'' (pdict (rc_diagnostics rc))))"

definition save_initial_transition ::
    "ext \<Rightarrow> 'w services \<Rightarrow> state_snapshot \<Rightarrow> topology_plan \<Rightarrow> ('w, unit) io" where
  "save_initial_transition x sv s plan =
     io_bind (io_attempt (sv_save sv s)) (\<lambda>r. case r of
        Inr _ \<Rightarrow> io_return ()
      | Inl e \<Rightarrow> if requires_reconciliation e
          then io_bind (attach_reconciliation x sv plan e) io_raise
          else io_raise e)"

definition raise_delete_retry_interrupt ::
    "ext \<Rightarrow> 'w services \<Rightarrow> exc \<Rightarrow> exc \<Rightarrow> exc \<Rightarrow> delete_gate \<Rightarrow> topology_plan \<Rightarrow> state_snapshot \<Rightarrow> ('w, 'a) io" where
  "raise_delete_retry_interrupt x sv interrupt previous_operation previous_state_error previous_gate
     plan expected =
     io_bind (delete_gate_for x sv plan expected) (\<lambda>retry_gate.
     io_raise (attach (attach (attach (attach interrupt
       ''reconciliation'' (diagnostics_of retry_gate))
       ''previous_operation_error'' (error_payload x previous_operation))
       ''previous_state_delete_error'' (error_payload x previous_state_error))
       ''previous_state_delete_reconciliation'' (diagnostics_of previous_gate)))"

section \<open>Rollback\<close>

definition interruption_label :: "exc \<Rightarrow> string" where
  "interruption_label e = (if is_interrupt e then ''interrupted'' else ''failed'')"

definition routing_entry :: "string \<Rightarrow> pyobj" where
  "routing_entry result = pdict [(''routing'', PStr result)]"

definition routing_failure :: "ext \<Rightarrow> string \<Rightarrow> exc \<Rightarrow> pyobj" where
  "routing_failure x result e = pdict [(''routing'', PStr result), (''error'', error_payload x e)]"

definition namespace_entry :: "string \<Rightarrow> string \<Rightarrow> pyobj" where
  "namespace_entry namespace result =
     pdict [(''namespace'', PStr namespace), (''result'', PStr result)]"

definition namespace_failure :: "ext \<Rightarrow> string \<Rightarrow> string \<Rightarrow> exc \<Rightarrow> pyobj" where
  "namespace_failure x namespace result e = pdict [(''namespace'', PStr namespace),
     (''result'', PStr result), (''error'', error_payload x e)]"

definition resource_missing :: "exc \<Rightarrow> bool" where
  "resource_missing e \<longleftrightarrow> is_nslab_error e \<and> code_of e = ''RESOURCE_MISSING''"

text \<open>Both stages of the clean-up return the entries they report and whether one of them failed.\<close>

definition rollback_routing :: "ext \<Rightarrow> 'w services \<Rightarrow> topology_plan \<Rightarrow> ('w, pyobj list \<times> bool) io" where
  "rollback_routing x sv plan =
     (if \<not> has_routing plan then io_return ([], False)
      else io_bind (io_attempt (stop_routing sv plan)) (\<lambda>r. io_return (case r of
          Inr _ \<Rightarrow> ([routing_entry ''stopped''], False)
        | Inl e \<Rightarrow> ([routing_failure x (interruption_label e) e], True))))"

definition rollback_namespace ::
    "ext \<Rightarrow> 'w services \<Rightarrow> string \<Rightarrow> pyobj list \<times> bool \<Rightarrow> ('w, pyobj list \<times> bool) io" where
  "rollback_namespace x sv namespace progress = (case progress of (results, failed) \<Rightarrow>
     io_bind (io_attempt (sv_delete_namespace sv namespace)) (\<lambda>r. io_return (case r of
        Inr _ \<Rightarrow> (results @ [namespace_entry namespace ''deleted''], failed)
      | Inl e \<Rightarrow> if resource_missing e
          then (results @ [namespace_entry namespace ''absent''], failed)
          else (results @ [namespace_failure x namespace ''failed'' e], True))))"

definition reconcile_rollback_state_delete ::
    "ext \<Rightarrow> 'w services \<Rightarrow> exc \<Rightarrow> exc \<Rightarrow> topology_plan \<Rightarrow> state_snapshot \<Rightarrow> ('w, bool \<times> exc) io" where
  "reconcile_rollback_state_delete x sv original delete_error plan deploying =
     (let original = attach original ''rollback_state'' (error_payload x delete_error) in
      if \<not> requires_reconciliation delete_error then io_return (False, original)
      else io_bind (delete_gate_for x sv plan deploying) (\<lambda>gate.
        let original = attach original ''rollback_state_reconciliation'' (diagnostics_of gate) in
        if is_raw_interrupt delete_error \<or> \<not> retry_safe gate then io_return (False, original)
        else io_bind (io_attempt (sv_delete sv (tpl_name plan))) (\<lambda>r. case r of
            Inr _ \<Rightarrow> io_return (True, original)
          | Inl retry_error \<Rightarrow>
              if is_raw_interrupt retry_error
              then raise_delete_retry_interrupt x sv retry_error original delete_error gate plan deploying
              else let original = attach original ''rollback_state_delete_retry''
                     (error_payload x retry_error) in
                if \<not> requires_reconciliation retry_error then io_return (False, original)
                else io_bind (delete_gate_for x sv plan deploying) (\<lambda>retry_gate.
                  io_return (False, attach original ''rollback_state_delete_retry_reconciliation''
                    (diagnostics_of retry_gate))))))"

definition retained_state :: "state_snapshot \<Rightarrow> pyobj" where
  "retained_state current = pdict [(''result'', PStr ''retained''),
     (''status'', PStr (ss_status current)), (''fingerprint'', PStr (ss_fingerprint current))]"

text \<open>Whether the deploying snapshot is gone, with the annotated original exception.\<close>

definition remove_rollback_state ::
    "ext \<Rightarrow> 'w services \<Rightarrow> exc \<Rightarrow> topology_plan \<Rightarrow> state_snapshot \<Rightarrow> ('w, bool \<times> exc) io" where
  "remove_rollback_state x sv original plan deploying =
     io_bind (io_attempt (sv_load sv (tpl_name plan))) (\<lambda>r. case r of
        Inl e \<Rightarrow> io_return (False, attach original ''rollback_state'' (error_payload x e))
      | Inr None \<Rightarrow> io_return (True, original)
      | Inr (Some current) \<Rightarrow>
          if \<not> snapshot_eq current deploying
          then io_return (False, attach original ''rollback_state'' (retained_state current))
          else io_bind (io_attempt (sv_delete sv (tpl_name plan))) (\<lambda>r. case r of
              Inr _ \<Rightarrow> io_return (True, original)
            | Inl e \<Rightarrow> reconcile_rollback_state_delete x sv original e plan deploying))"

definition rollback_and_attach ::
    "ext \<Rightarrow> 'w services \<Rightarrow> exc \<Rightarrow> topology_plan \<Rightarrow> string list \<Rightarrow> state_snapshot \<Rightarrow> ('w, exc) io" where
  "rollback_and_attach x sv error plan created_namespaces deploying =
     io_bind (rollback_routing x sv plan) (\<lambda>progress.
     io_bind (io_fold (rollback_namespace x sv) (rev created_namespaces) progress) (\<lambda>(results, failed).
     io_bind (io_attempt (sv_inventory sv plan)) (\<lambda>observed.
     let error = (case observed of
           Inl e \<Rightarrow> attach error ''rollback_inventory'' (error_payload x e) | Inr _ \<Rightarrow> error);
         failed = (failed \<or> isl observed);
         absent = (case observed of Inl _ \<Rightarrow> False | Inr i \<Rightarrow> inventory_is_absent plan i) in
     io_bind (if \<not> failed \<and> absent then remove_rollback_state x sv error plan deploying
         else io_return (\<not> failed, error)) (\<lambda>(removed, error).
     io_return (attach (attach error ''rollback'' (PList results))
       ''rollback_complete'' (PBool (absent \<and> removed)))))))"

section \<open>Deploy\<close>

definition deploy_result :: "topology_plan \<Rightarrow> bool \<Rightarrow> string \<Rightarrow> lifecycle_result" where
  "deploy_result plan changed message = \<lparr>
     lr_action = ''deploy'',
     lr_name = tpl_name plan,
     lr_changed = changed,
     lr_status = ''deployed'',
     lr_message = message @ tpl_name plan\<rparr>"

text \<open>\<open>a and b\<close> where \<open>b\<close> is a call: it runs only where \<open>a\<close> holds.\<close>

definition and_then :: "bool \<Rightarrow> ('w, bool) io \<Rightarrow> ('w, bool) io" where
  "and_then a b = (if a then b else io_return False)"

text \<open>A deployment that exists already: nothing changes, whatever the outcome.\<close>

definition deploy_existing ::
    "ext \<Rightarrow> 'w services \<Rightarrow> topology_plan \<Rightarrow> state_snapshot \<Rightarrow> ('w, lifecycle_result) io" where
  "deploy_existing x sv plan current =
     io_seq (io_lift (require_snapshot_identity current (tpl_name plan)))
    (io_seq (io_lift (require_stable_snapshot current))
     (if ss_fingerprint current \<noteq> tpl_fingerprint plan
      then io_raise (deployment_conflict plan current)
      else io_bind (io_lift (plan_from_snapshot x current)) (\<lambda>_.
        io_bind (sv_inventory sv plan) (\<lambda>inventory.
        io_bind (io_lift (inventory_matches_plan x plan inventory)) (\<lambda>matching.
        io_bind (and_then (matching \<and>
            recorded_link_ids_match_inventory plan inventory (ss_interfaces current))
          (routing_ready sv plan)) (\<lambda>unchanged.
        if unchanged then io_return (deploy_result plan False ''topology already deployed: '')
        else io_raise (deployment_drift plan)))))))"

text \<open>
  The loop that creates the namespaces: its outcome with the namespaces it has created, which the
  rollback needs when it is cut short.
\<close>

fun create_namespaces ::
    "'w services \<Rightarrow> node_plan list \<Rightarrow> string list \<Rightarrow> ('w, string list \<times> unit res) io" where
  "create_namespaces sv [] created = io_return (created, Inr ())"
| "create_namespaces sv (node # nodes) created =
     io_bind (io_attempt (sv_create_namespace sv node)) (\<lambda>r. case r of
        Inl e \<Rightarrow> io_return (created, Inl e)
      | Inr _ \<Rightarrow> create_namespaces sv nodes (created @ [nd_namespace node]))"

definition build_topology :: "'w services \<Rightarrow> topology_plan \<Rightarrow> ('w, unit) io" where
  "build_topology sv plan =
     io_seq (io_for (\<lambda>node. if nd_kind node = BridgeKind then sv_create_bridge sv node else io_return ())
       (plan_nodes plan))
    (io_seq (io_for (sv_create_veth sv) (tpl_links plan))
    (io_seq (io_for (\<lambda>node. sv_configure_node sv node plan) (plan_nodes plan))
     (start_routing sv plan)))"

definition verify_topology :: "ext \<Rightarrow> 'w services \<Rightarrow> topology_plan \<Rightarrow> ('w, live_inventory) io" where
  "verify_topology x sv plan =
     io_bind (sv_inventory sv plan) (\<lambda>inventory.
     io_bind (io_lift (inventory_matches_plan x plan inventory)) (\<lambda>matching.
     io_bind (and_then matching (routing_ready sv plan)) (\<lambda>ready.
     if ready then io_return inventory else io_raise (verification_failed plan))))"

text \<open>The body of the \<open>try\<close>: the namespaces created and the verified inventory or the exception.\<close>

definition deploy_attempt ::
    "ext \<Rightarrow> 'w services \<Rightarrow> topology_plan \<Rightarrow> ('w, string list \<times> live_inventory res) io" where
  "deploy_attempt x sv plan =
     io_bind (create_namespaces sv (plan_nodes plan) []) (\<lambda>(created, r). case r of
        Inl e \<Rightarrow> io_return (created, Inl e)
      | Inr _ \<Rightarrow> io_bind (io_attempt (io_seq (build_topology sv plan) (verify_topology x sv plan)))
          (\<lambda>r. io_return (created, r)))"

definition final_save_outcome_known :: "topology_plan \<Rightarrow> reconciliation \<Rightarrow> bool" where
  "final_save_outcome_known plan rc \<longleftrightarrow> conclusive rc \<and> (case rc_snapshot rc of
      None \<Rightarrow> True
    | Some s \<Rightarrow> \<not> (ss_name s = tpl_name plan \<and> ss_fingerprint s = tpl_fingerprint plan \<and>
        ss_status s = ''deployed''))"

text \<open>
  A failed save of the final snapshot: the topology stays where the reconciliation is inconclusive or
  finds the deployed snapshot after all, and is rolled back otherwise.
\<close>

definition handle_final_deploy_save_failure ::
    "ext \<Rightarrow> 'w services \<Rightarrow> exc \<Rightarrow> topology_plan \<Rightarrow> string list \<Rightarrow> state_snapshot \<Rightarrow> ('w, exc) io" where
  "handle_final_deploy_save_failure x sv error plan created_namespaces deploying =
     (if requires_reconciliation error
      then io_bind (reconcile x sv plan) (\<lambda>rc.
        let error = attach error ''reconciliation'' (pdict (rc_diagnostics rc)) in
        if final_save_outcome_known plan rc
        then rollback_and_attach x sv error plan created_namespaces deploying
        else io_return error)
      else rollback_and_attach x sv error plan created_namespaces deploying)"

text \<open>What follows the \<open>try\<close>: the rollback, or the deployed snapshot.\<close>

definition finish_deploy ::
    "ext \<Rightarrow> 'w services \<Rightarrow> topology_plan \<Rightarrow> manifest \<Rightarrow> string \<Rightarrow> state_snapshot \<Rightarrow>
     string list \<times> live_inventory res \<Rightarrow> ('w, lifecycle_result) io" where
  "finish_deploy x sv plan m created_at deploying attempt = (case attempt of (created, outcome) \<Rightarrow>
     (case outcome of
        Inl e \<Rightarrow> io_bind (rollback_and_attach x sv e plan created deploying) io_raise
      | Inr inventory \<Rightarrow>
          io_bind (io_lift (snapshot_for_plan x plan m created_at ''deployed'' (Some inventory))) (\<lambda>deployed.
          io_bind (io_attempt (sv_save sv deployed)) (\<lambda>saved. case saved of
              Inl e \<Rightarrow> io_bind (handle_final_deploy_save_failure x sv e plan created deploying) io_raise
            | Inr _ \<Rightarrow> io_return (deploy_result plan True ''deployed topology: '')))))"

definition deploy_fresh :: "ext \<Rightarrow> 'w services \<Rightarrow> topology_plan \<Rightarrow> manifest \<Rightarrow> ('w, lifecycle_result) io" where
  "deploy_fresh x sv plan m =
     io_bind (sv_inventory sv plan) (\<lambda>preflight.
     if \<not> inventory_is_absent plan preflight then io_raise (ownership_unknown (tpl_name plan))
     else io_bind (sv_timestamp sv) (\<lambda>created_at.
     io_bind (io_lift (snapshot_for_plan x plan m created_at ''deploying'' None)) (\<lambda>deploying.
     io_seq (save_initial_transition x sv deploying plan)
    (io_bind (deploy_attempt x sv plan) (finish_deploy x sv plan m created_at deploying)))))"

definition deploy_locked ::
    "ext \<Rightarrow> 'w services \<Rightarrow> topology_plan \<Rightarrow> manifest \<Rightarrow> bool \<Rightarrow> ('w, lifecycle_result) io" where
  "deploy_locked x sv plan m validated =
     io_seq (if validated then io_return () else io_lift (validate_plan_manifest x plan m))
    (io_bind (sv_load sv (tpl_name plan)) (\<lambda>current. case current of
        Some s \<Rightarrow> deploy_existing x sv plan s
      | None \<Rightarrow> deploy_fresh x sv plan m))"

section \<open>Destroy\<close>

text \<open>The entries reported so far and the error that will be raised in the end.\<close>

type_synonym cleanup = "pyobj list \<times> exc option"

definition destroy_routing :: "ext \<Rightarrow> 'w services \<Rightarrow> topology_plan \<Rightarrow> ('w, cleanup) io" where
  "destroy_routing x sv plan =
     (if \<not> has_routing plan then io_return ([], None)
      else io_bind (io_attempt (stop_routing sv plan)) (\<lambda>r. io_return (case r of
          Inr _ \<Rightarrow> ([routing_entry ''stopped''], None)
        | Inl e \<Rightarrow> ([routing_failure x (if is_raw_interrupt e then ''interrupted'' else ''failed'') e],
            Some e))))"

text \<open>An interrupt ends the loop and takes the place of an earlier error.\<close>

fun destroy_namespaces :: "ext \<Rightarrow> 'w services \<Rightarrow> string list \<Rightarrow> cleanup \<Rightarrow> ('w, cleanup) io" where
  "destroy_namespaces x sv [] progress = io_return progress"
| "destroy_namespaces x sv (namespace # namespaces) (entries, first_error) =
     io_bind (io_attempt (sv_delete_namespace sv namespace)) (\<lambda>r. case r of
        Inr _ \<Rightarrow> destroy_namespaces x sv namespaces
          (entries @ [namespace_entry namespace ''deleted''], first_error)
      | Inl e \<Rightarrow>
          if is_raw_interrupt e
          then io_return (entries @ [namespace_failure x namespace ''interrupted'' e], Some e)
          else if resource_missing e
          then destroy_namespaces x sv namespaces
            (entries @ [namespace_entry namespace ''absent''], first_error)
          else destroy_namespaces x sv namespaces
            (entries @ [namespace_failure x namespace ''failed'' e],
             Some (case first_error of None \<Rightarrow> e | Some f \<Rightarrow> f)))"

definition handle_final_delete_failure ::
    "ext \<Rightarrow> 'w services \<Rightarrow> exc \<Rightarrow> topology_plan \<Rightarrow> state_snapshot \<Rightarrow> ('w, unit) io" where
  "handle_final_delete_failure x sv error plan destroying =
     (if \<not> requires_reconciliation error then io_raise error
      else io_bind (delete_gate_for x sv plan destroying) (\<lambda>gate.
        let error = attach error ''reconciliation'' (diagnostics_of gate) in
        if is_raw_interrupt error \<or> \<not> retry_safe gate then io_raise error
        else io_bind (io_attempt (sv_delete sv (tpl_name plan))) (\<lambda>r. case r of
            Inr _ \<Rightarrow> io_return ()
          | Inl retry_error \<Rightarrow>
              if is_raw_interrupt retry_error
              then raise_delete_retry_interrupt x sv retry_error error error gate plan destroying
              else let error = attach error ''state_delete_retry'' (error_payload x retry_error) in
                if \<not> requires_reconciliation retry_error then io_raise error
                else io_bind (delete_gate_for x sv plan destroying) (\<lambda>retry_gate.
                  io_raise (attach error ''state_delete_retry_reconciliation''
                    (diagnostics_of retry_gate))))))"

definition delete_final_state ::
    "ext \<Rightarrow> 'w services \<Rightarrow> topology_plan \<Rightarrow> state_snapshot \<Rightarrow> ('w, unit) io" where
  "delete_final_state x sv plan destroying =
     io_bind (io_attempt (sv_delete sv (tpl_name plan))) (\<lambda>r. case r of
        Inr _ \<Rightarrow> io_return ()
      | Inl e \<Rightarrow> handle_final_delete_failure x sv e plan destroying)"

definition destroy_result :: "string \<Rightarrow> bool \<Rightarrow> string \<Rightarrow> lifecycle_result" where
  "destroy_result name changed message = \<lparr>
     lr_action = ''destroy'',
     lr_name = name,
     lr_changed = changed,
     lr_status = ''absent'',
     lr_message = message @ name\<rparr>"

definition destroy_absent ::
    "ext \<Rightarrow> 'w services \<Rightarrow> topology_plan option \<Rightarrow> string \<Rightarrow> ('w, lifecycle_result) io" where
  "destroy_absent x sv plan name = (case plan of
      None \<Rightarrow> io_raise (ownership_unknown name)
    | Some plan \<Rightarrow> io_bind (sv_inventory sv plan) (\<lambda>inventory.
        if \<not> inventory_is_absent plan inventory then io_raise (ownership_unknown name)
        else io_seq (stop_routing sv plan)
          (io_return (destroy_result name False ''topology already absent: ''))))"

text \<open>The clean-up of a recorded deployment: what it reports and the error it met, if any.\<close>

definition destroy_resources ::
    "ext \<Rightarrow> 'w services \<Rightarrow> topology_plan \<Rightarrow> string \<Rightarrow> ('w, cleanup) io" where
  "destroy_resources x sv plan name =
     io_bind (destroy_routing x sv plan) (\<lambda>progress.
     io_bind (destroy_namespaces x sv (rev (map nd_namespace (plan_nodes plan))) progress)
       (\<lambda>(entries, first_error).
     io_bind (io_attempt (sv_inventory sv plan)) (\<lambda>observed.
     io_return (entries, case observed of
        Inl e \<Rightarrow> Some (case first_error of None \<Rightarrow> e | Some f \<Rightarrow> f)
      | Inr i \<Rightarrow> (case first_error of
          Some f \<Rightarrow> Some f
        | None \<Rightarrow> if inventory_is_absent plan i then None else Some (destroy_incomplete name))))))"

definition destroy_present ::
    "ext \<Rightarrow> 'w services \<Rightarrow> string \<Rightarrow> state_snapshot \<Rightarrow> ('w, lifecycle_result) io" where
  "destroy_present x sv name current =
     io_seq (io_lift (require_snapshot_identity current name))
    (io_seq (io_lift (require_stable_snapshot current))
    (io_bind (io_lift (plan_from_snapshot x current)) (\<lambda>plan.
     let destroying = current\<lparr>ss_status := ''destroying''\<rparr> in
     io_seq (save_initial_transition x sv destroying plan)
    (io_bind (destroy_resources x sv plan name) (\<lambda>(entries, first_error). case first_error of
        Some e \<Rightarrow> io_raise (attach e ''cleanup'' (PList entries))
      | None \<Rightarrow> io_seq (delete_final_state x sv plan destroying)
          (io_return (destroy_result name True ''destroyed topology: '')))))))"

definition destroy_locked ::
    "ext \<Rightarrow> 'w services \<Rightarrow> topology_plan option \<Rightarrow> string \<Rightarrow> ('w, lifecycle_result) io" where
  "destroy_locked x sv plan name =
     io_seq (case plan of
        None \<Rightarrow> io_return ()
      | Some p \<Rightarrow> if tpl_name p \<noteq> name then io_raise (plan_name_mismatch name (tpl_name p)) else io_return ())
    (io_bind (sv_load sv name) (\<lambda>current. case current of
        None \<Rightarrow> destroy_absent x sv plan name
      | Some s \<Rightarrow> destroy_present x sv name s))"

section \<open>The service\<close>

text \<open>
  \<open>with self.lock_factory(name): body\<close>: the lock is released whatever the body does, and an exception
  of the release takes the place of the body's outcome.
\<close>

definition with_lock :: "'w services \<Rightarrow> string \<Rightarrow> ('w, 'a) io \<Rightarrow> ('w, 'a) io" where
  "with_lock sv name body =
     io_seq (sv_acquire sv name)
    (io_bind (io_attempt body) (\<lambda>r.
     io_seq (sv_release sv name (isl r)) (io_lift r)))"

definition deploy :: "ext \<Rightarrow> 'w services \<Rightarrow> topology_plan \<Rightarrow> manifest \<Rightarrow> ('w, lifecycle_result) io" where
  "deploy x sv plan m = with_lock sv (tpl_name plan) (deploy_locked x sv plan m False)"

definition destroy ::
    "ext \<Rightarrow> 'w services \<Rightarrow> topology_plan option \<Rightarrow> string \<Rightarrow> ('w, lifecycle_result) io" where
  "destroy x sv plan name = with_lock sv name (destroy_locked x sv plan name)"

definition redeploy_locked ::
    "ext \<Rightarrow> 'w services \<Rightarrow> topology_plan \<Rightarrow> manifest \<Rightarrow> ('w, lifecycle_result) io" where
  "redeploy_locked x sv plan m =
     io_seq (io_lift (validate_plan_manifest x plan m))
     (io_bind (destroy_locked x sv (Some plan) (tpl_name plan)) (\<lambda>destroyed.
      io_bind (deploy_locked x sv plan m True) (\<lambda>deployed.
      io_return \<lparr>
        lr_action = ''redeploy'',
        lr_name = tpl_name plan,
        lr_changed = lr_changed destroyed \<or> lr_changed deployed,
        lr_status = lr_status deployed,
        lr_message = ''redeployed topology: '' @ tpl_name plan\<rparr>)))"

definition redeploy :: "ext \<Rightarrow> 'w services \<Rightarrow> topology_plan \<Rightarrow> manifest \<Rightarrow> ('w, lifecycle_result) io" where
  "redeploy x sv plan m = with_lock sv (tpl_name plan) (redeploy_locked x sv plan m)"

end
