(* ===== verification/Interfaces.thy ===== *)
theory Interfaces
  imports Lifecycle
begin

text \<open>
  What the lifecycle relies on: a network backend over a world of namespaces and a host over a world
  of state files, put together as the services of \<open>LifecycleService\<close>. Each side is a record of its
  operations and a locale with the laws it promises; the lifecycle is verified from the laws alone.
\<close>

section \<open>Frame rules\<close>

lemma io_keeps_modify: "(\<And>w. P w \<Longrightarrow> P (f w)) \<Longrightarrow> io_keeps P (io_modify f)"
  by (simp add: io_keeps_def)

lemma io_keeps_bind_get: "(\<And>w. P w \<Longrightarrow> P (snd (g (f w) w))) \<Longrightarrow> io_keeps P (io_bind (io_get f) g)"
  by (simp add: io_keeps_def io_bind_def)

lemma io_keeps_if: "(b \<Longrightarrow> io_keeps P m) \<Longrightarrow> (\<not> b \<Longrightarrow> io_keeps P n) \<Longrightarrow> io_keeps P (if b then m else n)"
  by simp

lemma io_keeps_bind_lift:
  "(\<And>y. r = Inr y \<Longrightarrow> io_keeps P (f y)) \<Longrightarrow> io_keeps P (io_bind (io_lift r) f)"
  by (cases r) (simp_all add: io_keeps_def io_bind_def)

lemma io_keeps_seq_lift:
  "(r = Inr () \<Longrightarrow> io_keeps P m) \<Longrightarrow> io_keeps P (io_seq (io_lift r) m)"
  unfolding io_seq_def by (rule io_keeps_bind_lift) simp

lemma io_wp_any: "io_wp m (\<lambda>_ _. True) (\<lambda>_ _. True) w"
  by (simp add: io_wp_def split: prod.split sum.split)

section \<open>The two sides of the services\<close>

text \<open>The \<open>NetworkBackend\<close> protocol; the routing methods may be missing.\<close>

record 'n backend =
  be_create_namespace :: "node_plan \<Rightarrow> ('n, unit) io"
  be_delete_namespace :: "string \<Rightarrow> ('n, unit) io"
  be_create_bridge :: "node_plan \<Rightarrow> ('n, unit) io"
  be_create_veth :: "link_plan \<Rightarrow> ('n, unit) io"
  be_configure_node :: "node_plan \<Rightarrow> topology_plan \<Rightarrow> ('n, unit) io"
  be_start_routing :: "(topology_plan \<Rightarrow> ('n, unit) io) option"
  be_stop_routing :: "(topology_plan \<Rightarrow> ('n, unit) io) option"
  be_routing_ready :: "(topology_plan \<Rightarrow> ('n, bool) io) option"
  be_inventory :: "topology_plan \<Rightarrow> ('n, live_inventory) io"
  be_execute :: "string \<Rightarrow> string list \<Rightarrow> bool \<Rightarrow> ('n, exec_result) io"

text \<open>The state store, the lock factory and the clock.\<close>

record 'd host =
  ho_load :: "string \<Rightarrow> ('d, state_snapshot option) io"
  ho_save :: "state_snapshot \<Rightarrow> ('d, unit) io"
  ho_delete :: "string \<Rightarrow> ('d, unit) io"
  ho_acquire :: "string \<Rightarrow> ('d, unit) io"
  ho_release :: "string \<Rightarrow> bool \<Rightarrow> ('d, unit) io"
  ho_timestamp :: "('d, string) io"

definition on_net :: "('n, 'a) io \<Rightarrow> ('n \<times> 'd, 'a) io" where
  "on_net m w = (case m (fst w) of (r, n) \<Rightarrow> (r, (n, snd w)))"

definition on_host :: "('d, 'a) io \<Rightarrow> ('n \<times> 'd, 'a) io" where
  "on_host m w = (case m (snd w) of (r, d) \<Rightarrow> (r, (fst w, d)))"

definition services_of :: "'n backend \<Rightarrow> 'd host \<Rightarrow> ('n \<times> 'd) services" where
  "services_of be ho = \<lparr>
     sv_create_namespace = (\<lambda>node. on_net (be_create_namespace be node)),
     sv_delete_namespace = (\<lambda>namespace. on_net (be_delete_namespace be namespace)),
     sv_create_bridge = (\<lambda>node. on_net (be_create_bridge be node)),
     sv_create_veth = (\<lambda>link. on_net (be_create_veth be link)),
     sv_configure_node = (\<lambda>node plan. on_net (be_configure_node be node plan)),
     sv_start_routing = map_option (\<lambda>call plan. on_net (call plan)) (be_start_routing be),
     sv_stop_routing = map_option (\<lambda>call plan. on_net (call plan)) (be_stop_routing be),
     sv_routing_ready = map_option (\<lambda>call plan. on_net (call plan)) (be_routing_ready be),
     sv_inventory = (\<lambda>plan. on_net (be_inventory be plan)),
     sv_execute = (\<lambda>namespace argv capture. on_net (be_execute be namespace argv capture)),
     sv_load = (\<lambda>name. on_host (ho_load ho name)),
     sv_save = (\<lambda>s. on_host (ho_save ho s)),
     sv_delete = (\<lambda>name. on_host (ho_delete ho name)),
     sv_acquire = (\<lambda>name. on_host (ho_acquire ho name)),
     sv_release = (\<lambda>name raised. on_host (ho_release ho name raised)),
     sv_timestamp = on_host (ho_timestamp ho)\<rparr>"

lemma io_wp_on_net [wp_simps]:
  "io_wp (on_net m) Q E = (\<lambda>w. io_wp m (\<lambda>x n. Q x (n, snd w)) (\<lambda>e n. E e (n, snd w)) (fst w))"
  by (auto simp: io_wp_def on_net_def fun_eq_iff split: prod.split sum.split)

lemma io_wp_on_host [wp_simps]:
  "io_wp (on_host m) Q E = (\<lambda>w. io_wp m (\<lambda>x d. Q x (fst w, d)) (\<lambda>e d. E e (fst w, d)) (snd w))"
  by (auto simp: io_wp_def on_host_def fun_eq_iff split: prod.split sum.split)

lemma services_simps:
  "sv_create_namespace (services_of be ho) node = on_net (be_create_namespace be node)"
  "sv_delete_namespace (services_of be ho) namespace = on_net (be_delete_namespace be namespace)"
  "sv_create_bridge (services_of be ho) node = on_net (be_create_bridge be node)"
  "sv_create_veth (services_of be ho) link = on_net (be_create_veth be link)"
  "sv_configure_node (services_of be ho) node plan = on_net (be_configure_node be node plan)"
  "sv_start_routing (services_of be ho) = map_option (\<lambda>call plan. on_net (call plan)) (be_start_routing be)"
  "sv_stop_routing (services_of be ho) = map_option (\<lambda>call plan. on_net (call plan)) (be_stop_routing be)"
  "sv_routing_ready (services_of be ho) = map_option (\<lambda>call plan. on_net (call plan)) (be_routing_ready be)"
  "sv_inventory (services_of be ho) plan = on_net (be_inventory be plan)"
  "sv_execute (services_of be ho) namespace argv capture = on_net (be_execute be namespace argv capture)"
  "sv_load (services_of be ho) name = on_host (ho_load ho name)"
  "sv_save (services_of be ho) s = on_host (ho_save ho s)"
  "sv_delete (services_of be ho) name = on_host (ho_delete ho name)"
  "sv_acquire (services_of be ho) name = on_host (ho_acquire ho name)"
  "sv_release (services_of be ho) name raised = on_host (ho_release ho name raised)"
  "sv_timestamp (services_of be ho) = on_host (ho_timestamp ho)"
  by (simp_all add: services_of_def)

section \<open>The network backend\<close>

text \<open>
  \<open>view n ns\<close> is what there is of the namespace \<open>ns\<close> in the world \<open>n\<close>; \<open>sealed n N\<close> says that no veth
  pair has one end in a namespace of \<open>N\<close> and the other outside; \<open>observe n plan\<close> is the inventory a
  call would take now. \<open>outside\<close> is the frame of an operation on \<open>N\<close>, \<open>undisturbed\<close> the relation of a
  call that only looks.
\<close>

definition outside ::
    "('n \<Rightarrow> string \<Rightarrow> 'v option) \<Rightarrow> ('n \<Rightarrow> string set \<Rightarrow> bool) \<Rightarrow> string set \<Rightarrow> (string \<Rightarrow> 'v option) \<Rightarrow> 'n \<Rightarrow> bool" where
  "outside view sealed N v n \<longleftrightarrow> sealed n N \<and> (\<forall>ns. ns \<notin> N \<longrightarrow> view n ns = v ns)"

definition undisturbed ::
    "('n \<Rightarrow> string \<Rightarrow> 'v option) \<Rightarrow> ('n \<Rightarrow> string set \<Rightarrow> bool) \<Rightarrow> ('n \<Rightarrow> topology_plan \<Rightarrow> live_inventory) \<Rightarrow> 'n \<Rightarrow> 'n \<Rightarrow> bool" where
  "undisturbed view sealed observe n n' \<longleftrightarrow>
     view n' = view n \<and> sealed n' = sealed n \<and> observe n' = observe n"

lemma undisturbed_trans:
  "undisturbed view sealed observe w w' \<Longrightarrow> undisturbed view sealed observe w' w'' \<Longrightarrow>
   undisturbed view sealed observe w w''"
  by (simp add: undisturbed_def)

lemma undisturbed_refl [simp]: "undisturbed view sealed observe w w"
  by (simp add: undisturbed_def)

definition plan_namespaces :: "topology_plan \<Rightarrow> string set" where
  "plan_namespaces p = set (map nd_namespace (plan_nodes p))"

definition link_namespaces :: "link_plan \<Rightarrow> string set" where
  "link_namespaces l = {ep_namespace (lk_left l), ep_namespace (lk_right l)}"

locale network_backend =
  fixes x :: ext
    and be :: "'n backend"
    and view :: "'n \<Rightarrow> string \<Rightarrow> 'v option"
    and sealed :: "'n \<Rightarrow> string set \<Rightarrow> bool"
    and observe :: "'n \<Rightarrow> topology_plan \<Rightarrow> live_inventory"
  assumes create_namespace_frame:
      "nd_namespace node \<in> N \<Longrightarrow> io_keeps (outside view sealed N v) (be_create_namespace be node)"
    and delete_namespace_frame:
      "ns \<in> N \<Longrightarrow> io_keeps (outside view sealed N v) (be_delete_namespace be ns)"
    and create_bridge_frame:
      "nd_namespace node \<in> N \<Longrightarrow> io_keeps (outside view sealed N v) (be_create_bridge be node)"
    and create_veth_frame:
      "link_namespaces link \<subseteq> N \<Longrightarrow> io_keeps (outside view sealed N v) (be_create_veth be link)"
    and configure_node_frame:
      "nd_namespace node \<in> N \<Longrightarrow> io_keeps (outside view sealed N v) (be_configure_node be node plan)"
    and start_routing_frame:
      "be_start_routing be = Some start \<Longrightarrow> plan_namespaces plan \<subseteq> N \<Longrightarrow>
       io_keeps (outside view sealed N v) (start plan)"
    and stop_routing_quiet:
      "be_stop_routing be = Some stop \<Longrightarrow>
       io_wp (stop plan) (\<lambda>_. undisturbed view sealed observe n) (\<lambda>_. undisturbed view sealed observe n) n"
    and routing_ready_quiet:
      "be_routing_ready be = Some ready \<Longrightarrow>
       io_wp (ready plan) (\<lambda>_. undisturbed view sealed observe n) (\<lambda>_. undisturbed view sealed observe n) n"
    and inventory_answer:
      "io_wp (be_inventory be plan)
         (\<lambda>i n'. i = observe n plan \<and> undisturbed view sealed observe n n')
         (\<lambda>_. undisturbed view sealed observe n) n"
    and absent_view:
      "inventory_is_absent plan (observe n plan) \<Longrightarrow> ns \<in> plan_namespaces plan \<Longrightarrow> view n ns = None"
    and matching_view:
      "inventory_matches_plan x plan (observe n plan) = Inr True \<Longrightarrow> ns \<in> plan_namespaces plan \<Longrightarrow>
       view n ns \<noteq> None"

section \<open>The host\<close>

text \<open>
  \<open>entry d name\<close> is the content stored for a deployment and \<open>decode\<close> the snapshot \<open>load\<close> makes of it;
  \<open>encodes s c\<close> says that \<open>save\<close> may write \<open>c\<close> for \<open>s\<close>. An exception of \<open>save\<close> or \<open>delete\<close> leaves the
  entry as it was, unless it asks for a reconciliation; then either content is possible.
\<close>

locale state_store =
  fixes ho :: "'d host"
    and entry :: "'d \<Rightarrow> string \<Rightarrow> 'e option"
    and decode :: "'e \<Rightarrow> state_snapshot option"
    and encodes :: "state_snapshot \<Rightarrow> 'e \<Rightarrow> bool"
    and sound :: "'d \<Rightarrow> bool"
  assumes load_answer:
      "sound d \<Longrightarrow> io_wp (ho_load ho name)
         (\<lambda>r d'. sound d' \<and> entry d' = entry d \<and>
            (case r of None \<Rightarrow> entry d name = None | Some s \<Rightarrow> \<exists>c. entry d name = Some c \<and> decode c = Some s))
         (\<lambda>_ d'. sound d' \<and> entry d' = entry d) d"
    and save_effect:
      "sound d \<Longrightarrow> io_wp (ho_save ho s)
         (\<lambda>_ d'. sound d' \<and> (\<exists>c. encodes s c \<and> entry d' = (entry d)(ss_name s := Some c)))
         (\<lambda>e d'. sound d' \<and> (entry d' = entry d \<or>
            requires_reconciliation e \<and> (\<exists>c. encodes s c \<and> entry d' = (entry d)(ss_name s := Some c)))) d"
    and delete_effect:
      "sound d \<Longrightarrow> io_wp (ho_delete ho name)
         (\<lambda>_ d'. sound d' \<and> entry d' = (entry d)(name := None))
         (\<lambda>e d'. sound d' \<and> (entry d' = entry d \<or>
            requires_reconciliation e \<and> entry d' = (entry d)(name := None))) d"
    and acquire_quiet:
      "sound d \<Longrightarrow> io_wp (ho_acquire ho name) (\<lambda>_ d'. sound d' \<and> entry d' = entry d)
         (\<lambda>_ d'. sound d' \<and> entry d' = entry d) d"
    and release_quiet:
      "sound d \<Longrightarrow> io_wp (ho_release ho name raised) (\<lambda>_ d'. sound d' \<and> entry d' = entry d)
         (\<lambda>_ d'. sound d' \<and> entry d' = entry d) d"
    and timestamp_quiet:
      "sound d \<Longrightarrow> io_wp (ho_timestamp ho) (\<lambda>_ d'. sound d' \<and> entry d' = entry d)
         (\<lambda>_ d'. sound d' \<and> entry d' = entry d) d"
    and decode_encoded:
      "encodes s c \<Longrightarrow> built_snapshot s \<Longrightarrow> \<exists>s'. decode c = Some s' \<and> snapshot_eq s' s \<and>
         ss_name s' = ss_name s \<and> ss_status s' = ss_status s \<and> ss_fingerprint s' = ss_fingerprint s"
    and decoded_built: "decode c = Some s \<Longrightarrow> built_snapshot s"

end
