(* ===== verification/Confinement.thy ===== *)
theory Confinement
  imports Lifecycle
begin

text \<open>
  Which namespaces a deployment may touch: those of its nodes, by name. A compiled plan, a plan that
  passed \<open>_validate_plan_manifest\<close> and the plan of a stored snapshot stay within them.
\<close>

definition owned_namespaces :: "ext \<Rightarrow> string \<Rightarrow> string set" where
  "owned_namespaces x name = range (namespace_name (x_blake2s x) name)"

definition confined :: "ext \<Rightarrow> topology_plan \<Rightarrow> bool" where
  "confined x p \<longleftrightarrow>
     (\<forall>node \<in> set (plan_nodes p). nd_namespace node \<in> owned_namespaces x (tpl_name p)) \<and>
     (\<forall>link \<in> set (tpl_links p). ep_namespace (lk_left link) \<in> owned_namespaces x (tpl_name p) \<and>
        ep_namespace (lk_right link) \<in> owned_namespaces x (tpl_name p))"

lemma compile_node_namespace:
  "compile_node x deployment name node = Inr p \<Longrightarrow> nd_namespace p = namespace_name (x_blake2s x) deployment name"
  by (auto simp: compile_node_def compile_bridge_def Let_def res_bind_eq_Inr split: node_config.splits)

lemma compile_endpoint_namespace:
  "compile_endpoint endpoint temporary nodes = Inr e \<Longrightarrow> \<exists>n \<in> set (dict_values nodes). ep_namespace e = nd_namespace n"
  by (auto simp: compile_endpoint_def res_bind_eq_Inr res_of_option_eq_Inr split: prod.splits if_splits
      dest!: dict_get_SomeD)

lemma compile_link_namespaces:
  assumes "compile_link x deployment nodes entry = Inr link"
  shows "\<exists>n \<in> set (dict_values nodes). ep_namespace (lk_left link) = nd_namespace n"
    and "\<exists>n \<in> set (dict_values nodes). ep_namespace (lk_right link) = nd_namespace n"
  using assms
  by (auto simp: compile_link_def res_bind_eq_Inr split: prod.splits dest!: compile_endpoint_namespace)

lemma compile_plan_parts:
  assumes "compile_plan x m (Some name) = Inr p"
  obtains nodes where "name_pattern name" and "tpl_name p = name" and "tpl_nodes p = nodes"
    and "manifest_fingerprint x m = Inr (tpl_fingerprint p)"
    and "res_map (\<lambda>(name', node). res_bind (compile_node x name name' node)
       (\<lambda>plan. Inr (name', plan))) (tp_nodes (mf_topology m)) = Inr nodes"
    and "res_map (compile_link x name nodes) (enumerate 0 (tp_links (mf_topology m))) = Inr (tpl_links p)"
  using assms
  by (auto simp: compile_plan_def effective_deployment_name_def res_bind_eq_Inr split: if_splits)

lemma compile_plan_confined:
  assumes "compile_plan x m (Some name) = Inr p"
  shows "tpl_name p = name \<and> confined x p"
proof -
  obtain nodes where p: "tpl_name p = name" "tpl_nodes p = nodes"
    and nodes: "res_map (\<lambda>(name', node). res_bind (compile_node x name name' node)
       (\<lambda>plan. Inr (name', plan))) (tp_nodes (mf_topology m)) = Inr nodes"
    and links: "res_map (compile_link x name nodes) (enumerate 0 (tp_links (mf_topology m))) = Inr (tpl_links p)"
    using assms by (rule compile_plan_parts)
  have own: "nd_namespace n \<in> owned_namespaces x name" if "n \<in> set (dict_values nodes)" for n
    using that res_map_in [OF nodes]
    by (fastforce simp: res_bind_eq_Inr owned_namespaces_def dest: compile_node_namespace)
  have "ep_namespace (lk_left l) \<in> owned_namespaces x name \<and> ep_namespace (lk_right l) \<in> owned_namespaces x name"
    if l: "l \<in> set (tpl_links p)" for l
  proof -
    obtain entry where entry: "compile_link x name nodes entry = Inr l" using res_map_in [OF links l] by blast
    show ?thesis using compile_link_namespaces [OF entry] own by metis
  qed
  with own p show ?thesis by (simp add: confined_def plan_nodes_def)
qed

lemma dict_eq_values:
  assumes "dict_eq eq a b" and "distinct (dict_keys a)" and "v \<in> set (dict_values a)"
  shows "\<exists>u \<in> set (dict_values b). eq v u"
proof -
  obtain k where kv: "(k, v) \<in> set a" using assms(3) by auto
  then have v: "dict_get a k = Some v" using assms(2) by (rule map_of_is_SomeI [rotated])
  moreover have "k \<in> set (dict_keys a)" using kv by force
  ultimately have "case (Some v, dict_get b k) of (Some v, Some v') \<Rightarrow> eq v v' | _ \<Rightarrow> False"
    using assms(1) unfolding dict_eq_def by metis
  then obtain u where "dict_get b k = Some u" "eq v u" by (auto split: option.splits)
  then show ?thesis using dict_get_SomeD by metis
qed

lemma node_eq_namespace: "node_eq a b \<Longrightarrow> nd_namespace a = nd_namespace b"
  unfolding node_eq_def by (drule conjunct2)+ (drule arg_cong [of _ _ nd_namespace], simp)

lemma link_eq_endpoints: "link_eq a b \<Longrightarrow> lk_left a = lk_left b \<and> lk_right a = lk_right b"
  unfolding link_eq_def
  by (drule conjunct1, frule arg_cong [of _ _ lk_left], drule arg_cong [of _ _ lk_right], simp)

lemma plan_eq_confined:
  assumes e: "plan_eq a b" and b: "confined x b" and d: "distinct (dict_keys (tpl_nodes a))"
  shows "confined x a"
proof -
  have name: "tpl_name a = tpl_name b" using e by (simp add: plan_eq_def)
  have "nd_namespace n \<in> owned_namespaces x (tpl_name b)" if n: "n \<in> set (plan_nodes a)" for n
  proof -
    have "dict_eq node_eq (tpl_nodes a) (tpl_nodes b)" using e by (simp add: plan_eq_def)
    then obtain u where u: "u \<in> set (plan_nodes b)" "node_eq n u"
      using dict_eq_values [OF _ d] n unfolding plan_nodes_def by blast
    then have "nd_namespace u \<in> owned_namespaces x (tpl_name b)" using b by (simp add: confined_def)
    then show ?thesis using node_eq_namespace [OF u(2)] by simp
  qed
  moreover have "ep_namespace (lk_left l) \<in> owned_namespaces x (tpl_name b) \<and>
      ep_namespace (lk_right l) \<in> owned_namespaces x (tpl_name b)" if l: "l \<in> set (tpl_links a)" for l
  proof -
    have "list_all2 link_eq (tpl_links a) (tpl_links b)" using e by (simp add: plan_eq_def)
    then have "\<exists>k \<in> set (tpl_links b). link_eq l k"
      using l by (induction rule: list_all2_induct) auto
    then obtain k where k: "k \<in> set (tpl_links b)" "link_eq l k" by blast
    show ?thesis unfolding link_eq_endpoints [OF k(2), THEN conjunct1] link_eq_endpoints [OF k(2), THEN conjunct2]
      using b k(1) by (simp add: confined_def)
  qed
  ultimately show ?thesis by (simp add: confined_def name)
qed

lemma validated_confined:
  assumes "validate_plan_manifest x plan m = Inr ()" and "distinct (dict_keys (tpl_nodes plan))"
  shows "confined x plan"
proof -
  obtain e where e: "compile_plan x m (Some (tpl_name plan)) = Inr e" "plan_eq plan e"
    using assms(1) by (auto simp: validate_plan_manifest_def res_bind_eq_Inr split: if_splits)
  show ?thesis using compile_plan_confined [OF e(1)] plan_eq_confined [OF e(2) _ assms(2)] by blast
qed

lemma plan_from_snapshot_confined:
  assumes "plan_from_snapshot x s = Inr plan"
  shows "tpl_name plan = ss_name s \<and> confined x plan"
proof -
  obtain m where "compile_plan x m (Some (ss_name s)) = Inr plan"
    using assms by (auto simp: plan_from_snapshot_def validate_snapshot_def snapshot_plan_def res_bind_eq_Inr
        split: sum.splits if_splits)
  then show ?thesis by (rule compile_plan_confined)
qed

lemma snapshot_for_plan_fields:
  assumes "snapshot_for_plan x plan m created_at status inventory = Inr s"
  shows "ss_name s = tpl_name plan \<and> ss_fingerprint s = tpl_fingerprint plan \<and> ss_status s = status \<and>
    built_snapshot s"
  using assms make_snapshot_built
  by (fastforce simp: snapshot_for_plan_def res_bind_eq_Inr make_snapshot_def)

end
