(* ===== verification/Lifecycle_Frames.thy ===== *)
theory Lifecycle_Frames
  imports Interfaces Confinement
begin

text \<open>
  What the lifecycle leaves alone, proved once from the laws of the network backend and the state
  store: every operation on a deployment keeps the namespaces of all others, their state files, and
  the soundness of the host; operations that only look keep everything.
\<close>

locale lifecycle =
  network_backend x be view sealed observe + state_store ho entry decode encodes sound
  for x :: ext
    and be :: "'n backend"
    and view :: "'n \<Rightarrow> string \<Rightarrow> 'v option"
    and sealed :: "'n \<Rightarrow> string set \<Rightarrow> bool"
    and observe :: "'n \<Rightarrow> topology_plan \<Rightarrow> live_inventory"
    and ho :: "'d host"
    and entry :: "'d \<Rightarrow> string \<Rightarrow> 'e option"
    and decode :: "'e \<Rightarrow> state_snapshot option"
    and encodes :: "state_snapshot \<Rightarrow> 'e \<Rightarrow> bool"
    and sound :: "'d \<Rightarrow> bool"
begin

abbreviation sv :: "('n \<times> 'd) services" where
  "sv \<equiv> services_of be ho"

abbreviation looked :: "'n \<Rightarrow> 'n \<Rightarrow> bool" where
  "looked \<equiv> undisturbed view sealed observe"

text \<open>Properties of the world that no call that only looks can break.\<close>

definition stable :: "('n \<times> 'd \<Rightarrow> bool) \<Rightarrow> bool" where
  "stable P \<longleftrightarrow> (\<forall>w. P w \<longrightarrow> sound (snd w) \<and>
     (\<forall>n. looked (fst w) n \<longrightarrow> P (n, snd w)) \<and>
     (\<forall>d. sound d \<and> entry d = entry (snd w) \<longrightarrow> P (fst w, d)))"

definition kept :: "string set \<Rightarrow> (string \<Rightarrow> 'v option) \<Rightarrow> string set \<Rightarrow> (string \<Rightarrow> 'e option) \<Rightarrow> 'n \<times> 'd \<Rightarrow> bool" where
  "kept N v M e w \<longleftrightarrow> outside view sealed N v (fst w) \<and> sound (snd w) \<and>
     (\<forall>k. k \<notin> M \<longrightarrow> entry (snd w) k = e k)"

definition same :: "'n \<times> 'd \<Rightarrow> 'n \<times> 'd \<Rightarrow> bool" where
  "same w0 w \<longleftrightarrow> looked (fst w0) (fst w) \<and> sound (snd w) \<and> entry (snd w) = entry (snd w0)"

lemma stableI:
  assumes "\<And>n d. P (n, d) \<Longrightarrow> sound d"
    and "\<And>n d n'. P (n, d) \<Longrightarrow> looked n n' \<Longrightarrow> P (n', d)"
    and "\<And>n d d'. P (n, d) \<Longrightarrow> sound d' \<Longrightarrow> entry d' = entry d \<Longrightarrow> P (n, d')"
  shows "stable P"
  unfolding stable_def using assms by (metis prod.collapse)

lemma stable_soundD: "stable P \<Longrightarrow> P w \<Longrightarrow> sound (snd w)"
  and stable_lookedD: "stable P \<Longrightarrow> P w \<Longrightarrow> looked (fst w) n \<Longrightarrow> P (n, snd w)"
  and stable_storedD: "stable P \<Longrightarrow> P w \<Longrightarrow> sound d \<Longrightarrow> entry d = entry (snd w) \<Longrightarrow> P (fst w, d)"
  unfolding stable_def by blast+

lemma stable_kept: "stable (kept N v M e)"
  by (rule stableI) (unfold kept_def outside_def undisturbed_def fst_conv snd_conv, fastforce+)

lemma stable_same: "stable (same w0)"
  by (rule stableI) (unfold same_def undisturbed_def fst_conv snd_conv, fastforce+)

section \<open>Calls that only look\<close>

lemma stable_on_net:
  assumes P: "stable P" and m: "\<And>n. io_wp m (\<lambda>_. looked n) (\<lambda>_. looked n) n"
  shows "io_keeps P (on_net m)"
  unfolding io_keeps_def
proof (intro allI impI)
  fix w assume w: "P w"
  obtain r n where r: "m (fst w) = (r, n)" by (cases "m (fst w)")
  have "looked (fst w) n" using io_wp_run [OF m [of "fst w"]] r by (cases r) auto
  then show "P (snd (on_net m w))" using stable_lookedD [OF P w] r by (simp add: on_net_def)
qed

lemma stable_on_host:
  assumes P: "stable P"
    and m: "\<And>d. sound d \<Longrightarrow> io_wp m (\<lambda>_ d'. sound d' \<and> entry d' = entry d) (\<lambda>_ d'. sound d' \<and> entry d' = entry d) d"
  shows "io_keeps P (on_host m)"
  unfolding io_keeps_def
proof (intro allI impI)
  fix w assume w: "P w"
  then have s: "sound (snd w)" by (rule stable_soundD [OF P])
  obtain r d where r: "m (snd w) = (r, d)" by (cases "m (snd w)")
  have "sound d \<and> entry d = entry (snd w)" using io_wp_run [OF m [OF s]] r by (cases r) auto
  then show "P (snd (on_host m w))" using stable_storedD [OF P w] r by (simp add: on_host_def)
qed

named_theorems looks \<open>operations that keep stable properties\<close>

lemma inventory_looks [looks]: "stable P \<Longrightarrow> io_keeps P (sv_inventory sv plan)"
  unfolding services_simps by (rule stable_on_net) (auto intro!: io_wp_mono [OF inventory_answer])

lemma load_looks [looks]: "stable P \<Longrightarrow> io_keeps P (sv_load sv name)"
  unfolding services_simps by (rule stable_on_host) (auto intro!: io_wp_mono [OF load_answer])

lemma acquire_looks [looks]: "stable P \<Longrightarrow> io_keeps P (sv_acquire sv name)"
  unfolding services_simps by (rule stable_on_host) (auto intro!: io_wp_mono [OF acquire_quiet])

lemma release_looks [looks]: "stable P \<Longrightarrow> io_keeps P (sv_release sv name raised)"
  unfolding services_simps by (rule stable_on_host) (auto intro!: io_wp_mono [OF release_quiet])

lemma timestamp_looks [looks]: "stable P \<Longrightarrow> io_keeps P (sv_timestamp sv)"
  unfolding services_simps by (rule stable_on_host) (auto intro!: io_wp_mono [OF timestamp_quiet])

lemma routing_ready_looks [looks]: "stable P \<Longrightarrow> io_keeps P (routing_ready sv plan)"
  unfolding routing_ready_def services_simps
  by (auto split: option.split intro!: stable_on_net routing_ready_quiet)

lemma stop_routing_looks [looks]: "stable P \<Longrightarrow> io_keeps P (stop_routing sv plan)"
  unfolding stop_routing_def services_simps
  by (auto split: option.split intro!: stable_on_net stop_routing_quiet)

lemma io_keeps_and_then: "io_keeps P m \<Longrightarrow> io_keeps P (and_then a m)"
  by (simp add: and_then_def)

lemmas io_keeps_steps = io_keeps_and_then io_keeps_return io_keeps_raise io_keeps_lift io_keeps_get io_keeps_bind
  io_keeps_seq io_keeps_attempt io_keeps_if io_keeps_for io_keeps_fold

lemma reconcile_looks [looks]: "stable P \<Longrightarrow> io_keeps P (reconcile x sv plan)"
  unfolding reconcile_def by (intro io_keeps_steps looks)

lemma delete_gate_looks [looks]: "stable P \<Longrightarrow> io_keeps P (delete_gate_for x sv plan expected)"
  unfolding delete_gate_for_def by (intro io_keeps_steps looks)

lemma attach_reconciliation_looks [looks]: "stable P \<Longrightarrow> io_keeps P (attach_reconciliation x sv plan e)"
  unfolding attach_reconciliation_def by (intro io_keeps_steps looks)

lemma raise_interrupt_looks [looks]:
  "stable P \<Longrightarrow> io_keeps P (raise_delete_retry_interrupt x sv i e1 e2 gate plan expected)"
  unfolding raise_delete_retry_interrupt_def by (intro io_keeps_steps looks)

lemma deploy_existing_looks [looks]: "stable P \<Longrightarrow> io_keeps P (deploy_existing x sv plan current)"
  unfolding deploy_existing_def by (intro io_keeps_steps looks)

lemma verify_topology_looks [looks]: "stable P \<Longrightarrow> io_keeps P (verify_topology x sv plan)"
  unfolding verify_topology_def by (intro io_keeps_steps looks)

lemma rollback_routing_looks [looks]: "stable P \<Longrightarrow> io_keeps P (rollback_routing x sv plan)"
  unfolding rollback_routing_def by (intro io_keeps_steps looks)

lemma destroy_routing_looks [looks]: "stable P \<Longrightarrow> io_keeps P (destroy_routing x sv plan)"
  unfolding destroy_routing_def by (intro io_keeps_steps looks)

lemma destroy_absent_looks [looks]: "stable P \<Longrightarrow> io_keeps P (destroy_absent x sv plan name)"
  unfolding destroy_absent_def by (auto intro!: io_keeps_steps looks split: option.split)

lemma with_lock_keeps: "stable P \<Longrightarrow> io_keeps P m \<Longrightarrow> io_keeps P (with_lock sv name m)"
  unfolding with_lock_def by (intro io_keeps_steps looks)

section \<open>Operations on one deployment\<close>

lemma kept_net: "io_keeps (outside view sealed N v) m \<Longrightarrow> io_keeps (kept N v M e) (on_net m)"
  unfolding io_keeps_def kept_def on_net_def
  by (metis (no_types, lifting) case_prod_conv fst_conv prod.collapse snd_conv)

lemma kept_host:
  assumes "\<And>d. sound d \<Longrightarrow> io_wp m (\<lambda>_ d'. sound d' \<and> (\<forall>k. k \<notin> M \<longrightarrow> entry d' k = entry d k))
      (\<lambda>_ d'. sound d' \<and> (\<forall>k. k \<notin> M \<longrightarrow> entry d' k = entry d k)) d"
  shows "io_keeps (kept N v M e) (on_host m)"
  unfolding io_keeps_def
proof (intro allI impI)
  fix w assume w: "kept N v M e w"
  then have s: "sound (snd w)" by (simp add: kept_def)
  obtain r d where r: "m (snd w) = (r, d)" by (cases "m (snd w)")
  have "sound d \<and> (\<forall>k. k \<notin> M \<longrightarrow> entry d k = entry (snd w) k)"
    using io_wp_run [OF assms [OF s]] r by (cases r) auto
  then show "kept N v M e (snd (on_host m w))" using w r by (simp add: kept_def on_host_def)
qed

named_theorems keeps \<open>operations that keep what belongs to other deployments\<close>

lemma save_keeps [keeps]: "ss_name s \<in> M \<Longrightarrow> io_keeps (kept N v M e) (sv_save sv s)"
  unfolding services_simps by (rule kept_host) (auto intro!: io_wp_mono [OF save_effect])

lemma delete_keeps [keeps]: "name \<in> M \<Longrightarrow> io_keeps (kept N v M e) (sv_delete sv name)"
  unfolding services_simps by (rule kept_host) (auto intro!: io_wp_mono [OF delete_effect])

lemma create_namespace_keeps [keeps]:
  "nd_namespace node \<in> N \<Longrightarrow> io_keeps (kept N v M e) (sv_create_namespace sv node)"
  unfolding services_simps by (intro kept_net create_namespace_frame)

lemma delete_namespace_keeps [keeps]:
  "ns \<in> N \<Longrightarrow> io_keeps (kept N v M e) (sv_delete_namespace sv ns)"
  unfolding services_simps by (intro kept_net delete_namespace_frame)

lemma create_bridge_keeps [keeps]:
  "nd_namespace node \<in> N \<Longrightarrow> io_keeps (kept N v M e) (sv_create_bridge sv node)"
  unfolding services_simps by (intro kept_net create_bridge_frame)

lemma create_veth_keeps [keeps]:
  "link_namespaces link \<subseteq> N \<Longrightarrow> io_keeps (kept N v M e) (sv_create_veth sv link)"
  unfolding services_simps by (intro kept_net create_veth_frame)

lemma configure_node_keeps [keeps]:
  "nd_namespace node \<in> N \<Longrightarrow> io_keeps (kept N v M e) (sv_configure_node sv node plan)"
  unfolding services_simps by (intro kept_net configure_node_frame)

lemma start_routing_keeps [keeps]:
  "plan_namespaces plan \<subseteq> N \<Longrightarrow> io_keeps (kept N v M e) (start_routing sv plan)"
  unfolding start_routing_def services_simps
  by (auto split: option.split intro!: kept_net start_routing_frame)

lemmas keeps_looks = looks [OF stable_kept]

lemma save_initial_keeps [keeps]:
  "ss_name s \<in> M \<Longrightarrow> io_keeps (kept N v M e) (save_initial_transition x sv s plan)"
  unfolding save_initial_transition_def
  by (intro io_keeps_steps keeps) (auto intro!: io_keeps_steps keeps_looks split: sum.split)

lemma create_namespaces_keeps [keeps]:
  "\<forall>node \<in> set nodes. nd_namespace node \<in> N \<Longrightarrow>
   io_keeps (kept N v M e) (create_namespaces sv nodes created)"
  by (induction nodes arbitrary: created)
    (auto intro!: io_keeps_steps keeps split: sum.split)

lemma build_topology_keeps [keeps]:
  assumes "\<forall>node \<in> set (plan_nodes plan). nd_namespace node \<in> N"
    and "\<forall>link \<in> set (tpl_links plan). link_namespaces link \<subseteq> N"
  shows "io_keeps (kept N v M e) (build_topology sv plan)"
  unfolding build_topology_def
  by (intro io_keeps_steps keeps) (use assms in \<open>auto simp: plan_namespaces_def\<close>)

lemma deploy_attempt_keeps [keeps]:
  assumes "\<forall>node \<in> set (plan_nodes plan). nd_namespace node \<in> N"
    and "\<forall>link \<in> set (tpl_links plan). link_namespaces link \<subseteq> N"
  shows "io_keeps (kept N v M e) (deploy_attempt x sv plan)"
  unfolding deploy_attempt_def
  by (rule io_keeps_bind, rule create_namespaces_keeps [OF assms(1)])
    (auto intro!: io_keeps_steps build_topology_keeps [OF assms] keeps_looks split: prod.split sum.split)

text \<open>What the loop reports as created are namespaces of the plan.\<close>

lemma created_namespaces:
  "create_namespaces sv nodes created w = (Inr (names, r), w') \<Longrightarrow>
   set names \<subseteq> set created \<union> set (map nd_namespace nodes)"
proof (induction nodes arbitrary: created w)
  case (Cons node nodes)
  obtain a w1 where a: "sv_create_namespace sv node w = (a, w1)"
    by (cases "sv_create_namespace sv node w")
  show ?case
  proof (cases a)
    case (Inl e)
    then show ?thesis using Cons.prems a by (auto simp: io_bind_def io_attempt_def)
  next
    case (Inr u)
    then have "create_namespaces sv nodes (created @ [nd_namespace node]) w1 = (Inr (names, r), w')"
      using Cons.prems a by (simp add: io_bind_def io_attempt_def)
    from Cons.IH [OF this] show ?thesis by auto
  qed
qed simp

lemma attempted_namespaces:
  "deploy_attempt x sv plan w = (Inr (names, r), w') \<Longrightarrow> set names \<subseteq> plan_namespaces plan"
  unfolding deploy_attempt_def plan_namespaces_def
  by (erule io_bind_cases) (auto split: prod.splits sum.splits elim!: io_bind_cases dest!: created_namespaces)

lemma io_keeps_bind_value:
  assumes "io_keeps P m" and "\<And>w y w'. P w \<Longrightarrow> m w = (Inr y, w') \<Longrightarrow> io_keeps P (f y)"
  shows "io_keeps P (io_bind m f)"
  unfolding io_keeps_def
proof (intro allI impI)
  fix w assume w: "P w"
  obtain r w' where m: "m w = (r, w')" by (cases "m w")
  have "P w'" by (rule io_keepsD [OF assms(1) w m])
  then show "P (snd (io_bind m f w))"
    using assms(2) [OF w] m by (cases r) (auto simp: io_bind_def io_keeps_def)
qed

lemma remove_rollback_keeps [keeps]:
  "tpl_name plan \<in> M \<Longrightarrow> io_keeps (kept N v M e) (remove_rollback_state x sv original plan deploying)"
  unfolding remove_rollback_state_def reconcile_rollback_state_delete_def Let_def
  by (auto intro!: io_keeps_steps keeps keeps_looks split: sum.split option.split)

lemma rollback_keeps [keeps]:
  assumes "set created \<subseteq> N" and "tpl_name plan \<in> M"
  shows "io_keeps (kept N v M e) (rollback_and_attach x sv error plan created deploying)"
proof -
  have "io_keeps (kept N v M e) (rollback_namespace x sv ns progress)" if "ns \<in> set created" for ns progress
    unfolding rollback_namespace_def
    by (auto intro!: io_keeps_steps keeps split: prod.split) (use assms(1) that in auto)
  then show ?thesis
    unfolding rollback_and_attach_def Let_def
    by (auto intro!: io_keeps_steps keeps keeps_looks assms(2) split: prod.split)
qed

lemma final_save_failure_keeps [keeps]:
  "set created \<subseteq> N \<Longrightarrow> tpl_name plan \<in> M \<Longrightarrow>
   io_keeps (kept N v M e) (handle_final_deploy_save_failure x sv error plan created deploying)"
  unfolding handle_final_deploy_save_failure_def Let_def
  by (intro io_keeps_steps keeps keeps_looks)

lemma final_delete_keeps [keeps]:
  "tpl_name plan \<in> M \<Longrightarrow> io_keeps (kept N v M e) (delete_final_state x sv plan destroying)"
  unfolding delete_final_state_def handle_final_delete_failure_def Let_def
  by (auto intro!: io_keeps_steps keeps keeps_looks split: sum.split)

lemma destroy_namespaces_keeps [keeps]:
  "set names \<subseteq> N \<Longrightarrow> io_keeps (kept N v M e) (destroy_namespaces x sv names progress)"
  by (induction names arbitrary: progress)
    (auto intro!: io_keeps_steps keeps split: sum.split prod.split)

section \<open>The frame of the operations\<close>

text \<open>
  \<open>N\<close> are the namespaces and \<open>M\<close> the names of a set of deployments; an operation on one of them keeps
  all that is outside. The namespaces of a confined plan are the deployment's own.
\<close>

lemma confined_parts:
  assumes "confined x plan" and "owned_namespaces x (tpl_name plan) \<subseteq> N"
  shows "\<forall>node \<in> set (plan_nodes plan). nd_namespace node \<in> N"
    and "\<forall>link \<in> set (tpl_links plan). link_namespaces link \<subseteq> N"
    and "plan_namespaces plan \<subseteq> N"
  using assms by (auto simp: confined_def link_namespaces_def plan_namespaces_def)

lemma finish_deploy_keeps:
  assumes c: "confined x plan" and created: "set (fst attempt) \<subseteq> plan_namespaces plan"
    and N: "owned_namespaces x (tpl_name plan) \<subseteq> N" and M: "tpl_name plan \<in> M"
  shows "io_keeps (kept N v M e) (finish_deploy x sv plan m created_at deploying attempt)"
proof -
  have "set (fst attempt) \<subseteq> N"
    using created confined_parts(3) [OF c N] by blast
  then show ?thesis
    unfolding finish_deploy_def using M
    by (auto intro!: io_keeps_bind io_keeps_bind_lift io_keeps_attempt io_keeps_raise io_keeps_return
        keeps dest!: snapshot_for_plan_fields split: prod.split sum.split)
qed

lemma deploy_fresh_keeps:
  assumes c: "confined x plan" and N: "owned_namespaces x (tpl_name plan) \<subseteq> N" and M: "tpl_name plan \<in> M"
  shows "io_keeps (kept N v M e) (deploy_fresh x sv plan m)"
proof -
  note parts = confined_parts [OF c N]
  have attempt: "io_keeps (kept N v M e)
      (io_bind (deploy_attempt x sv plan) (finish_deploy x sv plan m created_at deploying))" for created_at deploying
    by (rule io_keeps_bind_value, intro keeps parts)
      (auto dest!: attempted_namespaces intro!: finish_deploy_keeps c N M)
  show ?thesis
    unfolding deploy_fresh_def
    by (rule io_keeps_bind [OF keeps_looks(1)])
      (auto intro!: io_keeps_bind io_keeps_seq io_keeps_bind_lift keeps_looks io_keeps_raise attempt
        keeps M dest!: snapshot_for_plan_fields)
qed

lemma deploy_locked_keeps:
  assumes d: "distinct (dict_keys (tpl_nodes plan))" and v: "validated \<Longrightarrow> confined x plan"
    and N: "owned_namespaces x (tpl_name plan) \<subseteq> N" and M: "tpl_name plan \<in> M"
  shows "io_keeps (kept N v M e) (deploy_locked x sv plan m validated)"
proof (cases validated)
  case True
  then show ?thesis
    unfolding deploy_locked_def
    by (auto intro!: io_keeps_steps keeps_looks deploy_fresh_keeps v N M split: option.split)
next
  case False
  have "io_keeps (kept N v M e) (io_seq (io_lift (validate_plan_manifest x plan m))
      (io_bind (sv_load sv (tpl_name plan)) (\<lambda>current. case current of
        Some s \<Rightarrow> deploy_existing x sv plan s | None \<Rightarrow> deploy_fresh x sv plan m)))"
    by (rule io_keeps_seq_lift)
      (auto intro!: io_keeps_steps keeps_looks deploy_fresh_keeps validated_confined d N M
        split: option.split)
  then show ?thesis using False by (simp add: deploy_locked_def)
qed

lemma destroy_resources_keeps:
  "plan_namespaces plan \<subseteq> N \<Longrightarrow> io_keeps (kept N v M e) (destroy_resources x sv plan name)"
  unfolding destroy_resources_def
  by (intro io_keeps_steps keeps keeps_looks)
    (auto simp: plan_namespaces_def intro!: io_keeps_steps keeps_looks split: prod.split)

lemma destroy_present_keeps:
  assumes N: "owned_namespaces x name \<subseteq> N" and M: "name \<in> M"
  shows "io_keeps (kept N v M e) (destroy_present x sv name current)"
proof -
  have rest: "io_keeps (kept N v M e)
      (io_seq (save_initial_transition x sv (current\<lparr>ss_status := ''destroying''\<rparr>) plan)
      (io_bind (destroy_resources x sv plan name) (\<lambda>(entries, first_error). case first_error of
        Some e \<Rightarrow> io_raise (attach e ''cleanup'' (PList entries))
      | None \<Rightarrow> io_seq (delete_final_state x sv plan (current\<lparr>ss_status := ''destroying''\<rparr>))
          (io_return (destroy_result name True ''destroyed topology: '')))))"
    if id: "require_snapshot_identity current name = Inr ()" and p: "plan_from_snapshot x current = Inr plan"
    for plan
  proof -
    have name: "ss_name current = name" using id by (auto simp: require_snapshot_identity_def split: if_splits)
    have plan: "tpl_name plan = name" "confined x plan" using plan_from_snapshot_confined [OF p] name by simp_all
    show ?thesis
      using confined_parts(3) [OF plan(2)] N M name plan(1)
      by (auto intro!: io_keeps_bind io_keeps_seq io_keeps_raise io_keeps_return keeps
          destroy_resources_keeps split: prod.split option.split)
  qed
  show ?thesis
    unfolding destroy_present_def Let_def
    by (auto intro!: io_keeps_seq_lift io_keeps_bind_lift rest)
qed

lemma destroy_locked_keeps:
  "owned_namespaces x name \<subseteq> N \<Longrightarrow> name \<in> M \<Longrightarrow> io_keeps (kept N v M e) (destroy_locked x sv plan name)"
  unfolding destroy_locked_def
  by (auto intro!: io_keeps_steps keeps_looks destroy_present_keeps split: option.split)

lemma deploy_keeps:
  "distinct (dict_keys (tpl_nodes plan)) \<Longrightarrow> owned_namespaces x (tpl_name plan) \<subseteq> N \<Longrightarrow> tpl_name plan \<in> M \<Longrightarrow>
   io_keeps (kept N v M e) (deploy x sv plan m)"
  unfolding deploy_def by (intro with_lock_keeps stable_kept deploy_locked_keeps) simp_all

lemma destroy_keeps:
  "owned_namespaces x name \<subseteq> N \<Longrightarrow> name \<in> M \<Longrightarrow> io_keeps (kept N v M e) (destroy x sv plan name)"
  unfolding destroy_def by (intro with_lock_keeps stable_kept destroy_locked_keeps)

lemma redeploy_keeps:
  "distinct (dict_keys (tpl_nodes plan)) \<Longrightarrow> owned_namespaces x (tpl_name plan) \<subseteq> N \<Longrightarrow> tpl_name plan \<in> M \<Longrightarrow>
   io_keeps (kept N v M e) (redeploy x sv plan m)"
  unfolding redeploy_def redeploy_locked_def
  by (intro with_lock_keeps stable_kept io_keeps_seq_lift io_keeps_bind io_keeps_return
      destroy_locked_keeps deploy_locked_keeps validated_confined) simp_all

end

end
