(* ===== verification/Lifecycle_Outcomes.thy ===== *)
theory Lifecycle_Outcomes
  imports Lifecycle_Frames
begin

text \<open>
  What the operations of the lifecycle achieve, from the laws of their services: when deploy and
  destroy return, what a completed rollback means, and what they refuse to touch.
\<close>

text \<open>The phase of a deployment, as its state file shows it.\<close>

datatype phase = Absent | Deploying | Deployed | Destroying | Corrupt

definition phase_of_status :: "string \<Rightarrow> phase" where
  "phase_of_status status =
     (if status = ''deploying'' then Deploying else if status = ''deployed'' then Deployed
      else if status = ''destroying'' then Destroying else Corrupt)"

definition phase_of :: "('e \<Rightarrow> state_snapshot option) \<Rightarrow> 'e option \<Rightarrow> phase" where
  "phase_of decode content = (case content of
      None \<Rightarrow> Absent
    | Some c \<Rightarrow> (case decode c of None \<Rightarrow> Corrupt | Some s \<Rightarrow> phase_of_status (ss_status s)))"

lemma phase_of_None [simp]: "phase_of decode None = Absent"
  by (simp add: phase_of_def)

lemma phase_of_Absent: "phase_of decode content = Absent \<longleftrightarrow> content = None"
  by (auto simp: phase_of_def phase_of_status_def split: option.splits if_splits)

context lifecycle
begin

section \<open>The calls of the services\<close>

definition stored_as :: "'n \<times> 'd \<Rightarrow> state_snapshot \<Rightarrow> 'n \<times> 'd \<Rightarrow> bool" where
  "stored_as w s w' \<longleftrightarrow> fst w' = fst w \<and> sound (snd w') \<and>
     (\<exists>c. encodes s c \<and> entry (snd w') = (entry (snd w))(ss_name s := Some c))"

definition removed :: "'n \<times> 'd \<Rightarrow> string \<Rightarrow> 'n \<times> 'd \<Rightarrow> bool" where
  "removed w name w' \<longleftrightarrow> fst w' = fst w \<and> sound (snd w') \<and> entry (snd w') = (entry (snd w))(name := None)"

lemma same_refl: "sound (snd w) \<Longrightarrow> same w w"
  by (simp add: same_def)

lemma same_trans: "same w w' \<Longrightarrow> same w' w'' \<Longrightarrow> same w w''"
  by (simp add: same_def undisturbed_def)

lemma same_sound: "same w w' \<Longrightarrow> sound (snd w')"
  and same_entry: "same w w' \<Longrightarrow> entry (snd w') = entry (snd w)"
  and same_observe: "same w w' \<Longrightarrow> observe (fst w') = observe (fst w)"
  and same_view: "same w w' \<Longrightarrow> view (fst w') = view (fst w)"
  by (simp_all add: same_def undisturbed_def)

lemma stored_sound: "stored_as w s w' \<Longrightarrow> sound (snd w')"
  by (simp add: stored_as_def)

text \<open>What an operation that only looks leaves, as a weakest precondition.\<close>

lemma looks_wp:
  "(\<And>w0. io_keeps (same w0) m) \<Longrightarrow> sound (snd w) \<Longrightarrow> io_wp m (\<lambda>_. same w) (\<lambda>_. same w) w"
  by (rule io_keeps_wp [where P = "same w"]) (simp_all add: same_refl)

lemmas same_looks = looks [OF stable_same]

lemma inventory_wp:
  assumes "sound (snd w)"
  shows "io_wp (sv_inventory sv plan) (\<lambda>i w'. i = observe (fst w) plan \<and> same w w') (\<lambda>_. same w) w"
proof -
  have "io_wp (sv_inventory sv plan) (\<lambda>i w'. i = observe (fst w) plan) (\<lambda>_ _. True) w"
    by (simp add: services_simps wp_simps) (rule io_wp_mono [OF inventory_answer]; simp)
  from io_wp_conj [OF this looks_wp [OF inventory_looks [OF stable_same] assms]] show ?thesis by simp
qed

lemma load_wp:
  assumes "sound (snd w)"
  shows "io_wp (sv_load sv name)
    (\<lambda>r w'. same w w' \<and> (case r of None \<Rightarrow> entry (snd w) name = None
       | Some s \<Rightarrow> \<exists>c. entry (snd w) name = Some c \<and> decode c = Some s))
    (\<lambda>_. same w) w"
  by (simp add: services_simps wp_simps) (rule io_wp_mono [OF load_answer [OF assms]]; simp add: same_def)

lemma save_wp:
  assumes "sound (snd w)"
  shows "io_wp (sv_save sv s) (\<lambda>_. stored_as w s)
    (\<lambda>e w'. same w w' \<or> requires_reconciliation e \<and> stored_as w s w') w"
  by (simp add: services_simps wp_simps)
    (rule io_wp_mono [OF save_effect [OF assms]]; auto simp: same_def stored_as_def)

lemma delete_wp:
  assumes "sound (snd w)"
  shows "io_wp (sv_delete sv name) (\<lambda>_. removed w name)
    (\<lambda>e w'. same w w' \<or> requires_reconciliation e \<and> removed w name w') w"
  by (simp add: services_simps wp_simps)
    (rule io_wp_mono [OF delete_effect [OF assms]]; auto simp: same_def removed_def)

lemma with_lock_wp:
  assumes s: "sound (snd w)"
    and body: "\<And>w1. same w w1 \<Longrightarrow> io_wp body Q E w1"
    and Q: "\<And>r w1 w2. Q r w1 \<Longrightarrow> sound (snd w1) \<and> (same w1 w2 \<longrightarrow> Q r w2 \<and> (\<forall>e. F e w2))"
    and E: "\<And>e w1 w2. E e w1 \<Longrightarrow> sound (snd w1) \<and> (same w1 w2 \<longrightarrow> (\<forall>e. F e w2))"
    and F: "\<And>e w1. same w w1 \<Longrightarrow> F e w1"
  shows "io_wp (with_lock sv name body) Q F w"
  unfolding with_lock_def io_wp_seq io_wp_bind io_wp_attempt
proof (rule io_wp_mono [OF looks_wp [OF acquire_looks [OF stable_same] s]], goal_cases)
  case (1 u w1)
  show ?case
  proof (rule io_wp_mono [OF body [OF 1]], goal_cases)
    case (1 r w2)
    show ?case
      by (rule io_wp_mono [OF looks_wp [OF release_looks [OF stable_same]]]) (use Q [OF 1] in \<open>auto simp: wp_simps\<close>)
  next
    case (2 e w2)
    show ?case
      by (rule io_wp_mono [OF looks_wp [OF release_looks [OF stable_same]]]) (use E [OF 2] in \<open>auto simp: wp_simps\<close>)
  qed
next
  case (2 e w1)
  then show ?case by (rule F)
qed

section \<open>What becomes of the state file\<close>

text \<open>
  Properties of the state files alone: no call to the backend can break them, a save or a deletion
  may keep them.
\<close>

definition filed :: "((string \<Rightarrow> 'e option) \<Rightarrow> bool) \<Rightarrow> 'n \<times> 'd \<Rightarrow> bool" where
  "filed H w \<longleftrightarrow> sound (snd w) \<and> H (entry (snd w))"

definition save_closed :: "((string \<Rightarrow> 'e option) \<Rightarrow> bool) \<Rightarrow> state_snapshot \<Rightarrow> bool" where
  "save_closed H s \<longleftrightarrow> (\<forall>c e. encodes s c \<longrightarrow> H e \<longrightarrow> H (e(ss_name s := Some c)))"

definition delete_closed :: "((string \<Rightarrow> 'e option) \<Rightarrow> bool) \<Rightarrow> string \<Rightarrow> bool" where
  "delete_closed H name \<longleftrightarrow> (\<forall>e. H e \<longrightarrow> H (e(name := None)))"

lemma stable_filed: "stable (filed H)"
  by (rule stableI) (simp_all add: filed_def)

lemmas filed_looks = looks [OF stable_filed]

lemma sound_wp:
  assumes "io_keeps (filed (\<lambda>_. True)) m" and "sound (snd w)"
  shows "io_wp m (\<lambda>_ w'. sound (snd w')) (\<lambda>_ w'. sound (snd w')) w"
proof -
  have "filed (\<lambda>_. True) = (\<lambda>w'. sound (snd w'))" by (simp add: filed_def fun_eq_iff)
  then show ?thesis using io_keeps_wp [OF assms(1), of w] assms(2) by simp
qed

named_theorems files \<open>operations that keep properties of the state files\<close>

lemma on_net_files [files]: "io_keeps (filed H) (on_net m)"
  by (simp add: io_keeps_def filed_def on_net_def split: prod.split)

lemma save_files [files]:
  assumes "save_closed H s"
  shows "io_keeps (filed H) (sv_save sv s)"
  unfolding io_keeps_def
proof (intro allI impI)
  fix w assume w: "filed H w"
  then have s: "sound (snd w)" by (simp add: filed_def)
  show "filed H (snd (sv_save sv s w))"
    using io_wp_run [OF save_wp [OF s, of s]] w assms
    by (auto simp: filed_def same_def stored_as_def save_closed_def split: sum.splits)
qed

lemma delete_files [files]:
  assumes "delete_closed H name"
  shows "io_keeps (filed H) (sv_delete sv name)"
  unfolding io_keeps_def
proof (intro allI impI)
  fix w assume w: "filed H w"
  then have s: "sound (snd w)" by (simp add: filed_def)
  show "filed H (snd (sv_delete sv name w))"
    using io_wp_run [OF delete_wp [OF s, of name]] w assms
    by (auto simp: filed_def same_def removed_def delete_closed_def split: sum.splits)
qed

lemma net_calls_file [files]:
  "io_keeps (filed H) (sv_create_namespace sv node)" "io_keeps (filed H) (sv_delete_namespace sv ns)"
  "io_keeps (filed H) (sv_create_bridge sv node)" "io_keeps (filed H) (sv_create_veth sv link)"
  "io_keeps (filed H) (sv_configure_node sv node plan)"
  by (simp_all add: services_simps files)

lemma start_routing_files [files]: "io_keeps (filed H) (start_routing sv plan)"
  unfolding start_routing_def services_simps by (auto intro!: files split: option.split)

lemma save_initial_files [files]:
  "save_closed H s \<Longrightarrow> io_keeps (filed H) (save_initial_transition x sv s plan)"
  unfolding save_initial_transition_def
  by (intro io_keeps_steps files) (auto intro!: io_keeps_steps filed_looks split: sum.split)

lemma create_namespaces_files [files]: "io_keeps (filed H) (create_namespaces sv nodes created)"
  by (induction nodes arbitrary: created) (auto intro!: io_keeps_steps files split: sum.split)

lemma build_topology_files [files]: "io_keeps (filed H) (build_topology sv plan)"
  unfolding build_topology_def by (intro io_keeps_steps files)

lemma deploy_attempt_files [files]: "io_keeps (filed H) (deploy_attempt x sv plan)"
  unfolding deploy_attempt_def
  by (auto intro!: io_keeps_steps files filed_looks split: prod.split sum.split)

lemma remove_rollback_files [files]:
  "delete_closed H (tpl_name plan) \<Longrightarrow> io_keeps (filed H) (remove_rollback_state x sv original plan deploying)"
  unfolding remove_rollback_state_def reconcile_rollback_state_delete_def Let_def
  by (auto intro!: io_keeps_steps files filed_looks split: sum.split option.split)

lemma rollback_namespace_files [files]: "io_keeps (filed H) (rollback_namespace x sv ns progress)"
  unfolding rollback_namespace_def by (auto intro!: io_keeps_steps files split: prod.split)

lemma rollback_files [files]:
  "delete_closed H (tpl_name plan) \<Longrightarrow> io_keeps (filed H) (rollback_and_attach x sv error plan created deploying)"
  unfolding rollback_and_attach_def Let_def
  by (auto intro!: io_keeps_steps files filed_looks split: prod.split)

lemma final_save_failure_files [files]:
  "delete_closed H (tpl_name plan) \<Longrightarrow>
   io_keeps (filed H) (handle_final_deploy_save_failure x sv error plan created deploying)"
  unfolding handle_final_deploy_save_failure_def Let_def by (intro io_keeps_steps files filed_looks)

lemma finish_deploy_files [files]:
  assumes "delete_closed H (tpl_name plan)"
    and "\<And>s inventory. snapshot_for_plan x plan m created_at ''deployed'' inventory = Inr s \<Longrightarrow> save_closed H s"
  shows "io_keeps (filed H) (finish_deploy x sv plan m created_at deploying attempt)"
  unfolding finish_deploy_def
  by (auto intro!: io_keeps_bind io_keeps_bind_lift io_keeps_attempt io_keeps_raise io_keeps_return
      files assms split: prod.split sum.split)

lemma deploy_fresh_files [files]:
  assumes "delete_closed H (tpl_name plan)"
    and "\<And>s created_at status inventory. status \<in> {''deploying'', ''deployed''} \<Longrightarrow>
      snapshot_for_plan x plan m created_at status inventory = Inr s \<Longrightarrow> save_closed H s"
  shows "io_keeps (filed H) (deploy_fresh x sv plan m)"
  unfolding deploy_fresh_def
  by (auto intro!: io_keeps_bind io_keeps_seq io_keeps_bind_lift filed_looks io_keeps_raise files assms)

lemma destroy_namespaces_files [files]: "io_keeps (filed H) (destroy_namespaces x sv names progress)"
  by (induction names arbitrary: progress) (auto intro!: io_keeps_steps files split: sum.split prod.split)

lemma destroy_resources_files [files]: "io_keeps (filed H) (destroy_resources x sv plan name)"
  unfolding destroy_resources_def
  by (auto intro!: io_keeps_steps files filed_looks split: prod.split)

lemma final_delete_files [files]:
  "delete_closed H (tpl_name plan) \<Longrightarrow> io_keeps (filed H) (delete_final_state x sv plan destroying)"
  unfolding delete_final_state_def handle_final_delete_failure_def Let_def
  by (auto intro!: io_keeps_steps files filed_looks split: sum.split)

lemma destroy_present_files [files]:
  assumes "delete_closed H name"
    and "ss_name current = name \<Longrightarrow> save_closed H (current\<lparr>ss_status := ''destroying''\<rparr>)"
  shows "io_keeps (filed H) (destroy_present x sv name current)"
proof -
  have plan: "delete_closed H (tpl_name plan)"
    if "require_snapshot_identity current name = Inr ()" "plan_from_snapshot x current = Inr plan" for plan
    using that plan_from_snapshot_confined assms(1) by (auto simp: require_snapshot_identity_def split: if_splits)
  have name: "require_snapshot_identity current name = Inr () \<Longrightarrow> ss_name current = name"
    by (auto simp: require_snapshot_identity_def split: if_splits)
  show ?thesis
    unfolding destroy_present_def Let_def
    by (auto intro!: io_keeps_seq_lift io_keeps_bind_lift io_keeps_bind io_keeps_seq io_keeps_raise
        io_keeps_return files assms(2) plan name split: prod.split option.split)
qed

text \<open>The phase of one deployment stays within a set.\<close>

definition phase_in :: "string \<Rightarrow> phase set \<Rightarrow> (string \<Rightarrow> 'e option) \<Rightarrow> bool" where
  "phase_in name S e \<longleftrightarrow> phase_of decode (e name) \<in> S"

lemma encoded_phase:
  "encodes s c \<Longrightarrow> built_snapshot s \<Longrightarrow> phase_of decode (Some c) = phase_of_status (ss_status s)"
  using decode_encoded [of s c] by (auto simp: phase_of_def)

lemma save_phase_in:
  "built_snapshot s \<Longrightarrow> phase_of_status (ss_status s) \<in> S \<Longrightarrow> save_closed (phase_in name S) s"
  by (auto simp: save_closed_def phase_in_def encoded_phase)

lemma delete_phase_in: "Absent \<in> S \<Longrightarrow> delete_closed (phase_in name S) name'"
  by (auto simp: delete_closed_def phase_in_def)

lemma deploy_fresh_phases:
  "io_keeps (filed (phase_in (tpl_name plan) {Absent, Deploying, Deployed})) (deploy_fresh x sv plan m)"
  by (rule deploy_fresh_files)
    (auto intro!: delete_phase_in save_phase_in dest!: snapshot_for_plan_fields simp: phase_of_status_def)

lemma destroy_present_phases:
  assumes "built_snapshot current"
  shows "io_keeps (filed (phase_in name {Deployed, Destroying, Absent})) (destroy_present x sv name current)"
proof (rule destroy_present_files)
  have "built_snapshot (current\<lparr>ss_status := ''destroying''\<rparr>)" using assms by (simp add: built_snapshot_def)
  then show "save_closed (phase_in name {Deployed, Destroying, Absent}) (current\<lparr>ss_status := ''destroying''\<rparr>)"
    by (rule save_phase_in) (simp add: phase_of_status_def)
qed (simp add: delete_phase_in)

section \<open>Deploy\<close>

text \<open>The deployment is in place: verified, and recorded as deployed.\<close>

definition in_place :: "topology_plan \<Rightarrow> 'n \<times> 'd \<Rightarrow> bool" where
  "in_place plan w \<longleftrightarrow> inventory_matches_plan x plan (observe (fst w) plan) = Inr True \<and>
     (\<exists>c s. entry (snd w) (tpl_name plan) = Some c \<and> decode c = Some s \<and> ss_name s = tpl_name plan \<and>
        ss_fingerprint s = tpl_fingerprint plan \<and> ss_status s = ''deployed'')"

lemma same_in_place: "same w w' \<Longrightarrow> in_place plan w' = in_place plan w"
  by (simp add: in_place_def same_entry same_observe)

lemma routing_ready_wp:
  "sound (snd w) \<Longrightarrow> io_wp (routing_ready sv plan) (\<lambda>_. same w) (\<lambda>_. same w) w"
  by (rule looks_wp) (rule same_looks)

lemma deploy_existing_wp:
  assumes s: "sound (snd w)"
  shows "io_wp (deploy_existing x sv plan current)
    (\<lambda>r w'. same w w' \<and> \<not> lr_changed r \<and> inventory_matches_plan x plan (observe (fst w) plan) = Inr True \<and>
       ss_name current = tpl_name plan \<and> ss_status current = ''deployed'' \<and>
       ss_fingerprint current = tpl_fingerprint plan)
    (\<lambda>_. same w) w"
proof -
  have looks: "io_wp (deploy_existing x sv plan current) (\<lambda>_. same w) (\<lambda>_. same w) w"
    by (rule looks_wp [OF deploy_existing_looks [OF stable_same] s])
  have "io_wp (deploy_existing x sv plan current)
    (\<lambda>r w'. \<not> lr_changed r \<and> inventory_matches_plan x plan (observe (fst w) plan) = Inr True \<and>
       ss_name current = tpl_name plan \<and> ss_status current = ''deployed'' \<and>
       ss_fingerprint current = tpl_fingerprint plan)
    (\<lambda>_ _. True) w"
    unfolding deploy_existing_def require_snapshot_identity_def require_stable_snapshot_def
    apply (simp add: wp_simps same_refl s and_then_def deploy_result_def split: sum.split if_split)
    apply (intro impI allI)
    apply (rule io_wp_mono [OF inventory_wp [OF s]])
     apply (auto simp: wp_simps deploy_result_def split: sum.split intro: io_wp_mono [OF routing_ready_wp] dest!: same_sound)
    done
  from io_wp_conj [OF looks this] show ?thesis by (rule io_wp_mono) auto
qed

lemma verify_topology_wp:
  assumes s: "sound (snd w)"
  shows "io_wp (verify_topology x sv plan)
    (\<lambda>_ w'. inventory_matches_plan x plan (observe (fst w') plan) = Inr True) (\<lambda>_ _. True) w"
  unfolding verify_topology_def io_wp_bind
  apply (rule io_wp_mono [OF inventory_wp [OF s]])
   apply (auto simp: wp_simps and_then_def same_def undisturbed_def split: sum.split
      intro!: io_wp_mono [OF routing_ready_wp])
  done

lemma deploy_attempt_wp:
  assumes s: "sound (snd w)"
  shows "io_wp (deploy_attempt x sv plan)
    (\<lambda>(created, r) w'. sound (snd w') \<and> entry (snd w') = entry (snd w) \<and>
       (case r of Inl e \<Rightarrow> True | Inr i \<Rightarrow> inventory_matches_plan x plan (observe (fst w') plan) = Inr True))
    (\<lambda>_ w'. sound (snd w') \<and> entry (snd w') = entry (snd w)) w"
proof -
  let ?H = "\<lambda>e. e = entry (snd w)"
  have start: "filed ?H w" using s by (simp add: filed_def)
  have files: "io_wp (deploy_attempt x sv plan) (\<lambda>_. filed ?H) (\<lambda>_. filed ?H) w"
    by (rule io_keeps_wp [OF deploy_attempt_files start])
  have created: "io_wp (create_namespaces sv nodes created) (\<lambda>_. filed ?H) (\<lambda>_. filed ?H) w" for nodes created
    by (rule io_keeps_wp [OF create_namespaces_files start])
  have built: "filed ?H w1 \<Longrightarrow> io_wp (build_topology sv plan) (\<lambda>_. filed ?H) (\<lambda>_. filed ?H) w1" for w1
    by (rule io_keeps_wp [OF build_topology_files])
  have "io_wp (deploy_attempt x sv plan)
    (\<lambda>(created, r) w'. case r of Inl e \<Rightarrow> True | Inr i \<Rightarrow>
       inventory_matches_plan x plan (observe (fst w') plan) = Inr True) (\<lambda>_ _. True) w"
    unfolding deploy_attempt_def io_wp_bind
    apply (rule io_wp_mono [OF created])
     apply (auto simp: wp_simps split: prod.split sum.split)
    apply (rule io_wp_mono [OF built], assumption)
     apply (auto simp: filed_def intro!: io_wp_mono [OF verify_topology_wp])
    done
  from io_wp_conj [OF files this] show ?thesis
    by (rule io_wp_mono) (auto simp: filed_def)
qed

lemma recorded_in_place:
  assumes "stored_as w s w'" and "built_snapshot s"
    and "ss_name s = tpl_name plan" and "ss_fingerprint s = tpl_fingerprint plan" and "ss_status s = ''deployed''"
    and "inventory_matches_plan x plan (observe (fst w) plan) = Inr True"
  shows "in_place plan w'"
proof -
  obtain c where c: "encodes s c" "entry (snd w') = (entry (snd w))(ss_name s := Some c)" "fst w' = fst w"
    using assms(1) by (auto simp: stored_as_def)
  obtain s' where "decode c = Some s'" "ss_name s' = ss_name s" "ss_status s' = ss_status s"
    "ss_fingerprint s' = ss_fingerprint s"
    using decode_encoded [OF c(1) assms(2)] by blast
  then show ?thesis using assms c by (simp add: in_place_def)
qed

lemma finish_deploy_wp:
  assumes s: "sound (snd w)"
    and r: "\<And>i. snd attempt = Inr i \<Longrightarrow> inventory_matches_plan x plan (observe (fst w) plan) = Inr True"
  shows "io_wp (finish_deploy x sv plan m created_at deploying attempt)
    (\<lambda>res w'. lr_changed res \<and> in_place plan w') (\<lambda>_ _. True) w"
proof (cases "snd attempt")
  case (Inl e)
  then show ?thesis by (cases attempt) (simp add: finish_deploy_def wp_simps io_wp_any)
next
  case (Inr i)
  note m = r [OF Inr]
  show ?thesis
    unfolding finish_deploy_def
    using Inr
    by (cases attempt) (auto simp: wp_simps io_wp_any deploy_result_def m split: sum.split
        intro!: io_wp_mono [OF save_wp [OF s]] recorded_in_place dest!: snapshot_for_plan_fields)
qed

lemma deploy_fresh_wp:
  assumes s: "sound (snd w)"
  shows "io_wp (deploy_fresh x sv plan m) (\<lambda>r w'. lr_changed r \<and> in_place plan w') (\<lambda>_ _. True) w"
proof -
  have attempt: "io_wp (deploy_attempt x sv plan)
      (\<lambda>a w'. io_wp (finish_deploy x sv plan m t d a) (\<lambda>r w'. lr_changed r \<and> in_place plan w') (\<lambda>_ _. True) w')
      (\<lambda>_ _. True) w1" if "sound (snd w1)" for t d w1
    by (rule io_wp_mono [OF deploy_attempt_wp [OF that]]) (auto intro: finish_deploy_wp)
  have initial: "io_wp (save_initial_transition x sv d plan) (\<lambda>_ w'. sound (snd w')) (\<lambda>_ _. True) w1"
    if "sound (snd w1)" for d w1
  proof -
    have "io_keeps (filed (\<lambda>_. True)) (save_initial_transition x sv d plan)"
      by (rule save_initial_files) (simp add: save_closed_def)
    from sound_wp [OF this that] show ?thesis by (rule io_wp_mono) simp_all
  qed
  have time: "io_wp (sv_timestamp sv) (\<lambda>_. same w1) (\<lambda>_. same w1) w1" if "sound (snd w1)" for w1
    by (rule looks_wp [OF timestamp_looks [OF stable_same] that])
  show ?thesis
    unfolding deploy_fresh_def io_wp_bind
    apply (rule io_wp_mono [OF inventory_wp [OF s]])
     apply (auto simp: wp_simps dest!: same_sound intro!: io_wp_mono [OF time] split: sum.split)
    apply (rule io_wp_mono [OF initial])
      apply (auto dest!: same_sound intro: attempt)
    done
qed

text \<open>A namespace that is there already stops a deployment before it changes anything.\<close>

lemma deploy_fresh_refuses:
  assumes s: "sound (snd w)" and ns: "ns \<in> plan_namespaces plan" "view (fst w) ns \<noteq> None"
  shows "io_wp (deploy_fresh x sv plan m) (\<lambda>_ _. False) (\<lambda>_. same w) w"
proof -
  have "\<not> inventory_is_absent plan (observe (fst w) plan)" using absent_view [of plan "fst w" ns] ns by auto
  then show ?thesis
    unfolding deploy_fresh_def io_wp_bind
    by (intro io_wp_mono [OF inventory_wp [OF s]]) (simp_all add: wp_simps)
qed

lemma validation_wp:
  assumes "sound (snd w)"
  shows "io_wp (if validated then io_return () else io_lift (validate_plan_manifest x plan m))
    (\<lambda>_ w'. w' = w) (\<lambda>_. same w) w"
  using assms by (auto simp: wp_simps same_refl split: sum.split)

lemma deploy_locked_wp:
  assumes s: "sound (snd w)"
  shows "io_wp (deploy_locked x sv plan m validated)
    (\<lambda>r w'. in_place plan w' \<and> (lr_changed r \<longleftrightarrow> entry (snd w) (tpl_name plan) = None)) (\<lambda>_ _. True) w"
  unfolding deploy_locked_def io_wp_seq
  apply (rule io_wp_mono [OF validation_wp [OF s]])
   apply (simp add: wp_simps)
   apply (rule io_wp_mono [OF load_wp [OF s]])
    apply (auto split: option.split dest: same_sound intro!: io_wp_mono [OF deploy_fresh_wp])
  apply (rule io_wp_mono [OF deploy_existing_wp])
    apply (auto simp: in_place_def same_def undisturbed_def)
  done

text \<open>A recorded deployment is never changed by \<open>deploy\<close>.\<close>

lemma deploy_locked_existing:
  assumes s: "sound (snd w)" and e: "entry (snd w) (tpl_name plan) \<noteq> None"
  shows "io_wp (deploy_locked x sv plan m validated) (\<lambda>r. same w) (\<lambda>_. same w) w"
  unfolding deploy_locked_def io_wp_seq
  apply (rule io_wp_mono [OF validation_wp [OF s]])
   apply (simp add: wp_simps)
   apply (rule io_wp_mono [OF load_wp [OF s]])
    apply (auto split: option.split simp: e)
  apply (rule io_wp_mono [OF deploy_existing_wp])
    apply (auto dest: same_sound same_trans)
  done

lemma deploy_locked_refuses:
  assumes s: "sound (snd w)" and e: "entry (snd w) (tpl_name plan) = None"
    and ns: "ns \<in> plan_namespaces plan" "view (fst w) ns \<noteq> None"
  shows "io_wp (deploy_locked x sv plan m validated) (\<lambda>_ _. False) (\<lambda>_. same w) w"
  unfolding deploy_locked_def io_wp_seq
  apply (rule io_wp_mono [OF validation_wp [OF s]])
   apply (simp add: wp_simps)
   apply (rule io_wp_mono [OF load_wp [OF s]])
    apply (auto split: option.split simp: e)
  apply (rule io_wp_mono [OF deploy_fresh_refuses [OF _ ns(1)]])
     apply (use ns in \<open>auto simp: same_def undisturbed_def\<close>)
  done

section \<open>Rollback\<close>

lemma gate_wp:
  assumes s: "sound (snd w)"
  shows "io_wp (delete_gate_for x sv plan expected) (\<lambda>_. same w) (\<lambda>_. same w) w"
  by (rule looks_wp [OF delete_gate_looks [OF stable_same] s])

lemma raise_interrupt_wp:
  "sound (snd w) \<Longrightarrow> io_wp (raise_delete_retry_interrupt x sv i e1 e2 gate plan expected)
     (\<lambda>_ _. False) (\<lambda>_. same w) w"
  unfolding raise_delete_retry_interrupt_def
  by (auto simp: wp_simps intro!: io_wp_mono [OF gate_wp])

text \<open>Whatever the clean-up of the state file reports, \<open>True\<close> means that it is gone.\<close>

lemma reconcile_rollback_wp:
  assumes s: "sound (snd w)"
  shows "io_wp (reconcile_rollback_state_delete x sv original e plan deploying)
    (\<lambda>(gone, _) w'. looked (fst w) (fst w') \<and> (gone \<longrightarrow> entry (snd w') (tpl_name plan) = None))
    (\<lambda>_ _. True) w"
  unfolding reconcile_rollback_state_delete_def Let_def
  apply (simp add: wp_simps)
  apply (intro impI io_wp_mono [OF gate_wp [OF s]])
   apply (auto simp: wp_simps same_def undisturbed_def split: sum.split)
  apply (rule io_wp_mono [OF delete_wp])
    apply (auto simp: wp_simps same_def undisturbed_def removed_def io_wp_any split: sum.split
      intro!: io_wp_mono [OF gate_wp] io_wp_mono [OF raise_interrupt_wp])
  done

lemma remove_rollback_wp:
  assumes s: "sound (snd w)"
  shows "io_wp (remove_rollback_state x sv original plan deploying)
    (\<lambda>(gone, _) w'. looked (fst w) (fst w') \<and> (gone \<longrightarrow> entry (snd w') (tpl_name plan) = None))
    (\<lambda>_ _. True) w"
  unfolding remove_rollback_state_def io_wp_bind io_wp_attempt
  apply (rule io_wp_mono [OF load_wp [OF s]])
   apply (auto simp: wp_simps same_def undisturbed_def split: option.split)
  apply (rule io_wp_mono [OF delete_wp])
    apply (auto simp: wp_simps same_def undisturbed_def removed_def)
   apply (rule io_wp_mono [OF reconcile_rollback_wp], auto simp: undisturbed_def)+
  done

lemma rollback_wp:
  assumes s: "sound (snd w)"
  shows "io_wp (rollback_and_attach x sv error plan created deploying)
    (\<lambda>e' w'. attached e' ''rollback_complete'' = Some (PBool True) \<longrightarrow>
       entry (snd w') (tpl_name plan) = None \<and> inventory_is_absent plan (observe (fst w') plan))
    (\<lambda>_ _. True) w"
proof -
  have folded: "io_keeps (filed (\<lambda>_. True)) (io_fold (rollback_namespace x sv) names progress)" for names progress
    by (intro io_keeps_fold rollback_namespace_files)
  show ?thesis
    unfolding rollback_and_attach_def io_wp_bind
    apply (rule io_wp_mono [OF sound_wp [OF rollback_routing_looks [OF stable_filed] s]])
     apply (rule io_wp_mono [OF sound_wp [OF folded]], assumption)
      apply (auto simp: wp_simps)
    apply (rule io_wp_mono [OF inventory_wp])
      apply (auto simp: wp_simps Let_def)
    apply (rule io_wp_mono [OF remove_rollback_wp])
      apply (auto simp: wp_simps same_def undisturbed_def)
    done
qed

section \<open>Destroy\<close>

lemma final_delete_failure_wp:
  assumes s: "sound (snd w)"
  shows "io_wp (handle_final_delete_failure x sv e plan destroying)
    (\<lambda>_ w'. looked (fst w) (fst w') \<and> entry (snd w') (tpl_name plan) = None) (\<lambda>_ _. True) w"
  unfolding handle_final_delete_failure_def Let_def
  apply (simp add: wp_simps)
  apply (intro impI io_wp_mono [OF gate_wp [OF s]])
   apply (auto simp: wp_simps same_def undisturbed_def)
  apply (rule io_wp_mono [OF delete_wp])
    apply (auto simp: wp_simps same_def undisturbed_def removed_def
      intro!: io_wp_mono [OF raise_interrupt_wp] io_wp_mono [OF gate_wp])
  done

lemma final_delete_wp:
  assumes s: "sound (snd w)"
  shows "io_wp (delete_final_state x sv plan destroying)
    (\<lambda>_ w'. looked (fst w) (fst w') \<and> entry (snd w') (tpl_name plan) = None) (\<lambda>_ _. True) w"
  unfolding delete_final_state_def io_wp_bind io_wp_attempt
  apply (rule io_wp_mono [OF delete_wp [OF s]])
   apply (auto simp: wp_simps removed_def same_def undisturbed_def)
   apply (rule io_wp_mono [OF final_delete_failure_wp], auto simp: undisturbed_def)+
  done

lemma destroy_resources_wp:
  assumes s: "sound (snd w)"
  shows "io_wp (destroy_resources x sv plan name)
    (\<lambda>(entries, err) w'. sound (snd w') \<and> (err = None \<longrightarrow> inventory_is_absent plan (observe (fst w') plan)))
    (\<lambda>_ _. True) w"
  unfolding destroy_resources_def io_wp_bind
  apply (rule io_wp_mono [OF sound_wp [OF destroy_routing_looks [OF stable_filed] s]])
   apply (rule io_wp_mono [OF sound_wp [OF destroy_namespaces_files]], assumption)
    apply (auto simp: wp_simps)
  apply (rule io_wp_mono [OF inventory_wp])
    apply (auto simp: wp_simps same_def undisturbed_def split: option.splits if_splits)
  done

lemma save_initial_wp:
  assumes "sound (snd w)"
  shows "io_wp (save_initial_transition x sv s plan) (\<lambda>_ w'. sound (snd w')) (\<lambda>_ w'. sound (snd w')) w"
  by (rule sound_wp [OF save_initial_files assms]) (simp add: save_closed_def)

lemma destroy_present_wp:
  assumes s: "sound (snd w)"
  shows "io_wp (destroy_present x sv name current)
    (\<lambda>r w'. lr_changed r \<and> entry (snd w') name = None \<and>
       (\<exists>p. plan_from_snapshot x current = Inr p \<and> inventory_is_absent p (observe (fst w') p)))
    (\<lambda>_ _. True) w"
proof -
  have rest: "io_wp (io_seq (save_initial_transition x sv d plan)
      (io_bind (destroy_resources x sv plan name) (\<lambda>(entries, first_error). case first_error of
        Some e \<Rightarrow> io_raise (attach e ''cleanup'' (PList entries))
      | None \<Rightarrow> io_seq (delete_final_state x sv plan d)
          (io_return (destroy_result name True ''destroyed topology: '')))))
    (\<lambda>r w'. lr_changed r \<and> entry (snd w') name = None \<and> inventory_is_absent plan (observe (fst w') plan))
    (\<lambda>_ _. True) w" if "tpl_name plan = name" for plan d
    unfolding io_wp_seq io_wp_bind
    apply (rule io_wp_mono [OF save_initial_wp [OF s]])
     apply (rule io_wp_mono [OF destroy_resources_wp], assumption)
      apply (auto simp: wp_simps destroy_result_def split: option.split)
    apply (rule io_wp_mono [OF final_delete_wp])
      apply (auto simp: undisturbed_def that)
    done
  show ?thesis
    unfolding destroy_present_def Let_def require_stable_snapshot_def require_snapshot_identity_def
    by (auto simp: wp_simps dest!: plan_from_snapshot_confined split: sum.split
        intro!: io_wp_mono [OF rest [unfolded wp_simps]])
qed

text \<open>What destroy achieved, when it returns: nothing is recorded, and the plan's resources are gone.\<close>

definition cleared :: "string \<Rightarrow> topology_plan option \<Rightarrow> 'e option \<Rightarrow> lifecycle_result \<Rightarrow> 'n \<times> 'd \<Rightarrow> bool" where
  "cleared name plan before r w \<longleftrightarrow> entry (snd w) name = None \<and>
     (case before of
        None \<Rightarrow> \<not> lr_changed r \<and> (\<exists>p. plan = Some p \<and> tpl_name p = name \<and> inventory_is_absent p (observe (fst w) p))
      | Some c \<Rightarrow> lr_changed r \<and> (\<exists>s p. decode c = Some s \<and> plan_from_snapshot x s = Inr p \<and>
          inventory_is_absent p (observe (fst w) p)))"

lemma same_cleared: "same w w' \<Longrightarrow> cleared name plan before r w' = cleared name plan before r w"
  unfolding cleared_def same_entry by (simp only: same_entry same_observe)

lemma stop_routing_wp: "sound (snd w) \<Longrightarrow> io_wp (stop_routing sv plan) (\<lambda>_. same w) (\<lambda>_. same w) w"
  by (rule looks_wp) (rule same_looks)

lemma destroy_absent_wp:
  assumes s: "sound (snd w)"
  shows "io_wp (destroy_absent x sv plan name)
    (\<lambda>r w'. same w w' \<and> \<not> lr_changed r \<and> (\<exists>p. plan = Some p \<and> inventory_is_absent p (observe (fst w) p)))
    (\<lambda>_. same w) w"
proof (cases plan)
  case None
  then show ?thesis using s by (simp add: destroy_absent_def wp_simps same_refl)
next
  case (Some p)
  show ?thesis
    unfolding Some destroy_absent_def option.case io_wp_bind
    apply (rule io_wp_mono [OF inventory_wp [OF s]])
     apply (auto simp: wp_simps)
    apply (rule io_wp_mono [OF stop_routing_wp])
      apply (auto simp: wp_simps same_def undisturbed_def destroy_result_def)
    done
qed

lemma destroy_guard_wp:
  assumes "sound (snd w)"
  shows "io_wp (case plan of
        None \<Rightarrow> io_return ()
      | Some p \<Rightarrow> if tpl_name p \<noteq> name then io_raise (plan_name_mismatch name (tpl_name p)) else io_return ())
    (\<lambda>_ w'. w' = w \<and> (\<forall>p. plan = Some p \<longrightarrow> tpl_name p = name)) (\<lambda>_. same w) w"
  using assms by (auto simp: wp_simps same_refl split: option.split)

lemma destroy_locked_wp:
  assumes s: "sound (snd w)"
  shows "io_wp (destroy_locked x sv plan name) (cleared name plan (entry (snd w) name)) (\<lambda>_ _. True) w"
  unfolding destroy_locked_def io_wp_seq
  apply (rule io_wp_mono [OF destroy_guard_wp [OF s]])
   apply (simp add: wp_simps)
   apply (rule io_wp_mono [OF load_wp [OF s]])
    apply (auto split: option.split dest: same_sound)
   apply (rule io_wp_mono [OF destroy_absent_wp])
     apply (auto simp: cleared_def same_def undisturbed_def)
  apply (rule io_wp_mono [OF destroy_present_wp])
    apply (auto simp: cleared_def)
  done

text \<open>A deployment without a record, or whose record is not of a stable deployment, is left alone.\<close>

lemma destroy_present_unstable:
  assumes "sound (snd w)" and "ss_status current \<noteq> ''deployed''"
  shows "io_wp (destroy_present x sv name current) (\<lambda>_ _. False) (\<lambda>_. same w) w"
  using assms
  by (auto simp: destroy_present_def require_stable_snapshot_def wp_simps same_refl split: sum.split)

lemma destroy_locked_unstable:
  assumes s: "sound (snd w)" and p: "phase_of decode (entry (snd w) name) \<notin> {Absent, Deployed}"
  shows "io_wp (destroy_locked x sv plan name) (\<lambda>_ _. False) (\<lambda>_. same w) w"
  unfolding destroy_locked_def io_wp_seq
  apply (rule io_wp_mono [OF destroy_guard_wp [OF s]])
   apply (simp add: wp_simps)
   apply (rule io_wp_mono [OF load_wp [OF s]])
    apply (use p in \<open>auto split: option.split simp: phase_of_def phase_of_status_def\<close>)
  apply (rule io_wp_mono [OF destroy_present_unstable])
     apply (auto simp: same_def undisturbed_def)
  done

lemma destroy_locked_absent:
  assumes s: "sound (snd w)" and e: "entry (snd w) name = None"
  shows "io_wp (destroy_locked x sv plan name) (\<lambda>_. same w) (\<lambda>_. same w) w"
  unfolding destroy_locked_def io_wp_seq
  apply (rule io_wp_mono [OF destroy_guard_wp [OF s]])
   apply (simp add: wp_simps)
   apply (rule io_wp_mono [OF load_wp [OF s]])
    apply (auto split: option.split simp: e)
  apply (rule io_wp_mono [OF destroy_absent_wp])
    apply (auto simp: same_def undisturbed_def)
  done

section \<open>Phases\<close>

lemma deploy_locked_phases:
  "io_keeps (filed (phase_in (tpl_name plan) {Absent, Deploying, Deployed})) (deploy_locked x sv plan m validated)"
  unfolding deploy_locked_def
  by (auto intro!: io_keeps_steps filed_looks deploy_fresh_phases split: option.split)

lemma destroy_locked_phases:
  "io_keeps (filed (phase_in name {Deployed, Destroying, Absent})) (destroy_locked x sv plan name)"
proof -
  have rest: "io_keeps (filed (phase_in name {Deployed, Destroying, Absent}))
      (io_bind (sv_load sv name) (\<lambda>current. case current of
        None \<Rightarrow> destroy_absent x sv plan name | Some s \<Rightarrow> destroy_present x sv name s))"
  proof (rule io_keeps_bind_value [OF filed_looks(2)])
    fix w r w'
    assume w: "filed (phase_in name {Deployed, Destroying, Absent}) w" and l: "sv_load sv name w = (Inr r, w')"
    have "sound (snd w)" using w by (simp add: filed_def)
    from io_wp_InrD [OF load_wp [OF this] l]
    have built: "r = Some s \<Longrightarrow> built_snapshot s" for s using decoded_built by auto
    show "io_keeps (filed (phase_in name {Deployed, Destroying, Absent})) (case r of
        None \<Rightarrow> destroy_absent x sv plan name | Some s \<Rightarrow> destroy_present x sv name s)"
      by (auto intro!: filed_looks destroy_present_phases built split: option.split)
  qed
  show ?thesis
    unfolding destroy_locked_def
    by (rule io_keeps_seq [OF _ rest]) (auto split: option.split)
qed

section \<open>Under the lock\<close>

lemma locked_result:
  assumes s: "sound (snd w)" and f: "io_keeps (filed (\<lambda>_. True)) body"
    and body: "\<And>w1. same w w1 \<Longrightarrow> io_wp body Q (\<lambda>_ _. True) w1"
    and Q: "\<And>r w1 w2. Q r w1 \<Longrightarrow> same w1 w2 \<Longrightarrow> Q r w2"
  shows "io_wp (with_lock sv name body) Q (\<lambda>_ _. True) w"
proof -
  have "io_wp (with_lock sv name body) (\<lambda>r w'. Q r w' \<and> sound (snd w')) (\<lambda>_ _. True) w"
  proof (rule with_lock_wp [OF s, where E = "\<lambda>_ w'. sound (snd w')"])
    fix w1 assume w1: "same w w1"
    show "io_wp body (\<lambda>r w'. Q r w' \<and> sound (snd w')) (\<lambda>_ w'. sound (snd w')) w1"
      using io_wp_conj [OF body [OF w1] sound_wp [OF f same_sound [OF w1]]] by simp
  qed (auto intro: Q dest: same_sound)
  then show ?thesis by (rule io_wp_mono) auto
qed

lemma locked_same:
  assumes s: "sound (snd w)"
    and body: "\<And>w1. same w w1 \<Longrightarrow> io_wp body (\<lambda>r w'. same w1 w' \<and> R r) (\<lambda>_. same w1) w1"
  shows "io_wp (with_lock sv name body) (\<lambda>r w'. same w w' \<and> R r) (\<lambda>_. same w) w"
proof (rule with_lock_wp [OF s, where E = "\<lambda>_. same w"])
  fix w1 assume w1: "same w w1"
  show "io_wp body (\<lambda>r w'. same w w' \<and> R r) (\<lambda>_. same w) w1"
    by (rule io_wp_mono [OF body [OF w1]]) (auto intro: same_trans [OF w1])
qed (auto intro: same_trans dest: same_sound)

lemma locked_sound:
  "io_keeps (filed H) body \<Longrightarrow> io_keeps (filed H) (with_lock sv name body)"
  by (rule with_lock_keeps [OF stable_filed])

lemma deploy_locked_sound: "io_keeps (filed (\<lambda>_. True)) (deploy_locked x sv plan m validated)"
  unfolding deploy_locked_def
  by (auto intro!: io_keeps_steps filed_looks deploy_fresh_files split: option.split
      simp: delete_closed_def save_closed_def)

lemma destroy_locked_sound: "io_keeps (filed (\<lambda>_. True)) (destroy_locked x sv plan name)"
  unfolding destroy_locked_def
  by (auto intro!: io_keeps_steps filed_looks destroy_present_files split: option.split
      simp: delete_closed_def save_closed_def)

theorem deploy_wp:
  assumes "sound (snd w)"
  shows "io_wp (deploy x sv plan m)
    (\<lambda>r w'. in_place plan w' \<and> (lr_changed r \<longleftrightarrow> entry (snd w) (tpl_name plan) = None)) (\<lambda>_ _. True) w"
  unfolding deploy_def
proof (rule locked_result [OF assms deploy_locked_sound])
  fix w1 assume "same w w1"
  then show "io_wp (deploy_locked x sv plan m False)
    (\<lambda>r w'. in_place plan w' \<and> (lr_changed r \<longleftrightarrow> entry (snd w) (tpl_name plan) = None)) (\<lambda>_ _. True) w1"
    using deploy_locked_wp [of w1 plan m False] by (simp add: same_entry same_sound)
qed (simp add: same_in_place)

theorem deploy_existing_same:
  assumes "sound (snd w)" and "entry (snd w) (tpl_name plan) \<noteq> None"
  shows "io_wp (deploy x sv plan m) (\<lambda>_. same w) (\<lambda>_. same w) w"
proof -
  have "io_wp (deploy x sv plan m) (\<lambda>r w'. same w w' \<and> True) (\<lambda>_. same w) w"
    unfolding deploy_def
    by (rule locked_same [OF assms(1)]) (use deploy_locked_existing assms(2) in \<open>auto simp: same_entry same_sound\<close>)
  then show ?thesis by simp
qed

theorem deploy_refuses:
  assumes "sound (snd w)" and "entry (snd w) (tpl_name plan) = None"
    and "ns \<in> plan_namespaces plan" "view (fst w) ns \<noteq> None"
  shows "io_wp (deploy x sv plan m) (\<lambda>_ _. False) (\<lambda>_. same w) w"
proof -
  have "io_wp (deploy x sv plan m) (\<lambda>r w'. same w w' \<and> False) (\<lambda>_. same w) w"
    unfolding deploy_def
  proof (rule locked_same [OF assms(1)])
    fix w1 assume w1: "same w w1"
    have "io_wp (deploy_locked x sv plan m False) (\<lambda>_ _. False) (\<lambda>_. same w1) w1"
      by (rule deploy_locked_refuses [OF _ _ assms(3)])
        (use w1 assms in \<open>simp_all add: same_entry same_sound same_view\<close>)
    then show "io_wp (deploy_locked x sv plan m False) (\<lambda>r w'. same w1 w' \<and> False) (\<lambda>_. same w1) w1" by simp
  qed
  then show ?thesis by simp
qed

theorem destroy_wp:
  assumes "sound (snd w)"
  shows "io_wp (destroy x sv plan name) (cleared name plan (entry (snd w) name)) (\<lambda>_ _. True) w"
  unfolding destroy_def
proof (rule locked_result [OF assms destroy_locked_sound])
  fix w1 assume "same w w1"
  then show "io_wp (destroy_locked x sv plan name) (cleared name plan (entry (snd w) name)) (\<lambda>_ _. True) w1"
    using destroy_locked_wp [of w1 plan name] by (simp add: same_entry same_sound)
qed (simp add: same_cleared)

theorem destroy_unstable:
  assumes "sound (snd w)" and "phase_of decode (entry (snd w) name) \<notin> {Absent, Deployed}"
  shows "io_wp (destroy x sv plan name) (\<lambda>_ _. False) (\<lambda>_. same w) w"
proof -
  have "io_wp (destroy x sv plan name) (\<lambda>r w'. same w w' \<and> False) (\<lambda>_. same w) w"
    unfolding destroy_def
  proof (rule locked_same [OF assms(1)])
    fix w1 assume w1: "same w w1"
    show "io_wp (destroy_locked x sv plan name) (\<lambda>r w'. same w1 w' \<and> False) (\<lambda>_. same w1) w1"
      using destroy_locked_unstable [of w1 name plan] w1 assms by (simp add: same_entry same_sound)
  qed
  then show ?thesis by simp
qed

lemma redeploy_locked_sound: "io_keeps (filed (\<lambda>_. True)) (redeploy_locked x sv plan m)"
  unfolding redeploy_locked_def by (intro io_keeps_steps destroy_locked_sound deploy_locked_sound)

theorem redeploy_wp:
  assumes s: "sound (snd w)"
  shows "io_wp (redeploy x sv plan m) (\<lambda>_. in_place plan) (\<lambda>_ _. True) w"
  unfolding redeploy_def
proof (rule locked_result [OF s redeploy_locked_sound])
  fix w1 assume "same w w1"
  then have "sound (snd w1)" by (rule same_sound)
  then show "io_wp (redeploy_locked x sv plan m) (\<lambda>_. in_place plan) (\<lambda>_ _. True) w1"
    unfolding redeploy_locked_def
    by (auto simp: wp_simps split: sum.split
        intro!: io_wp_mono [OF sound_wp [OF destroy_locked_sound]] io_wp_mono [OF deploy_locked_wp])
qed (simp add: same_in_place)

end

end
