(* ===== verification/Lifecycle_Commands.thy ===== *)
theory Lifecycle_Commands
  imports Lifecycle_Outcomes
begin

text \<open>
  Sequences of lifecycle operations on any deployments, and the abstract machine they refine: the
  phases of one deployment with the steps between them. Every operation, however it ends, moves the
  state file of its deployment along a path of that machine, and leaves all other files alone.
\<close>

lemma io_keeps_snd: "io_keeps P m \<Longrightarrow> P w \<Longrightarrow> P (snd (m w))"
  unfolding io_keeps_def by blast

section \<open>Commands\<close>

datatype command =
    DeployCommand topology_plan manifest
  | DestroyCommand "topology_plan option" string
  | RedeployCommand topology_plan manifest

fun target :: "command \<Rightarrow> string" where
  "target (DeployCommand plan m) = tpl_name plan"
| "target (DestroyCommand plan name) = name"
| "target (RedeployCommand plan m) = tpl_name plan"

text \<open>The plan of a command is a Python object: its node dict has every key once.\<close>

fun proper_command :: "command \<Rightarrow> bool" where
  "proper_command (DeployCommand plan m) = distinct (dict_keys (tpl_nodes plan))"
| "proper_command (DestroyCommand plan name) = True"
| "proper_command (RedeployCommand plan m) = distinct (dict_keys (tpl_nodes plan))"

fun perform :: "ext \<Rightarrow> 'w services \<Rightarrow> command \<Rightarrow> ('w, lifecycle_result) io" where
  "perform x sv (DeployCommand plan m) = deploy x sv plan m"
| "perform x sv (DestroyCommand plan name) = destroy x sv plan name"
| "perform x sv (RedeployCommand plan m) = redeploy x sv plan m"

text \<open>The world after the commands, whatever each of them returned or raised.\<close>

fun run_commands :: "ext \<Rightarrow> 'w services \<Rightarrow> command list \<Rightarrow> 'w \<Rightarrow> 'w" where
  "run_commands x sv [] w = w"
| "run_commands x sv (command # commands) w =
     run_commands x sv commands (snd (perform x sv command w))"

section \<open>The machine of phases\<close>

inductive phase_step :: "phase \<Rightarrow> phase \<Rightarrow> bool" where
  begin_deploy: "phase_step Absent Deploying"
| commit_deploy: "phase_step Deploying Deployed"
| undo_deploy: "phase_step Deploying Absent"
| begin_destroy: "phase_step Deployed Destroying"
| finish_destroy: "phase_step Destroying Absent"

inductive_simps phase_step_from_Corrupt: "phase_step Corrupt p"
inductive_cases phase_step_to_Corrupt: "phase_step p Corrupt"

text \<open>The phases in which the code refuses to go on by itself.\<close>

definition interrupted :: "phase \<Rightarrow> bool" where
  "interrupted p \<longleftrightarrow> p \<in> {Deploying, Destroying, Corrupt}"

lemmas phase_steps = phase_step.intros

lemma phase_path:
  "p \<in> {Absent, Deploying, Deployed} \<Longrightarrow> phase_step\<^sup>*\<^sup>* Absent p"
  "p \<in> {Deployed, Destroying, Absent, Deploying} \<Longrightarrow> phase_step\<^sup>*\<^sup>* Deployed p"
proof -
  have a: "phase_step\<^sup>*\<^sup>* Absent Deploying" "phase_step\<^sup>*\<^sup>* Deployed Destroying"
    by (simp_all add: phase_steps r_into_rtranclp)
  have b: "phase_step\<^sup>*\<^sup>* Absent Deployed" "phase_step\<^sup>*\<^sup>* Deployed Absent"
    by (rule rtranclp.rtrancl_into_rtrancl [OF a(1) commit_deploy],
        rule rtranclp.rtrancl_into_rtrancl [OF a(2) finish_destroy])
  have c: "phase_step\<^sup>*\<^sup>* Deployed Deploying" by (rule rtranclp_trans [OF b(2) a(1)])
  show "p \<in> {Absent, Deploying, Deployed} \<Longrightarrow> phase_step\<^sup>*\<^sup>* Absent p" using a b by auto
  show "p \<in> {Deployed, Destroying, Absent, Deploying} \<Longrightarrow> phase_step\<^sup>*\<^sup>* Deployed p" using a b c by auto
qed

text \<open>A stored file never becomes corrupt: no step leads there.\<close>

lemma corrupt_only_from_corrupt: "phase_step\<^sup>*\<^sup>* p q \<Longrightarrow> q = Corrupt \<Longrightarrow> p = Corrupt"
  by (induction rule: rtranclp_induct) (auto elim: phase_step_to_Corrupt)

context lifecycle
begin

definition phase_at :: "'n \<times> 'd \<Rightarrow> string \<Rightarrow> phase" where
  "phase_at w name = phase_of decode (entry (snd w) name)"

lemma filed_phase_in: "filed (phase_in name S) w \<longleftrightarrow> sound (snd w) \<and> phase_at w name \<in> S"
  by (simp add: filed_def phase_in_def phase_at_def)

lemma same_phase: "same w w' \<Longrightarrow> phase_at w' name = phase_at w name"
  by (simp add: phase_at_def same_entry)

lemma phase_wp:
  assumes "io_keeps (filed (phase_in name S)) m" and "sound (snd w)" and "phase_at w name \<in> S"
  shows "io_wp m (\<lambda>_ w'. phase_at w' name \<in> S) (\<lambda>_ w'. phase_at w' name \<in> S) w"
  using io_keeps_wp [OF assms(1), of w] assms(2,3)
  by (auto simp: filed_phase_in elim: io_wp_mono)

lemma wp_snd: "io_wp m (\<lambda>_. P) (\<lambda>_. P) w \<Longrightarrow> P (snd (m w))"
  using io_wp_run [of m "\<lambda>_. P" "\<lambda>_. P" w] by (simp split: sum.splits)

text \<open>One command on its own deployment.\<close>

lemma deploy_phase:
  assumes s: "sound (snd w)"
  shows "phase_step\<^sup>*\<^sup>* (phase_at w (tpl_name plan)) (phase_at (snd (deploy x sv plan m w)) (tpl_name plan)) \<and>
    (interrupted (phase_at w (tpl_name plan)) \<longrightarrow>
     phase_at (snd (deploy x sv plan m w)) (tpl_name plan) = phase_at w (tpl_name plan))"
proof (cases "entry (snd w) (tpl_name plan)")
  case None
  then have p: "phase_at w (tpl_name plan) = Absent" by (simp add: phase_at_def)
  have "phase_at (snd (deploy x sv plan m w)) (tpl_name plan) \<in> {Absent, Deploying, Deployed}"
    unfolding deploy_def
    by (rule wp_snd, rule phase_wp [OF locked_sound [OF deploy_locked_phases] s]) (simp add: p)
  then show ?thesis using phase_path(1) by (auto simp: p interrupted_def)
next
  case (Some c)
  then have "same w (snd (deploy x sv plan m w))"
    by (intro wp_snd [of "deploy x sv plan m" "same w"] deploy_existing_same [OF s]) simp
  then show ?thesis by (simp add: same_phase)
qed

lemma destroy_phase:
  assumes s: "sound (snd w)"
  shows "phase_step\<^sup>*\<^sup>* (phase_at w name) (phase_at (snd (destroy x sv plan name w)) name) \<and>
    (interrupted (phase_at w name) \<longrightarrow> phase_at (snd (destroy x sv plan name w)) name = phase_at w name)"
proof (cases "phase_at w name \<in> {Absent, Deployed}")
  case False
  then have "same w (snd (destroy x sv plan name w))"
    by (intro wp_snd [of "destroy x sv plan name" "same w"] io_wp_mono [OF destroy_unstable [OF s, of name]])
      (auto simp: phase_at_def)
  then show ?thesis by (simp add: same_phase)
next
  case True
  show ?thesis
  proof (cases "phase_at w name = Absent")
    case a: True
    then have e: "entry (snd w) name = None" by (simp add: phase_at_def phase_of_Absent)
    have "io_wp (destroy x sv plan name) (\<lambda>r w'. same w w' \<and> True) (\<lambda>_. same w) w"
      unfolding destroy_def
      by (rule locked_same [OF s]) (use destroy_locked_absent e in \<open>auto simp: same_entry same_sound\<close>)
    then have "same w (snd (destroy x sv plan name w))"
      using wp_snd [of "destroy x sv plan name" "same w"] by simp
    then show ?thesis by (simp add: same_phase)
  next
    case False
    then have p: "phase_at w name = Deployed" using True by simp
    have "phase_at (snd (destroy x sv plan name w)) name \<in> {Deployed, Destroying, Absent}"
      unfolding destroy_def
      by (rule wp_snd, rule phase_wp [OF locked_sound [OF destroy_locked_phases] s]) (simp add: p)
    then show ?thesis using phase_path(2) by (auto simp: p interrupted_def)
  qed
qed

text \<open>The same for \<open>redeploy\<close>, which destroys and deploys under one lock.\<close>

definition moved :: "string \<Rightarrow> 'n \<times> 'd \<Rightarrow> 'n \<times> 'd \<Rightarrow> bool" where
  "moved name w w' \<longleftrightarrow> phase_step\<^sup>*\<^sup>* (phase_at w name) (phase_at w' name) \<and>
     (interrupted (phase_at w name) \<longrightarrow> phase_at w' name = phase_at w name)"

lemma moved_same: "same w w' \<Longrightarrow> moved name w w'"
  by (simp add: moved_def same_phase)

lemma moved_same_left: "same w w' \<Longrightarrow> moved name w' w'' = moved name w w''"
  and moved_same_right: "same w' w'' \<Longrightarrow> moved name w w'' = moved name w w'"
  by (simp_all add: moved_def same_phase)

text \<open>The first half ends in \<open>Absent\<close>, on a path from where it started.\<close>

lemma destroyed_phase:
  assumes s: "sound (snd w)"
  shows "io_wp (destroy_locked x sv plan name)
    (\<lambda>_ w'. sound (snd w') \<and> phase_at w' name = Absent \<and>
       phase_step\<^sup>*\<^sup>* (phase_at w name) Absent \<and> \<not> interrupted (phase_at w name))
    (\<lambda>_. moved name w) w"
proof -
  have gone: "io_wp (destroy_locked x sv plan name)
      (\<lambda>_ w'. sound (snd w') \<and> phase_at w' name = Absent) (\<lambda>_ _. True) w"
    by (rule io_wp_mono [OF io_wp_conj [OF destroy_locked_wp [OF s] sound_wp [OF destroy_locked_sound s]]])
      (auto simp: cleared_def phase_at_def)
  have "io_wp (destroy_locked x sv plan name) (\<lambda>_ w'. phase_step\<^sup>*\<^sup>* (phase_at w name) Absent \<and>
      \<not> interrupted (phase_at w name)) (\<lambda>_. moved name w) w"
  proof (cases "phase_at w name")
    case Absent
    then have e: "entry (snd w) name = None" by (simp add: phase_at_def phase_of_Absent)
    show ?thesis
      by (rule io_wp_mono [OF destroy_locked_absent [OF s e]]) (auto simp: Absent moved_same interrupted_def)
  next
    case Deployed
    show ?thesis
      by (rule io_wp_mono [OF phase_wp [OF destroy_locked_phases s]])
        (use phase_path(2) in \<open>auto simp: Deployed interrupted_def moved_def\<close>)
  qed (rule io_wp_mono [OF destroy_locked_unstable [OF s]], auto simp: phase_at_def moved_same)+
  from io_wp_conj [OF gone this] show ?thesis by (rule io_wp_mono) auto
qed

lemma redeploy_locked_moves:
  assumes s: "sound (snd w)"
  shows "io_wp (redeploy_locked x sv plan m) (\<lambda>_. moved (tpl_name plan) w) (\<lambda>_. moved (tpl_name plan) w) w"
proof -
  let ?n = "tpl_name plan"
  have again: "io_wp (deploy_locked x sv plan m True) (\<lambda>_. moved ?n w) (\<lambda>_. moved ?n w) w1"
    if w1: "sound (snd w1)" "phase_at w1 ?n = Absent" and start: "phase_step\<^sup>*\<^sup>* (phase_at w ?n) Absent"
      and calm: "\<not> interrupted (phase_at w ?n)" for w1
  proof -
    have "moved ?n w w'" if "phase_at w' ?n \<in> {Absent, Deploying, Deployed}" for w'
      using phase_path(1) [OF that] start calm by (auto simp: moved_def intro: rtranclp_trans)
    then show ?thesis
      by (intro io_wp_mono [OF phase_wp [OF deploy_locked_phases w1(1)]]) (auto simp: w1(2))
  qed
  show ?thesis
    unfolding redeploy_locked_def
    by (auto simp: wp_simps moved_same [OF same_refl [OF s]] split: sum.split
        intro!: io_wp_mono [OF destroyed_phase [OF s]] again)
qed

lemma redeploy_phase:
  assumes s: "sound (snd w)"
  shows "moved (tpl_name plan) w (snd (redeploy x sv plan m w))"
proof -
  let ?n = "tpl_name plan"
  have "io_wp (redeploy x sv plan m) (\<lambda>_ w'. moved ?n w w' \<and> sound (snd w')) (\<lambda>_. moved ?n w) w"
    unfolding redeploy_def
  proof (rule with_lock_wp [OF s, where E = "\<lambda>_ w'. moved ?n w w' \<and> sound (snd w')"])
    fix w1 assume w1: "same w w1"
    show "io_wp (redeploy_locked x sv plan m) (\<lambda>_ w'. moved ?n w w' \<and> sound (snd w'))
        (\<lambda>_ w'. moved ?n w w' \<and> sound (snd w')) w1"
      using io_wp_conj [OF redeploy_locked_moves [OF same_sound [OF w1]]
          sound_wp [OF redeploy_locked_sound same_sound [OF w1]]]
      by (simp add: moved_same_left [OF w1])
  qed (auto simp: moved_same moved_same_right dest: same_sound)
  then have "io_wp (redeploy x sv plan m) (\<lambda>_. moved ?n w) (\<lambda>_. moved ?n w) w"
    by (rule io_wp_mono) auto
  then show ?thesis by (rule wp_snd)
qed

section \<open>Sequences of commands\<close>

text \<open>A command leaves the entries of other deployments as they are, and the host sound.\<close>

lemma perform_others:
  assumes n: "name \<noteq> target command"
  shows "io_keeps (filed (\<lambda>e. e name = c)) (perform x sv command)"
proof -
  let ?H = "\<lambda>e. e name = c"
  have del: "delete_closed ?H k" if "k \<noteq> name" for k using that by (simp add: delete_closed_def)
  have save: "save_closed ?H s" if "ss_name s \<noteq> name" for s using that by (simp add: save_closed_def)
  have dep: "io_keeps (filed ?H) (deploy_locked x sv plan m validated)" if "tpl_name plan \<noteq> name" for plan m validated
    unfolding deploy_locked_def
    using that
    by (auto intro!: io_keeps_steps filed_looks deploy_fresh_files del save split: option.split
        dest!: snapshot_for_plan_fields)
  have des: "io_keeps (filed ?H) (destroy_locked x sv plan k)" if "k \<noteq> name" for plan k
    unfolding destroy_locked_def
    using that by (auto intro!: io_keeps_steps filed_looks destroy_present_files del save split: option.split)
  show ?thesis
  proof (cases command)
    case (DeployCommand plan m)
    then show ?thesis using n by (simp add: deploy_def locked_sound dep)
  next
    case (DestroyCommand plan k)
    then show ?thesis using n by (simp add: destroy_def locked_sound des)
  next
    case (RedeployCommand plan m)
    then have k: "tpl_name plan \<noteq> name" using n by simp
    have "io_keeps (filed ?H) (redeploy_locked x sv plan m)"
      unfolding redeploy_locked_def by (intro io_keeps_steps des dep k)
    then show ?thesis using RedeployCommand by (simp add: redeploy_def locked_sound)
  qed
qed

lemma perform_sound: "io_keeps (filed (\<lambda>_. True)) (perform x sv command)"
  by (cases command)
    (simp_all add: deploy_def destroy_def redeploy_def locked_sound deploy_locked_sound
      destroy_locked_sound redeploy_locked_sound)

lemma sound_perform: "sound (snd w) \<Longrightarrow> sound (snd (snd (perform x sv command w)))"
  using io_keeps_snd [OF perform_sound, of w command] by (simp add: filed_def)

lemma perform_phase:
  assumes s: "sound (snd w)"
  shows "moved name w (snd (perform x sv command w))"
proof (cases "target command = name")
  case False
  have "entry (snd (snd (perform x sv command w))) name = entry (snd w) name"
    using io_keeps_snd [OF perform_others [of name command "entry (snd w) name"], of w] False s
    by (auto simp: filed_def)
  then show ?thesis by (simp add: moved_def phase_at_def)
next
  case True
  then show ?thesis
    using deploy_phase [OF s] destroy_phase [OF s] redeploy_phase [OF s]
    by (cases command) (auto simp: moved_def)
qed

theorem run_phase:
  "sound (snd w) \<Longrightarrow> moved name w (run_commands x sv commands w)"
proof (induction commands arbitrary: w)
  case (Cons command commands)
  let ?w = "snd (perform x sv command w)"
  have "moved name w ?w" by (rule perform_phase [OF Cons.prems])
  moreover have "moved name ?w (run_commands x sv commands ?w)"
    by (rule Cons.IH [OF sound_perform [OF Cons.prems]])
  ultimately show ?case by (auto simp: moved_def intro: rtranclp_trans)
qed (simp add: moved_def)

text \<open>What lies outside a set of deployments is the same after any commands on them.\<close>

lemma perform_keeps:
  "proper_command command \<Longrightarrow> target command \<in> M \<Longrightarrow> (\<Union>name \<in> M. owned_namespaces x name) \<subseteq> N \<Longrightarrow>
   io_keeps (kept N v M e) (perform x sv command)"
  by (cases command) (auto intro!: deploy_keeps destroy_keeps redeploy_keeps)

theorem run_kept:
  assumes "\<forall>command \<in> set commands. proper_command command \<and> target command \<in> M"
    and "(\<Union>name \<in> M. owned_namespaces x name) \<subseteq> N" and "kept N v M e w"
  shows "kept N v M e (run_commands x sv commands w)"
  using assms(1,3)
proof (induction commands arbitrary: w)
  case (Cons command commands)
  then have "io_keeps (kept N v M e) (perform x sv command)"
    by (intro perform_keeps assms(2)) simp_all
  from io_keeps_snd [OF this Cons.prems(2)] have "kept N v M e (snd (perform x sv command w))" .
  then show ?case using Cons by simp
qed simp

end

end
