(* ===== verification/Fake_Facts.thy ===== *)
theory Fake_Facts
  imports Interfaces Fake_Backend
begin

text \<open>
  The in-memory backend keeps the laws of a network backend: every operation leaves the namespaces
  outside its own deployment as they are, because a veth pair never crosses the boundary, and the
  inventory shows what is there.
\<close>

definition fake_backend :: "fake backend" where
  "fake_backend = \<lparr>
     be_create_namespace = fake_create_namespace,
     be_delete_namespace = fake_delete_namespace,
     be_create_bridge = fake_create_bridge,
     be_create_veth = fake_create_veth,
     be_configure_node = fake_configure_node,
     be_start_routing = Some fake_start_routing,
     be_stop_routing = Some fake_stop_routing,
     be_routing_ready = Some fake_routing_ready,
     be_inventory = fake_inventory,
     be_execute = fake_execute\<rparr>"

definition fake_view :: "fake \<Rightarrow> string \<Rightarrow> fake_namespace option" where
  "fake_view w ns = dict_get (fk_namespaces w) ns"

definition fake_sealed :: "fake \<Rightarrow> string set \<Rightarrow> bool" where
  "fake_sealed w N \<longleftrightarrow> (\<forall>p \<in> set (fk_veth_peers w). fst (fst p) \<in> N \<longleftrightarrow> fst (snd p) \<in> N)"

abbreviation fake_outside :: "string set \<Rightarrow> (string \<Rightarrow> fake_namespace option) \<Rightarrow> fake \<Rightarrow> bool" where
  "fake_outside \<equiv> outside fake_view fake_sealed"

abbreviation fake_undisturbed :: "fake \<Rightarrow> fake \<Rightarrow> bool" where
  "fake_undisturbed \<equiv> undisturbed fake_view fake_sealed fake_live_inventory"

section \<open>Steps that keep the frame\<close>

text \<open>The fields the frame is about; an update of any other field keeps it.\<close>

lemma fake_outside_cong:
  "fk_namespaces w' = fk_namespaces w \<Longrightarrow> fk_veth_peers w' = fk_veth_peers w \<Longrightarrow>
   fake_outside N v w' = fake_outside N v w"
  by (simp add: outside_def fake_view_def fake_sealed_def)

named_theorems fake_frames \<open>operations of the backend that keep the frame\<close>

lemma fake_record_frame [fake_frames]: "io_keeps (fake_outside N v) (fake_record operation resource)"
  unfolding io_keeps_def fake_record_def Let_def
  by (auto simp: outside_def fake_view_def fake_sealed_def)

lemma allocate_frame [fake_frames]: "io_keeps (fake_outside N v) (allocate_ifindex ns)"
  unfolding io_keeps_def allocate_ifindex_def Let_def
  by (auto simp: outside_def fake_view_def fake_sealed_def)

lemma require_frame [fake_frames]: "io_keeps (fake_outside N v) (require_namespace ns operation resource)"
  by (simp add: io_keeps_def require_namespace_def)

lemma modify_namespace_outside:
  "ns \<in> N \<Longrightarrow> fake_outside N v w \<Longrightarrow> fake_outside N v (modify_namespace ns f w)"
  by (auto simp: outside_def fake_view_def fake_sealed_def modify_namespace_def split: option.split)

lemma modify_frame [fake_frames]:
  "ns \<in> N \<Longrightarrow> io_keeps (fake_outside N v) (io_modify (modify_namespace ns f))"
  by (intro io_keeps_modify modify_namespace_outside)

lemma insert_frame [fake_frames]: "ns \<in> N \<Longrightarrow> io_keeps (fake_outside N v) (insert_interface ns i)"
  by (auto simp: io_keeps_def insert_interface_def modify_namespace_outside)

lemma create_namespace_outside:
  "nd_namespace node \<in> N \<Longrightarrow> io_keeps (fake_outside N v) (fake_create_namespace node)"
  unfolding fake_create_namespace_def Let_def
  by (intro io_keeps_seq io_keeps_bind io_keeps_if io_keeps_lift io_keeps_get io_keeps_raise
      fake_frames; rule io_keeps_modify; simp add: outside_def fake_view_def fake_sealed_def)

section \<open>Removing a namespace\<close>

lemma remove_peer_frame: "fst peer \<in> N \<Longrightarrow> io_keeps (fake_outside N v) (remove_peer peer)"
  unfolding remove_peer_def
  by (intro io_keeps_bind io_keeps_get, rename_tac s, case_tac s)
    (auto intro!: io_keeps_seq io_keeps_bind io_keeps_lift fake_frames)

lemma dict_del_sealed:
  "fake_sealed w N \<Longrightarrow> fake_sealed (w\<lparr>fk_veth_peers := dict_del p (dict_del q (fk_veth_peers w))\<rparr>) N"
  by (auto simp: fake_sealed_def AList.delete_eq)

lemma remove_veth_frame:
  assumes "fst endpoint \<in> N"
  shows "io_keeps (fake_outside N v) (remove_veth endpoint)"
  unfolding remove_veth_def
proof (rule io_keeps_bind_get)
  fix w assume w: "fake_outside N v w"
  show "fake_outside N v (snd ((case dict_get (fk_veth_peers w) endpoint of
       None \<Rightarrow> io_return ()
     | Some p \<Rightarrow>
         io_seq (io_modify (\<lambda>w. w\<lparr>fk_veth_peers := dict_del p (dict_del endpoint (fk_veth_peers w))\<rparr>))
           (remove_peer p)) w))"
  proof (cases "dict_get (fk_veth_peers w) endpoint")
    case None
    then show ?thesis using w by simp
  next
    case (Some p)
    then have "(endpoint, p) \<in> set (fk_veth_peers w)" by (rule map_of_SomeD)
    then have p: "fst p \<in> N" using w assms by (auto simp: outside_def fake_sealed_def)
    have cut: "io_keeps (fake_outside N v) (io_modify (\<lambda>w. w\<lparr>fk_veth_peers :=
        dict_del p (dict_del endpoint (fk_veth_peers w))\<rparr>))"
      by (rule io_keeps_modify) (use dict_del_sealed in \<open>auto simp: outside_def fake_view_def\<close>)
    have "io_keeps (fake_outside N v)
        (io_seq (io_modify (\<lambda>w. w\<lparr>fk_veth_peers := dict_del p (dict_del endpoint (fk_veth_peers w))\<rparr>))
           (remove_peer p))"
      by (intro io_keeps_seq cut remove_peer_frame p)
    then show ?thesis using w by (simp add: Some io_keeps_def)
  qed
qed

lemma delete_namespace_outside:
  assumes "ns \<in> N"
  shows "io_keeps (fake_outside N v) (fake_delete_namespace ns)"
  unfolding fake_delete_namespace_def
proof (intro io_keeps_seq fake_frames io_keeps_bind_get)
  fix w assume w: "fake_outside N v w"
  let ?endpoints = "filter (\<lambda>e. fst e = ns) (dict_keys (fk_veth_peers w))"
  have "io_keeps (fake_outside N v) (io_for remove_veth ?endpoints)"
    by (intro io_keeps_for remove_veth_frame) (use assms in auto)
  moreover have "io_keeps (fake_outside N v) (io_modify (\<lambda>w. w\<lparr>
         fk_namespaces := dict_del ns (fk_namespaces w),
         fk_next_ifindex := dict_del ns (fk_next_ifindex w)\<rparr>))"
    by (rule io_keeps_modify) (use assms in \<open>auto simp: outside_def fake_view_def fake_sealed_def\<close>)
  ultimately have "io_keeps (fake_outside N v) (io_seq (io_for remove_veth ?endpoints)
      (io_modify (\<lambda>w. w\<lparr>
         fk_namespaces := dict_del ns (fk_namespaces w),
         fk_next_ifindex := dict_del ns (fk_next_ifindex w)\<rparr>)))"
    by (rule io_keeps_seq)
  then show "fake_outside N v (snd (io_seq (io_for remove_veth ?endpoints)
      (io_modify (\<lambda>w. w\<lparr>
         fk_namespaces := dict_del ns (fk_namespaces w),
         fk_next_ifindex := dict_del ns (fk_next_ifindex w)\<rparr>)) w))"
    using w by (simp add: io_keeps_def)
qed

section \<open>Bridges, veth pairs and nodes\<close>

lemma create_bridge_outside:
  "nd_namespace node \<in> N \<Longrightarrow> io_keeps (fake_outside N v) (fake_create_bridge node)"
  unfolding fake_create_bridge_def Let_def
  by (intro io_keeps_seq io_keeps_bind fake_frames)
    (auto intro!: io_keeps_bind fake_frames split: option.split node_kind.split)

lemma insert_endpoint_frame:
  "ep_namespace e \<in> N \<Longrightarrow> io_keeps (fake_outside N v) (insert_veth_endpoint e link link_id)"
  unfolding insert_veth_endpoint_def by (intro io_keeps_bind fake_frames)

lemma pair_sealed:
  assumes "fst p \<in> N" and "fst q \<in> N" and "fake_sealed w N"
  shows "fake_sealed (w\<lparr>fk_veth_peers := dict_set q p (dict_set p q (fk_veth_peers w))\<rparr>) N"
  using assms set_dict_set [of q p "dict_set p q (fk_veth_peers w)"] set_dict_set [of p q "fk_veth_peers w"]
  unfolding fake_sealed_def by fastforce

lemma create_veth_outside:
  assumes "link_namespaces link \<subseteq> N"
  shows "io_keeps (fake_outside N v) (fake_create_veth link)"
proof -
  have l: "ep_namespace (lk_left link) \<in> N" "ep_namespace (lk_right link) \<in> N"
    using assms by (simp_all add: link_namespaces_def)
  have pair: "io_keeps (fake_outside N v) (io_modify (\<lambda>w. w\<lparr>fk_veth_peers :=
      dict_set (ep_namespace (lk_right link), i) (ep_namespace (lk_left link), j)
        (dict_set (ep_namespace (lk_left link), j) (ep_namespace (lk_right link), i) (fk_veth_peers w))\<rparr>))" for i j
    by (rule io_keeps_modify)
      (use pair_sealed [of "(ep_namespace (lk_left link), j)" N "(ep_namespace (lk_right link), i)"] l in
        \<open>auto simp: outside_def fake_view_def\<close>)
  show ?thesis
    unfolding fake_create_veth_def Let_def
    by (intro io_keeps_seq io_keeps_bind io_keeps_if io_keeps_raise io_keeps_get fake_frames
        insert_endpoint_frame l pair;
        rule io_keeps_modify; simp add: outside_def fake_view_def fake_sealed_def)
qed

lemma add_interface_frame:
  "io_keeps (fake_outside N v) (add_interface resource link name mtu build interfaces)"
  unfolding add_interface_def
  by (intro io_keeps_if io_keeps_bind io_keeps_raise io_keeps_lift io_keeps_return fake_frames)

lemmas add_device_defs = add_vxlan_def add_dummy_def add_gre_def add_ipip_def add_geneve_def
  add_macvlan_def add_ipvlan_def add_bond_def add_vrf_def add_vlan_def

lemma add_device_frame: "io_keeps (fake_outside N v) (add_device node plan device interfaces)"
  by (cases device) (simp_all add: add_device_defs add_interface_frame)

lemma add_devices_frame: "io_keeps (fake_outside N v) (add_devices_of_kind node plan kind interfaces)"
  unfolding add_devices_of_kind_def
  by (intro io_keeps_fold io_keeps_if io_keeps_return add_device_frame)

lemma configure_interfaces_frame: "io_keeps (fake_outside N v) (configure_interfaces node plan interfaces)"
  unfolding configure_interfaces_def
  by (intro io_keeps_bind io_keeps_lift io_keeps_fold add_devices_frame)

lemma configure_node_outside:
  "nd_namespace node \<in> N \<Longrightarrow> io_keeps (fake_outside N v) (fake_configure_node node plan)"
  unfolding fake_configure_node_def Let_def
  by (intro io_keeps_seq io_keeps_bind io_keeps_lift configure_interfaces_frame fake_frames)

section \<open>Calls that only look\<close>

lemma undisturbed_cong:
  "fk_namespaces w' = fk_namespaces w \<Longrightarrow> fk_veth_peers w' = fk_veth_peers w \<Longrightarrow>
   fk_root_interfaces w' = fk_root_interfaces w \<Longrightarrow> fake_undisturbed w w'"
  by (simp add: undisturbed_def fake_view_def fake_sealed_def fun_eq_iff fake_live_inventory_def
      fake_namespace_inventory_def)

lemma fake_record_quiet:
  "io_wp (fake_record operation resource) (\<lambda>_. fake_undisturbed w) (\<lambda>_. fake_undisturbed w) w"
  by (simp add: io_wp_def fake_record_def Let_def undisturbed_cong)

lemma start_routing_quiet:
  "io_wp (fake_start_routing plan) (\<lambda>_. fake_undisturbed w) (\<lambda>_. fake_undisturbed w) w"
  unfolding fake_start_routing_def
  by (auto simp: wp_simps intro!: io_wp_mono [OF fake_record_quiet] elim!: undisturbed_trans
      intro: undisturbed_cong)

lemma stop_routing_quiet:
  "io_wp (fake_stop_routing plan) (\<lambda>_. fake_undisturbed w) (\<lambda>_. fake_undisturbed w) w"
  unfolding fake_stop_routing_def
  by (auto simp: wp_simps intro!: io_wp_mono [OF fake_record_quiet] elim!: undisturbed_trans
      intro: undisturbed_cong)

lemma routing_ready_quiet:
  "io_wp (fake_routing_ready plan) (\<lambda>_. fake_undisturbed w) (\<lambda>_. fake_undisturbed w) w"
  unfolding fake_routing_ready_def by (simp add: wp_simps)

lemma inventory_answer:
  "io_wp (fake_inventory plan) (\<lambda>i w'. i = fake_live_inventory w plan \<and> fake_undisturbed w w')
     (\<lambda>_. fake_undisturbed w) w"
  unfolding fake_inventory_def io_wp_seq
  by (rule io_wp_mono [OF fake_record_quiet]) (simp_all add: wp_simps undisturbed_def)

lemma live_namespace:
  assumes "ns \<in> plan_namespaces plan"
  obtains seen where "dict_get (li_namespaces (fake_live_inventory w plan)) ns = Some seen"
    and "ni_exists seen \<longleftrightarrow> fake_view w ns \<noteq> None"
proof -
  let ?ps = "map (\<lambda>node. (nd_namespace node, fake_namespace_inventory w node)) (plan_nodes plan)"
  have "ns \<in> set (dict_keys (dict_of ?ps))"
    unfolding dict_keys_of using assms by (simp add: plan_namespaces_def image_image)
  then obtain seen where o: "dict_get (dict_of ?ps) ns = Some seen" using dict_get_in_keys by metis
  then obtain node where "ns = nd_namespace node" "seen = fake_namespace_inventory w node"
    using subsetD [OF set_dict_of map_of_SomeD] by fastforce
  then have "ni_exists seen \<longleftrightarrow> fake_view w ns \<noteq> None"
    by (simp add: fake_namespace_inventory_def fake_view_def split: option.split)
  then show thesis using that o by (simp add: fake_live_inventory_def)
qed

lemma absent_view:
  assumes "inventory_is_absent plan (fake_live_inventory w plan)" and "ns \<in> plan_namespaces plan"
  shows "fake_view w ns = None"
proof -
  obtain seen where o: "dict_get (li_namespaces (fake_live_inventory w plan)) ns = Some seen"
    "ni_exists seen \<longleftrightarrow> fake_view w ns \<noteq> None"
    by (rule live_namespace [OF assms(2)])
  then show ?thesis using assms
    by (auto simp: inventory_is_absent_def list_all_iff namespace_absent_def plan_namespaces_def)
qed

lemma matching_view:
  assumes "inventory_matches_plan x plan (fake_live_inventory w plan) = Inr True"
    and "ns \<in> plan_namespaces plan"
  shows "fake_view w ns \<noteq> None"
proof -
  obtain seen where o: "dict_get (li_namespaces (fake_live_inventory w plan)) ns = Some seen"
    "ni_exists seen \<longleftrightarrow> fake_view w ns \<noteq> None"
    by (rule live_namespace [OF assms(2)])
  obtain node where node: "node \<in> set (plan_nodes plan)" "ns = nd_namespace node"
    using assms(2) by (auto simp: plan_namespaces_def)
  have "node_matches x plan (fake_live_inventory w plan) node = Inr True"
    using assms(1) node(1) res_all_TrueD
    by (fastforce simp: inventory_matches_plan_def res_bind_eq_Inr split: if_splits)
  then have "ni_exists seen" using o(1) node(2) by (simp add: node_matches_def split: if_splits)
  then show ?thesis using o(2) by simp
qed

section \<open>The laws\<close>

interpretation fake: network_backend x fake_backend fake_view fake_sealed fake_live_inventory for x
proof (unfold_locales, unfold fake_backend_def backend.simps, goal_cases)
  case (6 start plan N v)
  then show ?case
    using io_wp_run [OF start_routing_quiet] unfolding io_keeps_def
    by (fastforce simp: outside_def undisturbed_def fun_eq_iff split: sum.splits)
next
  case (9 plan n)
  show ?case by (rule inventory_answer)
qed (auto intro: create_namespace_outside delete_namespace_outside create_bridge_outside
    create_veth_outside configure_node_outside stop_routing_quiet routing_ready_quiet
    absent_view dest: matching_view)

end
