(* ===== verification/Disk_Host.thy ===== *)
theory Disk_Host
  imports Interfaces Lock
begin

text \<open>
  The state store, the deployment lock and the clock over the directory keep the laws of a host:
  what \<open>save\<close> writes \<open>load\<close> reads, and an exception that does not ask for a reconciliation means that
  nothing has changed.
\<close>

section \<open>The host\<close>

definition default_lock_timeout :: rat where
  "default_lock_timeout = 5"

definition disk_acquire :: "string \<Rightarrow> (disk, unit) io" where
  "disk_acquire name =
     io_bind (new_lock name default_lock_timeout) (\<lambda>lock.
     io_bind (lock_enter lock) (\<lambda>_. io_return ()))"

text \<open>The object the \<open>with\<close> statement entered is the one it leaves.\<close>

definition disk_release :: "string \<Rightarrow> bool \<Rightarrow> (disk, unit) io" where
  "disk_release name exception_active =
     io_bind (new_lock name default_lock_timeout) (\<lambda>lock.
     lock_exit (lock\<lparr>lo_descriptor := True\<rparr>) exception_active)"

definition disk_timestamp :: "(disk, string) io" where
  "disk_timestamp = io_get (\<lambda>w. dk_wall w (dk_calls w))"

definition disk_host :: "ext \<Rightarrow> disk host" where
  "disk_host x = \<lparr>
     ho_load = store_load x,
     ho_save = store_save x,
     ho_delete = store_delete,
     ho_acquire = disk_acquire,
     ho_release = disk_release,
     ho_timestamp = disk_timestamp\<rparr>"

section \<open>What an entry means\<close>

fun decode_content :: "ext \<Rightarrow> file_content \<Rightarrow> state_snapshot option" where
  "decode_content x (Document d) = (case from_dict x d of Inl e \<Rightarrow> None | Inr s \<Rightarrow> Some s)"
| "decode_content x (Unreadable t) = None"

definition encodes_content :: "ext \<Rightarrow> state_snapshot \<Rightarrow> file_content \<Rightarrow> bool" where
  "encodes_content x s c \<longleftrightarrow> (\<exists>v d. c = Document d \<and> from_dict x (pdict (to_dict x s)) = Inr v \<and>
     json_dumps (pdict (to_dict x v)) = Inr d)"

lemma serialize_encodes: "serialize x path s = Inr d \<Longrightarrow> encodes_content x s (Document d)"
  by (auto simp: serialize_def encodes_content_def res_bind_eq_Inr split: sum.splits)

lemma uncertain_codes:
  "durability_uncertain e \<or> outcome_unknown e \<Longrightarrow> requires_reconciliation e"
  by (cases e) (auto simp: durability_uncertain_def outcome_unknown_def requires_reconciliation_def
      uncertain_state_codes_def)

lemma decode_encoded:
  assumes "encodes_content x s c" and "built_snapshot s"
  shows "\<exists>s'. decode_content x c = Some s' \<and> snapshot_eq s' s \<and> ss_name s' = ss_name s \<and>
    ss_status s' = ss_status s \<and> ss_fingerprint s' = ss_fingerprint s"
proof -
  obtain v d where c: "c = Document d" "from_dict x (pdict (to_dict x s)) = Inr v"
    "json_dumps (pdict (to_dict x v)) = Inr d"
    using assms(1) by (auto simp: encodes_content_def)
  have s: "v = s" "valid_snapshot s" using from_to_dict_built [OF assms(2) c(2)] by simp_all
  obtain s' where "from_dict x d = Inr s'" "snapshot_eq s' s" "ss_name s' = ss_name s"
    "ss_status s' = ss_status s" "ss_fingerprint s' = ss_fingerprint s"
    by (rule reread_snapshot [OF s(2) c(3) [unfolded s(1)]])
  then show ?thesis by (simp add: c(1))
qed

lemma decoded_built: "decode_content x c = Some s \<Longrightarrow> built_snapshot s"
  by (cases c) (auto split: sum.splits dest!: from_dict_valid simp: valid_snapshot_def built_snapshot_def)

lemma settled_sound: "foreign_faults w \<Longrightarrow> settled w w' \<Longrightarrow> foreign_faults w' \<and> stored w' = stored w"
  by (simp add: foreign_faults_settled) (simp add: settled_def)

lemma updated_sound:
  "foreign_faults w \<Longrightarrow> updated w n c w' \<Longrightarrow> foreign_faults w' \<and> stored w' = (stored w)(n := c)"
  by (simp add: foreign_faults_updated) (simp add: updated_def)

lemma told_sound:
  "foreign_faults w \<Longrightarrow> told w n c e w' \<Longrightarrow> foreign_faults w' \<and> (stored w' = stored w \<or>
     requires_reconciliation e \<and> stored w' = (stored w)(n := c))"
  using uncertain_codes [of e]
  by (auto simp: told_def dest: settled_sound updated_sound split: if_splits)

lemma disk_acquire_wp:
  assumes "foreign_faults w"
  shows "io_wp (disk_acquire name) (\<lambda>_. settled w) (\<lambda>_. settled w) w"
proof (cases "name_pattern name")
  case False
  then show ?thesis
    by (simp add: io_wp_def disk_acquire_def io_bind_def new_lock_def validate_deployment_name_def)
next
  case True
  define lock where "lock = \<lparr>lo_name = name, lo_path = lock_path (dk_root w) name,
     lo_timeout = max 0 default_lock_timeout, lo_descriptor = False\<rparr>"
  have new: "new_lock name default_lock_timeout w = (Inr lock, w)"
    using True by (simp add: new_lock_def validate_deployment_name_def lock_def)
  have "io_wp (lock_enter lock) (\<lambda>_. settled w) (\<lambda>_. settled w) w"
    by (rule io_wp_mono [OF lock_enter_wp [OF assms]]) (simp_all add: lock_def True default_lock_timeout_def)
  then have "io_wp (io_bind (lock_enter lock) (\<lambda>_. io_return ())) (\<lambda>_. settled w) (\<lambda>_. settled w) w"
    by (simp add: wp_simps)
  then show ?thesis by (simp add: io_wp_def disk_acquire_def io_bind_def [of "new_lock name default_lock_timeout"] new)
qed

lemma disk_release_wp:
  assumes "foreign_faults w"
  shows "io_wp (disk_release name raised) (\<lambda>_. settled w) (\<lambda>_. settled w) w"
proof (cases "new_lock name default_lock_timeout w")
  case (Pair r w1)
  then have w1: "w1 = w" by (simp add: new_lock_def)
  show ?thesis
  proof (cases r)
    case (Inl e)
    then show ?thesis using Pair w1 by (simp add: io_wp_def disk_release_def io_bind_def)
  next
    case (Inr lock)
    have "io_wp (lock_exit (lock\<lparr>lo_descriptor := True\<rparr>) raised) (\<lambda>_. settled w) (\<lambda>_. settled w) w"
      by (rule lock_exit_wp [OF assms settled_refl])
    then show ?thesis using Pair w1 Inr by (simp add: io_wp_def disk_release_def io_bind_def)
  qed
qed

section \<open>The laws\<close>

interpretation disk: state_store "disk_host x" stored "decode_content x" "encodes_content x" foreign_faults for x
proof (unfold_locales, unfold disk_host_def host.simps, goal_cases)
  case (1 d name)
  show ?case
    by (rule io_wp_mono [OF store_load_wp [OF 1]])
      (auto dest: settled_sound [OF 1] split: option.splits)
next
  case (2 d s)
  show ?case
    by (rule io_wp_mono [OF store_save_wp [OF 2]])
      (auto dest!: updated_sound [OF 2] settled_sound [OF 2] told_sound [OF 2] serialize_encodes)
next
  case (3 d name)
  show ?case
    by (rule io_wp_mono [OF store_delete_wp [OF 3]])
      (auto dest: updated_sound [OF 3] told_sound [OF 3])
next
  case (4 d name)
  show ?case by (rule io_wp_mono [OF disk_acquire_wp [OF 4]]) (auto dest: settled_sound [OF 4])
next
  case (5 d name raised)
  show ?case by (rule io_wp_mono [OF disk_release_wp [OF 5]]) (auto dest: settled_sound [OF 5])
next
  case (6 d)
  then show ?case by (simp add: disk_timestamp_def wp_simps)
next
  case (7 s c)
  then show ?case by (rule decode_encoded)
next
  case (8 c s)
  then show ?case by (rule decoded_built)
qed

end
