(* ===== verification/Sample_Lab.thy ===== *)
theory Sample_Lab
  imports Fake_Facts Disk_Host
begin

text \<open>
  A small topology, two hosts joined by one link, with an instance of the code outside the repository
  that knows its documents: the input on which the properties of the lifecycle are evaluated.
\<close>

definition lab_host :: "ip_interface list \<Rightarrow> node_config" where
  "lab_host addresses = LinuxNode \<lparr>
     nb_interfaces = [(''eth0'', \<lparr>ic_addresses = addresses, ic_mac = None\<rparr>)],
     nb_routes = [], nb_neighbors = [], nb_sysctls = [], nb_routing = None,
     ln_devices = [], ln_rules = []\<rparr>"

definition lab_manifest :: manifest where
  "lab_manifest = \<lparr>mf_version = 1, mf_name = ''lab'', mf_topology = \<lparr>
     tp_nodes = [(''h1'', lab_host []), (''h2'', lab_host [])],
     tp_links = [\<lparr>lc_endpoints = (''h1:eth0'', ''h2:eth0''), lc_mtu = 1500, lc_netem = None, lc_qdisc = None\<rparr>]\<rparr>\<rparr>"

definition lab_document :: pyobj where
  "lab_document = pdict [(''version'', PInt 1), (''name'', PStr ''lab''), (''topology'', pdict [
     (''nodes'', pdict [
        (''h1'', pdict [(''kind'', PStr ''linux'')]),
        (''h2'', pdict [(''kind'', PStr ''linux'')])]),
     (''links'', PList [pdict [(''endpoints'', PList [PStr ''h1:eth0'', PStr ''h2:eth0'']), (''mtu'', PInt 1500)]])])]"

definition lab_ext :: ext where
  "lab_ext = sample_ext\<lparr>x_model_dump := (\<lambda>_. lab_document), x_model_validate := (\<lambda>_. Inr lab_manifest)\<rparr>"

definition lab_node :: "string \<Rightarrow> string \<Rightarrow> node_plan" where
  "lab_node name namespace = \<lparr>
     nd_name = name, nd_kind = LinuxKind, nd_namespace = namespace, nd_interfaces = [(''eth0'', [])],
     nd_routes = [], nd_sysctls = [], nd_mac_addresses = [], nd_neighbors = [], nd_rules = [],
     nd_devices = [], nd_bridge_name = None, nd_stp = None, nd_vlan_filtering = None,
     nd_bridge_priority = None, nd_bridge_ports = [], nd_routing = None\<rparr>"

definition lab_end :: "string \<Rightarrow> string \<Rightarrow> string \<Rightarrow> endpoint_plan" where
  "lab_end node namespace temporary = \<lparr>ep_node = node, ep_interface = ''eth0'',
     ep_namespace = namespace, ep_temporary_name = temporary\<rparr>"

definition lab_plan :: topology_plan where
  "lab_plan = \<lparr>tpl_name = ''lab'', tpl_fingerprint = replicate 64 (CHR ''0''),
     tpl_nodes = [
       (''h1'', lab_node ''h1'' ''nslab-lab-h1-0000000000000000''),
       (''h2'', lab_node ''h2'' ''nslab-lab-h2-0000000000000000'')],
     tpl_links = [\<lparr>lk_index = 0,
       lk_left = lab_end ''h1'' ''nslab-lab-h1-0000000000000000'' ''nl0000000000a'',
       lk_right = lab_end ''h2'' ''nslab-lab-h2-0000000000000000'' ''nl0000000000b'',
       lk_mtu = 1500, lk_netem = None, lk_qdisc = None\<rparr>]\<rparr>"

lemma lab_plan_compiled: "compile_plan lab_ext lab_manifest (Some ''lab'') = Inr lab_plan"
  by code_simp

definition lab_services :: "(fake \<times> disk) services" where
  "lab_services = services_of fake_backend (disk_host lab_ext)"

definition lab_world :: "(nat \<Rightarrow> fault) \<Rightarrow> fake \<times> disk" where
  "lab_world faults = (new_fake None None, sample_disk faults)"

end
