(* ===== verification/Deployments.thy ===== *)
theory Deployments
  imports Lifecycle_Commands Sample_Lab
begin

text \<open>
  The whole program over the in-memory network and the state directory: the lifecycle's results,
  proved from the laws of its services, for the services of this code. Faults of the file system may
  strike at any call, the backend may fail at any call.
\<close>

definition nslab_services :: "ext \<Rightarrow> (fake \<times> disk) services" where
  "nslab_services x = services_of fake_backend (disk_host x)"

interpretation lab: lifecycle x fake_backend fake_view fake_sealed fake_live_inventory
    "disk_host x" stored "decode_content x" "encodes_content x" foreign_faults for x
  by (intro lifecycle.intro fake.network_backend_axioms disk.state_store_axioms)

lemmas nslab_defs = nslab_services_def fake_view_def undisturbed_def

lemma run_collapse: "p = (fst p, (fst (snd p), snd (snd p)))"
  by simp

lemma foreign_faults_fine: "foreign_faults (sample_disk (\<lambda>_. NoFault))"
  by (simp add: foreign_faults_def sample_disk_def)

definition lab_result :: "lifecycle_result" where
  "lab_result = \<lparr>lr_action = ''deploy'', lr_name = ''lab'', lr_changed = True,
     lr_status = ''deployed'', lr_message = ''deployed topology: lab''\<rparr>"

text \<open>The sample topology deploys: its result and the world it leaves.\<close>

lemma lab_deploys:
  "fst (deploy lab_ext (nslab_services lab_ext) lab_plan lab_manifest (lab_world (\<lambda>_. NoFault))) = Inr lab_result"
  by code_simp

text \<open>
  C1. Isolation. Any sequence of deploy, destroy and redeploy commands on a set \<open>M\<close> of deployments,
  each ending however it may, leaves every network namespace that is not named after one of them and
  every state file of another deployment exactly as it was. The faults of the file system are
  exceptions the program does not raise itself; no veth pair crosses the boundary at the start.
\<close>

theorem deployments_isolated:
  assumes "\<forall>command \<in> set commands. proper_command command \<and> target command \<in> M"
    and "fake_sealed n (\<Union>name \<in> M. owned_namespaces x name)"
    and "foreign_faults d"
    and "run_commands x (nslab_services x) commands (n, d) = (n', d')"
  shows "(\<forall>ns. ns \<notin> (\<Union>name \<in> M. owned_namespaces x name) \<longrightarrow>
      dict_get (fk_namespaces n') ns = dict_get (fk_namespaces n) ns) \<and>
    (\<forall>name. name \<notin> M \<longrightarrow> stored d' name = stored d name)"
proof -
  have "lab.kept (\<Union>name \<in> M. owned_namespaces x name) (fake_view n) M (stored d) (n, d)"
    using assms(2,3) by (simp add: lab.kept_def outside_def)
  from lab.run_kept [OF assms(1) subset_refl this] show ?thesis
    using assms(4) by (simp add: lab.kept_def outside_def nslab_defs)
qed

definition lab_commands :: "command list" where
  "lab_commands = [DeployCommand lab_plan lab_manifest, DestroyCommand None ''lab'', RedeployCommand lab_plan lab_manifest]"

lemma lab_commands_proper: "\<forall>command \<in> set lab_commands. proper_command command \<and> target command \<in> {''lab''}"
  by (simp add: lab_commands_def lab_plan_def)

lemma sealed_new: "fake_sealed (new_fake fail result) N"
  by (simp add: fake_sealed_def new_fake_def)

theorem deployments_isolated_witness:
  "let (n', d') = run_commands lab_ext (nslab_services lab_ext) lab_commands (lab_world (fail_at 7 io_failure)) in
   stored d' ''old'' = stored (sample_disk (fail_at 7 io_failure)) ''old''"
  using deployments_isolated [OF lab_commands_proper sealed_new foreign_faults_sample prod.collapse [symmetric]]
  by (simp add: lab_world_def Let_def case_prod_unfold)

text \<open>
  What \<open>deploy\<close> promises: the live inventory matches the plan, and the state file holds a snapshot
  \<open>load\<close> accepts, of this deployment, with the fingerprint of the plan and the status \<open>deployed\<close>.
\<close>

definition deployed :: "ext \<Rightarrow> topology_plan \<Rightarrow> fake \<Rightarrow> disk \<Rightarrow> bool" where
  "deployed x plan n d \<longleftrightarrow> inventory_matches_plan x plan (fake_live_inventory n plan) = Inr True \<and>
     (\<exists>document s. stored d (tpl_name plan) = Some (Document document) \<and> from_dict x document = Inr s \<and>
        ss_name s = tpl_name plan \<and> ss_fingerprint s = tpl_fingerprint plan \<and> ss_status s = ''deployed'')"

lemma decode_content_Some: "decode_content x c = Some s \<longleftrightarrow> (\<exists>d. c = Document d \<and> from_dict x d = Inr s)"
  by (cases c) (simp_all split: sum.split)

lemma in_place_deployed: "lab.in_place x plan (n, d) = deployed x plan n d"
  by (auto simp: lab.in_place_def deployed_def decode_content_Some)

text \<open>
  C2. If \<open>deploy\<close> returns, the deployment is there: the inventory matches the plan and the state file
  records it as deployed with the fingerprint of the plan; the result says "changed" exactly when
  nothing was recorded before.
\<close>

theorem deploy_establishes:
  assumes "foreign_faults d" and "deploy x (nslab_services x) plan m (n, d) = (Inr result, (n', d'))"
  shows "deployed x plan n' d' \<and> (lr_changed result \<longleftrightarrow> stored d (tpl_name plan) = None)"
proof -
  have "foreign_faults (snd (n, d))" using assms(1) by simp
  from io_wp_InrD [OF lab.deploy_wp [OF this] assms(2) [unfolded nslab_services_def]]
  show ?thesis by (simp add: in_place_deployed)
qed

theorem deploy_establishes_witness:
  "let (n', d') = snd (deploy lab_ext (nslab_services lab_ext) lab_plan lab_manifest (lab_world (\<lambda>_. NoFault))) in
   deployed lab_ext lab_plan n' d' \<and> stored (sample_disk (\<lambda>_. NoFault)) ''lab'' = None"
proof -
  let ?r = "deploy lab_ext (nslab_services lab_ext) lab_plan lab_manifest (new_fake None None, sample_disk (\<lambda>_. NoFault))"
  have "?r = (Inr lab_result, (fst (snd ?r), snd (snd ?r)))"
    using lab_deploys by (simp add: prod_eq_iff lab_world_def)
  from deploy_establishes [OF foreign_faults_fine this] show ?thesis
    by (simp add: lab_world_def case_prod_unfold lab_result_def lab_plan_def)
qed

text \<open>
  C3. An exception whose rollback report says \<open>rollback_complete\<close> can be trusted: after it no
  state file of the deployment is left and none of the plan's resources exists.
\<close>

theorem rollback_complete_means_gone:
  assumes "foreign_faults d"
    and "rollback_and_attach x (nslab_services x) error plan created deploying (n, d) = (Inr error', (n', d'))"
    and "attached error' ''rollback_complete'' = Some (PBool True)"
  shows "stored d' (tpl_name plan) = None \<and> inventory_is_absent plan (fake_live_inventory n' plan)"
proof -
  have "foreign_faults (snd (n, d))" using assms(1) by simp
  from io_wp_InrD [OF lab.rollback_wp [OF this] assms(2) [unfolded nslab_services_def]]
  show ?thesis using assms(3) by simp
qed

text \<open>The sample topology is built but not recorded, and then taken back.\<close>

definition lab_rollback :: "(fake \<times> disk, exc) io" where
  "lab_rollback = rollback_and_attach lab_ext (nslab_services lab_ext) (verification_failed lab_plan) lab_plan
     (map nd_namespace (plan_nodes lab_plan)) (sample_snapshot\<lparr>ss_status := ''deploying''\<rparr>)"

definition lab_built :: "fake \<times> disk" where
  "lab_built = snd (deploy_attempt lab_ext (nslab_services lab_ext) lab_plan (lab_world (\<lambda>_. NoFault)))"

lemma lab_built_sound: "foreign_faults (snd lab_built)"
  using io_keeps_snd [OF lab.deploy_attempt_files [where x = lab_ext and H = "\<lambda>_. True"],
      of "lab_world (\<lambda>_. NoFault)" lab_plan]
  by (simp add: lab.filed_def lab_built_def nslab_services_def lab_world_def foreign_faults_fine)

lemma lab_rollback_complete:
  "length (fk_namespaces (fst lab_built)) = 2 \<and> (case fst (lab_rollback lab_built) of
     Inl e \<Rightarrow> False | Inr e \<Rightarrow> attached e ''rollback_complete'' = Some (PBool True))"
  by code_simp

theorem rollback_complete_means_gone_witness:
  "let (n', d') = snd (lab_rollback lab_built) in
   stored d' ''lab'' = None \<and> inventory_is_absent lab_plan (fake_live_inventory n' lab_plan)"
proof -
  let ?r = "lab_rollback (fst lab_built, snd lab_built)"
  obtain e where e: "fst ?r = Inr e" "attached e ''rollback_complete'' = Some (PBool True)"
    using lab_rollback_complete by (auto split: sum.splits)
  then have "?r = (Inr e, (fst (snd ?r), snd (snd ?r)))" by (simp add: prod_eq_iff)
  from rollback_complete_means_gone [OF lab_built_sound this [unfolded lab_rollback_def] e(2)] show ?thesis
    by (simp add: case_prod_unfold lab_plan_def lab_rollback_def)
qed

text \<open>What \<open>destroy\<close> has to see before it may say that a deployment is gone.\<close>

definition gone :: "ext \<Rightarrow> string \<Rightarrow> topology_plan option \<Rightarrow> file_content option \<Rightarrow> bool \<Rightarrow> fake \<Rightarrow> disk \<Rightarrow> bool" where
  "gone x name plan before changed n d \<longleftrightarrow> stored d name = None \<and> (case before of
      None \<Rightarrow> \<not> changed \<and> (\<exists>p. plan = Some p \<and> tpl_name p = name \<and>
        inventory_is_absent p (fake_live_inventory n p))
    | Some c \<Rightarrow> changed \<and> (\<exists>document s p. c = Document document \<and> from_dict x document = Inr s \<and>
        plan_from_snapshot x s = Inr p \<and> inventory_is_absent p (fake_live_inventory n p)))"

lemma cleared_gone: "lab.cleared x name plan before r (n, d) = gone x name plan before (lr_changed r) n d"
  by (auto simp: lab.cleared_def gone_def decode_content_Some split: option.splits)

text \<open>
  C4. If \<open>destroy\<close> returns, no state file of the deployment is left and its resources are gone: those
  of the plan rebuilt from the stored snapshot where there was one, and then the result says
  "changed"; those of the plan the caller gave, checked by its name, where there was none.
\<close>

theorem destroy_clears:
  assumes "foreign_faults d" and "destroy x (nslab_services x) plan name (n, d) = (Inr result, (n', d'))"
  shows "gone x name plan (stored d name) (lr_changed result) n' d'"
proof -
  have "foreign_faults (snd (n, d))" using assms(1) by simp
  from io_wp_InrD [OF lab.destroy_wp [OF this] assms(2) [unfolded nslab_services_def]]
  show ?thesis by (simp add: cleared_gone)
qed

lemma lab_destroys_absent:
  "map_sum id lr_changed (fst (destroy lab_ext (nslab_services lab_ext) (Some lab_plan) ''lab'' (lab_world (\<lambda>_. NoFault)))) =
   Inr False"
  by code_simp

theorem destroy_clears_witness:
  "let (n', d') = snd (destroy lab_ext (nslab_services lab_ext) (Some lab_plan) ''lab'' (lab_world (\<lambda>_. NoFault))) in
   gone lab_ext ''lab'' (Some lab_plan) (stored (sample_disk (\<lambda>_. NoFault)) ''lab'') False n' d'"
proof -
  let ?r = "destroy lab_ext (nslab_services lab_ext) (Some lab_plan) ''lab'' (new_fake None None, sample_disk (\<lambda>_. NoFault))"
  obtain r where r: "fst ?r = Inr r" "\<not> lr_changed r"
    using lab_destroys_absent by (cases "fst ?r") (auto simp: lab_world_def)
  then have "?r = (Inr r, (fst (snd ?r), snd (snd ?r)))" by (simp add: prod_eq_iff)
  from destroy_clears [OF foreign_faults_fine this] r(2) show ?thesis
    by (simp add: lab_world_def case_prod_unfold)
qed

text \<open>
  C6. \<open>deploy\<close> never alters a deployment that is already recorded: whether it returns "unchanged"
  because everything matches or raises because of drift, an interrupted status, a corrupt file or a
  failing call, the network namespaces and all state files are as before.
\<close>

theorem deploy_recorded_changes_nothing:
  assumes "foreign_faults d" and "stored d (tpl_name plan) \<noteq> None"
    and "deploy x (nslab_services x) plan m (n, d) = (r, (n', d'))"
  shows "dict_get (fk_namespaces n') = dict_get (fk_namespaces n) \<and> stored d' = stored d \<and>
    (\<forall>result. r = Inr result \<longrightarrow> \<not> lr_changed result)"
proof -
  have s: "foreign_faults (snd (n, d))" "stored (snd (n, d)) (tpl_name plan) \<noteq> None" using assms(1,2) by simp_all
  have "lab.same (n, d) (n', d')"
    using lab.wp_snd [OF lab.deploy_existing_same [OF s, of x m]] assms(3) [unfolded nslab_services_def] by simp
  moreover have "\<forall>result. r = Inr result \<longrightarrow> \<not> lr_changed result"
    using io_wp_InrD [OF lab.deploy_wp [OF s(1), of x plan m]] assms(2,3) by (fastforce simp: nslab_services_def)
  ultimately show ?thesis by (simp add: lab.same_def nslab_defs fun_eq_iff)
qed

definition lab_old :: topology_plan where
  "lab_old = lab_plan\<lparr>tpl_name := ''old''\<rparr>"

theorem deploy_recorded_changes_nothing_witness:
  "let (r, n', d') = deploy lab_ext (nslab_services lab_ext) lab_old lab_manifest (lab_world (fail_at 9 io_failure)) in
   stored d' = stored (sample_disk (fail_at 9 io_failure)) \<and> stored d' ''old'' \<noteq> None"
proof -
  have old: "stored (sample_disk (fail_at 9 io_failure)) (tpl_name lab_old) \<noteq> None" by code_simp
  show ?thesis
    using deploy_recorded_changes_nothing [OF foreign_faults_sample old run_collapse] old
    by (simp add: lab_world_def case_prod_unfold lab_old_def)
qed

text \<open>
  C7. \<open>deploy\<close> never takes over namespaces it does not own: if nothing is recorded for the deployment
  but one of its namespaces exists, it raises and changes nothing.
\<close>

theorem deploy_refuses_foreign_resources:
  assumes "foreign_faults d" and "stored d (tpl_name plan) = None"
    and "ns \<in> plan_namespaces plan" and "dict_get (fk_namespaces n) ns \<noteq> None"
    and "deploy x (nslab_services x) plan m (n, d) = (r, (n', d'))"
  shows "isl r \<and> dict_get (fk_namespaces n') = dict_get (fk_namespaces n) \<and> stored d' = stored d"
proof -
  have s: "foreign_faults (snd (n, d))" "stored (snd (n, d)) (tpl_name plan) = None"
    and view: "fake_view (fst (n, d)) ns \<noteq> None" using assms(1,2,4) by (simp_all add: fake_view_def)
  show ?thesis
    using io_wp_run [OF lab.deploy_refuses [OF s assms(3) view, of x m]] assms(5) [unfolded nslab_services_def]
    by (auto simp: lab.same_def nslab_defs fun_eq_iff split: sum.splits)
qed

definition lab_foreign :: fake where
  "lab_foreign = snd (fake_create_namespace (lab_node ''h1'' ''nslab-lab-h1-0000000000000000'') (new_fake None None))"

theorem deploy_refuses_foreign_resources_witness:
  "let (r, n', d') = deploy lab_ext (nslab_services lab_ext) lab_plan lab_manifest (lab_foreign, sample_disk (\<lambda>_. NoFault)) in
   isl r \<and> stored d' = stored (sample_disk (\<lambda>_. NoFault))"
proof -
  let ?d = "sample_disk (\<lambda>_. NoFault)" and ?ns = "''nslab-lab-h1-0000000000000000''"
  have none: "stored ?d (tpl_name lab_plan) = None" by code_simp
  have ns: "?ns \<in> plan_namespaces lab_plan" by (simp add: plan_namespaces_def plan_nodes_def lab_plan_def lab_node_def)
  have there: "dict_get (fk_namespaces lab_foreign) ?ns \<noteq> None" by code_simp
  show ?thesis
    using deploy_refuses_foreign_resources [OF foreign_faults_fine none ns there run_collapse]
    by (simp add: case_prod_unfold)
qed

text \<open>The phase of a deployment, read off its state file.\<close>

definition phase_in_store :: "ext \<Rightarrow> disk \<Rightarrow> string \<Rightarrow> phase" where
  "phase_in_store x d name = phase_of (decode_content x) (stored d name)"



text \<open>
  C8. \<open>redeploy\<close> holds one lock over both halves; if it returns, the deployment is in place for the
  new plan, whatever was recorded before.
\<close>

theorem redeploy_establishes:
  assumes "foreign_faults d" and "redeploy x (nslab_services x) plan m (n, d) = (Inr result, (n', d'))"
  shows "deployed x plan n' d'"
proof -
  have "foreign_faults (snd (n, d))" using assms(1) by simp
  from io_wp_InrD [OF lab.redeploy_wp [OF this] assms(2) [unfolded nslab_services_def]]
  show ?thesis by (simp add: in_place_deployed)
qed

lemma lab_redeploys:
  "\<not> isl (fst (redeploy lab_ext (nslab_services lab_ext) lab_plan lab_manifest (lab_world (\<lambda>_. NoFault))))"
  by code_simp

theorem redeploy_establishes_witness:
  "let (n', d') = snd (redeploy lab_ext (nslab_services lab_ext) lab_plan lab_manifest (lab_world (\<lambda>_. NoFault))) in
   deployed lab_ext lab_plan n' d'"
proof -
  let ?r = "redeploy lab_ext (nslab_services lab_ext) lab_plan lab_manifest (new_fake None None, sample_disk (\<lambda>_. NoFault))"
  obtain r where "fst ?r = Inr r" using lab_redeploys by (cases "fst ?r") (auto simp: lab_world_def)
  then have "?r = (Inr r, (fst (snd ?r), snd (snd ?r)))" by (simp add: prod_eq_iff)
  from redeploy_establishes [OF foreign_faults_fine this] show ?thesis
    by (simp add: lab_world_def case_prod_unfold)
qed

end
