(* ===== verification/Checks.thy ===== *)
theory Checks
  imports Manifest Tc
begin

text \<open>
  How the validators of \<open>manifest.py\<close> are written: a check is a result without a value, a validator a
  list of checks of which the first that fails raises. The collection \<open>check_simps\<close> turns "the check
  passes" into the condition it tests.
\<close>

named_theorems check_simps \<open>when checks pass\<close>

type_synonym check = "unit res"

text \<open>\<open>if not b: raise ValueError(message)\<close>\<close>

definition require :: "bool \<Rightarrow> string \<Rightarrow> check" where
  "require b message = res_assert b (value_error message)"

fun checks :: "check list \<Rightarrow> check" where
  "checks [] = Inr ()"
| "checks (c # cs) = res_bind c (\<lambda>_. checks cs)"

text \<open>\<open>for x in xs: check(x)\<close>\<close>

definition check_each :: "('a \<Rightarrow> check) \<Rightarrow> 'a list \<Rightarrow> check" where
  "check_each f xs = checks (map f xs)"

text \<open>\<open>if value is not None: check(value)\<close>\<close>

definition check_opt :: "('a \<Rightarrow> check) \<Rightarrow> 'a option \<Rightarrow> check" where
  "check_opt f v = (case v of None \<Rightarrow> Inr () | Some x \<Rightarrow> f x)"

definition check_if :: "bool \<Rightarrow> check \<Rightarrow> check" where
  "check_if b c = (if b then c else Inr ())"

text \<open>The first element whose value an earlier element has already: what a loop with a set finds.\<close>

fun first_repeat :: "('a \<Rightarrow> 'b) \<Rightarrow> 'b set \<Rightarrow> 'a list \<Rightarrow> 'a option" where
  "first_repeat f seen [] = None"
| "first_repeat f seen (x # xs) = (if f x \<in> seen then Some x else first_repeat f (insert (f x) seen) xs)"

definition no_repeat :: "('a \<Rightarrow> 'b) \<Rightarrow> ('a \<Rightarrow> string) \<Rightarrow> 'a list \<Rightarrow> check" where
  "no_repeat f message xs = (case first_repeat f {} xs of
      None \<Rightarrow> Inr () | Some x \<Rightarrow> Inl (value_error (message x)))"

text \<open>\<open>Field(ge=low, le=high)\<close> on a strict integer.\<close>

definition in_range :: "int \<Rightarrow> int \<Rightarrow> int \<Rightarrow> check" where
  "in_range low high n = checks [
     require (low \<le> n) (''Input should be greater than or equal to '' @ show_int low),
     require (n \<le> high) (''Input should be less than or equal to '' @ show_int high)]"

definition at_least :: "int \<Rightarrow> int \<Rightarrow> check" where
  "at_least low n = require (low \<le> n) (''Input should be greater than or equal to '' @ show_int low)"

text \<open>\<open>Literal[...]\<close>\<close>

definition one_of :: "string list \<Rightarrow> string \<Rightarrow> check" where
  "one_of options s = require (s \<in> set options) (''Input should be '' @ join '' or '' (map py_repr options))"

lemma unit_res [simp]: "(r :: check) \<noteq> Inr () \<longleftrightarrow> isl r"
  by (cases r) auto

lemma require_ok [check_simps]: "require b message = Inr () \<longleftrightarrow> b"
  by (simp add: require_def res_assert_def)

lemma checks_ok [check_simps]: "checks cs = Inr () \<longleftrightarrow> (\<forall>c \<in> set cs. c = Inr ())"
  by (induction cs) (auto simp: res_bind_eq_Inr)

declare checks.simps [simp del]

lemma check_each_ok [check_simps]: "check_each f xs = Inr () \<longleftrightarrow> (\<forall>x \<in> set xs. f x = Inr ())"
  by (simp add: check_each_def checks_ok)

lemma check_opt_ok [check_simps]: "check_opt f v = Inr () \<longleftrightarrow> (\<forall>x. v = Some x \<longrightarrow> f x = Inr ())"
  by (simp add: check_opt_def split: option.split)

lemma check_if_ok [check_simps]: "check_if b c = Inr () \<longleftrightarrow> (b \<longrightarrow> c = Inr ())"
  by (simp add: check_if_def)

lemma first_repeat_None:
  "first_repeat f seen xs = None \<longleftrightarrow> distinct (map f xs) \<and> set (map f xs) \<inter> seen = {}"
  by (induction xs arbitrary: seen) auto

lemma no_repeat_ok [check_simps]: "no_repeat f message xs = Inr () \<longleftrightarrow> distinct (map f xs)"
  by (auto simp: no_repeat_def first_repeat_None split: option.split)
    (metis first_repeat_None inf_bot_right option.distinct(1))

lemma in_range_ok [check_simps]: "in_range low high n = Inr () \<longleftrightarrow> low \<le> n \<and> n \<le> high"
  by (simp add: in_range_def check_simps)

lemma at_least_ok [check_simps]: "at_least low n = Inr () \<longleftrightarrow> low \<le> n"
  by (simp add: at_least_def check_simps)

lemma one_of_ok [check_simps]: "one_of options s = Inr () \<longleftrightarrow> s \<in> set options"
  by (simp add: one_of_def check_simps)

end
