(* ===== verification/Manifest_Rules.thy ===== *)
theory Manifest_Rules
  imports Checks
begin

text \<open>
  The validators of the configuration classes of \<open>manifest.py\<close>, class by class. A validator that runs
  before pydantic parses a field is a function on the raw value; the others, with the bounds of the
  fields, are checks of the typed record, in the order of the fields, the model validator last. The
  result of a class is that of the first check that fails; pydantic collects the failures of several
  fields into one report, which is not modelled.
\<close>

section \<open>Names and addresses\<close>

definition require_name :: "(string \<Rightarrow> bool) \<Rightarrow> string \<Rightarrow> string \<Rightarrow> check" where
  "require_name pattern label s = require (pattern s) (''invalid '' @ label @ '': '' @ py_repr s)"

definition require_interface_name :: "string \<Rightarrow> string \<Rightarrow> check" where
  "require_interface_name label s = checks [
     require_name ifname_pattern label s,
     require (s \<notin> set kernel_tunnel_fallback_names) (label @ '' is reserved by the kernel: '' @ py_repr s)]"

text \<open>The validators of a name that may not be \<open>lo\<close>, as every class has them for its \<open>link\<close>.\<close>

definition require_link_name :: "string \<Rightarrow> string \<Rightarrow> check" where
  "require_link_name label s = checks [
     require_interface_name (label @ '' name'') s,
     require (s \<noteq> ''lo'') (label @ '' cannot be '' @ py_repr ''lo'')]"

definition hex_value :: "char \<Rightarrow> int option" where
  "hex_value c = (let n = int (of_char c) in
     if is_digit c then Some (n - 48)
     else if 97 \<le> n \<and> n \<le> 102 then Some (n - 87)
     else if 65 \<le> n \<and> n \<le> 70 then Some (n - 55)
     else None)"

text \<open>\<open>MAC_PATTERN.fullmatch\<close>\<close>

definition mac_pattern :: "string \<Rightarrow> bool" where
  "mac_pattern s \<longleftrightarrow> length s = 17 \<and>
     list_all (\<lambda>(i, c). if i mod 3 = 2 then c = CHR '':'' else hex_value c \<noteq> None) (enumerate 0 s)"

text \<open>\<open>int(s[:2], 16)\<close>, of a text that matches the pattern\<close>

definition first_octet :: "string \<Rightarrow> int" where
  "first_octet s = (case map hex_value (take 2 s) of [Some a, Some b] \<Rightarrow> 16 * a + b | _ \<Rightarrow> 0)"

definition normalize_mac_address :: "ext \<Rightarrow> string \<Rightarrow> pyobj \<Rightarrow> string res" where
  "normalize_mac_address x label v = (case v of
      PStr s \<Rightarrow>
        if \<not> mac_pattern s then Inl (value_error (''invalid '' @ label @ '': '' @ py_repr s))
        else let normalized = lower s in
          if odd (first_octet normalized) \<or> normalized = ''00:00:00:00:00:00''
          then Inl (value_error (label @ '' must be a unicast address: '' @ py_repr s))
          else Inr normalized
    | _ \<Rightarrow> Inl (value_error (''invalid '' @ label @ '': '' @ py_repr_obj x v)))"

text \<open>
  The validators that run before a field is parsed. \<open>isinstance(value, (str, IPv4Address))\<close> and the
  like are tests for text: no address object comes out of a document.
\<close>

definition require_text :: "string \<Rightarrow> pyobj \<Rightarrow> pyobj res" where
  "require_text message v = (case v of PStr s \<Rightarrow> Inr v | _ \<Rightarrow> Inl (value_error message))"

definition require_text_or_none :: "string \<Rightarrow> pyobj \<Rightarrow> pyobj res" where
  "require_text_or_none message v = (if v = PNone then Inr v else require_text message v)"

fun sequence_items :: "pyobj \<Rightarrow> pyobj list option" where
  "sequence_items (PList vs) = Some vs"
| "sequence_items (PTuple vs) = Some vs"
| "sequence_items v = None"

definition validate_sequence :: "pyobj \<Rightarrow> string \<Rightarrow> pyobj res" where
  "validate_sequence v label = (case sequence_items v of
      None \<Rightarrow> Inl (value_error (label @ '' must be a list or tuple'')) | Some vs \<Rightarrow> Inr v)"

definition validate_address_inputs :: "pyobj \<Rightarrow> pyobj res" where
  "validate_address_inputs v = (case sequence_items v of
      None \<Rightarrow> Inl (value_error ''interface addresses must be a list or tuple'')
    | Some vs \<Rightarrow> res_bind (res_map (require_text ''interface addresses must be IPv4 or IPv6 strings'') vs) (\<lambda>_. Inr v))"

definition validate_mac :: "ext \<Rightarrow> pyobj \<Rightarrow> pyobj res" where
  "validate_mac x v = (if v = PNone then Inr PNone
     else res_bind (normalize_mac_address x ''interface MAC address'' v) (\<lambda>s. Inr (PStr s)))"

definition validate_lladdr :: "ext \<Rightarrow> pyobj \<Rightarrow> pyobj res" where
  "validate_lladdr x v = (if v = PNone then Inr PNone
     else res_bind (normalize_mac_address x ''neighbor link-layer address'' v) (\<lambda>s. Inr (PStr s)))"

definition normalize_default_route :: "pyobj \<Rightarrow> pyobj res" where
  "normalize_default_route v =
     res_bind (require_text ''route destination must be an IPv4 or IPv6 string'' v) (\<lambda>v.
     Inr (if v = PStr ''default'' then PStr ''0.0.0.0/0'' else v))"

definition allowed_sysctls :: "string list" where
  "allowed_sysctls = [''net.ipv4.ip_forward'', ''net.ipv6.conf.all.forwarding'']"

text \<open>\<open>type(value) is not int\<close> excludes booleans.\<close>

definition validate_sysctl_item :: "ext \<Rightarrow> pyobj \<times> pyobj \<Rightarrow> check" where
  "validate_sysctl_item x item = (case item of (key, v) \<Rightarrow> checks [
     require (\<exists>s \<in> set allowed_sysctls. key = PStr s) (''unsupported sysctl: '' @ py_repr_obj x key),
     require (v = PInt 0 \<or> v = PInt 1) (''sysctl '' @ py_repr_obj x key @ '' must be integer 0 or 1'')])"

definition validate_sysctls :: "ext \<Rightarrow> pyobj \<Rightarrow> pyobj res" where
  "validate_sysctls x v = (case v of
      PDict d \<Rightarrow> res_bind (check_each (validate_sysctl_item x) d) (\<lambda>_. Inr v)
    | _ \<Rightarrow> Inr v)"

definition validate_rate :: "pyobj \<Rightarrow> pyobj res" where
  "validate_rate v = res_bind (normalize_rate v) (\<lambda>s. Inr (PStr s))"

definition validate_optional_rate :: "pyobj \<Rightarrow> pyobj res" where
  "validate_optional_rate v = (if v = PNone then Inr PNone else validate_rate v)"

definition validate_burst :: "pyobj \<Rightarrow> pyobj res" where
  "validate_burst v = res_bind (parse_size v) (\<lambda>n. Inr (PInt n))"

definition validate_version :: "pyobj \<Rightarrow> pyobj res" where
  "validate_version v = (if v = PInt 1 then Inr v else Inl (value_error ''manifest version must be integer 1''))"

text \<open>The tests of the classes on raw addresses and sequences\<close>

definition gre_endpoint_input :: "pyobj \<Rightarrow> pyobj res" where
  "gre_endpoint_input = require_text ''GRE endpoints must be IPv4 strings''"

definition ipip_endpoint_input :: "pyobj \<Rightarrow> pyobj res" where
  "ipip_endpoint_input = require_text ''IPIP endpoints must be IPv4 strings''"

definition geneve_remote_input :: "pyobj \<Rightarrow> pyobj res" where
  "geneve_remote_input = require_text ''Geneve remote endpoint must be an IPv4 or IPv6 string''"

definition vxlan_address_input :: "pyobj \<Rightarrow> pyobj res" where
  "vxlan_address_input = require_text ''VXLAN endpoints must be IPv4 or IPv6 strings''"

definition nexthop_gateway_input :: "pyobj \<Rightarrow> pyobj res" where
  "nexthop_gateway_input = require_text_or_none ''route nexthop gateway must be an IPv4 or IPv6 string''"

definition route_gateway_input :: "pyobj \<Rightarrow> pyobj res" where
  "route_gateway_input = require_text_or_none ''route gateway must be an IPv4 or IPv6 string''"

definition neighbor_destination_input :: "pyobj \<Rightarrow> pyobj res" where
  "neighbor_destination_input = require_text ''neighbor destination must be an IPv4 or IPv6 string''"

definition rule_prefix_input :: "string \<Rightarrow> pyobj \<Rightarrow> pyobj res" where
  "rule_prefix_input label = require_text_or_none (''policy rule '' @ label @ '' must be an IPv4 or IPv6 prefix'')"

definition pim_rp_input :: "pyobj \<Rightarrow> pyobj res" where
  "pim_rp_input = require_text ''PIM rp_address must be an IPv4 string''"

section \<open>Interfaces and devices\<close>

definition validate_interface :: "'a interface_config_scheme \<Rightarrow> check" where
  "validate_interface c = no_repeat id (\<lambda>a. ''duplicate interface address: '' @ py_repr (show_interface a)) (ic_addresses c)"

definition min_length :: "nat \<Rightarrow> 'a list \<Rightarrow> check" where
  "min_length n xs = require (n \<le> length xs) (''Tuple should have at least '' @ show_nat n @
     '' item'' @ (if n = 1 then [] else ''s'') @ '' after validation, not '' @ show_nat (length xs))"

definition device_mtu :: "int \<Rightarrow> check" where
  "device_mtu = in_range 576 9216"

definition validate_vlan_device :: "vlan_device_config \<Rightarrow> check" where
  "validate_vlan_device c = checks [
     validate_interface c,
     require_link_name ''VLAN parent interface'' (vlanc_link c),
     in_range 1 4094 (vlanc_id c)]"

definition reserved_vrf_tables :: "int list" where
  "reserved_vrf_tables = [253, 254, 255]"

definition route_table_id :: "int \<Rightarrow> check" where
  "route_table_id = in_range 1 4294967295"

text \<open>The \<open>interfaces\<close> of a VRF and of a bond.\<close>

definition require_members :: "string \<Rightarrow> string list \<Rightarrow> check" where
  "require_members label xs = checks [
     check_each (require_link_name (label @ '' member interface'')) xs,
     require (distinct xs) (label @ '' member interfaces must be unique'')]"

definition validate_vrf_device :: "vrf_device_config \<Rightarrow> check" where
  "validate_vrf_device c = checks [
     route_table_id (vrfc_table c),
     require (vrfc_table c \<notin> set reserved_vrf_tables) (''VRF table cannot use reserved table: '' @ show_int (vrfc_table c)),
     min_length 1 (vrfc_interfaces c),
     require_members ''VRF'' (vrfc_interfaces c)]"

definition validate_mode_options :: "bond_device_config \<Rightarrow> check" where
  "validate_mode_options c = checks [
     check_opt (\<lambda>primary. checks [
       require (bondc_mode c = ''active-backup'') ''bond primary is only valid in active-backup mode'',
       require (primary \<in> set (bondc_interfaces c)) ''bond primary must be one of its member interfaces'']) (bondc_primary c),
     require (bondc_mode c = ''802.3ad'' \<or>
         bondc_lacp_rate c = None \<and> bondc_xmit_hash_policy c = None \<and> bondc_min_links c = None)
       ''bond lacp_rate, xmit_hash_policy, and min_links require 802.3ad mode'',
     check_opt (\<lambda>n. require (n \<le> int (length (bondc_interfaces c)))
       ''bond min_links cannot exceed the number of member interfaces'') (bondc_min_links c)]"

definition validate_bond_device :: "bond_device_config \<Rightarrow> check" where
  "validate_bond_device c = checks [
     validate_interface c,
     one_of [''active-backup'', ''802.3ad''] (bondc_mode c),
     min_length 2 (bondc_interfaces c),
     require_members ''bond'' (bondc_interfaces c),
     in_range 0 60000 (bondc_miimon_ms c),
     check_opt (require_link_name ''bond primary interface'') (bondc_primary c),
     check_opt (one_of [''slow'', ''fast'']) (bondc_lacp_rate c),
     check_opt (one_of [''layer2'', ''layer2+3'', ''layer3+4'']) (bondc_xmit_hash_policy c),
     check_opt (in_range 0 65535) (bondc_min_links c),
     validate_mode_options c]"

definition require_unicast :: "string \<Rightarrow> ip_address \<Rightarrow> check" where
  "require_unicast message a = require (\<not> (is_unspecified a \<or> is_multicast a)) message"

text \<open>\<open>tunnel_ttl\<close> and \<open>tunnel_key\<close> are the bounds \<open>TunnelTtl\<close> and \<open>TunnelKey\<close>.\<close>

definition tunnel_ttl :: "int \<Rightarrow> check" where
  "tunnel_ttl = in_range 1 255"

definition tunnel_key :: "int \<Rightarrow> check" where
  "tunnel_key = in_range 1 4294967295"

definition validate_gre_device :: "gre_device_config \<Rightarrow> check" where
  "validate_gre_device c = checks [
     validate_interface c,
     require_link_name ''GRE underlay interface'' (grec_link c),
     require_unicast ''GRE endpoints must be unicast addresses'' (IPv4Address (grec_local c)),
     require_unicast ''GRE endpoints must be unicast addresses'' (IPv4Address (grec_remote c)),
     check_opt tunnel_key (grec_key c),
     tunnel_ttl (grec_ttl c),
     check_opt device_mtu (grec_mtu c),
     require (grec_local c \<noteq> grec_remote c) ''GRE local and remote addresses must be different'']"

definition validate_ipip_device :: "ipip_device_config \<Rightarrow> check" where
  "validate_ipip_device c = checks [
     validate_interface c,
     require (list_all (\<lambda>a. if_version a = 4) (ic_addresses c)) ''IPIP device addresses must use IPv4'',
     require_link_name ''IPIP underlay interface'' (ipipc_link c),
     require_unicast ''IPIP endpoints must be unicast addresses'' (IPv4Address (ipipc_local c)),
     require_unicast ''IPIP endpoints must be unicast addresses'' (IPv4Address (ipipc_remote c)),
     tunnel_ttl (ipipc_ttl c),
     check_opt device_mtu (ipipc_mtu c),
     require (ipipc_local c \<noteq> ipipc_remote c) ''IPIP local and remote addresses must be different'']"

definition validate_dummy_device :: "dummy_device_config \<Rightarrow> check" where
  "validate_dummy_device c = checks [validate_interface c, check_opt device_mtu (dummyc_mtu c)]"

definition tunnel_vni :: "int \<Rightarrow> check" where
  "tunnel_vni = in_range 1 16777215"

definition tunnel_port :: "int \<Rightarrow> check" where
  "tunnel_port = in_range 1 65535"

definition validate_geneve_device :: "geneve_device_config \<Rightarrow> check" where
  "validate_geneve_device c = checks [
     validate_interface c,
     tunnel_vni (genevec_vni c),
     require_link_name ''Geneve underlay interface'' (genevec_link c),
     require_unicast ''Geneve remote endpoint must be a unicast address'' (genevec_remote c),
     tunnel_port (genevec_dst_port c),
     check_opt device_mtu (genevec_mtu c)]"

definition validate_macvlan_device :: "macvlan_device_config \<Rightarrow> check" where
  "validate_macvlan_device c = checks [
     validate_interface c,
     require_link_name ''macvlan parent interface'' (macvlanc_link c),
     one_of [''private'', ''vepa'', ''bridge'', ''passthru'', ''source''] (macvlanc_mode c),
     check_opt device_mtu (macvlanc_mtu c)]"

definition validate_ipvlan_device :: "ipvlan_device_config \<Rightarrow> check" where
  "validate_ipvlan_device c = checks [
     validate_interface c,
     require_link_name ''ipvlan parent interface'' (ipvlanc_link c),
     one_of [''l2'', ''l3'', ''l3s''] (ipvlanc_mode c),
     check_opt device_mtu (ipvlanc_mtu c)]"

definition validate_vxlan_device :: "vxlan_device_config \<Rightarrow> check" where
  "validate_vxlan_device c = checks [
     validate_interface c,
     tunnel_vni (vxlanc_vni c),
     require_link_name ''VXLAN underlay interface'' (vxlanc_link c),
     require_unicast ''VXLAN endpoints must be unicast addresses'' (vxlanc_local c),
     require_unicast ''VXLAN endpoints must be unicast addresses'' (vxlanc_remote c),
     tunnel_port (vxlanc_dst_port c),
     check_opt device_mtu (vxlanc_mtu c),
     require (ip_version (vxlanc_local c) = ip_version (vxlanc_remote c))
       ''VXLAN local and remote must use the same address family'',
     require (vxlanc_local c \<noteq> vxlanc_remote c) ''VXLAN local and remote addresses must be different'']"

fun validate_linux_device :: "linux_device_config \<Rightarrow> check" where
  "validate_linux_device (VlanConfig c) = validate_vlan_device c"
| "validate_linux_device (VrfConfig c) = validate_vrf_device c"
| "validate_linux_device (BondConfig c) = validate_bond_device c"
| "validate_linux_device (GreConfig c) = validate_gre_device c"
| "validate_linux_device (IpipConfig c) = validate_ipip_device c"
| "validate_linux_device (VxlanConfig c) = validate_vxlan_device c"
| "validate_linux_device (DummyConfig c) = validate_dummy_device c"
| "validate_linux_device (GeneveConfig c) = validate_geneve_device c"
| "validate_linux_device (MacvlanConfig c) = validate_macvlan_device c"
| "validate_linux_device (IpvlanConfig c) = validate_ipvlan_device c"

fun validate_bridge_device :: "bridge_device_config \<Rightarrow> check" where
  "validate_bridge_device (BridgeVxlanConfig c) = validate_vxlan_device c"
| "validate_bridge_device (BridgeGeneveConfig c) = validate_geneve_device c"

section \<open>Routes, neighbors and rules\<close>

definition validate_nexthop :: "route_nexthop_config \<Rightarrow> check" where
  "validate_nexthop c = checks [
     require_interface_name ''route nexthop interface name'' (nhc_dev c),
     in_range 1 256 (nhc_weight c)]"

definition validate_address_family :: "route_config \<Rightarrow> check" where
  "validate_address_family c = (let family = (\<lambda>via. ip_version via = net_version (rc_dst c)) in
     if rc_nexthops c \<noteq> [] then checks [
       require (rc_via c = None \<and> rc_dev c = None) ''route cannot combine via/dev with nexthops'',
       require (2 \<le> length (rc_nexthops c)) ''multipath route requires at least two nexthops'',
       require (distinct (map (\<lambda>n. (nhc_via n, nhc_dev n)) (rc_nexthops c))) ''multipath route nexthops must be unique'',
       require (list_all (\<lambda>n. case nhc_via n of None \<Rightarrow> True | Some via \<Rightarrow> family via) (rc_nexthops c))
         ''route destination and nexthop gateways must use the same address family'']
     else checks [
       require (rc_dev c \<noteq> None) ''route requires dev or nexthops'',
       check_opt (\<lambda>via. require (family via) ''route destination and gateway must use the same address family'')
         (rc_via c)])"

definition validate_route :: "route_config \<Rightarrow> check" where
  "validate_route c = checks [
     check_opt (require_interface_name ''route interface name'') (rc_dev c),
     check_each validate_nexthop (rc_nexthops c),
     check_opt (\<lambda>table. checks [
       route_table_id table,
       require (table \<noteq> 255) ''route cannot use reserved local table: 255'']) (rc_table c),
     validate_address_family c]"

definition validate_neighbor_shape :: "neighbor_config \<Rightarrow> check" where
  "validate_neighbor_shape c = (if nc_proxy c
     then require (nc_lladdr c = None \<and> nc_state c = None) ''proxy neighbor cannot declare lladdr or state''
     else require (nc_lladdr c \<noteq> None) ''non-proxy neighbor requires lladdr'')"

definition validate_neighbor :: "neighbor_config \<Rightarrow> check" where
  "validate_neighbor c = checks [
     require_unicast (''neighbor destination must be unicast: '' @ py_repr (show_ip (nc_dst c))) (nc_dst c),
     require_interface_name ''neighbor interface name'' (nc_dev c),
     check_opt (one_of [''permanent'', ''reachable'', ''stale'', ''noarp'']) (nc_state c),
     validate_neighbor_shape c]"

definition route_devices :: "route_config \<Rightarrow> string list res" where
  "route_devices c = (if rc_nexthops c \<noteq> [] then Inr (map nhc_dev (rc_nexthops c))
     else res_of_option assertion_error (map_option (\<lambda>dev. [dev]) (rc_dev c)))"

definition table_of :: "(string, int) dict \<Rightarrow> string \<Rightarrow> int" where
  "table_of tables interface = (case dict_get tables interface of None \<Rightarrow> main_route_table | Some t \<Rightarrow> t)"

definition route_table :: "route_config \<Rightarrow> (string, int) dict \<Rightarrow> int res" where
  "route_table c tables = (case rc_table c of
      Some table \<Rightarrow> Inr table
    | None \<Rightarrow> res_bind (route_devices c) (\<lambda>devices.
        case remdups (map (table_of tables) devices) of
          [table] \<Rightarrow> Inr table
        | _ \<Rightarrow> Inl (value_error (''multipath route spans routing tables: '' @ py_repr (show_network (rc_dst c))))))"

definition policy_uint :: "nat \<Rightarrow> int \<Rightarrow> check" where
  "policy_uint width = in_range 0 (2 ^ width - 1)"

definition validate_uid_range :: "uid_range_config \<Rightarrow> check" where
  "validate_uid_range c = checks [
     policy_uint 32 (urc_start c), policy_uint 32 (urc_end c),
     require (urc_start c \<le> urc_end c) ''policy rule UID range start cannot exceed end'']"

definition validate_port_range :: "port_range_config \<Rightarrow> check" where
  "validate_port_range c = checks [
     policy_uint 16 (prc_start c), policy_uint 16 (prc_end c),
     require (prc_start c \<le> prc_end c) ''policy rule port range start cannot exceed end'']"

definition validate_realms :: "realms_config \<Rightarrow> check" where
  "validate_realms c = checks [
     policy_uint 16 (rmc_source c), policy_uint 16 (rmc_destination c),
     require (rmc_source c \<noteq> 0 \<or> rmc_destination c \<noteq> 0)
       ''policy rule realms must select a source or destination realm'']"

text \<open>What the action of a rule allows and requires.\<close>

definition validate_rule_action :: "policy_rule_config \<Rightarrow> check" where
  "validate_rule_action c =
     (let no_suppress = (\<lambda>action. require (pc_suppress_prefix_length c = None \<and> pc_suppress_interface_group c = None)
            (action @ '' policy rule cannot declare suppress options''))
      in if pc_action c = ''lookup'' then checks [
        require (pc_goto c = None) ''lookup policy rule cannot declare goto'',
        if pc_l3mdev c then require (pc_table c = None) ''l3mdev policy rule cannot declare table''
        else require (pc_table c \<noteq> None) ''lookup policy rule requires table'']
      else if pc_action c = ''goto'' then checks [
        require (pc_goto c \<noteq> None) ''goto policy rule requires goto'',
        require (pc_table c = None) ''goto policy rule cannot declare table'',
        no_suppress ''goto'']
      else checks [
        require (pc_table c = None \<and> pc_goto c = None)
          (pc_action c @ '' policy rule cannot declare table or goto''),
        no_suppress (pc_action c)])"

definition validate_rule_model :: "policy_rule_config \<Rightarrow> check" where
  "validate_rule_model c =
     (let version = rule_ip_version c;
          family = (\<lambda>label. check_opt (\<lambda>network. require (net_version network = version)
            (''policy rule '' @ label @ '' does not match IPv'' @ show_int version @ '' rule family'')));
          maximum = (if version = 4 then 32 else 128)
      in checks [
        family ''source'' (pc_source c),
        family ''destination'' (pc_destination c),
        check_opt (\<lambda>source. check_opt (\<lambda>destination. require (net_version source = net_version destination)
          ''policy rule source and destination families must match'') (pc_destination c)) (pc_source c),
        require (pc_fwmask c = None \<or> pc_fwmark c \<noteq> None) ''policy rule fwmask requires fwmark'',
        require (\<not> ((pc_source_port c \<noteq> None \<or> pc_destination_port c \<noteq> None) \<and>
            (pc_ip_protocol c = None \<or> pc_ip_protocol c = Some 0)))
          ''policy rule port ranges require a nonzero ip_protocol'',
        check_opt (\<lambda>n. require (n \<le> maximum) (''policy rule suppress_prefix_length must be at most '' @
          show_int maximum @ '' for IPv'' @ show_int version)) (pc_suppress_prefix_length c),
        validate_rule_action c])"

definition validate_rule :: "policy_rule_config \<Rightarrow> check" where
  "validate_rule c = checks [
     in_range 1 4294967295 (pc_priority c),
     check_opt (one_of [''ipv4'', ''ipv6'']) (pc_family c),
     one_of [''lookup'', ''goto'', ''nop'', ''blackhole'', ''unreachable'', ''prohibit''] (pc_action c),
     check_opt route_table_id (pc_table c),
     check_opt (in_range 1 4294967295) (pc_goto c),
     check_opt (policy_uint 8) (pc_tos c),
     check_opt (policy_uint 32) (pc_fwmark c),
     check_opt (policy_uint 32) (pc_fwmask c),
     check_opt (require_interface_name ''policy rule interface name'') (pc_iif c),
     check_opt (require_interface_name ''policy rule interface name'') (pc_oif c),
     check_opt validate_uid_range (pc_uid_range c),
     policy_uint 8 (pc_protocol c),
     check_opt (policy_uint 8) (pc_ip_protocol c),
     check_opt validate_port_range (pc_source_port c),
     check_opt validate_port_range (pc_destination_port c),
     check_opt (policy_uint 64) (pc_tunnel_id c),
     check_opt (policy_uint 8) (pc_suppress_prefix_length c),
     check_opt (in_range 0 4294967294) (pc_suppress_interface_group c),
     check_opt validate_realms (pc_realms c),
     validate_rule_model c]"

section \<open>Dynamic routing\<close>

definition routing_asn :: "int \<Rightarrow> check" where
  "routing_asn = in_range 1 4294967295"

definition validate_ospf :: "ospf_config \<Rightarrow> check" where
  "validate_ospf c = checks [
     require (distinct (oc_networks c)) ''OSPF networks must be unique'',
     check_each (require_interface_name ''OSPF interface name'') (oc_passive_interfaces c),
     require (distinct (oc_passive_interfaces c)) ''OSPF passive_interfaces must be unique'']"

definition validate_bgp :: "bgp_config \<Rightarrow> check" where
  "validate_bgp c = checks [
     routing_asn (bgc_local_as c),
     check_each (\<lambda>n. routing_asn (bnc_remote_as n)) (bgc_neighbors c),
     require (distinct (map bnc_address (bgc_neighbors c))) ''BGP neighbor addresses must be unique'',
     require (distinct (bgc_networks c)) ''BGP networks must be unique'']"

definition pim_interfaces :: "string list \<Rightarrow> check" where
  "pim_interfaces xs = checks [
     check_each (require_interface_name ''PIM interface name'') xs,
     require (distinct xs) ''PIM interfaces must be unique'']"

definition validate_pim :: "pim_config \<Rightarrow> check" where
  "validate_pim c =
     (let rp = pmc_rp_address c;
          missing = filter (\<lambda>i. i \<notin> set (pmc_interfaces c)) (pmc_igmp_interfaces c)
      in checks [
        require (\<not> (is_unspecified (IPv4Address rp) \<or> is_multicast (IPv4Address rp) \<or> rp = - 1))
          ''PIM rp_address must be a unicast IPv4 address'',
        pim_interfaces (pmc_interfaces c),
        pim_interfaces (pmc_igmp_interfaces c),
        require (pmc_interfaces c \<noteq> []) ''PIM interfaces must not be empty'',
        require (missing = []) (''PIM IGMP interface must also enable PIM: '' @ py_repr (hd (sort missing)))])"

definition validate_routing :: "routing_config \<Rightarrow> check" where
  "validate_routing c = checks [
     check_opt validate_ospf (rtc_ospf c),
     check_opt validate_bgp (rtc_bgp c),
     check_opt validate_pim (rtc_pim c),
     require (rtc_ospf c \<noteq> None \<or> rtc_bgp c \<noteq> None \<or> rtc_pim c \<noteq> None) ''routing must enable OSPF, BGP, or PIM'']"

section \<open>MAC addresses\<close>

lemma of_char_lower: "of_char (lower_char c) = (let n = of_char c :: nat in if 65 \<le> n \<and> n \<le> 90 then n + 32 else n)"
  by (auto simp: lower_char_def Let_def)

lemma lower_char_idem: "lower_char (lower_char c) = lower_char c"
  using of_char_lower [of c] by (auto simp: lower_char_def [of "lower_char c"] Let_def split: if_splits)

lemma lower_idem: "lower (lower s) = lower s"
  by (simp add: lower_def lower_char_idem)

lemma hex_value_lower: "hex_value c = Some v \<Longrightarrow> hex_value (lower_char c) = Some v"
  using of_char_lower [of c] by (auto simp: hex_value_def Let_def is_digit_def split: if_splits)

lemma lower_colon: "lower_char (CHR '':'') = CHR '':''"
  by code_simp

lemma mac_pattern_nth:
  "mac_pattern s \<longleftrightarrow> length s = 17 \<and>
     (\<forall>i < 17. if i mod 3 = 2 then s ! i = CHR '':'' else hex_value (s ! i) \<noteq> None)"
proof -
  have "list_all (\<lambda>(i, c). P i c) (enumerate 0 s) \<longleftrightarrow> (\<forall>i < length s. P i (s ! i))" for P
    by (simp add: list_all_length nth_enumerate_eq)
  then show ?thesis by (auto simp: mac_pattern_def)
qed

lemma mac_pattern_lower: "mac_pattern s \<Longrightarrow> mac_pattern (lower s)"
  unfolding mac_pattern_nth
  by (auto simp: lower_def lower_colon split: if_splits) (metis hex_value_lower option.distinct(1) option.exhaust)

text \<open>
  C14. An accepted MAC address comes out in lower case with the multicast bit clear and not all zero,
  and normalising the result again, as when a stored manifest is read back, gives the same text.
\<close>

theorem mac_address_canonical:
  assumes "normalize_mac_address x label (PStr s) = Inr mac"
  shows "mac_pattern mac \<and> lower mac = mac \<and> even (first_octet mac) \<and> mac \<noteq> ''00:00:00:00:00:00'' \<and>
    normalize_mac_address x' label' (PStr mac) = Inr mac"
proof -
  have s: "mac_pattern s" "mac = lower s" "even (first_octet mac)" "mac \<noteq> ''00:00:00:00:00:00''"
    using assms by (auto simp: normalize_mac_address_def Let_def split: if_splits)
  then have m: "mac_pattern mac" "lower mac = mac" by (simp_all add: mac_pattern_lower lower_idem)
  then show ?thesis using s(3,4) by (simp add: normalize_mac_address_def Let_def)
qed

theorem mac_address_canonical_witness:
  "normalize_mac_address sample_ext [] (PStr ''0a:1b:ff:00:00:01'') = Inr ''0a:1b:ff:00:00:01''"
proof -
  have "normalize_mac_address sample_ext [] (PStr ''0A:1b:FF:00:00:01'') = Inr ''0a:1b:ff:00:00:01''" by code_simp
  from mac_address_canonical [OF this] show ?thesis by simp
qed

end
