(* ===== verification/Node_Rules.thy ===== *)
theory Node_Rules
  imports Manifest_Rules
begin

text \<open>
  The validators of the node and link classes: what the interfaces, devices, routes and rules of one
  node require of each other.
\<close>

section \<open>Devices by class\<close>

text \<open>\<open>{name: device for name, device in devices.items() if isinstance(device, Class)}\<close>\<close>

definition devices_of :: "('d \<Rightarrow> 'c option) \<Rightarrow> (string, 'd) dict \<Rightarrow> (string, 'c) dict" where
  "devices_of as devices = List.map_filter (\<lambda>(name, d). map_option (Pair name) (as d)) devices"

fun as_vlan :: "linux_device_config \<Rightarrow> vlan_device_config option" where
  "as_vlan (VlanConfig c) = Some c" | "as_vlan _ = None"
fun as_vrf :: "linux_device_config \<Rightarrow> vrf_device_config option" where
  "as_vrf (VrfConfig c) = Some c" | "as_vrf _ = None"
fun as_bond :: "linux_device_config \<Rightarrow> bond_device_config option" where
  "as_bond (BondConfig c) = Some c" | "as_bond _ = None"
fun as_gre :: "linux_device_config \<Rightarrow> gre_device_config option" where
  "as_gre (GreConfig c) = Some c" | "as_gre _ = None"
fun as_ipip :: "linux_device_config \<Rightarrow> ipip_device_config option" where
  "as_ipip (IpipConfig c) = Some c" | "as_ipip _ = None"
fun as_vxlan :: "linux_device_config \<Rightarrow> vxlan_device_config option" where
  "as_vxlan (VxlanConfig c) = Some c" | "as_vxlan _ = None"
fun as_dummy :: "linux_device_config \<Rightarrow> dummy_device_config option" where
  "as_dummy (DummyConfig c) = Some c" | "as_dummy _ = None"
fun as_geneve :: "linux_device_config \<Rightarrow> geneve_device_config option" where
  "as_geneve (GeneveConfig c) = Some c" | "as_geneve _ = None"
fun as_macvlan :: "linux_device_config \<Rightarrow> macvlan_device_config option" where
  "as_macvlan (MacvlanConfig c) = Some c" | "as_macvlan _ = None"
fun as_ipvlan :: "linux_device_config \<Rightarrow> ipvlan_device_config option" where
  "as_ipvlan (IpvlanConfig c) = Some c" | "as_ipvlan _ = None"

text \<open>\<open>device.addresses\<close>; a VRF has none.\<close>

fun linux_device_addresses :: "linux_device_config \<Rightarrow> ip_interface list" where
  "linux_device_addresses (VlanConfig c) = ic_addresses c"
| "linux_device_addresses (VrfConfig c) = []"
| "linux_device_addresses (BondConfig c) = ic_addresses c"
| "linux_device_addresses (GreConfig c) = ic_addresses c"
| "linux_device_addresses (IpipConfig c) = ic_addresses c"
| "linux_device_addresses (VxlanConfig c) = ic_addresses c"
| "linux_device_addresses (DummyConfig c) = ic_addresses c"
| "linux_device_addresses (GeneveConfig c) = ic_addresses c"
| "linux_device_addresses (MacvlanConfig c) = ic_addresses c"
| "linux_device_addresses (IpvlanConfig c) = ic_addresses c"

fun bridge_device_addresses :: "bridge_device_config \<Rightarrow> ip_interface list" where
  "bridge_device_addresses (BridgeVxlanConfig c) = ic_addresses c"
| "bridge_device_addresses (BridgeGeneveConfig c) = ic_addresses c"

definition arrow :: "string \<Rightarrow> string \<Rightarrow> string" where
  "arrow name interface = py_repr name @ '' -> '' @ py_repr interface"

section \<open>What all nodes share\<close>

definition validate_node_base :: "'a node_base_scheme \<Rightarrow> check" where
  "validate_node_base n = checks [
     check_each validate_interface (dict_values (nb_interfaces n)),
     check_each (require_interface_name ''interface name'') (dict_keys (nb_interfaces n)),
     check_each validate_route (nb_routes n),
     check_each validate_neighbor (nb_neighbors n),
     require (distinct (map (\<lambda>c. (nc_dst c, nc_dev c)) (nb_neighbors n)))
       ''neighbor destination and interface pairs must be unique'',
     check_each (in_range 0 1) (dict_values (nb_sysctls n)),
     check_opt validate_routing (nb_routing n)]"

definition validate_route_identity ::
    "(int \<times> ip_network) set \<Rightarrow> (string, int) dict \<Rightarrow> route_config \<Rightarrow> (int \<times> ip_network) set \<Rightarrow>
     (int \<times> ip_network) set res" where
  "validate_route_identity networks tables route seen =
     res_bind (route_table route tables) (\<lambda>table.
     let identity = (table, rc_dst route) in
     res_bind (checks [
       require (identity \<notin> seen) (''duplicate route destination: '' @ py_repr (show_network (rc_dst route))),
       require (identity \<notin> networks)
         (''route destination conflicts with connected network: '' @ py_repr (show_network (rc_dst route)))])
     (\<lambda>_. Inr (insert identity seen)))"

definition validate_routes_by_table ::
    "route_config list \<Rightarrow> (int \<times> ip_network) set \<Rightarrow> (string, int) dict \<Rightarrow> check" where
  "validate_routes_by_table routes networks tables =
     res_bind (res_fold (validate_route_identity networks tables) routes {}) (\<lambda>_. Inr ())"

definition require_device_names :: "string list \<Rightarrow> check" where
  "require_device_names names = check_each (\<lambda>name. checks [
     require_interface_name ''device name'' name,
     require (name \<noteq> ''lo'') (''device name cannot be '' @ py_repr ''lo'')]) names"

text \<open>\<open>collisions\<close>: names of both an interface and a device\<close>

definition require_no_collision :: "string list \<Rightarrow> string list \<Rightarrow> check" where
  "require_no_collision interfaces devices =
     (let collisions = filter (\<lambda>i. i \<in> set devices) interfaces
      in require (collisions = []) (''device name conflicts with an interface: '' @ py_repr (hd (sort collisions))))"

section \<open>Linux nodes\<close>

definition validate_rule_priorities :: "policy_rule_config list \<Rightarrow> check" where
  "validate_rule_priorities rules = checks [
     no_repeat (\<lambda>r. (rule_ip_version r, pc_priority r))
       (\<lambda>r. ''duplicate policy rule priority for IPv'' @ show_int (rule_ip_version r) @ '': '' @
         show_int (pc_priority r)) rules,
     check_each (\<lambda>r. check_if (pc_action r = ''goto'')
       (res_bind (res_of_option assertion_error (pc_goto r)) (\<lambda>goto.
         require (pc_priority r < goto) ''policy rule goto must target a greater priority''))) rules]"

fun has_unsupported_mac :: "linux_device_config \<Rightarrow> bool" where
  "has_unsupported_mac (GreConfig c) = (ic_mac c \<noteq> None)"
| "has_unsupported_mac (IpipConfig c) = (ic_mac c \<noteq> None)"
| "has_unsupported_mac (IpvlanConfig c) = (ic_mac c \<noteq> None)"
| "has_unsupported_mac _ = False"

text \<open>\<open>bond_by_member\<close>, extended by one member of a bond\<close>

definition validate_bond_member ::
    "linux_node \<Rightarrow> string \<times> string \<Rightarrow> (string, string) dict \<Rightarrow> (string, string) dict res" where
  "validate_bond_member n entry bond_by_member = (case entry of (name, interface) \<Rightarrow>
     res_bind (checks [
       require (interface \<notin> set (dict_keys (ln_devices n)))
         (''bond member must be a linked interface: '' @ arrow name interface),
       require (dict_get bond_by_member interface = None)
         (''interface belongs to more than one bond: '' @ py_repr interface),
       require (case dict_get (nb_interfaces n) interface of None \<Rightarrow> True | Some config \<Rightarrow> ic_addresses config = [])
         (''bond member interface cannot declare addresses: '' @ py_repr interface)])
     (\<lambda>_. Inr (dict_set interface name bond_by_member)))"

definition bond_members :: "linux_node \<Rightarrow> (string \<times> string) list" where
  "bond_members n = concat (map (\<lambda>(name, bond). map (Pair name) (bondc_interfaces bond)) (devices_of as_bond (ln_devices n)))"

text \<open>The parent of a device must not be a device, and identities on it must not repeat.\<close>

definition require_underlay :: "linux_node \<Rightarrow> string \<Rightarrow> ('c \<Rightarrow> string) \<Rightarrow> string \<times> 'c \<Rightarrow> check" where
  "require_underlay n label link entry = (case entry of (name, c) \<Rightarrow>
     require (link c \<notin> set (dict_keys (ln_devices n))) (label @ '' must be a linked interface: '' @ arrow name (link c)))"

definition validate_with_identity ::
    "('c \<Rightarrow> 'i) \<Rightarrow> ('c \<Rightarrow> string) \<Rightarrow> (string \<times> 'c \<Rightarrow> check) \<Rightarrow> string \<times> 'c \<Rightarrow> 'i set \<Rightarrow> 'i set res" where
  "validate_with_identity identity repeated underlay entry seen =
     res_bind (checks [underlay entry, require (identity (snd entry) \<notin> seen) (repeated (snd entry))])
       (\<lambda>_. Inr (insert (identity (snd entry)) seen))"

definition validate_identities ::
    "('c \<Rightarrow> 'i) \<Rightarrow> ('c \<Rightarrow> string) \<Rightarrow> (string \<times> 'c \<Rightarrow> check) \<Rightarrow> (string, 'c) dict \<Rightarrow> check" where
  "validate_identities identity repeated underlay devices =
     res_bind (res_fold (validate_with_identity identity repeated underlay) devices {}) (\<lambda>_. Inr ())"

definition validate_parents :: "linux_node \<Rightarrow> check" where
  "validate_parents n =
     (let d = ln_devices n
      in checks [
        validate_identities (\<lambda>c. (vlanc_link c, vlanc_id c))
          (\<lambda>c. ''duplicate VLAN ID '' @ show_int (vlanc_id c) @ '' on parent interface '' @ py_repr (vlanc_link c))
          (require_underlay n ''VLAN device parent'' vlanc_link) (devices_of as_vlan d),
        validate_identities vxlanc_vni (\<lambda>c. ''duplicate VXLAN VNI: '' @ show_int (vxlanc_vni c))
          (require_underlay n ''VXLAN underlay interface'' vxlanc_link) (devices_of as_vxlan d),
        validate_identities genevec_vni (\<lambda>c. ''duplicate Geneve VNI: '' @ show_int (genevec_vni c))
          (require_underlay n ''Geneve underlay interface'' genevec_link) (devices_of as_geneve d),
        check_each (require_underlay n ''GRE underlay interface'' grec_link) (devices_of as_gre d),
        check_each (require_underlay n ''IPIP underlay interface'' ipipc_link) (devices_of as_ipip d),
        check_each (require_underlay n ''macvlan parent interface'' macvlanc_link) (devices_of as_macvlan d),
        check_each (require_underlay n ''ipvlan parent interface'' ipvlanc_link) (devices_of as_ipvlan d)])"

text \<open>\<open>seen_tables\<close> and \<open>tables_by_interface\<close>, extended by a VRF device\<close>

definition validate_vrf_member ::
    "linux_node \<Rightarrow> (string, string) dict \<Rightarrow> string \<Rightarrow> int \<Rightarrow> string \<Rightarrow> (string, int) dict \<Rightarrow> (string, int) dict res" where
  "validate_vrf_member n bond_by_member name table interface tables =
     res_bind (checks [
       require (interface \<notin> set (dict_keys (devices_of as_vrf (ln_devices n))) \<and>
           interface \<notin> set (dict_keys (devices_of as_bond (ln_devices n))))
         (''VRF member must be a linked interface or VLAN device: '' @ arrow name interface),
       require (interface \<notin> set (dict_keys bond_by_member))
         (''bond member interface cannot belong directly to a VRF: '' @ py_repr interface),
       require (dict_get tables interface = None)
         (''interface belongs to more than one VRF: '' @ py_repr interface)])
     (\<lambda>_. Inr (dict_set interface table tables))"

definition validate_vrf_table ::
    "linux_node \<Rightarrow> (string, string) dict \<Rightarrow> string \<times> vrf_device_config \<Rightarrow>
     int set \<times> (string, int) dict \<Rightarrow> (int set \<times> (string, int) dict) res" where
  "validate_vrf_table n bond_by_member entry state = (case (entry, state) of ((name, vrf), (seen, tables)) \<Rightarrow>
     res_bind (require (vrfc_table vrf \<notin> seen) (''duplicate VRF table: '' @ show_int (vrfc_table vrf))) (\<lambda>_.
     res_bind (res_fold (validate_vrf_member n bond_by_member name (vrfc_table vrf)) (vrfc_interfaces vrf) tables)
       (\<lambda>tables. Inr (insert (vrfc_table vrf) seen, tables))))"

definition validate_route_tables :: "(string, int) dict \<Rightarrow> route_config \<Rightarrow> check" where
  "validate_route_tables tables route =
     res_bind (route_devices route) (\<lambda>devices.
     res_bind (check_each (\<lambda>interface. case (dict_get tables interface, rc_table route) of
         (Some vrf_table, Some table) \<Rightarrow> require (table = vrf_table)
           (''route table conflicts with VRF member interface '' @ py_repr interface @ '': expected '' @
            show_int vrf_table @ '', got '' @ show_int table)
       | _ \<Rightarrow> Inr ()) devices) (\<lambda>_.
     res_bind (route_table route tables) (\<lambda>_. Inr ())))"

text \<open>The networks of the addresses of a node, each with its table; a bond's are in the main table.\<close>

definition connected_networks :: "linux_node \<Rightarrow> (string, int) dict \<Rightarrow> (int \<times> ip_network) set" where
  "connected_networks n tables =
     set (concat (map (\<lambda>(name, config). map (\<lambda>a. (table_of tables name, if_network a)) (ic_addresses config))
       (nb_interfaces n))) \<union>
     set (concat (map (\<lambda>(name, device).
         map (\<lambda>a. (if as_bond device = None then table_of tables name else main_route_table, if_network a))
           (linux_device_addresses device)) (ln_devices n)))"

definition validate_devices_and_routes :: "linux_node \<Rightarrow> check" where
  "validate_devices_and_routes n =
     (let d = ln_devices n; vrfs = devices_of as_vrf d in
      res_bind (checks [
        require_no_collision (dict_keys (nb_interfaces n)) (dict_keys d),
        check_each (\<lambda>(name, device). require (\<not> has_unsupported_mac device)
          (''device type does not support a MAC address: '' @ py_repr name)) d]) (\<lambda>_.
      res_bind (res_fold (validate_bond_member n) (bond_members n) []) (\<lambda>bond_by_member.
      res_bind (validate_parents n) (\<lambda>_.
      res_bind (res_fold (validate_vrf_table n bond_by_member) vrfs ({}, [])) (\<lambda>(seen, tables).
      checks [
        require (nb_routing n = None \<or> vrfs = []) ''dynamic routing with VRF devices is not supported'',
        require (vrfs = [] \<or> \<not> list_ex (\<lambda>r. pc_priority r = 1000) (ln_rules n))
          ''policy rule priority 1000 is reserved when VRF devices are present'',
        check_each (validate_route_tables tables) (nb_routes n),
        validate_routes_by_table (nb_routes n) (connected_networks n tables) tables])))))"

definition validate_linux_node :: "linux_node \<Rightarrow> check" where
  "validate_linux_node n = checks [
     validate_node_base n,
     check_each validate_linux_device (dict_values (ln_devices n)),
     require_device_names (dict_keys (ln_devices n)),
     check_each validate_rule (ln_rules n),
     validate_rule_priorities (ln_rules n),
     validate_devices_and_routes n]"

section \<open>Bridges\<close>

definition validate_bridge_vlans :: "bridge_vlan_config list \<Rightarrow> check" where
  "validate_bridge_vlans vlans = checks [
     no_repeat bvc_vid (\<lambda>v. ''duplicate bridge VLAN: '' @ show_int (bvc_vid v)) vlans,
     require (length (filter bvc_pvid vlans) \<le> 1) ''bridge port may declare at most one PVID'']"

definition validate_bridge_port :: "bridge_port_config \<Rightarrow> check" where
  "validate_bridge_port p = checks [
     check_opt (in_range 1 65535) (bpc_path_cost p),
     check_opt (in_range 0 63) (bpc_priority p),
     check_each (\<lambda>v. in_range 1 4094 (bvc_vid v)) (bpc_vlans p),
     validate_bridge_vlans (bpc_vlans p),
     require (bpc_path_cost p \<noteq> None \<or> bpc_priority p \<noteq> None \<or> bpc_hairpin p \<noteq> None \<or> bpc_isolated p \<noteq> None \<or>
         bpc_learning p \<noteq> None \<or> bpc_flood p \<noteq> None \<or> bpc_multicast_flood p \<noteq> None \<or> bpc_vlans p \<noteq> [])
       ''bridge port settings must declare at least one setting'']"

definition validate_bridge_config :: "bridge_config \<Rightarrow> check" where
  "validate_bridge_config b =
     (let ports = dict_values (bc_ports b) in checks [
       require_interface_name ''bridge interface name'' (bc_name b),
       require (bc_name b \<noteq> ''lo'') (''bridge interface name cannot be '' @ py_repr ''lo''),
       check_opt (in_range 0 65535) (bc_priority b),
       check_each validate_bridge_port ports,
       check_each (\<lambda>name. checks [
         require_interface_name ''bridge port interface name'' name,
         require (name \<noteq> ''lo'') (''bridge port interface name cannot be '' @ py_repr ''lo'')]) (dict_keys (bc_ports b)),
       require (bc_stp b \<or> \<not> list_ex (\<lambda>p. bpc_path_cost p \<noteq> None \<or> bpc_priority p \<noteq> None) ports)
         ''bridge port STP settings require stp: true'',
       require (bc_vlan_filtering b \<or> \<not> list_ex (\<lambda>p. bpc_vlans p \<noteq> []) ports)
         ''bridge port VLAN settings require vlan_filtering: true''])"

fun bridge_device_type :: "bridge_device_config \<Rightarrow> string" where
  "bridge_device_type (BridgeVxlanConfig c) = ''VXLAN''"
| "bridge_device_type (BridgeGeneveConfig c) = ''GENEVE''"

text \<open>\<open>seen_vxlan_vnis\<close> and \<open>seen_geneve_vnis\<close>, extended by an overlay device\<close>

definition validate_overlay ::
    "string \<times> bridge_device_config \<Rightarrow> int set \<times> int set \<Rightarrow> (int set \<times> int set) res" where
  "validate_overlay entry seen = (case (entry, seen) of ((name, device), (vxlan, geneve)) \<Rightarrow>
     res_bind (require (bridge_device_addresses device = [])
       (''bridge '' @ bridge_device_type device @ '' device cannot declare addresses: '' @ py_repr name)) (\<lambda>_.
     case device of
       BridgeVxlanConfig c \<Rightarrow> res_bind (require (vxlanc_vni c \<notin> vxlan)
         (''duplicate VXLAN VNI: '' @ show_int (vxlanc_vni c))) (\<lambda>_. Inr (insert (vxlanc_vni c) vxlan, geneve))
     | BridgeGeneveConfig c \<Rightarrow> res_bind (require (genevec_vni c \<notin> geneve)
         (''duplicate Geneve VNI: '' @ show_int (genevec_vni c))) (\<lambda>_. Inr (vxlan, insert (genevec_vni c) geneve))))"

definition bridge_networks :: "bridge_node \<Rightarrow> (int \<times> ip_network) set" where
  "bridge_networks n = set (concat (map (\<lambda>config. map (\<lambda>a. (main_route_table, if_network a)) (ic_addresses config))
     (dict_values (nb_interfaces n))))"

definition validate_bridge_routes :: "bridge_node \<Rightarrow> check" where
  "validate_bridge_routes n = checks [
     require_no_collision (dict_keys (nb_interfaces n)) (dict_keys (bn_devices n)),
     require (bc_name (bn_bridge n) \<notin> set (dict_keys (bn_devices n)))
       (''device name conflicts with the bridge interface: '' @ py_repr (bc_name (bn_bridge n))),
     res_bind (res_fold validate_overlay (bn_devices n) ({}, {})) (\<lambda>_. Inr ()),
     validate_routes_by_table (nb_routes n) (bridge_networks n) []]"

definition validate_bridge_node :: "bridge_node \<Rightarrow> check" where
  "validate_bridge_node n = checks [
     validate_node_base n,
     check_each validate_bridge_device (dict_values (bn_devices n)),
     require_device_names (dict_keys (bn_devices n)),
     validate_bridge_config (bn_bridge n),
     validate_bridge_routes n]"

fun validate_node :: "node_config \<Rightarrow> check" where
  "validate_node (LinuxNode n) = validate_linux_node n"
| "validate_node (BridgeNode n) = validate_bridge_node n"

section \<open>Links\<close>

definition validate_netem :: "netem_config \<Rightarrow> check" where
  "validate_netem c = checks [
     in_range 0 60000 (nec_delay_ms c),
     in_range 0 60000 (nec_jitter_ms c),
     in_range 0 100 (nec_loss_percent c),
     require (nec_jitter_ms c = 0 \<or> nec_delay_ms c \<noteq> 0) ''netem jitter_ms requires delay_ms'',
     require (nec_delay_ms c \<noteq> 0 \<or> nec_jitter_ms c \<noteq> 0 \<or> nec_loss_percent c \<noteq> 0 \<or>
         (case nec_rate c of None \<Rightarrow> False | Some rate \<Rightarrow> rate \<noteq> []))
       ''netem must declare a non-zero delay, jitter, loss, or rate'']"

definition validate_tbf :: "tbf_config \<Rightarrow> check" where
  "validate_tbf c = in_range 1 60000 (tbc_latency_ms c)"

definition validate_fq_codel :: "fq_codel_config \<Rightarrow> check" where
  "validate_fq_codel c = checks [
     in_range 1 60000 (fqc_target_ms c),
     in_range 1 60000 (fqc_interval_ms c),
     in_range 1 1000000 (fqc_limit c),
     require (fqc_target_ms c \<le> fqc_interval_ms c) ''fq_codel target_ms cannot exceed interval_ms'']"

definition simple_qdisc_kinds :: "string list" where
  "simple_qdisc_kinds = [''pfifo'', ''bfifo'', ''pfifo_fast'', ''prio'', ''sfq'', ''fq'', ''codel'', ''red'', ''pie'', ''fq_pie'']"

text \<open>\<open>ge=0, le=1\<close> on a float: a comparison with NaN is false, so neither bound rejects it.\<close>

fun in_unit_interval :: "pyfloat \<Rightarrow> check" where
  "in_unit_interval (Finite q) = checks [
     require (0 \<le> q) ''Input should be greater than or equal to 0'',
     require (q \<le> 1) ''Input should be less than or equal to 1'']"
| "in_unit_interval PosInf = require False ''Input should be less than or equal to 1''"
| "in_unit_interval NegInf = require False ''Input should be greater than or equal to 0''"
| "in_unit_interval NaN = Inr ()"

definition validate_simple_qdisc :: "simple_qdisc_config \<Rightarrow> check" where
  "validate_simple_qdisc c = checks [
     one_of simple_qdisc_kinds (sqc_kind c),
     check_each (check_opt (at_least 1)) [sqc_limit c, sqc_target_ms c, sqc_interval_ms c, sqc_flows c,
       sqc_quantum c, sqc_perturb c, sqc_min c, sqc_max c, sqc_avpkt c, sqc_burst c],
     check_opt in_unit_interval (sqc_probability c),
     check_opt (at_least 1) (sqc_tupdate_ms c),
     check_each (check_opt (at_least 0)) [sqc_alpha c, sqc_beta c]]"

fun validate_htb_leaf :: "htb_leaf_config \<Rightarrow> check" where
  "validate_htb_leaf (LeafFqCodelConfig c) = validate_fq_codel c"
| "validate_htb_leaf (LeafSimpleConfig c) = validate_simple_qdisc c"

definition cake_flow_modes :: "string list" where
  "cake_flow_modes = [''srchost'', ''dsthost'', ''hosts'', ''flows'', ''dual-srchost'', ''dual-dsthost'', ''triple-isolate'']"

definition cake_diffserv_modes :: "string list" where
  "cake_diffserv_modes = [''diffserv3'', ''diffserv4'', ''diffserv8'', ''besteffort'', ''precedence'']"

definition validate_cake :: "cake_config \<Rightarrow> check" where
  "validate_cake c = checks [
     one_of cake_flow_modes (ckc_flow_mode c),
     one_of cake_diffserv_modes (ckc_diffserv_mode c),
     in_range 1 60000 (ckc_rtt_ms c)]"

fun validate_qdisc :: "qdisc_config \<Rightarrow> check" where
  "validate_qdisc (TbfConfig c) = validate_tbf c"
| "validate_qdisc (FqCodelConfig c) = validate_fq_codel c"
| "validate_qdisc (HtbConfig c) = validate_htb_leaf (hbc_leaf c)"
| "validate_qdisc (CakeConfig c) = validate_cake c"
| "validate_qdisc (SimpleQdiscConfig c) = validate_simple_qdisc c"

definition validate_link :: "link_config \<Rightarrow> check" where
  "validate_link c = checks [
     in_range 576 9216 (lc_mtu c),
     check_opt validate_netem (lc_netem c),
     check_opt validate_qdisc (lc_qdisc c),
     require (lc_netem c = None \<or> lc_qdisc c = None) ''link netem and qdisc are mutually exclusive'']"

end
