(* ===== verification/Topology_Rules.thy ===== *)
theory Topology_Rules
  imports Node_Rules
begin

text \<open>
  \<open>Topology.validate_references\<close>, the validator that looks at all nodes and links together, and the
  manifest: every name a manifest mentions exists, and every tunnel fits into its underlay.
\<close>

section \<open>Link endpoints\<close>

text \<open>
  \<open>linked_interfaces\<close> and \<open>linked_mtus\<close> have the same keys, so one dict stands for both: for every
  node the MTU of the link at each interface.
\<close>

type_synonym linked = "(string, int) dict"

definition node_interfaces :: "node_config \<Rightarrow> (string, interface_config) dict" where
  "node_interfaces node = nb_interfaces (node_base_of node)"

definition ipv6_addressed :: "(string, node_config) dict \<Rightarrow> string \<Rightarrow> string \<Rightarrow> bool" where
  "ipv6_addressed nodes node interface = (case Option.bind (dict_get nodes node)
        (\<lambda>n. dict_get (node_interfaces n) interface) of
      None \<Rightarrow> False | Some config \<Rightarrow> list_ex (\<lambda>a. if_version a = 6) (ic_addresses config))"

definition validate_endpoint ::
    "(string, node_config) dict \<Rightarrow> int \<Rightarrow> string \<Rightarrow> (string, linked) dict \<times> string set \<Rightarrow>
     ((string, linked) dict \<times> string set) res" where
  "validate_endpoint nodes mtu endpoint state = (case state of (linked, used) \<Rightarrow>
     (case partition_colon endpoint of (node, separator, interface) \<Rightarrow>
       res_bind (checks [
         require (separator \<and> node \<noteq> [] \<and> interface \<noteq> []) (''invalid link endpoint: '' @ py_repr endpoint),
         require_interface_name ''endpoint interface name'' interface,
         require (interface \<noteq> ''lo'') (''link endpoint cannot use loopback: '' @ py_repr endpoint),
         require (node \<in> set (dict_keys nodes)) (''link endpoint references unknown node: '' @ py_repr node),
         require (endpoint \<notin> used) (''link endpoint is used more than once: '' @ py_repr endpoint),
         require (\<not> (mtu < ipv6_minimum_link_mtu \<and> ipv6_addressed nodes node interface))
           (''IPv6 link MTU must be at least '' @ show_int ipv6_minimum_link_mtu @ '': '' @ py_repr endpoint)])
       (\<lambda>_. res_bind (res_of_option (key_error node) (dict_get linked node)) (\<lambda>mtus.
         Inr (dict_set node (dict_set interface mtu mtus) linked, insert endpoint used)))))"

definition validate_link_endpoints ::
    "(string, node_config) dict \<Rightarrow> link_config list \<Rightarrow> (string, linked) dict res" where
  "validate_link_endpoints nodes links =
     res_bind (res_fold (\<lambda>(mtu, endpoint). validate_endpoint nodes mtu endpoint)
       (concat (map (\<lambda>l. [(lc_mtu l, fst (lc_endpoints l)), (lc_mtu l, snd (lc_endpoints l))]) links))
       (dict_map (\<lambda>_. []) nodes, {}))
     (\<lambda>(linked, used). Inr linked)"

section \<open>The devices of a Linux node\<close>

definition on_node :: "string \<Rightarrow> string" where
  "on_node node = '' on node '' @ py_repr node @ '': ''"

definition require_device_unlinked :: "string \<Rightarrow> linked \<Rightarrow> string list \<Rightarrow> check" where
  "require_device_unlinked node linked names = check_each (\<lambda>name. require (name \<notin> set (dict_keys linked))
     (''device name conflicts with a linked endpoint'' @ on_node node @ py_repr name)) names"

definition underlay_mtu :: "linked \<Rightarrow> string \<Rightarrow> int res" where
  "underlay_mtu linked link = res_of_option (key_error link) (dict_get linked link)"

text \<open>The limits of a device whose packets are carried by another interface\<close>

definition require_encapsulation :: "string \<Rightarrow> string \<Rightarrow> string \<Rightarrow> int \<Rightarrow> int option \<Rightarrow> check" where
  "require_encapsulation protocol node name maximum mtu = checks [
     require (576 \<le> maximum) (protocol @ '' underlay MTU is too small'' @ on_node node @ py_repr name),
     check_opt (\<lambda>m. require (m \<le> maximum) (protocol @ '' MTU exceeds encapsulation limit'' @ on_node node @
       py_repr name @ '' maximum is '' @ show_int maximum)) mtu]"

definition local_configured :: "(string, interface_config) dict \<Rightarrow> string \<Rightarrow> ip_address \<Rightarrow> bool" where
  "local_configured interfaces link local = (case dict_get interfaces link of
      None \<Rightarrow> False | Some config \<Rightarrow> local \<in> set (map if_ip (ic_addresses config)))"

definition require_underlay_linked :: "string \<Rightarrow> string \<Rightarrow> linked \<Rightarrow> string \<Rightarrow> string \<Rightarrow> check" where
  "require_underlay_linked label node linked name link = require (link \<in> set (dict_keys linked))
     (label @ '' is not linked'' @ on_node node @ arrow name link)"

definition require_local :: "string \<Rightarrow> string \<Rightarrow> (string, interface_config) dict \<Rightarrow> string \<Rightarrow> string \<Rightarrow> ip_address \<Rightarrow> check" where
  "require_local protocol node interfaces name link local = require (local_configured interfaces link local)
     (protocol @ '' local address is not configured on underlay interface '' @ py_repr node @ '': '' @ arrow name link)"

text \<open>A device on an underlay interface, whose payload is \<open>overhead\<close> bytes smaller\<close>

definition validate_tunnel ::
    "string \<Rightarrow> string \<Rightarrow> (string, interface_config) dict \<Rightarrow> linked \<Rightarrow> string \<Rightarrow> string \<Rightarrow> ip_address option \<Rightarrow>
     int \<Rightarrow> int option \<Rightarrow> check" where
  "validate_tunnel protocol node interfaces linked name link local overhead mtu = checks [
     require_underlay_linked (protocol @ '' underlay interface'') node linked name link,
     check_opt (require_local protocol node interfaces name link) local,
     res_bind (underlay_mtu linked link) (\<lambda>m. require_encapsulation protocol node name (m - overhead) mtu)]"

definition tunnel_overhead :: "ip_address \<Rightarrow> int" where
  "tunnel_overhead a = (if ip_version a = 4 then 50 else 70)"

definition validate_vlan_parent :: "string \<Rightarrow> linked \<Rightarrow> vlan_device_config \<Rightarrow> check" where
  "validate_vlan_parent node linked c = require (vlanc_link c \<in> set (dict_keys linked))
     (''VLAN parent interface is not linked'' @ on_node node @ py_repr (vlanc_link c))"

definition validate_bond_links :: "string \<Rightarrow> linked \<Rightarrow> string \<times> bond_device_config \<Rightarrow> check" where
  "validate_bond_links node linked entry = (case entry of (name, bond) \<Rightarrow>
     (let missing = filter (\<lambda>i. i \<notin> set (dict_keys linked)) (bondc_interfaces bond)
      in res_bind (require (missing = [])
          (''bond member interface is not linked'' @ on_node node @ arrow name (hd missing))) (\<lambda>_.
        res_bind (res_map (underlay_mtu linked) (bondc_interfaces bond)) (\<lambda>mtus.
        require (length (remdups mtus) = 1)
          (''bond member interfaces must use the same MTU'' @ on_node node @ py_repr name)))))"

definition validate_vxlan_underlay ::
    "string \<Rightarrow> (string, interface_config) dict \<Rightarrow> linked \<Rightarrow> string \<times> vxlan_device_config \<Rightarrow> check" where
  "validate_vxlan_underlay node interfaces linked entry = (case entry of (name, c) \<Rightarrow>
     validate_tunnel ''VXLAN'' node interfaces linked name (vxlanc_link c) (Some (vxlanc_local c))
       (tunnel_overhead (vxlanc_local c)) (vxlanc_mtu c))"

definition validate_geneve_underlay ::
    "string \<Rightarrow> (string, interface_config) dict \<Rightarrow> linked \<Rightarrow> string \<times> geneve_device_config \<Rightarrow> check" where
  "validate_geneve_underlay node interfaces linked entry = (case entry of (name, c) \<Rightarrow>
     validate_tunnel ''Geneve'' node interfaces linked name (genevec_link c) None
       (tunnel_overhead (genevec_remote c)) (genevec_mtu c))"

definition validate_gre_underlay ::
    "string \<Rightarrow> (string, interface_config) dict \<Rightarrow> linked \<Rightarrow> string \<times> gre_device_config \<Rightarrow> check" where
  "validate_gre_underlay node interfaces linked entry = (case entry of (name, c) \<Rightarrow>
     validate_tunnel ''GRE'' node interfaces linked name (grec_link c) (Some (IPv4Address (grec_local c)))
       (24 + (if grec_key c \<noteq> None then 4 else 0)) (grec_mtu c))"

definition validate_ipip_underlay ::
    "string \<Rightarrow> (string, interface_config) dict \<Rightarrow> linked \<Rightarrow> string \<times> ipip_device_config \<Rightarrow> check" where
  "validate_ipip_underlay node interfaces linked entry = (case entry of (name, c) \<Rightarrow>
     validate_tunnel ''IPIP'' node interfaces linked name (ipipc_link c) (Some (IPv4Address (ipipc_local c)))
       20 (ipipc_mtu c))"

definition validate_child_link :: "string \<Rightarrow> string \<Rightarrow> linked \<Rightarrow> string \<Rightarrow> string \<Rightarrow> int option \<Rightarrow> check" where
  "validate_child_link kind node linked name link mtu = checks [
     require_underlay_linked (kind @ '' parent interface'') node linked name link,
     res_bind (underlay_mtu linked link) (\<lambda>parent_mtu. check_opt (\<lambda>m. require (m \<le> parent_mtu)
       (kind @ '' MTU exceeds parent MTU'' @ on_node node @ py_repr name @ '' maximum is '' @ show_int parent_mtu)) mtu)]"

text \<open>\<open>available\<close>: the linked interfaces and every device but the VRFs\<close>

definition available_linux :: "linux_node \<Rightarrow> linked \<Rightarrow> string list" where
  "available_linux n linked = dict_keys linked @ dict_keys (filter (\<lambda>(name, d). as_vrf d = None) (ln_devices n))"

definition validate_vrf_links :: "string \<Rightarrow> string list \<Rightarrow> string \<times> vrf_device_config \<Rightarrow> check" where
  "validate_vrf_links node available entry = (case entry of (name, vrf) \<Rightarrow>
     check_each (\<lambda>interface. require (interface \<in> set available)
       (''VRF member interface is not linked or a VLAN device'' @ on_node node @ arrow name interface)) (vrfc_interfaces vrf))"

definition validate_rule_interfaces :: "string \<Rightarrow> string list \<Rightarrow> policy_rule_config \<Rightarrow> check" where
  "validate_rule_interfaces node allowed rule = check_each (check_opt (\<lambda>interface. require (interface \<in> set allowed)
     (''policy rule interface is not available'' @ on_node node @ py_repr interface))) [pc_iif rule, pc_oif rule]"

definition validate_linux_references :: "string \<Rightarrow> linux_node \<Rightarrow> linked \<Rightarrow> check" where
  "validate_linux_references node n linked =
     (let d = ln_devices n; interfaces = nb_interfaces n; available = available_linux n linked
      in checks [
        require_device_unlinked node linked (dict_keys d),
        check_each (validate_vlan_parent node linked) (dict_values (devices_of as_vlan d)),
        check_each (validate_bond_links node linked) (devices_of as_bond d),
        check_each (validate_vxlan_underlay node interfaces linked) (devices_of as_vxlan d),
        check_each (validate_geneve_underlay node interfaces linked) (devices_of as_geneve d),
        check_each (validate_gre_underlay node interfaces linked) (devices_of as_gre d),
        check_each (validate_ipip_underlay node interfaces linked) (devices_of as_ipip d),
        check_each (\<lambda>(name, c). validate_child_link ''Macvlan'' node linked name (macvlanc_link c) (macvlanc_mtu c))
          (devices_of as_macvlan d),
        check_each (\<lambda>(name, c). validate_child_link ''Ipvlan'' node linked name (ipvlanc_link c) (ipvlanc_mtu c))
          (devices_of as_ipvlan d),
        check_each (validate_vrf_links node available) (devices_of as_vrf d),
        check_each (validate_rule_interfaces node (available @ dict_keys (devices_of as_vrf d) @ [''lo'']))
          (ln_rules n)])"

section \<open>The devices of a bridge\<close>

fun overlay_link :: "bridge_device_config \<Rightarrow> string" where
  "overlay_link (BridgeVxlanConfig c) = vxlanc_link c"
| "overlay_link (BridgeGeneveConfig c) = genevec_link c"

fun validate_overlay_underlay ::
    "string \<Rightarrow> (string, interface_config) dict \<Rightarrow> linked \<Rightarrow> string \<times> bridge_device_config \<Rightarrow> check" where
  "validate_overlay_underlay node interfaces linked (name, BridgeVxlanConfig c) =
     validate_vxlan_underlay node interfaces linked (name, c)"
| "validate_overlay_underlay node interfaces linked (name, BridgeGeneveConfig c) = checks [
     require_underlay_linked ''Geneve underlay interface'' node linked name (genevec_link c),
     res_bind (underlay_mtu linked (genevec_link c)) (\<lambda>m.
       require_encapsulation ''GENEVE'' node name (m - tunnel_overhead (genevec_remote c)) (genevec_mtu c))]"

definition validate_port_name :: "string \<Rightarrow> bridge_node \<Rightarrow> linked \<Rightarrow> string \<Rightarrow> check" where
  "validate_port_name node n linked port = checks [
     require (port \<notin> set (map overlay_link (dict_values (bn_devices n))))
       (''overlay underlay interface cannot be a bridge port'' @ on_node node @ py_repr port),
     require (port \<in> set (dict_keys linked) \<or> port \<in> set (dict_keys (bn_devices n)))
       (''configured bridge port is not linked or an overlay device'' @ on_node node @ py_repr port)]"

definition validate_bridge_references :: "string \<Rightarrow> bridge_node \<Rightarrow> linked \<Rightarrow> check" where
  "validate_bridge_references node n linked = checks [
     require_device_unlinked node linked (dict_keys (bn_devices n)),
     check_each (validate_overlay_underlay node (nb_interfaces n) linked) (bn_devices n),
     require (bc_name (bn_bridge n) \<notin> set (dict_keys linked))
       (''bridge interface conflicts with a linked endpoint'' @ on_node node @ py_repr (bc_name (bn_bridge n))),
     check_each (validate_port_name node n linked) (dict_keys (bc_ports (bn_bridge n)))]"

definition available_bridge :: "bridge_node \<Rightarrow> linked \<Rightarrow> string list" where
  "available_bridge n linked = dict_keys linked @ bc_name (bn_bridge n) # dict_keys (bn_devices n)"

section \<open>What every node refers to\<close>

definition node_available :: "node_config \<Rightarrow> linked \<Rightarrow> string list" where
  "node_available node linked = (case node of
      LinuxNode n \<Rightarrow> available_linux n linked | BridgeNode n \<Rightarrow> available_bridge n linked)"

definition validate_node_devices :: "string \<Rightarrow> node_config \<Rightarrow> linked \<Rightarrow> check" where
  "validate_node_devices name node linked = (case node of
      LinuxNode n \<Rightarrow> validate_linux_references name n linked
    | BridgeNode n \<Rightarrow> validate_bridge_references name n linked)"

definition validate_route_devices :: "string \<Rightarrow> string list \<Rightarrow> route_config \<Rightarrow> check" where
  "validate_route_devices name available route = res_bind (route_devices route) (check_each (\<lambda>device.
     require (device \<in> set available) (''route device is not linked'' @ on_node name @ py_repr device)))"

definition validate_node_references :: "string \<Rightarrow> node_config \<Rightarrow> linked \<Rightarrow> check" where
  "validate_node_references name node linked =
     (let available = node_available node linked; base = node_base_of node in checks [
       validate_node_devices name node linked,
       check_each (\<lambda>interface. require (interface \<in> set available)
         (''configured interface is not linked: '' @ name @ '':'' @ interface)) (dict_keys (nb_interfaces base)),
       check_each (validate_route_devices name available) (nb_routes base),
       check_each (\<lambda>n. require (nc_dev n \<in> set available)
         (''neighbor device is not linked'' @ on_node name @ py_repr (nc_dev n))) (nb_neighbors base)])"

section \<open>Dynamic routing across nodes\<close>

text \<open>\<open>ospf_router_ids\<close>, \<open>bgp_router_ids\<close> and \<open>pim_rp_address\<close>\<close>

record routing_ids =
  ri_ospf :: "(ipv4, string) dict"
  ri_bgp :: "(ipv4, string) dict"
  ri_rp :: "ipv4 option"

definition require_router_id :: "string \<Rightarrow> string \<Rightarrow> (ipv4, string) dict \<Rightarrow> ipv4 \<Rightarrow> check" where
  "require_router_id protocol name ids router_id = (case dict_get ids router_id of
      None \<Rightarrow> Inr ()
    | Some previous \<Rightarrow> Inl (value_error (''duplicate '' @ protocol @ '' router_id '' @ show_ipv4 router_id @
        '' on nodes '' @ py_repr previous @ '' and '' @ py_repr name)))"

definition validate_node_ospf ::
    "string \<Rightarrow> string list \<Rightarrow> ospf_config \<Rightarrow> routing_ids \<Rightarrow> routing_ids res" where
  "validate_node_ospf name available c ids =
     res_bind (checks [
       require_router_id ''OSPF'' name (ri_ospf ids) (oc_router_id c),
       check_each (\<lambda>i. require (i \<in> set available)
         (''OSPF passive interface is not linked'' @ on_node name @ py_repr i)) (oc_passive_interfaces c)])
     (\<lambda>_. Inr (ids\<lparr>ri_ospf := dict_set (oc_router_id c) name (ri_ospf ids)\<rparr>))"

definition interface_networks :: "linux_node \<Rightarrow> ip_network list" where
  "interface_networks n = map if_network (filter (\<lambda>a. if_version a = 4)
     (concat (map ic_addresses (dict_values (nb_interfaces n))) @
      concat (map linux_device_addresses (dict_values (ln_devices n)))))"

definition validate_node_bgp :: "string \<Rightarrow> linux_node \<Rightarrow> bgp_config \<Rightarrow> routing_ids \<Rightarrow> routing_ids res" where
  "validate_node_bgp name n c ids =
     res_bind (checks [
       require_router_id ''BGP'' name (ri_bgp ids) (bgc_router_id c),
       check_each (\<lambda>b. require (list_ex (in_network (IPv4Address (bnc_address b))) (interface_networks n))
         (''BGP neighbor '' @ show_ipv4 (bnc_address b) @ '' is not directly connected on node '' @ py_repr name))
         (bgc_neighbors c)])
     (\<lambda>_. Inr (ids\<lparr>ri_bgp := dict_set (bgc_router_id c) name (ri_bgp ids)\<rparr>))"

text \<open>The addresses of an interface or device by name; none for a VRF or a name without configuration.\<close>

definition addresses_of :: "linux_node \<Rightarrow> string \<Rightarrow> ip_interface list" where
  "addresses_of n interface = (case dict_get (nb_interfaces n) interface of
      Some config \<Rightarrow> ic_addresses config
    | None \<Rightarrow> (case dict_get (ln_devices n) interface of
        Some device \<Rightarrow> linux_device_addresses device | None \<Rightarrow> []))"

definition validate_node_pim ::
    "string \<Rightarrow> linux_node \<Rightarrow> string list \<Rightarrow> pim_config \<Rightarrow> routing_ids \<Rightarrow> routing_ids res" where
  "validate_node_pim name n available c ids =
     res_bind (checks [
       require (pim_register_interface_name \<notin> set available) (''PIM runtime interface name is reserved'' @
         on_node name @ py_repr pim_register_interface_name),
       check_opt (\<lambda>rp. require (pmc_rp_address c = rp) (''all PIM nodes must use the same rp_address: expected '' @
         show_ipv4 rp @ '', got '' @ show_ipv4 (pmc_rp_address c) @ '' on node '' @ py_repr name)) (ri_rp ids),
       check_each (\<lambda>i. checks [
         require (i \<in> set available) (''PIM interface is not available'' @ on_node name @ py_repr i),
         require (list_ex (\<lambda>a. if_version a = 4) (addresses_of n i))
           (''PIM interface requires an IPv4 address'' @ on_node name @ py_repr i)]) (pmc_interfaces c)])
     (\<lambda>_. Inr (ids\<lparr>ri_rp := Some (pmc_rp_address c)\<rparr>))"

definition when_some :: "'a option \<Rightarrow> ('a \<Rightarrow> 's \<Rightarrow> 's res) \<Rightarrow> 's \<Rightarrow> 's res" where
  "when_some v f s = (case v of None \<Rightarrow> Inr s | Some x \<Rightarrow> f x s)"

definition validate_node_routing ::
    "string \<Rightarrow> node_config \<Rightarrow> string list \<Rightarrow> routing_config \<Rightarrow> routing_ids \<Rightarrow> routing_ids res" where
  "validate_node_routing name node available c ids = (case node of
      BridgeNode b \<Rightarrow> Inl (value_error (''dynamic routing is only supported on linux nodes: '' @ py_repr name))
    | LinuxNode n \<Rightarrow>
        res_bind (require (dict_get (nb_sysctls n) ''net.ipv4.ip_forward'' = Some 1)
          (''dynamic routing requires net.ipv4.ip_forward: 1 on node '' @ py_repr name)) (\<lambda>_.
        res_bind (when_some (rtc_ospf c) (validate_node_ospf name available) ids) (\<lambda>ids.
        res_bind (when_some (rtc_bgp c) (validate_node_bgp name n) ids) (\<lambda>ids.
        when_some (rtc_pim c) (validate_node_pim name n available) ids))))"

section \<open>The topology and the manifest\<close>

definition validate_node_in_topology ::
    "(string, linked) dict \<Rightarrow> string \<times> node_config \<Rightarrow> routing_ids \<Rightarrow> routing_ids res" where
  "validate_node_in_topology linked entry ids = (case entry of (name, node) \<Rightarrow>
     res_bind (res_of_option (key_error name) (dict_get linked name)) (\<lambda>mtus.
     res_bind (validate_node_references name node mtus) (\<lambda>_.
     when_some (nb_routing (node_base_of node)) (validate_node_routing name node (node_available node mtus)) ids)))"

definition validate_references :: "topology \<Rightarrow> check" where
  "validate_references t =
     res_bind (validate_link_endpoints (tp_nodes t) (tp_links t)) (\<lambda>linked.
     res_bind (res_fold (validate_node_in_topology linked) (tp_nodes t) \<lparr>ri_ospf = [], ri_bgp = [], ri_rp = None\<rparr>)
       (\<lambda>_. Inr ()))"

definition validate_topology :: "topology \<Rightarrow> check" where
  "validate_topology t = checks [
     check_each validate_node (dict_values (tp_nodes t)),
     check_each (require_name name_pattern ''node name'') (dict_keys (tp_nodes t)),
     check_each validate_link (tp_links t),
     validate_references t]"

definition validate_manifest :: "manifest \<Rightarrow> check" where
  "validate_manifest m = checks [
     require (mf_version m = 1) ''manifest version must be integer 1'',
     require_name name_pattern ''deployment name'' (mf_name m),
     validate_topology (mf_topology m)]"

end
