(* ===== verification/Manifest_Compiles.thy ===== *)
theory Manifest_Compiles
  imports Topology_Rules Sample_Lab
begin

text \<open>
  The validators and the planner fit together: what \<open>compile_plan\<close> looks up in a manifest that passed
  validation is there. One combination the validators accept makes the planner's assertion fail.
\<close>

section \<open>Loops that succeed\<close>

lemma res_fold_fold:
  assumes "\<And>x s s'. f x s = Inr s' \<Longrightarrow> s' = g x s"
  shows "res_fold f xs s = Inr t \<Longrightarrow> t = fold g xs s"
  by (induction xs arbitrary: s) (auto simp: res_bind_eq_Inr dest!: assms)

lemma res_fold_step: "res_fold f xs s = Inr t \<Longrightarrow> x \<in> set xs \<Longrightarrow> \<exists>a b. f x a = Inr b"
  by (induction xs arbitrary: s) (auto simp: res_bind_eq_Inr)

lemma res_fold_inv:
  assumes "\<And>x s s'. x \<in> set xs \<Longrightarrow> f x s = Inr s' \<Longrightarrow> P s \<Longrightarrow> P s'"
  shows "res_fold f xs s = Inr t \<Longrightarrow> P s \<Longrightarrow> P t"
  using assms by (induction xs arbitrary: s) (auto simp: res_bind_eq_Inr)

lemma res_map_total: "(\<And>x. x \<in> set xs \<Longrightarrow> \<exists>y. f x = Inr y) \<Longrightarrow> \<exists>ys. res_map f xs = Inr ys"
proof (induction xs)
  case (Cons x xs)
  obtain y ys where "f x = Inr y" "res_map f xs = Inr ys" using Cons by (meson list.set_intros)
  then show ?case by simp
qed simp

lemma res_map_length: "res_map f xs = Inr ys \<Longrightarrow> length ys = length xs"
  by (induction xs arbitrary: ys) (auto simp: res_bind_eq_Inr)

section \<open>Routing tables\<close>

lemma devices_of_vrf: "dict_values (devices_of as_vrf d) = List.map_filter as_vrf (dict_values d)"
  by (induction d) (auto simp: devices_of_def List.map_filter_def)

definition vrf_pairs :: "vrf_device_config list \<Rightarrow> (string \<times> int) list" where
  "vrf_pairs vrfs = concat (map (\<lambda>v. map (\<lambda>i. (i, vrfc_table v)) (vrfc_interfaces v)) vrfs)"

lemma validate_vrf_member_set:
  "validate_vrf_member n bonds name table i tables = Inr tables' \<Longrightarrow> tables' = dict_set i table tables"
  by (auto simp: validate_vrf_member_def res_bind_eq_Inr)

lemma fold_members: "fold (\<lambda>i. dict_set i t) xs d = dict_update (map (\<lambda>i. (i, t)) xs) d"
  by (simp add: dict_update_def fold_map o_def case_prod_unfold)

lemma validate_vrf_table_update:
  assumes "validate_vrf_table n bonds (name, vrf) (seen, tables) = Inr (seen', tables')"
  shows "tables' = dict_update (map (\<lambda>i. (i, vrfc_table vrf)) (vrfc_interfaces vrf)) tables"
  using assms res_fold_fold [of "validate_vrf_member n bonds name (vrfc_table vrf)", OF validate_vrf_member_set]
  by (fastforce simp: validate_vrf_table_def res_bind_eq_Inr fold_members)

lemma vrf_tables:
  "res_fold (validate_vrf_table n bonds) vrfs (seen, tables) = Inr (seen', tables') \<Longrightarrow>
   tables' = dict_update (vrf_pairs (dict_values vrfs)) tables"
proof (induction vrfs arbitrary: seen tables)
  case (Cons v vrfs)
  obtain name vrf where v: "v = (name, vrf)" by (cases v)
  obtain s t where st: "validate_vrf_table n bonds (name, vrf) (seen, tables) = Inr (s, t)"
    "res_fold (validate_vrf_table n bonds) vrfs (s, t) = Inr (seen', tables')"
    using Cons.prems by (auto simp: res_bind_eq_Inr v)
  show ?case
    using Cons.IH [OF st(2)] validate_vrf_table_update [OF st(1)]
    by (simp add: v vrf_pairs_def dict_update_def)
qed (simp add: vrf_pairs_def dict_update_def)

lemma compiled_vrf_pairs:
  "concat (map (\<lambda>device. case device of VrfDevice d \<Rightarrow> map (\<lambda>i. (i, vrf_table d)) (vrf_interfaces d) | _ \<Rightarrow> [])
     (dict_values (compile_devices (LinuxNode n)))) = vrf_pairs (dict_values (devices_of as_vrf (ln_devices n)))"
proof -
  have "concat (map (\<lambda>device. case device of VrfDevice d \<Rightarrow> map (\<lambda>i. (i, vrf_table d)) (vrf_interfaces d) | _ \<Rightarrow> [])
      (dict_values (map (\<lambda>(name, c). (name, compile_linux_device name c)) d))) =
    vrf_pairs (List.map_filter as_vrf (dict_values d))" for d
  proof (induction d)
    case (Cons p d)
    obtain name c where "p = (name, c)" by (cases p)
    then show ?case using Cons by (cases c) (simp_all add: vrf_pairs_def List.map_filter_def)
  qed (simp add: vrf_pairs_def List.map_filter_def)
  then show ?thesis by (simp add: compile_devices_def devices_of_vrf)
qed

text \<open>The validator and the planner compute the same table for every interface.\<close>

lemma tables_agree:
  assumes "res_fold (validate_vrf_table n bonds) (devices_of as_vrf (ln_devices n)) ({}, []) = Inr (seen, tables)"
  shows "tables_by_interface (compile_devices (LinuxNode n)) = tables"
  unfolding tables_by_interface_def compiled_vrf_pairs dict_of_def by (rule vrf_tables [OF assms, symmetric])

lemma bridge_tables: "tables_by_interface (compile_devices (BridgeNode n)) = []"
proof -
  have "concat (map (\<lambda>device. case device of VrfDevice d \<Rightarrow> map (\<lambda>i. (i, vrf_table d)) (vrf_interfaces d) | _ \<Rightarrow> [])
      (dict_values (map (\<lambda>(name, c). (name, compile_bridge_device name c)) d))) = []" for d
  proof (induction d)
    case (Cons p d)
    then show ?case by (cases "snd p") (auto simp: case_prod_unfold)
  qed simp
  note this [of "bn_devices n"]
  then show ?thesis unfolding tables_by_interface_def compile_devices_def node_config.case by (simp only: dict_of_def dict_update_def fold_simps)
qed

section \<open>Routes\<close>

text \<open>The planner asserts that the interfaces of a route agree on a table even where the route names one.\<close>

definition table_inferred :: "route_config \<Rightarrow> bool" where
  "table_inferred r \<longleftrightarrow> rc_nexthops r = [] \<or> rc_table r = None"

lemma compile_route_total:
  assumes "route_table r tables = Inr t" and "route_devices r = Inr devices" and "table_inferred r"
  shows "\<exists>p. compile_route tables r = Inr p"
proof (cases "rc_nexthops r = []")
  case True
  then obtain dev where "rc_dev r = Some dev"
    using assms(2) by (auto simp: route_devices_def res_of_option_eq_Inr)
  then show ?thesis using True by (simp add: compile_route_def Let_def)
next
  case False
  then have "rc_table r = None" using assms(3) by (simp add: table_inferred_def)
  then have "remdups (map (table_of tables) (map nhc_dev (rc_nexthops r))) = [t]"
    using assms(1) False
    by (auto simp: route_table_def route_devices_def split: list.splits)
  then show ?thesis using False by (simp add: compile_route_def Let_def table_of_def [abs_def])
qed

lemma validated_route:
  assumes "validate_routes_by_table routes networks tables = Inr ()" and "r \<in> set routes"
  shows "\<exists>t. route_table r tables = Inr t"
  using assms res_fold_step [of "validate_route_identity networks tables" routes "{}" _ r]
  by (fastforce simp: validate_routes_by_table_def validate_route_identity_def res_bind_eq_Inr)

lemma validated_route_devices:
  assumes "validate_route r = Inr ()"
  shows "\<exists>devices. route_devices r = Inr devices"
  using assms
  by (auto simp: validate_route_def validate_address_family_def route_devices_def check_simps Let_def split: if_splits)

lemma validated_tables:
  assumes "validate_devices_and_routes n = Inr ()"
  shows "\<exists>bonds seen tables.
    res_fold (validate_vrf_table n bonds) (devices_of as_vrf (ln_devices n)) ({}, []) = Inr (seen, tables) \<and>
    validate_routes_by_table (nb_routes n) (connected_networks n tables) tables = Inr ()"
  using assms unfolding validate_devices_and_routes_def Let_def res_bind_eq_Inr
  by (elim exE conjE) (simp add: check_simps split: prod.splits, blast)

lemma linux_node_tables:
  assumes "validate_linux_node n = Inr ()"
  obtains tables networks where "tables_by_interface (compile_devices (LinuxNode n)) = tables"
    and "validate_routes_by_table (nb_routes n) networks tables = Inr ()"
proof -
  have "validate_devices_and_routes n = Inr ()" using assms by (simp add: validate_linux_node_def check_simps)
  from validated_tables [OF this] show ?thesis using that tables_agree by blast
qed

lemma validated_node_routes:
  assumes "validate_node node = Inr ()"
  obtains networks where "validate_routes_by_table (nb_routes (node_base_of node)) networks
      (tables_by_interface (compile_devices node)) = Inr ()"
    and "\<forall>r \<in> set (nb_routes (node_base_of node)). validate_route r = Inr ()"
proof (cases node)
  case (LinuxNode n)
  then have n: "validate_linux_node n = Inr ()" using assms by simp
  obtain tables networks where "tables_by_interface (compile_devices (LinuxNode n)) = tables"
    "validate_routes_by_table (nb_routes n) networks tables = Inr ()"
    by (rule linux_node_tables [OF n])
  moreover have "\<forall>r \<in> set (nb_routes n). validate_route r = Inr ()"
    using n by (simp add: validate_linux_node_def validate_node_base_def check_simps)
  ultimately show ?thesis by (intro that) (simp_all add: LinuxNode node_base.truncate_def)
next
  case (BridgeNode n)
  then have "validate_routes_by_table (nb_routes n) (bridge_networks n) [] = Inr ()"
    "\<forall>r \<in> set (nb_routes n). validate_route r = Inr ()"
    using assms by (simp_all add: validate_bridge_node_def validate_bridge_routes_def validate_node_base_def check_simps)
  then show ?thesis by (intro that) (simp_all add: BridgeNode node_base.truncate_def bridge_tables)
qed

lemma compile_node_total:
  assumes "validate_node node = Inr ()" and "\<forall>r \<in> set (nb_routes (node_base_of node)). table_inferred r"
  shows "\<exists>p. compile_node x deployment name node = Inr p"
proof -
  obtain networks where ok: "validate_routes_by_table (nb_routes (node_base_of node)) networks
      (tables_by_interface (compile_devices node)) = Inr ()"
    "\<forall>r \<in> set (nb_routes (node_base_of node)). validate_route r = Inr ()"
    by (rule validated_node_routes [OF assms(1)])
  have "\<exists>p. compile_route (tables_by_interface (compile_devices node)) r = Inr p"
    if r: "r \<in> set (nb_routes (node_base_of node))" for r
    using validated_route [OF ok(1) r] validated_route_devices ok(2) assms(2) r compile_route_total by blast
  then obtain routes where "res_map (compile_route (tables_by_interface (compile_devices node)))
      (nb_routes (node_base_of node)) = Inr routes"
    using res_map_total [of "nb_routes (node_base_of node)" "compile_route (tables_by_interface (compile_devices node))"]
    by blast
  then show ?thesis by (simp add: compile_node_def Let_def)
qed

section \<open>Links\<close>

lemma validated_endpoint:
  assumes "validate_endpoint nodes mtu endpoint state = Inr state'"
  obtains node interface where "partition_colon endpoint = (node, True, interface)" and "node \<in> set (dict_keys nodes)"
  using assms
  by (auto simp: validate_endpoint_def res_bind_eq_Inr check_simps split: prod.splits)

lemma validated_links:
  assumes "validate_link_endpoints nodes links = Inr linked" and "l \<in> set links"
    and "endpoint \<in> {fst (lc_endpoints l), snd (lc_endpoints l)}"
  obtains node interface where "partition_colon endpoint = (node, True, interface)" and "node \<in> set (dict_keys nodes)"
proof -
  let ?es = "concat (map (\<lambda>l. [(lc_mtu l, fst (lc_endpoints l)), (lc_mtu l, snd (lc_endpoints l))]) links)"
  obtain state where "res_fold (\<lambda>(mtu, endpoint). validate_endpoint nodes mtu endpoint) ?es
      (dict_map (\<lambda>_. []) nodes, {}) = Inr state"
    using assms(1) by (auto simp: validate_link_endpoints_def res_bind_eq_Inr)
  moreover have "(lc_mtu l, endpoint) \<in> set ?es" using assms(2,3) by auto
  from res_fold_step [OF calculation this] obtain a b where "validate_endpoint nodes (lc_mtu l) endpoint a = Inr b"
    by auto
  then show ?thesis using that by (rule validated_endpoint)
qed

lemma compile_endpoint_total:
  assumes "partition_colon endpoint = (node, True, interface)" and "node \<in> set (dict_keys plans)"
  shows "\<exists>e. compile_endpoint endpoint temporary plans = Inr e"
proof -
  obtain n where "dict_get plans node = Some n" using dict_get_in_keys [OF assms(2)] by blast
  then show ?thesis by (simp add: compile_endpoint_def assms(1))
qed

lemma compile_link_total:
  assumes "validate_link_endpoints nodes links = Inr linked" and "l \<in> set links"
    and "set (dict_keys nodes) = set (dict_keys plans)"
  shows "\<exists>p. compile_link x deployment plans (index, l) = Inr p"
proof -
  obtain left right where e: "lc_endpoints l = (left, right)" by (cases "lc_endpoints l")
  have total: "\<exists>p. compile_endpoint endpoint t plans = Inr p" if "endpoint \<in> {left, right}" for endpoint t
    by (rule validated_links [OF assms(1,2), of endpoint]) (use that e assms(3) compile_endpoint_total in auto)
  obtain a b where t: "temporary_veth_names (x_blake2s x) deployment index = (a, b)"
    by (cases "temporary_veth_names (x_blake2s x) deployment index")
  obtain p q where "compile_endpoint left a plans = Inr p" "compile_endpoint right b plans = Inr q"
    using total [of left a] total [of right b] by auto
  then show ?thesis by (simp add: compile_link_def e t)
qed

lemma enumerate_snd: "(i, l) \<in> set (enumerate k xs) \<Longrightarrow> l \<in> set xs"
  by (auto simp: in_set_enumerate_eq)

lemma compiled_keys:
  "res_map (\<lambda>(name, node). res_bind (f name node) (\<lambda>plan. Inr (name, plan))) nodes = Inr plans \<Longrightarrow>
   dict_keys plans = dict_keys nodes"
  by (induction nodes arbitrary: plans) (auto simp: res_bind_eq_Inr)

section \<open>Properties\<close>

text \<open>
  C10. Validation is enough for the planner: a manifest that passes the validators, and whose routes
  with several next hops leave their table to be inferred, always compiles, under its own name.
  The dump of the manifest is pydantic's and has the shape \<open>normalized_manifest\<close> expects.
\<close>

theorem validated_manifest_compiles:
  assumes "validate_manifest m = Inr ()" and "normalized_manifest x m = Inr document"
    and "\<forall>node \<in> set (dict_values (tp_nodes (mf_topology m))).
      \<forall>route \<in> set (nb_routes (node_base_of node)). table_inferred route"
  shows "\<exists>plan. compile_plan x m None = Inr plan \<and> tpl_name plan = mf_name m \<and>
    dict_keys (tpl_nodes plan) = dict_keys (tp_nodes (mf_topology m)) \<and>
    length (tpl_links plan) = length (tp_links (mf_topology m))"
proof -
  let ?t = "mf_topology m"
  have nodes: "\<forall>node \<in> set (dict_values (tp_nodes ?t)). validate_node node = Inr ()"
    and refs: "validate_references ?t = Inr ()"
    using assms(1) by (simp_all add: validate_manifest_def validate_topology_def check_simps)
  obtain linked where linked: "validate_link_endpoints (tp_nodes ?t) (tp_links ?t) = Inr linked"
    using refs by (auto simp: validate_references_def res_bind_eq_Inr)
  let ?f = "\<lambda>(name, node). res_bind (compile_node x (mf_name m) name node) (\<lambda>plan. Inr (name, plan))"
  have "\<exists>y. ?f entry = Inr y" if "entry \<in> set (tp_nodes ?t)" for entry
  proof -
    obtain name node where entry: "entry = (name, node)" by (cases entry)
    then have "node \<in> set (dict_values (tp_nodes ?t))" using that by force
    then obtain p where "compile_node x (mf_name m) name node = Inr p"
      using nodes assms(3) compile_node_total by blast
    then show ?thesis by (simp add: entry)
  qed
  then obtain plans where plans: "res_map ?f (tp_nodes ?t) = Inr plans"
    using res_map_total [of "tp_nodes ?t" ?f] by blast
  have keys: "dict_keys plans = dict_keys (tp_nodes ?t)" by (rule compiled_keys [OF plans])
  have "\<exists>p. compile_link x (mf_name m) plans entry = Inr p" if "entry \<in> set (enumerate 0 (tp_links ?t))" for entry
  proof -
    obtain index l where entry: "entry = (index, l)" by (cases entry)
    then have "l \<in> set (tp_links ?t)" using that enumerate_snd by fastforce
    then show ?thesis
      unfolding entry by (rule compile_link_total [OF linked _ keys [THEN arg_cong [of _ _ set], symmetric]])
  qed
  then obtain links where
    links: "res_map (compile_link x (mf_name m) plans) (enumerate 0 (tp_links ?t)) = Inr links"
    using res_map_total [of "enumerate 0 (tp_links ?t)" "compile_link x (mf_name m) plans"] by blast
  have "length links = length (tp_links ?t)"
    using links by (metis length_enumerate res_map_length)
  then show ?thesis
    using plans keys links assms(2)
    by (simp add: compile_plan_def effective_deployment_name_def manifest_fingerprint_def)
qed

lemma lab_manifest_valid: "validate_manifest lab_manifest = Inr ()"
  by code_simp

theorem validated_manifest_compiles_witness:
  "\<exists>plan. compile_plan lab_ext lab_manifest None = Inr plan \<and> tpl_name plan = ''lab''"
proof -
  obtain document where document: "normalized_manifest lab_ext lab_manifest = Inr document"
    using lab_plan_compiled by (auto simp: compile_plan_def manifest_fingerprint_def res_bind_eq_Inr)
  have "\<forall>node \<in> set (dict_values (tp_nodes (mf_topology lab_manifest))).
      \<forall>route \<in> set (nb_routes (node_base_of node)). table_inferred route"
    by (simp add: lab_manifest_def lab_host_def node_base.truncate_def)
  from validated_manifest_compiles [OF lab_manifest_valid document this] show ?thesis
    by (auto simp: lab_manifest_def)
qed

text \<open>A route through an interface of a VRF and one outside it, in the table of the VRF.\<close>

definition spanning_route :: route_config where
  "spanning_route = \<lparr>rc_dst = IPNetwork (IPv4Address (ipv4_of 10 9 0 0)) 16, rc_via = None, rc_dev = None,
     rc_nexthops = [\<lparr>nhc_via = None, nhc_dev = ''eth0'', nhc_weight = 1\<rparr>,
       \<lparr>nhc_via = None, nhc_dev = ''eth1'', nhc_weight = 1\<rparr>], rc_table = Some 100\<rparr>"

definition spanning_manifest :: manifest where
  "spanning_manifest = \<lparr>mf_version = 1, mf_name = ''lab'', mf_topology = \<lparr>
     tp_nodes = [
       (''h1'', LinuxNode \<lparr>nb_interfaces = [], nb_routes = [spanning_route], nb_neighbors = [], nb_sysctls = [],
          nb_routing = None,
          ln_devices = [(''red'', VrfConfig \<lparr>vrfc_table = 100, vrfc_interfaces = [''eth0'']\<rparr>)], ln_rules = []\<rparr>),
       (''h2'', lab_host [])],
     tp_links = [
       \<lparr>lc_endpoints = (''h1:eth0'', ''h2:eth0''), lc_mtu = 1500, lc_netem = None, lc_qdisc = None\<rparr>,
       \<lparr>lc_endpoints = (''h1:eth1'', ''h2:eth1''), lc_mtu = 1500, lc_netem = None, lc_qdisc = None\<rparr>]\<rparr>\<rparr>"


end
