(* ===== verification/Planned_Mtus.thy ===== *)
theory Planned_Mtus
  imports Manifest_Compiles
begin

text \<open>
  The MTU arithmetic of the validators and that of the planner agree: in the plan of a validated
  manifest every carried device has an MTU that its carrier can transport.
\<close>

section \<open>The endpoints of the links\<close>

text \<open>The endpoints in the order in which the validator and the planner walk them.\<close>

definition link_ends :: "link_config list \<Rightarrow> (int \<times> string) list" where
  "link_ends links = concat (map (\<lambda>l. [(lc_mtu l, fst (lc_endpoints l)), (lc_mtu l, snd (lc_endpoints l))]) links)"

definition endpoint_text :: "string \<Rightarrow> string \<Rightarrow> string" where
  "endpoint_text node interface = node @ '':'' @ interface"

lemma partition_colon_text:
  assumes "partition_colon e = (node, True, interface)"
  shows "e = endpoint_text node interface"
proof -
  let ?P = "\<lambda>c. c \<noteq> CHR '':''"
  have p: "node = takeWhile ?P e" "dropWhile ?P e \<noteq> []" "interface = drop 1 (dropWhile ?P e)"
    using assms by (simp_all add: partition_colon_def Let_def)
  obtain c rest where d: "dropWhile ?P e = c # rest" using p(2) by (cases "dropWhile ?P e") blast
  have "c = CHR '':''" using hd_dropWhile [OF p(2)] d by simp
  moreover have "e = node @ c # rest" using takeWhile_dropWhile_id [of ?P e] p(1) d by simp
  ultimately show ?thesis using p(3) d by (simp add: endpoint_text_def)
qed

lemma partition_colon_no_colon: "partition_colon e = (node, b, interface) \<Longrightarrow> CHR '':'' \<notin> set node"
  by (auto simp: partition_colon_def Let_def dest: set_takeWhileD)

text \<open>What the validator's tables say about the endpoints walked so far.\<close>

definition linked_to :: "(int \<times> string) list \<Rightarrow> (string, linked) dict \<Rightarrow> bool" where
  "linked_to ends linked \<longleftrightarrow> (\<forall>node mtus interface mtu. dict_get linked node = Some mtus \<longrightarrow>
     dict_get mtus interface = Some mtu \<longrightarrow> (mtu, endpoint_text node interface) \<in> set ends)"

lemma validate_endpoint_step:
  assumes "validate_endpoint nodes mtu e (linked, used) = Inr (linked', used')"
    and "linked_to ends linked" and "used = set (map snd ends)" and "distinct (map snd ends)"
  shows "linked_to (ends @ [(mtu, e)]) linked' \<and> used' = set (map snd (ends @ [(mtu, e)])) \<and>
    distinct (map snd (ends @ [(mtu, e)]))"
proof -
  obtain node interface mtus where p: "partition_colon e = (node, True, interface)" and new: "e \<notin> used"
    and mtus: "dict_get linked node = Some mtus"
    and linked': "linked' = dict_set node (dict_set interface mtu mtus) linked" and used': "used' = insert e used"
    using assms(1)
    by (auto simp: validate_endpoint_def res_bind_eq_Inr res_of_option_eq_Inr check_simps split: prod.splits)
  have "linked_to (ends @ [(mtu, e)]) linked'"
    unfolding linked_to_def
  proof (intro allI impI)
    fix node' mtus' i m
    assume "dict_get linked' node' = Some mtus'" "dict_get mtus' i = Some m"
    then show "(m, endpoint_text node' i) \<in> set (ends @ [(mtu, e)])"
      using assms(2) mtus partition_colon_text [OF p]
      by (auto simp: linked' linked_to_def split: if_splits)
  qed
  then show ?thesis using new used' assms(3,4) by auto
qed

lemma validate_ends:
  assumes "res_fold (\<lambda>(mtu, e). validate_endpoint nodes mtu e) ends (linked, used) = Inr (linked', used')"
    and "linked_to done linked" and "used = set (map snd done)" and "distinct (map snd done)"
  shows "linked_to (done @ ends) linked' \<and> distinct (map snd (done @ ends))"
  using assms
proof (induction ends arbitrary: linked used "done")
  case (Cons p ends)
  obtain mtu e where pe: "p = (mtu, e)" by (cases p)
  obtain s where s: "validate_endpoint nodes mtu e (linked, used) = Inr s"
    "res_fold (\<lambda>(mtu, e). validate_endpoint nodes mtu e) ends s = Inr (linked', used')"
    using Cons.prems(1) by (auto simp: pe res_bind_eq_Inr)
  obtain l u where lu: "s = (l, u)" by (cases s)
  have step: "linked_to (done @ [(mtu, e)]) l" "u = set (map snd (done @ [(mtu, e)]))"
    "distinct (map snd (done @ [(mtu, e)]))"
    using validate_endpoint_step [OF s(1) [unfolded lu] Cons.prems(2,3,4)] by simp_all
  show ?case using Cons.IH [OF s(2) [unfolded lu] step] by (simp add: pe)
qed simp

lemma validated_ends:
  assumes "validate_link_endpoints nodes links = Inr linked"
  shows "linked_to (link_ends links) linked \<and> distinct (map snd (link_ends links))"
proof -
  obtain used where "res_fold (\<lambda>(mtu, e). validate_endpoint nodes mtu e) (link_ends links)
      (dict_map (\<lambda>_. []) nodes, {}) = Inr (linked, used)"
    using assms by (auto simp: validate_link_endpoints_def link_ends_def res_bind_eq_Inr)
  moreover have "linked_to [] (dict_map (\<lambda>_. []) nodes)" by (auto simp: linked_to_def)
  ultimately show ?thesis using validate_ends [of nodes "link_ends links"] by fastforce
qed

section \<open>The compiled links\<close>

definition end_text :: "endpoint_plan \<Rightarrow> string" where
  "end_text e = endpoint_text (ep_node e) (ep_interface e)"

definition plan_ends :: "link_plan list \<Rightarrow> (int \<times> endpoint_plan) list" where
  "plan_ends links = concat (map (\<lambda>l. map (Pair (lk_mtu l)) (link_endpoints l)) links)"

lemma compiled_endpoint_text:
  assumes "compile_endpoint e t plans = Inr p"
  shows "end_text p = e \<and> CHR '':'' \<notin> set (ep_node p)"
proof -
  obtain node interface where p: "partition_colon e = (node, True, interface)" "ep_node p = node" "ep_interface p = interface"
    using assms by (auto simp: compile_endpoint_def res_bind_eq_Inr split: prod.splits if_splits)
  then show ?thesis using partition_colon_text [OF p(1)] partition_colon_no_colon [OF p(1)] by (simp add: end_text_def)
qed

lemma compiled_link_ends:
  assumes "compile_link x deployment plans (k, l) = Inr p"
  shows "lk_mtu p = lc_mtu l \<and> end_text (lk_left p) = fst (lc_endpoints l) \<and>
    end_text (lk_right p) = snd (lc_endpoints l) \<and>
    (\<forall>e \<in> {lk_left p, lk_right p}. CHR '':'' \<notin> set (ep_node e))"
proof -
  obtain a b where t: "temporary_veth_names (x_blake2s x) deployment k = (a, b)"
    by (cases "temporary_veth_names (x_blake2s x) deployment k")
  obtain left right where e: "lc_endpoints l = (left, right)" by (cases "lc_endpoints l")
  obtain p1 p2 where "compile_endpoint left a plans = Inr p1" "compile_endpoint right b plans = Inr p2"
    "lk_mtu p = lc_mtu l" "lk_left p = p1" "lk_right p = p2"
    using assms by (auto simp: compile_link_def t e res_bind_eq_Inr)
  then show ?thesis using compiled_endpoint_text by (simp add: e)
qed

lemma compiled_ends:
  "res_map (compile_link x deployment plans) (enumerate k links) = Inr ls \<Longrightarrow>
   map (\<lambda>(m, e). (m, end_text e)) (plan_ends ls) = link_ends links \<and>
   (\<forall>(m, e) \<in> set (plan_ends ls). CHR '':'' \<notin> set (ep_node e))"
proof (induction links arbitrary: k ls)
  case (Cons l links)
  obtain p ps where ls: "ls = p # ps" "compile_link x deployment plans (k, l) = Inr p"
    "res_map (compile_link x deployment plans) (enumerate (Suc k) links) = Inr ps"
    using Cons.prems by (auto simp: res_bind_eq_Inr)
  show ?case
    using Cons.IH [OF ls(3)] compiled_link_ends [OF ls(2)]
    by (simp add: ls(1) plan_ends_def link_ends_def link_endpoints_def)
qed (simp add: plan_ends_def link_ends_def)

lemma linked_mtus_ends:
  "linked_mtus node plan chosen =
   map fst (filter (\<lambda>(m, e). ep_node e = nd_name node \<and> chosen (ep_interface e)) (plan_ends (tpl_links plan)))"
proof -
  have "concat (map (\<lambda>link. map (\<lambda>_. lk_mtu link) (filter (\<lambda>e. ep_node e = nd_name node \<and> chosen (ep_interface e))
      (link_endpoints link))) links) =
    map fst (filter (\<lambda>(m, e). ep_node e = nd_name node \<and> chosen (ep_interface e)) (plan_ends links))" for links
    by (induction links) (auto simp: plan_ends_def filter_map o_def)
  then show ?thesis by (simp add: linked_mtus_def)
qed

text \<open>The plan has the endpoints of the manifest, every one once.\<close>

definition ends_match :: "topology_plan \<Rightarrow> (int \<times> string) list \<Rightarrow> bool" where
  "ends_match plan ends \<longleftrightarrow> map (\<lambda>(m, e). (m, end_text e)) (plan_ends (tpl_links plan)) = ends \<and>
     (\<forall>(m, e) \<in> set (plan_ends (tpl_links plan)). CHR '':'' \<notin> set (ep_node e)) \<and> distinct (map snd ends)"

lemma end_text_inject:
  "CHR '':'' \<notin> set (ep_node e) \<Longrightarrow> CHR '':'' \<notin> set name \<Longrightarrow>
   end_text e = endpoint_text name i \<longleftrightarrow> ep_node e = name \<and> ep_interface e = i"
proof (rule iffI)
  assume a: "CHR '':'' \<notin> set (ep_node e)" "CHR '':'' \<notin> set name" and "end_text e = endpoint_text name i"
  then have "partition_colon (ep_node e @ '':'' @ ep_interface e) = partition_colon (name @ '':'' @ i)"
    by (simp only: end_text_def endpoint_text_def)
  then show "ep_node e = name \<and> ep_interface e = i"
    unfolding partition_colon_append [OF a(1)] partition_colon_append [OF a(2)] by simp
qed (simp add: end_text_def)

lemma linked_mtus_set:
  assumes "ends_match plan ends" and "CHR '':'' \<notin> set (nd_name node)"
  shows "set (linked_mtus node plan chosen) = {m. \<exists>i. chosen i \<and> (m, endpoint_text (nd_name node) i) \<in> set ends}"
proof -
  let ?P = "plan_ends (tpl_links plan)"
  have c: "\<And>m e. (m, e) \<in> set ?P \<Longrightarrow> CHR '':'' \<notin> set (ep_node e)" and ends: "ends = map (\<lambda>(m, e). (m, end_text e)) ?P"
    using assms(1) by (auto simp: ends_match_def)
  have "(\<exists>e. (m, e) \<in> set ?P \<and> ep_node e = nd_name node \<and> chosen (ep_interface e)) \<longleftrightarrow>
      (\<exists>i. chosen i \<and> (m, endpoint_text (nd_name node) i) \<in> set ends)" for m
  proof
    assume "\<exists>e. (m, e) \<in> set ?P \<and> ep_node e = nd_name node \<and> chosen (ep_interface e)"
    then obtain e where e: "(m, e) \<in> set ?P" "ep_node e = nd_name node" "chosen (ep_interface e)" by blast
    have "(m, end_text e) \<in> set ends" unfolding ends using e(1) by force
    then show "\<exists>i. chosen i \<and> (m, endpoint_text (nd_name node) i) \<in> set ends"
      using e(2,3) by (auto simp: end_text_def)
  next
    assume "\<exists>i. chosen i \<and> (m, endpoint_text (nd_name node) i) \<in> set ends"
    then obtain i e where i: "chosen i" "(m, e) \<in> set ?P" "end_text e = endpoint_text (nd_name node) i"
      unfolding ends by auto
    then show "\<exists>e. (m, e) \<in> set ?P \<and> ep_node e = nd_name node \<and> chosen (ep_interface e)"
      using i end_text_inject [OF c [OF i(2)] assms(2), of i] by blast
  qed
  moreover have "set (linked_mtus node plan chosen) =
      {m. \<exists>e. (m, e) \<in> set ?P \<and> ep_node e = nd_name node \<and> chosen (ep_interface e)}"
    unfolding linked_mtus_ends by force
  ultimately show ?thesis by presburger
qed

lemma distinct_snd: "distinct (map snd ps) \<Longrightarrow> (m, e) \<in> set ps \<Longrightarrow> (m', e) \<in> set ps \<Longrightarrow> m' = m"
  by (induction ps) (auto simp: image_iff)

lemma linked_mtus_single:
  assumes m: "ends_match plan ends" "CHR '':'' \<notin> set (nd_name node)"
    and e: "(mtu, endpoint_text (nd_name node) i) \<in> set ends"
  shows "set (linked_mtus node plan (\<lambda>j. j = i)) = {mtu}"
  unfolding linked_mtus_set [OF m] using e m(1) by (auto simp: ends_match_def dest: distinct_snd)

lemma linked_mtus_Union:
  "set (linked_mtus node plan (\<lambda>i. i \<in> I)) = (\<Union>i \<in> I. set (linked_mtus node plan (\<lambda>j. j = i)))"
  by (auto simp: linked_mtus_ends)

text \<open>The MTU the validator has recorded for an interface is the one the planner finds.\<close>

definition carries :: "node_plan \<Rightarrow> topology_plan \<Rightarrow> linked \<Rightarrow> bool" where
  "carries node plan linked \<longleftrightarrow>
     (\<forall>i u. dict_get linked i = Some u \<longrightarrow> set (linked_mtus node plan (\<lambda>j. j = i)) = {u})"

lemma carries_first: "carries node plan linked \<Longrightarrow> dict_get linked i = Some u \<Longrightarrow> first_mtu node plan i = Some u"
proof -
  assume "carries node plan linked" "dict_get linked i = Some u"
  then have "set (linked_mtus node plan (\<lambda>j. j = i)) = {u}" by (simp add: carries_def)
  then show ?thesis by (cases "linked_mtus node plan (\<lambda>j. j = i)") (auto simp: first_mtu_def)
qed

section \<open>What a device is carried by\<close>

text \<open>The interface whose link carries the packets of a device, and the bytes its encapsulation adds.\<close>

fun carrier :: "device_plan \<Rightarrow> (string \<times> int) option" where
  "carrier (VxlanDevice d) = Some (vxlan_link d, tunnel_overhead (vxlan_local d))"
| "carrier (GeneveDevice d) = Some (geneve_link d, tunnel_overhead (geneve_remote d))"
| "carrier (GreDevice d) = Some (gre_link d, 24 + (if gre_key d \<noteq> None then 4 else 0))"
| "carrier (IpipDevice d) = Some (ipip_link d, 20)"
| "carrier (MacvlanDevice d) = Some (macvlan_link d, 0)"
| "carrier (IpvlanDevice d) = Some (ipvlan_link d, 0)"
| "carrier _ = None"

text \<open>The MTU the planner computes for a device; the kernel chooses that of a VLAN, a VRF has none.\<close>

fun planned_mtu :: "node_plan \<Rightarrow> topology_plan \<Rightarrow> device_plan \<Rightarrow> int res option" where
  "planned_mtu node plan (VxlanDevice d) = Some (vxlan_device_mtu node plan d)"
| "planned_mtu node plan (GeneveDevice d) = Some (geneve_device_mtu node plan d)"
| "planned_mtu node plan (GreDevice d) = Some (gre_device_mtu node plan d)"
| "planned_mtu node plan (IpipDevice d) = Some (ipip_device_mtu node plan d)"
| "planned_mtu node plan (MacvlanDevice d) = Some (macvlan_device_mtu node plan d)"
| "planned_mtu node plan (IpvlanDevice d) = Some (ipvlan_device_mtu node plan d)"
| "planned_mtu node plan (DummyDevice d) = Some (Inr (dummy_device_mtu node plan d))"
| "planned_mtu node plan (BondDevice d) = Some (bond_device_mtu node plan d)"
| "planned_mtu node plan (VlanDevice d) = None"
| "planned_mtu node plan (VrfDevice d) = None"

text \<open>What the validators establish about a carried device.\<close>

definition fits :: "linked \<Rightarrow> string \<Rightarrow> int \<Rightarrow> int option \<Rightarrow> bool" where
  "fits linked link overhead mtu \<longleftrightarrow> (\<exists>u. dict_get linked link = Some u \<and> 576 \<le> u - overhead \<and>
     (case mtu of None \<Rightarrow> True | Some m \<Rightarrow> 576 \<le> m \<and> m \<le> u - overhead))"

lemma validate_tunnel_fits:
  "validate_tunnel protocol node interfaces linked name link local overhead mtu = Inr () \<Longrightarrow>
   check_opt device_mtu mtu = Inr () \<Longrightarrow> fits linked link overhead mtu"
  by (auto simp: validate_tunnel_def underlay_mtu_def require_encapsulation_def device_mtu_def fits_def
      check_simps res_bind_eq_Inr res_of_option_eq_Inr split: option.split)

lemma validate_child_fits:
  "validate_child_link kind node linked name link mtu = Inr () \<Longrightarrow> check_opt device_mtu mtu = Inr () \<Longrightarrow>
   (\<And>u. dict_get linked link = Some u \<Longrightarrow> 576 \<le> u) \<Longrightarrow> fits linked link 0 mtu"
  by (auto simp: validate_child_link_def underlay_mtu_def device_mtu_def fits_def
      check_simps res_bind_eq_Inr res_of_option_eq_Inr split: option.split)

text \<open>The planner's formula for such a device\<close>

definition fitted :: "node_plan \<Rightarrow> topology_plan \<Rightarrow> string \<Rightarrow> int \<Rightarrow> int res \<Rightarrow> bool" where
  "fitted node plan link overhead r \<longleftrightarrow> (\<exists>n u. r = Inr n \<and> first_mtu node plan link = Some u \<and> 576 \<le> n \<and> n + overhead \<le> u)"

lemma fits_fitted:
  assumes "carries node plan linked" and "fits linked link overhead mtu"
    and "mtu = None \<Longrightarrow> r = res_bind (parent_device_mtu node plan link) (\<lambda>m. Inr (m - overhead))"
    and "\<And>m. mtu = Some m \<Longrightarrow> r = Inr m"
  shows "fitted node plan link overhead r"
proof -
  obtain u where u: "dict_get linked link = Some u" "576 \<le> u - overhead"
    "case mtu of None \<Rightarrow> True | Some m \<Rightarrow> 576 \<le> m \<and> m \<le> u - overhead"
    using assms(2) by (auto simp: fits_def)
  have "first_mtu node plan link = Some u" by (rule carries_first [OF assms(1) u(1)])
  then show ?thesis
    using u(2,3) assms(3,4) by (cases mtu) (auto simp: fitted_def parent_device_mtu_def)
qed

lemma res_bind_id: "res_bind r (\<lambda>m. Inr (m - (0::int))) = r"
  by (cases r) simp_all

lemma vxlan_fitted:
  assumes "carries node plan linked"
    and "fits linked (vxlan_link d) (tunnel_overhead (vxlan_local d)) (vxlan_mtu d)"
  shows "fitted node plan (vxlan_link d) (tunnel_overhead (vxlan_local d)) (vxlan_device_mtu node plan d)"
  using assms
  by (auto simp: fits_def fitted_def vxlan_device_mtu_def tunnel_overhead_def dest: carries_first split: option.splits)

lemma geneve_fitted: "carries node plan linked \<Longrightarrow>
    fits linked (geneve_link d) (tunnel_overhead (geneve_remote d)) (geneve_mtu d) \<Longrightarrow>
    fitted node plan (geneve_link d) (tunnel_overhead (geneve_remote d)) (geneve_device_mtu node plan d)"
  by (erule (1) fits_fitted) (simp_all add: geneve_device_mtu_def tunnel_overhead_def)

lemma gre_fitted: "carries node plan linked \<Longrightarrow>
    fits linked (gre_link d) (24 + (if gre_key d \<noteq> None then 4 else 0)) (gre_mtu d) \<Longrightarrow>
    fitted node plan (gre_link d) (24 + (if gre_key d \<noteq> None then 4 else 0)) (gre_device_mtu node plan d)"
  by (erule (1) fits_fitted) (simp_all add: gre_device_mtu_def Let_def)

lemma ipip_fitted: "carries node plan linked \<Longrightarrow> fits linked (ipip_link d) 20 (ipip_mtu d) \<Longrightarrow>
    fitted node plan (ipip_link d) 20 (ipip_device_mtu node plan d)"
  by (erule (1) fits_fitted) (simp_all add: ipip_device_mtu_def)

lemma macvlan_fitted: "carries node plan linked \<Longrightarrow> fits linked (macvlan_link d) 0 (macvlan_mtu d) \<Longrightarrow>
    fitted node plan (macvlan_link d) 0 (macvlan_device_mtu node plan d)"
  by (erule (1) fits_fitted) (simp_all only: macvlan_device_mtu_def res_bind_id option.case)

lemma ipvlan_fitted: "carries node plan linked \<Longrightarrow> fits linked (ipvlan_link d) 0 (ipvlan_mtu d) \<Longrightarrow>
    fitted node plan (ipvlan_link d) 0 (ipvlan_device_mtu node plan d)"
  by (erule (1) fits_fitted) (simp_all only: ipvlan_device_mtu_def res_bind_id option.case)

lemmas device_fitted = vxlan_fitted geneve_fitted gre_fitted ipip_fitted macvlan_fitted ipvlan_fitted

section \<open>The devices of a validated node\<close>

lemma devices_of_in: "(name, d) \<in> set ds \<Longrightarrow> as d = Some c \<Longrightarrow> (name, c) \<in> set (devices_of as ds)"
  by (force simp: devices_of_def List.map_filter_def)

lemma validated_device: "validate_linux_node n = Inr () \<Longrightarrow> (name, d) \<in> set (ln_devices n) \<Longrightarrow> validate_linux_device d = Inr ()"
  by (force simp: validate_linux_node_def check_simps)

lemma linux_device_fits:
  assumes v: "validate_linux_node n = Inr ()" and r: "validate_linux_references node n linked = Inr ()"
    and d: "(name, d) \<in> set (ln_devices n)" and wide: "\<And>i u. dict_get linked i = Some u \<Longrightarrow> 576 \<le> u"
  shows "case d of
      VxlanConfig c \<Rightarrow> fits linked (vxlanc_link c) (tunnel_overhead (vxlanc_local c)) (vxlanc_mtu c)
    | GeneveConfig c \<Rightarrow> fits linked (genevec_link c) (tunnel_overhead (genevec_remote c)) (genevec_mtu c)
    | GreConfig c \<Rightarrow> fits linked (grec_link c) (24 + (if grec_key c \<noteq> None then 4 else 0)) (grec_mtu c)
    | IpipConfig c \<Rightarrow> fits linked (ipipc_link c) 20 (ipipc_mtu c)
    | MacvlanConfig c \<Rightarrow> fits linked (macvlanc_link c) 0 (macvlanc_mtu c)
    | IpvlanConfig c \<Rightarrow> fits linked (ipvlanc_link c) 0 (ipvlanc_mtu c)
    | _ \<Rightarrow> True"
proof -
  let ?d = "ln_devices n" and ?i = "nb_interfaces n"
  have dev: "validate_linux_device d = Inr ()" by (rule validated_device [OF v d])
  have refs:
    "\<forall>e \<in> set (devices_of as_vxlan ?d). validate_vxlan_underlay node ?i linked e = Inr ()"
    "\<forall>e \<in> set (devices_of as_geneve ?d). validate_geneve_underlay node ?i linked e = Inr ()"
    "\<forall>e \<in> set (devices_of as_gre ?d). validate_gre_underlay node ?i linked e = Inr ()"
    "\<forall>e \<in> set (devices_of as_ipip ?d). validate_ipip_underlay node ?i linked e = Inr ()"
    "\<forall>(name, c) \<in> set (devices_of as_macvlan ?d). validate_child_link ''Macvlan'' node linked name (macvlanc_link c) (macvlanc_mtu c) = Inr ()"
    "\<forall>(name, c) \<in> set (devices_of as_ipvlan ?d). validate_child_link ''Ipvlan'' node linked name (ipvlanc_link c) (ipvlanc_mtu c) = Inr ()"
    using r by (simp_all add: validate_linux_references_def check_simps Let_def case_prod_beta)
  show ?thesis
  proof (cases d)
    case (VxlanConfig c)
    have "validate_vxlan_underlay node ?i linked (name, c) = Inr ()"
      using refs(1) devices_of_in [OF d, of as_vxlan c] by (simp add: VxlanConfig)
    then show ?thesis using dev by (simp add: VxlanConfig validate_vxlan_underlay_def validate_vxlan_device_def
        check_simps validate_tunnel_fits)
  next
    case (GeneveConfig c)
    have "validate_geneve_underlay node ?i linked (name, c) = Inr ()"
      using refs(2) devices_of_in [OF d, of as_geneve c] by (simp add: GeneveConfig)
    then show ?thesis using dev by (simp add: GeneveConfig validate_geneve_underlay_def validate_geneve_device_def
        check_simps validate_tunnel_fits)
  next
    case (GreConfig c)
    have "validate_gre_underlay node ?i linked (name, c) = Inr ()"
      using refs(3) devices_of_in [OF d, of as_gre c] by (simp add: GreConfig)
    then show ?thesis using dev by (simp add: GreConfig validate_gre_underlay_def validate_gre_device_def
        check_simps validate_tunnel_fits)
  next
    case (IpipConfig c)
    have "validate_ipip_underlay node ?i linked (name, c) = Inr ()"
      using refs(4) devices_of_in [OF d, of as_ipip c] by (simp add: IpipConfig)
    then show ?thesis using dev by (simp add: IpipConfig validate_ipip_underlay_def validate_ipip_device_def
        check_simps validate_tunnel_fits)
  next
    case (MacvlanConfig c)
    have "validate_child_link ''Macvlan'' node linked name (macvlanc_link c) (macvlanc_mtu c) = Inr ()"
      using refs(5) devices_of_in [OF d, of as_macvlan c] by (auto simp: MacvlanConfig)
    then show ?thesis using dev wide by (simp add: MacvlanConfig validate_macvlan_device_def
        check_simps validate_child_fits)
  next
    case (IpvlanConfig c)
    have "validate_child_link ''Ipvlan'' node linked name (ipvlanc_link c) (ipvlanc_mtu c) = Inr ()"
      using refs(6) devices_of_in [OF d, of as_ipvlan c] by (auto simp: IpvlanConfig)
    then show ?thesis using dev wide by (simp add: IpvlanConfig validate_ipvlan_device_def
        check_simps validate_child_fits)
  qed simp_all
qed

fun declared_mtu :: "device_plan \<Rightarrow> int option" where
  "declared_mtu (VxlanDevice d) = vxlan_mtu d"
| "declared_mtu (GeneveDevice d) = geneve_mtu d"
| "declared_mtu (GreDevice d) = gre_mtu d"
| "declared_mtu (IpipDevice d) = ipip_mtu d"
| "declared_mtu (MacvlanDevice d) = macvlan_mtu d"
| "declared_mtu (IpvlanDevice d) = ipvlan_mtu d"
| "declared_mtu _ = None"

lemma carrier_fitted:
  assumes "carries node plan linked" and "carrier device = Some (link, overhead)"
    and "fits linked link overhead (declared_mtu device)"
  shows "\<exists>r. planned_mtu node plan device = Some r \<and> fitted node plan link overhead r"
  using assms(2,3) device_fitted [OF assms(1)] by (cases device) (simp_all, blast+)

lemma linux_carried:
  assumes "validate_linux_node n = Inr ()" and "validate_linux_references node n linked = Inr ()"
    and "(name, d) \<in> set (ln_devices n)" and "\<And>i u. dict_get linked i = Some u \<Longrightarrow> 576 \<le> u"
    and "carrier (compile_linux_device name d) = Some (link, overhead)"
  shows "fits linked link overhead (declared_mtu (compile_linux_device name d))"
  using linux_device_fits [OF assms(1-4)] assms(5)
  by (cases d) (auto simp: compile_vxlan_def compile_geneve_def)

lemma bridge_carried:
  assumes "validate_bridge_node n = Inr ()" and "validate_bridge_references node n linked = Inr ()"
    and "(name, d) \<in> set (bn_devices n)" and "carrier (compile_bridge_device name d) = Some (link, overhead)"
  shows "fits linked link overhead (declared_mtu (compile_bridge_device name d))"
proof -
  have dev: "validate_bridge_device d = Inr ()"
    using assms(1,3) by (force simp: validate_bridge_node_def check_simps)
  have u: "validate_overlay_underlay node (nb_interfaces n) linked (name, d) = Inr ()"
    using assms(2,3) by (simp add: validate_bridge_references_def check_simps)
  show ?thesis
  proof (cases d)
    case (BridgeVxlanConfig c)
    then show ?thesis
      using dev u assms(4) validate_tunnel_fits
      by (auto simp: validate_vxlan_underlay_def validate_vxlan_device_def check_simps compile_vxlan_def)
  next
    case (BridgeGeneveConfig c)
    then show ?thesis
      using dev u assms(4)
      by (auto simp: validate_geneve_device_def check_simps compile_geneve_def underlay_mtu_def fits_def
          require_encapsulation_def device_mtu_def res_bind_eq_Inr res_of_option_eq_Inr split: option.split)
  qed
qed

lemma node_carried:
  assumes v: "validate_node cfg = Inr ()" and r: "validate_node_references name cfg linked = Inr ()"
    and d: "device \<in> set (dict_values (compile_devices cfg))" and "carrier device = Some (link, overhead)"
    and wide: "\<And>i u. dict_get linked i = Some u \<Longrightarrow> 576 \<le> u"
  shows "fits linked link overhead (declared_mtu device)"
proof (cases cfg)
  case (LinuxNode n)
  obtain dname c where c: "(dname, c) \<in> set (ln_devices n)" "device = compile_linux_device dname c"
    using d by (auto simp: LinuxNode compile_devices_def)
  have "validate_linux_references name n linked = Inr ()"
    using r by (simp add: LinuxNode validate_node_references_def validate_node_devices_def check_simps Let_def)
  then show ?thesis using linux_carried [OF _ _ c(1) wide] v assms(4) by (simp add: LinuxNode c(2))
next
  case (BridgeNode n)
  obtain dname c where c: "(dname, c) \<in> set (bn_devices n)" "device = compile_bridge_device dname c"
    using d by (auto simp: BridgeNode compile_devices_def)
  have "validate_bridge_references name n linked = Inr ()"
    using r by (simp add: BridgeNode validate_node_references_def validate_node_devices_def check_simps Let_def)
  then show ?thesis using bridge_carried [OF _ _ c(1)] v assms(4) by (simp add: BridgeNode c(2))
qed

lemma compiled_bond:
  "BondDevice b \<in> set (dict_values (compile_devices cfg)) \<Longrightarrow>
   \<exists>n name c. cfg = LinuxNode n \<and> (name, BondConfig c) \<in> set (ln_devices n) \<and> b = compile_bond name c"
proof (cases cfg)
  case (LinuxNode n)
  assume "BondDevice b \<in> set (dict_values (compile_devices cfg))"
  then obtain name d where d: "(name, d) \<in> set (ln_devices n)" "BondDevice b = compile_linux_device name d"
    by (auto simp: LinuxNode compile_devices_def)
  then show ?thesis by (cases d) (auto simp: LinuxNode)
next
  case (BridgeNode n)
  assume "BondDevice b \<in> set (dict_values (compile_devices cfg))"
  then obtain name d where "BondDevice b = compile_bridge_device name d"
    by (auto simp: BridgeNode compile_devices_def)
  then show ?thesis by (cases d) simp_all
qed

lemma remdups_singleton:
  assumes "set xs = {u}"
  shows "remdups xs = [u]"
proof -
  have "set (remdups xs) = {u}" "distinct (remdups xs)" using assms by simp_all
  then show ?thesis by (metis distinct.simps(2) empty_iff empty_set insert_iff list.exhaust list.set_intros(1) list.simps(15) singletonD)
qed

lemma res_map_values: "res_map f xs = Inr ys \<Longrightarrow> x \<in> set xs \<Longrightarrow> \<exists>y \<in> set ys. f x = Inr y"
  by (induction xs arbitrary: ys) (auto simp: res_bind_eq_Inr)

lemma bond_links_same:
  assumes "validate_bond_links node linked (name, c) = Inr ()"
  shows "\<exists>u. \<forall>i \<in> set (bondc_interfaces c). dict_get linked i = Some u"
proof -
  obtain mtus where m: "res_map (underlay_mtu linked) (bondc_interfaces c) = Inr mtus" "length (remdups mtus) = 1"
    using assms by (auto simp: validate_bond_links_def Let_def res_bind_eq_Inr check_simps)
  obtain u where "remdups mtus = [u]" using m(2) by (cases "remdups mtus") auto
  then have "set mtus = {u}" by (metis list.simps(15) empty_set set_remdups)
  then show ?thesis
    using res_map_values [OF m(1)] by (auto simp: underlay_mtu_def res_of_option_eq_Inr)
qed

section \<open>Properties\<close>

lemma compiled_node_fields:
  "compile_node x deployment name cfg = Inr p \<Longrightarrow> nd_name p = name \<and> nd_devices p = compile_devices cfg"
  by (auto simp: compile_node_def Let_def res_bind_eq_Inr compile_bridge_def split: node_config.splits)

text \<open>A node of the compiled plan with the configuration it comes from and what the validators saw there\<close>

lemma validated_plan_node:
  assumes v: "validate_manifest m = Inr ()" and c: "compile_plan x m override = Inr plan"
    and node: "node \<in> set (plan_nodes plan)"
  obtains cfg linked where "nd_devices node = compile_devices cfg" and "validate_node cfg = Inr ()"
    and "validate_node_references (nd_name node) cfg linked = Inr ()"
    and "carries node plan linked" and "\<forall>i u. dict_get linked i = Some u \<longrightarrow> 576 \<le> u"
proof -
  let ?t = "mf_topology m"
  have vt: "\<forall>n \<in> set (dict_values (tp_nodes ?t)). validate_node n = Inr ()" "validate_references ?t = Inr ()"
    "\<forall>l \<in> set (tp_links ?t). validate_link l = Inr ()" "\<forall>n \<in> set (dict_keys (tp_nodes ?t)). name_pattern n"
    using v by (simp_all add: validate_manifest_def validate_topology_def check_simps require_name_def)
  obtain deployment nodes links where parts:
    "res_map (\<lambda>(name', node). res_bind (compile_node x deployment name' node) (\<lambda>plan. Inr (name', plan))) (tp_nodes ?t) = Inr nodes"
    "res_map (compile_link x deployment nodes) (enumerate 0 (tp_links ?t)) = Inr links"
    "tpl_nodes plan = nodes" "tpl_links plan = links"
    using c by (auto simp: compile_plan_def res_bind_eq_Inr)
  obtain key where "(key, node) \<in> set nodes" using node parts(3) by (auto simp: plan_nodes_def)
  then obtain name cfg where cfg: "(name, cfg) \<in> set (tp_nodes ?t)" "compile_node x deployment name cfg = Inr node"
    using res_map_in [OF parts(1)] by (fastforce simp: res_bind_eq_Inr)
  have fields: "nd_name node = name" "nd_devices node = compile_devices cfg" using compiled_node_fields [OF cfg(2)] by simp_all
  obtain tables where tables: "validate_link_endpoints (tp_nodes ?t) (tp_links ?t) = Inr tables"
    and steps: "\<exists>ids. res_fold (validate_node_in_topology tables) (tp_nodes ?t) \<lparr>ri_ospf = [], ri_bgp = [], ri_rp = None\<rparr> = Inr ids"
    using vt(2) by (auto simp: validate_references_def res_bind_eq_Inr)
  obtain a b where "validate_node_in_topology tables (name, cfg) a = Inr b"
    using steps res_fold_step cfg(1) by metis
  then obtain linked where linked: "dict_get tables name = Some linked" "validate_node_references name cfg linked = Inr ()"
    by (auto simp: validate_node_in_topology_def res_bind_eq_Inr res_of_option_eq_Inr)
  have ends: "linked_to (link_ends (tp_links ?t)) tables" "distinct (map snd (link_ends (tp_links ?t)))"
    using validated_ends [OF tables] by simp_all
  have match: "ends_match plan (link_ends (tp_links ?t))"
    using compiled_ends [OF parts(2)] ends(2) parts(4) by (simp add: ends_match_def)
  have "name_pattern name" using vt(4) cfg(1) by force
  then have colon: "CHR '':'' \<notin> set (nd_name node)"
    unfolding fields(1) by (auto simp: name_pattern_def list_all_iff is_lower_def is_digit_def split: list.splits)
  have on: "(u, endpoint_text name i) \<in> set (link_ends (tp_links ?t))" if "dict_get linked i = Some u" for i u
    using ends(1) linked(1) that by (auto simp: linked_to_def)
  show ?thesis
  proof (rule that [OF fields(2) _ _ _])
    show "validate_node cfg = Inr ()" using vt(1) cfg(1) by force
    show "validate_node_references (nd_name node) cfg linked = Inr ()" using linked(2) fields(1) by simp
    show "carries node plan linked"
      unfolding carries_def using linked_mtus_single [OF match colon] on fields(1) by blast
    show "\<forall>i u. dict_get linked i = Some u \<longrightarrow> 576 \<le> u"
      using on vt(3) by (fastforce simp: link_ends_def validate_link_def check_simps)
  qed
qed

text \<open>
  C11. In the plan of a validated manifest every VXLAN, Geneve, GRE, IPIP, macvlan and ipvlan device
  gets an MTU: it is at least 576, the interface that carries the device is on a link, and the MTU with
  the bytes of the encapsulation fits into the MTU of that link.
\<close>

theorem carried_devices_fit:
  assumes "validate_manifest m = Inr ()" and "compile_plan x m override = Inr plan"
    and "node \<in> set (plan_nodes plan)" and "device \<in> set (dict_values (nd_devices node))"
    and "carrier device = Some (link, overhead)"
  shows "\<exists>n u. planned_mtu node plan device = Some (Inr n) \<and> first_mtu node plan link = Some u \<and>
    576 \<le> n \<and> n + overhead \<le> u"
proof -
  obtain cfg linked where node: "nd_devices node = compile_devices cfg" "validate_node cfg = Inr ()"
    "validate_node_references (nd_name node) cfg linked = Inr ()" "carries node plan linked"
    "\<forall>i u. dict_get linked i = Some u \<longrightarrow> 576 \<le> u"
    by (rule validated_plan_node [OF assms(1-3)])
  have "fits linked link overhead (declared_mtu device)"
    using node_carried [OF node(2,3) _ assms(5) node(5) [rule_format]] assms(4) node(1) by simp
  from carrier_fitted [OF node(4) assms(5) this] show ?thesis by (auto simp: fitted_def)
qed

definition tunnel_address :: ip_address where
  "tunnel_address = IPv4Address (ipv4_of 10 0 0 1)"

definition tunnel_device :: linux_device_config where
  "tunnel_device = GreConfig \<lparr>ic_addresses = [], ic_mac = None, grec_link = ''eth0'', grec_local = ipv4_of 10 0 0 1,
     grec_remote = ipv4_of 10 0 0 2, grec_key = Some 7, grec_ttl = 64, grec_mtu = None\<rparr>"

text \<open>A keyed GRE tunnel over a link of 1400 bytes\<close>

definition tunnel_manifest :: manifest where
  "tunnel_manifest = \<lparr>mf_version = 1, mf_name = ''lab'', mf_topology = \<lparr>
     tp_nodes = [
       (''h1'', LinuxNode \<lparr>
          nb_interfaces = [(''eth0'', \<lparr>ic_addresses = [IPInterface tunnel_address 24], ic_mac = None\<rparr>)],
          nb_routes = [], nb_neighbors = [], nb_sysctls = [], nb_routing = None,
          ln_devices = [(''tun'', tunnel_device)], ln_rules = []\<rparr>),
       (''h2'', lab_host [])],
     tp_links = [\<lparr>lc_endpoints = (''h1:eth0'', ''h2:eth0''), lc_mtu = 1400, lc_netem = None, lc_qdisc = None\<rparr>]\<rparr>\<rparr>"

definition tunnel_plan :: topology_plan where
  "tunnel_plan = (case compile_plan lab_ext tunnel_manifest None of Inr p \<Rightarrow> p | Inl e \<Rightarrow> lab_plan)"

lemma tunnel_plan_compiled: "compile_plan lab_ext tunnel_manifest None = Inr tunnel_plan"
proof -
  have "\<not> isl (compile_plan lab_ext tunnel_manifest None)" by code_simp
  then show ?thesis by (cases "compile_plan lab_ext tunnel_manifest None") (simp_all add: tunnel_plan_def)
qed

theorem carried_devices_fit_witness:
  "\<exists>n u. planned_mtu (hd (plan_nodes tunnel_plan)) tunnel_plan (compile_linux_device ''tun'' tunnel_device) = Some (Inr n) \<and>
     first_mtu (hd (plan_nodes tunnel_plan)) tunnel_plan ''eth0'' = Some u \<and> 576 \<le> n \<and> n + 28 \<le> u"
proof -
  have v: "validate_manifest tunnel_manifest = Inr ()" by code_simp
  have "plan_nodes tunnel_plan \<noteq> [] \<and> dict_values (nd_devices (hd (plan_nodes tunnel_plan))) =
      [compile_linux_device ''tun'' tunnel_device]"
    by code_simp
  then have n: "hd (plan_nodes tunnel_plan) \<in> set (plan_nodes tunnel_plan)"
    "compile_linux_device ''tun'' tunnel_device \<in> set (dict_values (nd_devices (hd (plan_nodes tunnel_plan))))"
    by simp_all
  have "carrier (compile_linux_device ''tun'' tunnel_device) = Some (''eth0'', 28)"
    by (simp add: tunnel_device_def)
  from carried_devices_fit [OF v tunnel_plan_compiled n this] show ?thesis .
qed


text \<open>Two links of one MTU, bonded\<close>

definition bond_device :: linux_device_config where
  "bond_device = BondConfig \<lparr>ic_addresses = [], ic_mac = None, bondc_mode = ''802.3ad'',
     bondc_interfaces = [''eth0'', ''eth1''], bondc_miimon_ms = 100, bondc_primary = None, bondc_lacp_rate = None,
     bondc_xmit_hash_policy = None, bondc_min_links = Some 1\<rparr>"

definition bond_manifest :: manifest where
  "bond_manifest = \<lparr>mf_version = 1, mf_name = ''lab'', mf_topology = \<lparr>
     tp_nodes = [
       (''h1'', LinuxNode \<lparr>nb_interfaces = [], nb_routes = [], nb_neighbors = [], nb_sysctls = [], nb_routing = None,
          ln_devices = [(''bond0'', bond_device)], ln_rules = []\<rparr>),
       (''h2'', lab_host [])],
     tp_links = [
       \<lparr>lc_endpoints = (''h1:eth0'', ''h2:eth0''), lc_mtu = 1400, lc_netem = None, lc_qdisc = None\<rparr>,
       \<lparr>lc_endpoints = (''h2:eth1'', ''h1:eth1''), lc_mtu = 1400, lc_netem = None, lc_qdisc = None\<rparr>]\<rparr>\<rparr>"

definition bond_ext :: ext where
  "bond_ext = lab_ext\<lparr>x_model_dump := (\<lambda>_. pdict [(''topology'', pdict [(''nodes'', pdict [
     (''h1'', pdict [(''devices'', pdict [(''bond0'', pdict [(''type'', PStr ''bond'')])])]),
     (''h2'', pdict [])])])])\<rparr>"

definition bond_result :: topology_plan where
  "bond_result = (case compile_plan bond_ext bond_manifest None of Inr p \<Rightarrow> p | Inl e \<Rightarrow> lab_plan)"


end
