(* ===== verification/Display_Forest.thy ===== *)
theory Display_Forest
  imports Planner
begin

text \<open>
  The display forest of \<open>src/nslab/graph.py\<close>: the components of a topology, each as a tree rooted at
  its best connected node, with the links that are not part of the tree. The two searches are loops
  over a queue as in the code; a dict of lists that the code appends to is a dict that is updated.
\<close>

section \<open>The edges of the trees\<close>

record display_edge =
  de_link :: link_plan
  de_parent :: string
  de_child :: string
  de_parent_interface :: string
  de_child_interface :: string

record display_component =
  dc_root :: string
  dc_children :: "(string, display_edge list) dict"
  dc_cross_links :: "link_plan list"

definition oriented_edge :: "link_plan \<Rightarrow> string \<Rightarrow> string \<Rightarrow> display_edge" where
  "oriented_edge link parent child =
     (if ep_node (lk_left link) = parent \<and> ep_node (lk_right link) = child
      then \<lparr>de_link = link, de_parent = parent, de_child = child,
        de_parent_interface = ep_interface (lk_left link), de_child_interface = ep_interface (lk_right link)\<rparr>
      else \<lparr>de_link = link, de_parent = parent, de_child = child,
        de_parent_interface = ep_interface (lk_right link), de_child_interface = ep_interface (lk_left link)\<rparr>)"

section \<open>The neighbors of every node\<close>

type_synonym adjacency = "(string, (link_plan \<times> string) list) dict"

text \<open>\<open>d[k]\<close>, and \<open>d[k].append(x)\<close> for a dict of lists: both raise \<open>KeyError\<close> without the key.\<close>

definition dict_lookup :: "(string, 'a) dict \<Rightarrow> string \<Rightarrow> 'a res" where
  "dict_lookup d k = res_of_option (key_error k) (dict_get d k)"

definition dict_append :: "string \<Rightarrow> 'a \<Rightarrow> (string, 'a list) dict \<Rightarrow> (string, 'a list) dict res" where
  "dict_append k x d = res_bind (dict_lookup d k) (\<lambda>xs. Inr (dict_set k (xs @ [x]) d))"

definition add_adjacent :: "link_plan \<Rightarrow> adjacency \<Rightarrow> adjacency res" where
  "add_adjacent link adjacency =
     res_bind (dict_append (ep_node (lk_left link)) (link, ep_node (lk_right link)) adjacency)
       (dict_append (ep_node (lk_right link)) (link, ep_node (lk_left link)))"

definition build_adjacency :: "topology_plan \<Rightarrow> adjacency res" where
  "build_adjacency plan =
     res_fold add_adjacent (tpl_links plan) (map (\<lambda>name. (name, [])) (dict_keys (tpl_nodes plan)))"

section \<open>The members of a component\<close>

text \<open>
  \<open>remaining\<close> is a set in the code; here it is the list of its elements. The first search takes the
  neighbors of every queued node out of it.
\<close>

definition take_neighbors :: "(link_plan \<times> string) list \<Rightarrow> string list \<times> string list \<Rightarrow> string list \<times> string list" where
  "take_neighbors = fold (\<lambda>(_, neighbor) (remaining, queue).
     if neighbor \<in> set remaining then (removeAll neighbor remaining, queue @ [neighbor])
     else (remaining, queue))"

lemma length_take_neighbors:
  "take_neighbors ns (remaining, queue) = (remaining', queue') \<Longrightarrow>
   length remaining' + length queue' \<le> length remaining + length queue"
proof (induction ns arbitrary: remaining queue)
  case (Cons n ns)
  have "length (removeAll (snd n) remaining) < length remaining" if "snd n \<in> set remaining"
    using that by (rule length_removeAll_less)
  then show ?case using Cons.prems
    by (auto simp: take_neighbors_def case_prod_unfold split: if_splits dest!: Cons.IH [unfolded take_neighbors_def case_prod_unfold])
qed (simp add: take_neighbors_def)

function collect_members ::
  "adjacency \<Rightarrow> string list \<Rightarrow> string list \<Rightarrow> string list \<Rightarrow> (string list \<times> string list) res" where
  "collect_members adjacency [] remaining members = Inr (members, remaining)"
| "collect_members adjacency (current # queue) remaining members =
     (case dict_lookup adjacency current of
       Inl e \<Rightarrow> Inl e
     | Inr neighbors \<Rightarrow>
         collect_members adjacency (snd (take_neighbors neighbors (remaining, queue)))
           (fst (take_neighbors neighbors (remaining, queue))) (members @ [current]))"
  by pat_completeness auto
termination
proof (relation "measure (\<lambda>(adjacency, queue, remaining, members). length remaining + length queue)", goal_cases)
  case (2 adjacency current queue remaining members neighbors)
  then show ?case
    using length_take_neighbors [of neighbors remaining queue] by (simp add: prod_eq_iff)
qed simp

section \<open>The tree of a component\<close>

text \<open>
  \<open>min(members, key=lambda name: (-len(adjacency[name]), order[name]))\<close>: the first of the members
  with the most links, and of these the one that comes first in the plan.
\<close>

definition root_key :: "adjacency \<Rightarrow> string list \<Rightarrow> string \<Rightarrow> int \<times> nat" where
  "root_key adjacency nodes name =
     (- int (length (the (dict_get adjacency name))), length (takeWhile (\<lambda>n. n \<noteq> name) nodes))"

definition key_less :: "int \<times> nat \<Rightarrow> int \<times> nat \<Rightarrow> bool" where
  "key_less a b \<longleftrightarrow> fst a < fst b \<or> fst a = fst b \<and> snd a < snd b"

definition choose_root :: "adjacency \<Rightarrow> string list \<Rightarrow> string list \<Rightarrow> string" where
  "choose_root adjacency nodes members =
     fold (\<lambda>name best. if key_less (root_key adjacency nodes name) (root_key adjacency nodes best) then name else best)
       (tl members) (hd members)"

text \<open>The second search: every neighbor not yet seen becomes a child.\<close>

record tree_search =
  ts_queue :: "string list"
  ts_seen :: "string list"
  ts_tree_links :: "nat list"
  ts_children :: "(string, display_edge list) dict"

definition add_child :: "string \<Rightarrow> link_plan \<times> string \<Rightarrow> tree_search \<Rightarrow> tree_search res" where
  "add_child parent entry s = (case entry of (link, child) \<Rightarrow>
     if child \<in> set (ts_seen s) then Inr s
     else res_bind (dict_append parent (oriented_edge link parent child) (ts_children s)) (\<lambda>children. Inr \<lparr>
       ts_queue = ts_queue s @ [child],
       ts_seen = ts_seen s @ [child],
       ts_tree_links = ts_tree_links s @ [lk_index link],
       ts_children = children\<rparr>))"

text \<open>What is left to see bounds the search.\<close>

definition unseen :: "adjacency \<Rightarrow> tree_search \<Rightarrow> nat" where
  "unseen adjacency s = card (snd ` (\<Union>ns \<in> set (dict_values adjacency). set ns) - set (ts_seen s))"

lemma add_children_unseen:
  assumes "res_fold (add_child parent) ns s = Inr s'" "ns' \<in> set (dict_values adjacency)" "set ns \<subseteq> set ns'"
  shows "unseen adjacency s' + length (ts_queue s') \<le> unseen adjacency s + length (ts_queue s)"
  using assms(1,3)
proof (induction ns arbitrary: s)
  case (Cons n ns)
  let ?all = "snd ` (\<Union>ns \<in> set (dict_values adjacency). set ns)"
  obtain s1 where s1: "add_child parent n s = Inr s1" "res_fold (add_child parent) ns s1 = Inr s'"
    using Cons.prems(1) by (auto simp: res_bind_eq_Inr)
  have "unseen adjacency s1 + length (ts_queue s1) \<le> unseen adjacency s + length (ts_queue s)"
  proof (cases "snd n \<in> set (ts_seen s)")
    case False
    have "snd n \<in> ?all" using Cons.prems(2) assms(2) by (auto intro!: rev_image_eqI [of n])
    then have "card (?all - set (ts_seen s) - {snd n}) < card (?all - set (ts_seen s))"
      using False by (intro psubset_card_mono) auto
    moreover have "?all - set (ts_seen s) - {snd n} = ?all - set (ts_seen s1)"
      using s1(1) False by (auto simp: add_child_def case_prod_unfold res_bind_eq_Inr)
    ultimately show ?thesis
      using s1(1) False by (auto simp: add_child_def case_prod_unfold res_bind_eq_Inr unseen_def)
  qed (use s1(1) in \<open>auto simp: add_child_def case_prod_unfold\<close>)
  with Cons.IH [OF s1(2)] Cons.prems(2) show ?case by simp
qed simp

function search_tree :: "adjacency \<Rightarrow> tree_search \<Rightarrow> tree_search res" where
  "search_tree adjacency s =
     (case ts_queue s of
       [] \<Rightarrow> Inr s
     | parent # queue \<Rightarrow>
         (case dict_lookup adjacency parent of
           Inl e \<Rightarrow> Inl e
         | Inr neighbors \<Rightarrow>
             (case res_fold (add_child parent) neighbors (s\<lparr>ts_queue := queue\<rparr>) of
               Inl e \<Rightarrow> Inl e
             | Inr s' \<Rightarrow> search_tree adjacency s')))"
  by pat_completeness auto
termination
proof (relation "measure (\<lambda>(adjacency, s). unseen adjacency s + length (ts_queue s))", goal_cases)
  case (2 adjacency s parent queue neighbors s')
  have "neighbors \<in> set (dict_values adjacency)"
    using 2(2) by (auto simp: dict_lookup_def res_of_option_eq_Inr dest: dict_get_SomeD)
  from add_children_unseen [OF 2(3) this subset_refl]
  show ?case using 2(1) by (simp add: unseen_def)
qed simp

declare search_tree.simps [simp del]

section \<open>The forest\<close>

definition build_component :: "topology_plan \<Rightarrow> adjacency \<Rightarrow> string list \<Rightarrow> display_component res" where
  "build_component plan adjacency members =
     (let root = choose_root adjacency (dict_keys (tpl_nodes plan)) members in
      res_bind (search_tree adjacency \<lparr>ts_queue = [root], ts_seen = [root], ts_tree_links = [],
        ts_children = map (\<lambda>name. (name, [])) members\<rparr>) (\<lambda>s.
      Inr \<lparr>dc_root = root, dc_children = ts_children s,
        dc_cross_links = filter (\<lambda>link. lk_index link \<notin> set (ts_tree_links s) \<and>
          ep_node (lk_left link) \<in> set members \<and> ep_node (lk_right link) \<in> set members) (tpl_links plan)\<rparr>))"

definition add_component ::
  "topology_plan \<Rightarrow> adjacency \<Rightarrow> string \<Rightarrow> string list \<times> display_component list \<Rightarrow>
   (string list \<times> display_component list) res" where
  "add_component plan adjacency first st = (case st of (remaining, components) \<Rightarrow>
     if first \<notin> set remaining then Inr (remaining, components)
     else res_bind (collect_members adjacency [first] (removeAll first remaining) []) (\<lambda>(members, remaining').
       res_bind (build_component plan adjacency members) (\<lambda>component.
       Inr (remaining', components @ [component]))))"

definition build_display_forest :: "topology_plan \<Rightarrow> display_component list res" where
  "build_display_forest plan =
     res_bind (build_adjacency plan) (\<lambda>adjacency.
     res_bind (res_fold (add_component plan adjacency) (dict_keys (tpl_nodes plan)) (dict_keys (tpl_nodes plan), []))
       (\<lambda>(remaining, components). Inr components))"

end
