(* ===== verification/Forest_Facts.thy ===== *)
theory Forest_Facts
  imports Display_Forest "HOL-Library.Multiset"
begin

text \<open>
  The display forest shows every node and every link once: each component is a spanning tree of its
  nodes, and a link is an edge of the tree or one of the cross links. The searches are followed
  with an invariant each, \<open>collecting\<close> for the members and \<open>growing\<close> for the tree.
\<close>

section \<open>Links between nodes\<close>

definition joins :: "link_plan \<Rightarrow> string \<Rightarrow> string \<Rightarrow> bool" where
  "joins l a b \<longleftrightarrow> ep_node (lk_left l) = a \<and> ep_node (lk_right l) = b \<or>
     ep_node (lk_right l) = a \<and> ep_node (lk_left l) = b"

lemma joins_sym: "joins l a b \<longleftrightarrow> joins l b a"
  by (auto simp: joins_def)

text \<open>What \<open>build_adjacency\<close> has for a node: all its links with the node at their other end.\<close>

definition neighbors_in :: "link_plan list \<Rightarrow> string \<Rightarrow> (link_plan \<times> string) list" where
  "neighbors_in links n = concat (map (\<lambda>l.
     (if ep_node (lk_left l) = n then [(l, ep_node (lk_right l))] else []) @
     (if ep_node (lk_right l) = n then [(l, ep_node (lk_left l))] else [])) links)"

lemma neighbors_in_iff: "(l, b) \<in> set (neighbors_in links a) \<longleftrightarrow> l \<in> set links \<and> joins l a b"
  by (auto simp: neighbors_in_def joins_def)

text \<open>A plan whose links run between its nodes and are told apart by their index.\<close>

definition linked_plan :: "topology_plan \<Rightarrow> bool" where
  "linked_plan plan \<longleftrightarrow> distinct (dict_keys (tpl_nodes plan)) \<and> distinct (map lk_index (tpl_links plan)) \<and>
     (\<forall>l \<in> set (tpl_links plan). ep_node (lk_left l) \<in> set (dict_keys (tpl_nodes plan)) \<and>
       ep_node (lk_right l) \<in> set (dict_keys (tpl_nodes plan)))"

lemma dict_keys_set_present: "k \<in> set (dict_keys d) \<Longrightarrow> dict_keys (dict_set k v d) = dict_keys d"
  by (induction d) auto

lemma dict_append_present:
  assumes "dict_get d k = Some xs"
  shows "dict_append k x d = Inr (dict_set k (xs @ [x]) d)"
    and "dict_keys (dict_set k ys d) = dict_keys d"
  using assms by (auto simp: dict_append_def dict_lookup_def dict_keys_set_present dest: dict_get_SomeD)

lemma add_adjacent_present:
  assumes "dict_get adj (ep_node (lk_left l)) = Some xs" "dict_get adj (ep_node (lk_right l)) = Some ys"
  shows "\<exists>adj'. add_adjacent l adj = Inr adj' \<and> dict_keys adj' = dict_keys adj \<and>
    (\<forall>n. dict_get adj' n = map_option (\<lambda>zs. zs @ neighbors_in [l] n) (dict_get adj n))"
proof -
  let ?left = "ep_node (lk_left l)" and ?right = "ep_node (lk_right l)"
  let ?adj1 = "dict_set ?left (xs @ [(l, ?right)]) adj"
  obtain ys' where ys': "dict_get ?adj1 ?right = Some ys'" "ys' = (if ?right = ?left then xs @ [(l, ?right)] else ys)"
    using assms by auto
  let ?adj2 = "dict_set ?right (ys' @ [(l, ?left)]) ?adj1"
  have "add_adjacent l adj = Inr ?adj2"
    by (simp add: add_adjacent_def dict_append_present(1) [OF assms(1)] dict_append_present(1) [OF ys'(1)])
  moreover have "dict_keys ?adj2 = dict_keys adj"
    by (simp only: dict_append_present(2) [OF assms(1)] dict_append_present(2) [OF ys'(1)])
  moreover have "dict_get ?adj2 n = map_option (\<lambda>zs. zs @ neighbors_in [l] n) (dict_get adj n)" for n
    using assms ys'(2) by (cases "n = ?left"; cases "n = ?right") (auto simp: neighbors_in_def option.map_ident)
  ultimately show ?thesis by blast
qed

lemma build_adjacency_from:
  assumes "\<forall>l \<in> set links. ep_node (lk_left l) \<in> set (dict_keys adj) \<and> ep_node (lk_right l) \<in> set (dict_keys adj)"
  shows "\<exists>adj'. res_fold add_adjacent links adj = Inr adj' \<and> dict_keys adj' = dict_keys adj \<and>
    (\<forall>n. dict_get adj' n = map_option (\<lambda>zs. zs @ neighbors_in links n) (dict_get adj n))"
  using assms
proof (induction links arbitrary: adj)
  case (Cons l links)
  obtain xs ys where "dict_get adj (ep_node (lk_left l)) = Some xs" "dict_get adj (ep_node (lk_right l)) = Some ys"
    using Cons.prems dict_get_in_keys by (metis list.set_intros(1))
  from add_adjacent_present [OF this] obtain adj1 where
    adj1: "add_adjacent l adj = Inr adj1" "dict_keys adj1 = dict_keys adj"
      "\<And>n. dict_get adj1 n = map_option (\<lambda>zs. zs @ neighbors_in [l] n) (dict_get adj n)" by blast
  from Cons.IH [of adj1] Cons.prems adj1(2) obtain adj2 where
    adj2: "res_fold add_adjacent links adj1 = Inr adj2" "dict_keys adj2 = dict_keys adj1"
      "\<And>n. dict_get adj2 n = map_option (\<lambda>zs. zs @ neighbors_in links n) (dict_get adj1 n)" by auto
  show ?case
    using adj1 adj2 by (auto simp: option.map_comp comp_def neighbors_in_def intro!: exI [of _ adj2])
qed (simp add: neighbors_in_def option.map_ident)

lemma build_adjacency_names:
  assumes "\<forall>l \<in> set links. ep_node (lk_left l) \<in> set names \<and> ep_node (lk_right l) \<in> set names"
  obtains adj where "res_fold add_adjacent links (map (\<lambda>name. (name, [])) names) = Inr adj" "dict_keys adj = names"
    "\<And>n. dict_get adj n = (if n \<in> set names then Some (neighbors_in links n) else None)"
proof -
  have keys: "dict_keys (map (\<lambda>name. (name, [])) names) = names" by (simp add: comp_def)
  have empty: "dict_get (map (\<lambda>name. (name, [])) names) n = (if n \<in> set names then Some [] else None)" for n
    by (simp add: map_of_map_restrict restrict_map_def)
  obtain adj where adj: "res_fold add_adjacent links (map (\<lambda>name. (name, [])) names) = Inr adj" "dict_keys adj = names"
      "\<forall>n. dict_get adj n = map_option (\<lambda>zs. zs @ neighbors_in links n) (dict_get (map (\<lambda>name. (name, [])) names) n)"
    using build_adjacency_from [of links "map (\<lambda>name. (name, [])) names", unfolded keys] assms by blast
  show ?thesis by (rule that [OF adj(1,2)]) (simp only: adj(3) [rule_format] empty, simp)
qed

lemma build_adjacency_neighbors:
  assumes "linked_plan plan"
  obtains adj where "build_adjacency plan = Inr adj" "dict_keys adj = dict_keys (tpl_nodes plan)"
    "\<And>n. dict_get adj n = (if n \<in> set (dict_keys (tpl_nodes plan)) then Some (neighbors_in (tpl_links plan) n) else None)"
  using build_adjacency_names [of "tpl_links plan" "dict_keys (tpl_nodes plan)"] assms
  unfolding build_adjacency_def linked_plan_def by blast

definition adjacent :: "link_plan list \<Rightarrow> string \<Rightarrow> string \<Rightarrow> bool" where
  "adjacent links a b \<longleftrightarrow> (\<exists>l \<in> set links. joins l a b)"

lemma adjacent_iff: "adjacent links a b \<longleftrightarrow> b \<in> snd ` set (neighbors_in links a)"
  by (auto simp: adjacent_def neighbors_in_iff image_iff Bex_def)

lemma adjacent_sym: "adjacent links a b \<Longrightarrow> adjacent links b a"
  by (auto simp: adjacent_def joins_sym)

lemma reach_sym: "(adjacent links)\<^sup>*\<^sup>* a b \<Longrightarrow> (adjacent links)\<^sup>*\<^sup>* b a"
  by (induction rule: rtranclp_induct) (auto intro: adjacent_sym converse_rtranclp_into_rtranclp)

definition closed_under :: "link_plan list \<Rightarrow> string set \<Rightarrow> bool" where
  "closed_under links A \<longleftrightarrow> (\<forall>a \<in> A. \<forall>b. adjacent links a b \<longrightarrow> b \<in> A)"

lemma closed_reach: "(adjacent links)\<^sup>*\<^sup>* a b \<Longrightarrow> closed_under links A \<Longrightarrow> a \<in> A \<Longrightarrow> b \<in> A"
  by (induction rule: rtranclp_induct) (auto simp: closed_under_def)

section \<open>The members of a component\<close>

lemma take_neighbors_moves:
  assumes "take_neighbors ns (remaining, queue) = (remaining', queue')" "distinct remaining"
  shows "\<exists>new. queue' = queue @ new \<and> mset remaining = mset new + mset remaining' \<and>
    set new \<subseteq> snd ` set ns \<and> snd ` set ns \<inter> set remaining' = {}"
  using assms
proof (induction ns arbitrary: remaining queue)
  case (Cons n ns)
  show ?case
  proof (cases "snd n \<in> set remaining")
    case True
    then have "take_neighbors ns (removeAll (snd n) remaining, queue @ [snd n]) = (remaining', queue')"
      using Cons.prems(1) by (simp add: take_neighbors_def case_prod_unfold)
    from Cons.IH [OF this distinct_removeAll [OF Cons.prems(2)]] obtain new where
      new: "queue' = (queue @ [snd n]) @ new" "mset (removeAll (snd n) remaining) = mset new + mset remaining'"
        "set new \<subseteq> snd ` set ns" "snd ` set ns \<inter> set remaining' = {}"
      by blast
    have "mset remaining = add_mset (snd n) (mset (removeAll (snd n) remaining))"
      using True Cons.prems(2) by (simp add: distinct_remove1_removeAll [symmetric])
    moreover have "snd n \<notin> set remaining'"
      using arg_cong [OF new(2), of set_mset] by auto
    ultimately show ?thesis using new by (intro exI [of _ "snd n # new"]) auto
  next
    case False
    then have "take_neighbors ns (remaining, queue) = (remaining', queue')"
      using Cons.prems(1) by (simp add: take_neighbors_def case_prod_unfold)
    from Cons.IH [OF this Cons.prems(2)] obtain new where
      new: "queue' = queue @ new" "mset remaining = mset new + mset remaining'"
        "set new \<subseteq> snd ` set ns" "snd ` set ns \<inter> set remaining' = {}" by blast
    moreover have "snd n \<notin> set remaining'"
      using False arg_cong [OF new(2), of set_mset] by auto
    ultimately show ?thesis by (intro exI [of _ new]) auto
  qed
qed (simp add: take_neighbors_def)

definition collecting :: "link_plan list \<Rightarrow> string \<Rightarrow> string list \<Rightarrow> string list \<Rightarrow> string list \<Rightarrow> bool" where
  "collecting links first queue remaining members \<longleftrightarrow>
     distinct (members @ queue @ remaining) \<and> closed_under links (set (members @ queue @ remaining)) \<and>
     (\<forall>a \<in> set members. \<forall>b. adjacent links a b \<longrightarrow> b \<in> set (members @ queue)) \<and>
     (\<forall>b \<in> set (members @ queue). (adjacent links)\<^sup>*\<^sup>* first b)"

lemma collecting_step:
  assumes inv: "collecting links first (current # queue) remaining members"
    and "take_neighbors (neighbors_in links current) (remaining, queue) = (remaining', queue')"
  shows "collecting links first queue' remaining' (members @ [current]) \<and>
    mset (members @ [current] @ queue' @ remaining') = mset (members @ (current # queue) @ remaining)"
proof -
  have "distinct remaining" using inv by (simp add: collecting_def)
  from take_neighbors_moves [OF assms(2) this] obtain new where
    new: "queue' = queue @ new" "mset remaining = mset new + mset remaining'"
      "set new \<subseteq> snd ` set (neighbors_in links current)" "snd ` set (neighbors_in links current) \<inter> set remaining' = {}"
    by blast
  have same: "mset (members @ [current] @ queue' @ remaining') = mset (members @ (current # queue) @ remaining)"
    using new(1,2) by simp
  have sets: "set (members @ [current] @ queue' @ remaining') = set (members @ (current # queue) @ remaining)"
    and dist: "distinct (members @ [current] @ queue' @ remaining')"
    using mset_eq_setD [OF same] mset_eq_imp_distinct_iff [OF same] inv by (auto simp: collecting_def)
  have current: "b \<in> set (members @ [current] @ queue')" if "adjacent links current b" for b
  proof -
    have "b \<in> set (members @ [current] @ queue' @ remaining')"
      unfolding sets using inv that by (auto simp: collecting_def closed_under_def)
    then show ?thesis using new(4) that by (auto simp: adjacent_iff)
  qed
  have "\<forall>b \<in> set new. (adjacent links)\<^sup>*\<^sup>* first b"
    using new(3) inv by (auto simp: collecting_def adjacent_iff intro!: rtranclp.rtrancl_into_rtrancl [of _ first current])
  then have "collecting links first queue' remaining' (members @ [current])"
    using inv dist sets current new(1) by (auto simp: collecting_def)
  with same show ?thesis by blast
qed

lemma collect_members_spans:
  assumes "collecting links first queue remaining members"
    and "\<forall>n \<in> set (members @ queue @ remaining). dict_get adj n = Some (neighbors_in links n)"
  shows "\<exists>members' remaining'. collect_members adj queue remaining members = Inr (members', remaining') \<and>
    mset (members' @ remaining') = mset (members @ queue @ remaining) \<and>
    collecting links first [] remaining' members' \<and> set (members @ queue) \<subseteq> set members'"
  using assms
proof (induction adj queue remaining members rule: collect_members.induct)
  case (2 adj current queue remaining members)
  obtain remaining' queue' where step: "take_neighbors (neighbors_in links current) (remaining, queue) = (remaining', queue')"
    by force
  note next_ = collecting_step [OF 2(2) step]
  have look: "dict_lookup adj current = Inr (neighbors_in links current)"
    using 2(3) by (simp add: dict_lookup_def)
  have "\<forall>n \<in> set ((members @ [current]) @ queue' @ remaining'). dict_get adj n = Some (neighbors_in links n)"
    using 2(3) mset_eq_setD [OF conjunct2 [OF next_]] by auto
  from 2(1) [OF look, unfolded step fst_conv snd_conv, OF conjunct1 [OF next_] this] obtain members'' remaining'' where
    ih: "collect_members adj queue' remaining' (members @ [current]) = Inr (members'', remaining'')"
      "mset (members'' @ remaining'') = mset ((members @ [current]) @ queue' @ remaining')"
      "collecting links first [] remaining'' members''" "set ((members @ [current]) @ queue') \<subseteq> set members''"
    by blast
  have "set queue \<subseteq> set queue'"
    using take_neighbors_moves [OF step] 2(2) by (auto simp: collecting_def)
  then show ?case using ih look step next_ by auto
qed auto

section \<open>The tree of a component\<close>

definition tree_edges :: "(string, display_edge list) dict \<Rightarrow> display_edge list" where
  "tree_edges children = concat (dict_values children)"

lemma tree_edges_append:
  "dict_get d k = Some xs \<Longrightarrow> mset (tree_edges (dict_set k (xs @ [x]) d)) = add_mset x (mset (tree_edges d))"
  by (induction d) (auto simp: tree_edges_def split: if_splits)

definition precedes :: "'a list \<Rightarrow> 'a \<Rightarrow> 'a \<Rightarrow> bool" where
  "precedes xs a b \<longleftrightarrow> (\<exists>us vs. xs = us @ b # vs \<and> a \<in> set us)"

lemma precedes_append: "precedes xs a b \<Longrightarrow> precedes (xs @ ys) a b"
  unfolding precedes_def by (metis append.assoc append_Cons)

lemma precedes_snoc: "a \<in> set xs \<Longrightarrow> precedes (xs @ [b]) a b"
  by (auto simp: precedes_def)

lemma precedes_set: "precedes xs a b \<Longrightarrow> a \<in> set xs \<and> b \<in> set xs"
  by (auto simp: precedes_def)

text \<open>An edge of the tree stands for a link between its two nodes, and shows its interfaces.\<close>

definition shows_link :: "link_plan list \<Rightarrow> display_edge \<Rightarrow> bool" where
  "shows_link links e \<longleftrightarrow> de_link e \<in> set links \<and> joins (de_link e) (de_parent e) (de_child e) \<and>
     e = oriented_edge (de_link e) (de_parent e) (de_child e)"

lemma oriented_edge_simps [simp]:
  "de_link (oriented_edge l p c) = l" "de_parent (oriented_edge l p c) = p" "de_child (oriented_edge l p c) = c"
  by (simp_all add: oriented_edge_def)

definition growing :: "link_plan list \<Rightarrow> string \<Rightarrow> string list \<Rightarrow> tree_search \<Rightarrow> bool" where
  "growing links start members s \<longleftrightarrow>
     dict_keys (ts_children s) = members \<and>
     distinct (ts_seen s) \<and> set (ts_seen s) \<subseteq> set members \<and> set (ts_queue s) \<subseteq> set (ts_seen s) \<and>
     mset (ts_seen s) = mset (start # map de_child (tree_edges (ts_children s))) \<and>
     mset (ts_tree_links s) = mset (map (lk_index \<circ> de_link) (tree_edges (ts_children s))) \<and>
     distinct (map de_link (tree_edges (ts_children s))) \<and>
     (\<forall>e \<in> set (tree_edges (ts_children s)).
        shows_link links e \<and> precedes (ts_seen s) (de_parent e) (de_child e)) \<and>
     (\<forall>(p, es) \<in> set (ts_children s). \<forall>e \<in> set es. de_parent e = p)"

lemma add_child_grows:
  assumes inv: "growing links start members s" and "closed_under links (set members)"
    and parent: "parent \<in> set (ts_seen s)" and n: "n \<in> set (neighbors_in links parent)"
  shows "\<exists>s' new. add_child parent n s = Inr s' \<and> growing links start members s' \<and>
    ts_seen s' = ts_seen s @ new \<and> ts_queue s' = ts_queue s @ new \<and> snd n \<in> set (ts_seen s')"
proof (cases "snd n \<in> set (ts_seen s)")
  case True
  then show ?thesis using inv by (auto simp: add_child_def case_prod_unfold)
next
  case False
  obtain link child where lc: "n = (link, child)" by (cases n)
  have link: "link \<in> set links" "joins link parent child" using n by (simp_all add: lc neighbors_in_iff)
  have "parent \<in> set members" "child \<in> set members"
    using inv assms(2) parent link by (auto simp: growing_def closed_under_def adjacent_def)
  then have "parent \<in> set (dict_keys (ts_children s))" using inv by (simp add: growing_def)
  then obtain es where es: "dict_get (ts_children s) parent = Some es" using dict_get_in_keys by metis
  let ?e = "oriented_edge link parent child"
  let ?s = "\<lparr>ts_queue = ts_queue s @ [child], ts_seen = ts_seen s @ [child],
    ts_tree_links = ts_tree_links s @ [lk_index link], ts_children = dict_set parent (es @ [?e]) (ts_children s)\<rparr>"
  have "add_child parent n s = Inr ?s"
    using False by (simp add: lc add_child_def dict_append_present(1) [OF es])
  moreover have "growing links start members ?s"
  proof -
    note edges = tree_edges_append [OF es, of ?e]
    have set_edges: "set (tree_edges (dict_set parent (es @ [?e]) (ts_children s))) = insert ?e (set (tree_edges (ts_children s)))"
      using arg_cong [OF edges, of set_mset] by simp
    have "link \<noteq> de_link e" if "e \<in> set (tree_edges (ts_children s))" for e
    proof
      assume "link = de_link e"
      moreover have "shows_link links e" "precedes (ts_seen s) (de_parent e) (de_child e)"
        using inv that by (auto simp: growing_def)
      ultimately have "child \<in> set (ts_seen s)"
        using link(2) precedes_set by (fastforce simp: shows_link_def joins_def)
      then show False using False by (simp add: lc)
    qed
    moreover have "distinct (map de_link (tree_edges (dict_set parent (es @ [?e]) (ts_children s)))) \<longleftrightarrow>
        distinct (link # map de_link (tree_edges (ts_children s)))"
      by (rule mset_eq_imp_distinct_iff) (simp add: edges)
    ultimately have "distinct (map de_link (tree_edges (dict_set parent (es @ [?e]) (ts_children s))))"
      using inv by (auto simp: growing_def)
    moreover have "\<forall>(p, es') \<in> set (dict_set parent (es @ [?e]) (ts_children s)). \<forall>e \<in> set es'. de_parent e = p"
    proof -
      have old: "\<forall>(p, es') \<in> set (ts_children s). \<forall>e \<in> set es'. de_parent e = p" using inv by (simp add: growing_def)
      with map_of_SomeD [OF es] have "\<forall>e \<in> set (es @ [?e]). de_parent e = parent" by auto
      with old show ?thesis using set_dict_set [of parent "es @ [?e]" "ts_children s"] by blast
    qed
    ultimately show ?thesis
      using inv False \<open>child \<in> set members\<close> link parent dict_append_present(2) [OF es]
      by (auto simp: growing_def lc edges set_edges shows_link_def precedes_append precedes_snoc)
  qed
  ultimately show ?thesis by (intro exI [of _ ?s] exI [of _ "[child]"]) (simp add: lc)
qed

lemma add_children_grow:
  assumes "growing links start members s" "closed_under links (set members)"
    "parent \<in> set (ts_seen s)" "set ns \<subseteq> set (neighbors_in links parent)"
  shows "\<exists>s' new. res_fold (add_child parent) ns s = Inr s' \<and> growing links start members s' \<and>
    ts_seen s' = ts_seen s @ new \<and> ts_queue s' = ts_queue s @ new \<and> snd ` set ns \<subseteq> set (ts_seen s')"
  using assms
proof (induction ns arbitrary: s)
  case (Cons n ns)
  have "n \<in> set (neighbors_in links parent)" using Cons.prems(4) by simp
  from add_child_grows [OF Cons.prems(1-3) this] obtain s1 new1 where
    s1: "add_child parent n s = Inr s1" "growing links start members s1" "ts_seen s1 = ts_seen s @ new1"
      "ts_queue s1 = ts_queue s @ new1" "snd n \<in> set (ts_seen s1)" by blast
  have "parent \<in> set (ts_seen s1)" using Cons.prems(3) s1(3) by simp
  from Cons.IH [OF s1(2) Cons.prems(2) this] Cons.prems(4) obtain s2 new2 where
    "res_fold (add_child parent) ns s1 = Inr s2" "growing links start members s2" "ts_seen s2 = ts_seen s1 @ new2"
      "ts_queue s2 = ts_queue s1 @ new2" "snd ` set ns \<subseteq> set (ts_seen s2)" by auto
  then show ?case using s1 by (intro exI [of _ s2] exI [of _ "new1 @ new2"]) auto
qed auto

lemma search_tree_grows:
  assumes "growing links start members s" "closed_under links (set members)"
    and "\<forall>n \<in> set members. dict_get adj n = Some (neighbors_in links n)"
    and "\<forall>p \<in> set (ts_seen s) - set (ts_queue s). \<forall>b. adjacent links p b \<longrightarrow> b \<in> set (ts_seen s)"
  shows "\<exists>s'. search_tree adj s = Inr s' \<and> growing links start members s' \<and> set (ts_seen s) \<subseteq> set (ts_seen s') \<and>
    closed_under links (set (ts_seen s'))"
  using assms
proof (induction adj s rule: search_tree.induct)
  case (1 adj s)
  show ?case
  proof (cases "ts_queue s")
    case Nil
    then show ?thesis using "1.prems" by (auto simp: search_tree.simps [of adj s] closed_under_def)
  next
    case (Cons parent queue)
    have parent: "parent \<in> set (ts_seen s)" "parent \<in> set members" using "1.prems"(1) Cons by (auto simp: growing_def)
    have look: "dict_lookup adj parent = Inr (neighbors_in links parent)"
      using "1.prems"(3) parent(2) by (simp add: dict_lookup_def)
    have "growing links start members (s\<lparr>ts_queue := queue\<rparr>)" using "1.prems"(1) Cons by (simp add: growing_def)
    from add_children_grow [OF this "1.prems"(2), of parent "neighbors_in links parent"] parent(1)
    have "\<exists>s1 new. res_fold (add_child parent) (neighbors_in links parent) (s\<lparr>ts_queue := queue\<rparr>) = Inr s1 \<and>
      growing links start members s1 \<and> ts_seen s1 = ts_seen s @ new \<and> ts_queue s1 = queue @ new \<and>
      snd ` set (neighbors_in links parent) \<subseteq> set (ts_seen s1)" by simp
    then obtain s1 new where
      s1: "res_fold (add_child parent) (neighbors_in links parent) (s\<lparr>ts_queue := queue\<rparr>) = Inr s1"
        "growing links start members s1" "ts_seen s1 = ts_seen s @ new" "ts_queue s1 = queue @ new"
        "snd ` set (neighbors_in links parent) \<subseteq> set (ts_seen s1)" by blast
    have "b \<in> set (ts_seen s1)" if p: "p \<in> set (ts_seen s1) - set (ts_queue s1)" and b: "adjacent links p b" for p b
    proof (cases "p = parent")
      case True
      then show ?thesis using b s1(5) unfolding adjacent_iff by blast
    next
      case False
      then have "p \<in> set (ts_seen s) - set (ts_queue s)" using p by (auto simp: s1(3,4) Cons)
      then show ?thesis using "1.prems"(4) b s1(3) by simp
    qed
    then have "\<forall>p \<in> set (ts_seen s1) - set (ts_queue s1). \<forall>b. adjacent links p b \<longrightarrow> b \<in> set (ts_seen s1)" by blast
    from "1.IH" [OF Cons look s1(1,2) "1.prems"(2,3) this] show ?thesis
      using s1(1,3) Cons look by (auto simp: search_tree.simps [of adj s])
  qed
qed

section \<open>Children as a tree\<close>

datatype display_tree = Branch (tree_root: string) (branches: "(display_edge \<times> display_tree) list")

fun tree_nodes :: "display_tree \<Rightarrow> string list" where
  "tree_nodes (Branch n ts) = n # concat (map (\<lambda>(e, t). tree_nodes t) ts)"

text \<open>The tree that the children of a component describe from a node on.\<close>

fun tree_of :: "(string, display_edge list) dict \<Rightarrow> display_tree \<Rightarrow> bool" where
  "tree_of d (Branch n ts) \<longleftrightarrow> dict_get d n = Some (map fst ts) \<and>
     (\<forall>(e, t) \<in> set ts. tree_root t = de_child e \<and> tree_of d t)"

lemma tree_root_in: "tree_root t \<in> set (tree_nodes t)"
  by (cases t) simp

lemma tree_branch:
  assumes "tree_of d (Branch n ts)" "(e, t) \<in> set ts"
  shows "tree_root t = de_child e" "tree_of d t" "dict_get d n = Some (map fst ts)" "e \<in> set (map fst ts)"
  using assms by force+

lemma tree_branch_nodes: "(e, t) \<in> set ts \<Longrightarrow> set (tree_nodes t) \<subseteq> set (tree_nodes (Branch n ts))"
  by force

lemma tree_nodes_get: "tree_of d t \<Longrightarrow> n \<in> set (tree_nodes t) \<Longrightarrow> \<exists>es. dict_get d n = Some es"
  by (induction t arbitrary: n) fastforce

text \<open>The edges of a forest: in the list of their parent, each to another child, all in one order.\<close>

definition arborescent :: "(string, display_edge list) dict \<Rightarrow> string list \<Rightarrow> bool" where
  "arborescent d order \<longleftrightarrow> distinct (dict_keys d) \<and> set order = set (dict_keys d) \<and>
     distinct (map de_child (tree_edges d)) \<and>
     (\<forall>e \<in> set (tree_edges d). precedes order (de_parent e) (de_child e)) \<and>
     (\<forall>(p, es) \<in> set d. \<forall>e \<in> set es. de_parent e = p)"

lemma precedes_later: "precedes (xs @ a # ys) a b \<Longrightarrow> distinct (xs @ a # ys) \<Longrightarrow> b \<in> set ys"
  by (auto simp: precedes_def append_eq_append_conv2 append_eq_Cons_conv Cons_eq_append_conv)

lemma arborescent_edge:
  assumes "arborescent d order" "dict_get d p = Some es" "e \<in> set es"
  shows "e \<in> set (tree_edges d)" "de_parent e = p" "precedes order p (de_child e)"
proof -
  show 1: "e \<in> set (tree_edges d)"
    using dict_get_SomeD [OF assms(2)] assms(3) by (auto simp: tree_edges_def)
  show 2: "de_parent e = p" using map_of_SomeD [OF assms(2)] assms(1,3) by (auto simp: arborescent_def)
  show "precedes order p (de_child e)" using assms(1) 1 2 by (auto simp: arborescent_def)
qed

lemma tree_exists:
  assumes "arborescent d order" "distinct order" "order = before @ later" "n \<in> set later"
  shows "\<exists>t. tree_of d t \<and> tree_root t = n \<and> set (tree_nodes t) \<subseteq> set later"
  using assms(3,4)
proof (induction "length later" arbitrary: before later n rule: less_induct)
  case less
  obtain es where es: "dict_get d n = Some es"
    using dict_get_in_keys [of n d] assms(1) less.prems by (auto simp: arborescent_def)
  obtain us vs where split: "later = us @ n # vs" using less.prems(2) by (auto simp: in_set_conv_decomp)
  have "\<exists>t. tree_root t = de_child e \<and> tree_of d t \<and> set (tree_nodes t) \<subseteq> set vs" if "e \<in> set es" for e
  proof -
    have "precedes (before @ us @ n # vs) n (de_child e)"
      using arborescent_edge(3) [OF assms(1) es that] less.prems(1) split by simp
    then have "de_child e \<in> set vs"
      using precedes_later [of "before @ us" n vs "de_child e"] assms(2) less.prems(1) split by simp
    moreover have "order = (before @ us @ [n]) @ vs" using less.prems(1) split by simp
    moreover have "length vs < length later" by (simp add: split)
    ultimately show ?thesis using less.hyps by metis
  qed
  then obtain f where f: "\<And>e. e \<in> set es \<Longrightarrow> tree_root (f e) = de_child e \<and> tree_of d (f e) \<and> set (tree_nodes (f e)) \<subseteq> set vs"
    by metis
  have "tree_of d (Branch n (map (\<lambda>e. (e, f e)) es))" using f es by (auto simp: comp_def)
  moreover have "set (tree_nodes (Branch n (map (\<lambda>e. (e, f e)) es))) \<subseteq> set later" using f by (fastforce simp: split)
  ultimately show ?case by (intro exI [of _ "Branch n (map (\<lambda>e. (e, f e)) es)"]) simp
qed

lemma precedes_irrefl: "distinct xs \<Longrightarrow> \<not> precedes xs a a"
  by (auto simp: precedes_def)

lemma precedes_trans:
  assumes "precedes xs a b" "precedes xs b c" "distinct xs"
  shows "precedes xs a c"
proof -
  obtain us vs where xs: "xs = us @ c # vs" "b \<in> set us" using assms(2) by (auto simp: precedes_def)
  obtain ws zs where us: "us = ws @ b # zs" using xs(2) by (auto simp: in_set_conv_decomp)
  have "a \<in> set ws"
    using assms(1,3) xs us by (auto simp: precedes_def append_eq_append_conv2 append_eq_Cons_conv Cons_eq_append_conv)
  then show ?thesis unfolding precedes_def using xs us by (intro exI [of _ us] exI [of _ vs]) simp
qed

lemma edges_of_node:
  assumes "arborescent d order" "dict_get d p = Some es"
  shows "distinct (map de_child es)"
proof -
  have "es \<in> set (dict_values d)" using dict_get_SomeD [OF assms(2)] by simp
  then obtain xs ys where "dict_values d = xs @ es # ys" by (meson in_set_conv_decomp)
  then show ?thesis using assms(1) by (simp add: arborescent_def tree_edges_def)
qed

lemma tree_after_root:
  assumes "arborescent d order" "distinct order" "tree_of d t" "m \<in> set (tree_nodes t)"
  shows "m = tree_root t \<or> precedes order (tree_root t) m"
  using assms(3,4)
proof (induction t arbitrary: m)
  case (Branch n ts)
  show ?case
  proof (cases "m = n")
    case False
    then obtain e t where t: "(e, t) \<in> set ts" "m \<in> set (tree_nodes t)" using Branch.prems(2) by auto
    note sub = tree_branch [OF Branch.prems(1) t(1)]
    have "precedes order n (de_child e)" using arborescent_edge(3) [OF assms(1) sub(3,4)] .
    moreover have "m = de_child e \<or> precedes order (de_child e) m"
      using Branch.IH [OF t(1) _ sub(2) t(2)] sub(1) by auto
    ultimately show ?thesis using precedes_trans [OF _ _ assms(2)] by auto
  qed simp
qed

lemma tree_has_parent:
  assumes "tree_of d t" "m \<in> set (tree_nodes t)" "m \<noteq> tree_root t"
  shows "\<exists>p es e. p \<in> set (tree_nodes t) \<and> dict_get d p = Some es \<and> e \<in> set es \<and> de_child e = m"
  using assms
proof (induction t)
  case (Branch n ts)
  then obtain e t where t: "(e, t) \<in> set ts" "m \<in> set (tree_nodes t)" by auto
  note sub = tree_branch [OF Branch.prems(1) t(1)]
  show ?case
  proof (cases "m = tree_root t")
    case True
    then show ?thesis using sub by (intro exI [of _ n] exI [of _ "map fst ts"] exI [of _ e]) simp
  next
    case False
    from Branch.IH [OF t(1) _ sub(2) t(2) False] obtain p es e' where
      "p \<in> set (tree_nodes t)" "dict_get d p = Some es" "e' \<in> set es" "de_child e' = m" by auto
    then show ?thesis using tree_branch_nodes [OF t(1), of n] by blast
  qed
qed

lemma parent_unique:
  assumes "arborescent d order" "dict_get d p = Some es" "e \<in> set es" "dict_get d q = Some es'" "e' \<in> set es'"
    and "de_child e = de_child e'"
  shows "p = q"
proof -
  have "e = e'"
    using arborescent_edge(1) [OF assms(1-3)] arborescent_edge(1) [OF assms(1,4,5)] assms(1,6)
    by (auto simp: arborescent_def distinct_map inj_on_def)
  then show ?thesis using arborescent_edge(2) [OF assms(1-3)] arborescent_edge(2) [OF assms(1,4,5)] by simp
qed

lemma trees_overlap:
  assumes "arborescent d order" "tree_of d s" "tree_of d t" "m \<in> set (tree_nodes s)" "m \<in> set (tree_nodes t)"
  shows "tree_root s \<in> set (tree_nodes t) \<or> tree_root t \<in> set (tree_nodes s)"
  using assms(2,4)
proof (induction s)
  case (Branch n ts)
  show ?case
  proof (cases "m = n")
    case False
    then obtain e s' where s': "(e, s') \<in> set ts" "m \<in> set (tree_nodes s')" using Branch.prems(2) by auto
    note sub = tree_branch [OF Branch.prems(1) s'(1)]
    note inside = tree_branch_nodes [OF s'(1), of n]
    consider "tree_root t \<in> set (tree_nodes s')" | "tree_root s' = tree_root t"
      | "tree_root s' \<in> set (tree_nodes t)" "tree_root s' \<noteq> tree_root t"
      using Branch.IH [OF s'(1) _ sub(2) s'(2)] by auto
    then show ?thesis
    proof cases
      case 2
      then show ?thesis using tree_root_in [of s'] inside by auto
    next
      case 3
      obtain p es e' where p: "p \<in> set (tree_nodes t)" "dict_get d p = Some es" "e' \<in> set es" "de_child e' = tree_root s'"
        using tree_has_parent [OF assms(3) 3] by blast
      have "p = n" by (rule parent_unique [OF assms(1) p(2,3) sub(3,4)]) (simp add: p(4) sub(1))
      then show ?thesis using p(1) by simp
    qed (use inside in auto)
  qed (use assms(5) in simp)
qed

lemma distinct_concat_map:
  assumes "sorted_wrt (\<lambda>x y. set (f x) \<inter> set (f y) = {}) xs" "\<And>x. x \<in> set xs \<Longrightarrow> distinct (f x)"
  shows "distinct (concat (map f xs))"
  using assms by (induction xs) auto

lemma tree_distinct:
  assumes "arborescent d order" "distinct order" "tree_of d t"
  shows "distinct (tree_nodes t)"
  using assms(3)
proof (induction t)
  case (Branch n ts)
  let ?nodes = "\<lambda>(e, t). tree_nodes t"
  have get: "dict_get d n = Some (map fst ts)" using Branch.prems by simp
  have sub: "tree_root t = de_child e" "tree_of d t" "precedes order n (de_child e)" if "(e, t) \<in> set ts" for e t
    using tree_branch [OF Branch.prems that] arborescent_edge(3) [OF assms(1) get] by simp_all
  have after: "precedes order n m" if "(e, t) \<in> set ts" "m \<in> set (tree_nodes t)" for e t m
    using tree_after_root [OF assms(1,2) sub(2) [OF that(1)] that(2)] sub(1,3) [OF that(1)]
      precedes_trans [OF _ _ assms(2)] by auto
  have apart: "set (?nodes x) \<inter> set (?nodes y) = {}"
    if xy: "x \<in> set ts" "y \<in> set ts" "de_child (fst x) \<noteq> de_child (fst y)" for x y
  proof (rule ccontr)
    assume "set (?nodes x) \<inter> set (?nodes y) \<noteq> {}"
    then obtain m where m: "m \<in> set (tree_nodes (snd x))" "m \<in> set (tree_nodes (snd y))" by (auto simp: case_prod_unfold)
    have x: "(fst x, snd x) \<in> set ts" and y: "(fst y, snd y) \<in> set ts" using xy by simp_all
    have no: "\<not> tree_root (snd a) \<in> set (tree_nodes (snd b))"
      if ab: "(fst a, snd a) \<in> set ts" "(fst b, snd b) \<in> set ts" "de_child (fst a) \<noteq> de_child (fst b)" for a b
    proof
      assume "tree_root (snd a) \<in> set (tree_nodes (snd b))"
      moreover have "tree_root (snd a) \<noteq> tree_root (snd b)" using ab sub(1) by metis
      ultimately obtain p es e where p: "p \<in> set (tree_nodes (snd b))" "dict_get d p = Some es" "e \<in> set es"
          "de_child e = tree_root (snd a)"
        using tree_has_parent [OF sub(2) [OF ab(2)]] by blast
      have "p = n"
        by (rule parent_unique [OF assms(1) p(2,3) get, of "fst a"])
          (use tree_branch [OF Branch.prems ab(1)] p(4) in simp_all)
      then show False using after [OF ab(2) p(1)] precedes_irrefl [OF assms(2)] by simp
    qed
    from trees_overlap [OF assms(1) sub(2) [OF x] sub(2) [OF y] m] no [OF x y xy(3)] no [OF y x xy(3) [symmetric]]
    show False by blast
  qed
  have "sorted_wrt (\<lambda>x y. set (?nodes x) \<inter> set (?nodes y) = {}) ts"
    using edges_of_node [OF assms(1) get] apart
    by (auto simp: sorted_wrt_iff_nth_less distinct_conv_nth)
  moreover have "distinct (?nodes x)" if "x \<in> set ts" for x
    using Branch.IH [of x "snd x"] that sub(2) [of "fst x" "snd x"] by (cases x) simp
  moreover have "n \<notin> set (concat (map ?nodes ts))"
    using after precedes_irrefl [OF assms(2)] by fastforce
  ultimately show ?case using distinct_concat_map [of ?nodes ts] by simp
qed

lemma tree_closed:
  "tree_of d t \<Longrightarrow> p \<in> set (tree_nodes t) \<Longrightarrow> dict_get d p = Some es \<Longrightarrow> e \<in> set es \<Longrightarrow> de_child e \<in> set (tree_nodes t)"
proof (induction t)
  case (Branch n ts)
  show ?case
  proof (cases "p = n")
    case True
    then obtain t where t: "(e, t) \<in> set ts" using Branch.prems by auto
    then show ?thesis using tree_branch [OF Branch.prems(1) t] tree_root_in [of t] tree_branch_nodes [OF t, of n] by auto
  next
    case False
    then obtain e' t where t: "(e', t) \<in> set ts" "p \<in> set (tree_nodes t)" using Branch.prems(2) by auto
    from Branch.IH [OF t(1) _ tree_branch(2) [OF Branch.prems(1) t(1)] t(2) Branch.prems(3,4)]
    show ?thesis using tree_branch_nodes [OF t(1), of n] by auto
  qed
qed

lemma edge_in_list:
  assumes "arborescent d order" "e \<in> set (tree_edges d)"
  shows "\<exists>es. dict_get d (de_parent e) = Some es \<and> e \<in> set es"
proof -
  obtain p es where p: "(p, es) \<in> set d" "e \<in> set es" using assms(2) by (auto simp: tree_edges_def)
  then have "dict_get d p = Some es" using assms(1) by (simp add: arborescent_def)
  with arborescent_edge(2) [OF assms(1) this p(2)] p(2) show ?thesis by auto
qed

lemma tree_covers:
  assumes "arborescent d order" "distinct order" "tree_of d t"
    and "set order = set (tree_root t # map de_child (tree_edges d))"
  shows "set (tree_nodes t) = set order"
proof
  show "set (tree_nodes t) \<subseteq> set order"
    using tree_nodes_get [OF assms(3)] assms(1) dict_get_SomeD by (fastforce simp: arborescent_def)
  have "set us \<subseteq> set (tree_nodes t)" if "order = us @ vs" for us vs
    using that
  proof (induction us arbitrary: vs rule: rev_induct)
    case (snoc n us)
    have "n \<in> set (tree_nodes t)"
    proof (cases "n = tree_root t")
      case False
      then obtain e where e: "e \<in> set (tree_edges d)" "n = de_child e" using assms(4) snoc.prems by auto
      from edge_in_list [OF assms(1) this(1)] obtain es where es: "dict_get d (de_parent e) = Some es" "e \<in> set es" by blast
      have "precedes (us @ n # vs) (de_parent e) n"
        using arborescent_edge(3) [OF assms(1) es] snoc.prems e(2) by simp
      then have "de_parent e \<in> set us"
        using assms(2) snoc.prems
        by (auto simp: precedes_def append_eq_append_conv2 append_eq_Cons_conv Cons_eq_append_conv)
      then show ?thesis using snoc.IH [of "n # vs"] snoc.prems tree_closed [OF assms(3) _ es] e(2) by auto
    qed (simp add: tree_root_in)
    then show ?case using snoc.IH [of "n # vs"] snoc.prems by auto
  qed simp
  from this [of order "[]"] show "set order \<subseteq> set (tree_nodes t)" by simp
qed

section \<open>A component\<close>

definition component_members :: "display_component \<Rightarrow> string list" where
  "component_members c = dict_keys (dc_children c)"

definition shown_links :: "display_component \<Rightarrow> link_plan list" where
  "shown_links c = map de_link (tree_edges (dc_children c)) @ dc_cross_links c"

definition spanning :: "link_plan list \<Rightarrow> display_component \<Rightarrow> bool" where
  "spanning links c \<longleftrightarrow>
     (\<exists>t. tree_of (dc_children c) t \<and> tree_root t = dc_root c \<and> mset (tree_nodes t) = mset (component_members c)) \<and>
     (\<forall>e \<in> set (tree_edges (dc_children c)). shows_link links e)"

lemma choose_root_from:
  "\<exists>n \<in> insert best (set ms). fold (\<lambda>name best. if key_less (f name) (f best) then name else best) ms best = n \<and>
    (\<forall>m \<in> insert best (set ms). \<not> key_less (f m) (f n))"
proof (induction ms arbitrary: best)
  case (Cons m ms)
  let ?best = "if key_less (f m) (f best) then m else best"
  from Cons.IH [of ?best] obtain n where n: "n \<in> insert ?best (set ms)"
      "fold (\<lambda>name best. if key_less (f name) (f best) then name else best) ms ?best = n"
      "\<forall>k \<in> insert ?best (set ms). \<not> key_less (f k) (f n)" by blast
  have "\<not> key_less (f m) (f n) \<and> \<not> key_less (f best) (f n)"
    using n(3) by (auto simp: key_less_def split: if_splits)
  with n show ?case by (intro bexI [of _ n]) (auto split: if_splits)
qed (simp add: key_less_def)

lemma choose_root_member:
  assumes "members \<noteq> []"
  shows "choose_root adj nodes members \<in> set members"
    and "m \<in> set members \<Longrightarrow> \<not> key_less (root_key adj nodes m) (root_key adj nodes (choose_root adj nodes members))"
  using choose_root_from [of "hd members" "tl members" "root_key adj nodes"] assms
  by (cases members; auto simp: choose_root_def)+

lemma growing_arborescent:
  assumes "growing links start members s" "distinct members" "set (ts_seen s) = set members"
  shows "arborescent (ts_children s) (ts_seen s)"
proof -
  have "distinct (start # map de_child (tree_edges (ts_children s)))"
    using assms(1) mset_eq_imp_distinct_iff unfolding growing_def by blast
  then show ?thesis using assms by (simp add: growing_def arborescent_def)
qed

lemma shown_split:
  assumes "distinct (map lk_index links)" "distinct (map de_link es)"
    and "\<forall>e \<in> set es. de_link e \<in> set links \<and> inside (de_link e)"
    and "mset idx = mset (map (lk_index \<circ> de_link) es)"
  shows "mset (map de_link es @ filter (\<lambda>l. lk_index l \<notin> set idx \<and> inside l) links) = mset (filter inside links)"
proof -
  have idx: "set idx = lk_index ` de_link ` set es" using mset_eq_setD [OF assms(4)] by auto
  have dist: "distinct links" using assms(1) by (simp add: distinct_map)
  have "set (map de_link es) = set (filter (\<lambda>l. lk_index l \<in> set idx \<and> inside l) links)"
    using assms(1,3) by (auto simp: idx distinct_map inj_on_def)
  then have "mset (map de_link es) = mset (filter (\<lambda>l. lk_index l \<in> set idx \<and> inside l) links)"
    using assms(2) dist by (subst (asm) set_eq_iff_mset_eq_distinct) auto
  moreover have "mset (filter inside links) =
      mset (filter (\<lambda>l. lk_index l \<in> set idx \<and> inside l) links) + mset (filter (\<lambda>l. lk_index l \<notin> set idx \<and> inside l) links)"
    by (induction links) auto
  ultimately show ?thesis by simp
qed

definition whole_component :: "link_plan list \<Rightarrow> display_component \<Rightarrow> bool" where
  "whole_component links c \<longleftrightarrow> spanning links c \<and> closed_under links (set (component_members c)) \<and>
     mset (shown_links c) = mset (filter (\<lambda>l. ep_node (lk_left l) \<in> set (component_members c)) links)"

lemma build_component_spans:
  assumes plan: "linked_plan plan"
    and adj: "\<forall>n \<in> set members. dict_get adj n = Some (neighbors_in (tpl_links plan) n)"
    and members: "collecting (tpl_links plan) first [] remaining members" "first \<in> set members"
  shows "\<exists>c. build_component plan adj members = Inr c \<and> component_members c = members \<and>
    whole_component (tpl_links plan) c"
proof -
  let ?links = "tpl_links plan"
  let ?start = "choose_root adj (dict_keys (tpl_nodes plan)) members"
  let ?s = "\<lparr>ts_queue = [?start], ts_seen = [?start], ts_tree_links = [],
        ts_children = map (\<lambda>name. (name, [])) members\<rparr>"
  have start: "?start \<in> set members" using members(2) by (intro choose_root_member) auto
  have dist: "distinct members" and reach: "\<forall>b \<in> set members. (adjacent ?links)\<^sup>*\<^sup>* first b"
    and inside: "\<And>a b. a \<in> set members \<Longrightarrow> adjacent ?links a b \<Longrightarrow> b \<in> set members"
    using members(1) by (auto simp: collecting_def)
  then have closed: "closed_under ?links (set members)" by (simp add: closed_under_def)
  have none: "tree_edges (map (\<lambda>name. (name, [])) members) = []" by (auto simp: tree_edges_def)
  have "growing ?links ?start members ?s"
    using start by (auto simp: growing_def none comp_def)
  from search_tree_grows [OF this closed adj] obtain s where
    s: "search_tree adj ?s = Inr s" "growing ?links ?start members s" "?start \<in> set (ts_seen s)"
      "closed_under ?links (set (ts_seen s))" by auto
  have "b \<in> set (ts_seen s)" if "b \<in> set members" for b
    using closed_reach [OF _ s(4,3)] reach that start reach_sym rtranclp_trans by metis
  then have seen: "set (ts_seen s) = set members" using s(2) by (auto simp: growing_def)
  have order: "distinct (ts_seen s)" using s(2) by (simp add: growing_def)
  note arb = growing_arborescent [OF s(2) dist seen]
  obtain t where t: "tree_of (ts_children s) t" "tree_root t = ?start"
    using tree_exists [OF arb order, of "[]" "ts_seen s" ?start] s(3) by auto
  have "set (ts_seen s) = set (tree_root t # map de_child (tree_edges (ts_children s)))"
    using s(2) mset_eq_setD unfolding growing_def t(2) by blast
  from tree_covers [OF arb order t(1) this] have "set (tree_nodes t) = set members" by (simp add: seen)
  then have nodes: "mset (tree_nodes t) = mset members"
    using tree_distinct [OF arb order t(1)] dist by (simp add: set_eq_iff_mset_eq_distinct)
  let ?inside = "\<lambda>l. ep_node (lk_left l) \<in> set members \<and> ep_node (lk_right l) \<in> set members"
  let ?c = "\<lparr>dc_root = ?start, dc_children = ts_children s,
      dc_cross_links = filter (\<lambda>l. lk_index l \<notin> set (ts_tree_links s) \<and> ?inside l) ?links\<rparr>"
  have keys: "dict_keys (ts_children s) = members" using s(2) by (simp add: growing_def)
  have edges: "\<forall>e \<in> set (tree_edges (ts_children s)). shows_link ?links e \<and> de_link e \<in> set ?links \<and> ?inside (de_link e)"
  proof
    fix e assume e: "e \<in> set (tree_edges (ts_children s))"
    then have "shows_link ?links e" "precedes (ts_seen s) (de_parent e) (de_child e)"
      using s(2) by (simp_all add: growing_def)
    then have "shows_link ?links e" "de_parent e \<in> set members" "de_child e \<in> set members"
      using precedes_set seen by metis+
    then show "shows_link ?links e \<and> de_link e \<in> set ?links \<and> ?inside (de_link e)"
      by (auto simp: shows_link_def joins_def)
  qed
  have "mset (map de_link (tree_edges (ts_children s)) @
      filter (\<lambda>l. lk_index l \<notin> set (ts_tree_links s) \<and> ?inside l) ?links) = mset (filter ?inside ?links)"
    by (rule shown_split) (use plan s(2) edges in \<open>auto simp: growing_def linked_plan_def\<close>)
  moreover have "filter ?inside ?links = filter (\<lambda>l. ep_node (lk_left l) \<in> set members) ?links"
    by (rule filter_cong) (use inside in \<open>auto simp: adjacent_def joins_def\<close>)
  ultimately have "whole_component ?links ?c"
    using t nodes edges closed keys
    by (auto simp: whole_component_def spanning_def component_members_def shown_links_def)
  moreover have "build_component plan adj members = Inr ?c"
    by (simp add: build_component_def s(1))
  ultimately show ?thesis using keys by (intro exI [of _ ?c]) (simp add: component_members_def)
qed

section \<open>The forest\<close>

definition foresting :: "topology_plan \<Rightarrow> string list \<times> display_component list \<Rightarrow> bool" where
  "foresting plan st \<longleftrightarrow>
     mset (concat (map component_members (snd st)) @ fst st) = mset (dict_keys (tpl_nodes plan)) \<and>
     closed_under (tpl_links plan) (set (fst st)) \<and>
     (\<forall>c \<in> set (snd st). whole_component (tpl_links plan) c)"

lemma add_component_forests:
  assumes plan: "linked_plan plan" and st: "foresting plan (remaining, components)"
    and adj: "\<forall>n \<in> set (dict_keys (tpl_nodes plan)). dict_get adj n = Some (neighbors_in (tpl_links plan) n)"
  shows "\<exists>remaining' components'. add_component plan adj first (remaining, components) = Inr (remaining', components') \<and>
    foresting plan (remaining', components') \<and> set remaining' \<subseteq> set remaining - {first}"
proof (cases "first \<in> set remaining")
  case False
  then show ?thesis using st by (auto simp: add_component_def)
next
  case True
  let ?links = "tpl_links plan"
  have all: "distinct (concat (map component_members components) @ remaining)"
    using st plan mset_eq_imp_distinct_iff unfolding foresting_def linked_plan_def fst_conv snd_conv by blast
  have sub: "set remaining \<subseteq> set (dict_keys (tpl_nodes plan))"
    using st mset_eq_setD unfolding foresting_def fst_conv snd_conv by fastforce
  have start: "collecting ?links first [first] (removeAll first remaining) []"
    using st all True by (auto simp: collecting_def foresting_def insert_absorb distinct_removeAll)
  have "\<forall>n \<in> set ([] @ [first] @ removeAll first remaining). dict_get adj n = Some (neighbors_in ?links n)"
    using adj sub True by auto
  from collect_members_spans [OF start this] obtain members remaining' where
    collected: "collect_members adj [first] (removeAll first remaining) [] = Inr (members, remaining')"
      "mset (members @ remaining') = mset ([] @ [first] @ removeAll first remaining)"
      "collecting ?links first [] remaining' members" "first \<in> set members" by auto
  have same: "mset (members @ remaining') = mset remaining"
    using collected(2) True all by (simp add: distinct_remove1_removeAll [symmetric])
  have sets: "set members \<union> set remaining' = set remaining" "distinct (members @ remaining')"
    using mset_eq_setD [OF same] mset_eq_imp_distinct_iff [OF same] all by auto
  have "\<forall>n \<in> set members. dict_get adj n = Some (neighbors_in ?links n)" using adj sub sets(1) by auto
  from build_component_spans [OF plan this collected(3,4)] obtain c where
    c: "build_component plan adj members = Inr c" "component_members c = members" "whole_component ?links c" by blast
  have "closed_under ?links (set remaining')"
    unfolding closed_under_def
  proof (intro ballI allI impI)
    fix a b assume a: "a \<in> set remaining'" "adjacent ?links a b"
    then have "b \<in> set remaining" using st sets(1) by (auto simp: foresting_def closed_under_def)
    moreover have "b \<notin> set members"
    proof
      assume "b \<in> set members"
      then have "a \<in> set members" using collected(3) adjacent_sym [OF a(2)] by (auto simp: collecting_def)
      then show False using a(1) sets(2) by auto
    qed
    ultimately show "b \<in> set remaining'" using sets(1) by auto
  qed
  then have "foresting plan (remaining', components @ [c])"
    using st same c by (simp add: foresting_def)
  then show ?thesis
    using True collected(1,4) c(1) sets by (intro exI [of _ remaining'] exI [of _ "components @ [c]"]) (auto simp: add_component_def)
qed

lemma add_components_forest:
  assumes "linked_plan plan" "foresting plan (remaining, components)"
    and "\<forall>n \<in> set (dict_keys (tpl_nodes plan)). dict_get adj n = Some (neighbors_in (tpl_links plan) n)"
  shows "\<exists>remaining' components'. res_fold (add_component plan adj) names (remaining, components) = Inr (remaining', components') \<and>
    foresting plan (remaining', components') \<and> set remaining' \<subseteq> set remaining - set names"
  using assms(2)
proof (induction names arbitrary: remaining components)
  case (Cons first names)
  from add_component_forests [OF assms(1) Cons.prems assms(3), of first] obtain remaining1 components1 where
    1: "add_component plan adj first (remaining, components) = Inr (remaining1, components1)"
      "foresting plan (remaining1, components1)" "set remaining1 \<subseteq> set remaining - {first}" by blast
  from Cons.IH [OF 1(2)] 1(1,3) show ?case by fastforce
qed auto

lemma shown_of_components:
  assumes "distinct (concat (map component_members components))"
    and "\<forall>c \<in> set components. mset (shown_links c) = mset (filter (\<lambda>l. ep_node (lk_left l) \<in> set (component_members c)) links)"
  shows "mset (concat (map shown_links components)) =
    mset (filter (\<lambda>l. ep_node (lk_left l) \<in> set (concat (map component_members components))) links)"
  using assms
proof (induction components)
  case (Cons c components)
  have "mset (filter (\<lambda>l. P l \<or> Q l) ls) = mset (filter P ls) + mset (filter Q ls)"
    if "\<And>l. \<not> (P l \<and> Q l)" for P Q :: "link_plan \<Rightarrow> bool" and ls
    using that by (induction ls) auto
  with Cons show ?case by (auto simp: disjoint_iff)
qed simp

lemma display_forest_spans:
  assumes "linked_plan plan"
  shows "\<exists>components. build_display_forest plan = Inr components \<and>
    mset (concat (map component_members components)) = mset (dict_keys (tpl_nodes plan)) \<and>
    mset (concat (map shown_links components)) = mset (tpl_links plan) \<and>
    (\<forall>c \<in> set components. spanning (tpl_links plan) c)"
proof -
  let ?names = "dict_keys (tpl_nodes plan)"
  obtain adj where adj: "build_adjacency plan = Inr adj"
      "\<forall>n \<in> set ?names. dict_get adj n = Some (neighbors_in (tpl_links plan) n)"
    using build_adjacency_neighbors [OF assms] by metis
  have "foresting plan (?names, [])"
    using assms by (auto simp: foresting_def closed_under_def linked_plan_def adjacent_def joins_def)
  from add_components_forest [OF assms this adj(2), of ?names] obtain components where
    c: "res_fold (add_component plan adj) ?names (?names, []) = Inr ([], components)" "foresting plan ([], components)"
    by auto
  have members: "mset (concat (map component_members components)) = mset ?names"
    and whole: "\<forall>c \<in> set components. whole_component (tpl_links plan) c"
    using c(2) by (simp_all add: foresting_def)
  have "distinct (concat (map component_members components))"
    using members assms mset_eq_imp_distinct_iff unfolding linked_plan_def by blast
  then have "mset (concat (map shown_links components)) =
      mset (filter (\<lambda>l. ep_node (lk_left l) \<in> set (concat (map component_members components))) (tpl_links plan))"
    by (rule shown_of_components) (use whole in \<open>simp add: whole_component_def\<close>)
  also have "filter (\<lambda>l. ep_node (lk_left l) \<in> set (concat (map component_members components))) (tpl_links plan) = tpl_links plan"
    using assms by (subst filter_True) (auto simp only: linked_plan_def mset_eq_setD [OF members])
  finally show ?thesis
    using adj(1) c(1) members whole by (simp add: build_display_forest_def whole_component_def)
qed

end
