(* ===== verification/Display_Text.thy ===== *)
theory Display_Text
  imports Planner
begin

text \<open>
  The texts \<open>src/nslab/graph.py\<close> shows of a node: its kind, its interfaces and devices and, with
  \<open>detail\<close>, the settings of its ports and links. A text is a list of code points, since the lines use
  characters beyond a \<open>char\<close>: \<open>plain\<close> takes a string over.
\<close>

type_synonym glyphs = "nat list"

definition plain :: "string \<Rightarrow> glyphs" where
  "plain s = map of_char s"

definition middle_dot :: glyphs where
  "middle_dot = [32, 0xB7, 32]"

definition both_ways :: glyphs where
  "both_ways = [32, 0x2194, 32]"

fun join_text :: "glyphs \<Rightarrow> glyphs list \<Rightarrow> glyphs" where
  "join_text sep [] = []"
| "join_text sep [x] = x"
| "join_text sep (x # xs) = x @ sep @ join_text sep xs"

definition int_text :: "int \<Rightarrow> glyphs" where
  "int_text i = plain (show_int i)"

definition list_text :: "string list \<Rightarrow> glyphs" where
  "list_text xs = join_text (plain '', '') (map plain xs)"

text \<open>A part of a line that is there only when a value is.\<close>

definition opt_text :: "('a \<Rightarrow> glyphs) \<Rightarrow> 'a option \<Rightarrow> glyphs" where
  "opt_text f v = (case v of None \<Rightarrow> [] | Some x \<Rightarrow> f x)"

definition opt_entry :: "('a \<Rightarrow> glyphs) \<Rightarrow> 'a option \<Rightarrow> glyphs list" where
  "opt_entry f v = (case v of None \<Rightarrow> [] | Some x \<Rightarrow> [f x])"

definition on_off :: "bool \<Rightarrow> glyphs" where
  "on_off b = plain (if b then ''on'' else ''off'')"

section \<open>Nodes\<close>

fun kind_text :: "node_kind \<Rightarrow> string" where
  "kind_text LinuxKind = ''linux''"
| "kind_text BridgeKind = ''bridge''"

text \<open>\<open>_on_off\<close> of a value that may be \<open>None\<close>; an f-string shows \<open>None\<close> by name.\<close>

definition flag_text :: "bool option \<Rightarrow> glyphs" where
  "flag_text b = on_off (b = Some True)"

definition node_kind_text :: "node_plan \<Rightarrow> bool \<Rightarrow> glyphs" where
  "node_kind_text node detail =
     (if nd_kind node = BridgeKind then
        plain ''bridge'' @ middle_dot @ plain (case nd_bridge_name node of None \<Rightarrow> ''None'' | Some n \<Rightarrow> n) @
        (if detail then
           middle_dot @ plain ''stp '' @ flag_text (nd_stp node) @
           opt_text (\<lambda>p. middle_dot @ plain ''priority '' @ int_text p) (nd_bridge_priority node) @
           middle_dot @ plain ''vlan filtering '' @ flag_text (nd_vlan_filtering node)
         else [])
      else
        plain ''linux'' @
        (case (detail, nd_routing node) of
           (True, Some routing) \<Rightarrow>
             (let protocols =
                (if rp_ospf routing \<noteq> None then [plain ''ospf''] else []) @
                opt_entry (\<lambda>b. plain ''bgp as '' @ int_text (bgp_local_as b)) (rp_bgp routing) @
                opt_entry (\<lambda>p. plain ''pim rp '' @ plain (show_ipv4 (pim_rp_address p))) (rp_pim routing)
              in if protocols \<noteq> [] then middle_dot @ join_text middle_dot protocols else [])
         | _ \<Rightarrow> []))"

definition node_summary :: "node_plan \<Rightarrow> bool \<Rightarrow> glyphs" where
  "node_summary node detail = plain (nd_name node) @ plain '' ['' @ node_kind_text node detail @ plain '']''"

section \<open>Links\<close>

definition netem_text :: "netem_plan \<Rightarrow> glyphs" where
  "netem_text netem = join_text middle_dot (
     (case ne_rate netem of None \<Rightarrow> [] | Some rate \<Rightarrow> if rate = [] then [] else [plain ''rate '' @ plain rate]) @
     (if ne_delay_ms netem = 0 then [] else [plain ''delay '' @ int_text (ne_delay_ms netem) @ plain ''ms'']) @
     (if ne_jitter_ms netem = 0 then [] else [plain ''jitter '' @ int_text (ne_jitter_ms netem) @ plain ''ms'']) @
     (if ne_loss_percent netem = 0 then [] else [plain ''loss '' @ int_text (ne_loss_percent netem) @ plain ''%'']))"

definition fq_codel_text :: "fq_codel_plan \<Rightarrow> glyphs" where
  "fq_codel_text q =
     plain ''fq_codel target '' @ int_text (fq_target_ms q) @ plain ''ms'' @ middle_dot @
     plain ''interval '' @ int_text (fq_interval_ms q) @ plain ''ms'' @ middle_dot @
     plain ''limit '' @ int_text (fq_limit q) @ middle_dot @ plain ''ecn '' @ on_off (fq_ecn q)"

fun htb_leaf_text :: "htb_leaf_plan \<Rightarrow> glyphs" where
  "htb_leaf_text (LeafFqCodel q) = fq_codel_text q"
| "htb_leaf_text (LeafSimple q) = plain (sq_kind q)"

fun qdisc_text :: "qdisc_plan \<Rightarrow> glyphs" where
  "qdisc_text (TbfQdisc q) =
     plain ''tbf rate '' @ plain (tbf_rate q) @ middle_dot @ plain ''burst '' @ int_text (tbf_burst_bytes q) @
     plain ''B'' @ middle_dot @ plain ''latency '' @ int_text (tbf_latency_ms q) @ plain ''ms''"
| "qdisc_text (FqCodelQdisc q) = fq_codel_text q"
| "qdisc_text (HtbQdisc q) =
     plain ''htb rate '' @ plain (htb_rate q) @ middle_dot @ plain ''leaf '' @ htb_leaf_text (htb_leaf q)"
| "qdisc_text (SimpleQdisc q) = plain (sq_kind q)"
| "qdisc_text (CakeQdisc q) =
     plain ''cake bandwidth '' @ plain (cake_bandwidth q) @ middle_dot @ plain (cake_flow_mode q) @ middle_dot @
     plain (cake_diffserv_mode q) @ middle_dot @ plain ''rtt '' @ int_text (cake_rtt_ms q) @ plain ''ms'' @
     middle_dot @ plain ''nat '' @ on_off (cake_nat q)"

section \<open>Devices\<close>

definition addresses_text :: "bool \<Rightarrow> ip_interface list \<Rightarrow> glyphs" where
  "addresses_text include_addresses addresses =
     (if include_addresses \<and> addresses \<noteq> [] then middle_dot @ list_text (map show_interface addresses) else [])"

definition mtu_text :: "int option \<Rightarrow> glyphs" where
  "mtu_text = opt_text (\<lambda>mtu. middle_dot @ plain ''mtu '' @ int_text mtu)"

definition detail_text :: "bool \<Rightarrow> glyphs \<Rightarrow> glyphs" where
  "detail_text detail text = (if detail then text else [])"

definition underlay_text :: "string \<Rightarrow> string \<Rightarrow> glyphs" where
  "underlay_text own link = middle_dot @ plain ''local '' @ plain own @ plain '' via '' @ plain link"

definition bond_options_text :: "bond_device_plan \<Rightarrow> glyphs" where
  "bond_options_text d = middle_dot @ join_text middle_dot (
     [plain ''miimon '' @ int_text (bond_miimon_ms d) @ plain ''ms''] @
     opt_entry (\<lambda>p. plain ''primary '' @ plain p) (bond_primary d) @
     opt_entry (\<lambda>p. plain ''lacp '' @ plain p) (bond_lacp_rate d) @
     opt_entry (\<lambda>p. plain ''hash '' @ plain p) (bond_xmit_hash_policy d) @
     opt_entry (\<lambda>p. plain ''min links '' @ int_text p) (bond_min_links d))"

fun device_text :: "bool \<Rightarrow> bool \<Rightarrow> device_plan \<Rightarrow> glyphs" where
  "device_text include_addresses detail (VlanDevice d) =
     plain (vlan_name d) @ plain '': vlan '' @ int_text (vlan_vid d) @ plain '' on '' @ plain (vlan_link d) @
     addresses_text include_addresses (vlan_addresses d)"
| "device_text include_addresses detail (VrfDevice d) =
     plain (vrf_name d) @ plain '': vrf table '' @ int_text (vrf_table d) @ middle_dot @ plain ''members '' @
     list_text (vrf_interfaces d)"
| "device_text include_addresses detail (BondDevice d) =
     plain (bond_name d) @ plain '': bond '' @ plain (bond_mode d) @ middle_dot @ plain ''members '' @
     list_text (bond_interfaces d) @ detail_text detail (bond_options_text d) @
     addresses_text include_addresses (bond_addresses d)"
| "device_text include_addresses detail (DummyDevice d) =
     plain (dummy_name d) @ plain '': dummy'' @ detail_text detail (mtu_text (dummy_mtu d)) @
     addresses_text include_addresses (dummy_addresses d)"
| "device_text include_addresses detail (GeneveDevice d) =
     plain (geneve_name d) @ plain '': geneve '' @ int_text (geneve_vni d) @ plain '' -> '' @
     plain (show_ip (geneve_remote d)) @
     detail_text detail (middle_dot @ plain ''via '' @ plain (geneve_link d) @ middle_dot @ plain ''udp '' @
       int_text (geneve_dst_port d) @ mtu_text (geneve_mtu d)) @
     addresses_text include_addresses (geneve_addresses d)"
| "device_text include_addresses detail (GreDevice d) =
     plain (gre_name d) @ plain '': gre -> '' @ plain (show_ipv4 (gre_remote d)) @
     detail_text detail (underlay_text (show_ipv4 (gre_local d)) (gre_link d) @ middle_dot @ plain ''ttl '' @
       int_text (gre_ttl d) @ opt_text (\<lambda>key. middle_dot @ plain ''key '' @ int_text key) (gre_key d) @
       mtu_text (gre_mtu d)) @
     addresses_text include_addresses (gre_addresses d)"
| "device_text include_addresses detail (IpipDevice d) =
     plain (ipip_name d) @ plain '': ipip -> '' @ plain (show_ipv4 (ipip_remote d)) @
     detail_text detail (underlay_text (show_ipv4 (ipip_local d)) (ipip_link d) @ middle_dot @ plain ''ttl '' @
       int_text (ipip_ttl d) @ mtu_text (ipip_mtu d)) @
     addresses_text include_addresses (ipip_addresses d)"
| "device_text include_addresses detail (MacvlanDevice d) =
     plain (macvlan_name d) @ plain '': macvlan '' @ plain (macvlan_mode d) @ plain '' on '' @ plain (macvlan_link d) @
     detail_text detail (mtu_text (macvlan_mtu d)) @ addresses_text include_addresses (macvlan_addresses d)"
| "device_text include_addresses detail (IpvlanDevice d) =
     plain (ipvlan_name d) @ plain '': ipvlan '' @ plain (ipvlan_mode d) @ plain '' on '' @ plain (ipvlan_link d) @
     detail_text detail (mtu_text (ipvlan_mtu d)) @ addresses_text include_addresses (ipvlan_addresses d)"
| "device_text include_addresses detail (VxlanDevice d) =
     plain (vxlan_name d) @ plain '': vxlan '' @ int_text (vxlan_vni d) @ plain '' -> '' @
     plain (show_ip (vxlan_remote d)) @
     detail_text detail (underlay_text (show_ip (vxlan_local d)) (vxlan_link d) @ middle_dot @ plain ''udp '' @
       int_text (vxlan_dst_port d) @ middle_dot @ plain ''learning '' @ on_off (vxlan_learning d) @
       mtu_text (vxlan_mtu d)) @
     addresses_text include_addresses (vxlan_addresses d)"

section \<open>The details of a node\<close>

definition vlan_text :: "bridge_vlan_plan \<Rightarrow> glyphs" where
  "vlan_text vlan =
     (let flags = (if bv_pvid vlan then [plain ''pvid''] else []) @ (if bv_untagged vlan then [plain ''untagged''] else [])
      in int_text (bv_vid vlan) @ (if flags \<noteq> [] then plain '' '' @ join_text (plain '' '') flags else []))"

definition settings_section :: "string \<Rightarrow> glyphs \<Rightarrow> glyphs list \<Rightarrow> glyphs list" where
  "settings_section label sep settings = (if settings \<noteq> [] then [plain label @ join_text sep settings] else [])"

definition port_sections :: "bridge_port_plan \<Rightarrow> glyphs list" where
  "port_sections port =
     settings_section ''stp '' middle_dot (
       opt_entry (\<lambda>c. plain ''cost '' @ int_text c) (bp_path_cost port) @
       opt_entry (\<lambda>p. plain ''priority '' @ int_text p) (bp_priority port)) @
     settings_section ''port '' middle_dot (concat (map (\<lambda>(label, value).
         opt_entry (\<lambda>b. plain label @ plain '' '' @ on_off b) value)
       [(''hairpin'', bp_hairpin port), (''isolated'', bp_isolated port), (''learning'', bp_learning port),
        (''flood'', bp_flood port), (''multicast flood'', bp_multicast_flood port)])) @
     settings_section ''vlans '' (plain '', '') (map vlan_text (bp_vlans port))"

definition link_sections :: "link_plan \<Rightarrow> glyphs list" where
  "link_sections link =
     opt_entry (\<lambda>netem. plain ''netem '' @ netem_text netem) (lk_netem link) @
     opt_entry (\<lambda>qdisc. plain ''qdisc '' @ qdisc_text qdisc) (lk_qdisc link)"

definition add_sections :: "string \<Rightarrow> glyphs list \<Rightarrow> (string, glyphs list) dict \<Rightarrow> (string, glyphs list) dict" where
  "add_sections i new sections =
     dict_set i ((case dict_get sections i of None \<Rightarrow> [] | Some old \<Rightarrow> old) @ new) sections"

definition sections_by_interface :: "node_plan \<Rightarrow> topology_plan \<Rightarrow> (string, glyphs list) dict" where
  "sections_by_interface node plan =
     fold (\<lambda>link sections.
         if lk_netem link = None \<and> lk_qdisc link = None then sections
         else fold (\<lambda>e sections. if ep_node e = nd_name node then add_sections (ep_interface e) (link_sections link) sections
           else sections) (link_endpoints link) sections)
       (tpl_links plan)
       (filter (\<lambda>(_, sections). sections \<noteq> []) (dict_map port_sections (nd_bridge_ports node)))"

definition node_details :: "node_plan \<Rightarrow> topology_plan \<Rightarrow> bool \<Rightarrow> glyphs list" where
  "node_details node plan detail =
     map (\<lambda>(i, addresses). plain i @ plain '': '' @ list_text (map show_interface addresses))
       (filter (\<lambda>(i, addresses). addresses \<noteq> []) (nd_interfaces node)) @
     map (device_text True detail) (dict_values (nd_devices node)) @
     (if detail then map (\<lambda>(i, sections). plain i @ plain '': '' @ join_text middle_dot sections)
        (sections_by_interface node plan) else [])"

end
