(* ===== verification/Display_Layout.thy ===== *)
theory Display_Layout
  imports Display_Forest Display_Text
begin

text \<open>
  The box layout of \<open>src/nslab/graph.py\<close>: the size of every node's box, the place of every box on a
  plane whose columns and rows are integers, and the canvas the boxes and edges are drawn on.

  The loops over a stack or a queue follow the children of a component, which the code takes to be a
  tree; on anything else they need not end. They are partial functions: \<open>None\<close> stands for a loop that
  goes on forever. A stack is a list with its top in front.
\<close>

unbundle bit_operations_syntax

text \<open>What follows a step that may not end and may raise.\<close>

definition run_bind :: "'a res option \<Rightarrow> ('a \<Rightarrow> 'b res option) \<Rightarrow> 'b res option" where
  "run_bind r f = (case r of None \<Rightarrow> None | Some (Inl e) \<Rightarrow> Some (Inl e) | Some (Inr x) \<Rightarrow> f x)"

lemma run_bind_simps [simp]: "run_bind (Some (Inr x)) f = f x" "run_bind (Some (Inl e)) f = Some (Inl e)"
  by (simp_all add: run_bind_def)

text \<open>\<open>d[k]\<close> for a dict with integer keys.\<close>

definition dict_at :: "(int, 'a) dict \<Rightarrow> int \<Rightarrow> 'a res" where
  "dict_at d k = res_of_option (key_error (show_int k)) (dict_get d k)"

section \<open>Boxes\<close>

record box =
  bx_lines :: "glyphs list"
  bx_width :: int
  bx_height :: int

record placement =
  pl_node :: string
  pl_x :: int
  pl_y :: int
  pl_box :: box

definition sibling_gap :: int where
  "sibling_gap = 5"

definition layer_gap :: int where
  "layer_gap = 5"

definition box_content :: "node_plan \<Rightarrow> topology_plan \<Rightarrow> bool \<Rightarrow> glyphs list" where
  "box_content node plan detail = plain (nd_name node) # node_kind_text node detail # node_details node plan detail"

definition make_box :: "node_plan \<Rightarrow> topology_plan \<Rightarrow> bool \<Rightarrow> box" where
  "make_box node plan detail =
     (let content = box_content node plan detail in
      \<lparr>bx_lines = content, bx_width = Max (set (map (\<lambda>line. int (length line)) content)) + 4,
       bx_height = int (length content) + 2\<rparr>)"

definition edge_label :: "display_edge \<Rightarrow> glyphs" where
  "edge_label edge = plain (de_parent_interface edge) @ both_ways @ plain (de_child_interface edge)"

section \<open>The size of the subtrees\<close>

partial_function (option) depth_loop ::
  "(string, display_edge list) dict \<Rightarrow> string list \<Rightarrow> (string, int) dict \<Rightarrow> (string, int) dict res option" where
  "depth_loop children queue depths =
     (case queue of
       [] \<Rightarrow> Some (Inr depths)
     | parent # rest \<Rightarrow>
         (case dict_lookup children parent of
           Inl e \<Rightarrow> Some (Inl e)
         | Inr edges \<Rightarrow>
             (case dict_lookup depths parent of
               Inl e \<Rightarrow> Some (Inl e)
             | Inr depth \<Rightarrow> depth_loop children (rest @ map de_child edges)
                 (fold (\<lambda>edge. dict_set (de_child edge) (depth + 1)) edges depths))))"

definition tree_depths :: "display_component \<Rightarrow> (string, int) dict res option" where
  "tree_depths component = depth_loop (dc_children component) [dc_root component] [(dc_root component, 0)]"

partial_function (option) traversal_loop ::
  "(string, display_edge list) dict \<Rightarrow> string list \<Rightarrow> string list \<Rightarrow> string list res option" where
  "traversal_loop children stack traversal =
     (case stack of
       [] \<Rightarrow> Some (Inr traversal)
     | node # rest \<Rightarrow>
         (case dict_lookup children node of
           Inl e \<Rightarrow> Some (Inl e)
         | Inr edges \<Rightarrow> traversal_loop children (rev (map de_child edges) @ rest) (traversal @ [node])))"

definition label_width :: "display_edge \<Rightarrow> int" where
  "label_width edge = int (length (edge_label edge))"

text \<open>The spans of the children: the wider of subtree and label, which is recorded for the child.\<close>

definition widen_child :: "display_edge \<Rightarrow> int list \<times> (string, int) dict \<Rightarrow> (int list \<times> (string, int) dict) res" where
  "widen_child edge st = (case st of (child_spans, widths) \<Rightarrow>
     res_bind (dict_lookup widths (de_child edge)) (\<lambda>width.
     let child_span = max width (label_width edge)
     in Inr (child_spans @ [child_span], dict_set (de_child edge) child_span widths)))"

definition children_span :: "int list \<Rightarrow> int" where
  "children_span spans = (if spans \<noteq> [] then sum_list spans + sibling_gap * (int (length spans) - 1) else 0)"

definition add_width ::
  "(string, display_edge list) dict \<Rightarrow> (string, box) dict \<Rightarrow> string \<Rightarrow> (string, int) dict \<Rightarrow> (string, int) dict res" where
  "add_width children boxes node widths =
     res_bind (dict_lookup children node) (\<lambda>edges.
     res_bind (res_fold widen_child edges ([], widths)) (\<lambda>(child_spans, widths).
     res_bind (dict_lookup boxes node) (\<lambda>box.
     Inr (dict_set node (max (bx_width box) (children_span child_spans)) widths))))"

definition subtree_widths :: "display_component \<Rightarrow> (string, box) dict \<Rightarrow> (string, int) dict res option" where
  "subtree_widths component boxes =
     run_bind (traversal_loop (dc_children component) [dc_root component] []) (\<lambda>traversal.
     Some (res_fold (add_width (dc_children component) boxes) (rev traversal) []))"

section \<open>The place of every box\<close>

definition add_layer_height ::
  "(string, box) dict \<Rightarrow> string \<times> int \<Rightarrow> (int, int) dict \<Rightarrow> (int, int) dict res" where
  "add_layer_height boxes entry heights = (case entry of (name, depth) \<Rightarrow>
     res_bind (dict_lookup boxes name) (\<lambda>box.
     Inr (dict_set depth (max (case dict_get heights depth of None \<Rightarrow> 0 | Some h \<Rightarrow> h) (bx_height box)) heights)))"

definition add_layer_top ::
  "(int, int) dict \<Rightarrow> int \<Rightarrow> (int, int) dict \<times> int \<Rightarrow> ((int, int) dict \<times> int) res" where
  "add_layer_top heights depth st = (case st of (tops, next_top) \<Rightarrow>
     res_bind (dict_at heights depth) (\<lambda>height.
     Inr (dict_set depth next_top tops, next_top + (height + layer_gap))))"

definition layer_tops :: "(string, box) dict \<Rightarrow> (string, int) dict \<Rightarrow> (int, int) dict res" where
  "layer_tops boxes depths =
     res_bind (res_fold (add_layer_height boxes) depths []) (\<lambda>heights.
     res_bind (res_fold (add_layer_top heights) [0..Max (set (dict_values depths))] ([], 0)) (\<lambda>(tops, next_top).
     Inr tops))"

text \<open>The children of a node from left to right, each at the left end of its span.\<close>

fun child_positions :: "(string, int) dict \<Rightarrow> int \<Rightarrow> display_edge list \<Rightarrow> (string \<times> int) list res" where
  "child_positions widths child_left [] = Inr []"
| "child_positions widths child_left (edge # edges) =
     res_bind (dict_lookup widths (de_child edge)) (\<lambda>width.
     res_bind (child_positions widths (child_left + (width + sibling_gap)) edges) (\<lambda>rest.
     Inr ((de_child edge, child_left) # rest)))"

definition place_node ::
  "(string, int) dict \<Rightarrow> (string, int) dict \<Rightarrow> (int, int) dict \<Rightarrow> (string, box) dict \<Rightarrow> string \<Rightarrow> int \<Rightarrow> placement res" where
  "place_node widths depths tops boxes node left =
     res_bind (dict_lookup widths node) (\<lambda>span.
     res_bind (dict_lookup boxes node) (\<lambda>box.
     res_bind (dict_lookup depths node) (\<lambda>depth.
     res_bind (dict_at tops depth) (\<lambda>top.
     Inr \<lparr>pl_node = node, pl_x = left + (span - bx_width box) div 2, pl_y = top, pl_box = box\<rparr>))))"

definition place_children ::
  "(string, int) dict \<Rightarrow> string \<Rightarrow> int \<Rightarrow> display_edge list \<Rightarrow> (string \<times> int) list res" where
  "place_children widths node left edges =
     (if edges = [] then Inr []
      else res_bind (dict_lookup widths node) (\<lambda>span.
        res_bind (res_map (\<lambda>edge. dict_lookup widths (de_child edge)) edges) (\<lambda>spans.
        child_positions widths (left + (span - (sum_list spans + sibling_gap * (int (length edges) - 1))) div 2) edges)))"

partial_function (option) placement_loop ::
  "(string, display_edge list) dict \<Rightarrow> (string, int) dict \<Rightarrow> (string, int) dict \<Rightarrow> (int, int) dict \<Rightarrow> (string, box) dict \<Rightarrow>
   (string \<times> int) list \<Rightarrow> placement list \<Rightarrow> placement list res option" where
  "placement_loop children widths depths tops boxes stack placements =
     (case stack of
       [] \<Rightarrow> Some (Inr placements)
     | (node, left) # rest \<Rightarrow>
         (case place_node widths depths tops boxes node left of
           Inl e \<Rightarrow> Some (Inl e)
         | Inr placement \<Rightarrow>
             (case dict_lookup children node of
               Inl e \<Rightarrow> Some (Inl e)
             | Inr edges \<Rightarrow>
                 (case place_children widths node left edges of
                   Inl e \<Rightarrow> Some (Inl e)
                 | Inr positions \<Rightarrow> placement_loop children widths depths tops boxes (positions @ rest)
                     (placements @ [placement])))))"

definition place_component :: "display_component \<Rightarrow> (string, box) dict \<Rightarrow> placement list res option" where
  "place_component component boxes =
     run_bind (tree_depths component) (\<lambda>depths.
     run_bind (Some (layer_tops boxes depths)) (\<lambda>tops.
     run_bind (subtree_widths component boxes) (\<lambda>widths.
     placement_loop (dc_children component) widths depths tops boxes [(dc_root component, 0)] [])))"

section \<open>The canvas\<close>

type_synonym cell = "int \<times> int"

record canvas =
  cv_lines :: "(cell, nat) dict"
  cv_text :: "(cell, nat) dict"

definition empty_canvas :: canvas where
  "empty_canvas = \<lparr>cv_lines = [], cv_text = []\<rparr>"

text \<open>The directions a line leaves a cell in, \<open>_UP\<close>, \<open>_RIGHT\<close>, \<open>_DOWN\<close> and \<open>_LEFT\<close>, as bits.\<close>

definition line_up :: nat where "line_up = 1"
definition line_right :: nat where "line_right = 2"
definition line_down :: nat where "line_down = 4"
definition line_left :: nat where "line_left = 8"

definition line_glyphs :: "(nat, nat) dict" where
  "line_glyphs = [
     (line_up, 0x2502), (line_down, 0x2502), (line_left, 0x2500), (line_right, 0x2500),
     (line_up OR line_down, 0x2502), (line_left OR line_right, 0x2500),
     (line_right OR line_down, 0x250C), (line_left OR line_down, 0x2510),
     (line_right OR line_up, 0x2514), (line_left OR line_up, 0x2518),
     (line_up OR line_right OR line_down, 0x251C), (line_up OR line_left OR line_down, 0x2524),
     (line_left OR line_right OR line_down, 0x252C), (line_left OR line_right OR line_up, 0x2534),
     (line_up OR line_right OR line_down OR line_left, 0x253C)]"

definition mark_line :: "cell \<Rightarrow> nat \<Rightarrow> canvas \<Rightarrow> canvas" where
  "mark_line c flag cv =
     cv\<lparr>cv_lines := dict_set c ((case dict_get (cv_lines cv) c of None \<Rightarrow> 0 | Some old \<Rightarrow> old) OR flag) (cv_lines cv)\<rparr>"

definition connect_cells :: "cell \<Rightarrow> cell \<Rightarrow> canvas \<Rightarrow> canvas res" where
  "connect_cells a b cv =
     (if fst b = fst a + 1 \<and> snd b = snd a then Inr (mark_line b line_left (mark_line a line_right cv))
      else if fst b = fst a \<and> snd b = snd a + 1 then Inr (mark_line b line_up (mark_line a line_down cv))
      else Inl (value_error ''canvas segments must connect adjacent cells''))"

definition add_horizontal :: "int \<Rightarrow> int \<Rightarrow> int \<Rightarrow> canvas \<Rightarrow> canvas res" where
  "add_horizontal y start end = res_fold (\<lambda>x. connect_cells (x, y) (x + 1, y)) [min start end..max start end - 1]"

definition add_vertical :: "int \<Rightarrow> int \<Rightarrow> int \<Rightarrow> canvas \<Rightarrow> canvas res" where
  "add_vertical x start end = res_fold (\<lambda>y. connect_cells (x, y) (x, y + 1)) [min start end..max start end - 1]"

definition add_text :: "int \<Rightarrow> int \<Rightarrow> glyphs \<Rightarrow> canvas \<Rightarrow> canvas" where
  "add_text x y text cv =
     cv\<lparr>cv_text := dict_update (map (\<lambda>(offset, c). ((x + int offset, y), c)) (enumerate 0 text)) (cv_text cv)\<rparr>"

text \<open>\<open>str.rstrip()\<close>, whose white space includes code points beyond a \<open>char\<close>.\<close>

definition is_blank :: "nat \<Rightarrow> bool" where
  "is_blank n \<longleftrightarrow> 9 \<le> n \<and> n \<le> 13 \<or> 28 \<le> n \<and> n \<le> 32 \<or> n = 0x85 \<or> n = 0xA0 \<or> n = 0x1680 \<or>
     0x2000 \<le> n \<and> n \<le> 0x200A \<or> n = 0x2028 \<or> n = 0x2029 \<or> n = 0x202F \<or> n = 0x205F \<or> n = 0x3000"

definition rstrip :: "glyphs \<Rightarrow> glyphs" where
  "rstrip s = rev (dropWhile is_blank (rev s))"

definition new_line :: glyphs where
  "new_line = [10]"

definition cell_glyph :: "canvas \<Rightarrow> cell \<Rightarrow> nat" where
  "cell_glyph cv c = (case dict_get (cv_text cv) c of
      Some text \<Rightarrow> text
    | None \<Rightarrow> (case dict_get line_glyphs (case dict_get (cv_lines cv) c of None \<Rightarrow> 0 | Some flags \<Rightarrow> flags) of
        None \<Rightarrow> 32 | Some glyph \<Rightarrow> glyph))"

definition canvas_row :: "canvas \<Rightarrow> cell list \<Rightarrow> int \<Rightarrow> int \<Rightarrow> glyphs" where
  "canvas_row cv occupied start_x y =
     (let xs = map fst (filter (\<lambda>c. snd c = y) occupied);
          last_x = (if xs = [] then start_x - 1 else Max (set xs))
      in rstrip (map (\<lambda>x. cell_glyph cv (x, y)) [start_x..last_x]))"

definition render_canvas :: "canvas \<Rightarrow> glyphs" where
  "render_canvas cv =
     (let occupied = dict_keys (cv_lines cv) @ dict_keys (cv_text cv) in
      if occupied = [] then []
      else rstrip (join_text new_line (map (canvas_row cv occupied (min 0 (Min (set (map fst occupied)))))
        [0..Max (set (map snd occupied))])))"

section \<open>Drawing\<close>

definition draw_box :: "placement \<Rightarrow> canvas \<Rightarrow> canvas res" where
  "draw_box placement cv =
     (let left = pl_x placement;
          right = left + bx_width (pl_box placement) - 1;
          top = pl_y placement;
          bottom = top + bx_height (pl_box placement) - 1
      in res_bind (add_horizontal top left right cv) (\<lambda>cv.
         res_bind (add_horizontal bottom left right cv) (\<lambda>cv.
         res_bind (add_vertical left top bottom cv) (\<lambda>cv.
         res_bind (add_vertical right top bottom cv) (\<lambda>cv.
         Inr (fold (\<lambda>(offset, line). add_text (left + 2) (top + int offset) line)
           (enumerate 1 (bx_lines (pl_box placement))) cv))))))"

definition draw_tree_edge :: "placement \<Rightarrow> placement \<Rightarrow> display_edge \<Rightarrow> canvas \<Rightarrow> canvas res" where
  "draw_tree_edge parent child edge cv =
     (let parent_x = pl_x parent + bx_width (pl_box parent) div 2;
          parent_bottom = pl_y parent + bx_height (pl_box parent) - 1;
          child_x = pl_x child + bx_width (pl_box child) div 2;
          child_top = pl_y child;
          branch_y = parent_bottom + 2;
          label_y = child_top - 2;
          label = edge_label edge
      in res_bind (add_vertical parent_x parent_bottom branch_y cv) (\<lambda>cv.
         res_bind (add_horizontal branch_y parent_x child_x cv) (\<lambda>cv.
         res_bind (add_vertical child_x branch_y (label_y - 1) cv) (\<lambda>cv.
         add_vertical child_x (label_y + 1) child_top
           (add_text (child_x - int (length label) div 2) label_y label cv)))))"

text \<open>The boxes of the nodes of a component.\<close>

definition component_boxes :: "topology_plan \<Rightarrow> bool \<Rightarrow> display_component \<Rightarrow> (string, box) dict res" where
  "component_boxes plan detail component = res_map (\<lambda>name. res_bind (dict_lookup (tpl_nodes plan) name) (\<lambda>node.
     Inr (name, make_box node plan detail))) (dict_keys (dc_children component))"

definition draw_tree_edges :: "(string, placement) dict \<Rightarrow> string \<times> display_edge list \<Rightarrow> canvas \<Rightarrow> canvas res" where
  "draw_tree_edges by_name entry = (case entry of (parent, edges) \<Rightarrow> res_fold (\<lambda>edge cv.
     res_bind (dict_lookup by_name parent) (\<lambda>p.
     res_bind (dict_lookup by_name (de_child edge)) (\<lambda>c. draw_tree_edge p c edge cv))) edges)"

definition render_box_component :: "topology_plan \<Rightarrow> bool \<Rightarrow> display_component \<Rightarrow> glyphs res option" where
  "render_box_component plan detail component =
     run_bind (Some (component_boxes plan detail component)) (\<lambda>boxes.
     run_bind (place_component component boxes) (\<lambda>placements.
     let by_name = dict_of (map (\<lambda>placement. (pl_node placement, placement)) placements) in
     Some (res_bind (res_fold (draw_tree_edges by_name) (dc_children component) empty_canvas) (\<lambda>cv.
       res_bind (res_fold draw_box placements cv) (\<lambda>cv. Inr (render_canvas cv))))))"

end
