(* ===== verification/Graph_Formats.thy ===== *)
theory Graph_Formats
  imports Display_Layout
begin

text \<open>
  The formats of \<open>src/nslab/graph.py\<close>: the tree, the boxes, Mermaid, DOT and JSON, and \<open>render_graph\<close>
  that chooses among them.
\<close>

section \<open>The tree\<close>

definition line_text :: "glyphs list \<Rightarrow> glyphs" where
  "line_text lines = join_text new_line lines"

text \<open>The stack entries of the children of a node: edge, prefix, and whether it is the last child.\<close>

definition branch_entries :: "display_edge list \<Rightarrow> glyphs \<Rightarrow> (display_edge \<times> glyphs \<times> bool) list" where
  "branch_entries edges prefix = map (\<lambda>(i, edge). (edge, prefix, i + 1 = length edges)) (enumerate 0 edges)"

definition branch_text :: "bool \<Rightarrow> glyphs" where
  "branch_text is_last = (if is_last then [0x2514, 0x2500, 32] else [0x251C, 0x2500, 32])"

definition continuation_text :: "bool \<Rightarrow> glyphs" where
  "continuation_text is_last = (if is_last then [32, 32, 32] else [0x2502, 32, 32])"

definition child_prefix :: "display_edge \<Rightarrow> glyphs \<Rightarrow> bool \<Rightarrow> glyphs" where
  "child_prefix edge prefix is_last =
     prefix @ continuation_text is_last @ replicate (length (edge_label edge @ plain ''  '')) 32"

definition child_lines :: "topology_plan \<Rightarrow> bool \<Rightarrow> display_edge \<Rightarrow> glyphs \<Rightarrow> bool \<Rightarrow> node_plan \<Rightarrow> glyphs list" where
  "child_lines plan detail edge prefix is_last child =
     (prefix @ branch_text is_last @ edge_label edge @ plain ''  '' @ node_summary child detail) #
     map (\<lambda>node_detail. child_prefix edge prefix is_last @ node_detail) (node_details child plan detail)"

partial_function (option) tree_lines_loop ::
  "topology_plan \<Rightarrow> bool \<Rightarrow> (string, display_edge list) dict \<Rightarrow> (display_edge \<times> glyphs \<times> bool) list \<Rightarrow> glyphs list \<Rightarrow>
   glyphs list res option" where
  "tree_lines_loop plan detail children stack lines =
     (case stack of
       [] \<Rightarrow> Some (Inr lines)
     | (edge, prefix, is_last) # rest \<Rightarrow>
         (case dict_lookup (tpl_nodes plan) (de_child edge) of
           Inl e \<Rightarrow> Some (Inl e)
         | Inr child \<Rightarrow>
             (case dict_lookup children (de_child edge) of
               Inl e \<Rightarrow> Some (Inl e)
             | Inr grandchildren \<Rightarrow> tree_lines_loop plan detail children
                 (branch_entries grandchildren (child_prefix edge prefix is_last) @ rest)
                 (lines @ child_lines plan detail edge prefix is_last child))))"

definition append_tree_children ::
  "topology_plan \<Rightarrow> bool \<Rightarrow> display_component \<Rightarrow> string \<Rightarrow> glyphs \<Rightarrow> glyphs list \<Rightarrow> glyphs list res option" where
  "append_tree_children plan detail component parent prefix lines =
     run_bind (Some (dict_lookup (dc_children component) parent)) (\<lambda>children.
     tree_lines_loop plan detail (dc_children component) (branch_entries children prefix) lines)"

definition endpoints_text :: "link_plan \<Rightarrow> glyphs" where
  "endpoints_text link =
     plain ''[L'' @ plain (show_nat (lk_index link)) @ plain ''] '' @
     plain (ep_node (lk_left link)) @ plain '':'' @ plain (ep_interface (lk_left link)) @ both_ways @
     plain (ep_node (lk_right link)) @ plain '':'' @ plain (ep_interface (lk_right link))"

definition cross_link_line :: "link_plan \<Rightarrow> glyphs" where
  "cross_link_line link = [32, 32, 0x21A9, 32] @ endpoints_text link"

definition cross_lines :: "(link_plan \<Rightarrow> glyphs) \<Rightarrow> link_plan list \<Rightarrow> glyphs list" where
  "cross_lines f links = (if links \<noteq> [] then plain ''Cross-links:'' # map f links else [])"

definition tree_component_lines :: "topology_plan \<Rightarrow> bool \<Rightarrow> display_component \<Rightarrow> glyphs list res option" where
  "tree_component_lines plan detail component =
     run_bind (Some (dict_lookup (tpl_nodes plan) (dc_root component))) (\<lambda>root_node.
     run_bind (append_tree_children plan detail component (dc_root component) []
       (node_summary root_node detail # map (\<lambda>d. plain ''  '' @ d) (node_details root_node plan detail))) (\<lambda>lines.
     Some (Inr (lines @ cross_lines cross_link_line (dc_cross_links component)))))"

text \<open>The components one after the other, with what comes between them.\<close>

fun run_map :: "('a \<Rightarrow> 'b res option) \<Rightarrow> 'a list \<Rightarrow> 'b list res option" where
  "run_map f [] = Some (Inr [])"
| "run_map f (x # xs) = run_bind (f x) (\<lambda>y. run_bind (run_map f xs) (\<lambda>ys. Some (Inr (y # ys))))"

fun separate_by :: "'a list \<Rightarrow> 'a list list \<Rightarrow> 'a list" where
  "separate_by sep [] = []"
| "separate_by sep [x] = x"
| "separate_by sep (x # xs) = x @ sep @ separate_by sep xs"

definition topology_title :: "topology_plan \<Rightarrow> glyphs" where
  "topology_title plan = plain ''Topology: '' @ plain (tpl_name plan)"

definition render_tree :: "topology_plan \<Rightarrow> bool \<Rightarrow> glyphs res option" where
  "render_tree plan detail =
     run_bind (Some (build_display_forest plan)) (\<lambda>components.
     run_bind (run_map (tree_component_lines plan detail) components) (\<lambda>parts.
     Some (Inr (line_text ([topology_title plan, []] @ separate_by [[]] parts)))))"

section \<open>The boxes\<close>

definition box_cross_link_line :: "link_plan \<Rightarrow> glyphs" where
  "box_cross_link_line link = plain ''  '' @ endpoints_text link"

definition render_box :: "topology_plan \<Rightarrow> bool \<Rightarrow> glyphs res option" where
  "render_box plan detail =
     run_bind (Some (build_display_forest plan)) (\<lambda>components.
     run_bind (run_map (\<lambda>component. run_bind (render_box_component plan detail component) (\<lambda>canvas.
       Some (Inr (line_text (canvas # cross_lines box_cross_link_line (dc_cross_links component)))))) components) (\<lambda>parts.
     Some (Inr (topology_title plan @ [10, 10] @ join_text [10, 10] parts))))"

section \<open>Labels\<close>

text \<open>\<open>value.replace(old, new)\<close> of a single character.\<close>

definition replace_glyph :: "nat \<Rightarrow> glyphs \<Rightarrow> glyphs \<Rightarrow> glyphs" where
  "replace_glyph old new value = concat (map (\<lambda>c. if c = old then new else [c]) value)"

definition escape_label :: "glyphs \<Rightarrow> glyphs" where
  "escape_label value =
     replace_glyph 10 [92, 110] (replace_glyph 13 [92, 114] (replace_glyph 34 [92, 34] (replace_glyph 92 [92, 92] value)))"

definition quoted_dot :: "glyphs \<Rightarrow> glyphs" where
  "quoted_dot value = [34] @ escape_label value @ [34]"

section \<open>Mermaid\<close>

definition mermaid_label :: "string \<Rightarrow> glyphs \<Rightarrow> glyphs" where
  "mermaid_label node_id label = plain node_id @ [91, 34] @ escape_label label @ [34, 93]"

fun compact_device_text :: "bool \<Rightarrow> device_plan \<Rightarrow> glyphs" where
  "compact_device_text compact_vxlan device = (case (compact_vxlan, device) of
      (True, VxlanDevice d) \<Rightarrow> plain (vxlan_name d) @ plain '' (VNI '' @ int_text (vxlan_vni d) @ plain '')''
    | _ \<Rightarrow> device_text False False device)"

definition mermaid_node_line :: "node_plan \<Rightarrow> string \<Rightarrow> bool \<Rightarrow> glyphs" where
  "mermaid_node_line node node_id compact_vxlan =
     mermaid_label node_id (plain (nd_name node) @ new_line @ plain (kind_text (nd_kind node)) @
       concat (map (\<lambda>device. new_line @ compact_device_text compact_vxlan device) (dict_values (nd_devices node))))"

definition mermaid_box_node_line :: "node_plan \<Rightarrow> string \<Rightarrow> topology_plan \<Rightarrow> glyphs" where
  "mermaid_box_node_line node node_id plan = mermaid_label node_id (line_text (box_content node plan False))"

fun is_overlay_device :: "device_plan \<Rightarrow> bool" where
  "is_overlay_device (VxlanDevice d) = True"
| "is_overlay_device (GeneveDevice d) = True"
| "is_overlay_device _ = False"

definition vxlan_nodes :: "topology_plan \<Rightarrow> string list" where
  "vxlan_nodes plan = map fst (filter (\<lambda>(name, node). \<exists>device \<in> set (dict_values (nd_devices node)). is_overlay_device device)
     (tpl_nodes plan))"

definition node_ids :: "topology_plan \<Rightarrow> (string, string) dict" where
  "node_ids plan = map (\<lambda>(index, name). (name, ''n'' @ show_nat index)) (enumerate 0 (dict_keys (tpl_nodes plan)))"

definition mermaid_edge_line :: "(string, string) dict \<Rightarrow> display_edge \<Rightarrow> glyphs res" where
  "mermaid_edge_line ids edge =
     res_bind (dict_lookup ids (de_parent edge)) (\<lambda>parent.
     res_bind (dict_lookup ids (de_child edge)) (\<lambda>child.
     Inr (plain ''    '' @ plain parent @ plain '' -- '' @ [34] @ escape_label (edge_label edge) @ [34] @ plain '' --- '' @ plain child)))"

partial_function (option) mermaid_edges_loop ::
  "(string, display_edge list) dict \<Rightarrow> (string, string) dict \<Rightarrow> string list \<Rightarrow> glyphs list \<Rightarrow> glyphs list res option" where
  "mermaid_edges_loop children ids queue lines =
     (case queue of
       [] \<Rightarrow> Some (Inr lines)
     | parent # rest \<Rightarrow>
         (case dict_lookup children parent of
           Inl e \<Rightarrow> Some (Inl e)
         | Inr edges \<Rightarrow>
             (case res_map (mermaid_edge_line ids) edges of
               Inl e \<Rightarrow> Some (Inl e)
             | Inr new \<Rightarrow> mermaid_edges_loop children ids (rest @ map de_child edges) (lines @ new))))"

definition mermaid_cross_line :: "(string, string) dict \<Rightarrow> link_plan \<Rightarrow> glyphs res" where
  "mermaid_cross_line ids link =
     res_bind (dict_lookup ids (ep_node (lk_left link))) (\<lambda>left.
     res_bind (dict_lookup ids (ep_node (lk_right link))) (\<lambda>right.
     Inr (plain ''    '' @ plain left @ plain '' -. '' @ [34] @
       escape_label (plain (ep_interface (lk_left link)) @ both_ways @ plain (ep_interface (lk_right link))) @ [34] @
       plain '' .- '' @ plain right)))"

definition append_mermaid_box_component ::
  "topology_plan \<Rightarrow> (string, string) dict \<Rightarrow> display_component \<Rightarrow> glyphs list res option" where
  "append_mermaid_box_component plan ids component =
     run_bind (Some (res_map (\<lambda>(name, node). res_bind (dict_lookup ids name) (\<lambda>node_id.
         Inr (plain ''    '' @ mermaid_box_node_line node node_id plan)))
       (filter (\<lambda>(name, node). name \<in> set (dict_keys (dc_children component))) (tpl_nodes plan)))) (\<lambda>nodes.
     run_bind (mermaid_edges_loop (dc_children component) ids [dc_root component] nodes) (\<lambda>lines.
     run_bind (Some (res_map (mermaid_cross_line ids) (dc_cross_links component))) (\<lambda>cross.
     Some (Inr (lines @ cross)))))"

definition mermaid_init :: "glyphs list" where
  "mermaid_init = [plain ''%%{init: {'' @ [34] @ plain ''flowchart'' @ [34] @ plain '': {'' @ [34] @ plain ''curve'' @ [34] @
     plain '': '' @ [34] @ plain ''step'' @ [34] @ plain ''}}}%%'', plain ''flowchart TB'']"

definition render_vxlan_mermaid :: "topology_plan \<Rightarrow> glyphs res option" where
  "render_vxlan_mermaid plan =
     run_bind (Some (build_display_forest plan)) (\<lambda>components.
     run_bind (run_map (append_mermaid_box_component plan (node_ids plan)) components) (\<lambda>parts.
     Some (Inr (line_text (mermaid_init @ concat parts)))))"

text \<open>The label of a link in Mermaid and DOT, \<open>left <-> right\<close>.\<close>

definition plain_link_label :: "link_plan \<Rightarrow> glyphs" where
  "plain_link_label link = plain (ep_interface (lk_left link)) @ plain '' <-> '' @ plain (ep_interface (lk_right link))"

definition mermaid_link_line :: "(string, string) dict \<Rightarrow> link_plan \<Rightarrow> glyphs res" where
  "mermaid_link_line ids link =
     res_bind (dict_lookup ids (ep_node (lk_left link))) (\<lambda>left.
     res_bind (dict_lookup ids (ep_node (lk_right link))) (\<lambda>right.
     Inr (plain ''    '' @ plain left @ plain '' -- '' @ [34] @ escape_label (plain_link_label link) @ [34] @
       plain '' --- '' @ plain right)))"

definition render_mermaid :: "topology_plan \<Rightarrow> glyphs res option" where
  "render_mermaid plan =
     (if vxlan_nodes plan \<noteq> [] then render_vxlan_mermaid plan
      else Some (
        res_bind (res_map (\<lambda>(name, node). res_bind (dict_lookup (node_ids plan) name) (\<lambda>node_id.
          Inr (plain ''    '' @ mermaid_node_line node node_id False))) (tpl_nodes plan)) (\<lambda>nodes.
        res_bind (res_map (mermaid_link_line (node_ids plan)) (tpl_links plan)) (\<lambda>links.
        Inr (line_text ([plain ''flowchart LR''] @ nodes @ links))))))"

section \<open>DOT\<close>

definition dot_node_line :: "node_plan \<Rightarrow> glyphs" where
  "dot_node_line node =
     plain ''    '' @ quoted_dot (plain (nd_name node)) @ plain '' [label='' @
     quoted_dot (plain (nd_name node) @ new_line @ plain (kind_text (nd_kind node)) @
       concat (map (\<lambda>device. new_line @ device_text False False device) (dict_values (nd_devices node)))) @ plain ''];''"

definition dot_link_line :: "link_plan \<Rightarrow> glyphs" where
  "dot_link_line link =
     plain ''    '' @ quoted_dot (plain (ep_node (lk_left link))) @ plain '' -- '' @
     quoted_dot (plain (ep_node (lk_right link))) @ plain '' [label='' @ quoted_dot (plain_link_label link) @ plain ''];''"

definition render_dot :: "topology_plan \<Rightarrow> glyphs" where
  "render_dot plan =
     line_text ([plain ''graph nslab {''] @ map dot_node_line (plan_nodes plan) @ map dot_link_line (tpl_links plan) @ [plain ''}''])"

end
