(* ===== verification/Graph_Json.thy ===== *)
theory Graph_Json
  imports Graph_Formats State
begin

text \<open>
  The JSON format of \<open>src/nslab/graph.py\<close> and \<open>render_graph\<close>. \<open>json_text\<close> is what
  \<open>json.dumps(document, ensure_ascii=False, sort_keys=True, indent=2)\<close> prints; the text of a finite
  float is the parameter \<open>x_repr\<close>.
\<close>

section \<open>Printing\<close>

definition json_char :: "nat \<Rightarrow> glyphs" where
  "json_char c =
     (if c = 34 then [92, 34] else if c = 92 then [92, 92]
      else if c = 10 then [92, 110] else if c = 13 then [92, 114] else if c = 9 then [92, 116]
      else if c = 12 then [92, 102] else if c = 8 then [92, 98]
      else if c < 32 then plain ([CHR 0x5C] @ ''u00'' @ [digit_char (c div 16), digit_char (c mod 16)])
      else [c])"

definition json_string :: "string \<Rightarrow> glyphs" where
  "json_string s = [34] @ concat (map json_char (plain s)) @ [34]"

text \<open>\<open>ensure_ascii\<close>: what is not printable ASCII is escaped.\<close>

definition ascii_glyph :: "nat \<Rightarrow> string" where
  "ascii_glyph c = (if 127 \<le> c then [CHR 0x5C] @ ''u00'' @ [digit_char (c div 16), digit_char (c mod 16)] else [char_of c])"

definition json_indent :: "nat \<Rightarrow> glyphs" where
  "json_indent level = 10 # replicate (2 * level) 32"

definition json_block :: "nat \<Rightarrow> glyphs \<Rightarrow> glyphs \<Rightarrow> glyphs list \<Rightarrow> glyphs" where
  "json_block level opening closing items =
     (if items = [] then opening @ closing
      else opening @ json_indent (level + 1) @ join_text ([44] @ json_indent (level + 1)) items @
        json_indent level @ closing)"

fun json_text :: "ext \<Rightarrow> nat \<Rightarrow> pyobj \<Rightarrow> glyphs res" where
  "json_text x level PNone = Inr (plain ''null'')"
| "json_text x level (PBool b) = Inr (plain (if b then ''true'' else ''false''))"
| "json_text x level (PInt i) = Inr (int_text i)"
| "json_text x level (PFloat f) = Inr (plain (case f of
       PosInf \<Rightarrow> ''Infinity'' | NegInf \<Rightarrow> ''-Infinity'' | NaN \<Rightarrow> ''NaN'' | Finite q \<Rightarrow> py_repr_obj x (PFloat f)))"
| "json_text x level (PStr s) = Inr (json_string s)"
| "json_text x level (PList vs) =
     res_bind (res_map (json_text x (level + 1)) vs) (\<lambda>items. Inr (json_block level [91] [93] items))"
| "json_text x level (PTuple vs) =
     res_bind (res_map (json_text x (level + 1)) vs) (\<lambda>items. Inr (json_block level [91] [93] items))"
| "json_text x level (PDict d) =
     res_bind (res_map (\<lambda>p. case fst p of
         PStr k \<Rightarrow> res_bind (json_text x (level + 1) (snd p)) (\<lambda>v. Inr (k, v))
       | _ \<Rightarrow> Inl (type_error ''keys must be str, int, float, bool or None'')) d) (\<lambda>items.
     Inr (json_block level [123] [125]
       (map (\<lambda>(k, v). json_string k @ plain '': '' @ v) (sort_key fst items))))"
| "json_text x level (PProxy d) =
     Inl (type_error ''Object of type mappingproxy is not JSON serializable'')"
| "json_text x level (POther t) =
     Inl (type_error (''Object of type '' @ t @ '' is not JSON serializable''))"

section \<open>The document\<close>

definition addresses_document :: "ip_interface list \<Rightarrow> pyobj" where
  "addresses_document addresses = PList (map (PStr \<circ> show_interface) addresses)"

definition names_document :: "string list \<Rightarrow> pyobj" where
  "names_document names = PList (map PStr names)"

definition opt_item :: "string \<Rightarrow> ('a \<Rightarrow> pyobj) \<Rightarrow> 'a option \<Rightarrow> (string \<times> pyobj) list" where
  "opt_item k f v = (case v of None \<Rightarrow> [] | Some x \<Rightarrow> [(k, f x)])"

definition addresses_item :: "ip_interface list \<Rightarrow> (string \<times> pyobj) list" where
  "addresses_item addresses = (if addresses \<noteq> [] then [(''addresses'', addresses_document addresses)] else [])"

fun device_document :: "device_plan \<Rightarrow> pyobj" where
  "device_document (VlanDevice d) = pdict [
     (''addresses'', addresses_document (vlan_addresses d)),
     (''id'', PInt (vlan_vid d)),
     (''link'', PStr (vlan_link d)),
     (''name'', PStr (vlan_name d)),
     (''type'', PStr ''vlan'')]"
| "device_document (VrfDevice d) = pdict [
     (''interfaces'', names_document (vrf_interfaces d)),
     (''name'', PStr (vrf_name d)),
     (''table'', PInt (vrf_table d)),
     (''type'', PStr ''vrf'')]"
| "device_document (BondDevice d) = pdict ([
     (''addresses'', addresses_document (bond_addresses d)),
     (''interfaces'', names_document (bond_interfaces d)),
     (''miimon_ms'', PInt (bond_miimon_ms d)),
     (''mode'', PStr (bond_mode d)),
     (''name'', PStr (bond_name d)),
     (''type'', PStr ''bond'')] @
     opt_item ''primary'' PStr (bond_primary d) @
     opt_item ''lacp_rate'' PStr (bond_lacp_rate d) @
     opt_item ''xmit_hash_policy'' PStr (bond_xmit_hash_policy d) @
     opt_item ''min_links'' PInt (bond_min_links d))"
| "device_document (DummyDevice d) = pdict ([
     (''mtu'', pint_opt (dummy_mtu d)),
     (''name'', PStr (dummy_name d)),
     (''type'', PStr ''dummy'')] @ addresses_item (dummy_addresses d))"
| "device_document (GeneveDevice d) = pdict ([
     (''dst_port'', PInt (geneve_dst_port d)),
     (''link'', PStr (geneve_link d)),
     (''mtu'', pint_opt (geneve_mtu d)),
     (''name'', PStr (geneve_name d)),
     (''remote'', PStr (show_ip (geneve_remote d))),
     (''type'', PStr ''geneve''),
     (''vni'', PInt (geneve_vni d))] @ addresses_item (geneve_addresses d))"
| "device_document (GreDevice d) = pdict ([
     (''key'', pint_opt (gre_key d)),
     (''link'', PStr (gre_link d)),
     (''local'', PStr (show_ipv4 (gre_local d))),
     (''mtu'', pint_opt (gre_mtu d)),
     (''name'', PStr (gre_name d)),
     (''remote'', PStr (show_ipv4 (gre_remote d))),
     (''ttl'', PInt (gre_ttl d)),
     (''type'', PStr ''gre'')] @ addresses_item (gre_addresses d))"
| "device_document (IpipDevice d) = pdict ([
     (''link'', PStr (ipip_link d)),
     (''local'', PStr (show_ipv4 (ipip_local d))),
     (''mtu'', pint_opt (ipip_mtu d)),
     (''name'', PStr (ipip_name d)),
     (''remote'', PStr (show_ipv4 (ipip_remote d))),
     (''ttl'', PInt (ipip_ttl d)),
     (''type'', PStr ''ipip'')] @ addresses_item (ipip_addresses d))"
| "device_document (MacvlanDevice d) = pdict ([
     (''link'', PStr (macvlan_link d)),
     (''mode'', PStr (macvlan_mode d)),
     (''mtu'', pint_opt (macvlan_mtu d)),
     (''name'', PStr (macvlan_name d)),
     (''type'', PStr ''macvlan'')] @ addresses_item (macvlan_addresses d))"
| "device_document (IpvlanDevice d) = pdict ([
     (''link'', PStr (ipvlan_link d)),
     (''mode'', PStr (ipvlan_mode d)),
     (''mtu'', pint_opt (ipvlan_mtu d)),
     (''name'', PStr (ipvlan_name d)),
     (''type'', PStr ''ipvlan'')] @ addresses_item (ipvlan_addresses d))"
| "device_document (VxlanDevice d) = pdict ([
     (''dst_port'', PInt (vxlan_dst_port d)),
     (''learning'', PBool (vxlan_learning d)),
     (''link'', PStr (vxlan_link d)),
     (''local'', PStr (show_ip (vxlan_local d))),
     (''mtu'', pint_opt (vxlan_mtu d)),
     (''name'', PStr (vxlan_name d)),
     (''remote'', PStr (show_ip (vxlan_remote d))),
     (''type'', PStr ''vxlan''),
     (''vni'', PInt (vxlan_vni d))] @ addresses_item (vxlan_addresses d))"

definition node_document :: "node_plan \<Rightarrow> pyobj" where
  "node_document node = pdict ([
     (''kind'', PStr (kind_text (nd_kind node))),
     (''name'', PStr (nd_name node)),
     (''namespace'', PStr (nd_namespace node))] @
     (if nd_devices node \<noteq> [] then [(''devices'', PList (map device_document (dict_values (nd_devices node))))] else []))"

definition endpoint_document :: "endpoint_plan \<Rightarrow> pyobj" where
  "endpoint_document e = pdict [(''interface'', PStr (ep_interface e)), (''node'', PStr (ep_node e))]"

text \<open>\<open>{"kind": kind, **options}\<close>\<close>

definition simple_document :: "simple_qdisc_plan \<Rightarrow> pyobj" where
  "simple_document q = pdict (dict_update (sq_options q) [(''kind'', PStr (sq_kind q))])"

definition fq_codel_document :: "fq_codel_plan \<Rightarrow> pyobj" where
  "fq_codel_document q = pdict [
     (''ecn'', PBool (fq_ecn q)),
     (''interval_ms'', PInt (fq_interval_ms q)),
     (''kind'', PStr ''fq_codel''),
     (''limit'', PInt (fq_limit q)),
     (''target_ms'', PInt (fq_target_ms q))]"

fun htb_leaf_document :: "htb_leaf_plan \<Rightarrow> pyobj" where
  "htb_leaf_document (LeafFqCodel q) = fq_codel_document q"
| "htb_leaf_document (LeafSimple q) = simple_document q"

fun qdisc_document :: "qdisc_plan \<Rightarrow> pyobj" where
  "qdisc_document (TbfQdisc q) = pdict [
     (''burst'', PInt (tbf_burst_bytes q)),
     (''kind'', PStr ''tbf''),
     (''latency_ms'', PInt (tbf_latency_ms q)),
     (''rate'', PStr (tbf_rate q))]"
| "qdisc_document (FqCodelQdisc q) = fq_codel_document q"
| "qdisc_document (HtbQdisc q) = pdict [
     (''kind'', PStr ''htb''),
     (''leaf'', htb_leaf_document (htb_leaf q)),
     (''rate'', PStr (htb_rate q))]"
| "qdisc_document (SimpleQdisc q) = simple_document q"
| "qdisc_document (CakeQdisc q) = pdict [
     (''bandwidth'', PStr (cake_bandwidth q)),
     (''diffserv_mode'', PStr (cake_diffserv_mode q)),
     (''flow_mode'', PStr (cake_flow_mode q)),
     (''kind'', PStr ''cake''),
     (''nat'', PBool (cake_nat q)),
     (''rtt_ms'', PInt (cake_rtt_ms q))]"

definition netem_document :: "netem_plan \<Rightarrow> pyobj" where
  "netem_document n = pdict ([
     (''delay_ms'', PInt (ne_delay_ms n)),
     (''jitter_ms'', PInt (ne_jitter_ms n)),
     (''loss_percent'', PInt (ne_loss_percent n))] @ opt_item ''rate'' PStr (ne_rate n))"

definition link_document :: "link_plan \<Rightarrow> pyobj" where
  "link_document link = pdict ([
     (''endpoints'', PList [endpoint_document (lk_left link), endpoint_document (lk_right link)]),
     (''index'', PInt (int (lk_index link))),
     (''kind'', PStr ''veth''),
     (''mtu'', PInt (lk_mtu link))] @
     opt_item ''netem'' netem_document (lk_netem link) @
     opt_item ''qdisc'' qdisc_document (lk_qdisc link))"

definition graph_document :: "topology_plan \<Rightarrow> pyobj" where
  "graph_document plan = pdict [
     (''links'', PList (map link_document (tpl_links plan))),
     (''name'', PStr (tpl_name plan)),
     (''nodes'', PList (map node_document (plan_nodes plan)))]"

definition render_json :: "ext \<Rightarrow> topology_plan \<Rightarrow> glyphs res" where
  "render_json x plan = json_text x 0 (graph_document plan)"

section \<open>Choosing a format\<close>

definition graph_format_invalid :: "string \<Rightarrow> exc" where
  "graph_format_invalid format = NslabError ''GRAPH_FORMAT_INVALID'' (''unsupported graph format: '' @ format)
     [(''format'', PStr format)]"

definition graph_detail_unsupported :: "string \<Rightarrow> exc" where
  "graph_detail_unsupported format = NslabError ''GRAPH_DETAIL_UNSUPPORTED''
     (''graph detail is not supported for format: '' @ format) [(''format'', PStr format)]"

definition render_graph :: "ext \<Rightarrow> topology_plan \<Rightarrow> string \<Rightarrow> bool \<Rightarrow> glyphs res option" where
  "render_graph x plan format detail =
     (if format \<notin> set [''tree'', ''box'', ''mermaid'', ''dot'', ''json''] then Some (Inl (graph_format_invalid format))
      else if detail \<and> format \<notin> set [''tree'', ''box''] then Some (Inl (graph_detail_unsupported format))
      else if format = ''tree'' then render_tree plan detail
      else if format = ''box'' then render_box plan detail
      else if format = ''mermaid'' then render_mermaid plan
      else if format = ''dot'' then Some (Inr (render_dot plan))
      else Some (render_json x plan))"

end
