(* ===== verification/Layout_Facts.thy ===== *)
theory Layout_Facts
  imports Display_Layout Forest_Facts
begin

text \<open>
  The box layout on the tree of a component: its loops end, and no two boxes overlap. Every loop is
  first shown to compute a function on the tree: the level of every node, the span of every subtree
  and the place of every box; the geometry is then an induction over the tree.
\<close>

lemma dict_lookup_eq [simp]: "dict_get d k = Some v \<Longrightarrow> dict_lookup d k = Inr v"
  by (simp add: dict_lookup_def)

lemma dict_at_eq [simp]: "dict_get d k = Some v \<Longrightarrow> dict_at d k = Inr v"
  by (simp add: dict_at_def)

lemma res_fold_append: "res_fold f (xs @ ys) b = res_bind (res_fold f xs b) (res_fold f ys)"
  by (induction xs arbitrary: b) (auto simp: res_bind_def split: sum.split)

lemma distinct_dict_fold: "distinct (dict_keys d) \<Longrightarrow> distinct (dict_keys (fold (\<lambda>x. dict_set (f x) (g x)) xs d))"
  by (induction xs arbitrary: d) (auto simp: distinct_update)

lemma map_of_constant: "map_of (map (\<lambda>x. (f x, v)) xs) k = (if k \<in> f ` set xs then Some v else None)"
  by (induction xs) auto

lemma map_of_fold_set: "map_of (fold (\<lambda>x. dict_set (f x) v) xs d) = map_of d ++ map_of (map (\<lambda>x. (f x, v)) xs)"
proof (induction xs arbitrary: d)
  case (Cons x xs)
  then show ?case by (auto simp: fun_eq_iff update_conv' map_add_def map_of_constant split: option.split)
qed simp

section \<open>Levels\<close>

fun tree_levels :: "int \<Rightarrow> display_tree \<Rightarrow> (string \<times> int) list" where
  "tree_levels k (Branch n ts) = (n, k) # concat (map (\<lambda>(e, t). tree_levels (k + 1) t) ts)"

lemma tree_levels_nodes [simp]: "map fst (tree_levels k t) = tree_nodes t"
  by (induction t arbitrary: k) (auto simp: map_concat comp_def case_prod_unfold intro!: arg_cong [of _ _ concat])

lemma tree_level_node: "(n, j) \<in> set (tree_levels k t) \<Longrightarrow> n \<in> set (tree_nodes t)"
  by (metis fst_conv image_eqI list.set_map tree_levels_nodes)

lemma tree_levels_above: "(m, j) \<in> set (tree_levels k t) \<Longrightarrow> k \<le> j"
  by (induction t arbitrary: k) fastforce

lemma tree_levels_between: "(m, j) \<in> set (tree_levels k t) \<Longrightarrow> k \<le> i \<Longrightarrow> i \<le> j \<Longrightarrow> \<exists>n. (n, i) \<in> set (tree_levels k t)"
proof (induction t arbitrary: k)
  case (Branch n ts)
  show ?case
  proof (cases "i = k")
    case False
    then obtain e t where t: "(e, t) \<in> set ts" "(m, j) \<in> set (tree_levels (k + 1) t)" using Branch.prems by auto
    have "k + 1 \<le> i" using False Branch.prems(2) by simp
    from Branch.IH [OF t(1) _ t(2) this Branch.prems(3)]
    obtain n' where "(n', i) \<in> set (tree_levels (k + 1) t)" by auto
    then have "(n', i) \<in> set (tree_levels k (Branch n ts))" using t(1) by force
    then show ?thesis by blast
  qed auto
qed

lemma tree_root_level: "map_of (tree_levels k t) (tree_root t) = Some k"
  by (cases t) simp

definition queue_levels :: "(int \<times> display_tree) list \<Rightarrow> (string \<times> int) list" where
  "queue_levels q = concat (map (\<lambda>(k, t). tree_levels k t) q)"

lemma queue_levels_keys: "map fst (queue_levels q) = concat (map (tree_nodes \<circ> snd) q)"
  by (induction q) (auto simp: queue_levels_def)

lemma map_add_same: "m n = Some k \<Longrightarrow> n \<notin> dom l \<Longrightarrow> m ++ l(n \<mapsto> k) = m ++ l"
  by (auto simp: fun_eq_iff map_add_def split: option.split)

lemma map_add_covered: "dom l \<subseteq> dom l' \<Longrightarrow> (m ++ l) ++ l' = m ++ l'"
  by (auto simp: fun_eq_iff map_add_def split: option.split)

lemma map_add_absorb: "dom l \<subseteq> dom l' \<Longrightarrow> l ++ l' = l'"
  using map_add_covered [of l l' Map.empty] by simp

definition queue_size :: "display_tree list \<Rightarrow> nat" where
  "queue_size ts = sum_list (map (length \<circ> tree_nodes) ts)"

lemma depth_loop_levels:
  assumes "\<forall>(k, t) \<in> set q. tree_of children t \<and> dict_get depths (tree_root t) = Some k"
    and "distinct (map fst (queue_levels q))" and "distinct (dict_keys depths)"
  shows "\<exists>depths'. depth_loop children (map (tree_root \<circ> snd) q) depths = Some (Inr depths') \<and>
    map_of depths' = map_of depths ++ map_of (queue_levels q) \<and> distinct (dict_keys depths')"
  using assms
proof (induction "queue_size (map snd q)" arbitrary: q depths rule: less_induct)
  case less
  show ?case
  proof (cases q)
    case Nil
    then show ?thesis using less.prems(3) by (simp add: depth_loop.simps queue_levels_def)
  next
    case (Cons h q')
    obtain k n ts where h: "h = (k, Branch n ts)" by (cases h, cases "snd h") auto
    have get: "dict_get children n = Some (map fst ts)" "dict_get depths n = Some k"
      and subs: "\<forall>(e, t) \<in> set ts. tree_root t = de_child e \<and> tree_of children t"
      using less.prems(1) by (auto simp: Cons h)
    let ?q = "q' @ map (\<lambda>(e, t). (k + 1, t)) ts"
    let ?depths = "fold (\<lambda>e. dict_set (de_child e) (k + 1)) (map fst ts) depths"
    have roots: "map de_child (map fst ts) = map (tree_root \<circ> snd) ts" using subs by auto
    have step: "depth_loop children (map (tree_root \<circ> snd) q) depths =
        depth_loop children (map (tree_root \<circ> snd) ?q) ?depths"
      using roots by (subst depth_loop.simps) (simp add: Cons h get comp_def case_prod_unfold cong: map_cong)
    have perm: "mset (queue_levels q) = mset ((n, k) # queue_levels ?q)"
      by (simp add: queue_levels_def Cons h comp_def case_prod_unfold)
    have dist: "distinct (map fst ((n, k) # queue_levels ?q))"
      using less.prems(2) mset_eq_imp_distinct_iff [OF arg_cong [OF perm, of "image_mset fst", folded mset_map]] by simp
    have after: "dict_get ?depths m = (if m \<in> tree_root ` snd ` set ts then Some (k + 1) else dict_get depths m)" for m
    proof -
      have "de_child ` set (map fst ts) = tree_root ` snd ` set ts" using arg_cong [OF roots, of set] by (simp add: image_image)
      then show ?thesis by (simp only: map_of_fold_set map_add_def map_of_constant) simp
    qed
    have present: "dict_get ?depths (tree_root t) = Some j" if "(j, t) \<in> set ?q" for j t
    proof (cases "(j, t) \<in> set q'")
      case True
      have "tree_root t \<notin> tree_root ` snd ` set ts"
        using dist True tree_root_in by (force simp: queue_levels_keys)
      then show ?thesis using True less.prems(1) by (auto simp: after Cons)
    next
      case False
      then have "j = k + 1" "tree_root t \<in> tree_root ` snd ` set ts" using that by force+
      then show ?thesis by (simp add: after)
    qed
    have "queue_size (map snd ?q) < queue_size (map snd q)"
      by (simp add: Cons h queue_size_def length_concat comp_def case_prod_unfold)
    from less.hyps [OF this, of ?depths] obtain depths' where
      d: "depth_loop children (map (tree_root \<circ> snd) ?q) ?depths = Some (Inr depths')"
        "map_of depths' = map_of ?depths ++ map_of (queue_levels ?q)" "distinct (dict_keys depths')"
      using present subs less.prems dist distinct_dict_fold [OF less.prems(3)] by (fastforce simp: Cons)
    have "dom (map_of (map (\<lambda>x. (de_child x, k + 1)) (map fst ts))) \<subseteq> dom (map_of (queue_levels ?q))"
    proof
      fix m assume "m \<in> dom (map_of (map (\<lambda>x. (de_child x, k + 1)) (map fst ts)))"
      then have "m \<in> set (map de_child (map fst ts))"
        by (simp only: dom_map_of_conv_image_fst set_map image_image fst_conv)
      then have "m \<in> set (map fst (queue_levels ?q))"
        unfolding roots queue_levels_keys using tree_root_in by force
      then show "m \<in> dom (map_of (queue_levels ?q))" by (simp add: dom_map_of_conv_image_fst)
    qed
    then have "map_of depths' = map_of depths ++ map_of (queue_levels ?q)"
      by (simp only: d(2) map_of_fold_set map_add_covered)
    also have "\<dots> = map_of depths ++ map_of ((n, k) # queue_levels ?q)"
      using dist map_add_same [of "map_of depths" n k "map_of (queue_levels ?q)", OF get(2)] by (simp add: dom_map_of_conv_image_fst)
    also have "map_of ((n, k) # queue_levels ?q) = map_of (queue_levels q)"
      using dist less.prems(2) mset_eq_setD [OF perm] by (subst map_of_inject_set) auto
    finally show ?thesis using step d(1,3) by auto
  qed
qed

section \<open>Spans\<close>

fun post_order :: "display_tree \<Rightarrow> string list" where
  "post_order (Branch n ts) = concat (map (\<lambda>(e, t). post_order t) ts) @ [n]"

lemma post_order_nodes: "mset (post_order t) = mset (tree_nodes t)"
proof (induction t)
  case (Branch n ts)
  then have "mset (concat (map (\<lambda>(e, t). post_order t) ts)) = mset (concat (map (\<lambda>(e, t). tree_nodes t) ts))"
    by (induction ts) fastforce+
  then show ?case by simp
qed

lemma traversal_loop_order:
  assumes "\<forall>t \<in> set q. tree_of children t"
  shows "traversal_loop children (map tree_root q) acc = Some (Inr (acc @ concat (map (rev \<circ> post_order) q)))"
  using assms
proof (induction "queue_size q" arbitrary: q acc rule: less_induct)
  case less
  show ?case
  proof (cases q)
    case (Cons h q')
    obtain n ts where h: "h = Branch n ts" by (cases h)
    have get: "dict_get children n = Some (map fst ts)"
      and subs: "\<forall>x \<in> set ts. de_child (fst x) = tree_root (snd x)" "\<forall>t \<in> set (map snd ts). tree_of children t"
      using less.prems by (auto simp: Cons h)
    let ?q = "rev (map snd ts) @ q'"
    have "queue_size ?q < queue_size q"
      by (simp add: Cons h queue_size_def length_concat comp_def case_prod_unfold rev_map [symmetric])
    then have "traversal_loop children (map tree_root ?q) (acc @ [n]) =
        Some (Inr ((acc @ [n]) @ concat (map (rev \<circ> post_order) ?q)))"
      by (rule less.hyps) (use less.prems subs in \<open>auto simp: Cons\<close>)
    moreover have "traversal_loop children (map tree_root q) acc = traversal_loop children (map tree_root ?q) (acc @ [n])"
      using subs(1) by (subst traversal_loop.simps) (simp add: Cons h get comp_def rev_map cong: map_cong)
    ultimately show ?thesis
      by (simp add: Cons h rev_concat rev_map comp_def case_prod_unfold)
  qed (simp add: traversal_loop.simps)
qed

text \<open>The width a subtree needs, and the span every node is given in a subtree of span \<open>s\<close>.\<close>

fun own_width :: "(string \<Rightarrow> int) \<Rightarrow> display_tree \<Rightarrow> int" where
  "own_width w (Branch n ts) = max (w n) (children_span (map (\<lambda>(e, t). max (own_width w t) (label_width e)) ts))"

abbreviation child_span :: "(string \<Rightarrow> int) \<Rightarrow> display_edge \<times> display_tree \<Rightarrow> int" where
  "child_span w x \<equiv> max (own_width w (snd x)) (label_width (fst x))"

fun spans_below :: "(string \<Rightarrow> int) \<Rightarrow> display_tree \<Rightarrow> (string \<times> int) list" where
  "spans_below w (Branch n ts) = concat (map (\<lambda>(e, t).
     (tree_root t, max (own_width w t) (label_width e)) # spans_below w t) ts)"

definition tree_spans :: "(string \<Rightarrow> int) \<Rightarrow> int \<Rightarrow> display_tree \<Rightarrow> (string \<times> int) list" where
  "tree_spans w s t = (tree_root t, s) # spans_below w t"

lemma spans_below_nodes: "tree_root t # map fst (spans_below w t) = tree_nodes t"
proof (induction t)
  case (Branch n ts)
  then show ?case
    by (auto simp: map_concat comp_def case_prod_unfold intro!: arg_cong [of _ _ concat] map_cong)
qed

lemma tree_spans_nodes [simp]: "map fst (tree_spans w s t) = tree_nodes t"
  by (simp add: tree_spans_def spans_below_nodes)

lemma map_of_roots:
  assumes "distinct (concat (map (\<lambda>x. r x # map fst (g x)) xs))"
  shows "map_of (concat (map (\<lambda>x. (r x, f x) # g x) xs)) = map_of (concat (map g xs)) ++ map_of (map (\<lambda>x. (r x, f x)) xs)"
proof -
  let ?a = "concat (map (\<lambda>x. (r x, f x) # g x) xs)" and ?b = "map (\<lambda>x. (r x, f x)) xs @ concat (map g xs)"
  have perm: "mset ?a = mset ?b" by (induction xs) auto
  have keys: "map fst ?a = concat (map (\<lambda>x. r x # map fst (g x)) xs)" by (induction xs) auto
  have "mset (map fst ?a) = mset (map fst ?b)" by (simp only: mset_map perm)
  then have "distinct (map fst ?a)" "distinct (map fst ?b)"
    using assms mset_eq_imp_distinct_iff keys by metis+
  then have "map_of ?a = map_of ?b" using mset_eq_setD [OF perm] by (simp only: map_of_inject_set)
  then show ?thesis by simp
qed

lemma widen_children:
  assumes "\<forall>x \<in> set ts. dict_get W (de_child (fst x)) = Some (v x)" "distinct (map (\<lambda>x. de_child (fst x)) ts)"
  shows "\<exists>W'. res_fold widen_child (map fst ts) (acc, W) =
      Inr (acc @ map (\<lambda>x. max (v x) (label_width (fst x))) ts, W') \<and>
    map_of W' = map_of W ++ map_of (map (\<lambda>x. (de_child (fst x), max (v x) (label_width (fst x)))) ts)"
  using assms
proof (induction ts arbitrary: W acc)
  case (Cons x ts)
  let ?s = "max (v x) (label_width (fst x))"
  let ?W = "dict_set (de_child (fst x)) ?s W"
  have "\<forall>y \<in> set ts. dict_get ?W (de_child (fst y)) = Some (v y)"
  proof
    fix y assume y: "y \<in> set ts"
    then have "de_child (fst y) \<noteq> de_child (fst x)" using Cons.prems(2) by (simp add: image_iff) metis
    then show "dict_get ?W (de_child (fst y)) = Some (v y)" using Cons.prems(1) y by simp
  qed
  moreover have "distinct (map (\<lambda>x. de_child (fst x)) ts)" using Cons.prems(2) by simp
  ultimately obtain W' where
    W': "res_fold widen_child (map fst ts) (acc @ [?s], ?W) =
        Inr ((acc @ [?s]) @ map (\<lambda>x. max (v x) (label_width (fst x))) ts, W')"
      "map_of W' = map_of ?W ++ map_of (map (\<lambda>x. (de_child (fst x), max (v x) (label_width (fst x)))) ts)"
    using Cons.IH by blast
  have "de_child (fst x) \<notin> dom (map_of (map (\<lambda>x. (de_child (fst x), max (v x) (label_width (fst x)))) ts))"
    using Cons.prems(2) by (auto simp: dom_map_of_conv_image_fst image_image)
  then have mapped: "map_of W' = map_of W ++ map_of (map (\<lambda>x. (de_child (fst x), max (v x) (label_width (fst x)))) (x # ts))"
    unfolding W'(2) by (auto simp: fun_eq_iff map_add_def update_conv' split: option.split)
  have "widen_child (fst x) (acc, W) = Inr (acc @ [?s], ?W)"
    using Cons.prems(1) by (simp add: widen_child_def Let_def)
  then show ?case using W'(1) by (intro exI [of _ W'] conjI mapped) simp
qed simp

lemma distinct_concat_rev: "distinct (concat (rev xss)) = distinct (concat xss)"
  by (rule mset_eq_imp_distinct_iff) (induction xss, auto)

text \<open>What the width of every box is, where all of them are known.\<close>

definition boxes_known :: "(string, box) dict \<Rightarrow> (string \<Rightarrow> box) \<Rightarrow> display_tree \<Rightarrow> bool" where
  "boxes_known boxes b t \<longleftrightarrow> (\<forall>n \<in> set (tree_nodes t). dict_get boxes n = Some (b n))"

lemma boxes_known_branch: "boxes_known boxes b (Branch n ts) \<Longrightarrow> (e, t) \<in> set ts \<Longrightarrow> boxes_known boxes b t"
  using tree_branch_nodes by (auto simp: boxes_known_def)

lemma add_widths_branches:
  assumes "\<And>e t W. (e, t) \<in> set ts \<Longrightarrow> \<exists>W'. res_fold f (post_order t) W = Inr W' \<and> map_of W' = map_of W ++ map_of (g t)"
  shows "\<exists>W'. res_fold f (concat (map (\<lambda>(e, t). post_order t) ts)) W = Inr W' \<and>
    map_of W' = map_of W ++ map_of (concat (map (\<lambda>(e, t). g t) (rev ts)))"
  using assms
proof (induction ts arbitrary: W)
  case (Cons x ts)
  obtain e t where x: "x = (e, t)" by (cases x)
  obtain W1 where W1: "res_fold f (post_order t) W = Inr W1" "map_of W1 = map_of W ++ map_of (g t)"
    using Cons.prems [of e t W] x by auto
  have "\<exists>W2. res_fold f (concat (map (\<lambda>(e, t). post_order t) ts)) W1 = Inr W2 \<and>
      map_of W2 = map_of W1 ++ map_of (concat (map (\<lambda>(e, t). g t) (rev ts)))"
    by (rule Cons.IH) (erule Cons.prems [OF list.set_intros(2)])
  then obtain W2 where "res_fold f (concat (map (\<lambda>(e, t). post_order t) ts)) W1 = Inr W2"
      "map_of W2 = map_of W1 ++ map_of (concat (map (\<lambda>(e, t). g t) (rev ts)))" by blast
  then show ?case using W1 by (intro exI [of _ W2]) (simp add: x res_fold_append)
qed simp

lemma add_widths_spans:
  assumes "tree_of children t" "boxes_known boxes b t" "distinct (tree_nodes t)"
  shows "\<exists>W'. res_fold (add_width children boxes) (post_order t) W = Inr W' \<and>
    map_of W' = map_of W ++ map_of (tree_spans (\<lambda>n. bx_width (b n)) (own_width (\<lambda>n. bx_width (b n)) t) t)"
  using assms
proof (induction t arbitrary: W)
  case (Branch n ts)
  let ?w = "\<lambda>n. bx_width (b n)"
  let ?own = "\<lambda>t. tree_spans ?w (own_width ?w t) t"
  let ?spans = "map (\<lambda>x. (tree_root (snd x), child_span ?w x)) ts"
  have get: "dict_get children n = Some (map fst ts)" and roots: "\<forall>x \<in> set ts. de_child (fst x) = tree_root (snd x)"
    using Branch.prems(1) by auto
  have box: "dict_get boxes n = Some (b n)" using Branch.prems(2) by (simp add: boxes_known_def)
  have sub: "tree_of children t" "boxes_known boxes b t" "distinct (tree_nodes t)" if "(e, t) \<in> set ts" for e t
    using tree_branch(2) [OF Branch.prems(1) that] boxes_known_branch [OF Branch.prems(2) that] Branch.prems(3) that
    by (auto simp: distinct_concat_iff)
  have dist: "distinct (concat (map (\<lambda>x. tree_root (snd x) # map fst (spans_below ?w (snd x))) ts))"
    using Branch.prems(3) by (simp add: spans_below_nodes case_prod_unfold)
  have "\<exists>W1. res_fold (add_width children boxes) (concat (map (\<lambda>(e, t). post_order t) ts)) W = Inr W1 \<and>
      map_of W1 = map_of W ++ map_of (concat (map (\<lambda>(e, t). ?own t) (rev ts)))"
    by (rule add_widths_branches) (use Branch.IH sub in \<open>metis snds.intros snd_conv\<close>)
  then obtain W1 where W1: "res_fold (add_width children boxes) (concat (map (\<lambda>(e, t). post_order t) ts)) W = Inr W1"
      "map_of W1 = map_of W ++ map_of (concat (map (\<lambda>(e, t). ?own t) (rev ts)))" by blast
  have owns: "concat (map (\<lambda>x. ?own (snd x)) ts) =
      concat (map (\<lambda>x. (tree_root (snd x), own_width ?w (snd x)) # spans_below ?w (snd x)) ts)"
    by (simp add: tree_spans_def)
  have "distinct (map fst (concat (map (\<lambda>x. ?own (snd x)) ts)))"
    "distinct (map fst (concat (map (\<lambda>x. ?own (snd x)) (rev ts))))"
    using Branch.prems(3) by (simp_all add: map_concat comp_def case_prod_unfold distinct_concat_rev rev_map [symmetric])
  then have "map_of (concat (map (\<lambda>(e, t). ?own t) (rev ts))) = map_of (concat (map (\<lambda>x. ?own (snd x)) ts))"
    unfolding case_prod_unfold by (simp only: map_of_inject_set) auto
  then have M1: "map_of W1 = map_of W ++ (map_of (concat (map (\<lambda>x. spans_below ?w (snd x)) ts)) ++
      map_of (map (\<lambda>x. (tree_root (snd x), own_width ?w (snd x))) ts))"
    using W1(2) map_of_roots [OF dist] by (simp only: owns)
  have roots_dist: "distinct (map (\<lambda>x. tree_root (snd x)) ts)"
    using dist by (induction ts) auto
  have "dict_get W1 (de_child (fst x)) = Some (own_width ?w (snd x))" if x: "x \<in> set ts" for x
  proof -
    have "map_of (map (\<lambda>x. (tree_root (snd x), own_width ?w (snd x))) ts) (tree_root (snd x)) = Some (own_width ?w (snd x))"
      using x roots_dist by (intro map_of_is_SomeI) (auto simp: comp_def)
    then show ?thesis using roots x by (simp add: M1)
  qed
  then have own: "\<forall>x \<in> set ts. dict_get W1 (de_child (fst x)) = Some (own_width ?w (snd x))" by blast
  have "map (\<lambda>x. de_child (fst x)) ts = map (\<lambda>x. tree_root (snd x)) ts" using roots by simp
  then have "distinct (map (\<lambda>x. de_child (fst x)) ts)" using roots_dist by (simp only:)
  from widen_children [OF own this, of "[]"] obtain W2 where
    W2: "res_fold widen_child (map fst ts) ([], W1) = Inr (map (child_span ?w) ts, W2)"
      "map_of W2 = map_of W1 ++ map_of (map (\<lambda>x. (de_child (fst x), child_span ?w x)) ts)"
    by auto
  have "map (\<lambda>x. (de_child (fst x), child_span ?w x)) ts = ?spans" using roots by simp
  then have "map_of W2 = map_of W1 ++ map_of ?spans" using W2(2) by (simp only:)
  moreover have "dom (map_of (map (\<lambda>x. (tree_root (snd x), own_width ?w (snd x))) ts)) \<subseteq> dom (map_of ?spans)"
    by (simp only: dom_map_of_conv_image_fst set_map image_image fst_conv subset_refl)
  ultimately have M2: "map_of W2 = map_of W ++ (map_of (concat (map (\<lambda>x. spans_below ?w (snd x)) ts)) ++ map_of ?spans)"
    unfolding M1 by (simp only: map_add_assoc [symmetric] map_add_absorb)
  have below: "map_of (spans_below ?w (Branch n ts)) =
      map_of (concat (map (\<lambda>x. spans_below ?w (snd x)) ts)) ++ map_of ?spans"
    using map_of_roots [OF dist, of "child_span ?w"] by (simp add: case_prod_unfold)
  have "add_width children boxes n W1 = Inr (dict_set n (own_width ?w (Branch n ts)) W2)"
    by (simp add: add_width_def get W2(1) box case_prod_unfold)
  moreover have "map_of (dict_set n (own_width ?w (Branch n ts)) W2) =
      map_of W ++ map_of (tree_spans ?w (own_width ?w (Branch n ts)) (Branch n ts))"
    unfolding tree_spans_def update_conv M2 below [symmetric] by (simp add: fun_eq_iff)
  ultimately show ?case using W1(1) by (simp add: res_fold_append)
qed

section \<open>Places\<close>

function placed :: "(string \<Rightarrow> box) \<Rightarrow> (int \<Rightarrow> int) \<Rightarrow> int \<Rightarrow> int \<Rightarrow> int \<Rightarrow> display_tree \<Rightarrow> placement list"
  and placed_children :: "(string \<Rightarrow> box) \<Rightarrow> (int \<Rightarrow> int) \<Rightarrow> int \<Rightarrow> int \<Rightarrow> (display_edge \<times> display_tree) list \<Rightarrow> placement list"
where
  "placed b tops s left k (Branch n ts) =
     \<lparr>pl_node = n, pl_x = left + (s - bx_width (b n)) div 2, pl_y = tops k, pl_box = b n\<rparr> #
     placed_children b tops (left + (s - children_span (map (child_span (\<lambda>n. bx_width (b n))) ts)) div 2) (k + 1) ts"
| "placed_children b tops left k [] = []"
| "placed_children b tops left k (x # ts) =
     placed b tops (child_span (\<lambda>n. bx_width (b n)) x) left k (snd x) @
     placed_children b tops (left + (child_span (\<lambda>n. bx_width (b n)) x + sibling_gap)) k ts"
  by pat_completeness auto
termination
proof (relation "measure (\<lambda>x. case x of
    Inl (b, tops, s, left, k, t) \<Rightarrow> 2 * length (tree_nodes t)
  | Inr (b, tops, left, k, ts) \<Rightarrow> 2 * queue_size (map snd ts) + 1)", goal_cases)
  case (4 b tops left k x ts)
  then show ?case by (cases "snd x") (simp add: queue_size_def)
qed (auto simp: queue_size_def length_concat comp_def case_prod_unfold)

lemma placed_nodes: "map pl_node (placed b tops s left k t) = tree_nodes t"
  and placed_children_nodes: "map pl_node (placed_children b tops left k ts) = concat (map (\<lambda>(e, t). tree_nodes t) ts)"
  by (induction b tops s left k t and b tops left k ts rule: placed_placed_children.induct) (auto simp: case_prod_unfold)

text \<open>The tables agree with the tree, from the root of a subtree with span \<open>s\<close> at level \<open>k\<close> on.\<close>

definition tables_agree_below ::
  "(string, display_edge list) dict \<Rightarrow> (string, int) dict \<Rightarrow> (string, int) dict \<Rightarrow> (int, int) dict \<Rightarrow> (string, box) dict \<Rightarrow>
   (string \<Rightarrow> box) \<Rightarrow> (int \<Rightarrow> int) \<Rightarrow> int \<Rightarrow> int \<Rightarrow> display_tree \<Rightarrow> bool" where
  "tables_agree_below children W D T boxes b tops s k t \<longleftrightarrow> tree_of children t \<and> boxes_known boxes b t \<and>
     (\<forall>(n, v) \<in> set (tree_spans (\<lambda>n. bx_width (b n)) s t). dict_get W n = Some v) \<and>
     (\<forall>(n, j) \<in> set (tree_levels k t). dict_get D n = Some j \<and> dict_get T j = Some (tops j))"

lemma set_tree_spans_branch:
  "set (tree_spans w s (Branch n ts)) = insert (n, s) (\<Union>x \<in> set ts. set (tree_spans w (child_span w x) (snd x)))"
  by (simp add: tree_spans_def case_prod_unfold)

lemma set_tree_levels_branch:
  "set (tree_levels k (Branch n ts)) = insert (n, k) (\<Union>x \<in> set ts. set (tree_levels (k + 1) (snd x)))"
  by (simp add: case_prod_unfold)

lemma tables_agree_child:
  assumes "tables_agree_below children W D T boxes b tops s k (Branch n ts)" "x \<in> set ts"
  shows "tables_agree_below children W D T boxes b tops (child_span (\<lambda>n. bx_width (b n)) x) (k + 1) (snd x)"
    and "dict_get W (de_child (fst x)) = Some (child_span (\<lambda>n. bx_width (b n)) x)"
proof -
  have x: "(fst x, snd x) \<in> set ts" using assms(2) by simp
  have "set (tree_spans (\<lambda>n. bx_width (b n)) (child_span (\<lambda>n. bx_width (b n)) x) (snd x)) \<subseteq>
      set (tree_spans (\<lambda>n. bx_width (b n)) s (Branch n ts))"
    using assms(2) unfolding set_tree_spans_branch by blast
  moreover have "set (tree_levels (k + 1) (snd x)) \<subseteq> set (tree_levels k (Branch n ts))"
    using assms(2) unfolding set_tree_levels_branch by blast
  ultimately show 1: "tables_agree_below children W D T boxes b tops (child_span (\<lambda>n. bx_width (b n)) x) (k + 1) (snd x)"
    using assms(1) tree_branch(2) [OF _ x] boxes_known_branch [OF _ x] unfolding tables_agree_below_def by blast
  show "dict_get W (de_child (fst x)) = Some (child_span (\<lambda>n. bx_width (b n)) x)"
    using 1 tree_branch(1) [OF _ x] assms(1) by (auto simp: tables_agree_below_def tree_spans_def)
qed

fun lefts :: "(display_edge \<times> display_tree \<Rightarrow> int) \<Rightarrow> int \<Rightarrow> (display_edge \<times> display_tree) list \<Rightarrow> (int \<times> int \<times> display_tree) list" where
  "lefts f left [] = []"
| "lefts f left (x # ts) = (f x, left, snd x) # lefts f (left + (f x + sibling_gap)) ts"

lemma lefts_members: "(s, l, t) \<in> set (lefts f left ts) \<Longrightarrow> \<exists>x \<in> set ts. s = f x \<and> t = snd x"
  by (induction f left ts rule: lefts.induct) auto

lemma child_positions_lefts:
  assumes "\<forall>x \<in> set ts. dict_get W (tree_root (snd x)) = Some (f x)" "\<forall>x \<in> set ts. de_child (fst x) = tree_root (snd x)"
  shows "child_positions W left (map fst ts) = Inr (map (\<lambda>(s, l, t). (tree_root t, l)) (lefts f left ts))"
  using assms by (induction ts arbitrary: left) auto

lemma placed_children_lefts:
  "placed_children b tops left k ts = concat (map (\<lambda>(s, l, t). placed b tops s l k t) (lefts (child_span (\<lambda>n. bx_width (b n))) left ts))"
  by (induction ts arbitrary: left) auto

lemma placement_loop_placed:
  assumes "\<forall>(k, s, l, t) \<in> set q. tables_agree_below children W D T boxes b tops s k t"
  shows "placement_loop children W D T boxes (map (\<lambda>(k, s, l, t). (tree_root t, l)) q) acc =
    Some (Inr (acc @ concat (map (\<lambda>(k, s, l, t). placed b tops s l k t) q)))"
  using assms
proof (induction "queue_size (map (snd \<circ> snd \<circ> snd) q)" arbitrary: q acc rule: less_induct)
  case less
  show ?case
  proof (cases q)
    case (Cons h q')
    obtain k s l n ts where h: "h = (k, s, l, Branch n ts)" by (metis display_tree.exhaust prod_cases4)
    let ?w = "\<lambda>n. bx_width (b n)"
    let ?left = "l + (s - children_span (map (child_span ?w) ts)) div 2"
    let ?below = "map (\<lambda>x. (k + 1, x)) (lefts (child_span ?w) ?left ts)"
    have agree: "tables_agree_below children W D T boxes b tops s k (Branch n ts)"
      using less.prems by (simp add: Cons h)
    have node: "dict_get children n = Some (map fst ts)" "dict_get W n = Some s" "dict_get boxes n = Some (b n)"
        "dict_get D n = Some k" "dict_get T k = Some (tops k)" "\<forall>x \<in> set ts. de_child (fst x) = tree_root (snd x)"
      using agree by (auto simp: tables_agree_below_def tree_spans_def boxes_known_def)
    have kids: "\<forall>x \<in> set ts. dict_get W (de_child (fst x)) = Some (child_span ?w x)"
      using tables_agree_child(2) [OF agree] by blast
    have "res_map (\<lambda>edge. dict_lookup W (de_child edge)) (map fst ts) = Inr (map (child_span ?w) ts)"
      using kids by (induction ts) auto
    moreover have "child_positions W ?left (map fst ts) = Inr (map (\<lambda>(s, l, t). (tree_root t, l)) (lefts (child_span ?w) ?left ts))"
      using child_positions_lefts [of ts W "child_span ?w"] kids node(6) by simp
    ultimately have positions: "place_children W n l (map fst ts) = Inr (map (\<lambda>(k, s, l, t). (tree_root t, l)) ?below)"
      by (auto simp: place_children_def node(2) children_span_def comp_def case_prod_unfold)
    have "queue_size (map (snd \<circ> snd \<circ> snd) (?below @ q')) < queue_size (map (snd \<circ> snd \<circ> snd) q)"
    proof -
      have "map (snd \<circ> snd) (lefts f left ts) = map snd ts" for f left
        by (induction f left ts rule: lefts.induct) auto
      then show ?thesis
        by (simp add: Cons h queue_size_def length_concat comp_def case_prod_unfold map_eq_conv)
    qed
    moreover have "tables_agree_below children W D T boxes b tops s' (k + 1) t"
      if "(s', l', t) \<in> set (lefts (child_span ?w) ?left ts)" for s' l' t
      using lefts_members [OF that] tables_agree_child(1) [OF agree] by blast
    then have "\<forall>(k, s, l, t) \<in> set (?below @ q'). tables_agree_below children W D T boxes b tops s k t"
      using less.prems by (auto simp: Cons)
    ultimately have "placement_loop children W D T boxes (map (\<lambda>(k, s, l, t). (tree_root t, l)) (?below @ q'))
        (acc @ [\<lparr>pl_node = n, pl_x = l + (s - bx_width (b n)) div 2, pl_y = tops k, pl_box = b n\<rparr>]) =
      Some (Inr ((acc @ [\<lparr>pl_node = n, pl_x = l + (s - bx_width (b n)) div 2, pl_y = tops k, pl_box = b n\<rparr>]) @
        concat (map (\<lambda>(k, s, l, t). placed b tops s l k t) (?below @ q'))))"
      by (rule less.hyps)
    then show ?thesis
      by (subst placement_loop.simps)
        (simp add: Cons h place_node_def node positions placed_children_lefts comp_def case_prod_unfold)
  qed (simp add: placement_loop.simps)
qed

section \<open>Layers\<close>

lemma layer_heights_cover:
  assumes "\<forall>(n, k) \<in> set ds. dict_get boxes n = Some (b n)" "\<forall>k h. dict_get H0 k = Some h \<longrightarrow> 0 \<le> h"
  shows "\<exists>H. res_fold (add_layer_height boxes) ds H0 = Inr H \<and>
    (\<forall>(n, k) \<in> set ds. \<exists>h. dict_get H k = Some h \<and> bx_height (b n) \<le> h) \<and>
    (\<forall>k h. dict_get H0 k = Some h \<longrightarrow> (\<exists>h'. dict_get H k = Some h' \<and> h \<le> h')) \<and>
    (\<forall>k h. dict_get H k = Some h \<longrightarrow> 0 \<le> h)"
  using assms
proof (induction ds arbitrary: H0)
  case (Cons d ds)
  obtain n k where d: "d = (n, k)" by (cases d)
  let ?h = "max (case dict_get H0 k of None \<Rightarrow> 0 | Some h \<Rightarrow> h) (bx_height (b n))"
  have step: "add_layer_height boxes d H0 = Inr (dict_set k ?h H0)"
    using Cons.prems(1) by (simp add: add_layer_height_def d)
  have "\<forall>j h. dict_get (dict_set k ?h H0) j = Some h \<longrightarrow> 0 \<le> h"
    using Cons.prems(2) by (auto simp: le_max_iff_disj split: if_splits option.splits)
  then obtain H where H: "res_fold (add_layer_height boxes) ds (dict_set k ?h H0) = Inr H"
      "\<forall>(n, k) \<in> set ds. \<exists>h. dict_get H k = Some h \<and> bx_height (b n) \<le> h"
      "\<forall>j h. dict_get (dict_set k ?h H0) j = Some h \<longrightarrow> (\<exists>h'. dict_get H j = Some h' \<and> h \<le> h')"
      "\<forall>k h. dict_get H k = Some h \<longrightarrow> 0 \<le> h"
    using Cons.IH [of "dict_set k ?h H0"] Cons.prems(1) by auto
  obtain h' where h': "dict_get H k = Some h'" "?h \<le> h'" using H(3) [rule_format, of k ?h] by auto
  have "\<exists>h''. dict_get H j = Some h'' \<and> h \<le> h''" if "dict_get H0 j = Some h" for j h
    using H(3) h' that by (cases "j = k") auto
  then show ?case using step H(1,2,4) h' by (auto simp: d)
qed simp

fun layer_top :: "(int \<Rightarrow> int) \<Rightarrow> nat \<Rightarrow> int" where
  "layer_top h 0 = 0"
| "layer_top h (Suc n) = layer_top h n + (h (int n) + layer_gap)"

lemma layer_tops_known:
  assumes "\<forall>k < n. dict_get H (int k) = Some (h (int k))"
  shows "\<exists>T. res_fold (add_layer_top H) [0..int n - 1] ([], 0) = Inr (T, layer_top h n) \<and>
    (\<forall>k < n. dict_get T (int k) = Some (layer_top h k))"
  using assms
proof (induction n)
  case (Suc n)
  then obtain T where T: "res_fold (add_layer_top H) [0..int n - 1] ([], 0) = Inr (T, layer_top h n)"
      "\<forall>k < n. dict_get T (int k) = Some (layer_top h k)" by auto
  let ?T = "dict_set (int n) (layer_top h n) T"
  have range: "[0..int (Suc n) - 1] = [0..int n - 1] @ [int n]" by (simp add: upto_rec2)
  have "add_layer_top H (int n) (T, layer_top h n) = Inr (?T, layer_top h (Suc n))"
    using Suc.prems by (simp add: add_layer_top_def)
  then have "res_fold (add_layer_top H) [0..int (Suc n) - 1] ([], 0) = Inr (?T, layer_top h (Suc n))"
    unfolding range res_fold_append T(1) by simp
  moreover have "\<forall>k < Suc n. dict_get ?T (int k) = Some (layer_top h k)" using T(2) by (auto simp: less_Suc_eq)
  ultimately show ?case by blast
qed simp

lemma layer_top_below:
  assumes "\<And>k. 0 \<le> h k" "i < j"
  shows "layer_top h i + h (int i) + layer_gap \<le> layer_top h j"
  using assms(2)
proof (induction j)
  case (Suc j)
  show ?case
  proof (cases "i = j")
    case False
    then have "layer_top h i + h (int i) + layer_gap \<le> layer_top h j" using Suc by simp
    then show ?thesis using assms(1) [of "int j"] by (simp add: layer_gap_def)
  qed simp
qed simp

section \<open>No two boxes overlap\<close>

definition boxes_apart :: "placement \<Rightarrow> placement \<Rightarrow> bool" where
  "boxes_apart p q \<longleftrightarrow>
     pl_x p + bx_width (pl_box p) + sibling_gap \<le> pl_x q \<or> pl_x q + bx_width (pl_box q) + sibling_gap \<le> pl_x p \<or>
     pl_y p + bx_height (pl_box p) + layer_gap \<le> pl_y q \<or> pl_y q + bx_height (pl_box q) + layer_gap \<le> pl_y p"

lemma children_span_Cons:
  "children_span (x # xs) = (if xs = [] then x else x + sibling_gap + children_span xs)"
  by (cases xs) (simp_all add: children_span_def algebra_simps)

lemma children_span_nonneg: "\<forall>x \<in> set xs. 0 \<le> x \<Longrightarrow> 0 \<le> children_span xs"
  by (induction xs) (auto simp: children_span_Cons sibling_gap_def children_span_def [of "[]"])

lemma child_span_nonneg: "0 \<le> child_span w x"
  by (simp add: label_width_def le_max_iff_disj)

lemma placed_within:
  "own_width (\<lambda>n. bx_width (b n)) t \<le> s \<Longrightarrow> p \<in> set (placed b tops s left k t) \<Longrightarrow>
    left \<le> pl_x p \<and> pl_x p + bx_width (pl_box p) \<le> left + s"
  and placed_children_within:
  "p \<in> set (placed_children b tops left k ts) \<Longrightarrow>
    left \<le> pl_x p \<and> pl_x p + bx_width (pl_box p) \<le> left + children_span (map (child_span (\<lambda>n. bx_width (b n))) ts)"
proof (induction b tops s left k t and b tops left k ts rule: placed_placed_children.induct)
  case (1 b tops s left k n ts)
  let ?c = "children_span (map (child_span (\<lambda>n. bx_width (b n))) ts)"
  have fits: "bx_width (b n) \<le> s" "?c \<le> s" using "1.prems"(1) by (auto simp: case_prod_unfold)
  consider "p = \<lparr>pl_node = n, pl_x = left + (s - bx_width (b n)) div 2, pl_y = tops k, pl_box = b n\<rparr>"
    | "p \<in> set (placed_children b tops (left + (s - ?c) div 2) (k + 1) ts)"
    using "1.prems"(2) by auto
  then show ?case
  proof cases
    case 1
    then show ?thesis using fits(1) by simp
  next
    case 2
    from "1.IH" [OF this] show ?thesis using fits(2) by linarith
  qed
next
  case (3 b tops left k x ts)
  let ?w = "\<lambda>n. bx_width (b n)"
  have rest: "0 \<le> children_span (map (child_span ?w) ts)"
    by (rule children_span_nonneg) (auto simp: label_width_def le_max_iff_disj)
  show ?case
  proof (cases "p \<in> set (placed b tops (child_span ?w x) left k (snd x))")
    case True
    then show ?thesis using "3.IH"(1) rest by (auto simp: children_span_Cons sibling_gap_def)
  next
    case False
    then have p: "p \<in> set (placed_children b tops (left + (child_span ?w x + sibling_gap)) k ts)" using "3.prems" by simp
    then have "ts \<noteq> []" by auto
    then show ?thesis
      using "3.IH"(2) [OF p] child_span_nonneg [of ?w x] by (auto simp: children_span_Cons sibling_gap_def)
  qed
qed simp

lemma placed_level:
  "p \<in> set (placed b tops s left k t) \<Longrightarrow>
    \<exists>j. (pl_node p, j) \<in> set (tree_levels k t) \<and> pl_y p = tops j \<and> pl_box p = b (pl_node p)"
  and placed_children_level:
  "p \<in> set (placed_children b tops left k ts) \<Longrightarrow>
    \<exists>x \<in> set ts. \<exists>j. (pl_node p, j) \<in> set (tree_levels k (snd x)) \<and> pl_y p = tops j \<and> pl_box p = b (pl_node p)"
proof (induction b tops s left k t and b tops left k ts rule: placed_placed_children.induct)
  case (1 b tops s left k n ts)
  then show ?case unfolding set_tree_levels_branch by fastforce
qed (auto simp del: tree_levels.simps)

lemma placed_apart:
  assumes stacked: "\<And>i j. 0 \<le> i \<Longrightarrow> i < j \<Longrightarrow> tops i + h i + layer_gap \<le> tops j"
  shows "own_width (\<lambda>n. bx_width (b n)) t \<le> s \<Longrightarrow> 0 \<le> k \<Longrightarrow> \<forall>(n, j) \<in> set (tree_levels k t). bx_height (b n) \<le> h j \<Longrightarrow>
      sorted_wrt boxes_apart (placed b tops s left k t)"
    and "0 \<le> k \<Longrightarrow> \<forall>x \<in> set ts. \<forall>(n, j) \<in> set (tree_levels k (snd x)). bx_height (b n) \<le> h j \<Longrightarrow>
      sorted_wrt boxes_apart (placed_children b tops left k ts)"
  using stacked
proof (induction b tops s left k t and b tops left k ts rule: placed_placed_children.induct)
  case (1 b tops s left k n ts)
  let ?p = "\<lparr>pl_node = n, pl_x = left + (s - bx_width (b n)) div 2, pl_y = tops k, pl_box = b n\<rparr>"
  let ?below = "placed_children b tops (left + (s - children_span (map (child_span (\<lambda>n. bx_width (b n))) ts)) div 2) (k + 1) ts"
  have heights: "bx_height (b n) \<le> h k" "\<forall>x \<in> set ts. \<forall>(n, j) \<in> set (tree_levels (k + 1) (snd x)). bx_height (b n) \<le> h j"
    using "1.prems"(3) unfolding set_tree_levels_branch by auto
  have "boxes_apart ?p q" if q: "q \<in> set ?below" for q
  proof -
    obtain x j where x: "x \<in> set ts" "(pl_node q, j) \<in> set (tree_levels (k + 1) (snd x))" "pl_y q = tops j"
      using placed_children_level [OF q] by blast
    have "k < j" using tree_levels_above [OF x(2)] by simp
    then have "tops k + h k + layer_gap \<le> tops j" using "1.prems"(2,4) by blast
    then show ?thesis using heights(1) x(3) by (simp add: boxes_apart_def)
  qed
  moreover have "sorted_wrt boxes_apart ?below"
    by (rule "1.IH") (use "1.prems"(2,4) heights(2) in auto)
  ultimately show ?case by simp
next
  case (3 b tops left k x ts)
  let ?w = "\<lambda>n. bx_width (b n)"
  have "boxes_apart p q"
    if "p \<in> set (placed b tops (child_span ?w x) left k (snd x))"
      "q \<in> set (placed_children b tops (left + (child_span ?w x + sibling_gap)) k ts)" for p q
    using placed_within [OF _ that(1)] placed_children_within [OF that(2)] by (simp add: boxes_apart_def)
  moreover have "sorted_wrt boxes_apart (placed b tops (child_span ?w x) left k (snd x))"
    by (rule "3.IH"(1)) (use "3.prems" in auto)
  moreover have "sorted_wrt boxes_apart (placed_children b tops (left + (child_span ?w x + sibling_gap)) k ts)"
    by (rule "3.IH"(2)) (use "3.prems" in auto)
  ultimately show ?case by (simp add: sorted_wrt_append)
qed simp

lemma tree_depths_levels:
  assumes "tree_of (dc_children c) t" "tree_root t = dc_root c" "distinct (tree_nodes t)"
  shows "\<exists>D. tree_depths c = Some (Inr D) \<and> set D = set (tree_levels 0 t) \<and> map_of D = map_of (tree_levels 0 t)"
proof -
  obtain D where D: "tree_depths c = Some (Inr D)"
      "map_of D = map_of [(dc_root c, 0)] ++ map_of (tree_levels 0 t)" "distinct (dict_keys D)"
    using depth_loop_levels [of "[(0, t)]" "dc_children c" "[(dc_root c, 0)]"] assms
    by (auto simp: tree_depths_def queue_levels_def)
  have "map_of D = map_of (tree_levels 0 t)"
    unfolding D(2) by (rule map_add_absorb) (use tree_root_level [of 0 t] assms(2) in auto)
  then show ?thesis using D(1,3) assms(3) map_of_inject_set [of D "tree_levels 0 t"] by auto
qed

lemma subtree_widths_spans:
  assumes "tree_of (dc_children c) t" "tree_root t = dc_root c" "distinct (tree_nodes t)" "boxes_known boxes b t"
  shows "\<exists>W. subtree_widths c boxes = Some (Inr W) \<and>
    map_of W = map_of (tree_spans (\<lambda>n. bx_width (b n)) (own_width (\<lambda>n. bx_width (b n)) t) t)"
proof -
  have "traversal_loop (dc_children c) [dc_root c] [] = Some (Inr (rev (post_order t)))"
    using traversal_loop_order [of "[t]" "dc_children c" "[]"] assms(1,2) by simp
  then show ?thesis
    using add_widths_spans [OF assms(1,4,3), of "[]"] by (auto simp: subtree_widths_def)
qed

lemma layer_tops_stacked:
  assumes "set D = set (tree_levels 0 t)" "boxes_known boxes b t"
  shows "\<exists>T tops h. layer_tops boxes D = Inr T \<and>
    (\<forall>(n, j) \<in> set (tree_levels 0 t). dict_get T j = Some (tops j) \<and> bx_height (b n) \<le> h j) \<and>
    (\<forall>i j. 0 \<le> i \<longrightarrow> i < j \<longrightarrow> tops i + h i + layer_gap \<le> tops j)"
proof -
  have "(n, k) \<in> set D \<Longrightarrow> n \<in> set (tree_nodes t)" for n k
    unfolding assms(1) by (rule tree_level_node)
  then have "\<forall>(n, k) \<in> set D. dict_get boxes n = Some (b n)" using assms(2) by (auto simp: boxes_known_def)
  from layer_heights_cover [OF this, of "[]"] obtain H where
    H: "res_fold (add_layer_height boxes) D [] = Inr H"
      "\<forall>(n, k) \<in> set D. \<exists>h. dict_get H k = Some h \<and> bx_height (b n) \<le> h"
      "\<forall>k h. dict_get H k = Some h \<longrightarrow> 0 \<le> h" by auto
  let ?h = "\<lambda>k. case dict_get H k of None \<Rightarrow> 0 | Some h \<Rightarrow> h"
  let ?last = "Max (set (dict_values D))"
  have nonneg: "0 \<le> ?h k" for k using H(3) by (auto split: option.split)
  have level: "0 \<le> j \<and> j \<le> ?last \<and> dict_get H j = Some (?h j) \<and> bx_height (b n) \<le> ?h j" if "(n, j) \<in> set (tree_levels 0 t)" for n j
  proof -
    have "(n, j) \<in> set D" using that assms(1) by simp
    then have "j \<in> set (dict_values D)" by force
    then show ?thesis using H(2) \<open>(n, j) \<in> set D\<close> tree_levels_above [OF that] by fastforce
  qed
  have "tree_levels 0 t \<noteq> []" by (cases t) simp
  then have "D \<noteq> []" using assms(1) by auto
  then have "?last \<in> set (dict_values D)" by (intro Max_in) simp_all
  then obtain m where "(m, ?last) \<in> set (tree_levels 0 t)" using assms(1) by auto
  then have "\<forall>k < nat ?last + 1. dict_get H (int k) = Some (?h (int k))"
    using level tree_levels_between by (metis int_nat_eq level less_Suc_eq_le nat_less_iff of_nat_0_le_iff Suc_eq_plus1 zle_int)
  from layer_tops_known [OF this] obtain T where
    T: "res_fold (add_layer_top H) [0..int (nat ?last + 1) - 1] ([], 0) = Inr (T, layer_top ?h (nat ?last + 1))"
      "\<forall>k < nat ?last + 1. dict_get T (int k) = Some (layer_top ?h k)" by blast
  have "0 \<le> ?last" using level [OF \<open>(m, ?last) \<in> set (tree_levels 0 t)\<close>] by simp
  then have "int (nat ?last + 1) - 1 = ?last" by simp
  then have tops: "layer_tops boxes D = Inr T" using H(1) T(1) by (simp add: layer_tops_def)
  have known: "dict_get T j = Some (layer_top ?h (nat j))" if "0 \<le> j" "j \<le> ?last" for j
    using T(2) [rule_format, of "nat j"] that by simp
  have "layer_top ?h (nat i) + ?h i + layer_gap \<le> layer_top ?h (nat j)" if "0 \<le> i" "i < j" for i j
    using layer_top_below [of ?h "nat i" "nat j"] nonneg that by simp
  then have "\<forall>i j. 0 \<le> i \<longrightarrow> i < j \<longrightarrow> layer_top ?h (nat i) + ?h i + layer_gap \<le> layer_top ?h (nat j)" by blast
  moreover have "\<forall>(n, j) \<in> set (tree_levels 0 t). dict_get T j = Some (layer_top ?h (nat j)) \<and> bx_height (b n) \<le> ?h j"
    using known level by blast
  ultimately show ?thesis
    using tops by (intro exI [of _ T] exI [of _ "\<lambda>j. layer_top ?h (nat j)"] exI [of _ ?h] conjI)
qed

lemma place_component_apart:
  assumes "tree_of (dc_children c) t" "tree_root t = dc_root c" "distinct (tree_nodes t)" "boxes_known boxes b t"
  shows "\<exists>ps. place_component c boxes = Some (Inr ps) \<and> map pl_node ps = tree_nodes t \<and>
    (\<forall>p \<in> set ps. pl_box p = b (pl_node p)) \<and> sorted_wrt boxes_apart ps"
proof -
  obtain D where D: "tree_depths c = Some (Inr D)" "set D = set (tree_levels 0 t)" "map_of D = map_of (tree_levels 0 t)"
    using tree_depths_levels [OF assms(1-3)] by blast
  obtain T tops h where T: "layer_tops boxes D = Inr T"
      "\<forall>(n, j) \<in> set (tree_levels 0 t). dict_get T j = Some (tops j) \<and> bx_height (b n) \<le> h j"
      "\<forall>i j. 0 \<le> i \<longrightarrow> i < j \<longrightarrow> tops i + h i + layer_gap \<le> tops j"
    using layer_tops_stacked [OF D(2) assms(4)] by blast
  let ?w = "\<lambda>n. bx_width (b n)"
  obtain W where W: "subtree_widths c boxes = Some (Inr W)" "map_of W = map_of (tree_spans ?w (own_width ?w t) t)"
    using subtree_widths_spans [OF assms] by blast
  have "tables_agree_below (dc_children c) W D T boxes b tops (own_width ?w t) 0 t"
    unfolding tables_agree_below_def W(2) D(3) using assms T(2) by auto
  then have "placement_loop (dc_children c) W D T boxes [(dc_root c, 0)] [] = Some (Inr (placed b tops (own_width ?w t) 0 0 t))"
    using placement_loop_placed [of "[(0, own_width ?w t, 0, t)]"] assms(2) by simp
  then have "place_component c boxes = Some (Inr (placed b tops (own_width ?w t) 0 0 t))"
    by (simp add: place_component_def D(1) T(1) W(1))
  moreover have "sorted_wrt boxes_apart (placed b tops (own_width ?w t) 0 0 t)"
    by (rule placed_apart(1) [where h = h]) (use T(2,3) in auto)
  moreover have "\<forall>p \<in> set (placed b tops (own_width ?w t) 0 0 t). pl_box p = b (pl_node p)"
    using placed_level(1) by blast
  ultimately show ?thesis by (intro exI [of _ "placed b tops (own_width ?w t) 0 0 t"]) (simp add: placed_nodes)
qed

end
