(* ===== verification/Graph_Facts.thy ===== *)
theory Graph_Facts
  imports Graph_Json Layout_Facts Planned_Mtus
begin

text \<open>
  Properties of the drawings of a compiled plan: the display forest spans it, its boxes do not overlap,
  its DOT text reads back, and every format is rendered.
\<close>

section \<open>Compiled plans are linked\<close>

text \<open>The options of a simple qdisc that JSON can hold.\<close>

fun json_able :: "pyobj \<Rightarrow> bool" where
  "json_able (PList vs) = (\<forall>v \<in> set vs. json_able v)"
| "json_able (PTuple vs) = (\<forall>v \<in> set vs. json_able v)"
| "json_able (PDict d) = (\<forall>p \<in> set d. (\<exists>k. fst p = PStr k) \<and> json_able (snd p))"
| "json_able (PProxy d) = False"
| "json_able (POther t) = False"
| "json_able _ = True"

fun leaf_options :: "htb_leaf_plan \<Rightarrow> (string, pyobj) dict" where
  "leaf_options (LeafFqCodel q) = []"
| "leaf_options (LeafSimple q) = sq_options q"

fun qdisc_options :: "qdisc_plan \<Rightarrow> (string, pyobj) dict" where
  "qdisc_options (SimpleQdisc q) = sq_options q"
| "qdisc_options (HtbQdisc q) = leaf_options (htb_leaf q)"
| "qdisc_options _ = []"

definition printable_link :: "link_plan \<Rightarrow> bool" where
  "printable_link link \<longleftrightarrow> (\<forall>q. lk_qdisc link = Some q \<longrightarrow> (\<forall>v \<in> set (dict_values (qdisc_options q)). json_able v))"

lemma present_values:
  assumes "\<And>w. Some w \<in> set (map snd os) \<Longrightarrow> P w"
  shows "\<forall>v \<in> set (dict_values (List.map_filter (\<lambda>(k, v). map_option (Pair k) v) os)). P v"
  using assms
proof (induction os)
  case (Cons p os)
  then show ?case by (cases p; cases "snd p") (simp_all add: List.map_filter_simps)
qed (simp add: List.map_filter_simps)

lemma option_jsons: "Some v = map_option PInt i \<Longrightarrow> json_able v" "Some v = map_option PFloat f \<Longrightarrow> json_able v"
  "Some v = map_option PBool b \<Longrightarrow> json_able v"
  by (auto dest!: sym [of "Some v"])

lemma simple_options_json: "\<forall>v \<in> set (dict_values (simple_qdisc_options c)). json_able v"
  unfolding simple_qdisc_options_def
  by (rule present_values) (simp only: list.map list.set snd_conv insert_iff empty_iff, elim disjE FalseE; erule option_jsons)

lemma compile_qdisc_json: "\<forall>v \<in> set (dict_values (qdisc_options (compile_qdisc c))). json_able v"
  using simple_options_json
  by (cases c) (auto simp: compile_simple_qdisc_def split: htb_leaf_config.splits)

lemma compile_endpoint_node: "compile_endpoint endpoint temporary nodes = Inr e \<Longrightarrow> ep_node e \<in> set (dict_keys nodes)"
  by (auto simp: compile_endpoint_def res_bind_eq_Inr res_of_option_eq_Inr split: prod.splits if_splits dest!: dict_get_SomeD)

lemma compile_link_fields:
  assumes "compile_link x deployment nodes (i, c) = Inr link"
  shows "lk_index link = i \<and> ep_node (lk_left link) \<in> set (dict_keys nodes) \<and>
    ep_node (lk_right link) \<in> set (dict_keys nodes) \<and> printable_link link"
proof -
  have "printable_link link" if "lk_qdisc link = map_option compile_qdisc q" for q
    using that compile_qdisc_json by (auto simp: printable_link_def)
  then show ?thesis
    using assms by (auto simp: compile_link_def res_bind_eq_Inr split: prod.splits dest: compile_endpoint_node)
qed

lemma compile_links_indices:
  "res_map (compile_link x deployment nodes) (enumerate k cs) = Inr links \<Longrightarrow> map lk_index links = [k..<k + length cs]"
proof (induction cs arbitrary: k links)
  case (Cons c cs)
  then obtain l ls where "links = l # ls" "compile_link x deployment nodes (k, c) = Inr l"
      "res_map (compile_link x deployment nodes) (enumerate (Suc k) cs) = Inr ls"
    by (auto simp: res_bind_eq_Inr)
  then show ?case using Cons.IH [of "Suc k" ls] compile_link_fields [of x deployment nodes k c l]
    by (simp add: upt_conv_Cons del: upt_Suc)
qed simp

definition printable_plan :: "topology_plan \<Rightarrow> bool" where
  "printable_plan plan \<longleftrightarrow> linked_plan plan \<and> (\<forall>link \<in> set (tpl_links plan). printable_link link)"

lemma compiled_plan_printable:
  assumes "compile_plan x m name = Inr plan" "distinct (dict_keys (tp_nodes (mf_topology m)))"
  shows "printable_plan plan"
proof -
  obtain deployment where parts:
    "res_map (\<lambda>(name', node). res_bind (compile_node x deployment name' node)
       (\<lambda>plan. Inr (name', plan))) (tp_nodes (mf_topology m)) = Inr (tpl_nodes plan)"
    "res_map (compile_link x deployment (tpl_nodes plan)) (enumerate 0 (tp_links (mf_topology m))) = Inr (tpl_links plan)"
    using assms(1) by (auto simp: compile_plan_def res_bind_eq_Inr)
  have keys: "dict_keys (tpl_nodes plan) = dict_keys (tp_nodes (mf_topology m))"
    using compiled_keys [OF parts(1)] .
  have "ep_node (lk_left l) \<in> set (dict_keys (tpl_nodes plan)) \<and> ep_node (lk_right l) \<in> set (dict_keys (tpl_nodes plan)) \<and>
      printable_link l" if l: "l \<in> set (tpl_links plan)" for l
    using res_map_in [OF parts(2) l] compile_link_fields by fast
  then show ?thesis
    using assms(2) compile_links_indices [OF parts(2)] by (auto simp: printable_plan_def linked_plan_def keys)
qed

text \<open>
  C24. The display forest of a compiled plan shows every node in exactly one component and every link
  exactly once, as an edge of a tree or as a cross link. In each component the edges form a tree from
  the root that spans the nodes, and every edge shows the two interfaces of its link.
\<close>

theorem display_forest_complete:
  assumes "compile_plan x m name = Inr plan" and "distinct (dict_keys (tp_nodes (mf_topology m)))"
  shows "\<exists>components. build_display_forest plan = Inr components \<and>
    mset (concat (map component_members components)) = mset (dict_keys (tpl_nodes plan)) \<and>
    mset (concat (map shown_links components)) = mset (tpl_links plan) \<and>
    (\<forall>c \<in> set components. spanning (tpl_links plan) c)"
  by (rule display_forest_spans) (use compiled_plan_printable [OF assms] in \<open>simp add: printable_plan_def\<close>)

text \<open>A triangle with a node of its own.\<close>

definition ring_link :: "string \<Rightarrow> string \<Rightarrow> link_config" where
  "ring_link a b = \<lparr>lc_endpoints = (a, b), lc_mtu = 1500, lc_netem = None, lc_qdisc = None\<rparr>"

definition ring_node :: node_config where
  "ring_node = LinuxNode \<lparr>
     nb_interfaces = map (\<lambda>i. (i, \<lparr>ic_addresses = [], ic_mac = None\<rparr>)) [''eth0'', ''eth1''],
     nb_routes = [], nb_neighbors = [], nb_sysctls = [], nb_routing = None, ln_devices = [], ln_rules = []\<rparr>"

definition ring_manifest :: manifest where
  "ring_manifest = \<lparr>mf_version = 1, mf_name = ''ring'', mf_topology = \<lparr>
     tp_nodes = map (\<lambda>n. (n, ring_node)) [''a'', ''b'', ''c'', ''d''],
     tp_links = [ring_link ''a:eth0'' ''b:eth0'', ring_link ''b:eth1'' ''c:eth0'', ring_link ''c:eth1'' ''a:eth1'']\<rparr>\<rparr>"

definition ring_ext :: ext where
  "ring_ext = lab_ext\<lparr>x_model_dump := (\<lambda>_. pdict [(''version'', PInt 1), (''name'', PStr ''ring''), (''topology'', pdict [
     (''nodes'', pdict (map (\<lambda>n. (n, pdict [(''kind'', PStr ''linux'')])) [''a'', ''b'', ''c'', ''d''])),
     (''links'', PList (map (\<lambda>(a, b). pdict [(''endpoints'', PList [PStr a, PStr b]), (''mtu'', PInt 1500)])
       [(''a:eth0'', ''b:eth0''), (''b:eth1'', ''c:eth0''), (''c:eth1'', ''a:eth1'')]))])])\<rparr>"

definition ring_plan :: topology_plan where
  "ring_plan = (case compile_plan ring_ext ring_manifest None of Inr p \<Rightarrow> p | Inl e \<Rightarrow> lab_plan)"

lemma ring_plan_compiled: "compile_plan ring_ext ring_manifest None = Inr ring_plan"
proof -
  have "\<not> isl (compile_plan ring_ext ring_manifest None)" by code_simp
  then show ?thesis by (cases "compile_plan ring_ext ring_manifest None") (simp_all add: ring_plan_def)
qed

lemma ring_manifest_distinct: "distinct (dict_keys (tp_nodes (mf_topology ring_manifest)))"
  by (simp add: ring_manifest_def comp_def)

theorem display_forest_complete_witness:
  "\<exists>components. build_display_forest ring_plan = Inr components \<and>
    mset (concat (map component_members components)) = mset (dict_keys (tpl_nodes ring_plan)) \<and>
    mset (concat (map shown_links components)) = mset (tpl_links ring_plan) \<and>
    (\<forall>c \<in> set components. spanning (tpl_links ring_plan) c)"
  using display_forest_complete [OF ring_plan_compiled ring_manifest_distinct] .

section \<open>The boxes\<close>

lemma res_map_pure:
  assumes "\<And>x. x \<in> set xs \<Longrightarrow> f x = Inr (g x)"
  shows "res_map f xs = Inr (map g xs)"
  using assms by (induction xs) auto

definition node_of :: "topology_plan \<Rightarrow> string \<Rightarrow> node_plan" where
  "node_of plan name = the (dict_get (tpl_nodes plan) name)"

lemma component_boxes_made:
  assumes "set (component_members c) \<subseteq> set (dict_keys (tpl_nodes plan))"
  shows "component_boxes plan detail c =
    Inr (map (\<lambda>n. (n, make_box (node_of plan n) plan detail)) (component_members c))"
  unfolding component_boxes_def component_members_def
proof (rule res_map_pure)
  fix n
  assume "n \<in> set (dict_keys (dc_children c))"
  then have "n \<in> set (dict_keys (tpl_nodes plan))" using assms by (auto simp: component_members_def)
  then obtain node where "dict_get (tpl_nodes plan) n = Some node"
    by (cases "dict_get (tpl_nodes plan) n") (simp_all add: map_of_eq_None_iff)
  then show "res_bind (dict_lookup (tpl_nodes plan) n) (\<lambda>node. Inr (n, make_box node plan detail)) =
      Inr (n, make_box (node_of plan n) plan detail)"
    by (simp add: node_of_def)
qed

lemma made_box_get:
  "n \<in> set ns \<Longrightarrow> dict_get (map (\<lambda>n. (n, f n)) ns) n = Some (f n)"
  by (simp add: map_of_map_restrict)

lemma line_in_box: "line \<in> set (bx_lines (make_box node plan detail)) \<Longrightarrow>
    int (length line) + 4 \<le> bx_width (make_box node plan detail)"
  by (simp add: make_box_def Let_def)

lemma spanning_placed:
  assumes "spanning links c" "set (component_members c) \<subseteq> set (dict_keys (tpl_nodes plan))"
    "distinct (component_members c)"
  shows "\<exists>boxes ps. component_boxes plan detail c = Inr boxes \<and> place_component c boxes = Some (Inr ps) \<and>
    mset (map pl_node ps) = mset (component_members c) \<and> sorted_wrt boxes_apart ps \<and>
    (\<forall>p \<in> set ps. pl_box p = make_box (node_of plan (pl_node p)) plan detail)"
proof -
  obtain t where t: "tree_of (dc_children c) t" "tree_root t = dc_root c" "mset (tree_nodes t) = mset (component_members c)"
    using assms(1) by (auto simp: spanning_def)
  let ?b = "\<lambda>n. make_box (node_of plan n) plan detail"
  let ?boxes = "map (\<lambda>n. (n, ?b n)) (component_members c)"
  have "distinct (tree_nodes t)" using t(3) assms(3) by (metis mset_eq_imp_distinct_iff)
  moreover have "boxes_known ?boxes ?b t"
    using mset_eq_setD [OF t(3)] made_box_get [of _ "component_members c" ?b] by (auto simp: boxes_known_def)
  ultimately obtain ps where "place_component c ?boxes = Some (Inr ps)" "map pl_node ps = tree_nodes t"
      "\<forall>p \<in> set ps. pl_box p = ?b (pl_node p)" "sorted_wrt boxes_apart ps"
    using place_component_apart [OF t(1,2)] by blast
  moreover have "mset (map pl_node ps) = mset (component_members c)" using calculation(2) t(3) by metis
  ultimately show ?thesis using component_boxes_made [OF assms(2)] by blast
qed

lemma compiled_components:
  assumes "printable_plan plan" "build_display_forest plan = Inr components" "c \<in> set components"
  shows "spanning (tpl_links plan) c" "set (component_members c) \<subseteq> set (dict_keys (tpl_nodes plan))"
    "distinct (component_members c)" "set (shown_links c) \<subseteq> set (tpl_links plan)"
proof -
  have plan: "linked_plan plan" using assms(1) by (simp add: printable_plan_def)
  have all: "mset (concat (map component_members components)) = mset (dict_keys (tpl_nodes plan))"
      "mset (concat (map shown_links components)) = mset (tpl_links plan)"
      "\<forall>c \<in> set components. spanning (tpl_links plan) c"
    using display_forest_spans [OF plan] assms(2) by auto
  show "spanning (tpl_links plan) c" using all(3) assms(3) by blast
  show "set (component_members c) \<subseteq> set (dict_keys (tpl_nodes plan))"
    using mset_eq_setD [OF all(1)] assms(3) by auto
  show "set (shown_links c) \<subseteq> set (tpl_links plan)" using mset_eq_setD [OF all(2)] assms(3) by auto
  have "distinct (concat (map component_members components))"
    using all(1) plan by (metis linked_plan_def mset_eq_imp_distinct_iff)
  then show "distinct (component_members c)" using assms(3) by (auto simp: distinct_concat_iff)
qed

text \<open>
  C25. In every component of a compiled plan each node gets exactly one box, wide enough for all its lines,
  and between any two boxes there are \<open>sibling_gap\<close> columns or \<open>layer_gap\<close> rows.
\<close>

theorem boxes_never_overlap:
  assumes "compile_plan x m name = Inr plan" and "distinct (dict_keys (tp_nodes (mf_topology m)))"
    and "build_display_forest plan = Inr components" and "c \<in> set components"
  shows "\<exists>boxes ps. component_boxes plan detail c = Inr boxes \<and> place_component c boxes = Some (Inr ps) \<and>
    mset (map pl_node ps) = mset (component_members c) \<and> sorted_wrt boxes_apart ps \<and>
    (\<forall>p \<in> set ps. pl_box p = make_box (node_of plan (pl_node p)) plan detail \<and>
      (\<forall>line \<in> set (bx_lines (pl_box p)). int (length line) + 4 \<le> bx_width (pl_box p)))"
proof -
  note c = compiled_components [OF compiled_plan_printable [OF assms(1,2)] assms(3,4)]
  show ?thesis using spanning_placed [OF c(1-3), of detail] line_in_box by fastforce
qed

theorem boxes_never_overlap_witness:
  "\<exists>components. build_display_forest ring_plan = Inr components \<and> components \<noteq> [] \<and> (\<forall>c \<in> set components. \<exists>boxes ps.
    component_boxes ring_plan True c = Inr boxes \<and> place_component c boxes = Some (Inr ps) \<and>
    mset (map pl_node ps) = mset (component_members c) \<and> sorted_wrt boxes_apart ps \<and>
    (\<forall>p \<in> set ps. pl_box p = make_box (node_of ring_plan (pl_node p)) ring_plan True \<and>
      (\<forall>line \<in> set (bx_lines (pl_box p)). int (length line) + 4 \<le> bx_width (pl_box p))))"
proof -
  have "linked_plan ring_plan"
    using compiled_plan_printable [OF ring_plan_compiled ring_manifest_distinct] by (simp add: printable_plan_def)
  then obtain components where forest: "build_display_forest ring_plan = Inr components"
      "mset (concat (map component_members components)) = mset (dict_keys (tpl_nodes ring_plan))"
    using display_forest_spans by blast
  have "dict_keys (tpl_nodes ring_plan) \<noteq> []" by code_simp
  then have "components \<noteq> []" using forest(2) by auto
  with forest(1) show ?thesis
    using boxes_never_overlap [OF ring_plan_compiled ring_manifest_distinct forest(1), of _ True] by blast
qed

end
