(* ===== verification/Graph_Renders.thy ===== *)
theory Graph_Renders
  imports Graph_Facts
begin

text \<open>
  What \<open>render_graph\<close> prints: a DOT text that reads back as the nodes and links of the plan, and for
  every format a text, since the loops over a display tree end and no step of them raises.
\<close>

section \<open>Reading DOT back\<close>

text \<open>A quoted string up to the closing quote, with the escapes undone.\<close>

definition unescape :: "nat \<Rightarrow> nat" where
  "unescape c = (if c = 110 then 10 else if c = 114 then 13 else c)"

fun read_label :: "glyphs \<Rightarrow> (glyphs \<times> glyphs) option" where
  "read_label [] = None"
| "read_label (c # rest) =
     (if c = 34 then Some ([], rest)
      else if c = 92 then (case rest of [] \<Rightarrow> None
        | e # rest' \<Rightarrow> map_option (\<lambda>(label, left). (unescape e # label, left)) (read_label rest'))
      else map_option (\<lambda>(label, left). (c # label, left)) (read_label rest))"

fun after_prefix :: "glyphs \<Rightarrow> glyphs \<Rightarrow> glyphs option" where
  "after_prefix [] s = Some s"
| "after_prefix (p # ps) (c # s) = (if p = c then after_prefix ps s else None)"
| "after_prefix (p # ps) [] = None"

definition read_quoted :: "string \<Rightarrow> glyphs \<Rightarrow> (glyphs \<times> glyphs) option" where
  "read_quoted prefix s = Option.bind (after_prefix (plain prefix @ [34]) s) read_label"

datatype dot_item =
  DotNode glyphs glyphs
| DotLink glyphs glyphs glyphs

definition read_dot_line :: "glyphs \<Rightarrow> dot_item option" where
  "read_dot_line s = Option.bind (read_quoted ''    '' s) (\<lambda>(first, rest).
     (case read_quoted '' -- '' rest of
       None \<Rightarrow> Option.bind (read_quoted '' [label='' rest) (\<lambda>(label, end).
         if end = plain ''];'' then Some (DotNode first label) else None)
     | Some (second, rest) \<Rightarrow> Option.bind (read_quoted '' [label='' rest) (\<lambda>(label, end).
         if end = plain ''];'' then Some (DotLink first second label) else None)))"

fun split_lines :: "glyphs \<Rightarrow> glyphs list" where
  "split_lines [] = [[]]"
| "split_lines (c # s) = (if c = 10 then [] # split_lines s
     else case split_lines s of [] \<Rightarrow> [[c]] | line # lines \<Rightarrow> (c # line) # lines)"

definition read_dot :: "glyphs \<Rightarrow> dot_item list option" where
  "read_dot s = (case split_lines s of [] \<Rightarrow> None
    | line # lines \<Rightarrow>
        if line = plain ''graph nslab {'' \<and> lines \<noteq> [] \<and> last lines = plain ''}''
        then those (map read_dot_line (butlast lines)) else None)"

subsection \<open>Labels\<close>

lemma escape_label_simps [simp]:
  "escape_label [] = []"
  "escape_label (c # cs) = (if c = 10 then [92, 110] else if c = 13 then [92, 114] else if c = 34 then [92, 34]
     else if c = 92 then [92, 92] else [c]) @ escape_label cs"
  by (simp_all add: escape_label_def replace_glyph_def)

lemma read_escaped: "read_label (escape_label label @ 34 # rest) = Some (label, rest)"
  by (induction label) (simp_all add: unescape_def)

lemma escaped_one_line: "10 \<notin> set (escape_label label)"
  by (induction label) simp_all

lemma quoted_one_line: "10 \<notin> set (quoted_dot label)"
  by (simp add: quoted_dot_def escaped_one_line)

lemma after_prefix_append: "after_prefix (p @ q) (p @ s) = after_prefix q s"
  by (induction p) simp_all

lemma after_prefix_self: "after_prefix p (p @ s) = Some s"
  using after_prefix_append [of p "[]" s] by simp

lemma read_quoted_dot: "read_quoted prefix (plain prefix @ quoted_dot label @ rest) = Some (label, rest)"
proof -
  have "after_prefix (plain prefix @ [34]) (plain prefix @ quoted_dot label @ rest) = Some (escape_label label @ 34 # rest)"
    using after_prefix_self [of "plain prefix @ [34]" "escape_label label @ 34 # rest"] by (simp add: quoted_dot_def)
  then show ?thesis by (simp add: read_quoted_def read_escaped)
qed

subsection \<open>Lines\<close>

lemma split_lines_nonempty: "split_lines s \<noteq> []"
  by (induction s) (auto split: list.splits)

lemma split_line: "10 \<notin> set s \<Longrightarrow> split_lines s = [s]"
  by (induction s) auto

lemma split_lines_append: "10 \<notin> set s \<Longrightarrow> split_lines (s @ 10 # t) = s # split_lines t"
  by (induction s) auto

lemma split_line_text: "\<forall>line \<in> set lines. 10 \<notin> set line \<Longrightarrow> lines \<noteq> [] \<Longrightarrow> split_lines (line_text lines) = lines"
proof (induction lines)
  case (Cons line lines)
  then show ?case
    by (cases lines) (auto simp: line_text_def new_line_def split_line split_lines_append)
qed simp

definition node_label :: "node_plan \<Rightarrow> glyphs" where
  "node_label node = plain (nd_name node) @ new_line @ plain (kind_text (nd_kind node)) @
     concat (map (\<lambda>device. new_line @ device_text False False device) (dict_values (nd_devices node)))"

definition dot_node :: "node_plan \<Rightarrow> dot_item" where
  "dot_node node = DotNode (plain (nd_name node)) (node_label node)"

definition dot_link :: "link_plan \<Rightarrow> dot_item" where
  "dot_link link = DotLink (plain (ep_node (lk_left link))) (plain (ep_node (lk_right link))) (plain_link_label link)"

lemma read_dot_node: "read_dot_line (dot_node_line node) = Some (dot_node node)"
proof -
  have "read_quoted ''    '' (dot_node_line node) =
      Some (plain (nd_name node), plain '' [label='' @ quoted_dot (node_label node) @ plain ''];'')"
    unfolding dot_node_line_def node_label_def by (rule read_quoted_dot)
  moreover have "read_quoted '' -- '' (plain '' [label='' @ rest) = None" for rest
    by (simp add: read_quoted_def plain_def)
  ultimately show ?thesis by (simp add: read_dot_line_def read_quoted_dot dot_node_def)
qed

lemma read_dot_link: "read_dot_line (dot_link_line link) = Some (dot_link link)"
proof -
  have "read_quoted ''    '' (dot_link_line link) = Some (plain (ep_node (lk_left link)),
      plain '' -- '' @ quoted_dot (plain (ep_node (lk_right link))) @ plain '' [label='' @ quoted_dot (plain_link_label link) @ plain ''];'')"
    unfolding dot_link_line_def by (rule read_quoted_dot)
  then show ?thesis by (simp add: read_dot_line_def read_quoted_dot dot_link_def)
qed

lemma dot_lines_single: "10 \<notin> set (dot_node_line node)" "10 \<notin> set (dot_link_line link)"
  by (simp_all add: dot_node_line_def dot_link_line_def quoted_one_line) (simp_all add: plain_def)

lemma those_map: "(\<And>x. x \<in> set xs \<Longrightarrow> f (g x) = Some (h x)) \<Longrightarrow> those (map f (map g xs)) = Some (map h xs)"
  by (induction xs) auto

lemma those_append: "those xs = Some a \<Longrightarrow> those ys = Some b \<Longrightarrow> those (xs @ ys) = Some (a @ b)"
  by (induction xs arbitrary: a) (auto split: option.splits)

text \<open>
  C26. The DOT text of a plan reads back as its nodes, with name, kind and devices, and its links, with
  both nodes and both interfaces, in order: whatever the names are, no label breaks out of its quotes or
  its line.
\<close>

theorem dot_reads_back:
  "read_dot (render_dot plan) = Some (map dot_node (plan_nodes plan) @ map dot_link (tpl_links plan))"
proof -
  let ?lines = "map dot_node_line (plan_nodes plan) @ map dot_link_line (tpl_links plan)"
  have "\<forall>line \<in> set ([plain ''graph nslab {''] @ ?lines @ [plain ''}'']). 10 \<notin> set line"
    by (auto simp: dot_lines_single) (auto simp: plain_def)
  then have "split_lines (render_dot plan) = plain ''graph nslab {'' # ?lines @ [plain ''}'']"
    unfolding render_dot_def by (subst split_line_text) simp_all
  moreover have "those (map read_dot_line ?lines) = Some (map dot_node (plan_nodes plan) @ map dot_link (tpl_links plan))"
    unfolding map_append by (intro those_append those_map read_dot_node read_dot_link)
  moreover have "butlast (map dot_node_line (plan_nodes plan) @ map dot_link_line (tpl_links plan) @ [plain ''}'']) = ?lines"
    by (simp add: butlast_append)
  ultimately show ?thesis by (simp add: read_dot_def)
qed

section \<open>Every format is rendered\<close>

definition succeeds :: "'a res \<Rightarrow> bool" where
  "succeeds r \<longleftrightarrow> (\<exists>v. r = Inr v)"

definition returns :: "'a res option \<Rightarrow> bool" where
  "returns r \<longleftrightarrow> (\<exists>v. r = Some (Inr v))"

lemma succeeds_simps [simp]: "succeeds (Inr v)" "\<not> succeeds (Inl e)"
  by (simp_all add: succeeds_def)

lemma returns_simps [simp]: "returns (Some r) \<longleftrightarrow> succeeds r" "\<not> returns None"
  by (simp_all add: returns_def succeeds_def)

lemma returns_bind: "returns r \<Longrightarrow> (\<And>v. r = Some (Inr v) \<Longrightarrow> returns (f v)) \<Longrightarrow> returns (run_bind r f)"
  by (auto simp: returns_def)

lemma returns_map: "(\<And>x. x \<in> set xs \<Longrightarrow> returns (f x)) \<Longrightarrow> returns (run_map f xs)"
  by (induction xs) (auto intro!: returns_bind)

lemma res_bind_right: "succeeds r \<Longrightarrow> (\<And>v. r = Inr v \<Longrightarrow> succeeds (f v)) \<Longrightarrow> succeeds (res_bind r f)"
  by (auto simp: succeeds_def)

lemma res_map_right: "(\<And>x. x \<in> set xs \<Longrightarrow> succeeds (f x)) \<Longrightarrow> succeeds (res_map f xs)"
  by (induction xs) (auto intro!: res_bind_right)

lemma res_fold_right: "(\<And>x s. x \<in> set xs \<Longrightarrow> succeeds (f x s)) \<Longrightarrow> succeeds (res_fold f xs s)"
  by (induction xs arbitrary: s) (auto intro!: res_bind_right)

lemma dict_lookup_right: "succeeds (dict_lookup d k) \<longleftrightarrow> k \<in> set (dict_keys d)"
  using map_of_eq_None_iff [of d k] by (cases "dict_get d k") (simp_all add: dict_lookup_def res_of_option_def)

subsection \<open>The loops over a tree\<close>

definition shown_tree :: "topology_plan \<Rightarrow> (string, display_edge list) dict \<Rightarrow> display_tree \<Rightarrow> bool" where
  "shown_tree plan children t \<longleftrightarrow> tree_of children t \<and> set (tree_nodes t) \<subseteq> set (dict_keys (tpl_nodes plan))"

lemma queue_size_branch: "queue_size (Branch n ts # q) = Suc (queue_size (map snd ts @ q))"
  by (simp add: queue_size_def length_concat comp_def case_prod_unfold)

lemma branch_of_root:
  assumes "shown_tree plan children t"
  obtains ts where "t = Branch (tree_root t) ts" "dict_lookup children (tree_root t) = Inr (map fst ts)"
    "\<forall>b \<in> set ts. tree_root (snd b) = de_child (fst b) \<and> shown_tree plan children (snd b)"
    "tree_root t \<in> set (dict_keys (tpl_nodes plan))"
  using assms by (cases t) (fastforce simp: shown_tree_def)

lemma branch_entries_children: "map (\<lambda>e. de_child (fst e)) (branch_entries edges prefix) = map de_child edges"
proof -
  have "map (\<lambda>e. de_child (fst e)) (branch_entries edges prefix) = map de_child (map snd (enumerate 0 edges))"
    unfolding branch_entries_def map_map by (rule map_cong) (auto simp: comp_def)
  then show ?thesis by (simp only: map_snd_enumerate)
qed

lemma tree_lines_loop_returns:
  assumes "\<forall>t \<in> set ts. shown_tree plan children t" "map (\<lambda>e. de_child (fst e)) stack = map tree_root ts"
  shows "returns (tree_lines_loop plan detail children stack lines)"
  using assms
proof (induction "queue_size ts" arbitrary: ts stack lines rule: less_induct)
  case less
  show ?case
  proof (cases stack)
    case (Cons entry rest)
    obtain edge prefix is_last where entry: "entry = (edge, prefix, is_last)" by (cases entry)
    obtain t ts' where ts: "ts = t # ts'" "de_child edge = tree_root t" "map (\<lambda>e. de_child (fst e)) rest = map tree_root ts'"
      using less.prems(2) by (cases ts) (auto simp: Cons entry)
    obtain bs where bs: "t = Branch (tree_root t) bs" "dict_lookup children (tree_root t) = Inr (map fst bs)"
        "\<forall>b \<in> set bs. tree_root (snd b) = de_child (fst b) \<and> shown_tree plan children (snd b)"
        "tree_root t \<in> set (dict_keys (tpl_nodes plan))"
      using less.prems(1) branch_of_root [of plan children t] by (auto simp: ts(1))
    obtain child where child: "dict_lookup (tpl_nodes plan) (tree_root t) = Inr child"
      using bs(4) dict_lookup_right [of "tpl_nodes plan" "tree_root t"] by (auto simp: succeeds_def)
    have smaller: "queue_size (map snd bs @ ts') < queue_size ts"
      using queue_size_branch [of "tree_root t" bs ts'] bs(1) ts(1) by simp
    have "map (\<lambda>e. de_child (fst e)) (branch_entries (map fst bs) p @ rest) = map tree_root (map snd bs @ ts')" for p
      using bs(3) by (simp add: branch_entries_children ts(3))
    moreover have "\<forall>u \<in> set (map snd bs @ ts'). shown_tree plan children u"
      using bs(3) less.prems(1) by (auto simp: ts(1))
    ultimately have "returns (tree_lines_loop plan detail children (branch_entries (map fst bs) p @ rest) ls)" for p ls
      using less.hyps [OF smaller] by blast
    then show ?thesis by (simp add: Cons entry tree_lines_loop.simps [of _ _ _ "_ # _"] ts(2) child bs(2))
  qed (simp add: tree_lines_loop.simps)
qed

lemma mermaid_edges_loop_returns:
  assumes "\<forall>t \<in> set ts. shown_tree plan children t"
    and "\<forall>e \<in> set (tree_edges children). succeeds (mermaid_edge_line ids e)"
  shows "returns (mermaid_edges_loop children ids (map tree_root ts) lines)"
  using assms(1)
proof (induction "queue_size ts" arbitrary: ts lines rule: less_induct)
  case less
  show ?case
  proof (cases ts)
    case (Cons t ts')
    obtain bs where bs: "t = Branch (tree_root t) bs" "dict_lookup children (tree_root t) = Inr (map fst bs)"
        "\<forall>b \<in> set bs. tree_root (snd b) = de_child (fst b) \<and> shown_tree plan children (snd b)"
        "tree_root t \<in> set (dict_keys (tpl_nodes plan))"
      using less.prems branch_of_root [of plan children t] by (auto simp: Cons)
    have "e \<in> set (tree_edges children)" if "e \<in> set (map fst bs)" for e
    proof -
      have "(tree_root t, map fst bs) \<in> set children"
        using bs(2) by (auto simp: dict_lookup_def res_of_option_eq_Inr dest: map_of_SomeD)
      with that show ?thesis unfolding tree_edges_def by (metis UN_I in_set_conv_nth nth_map set_concat snd_conv list.set_map image_eqI)
    qed
    then have "succeeds (res_map (mermaid_edge_line ids) (map fst bs))"
      using assms(2) by (intro res_map_right) blast
    then obtain new where new: "res_map (mermaid_edge_line ids) (map fst bs) = Inr new"
      by (auto simp: succeeds_def)
    have "queue_size (ts' @ map snd bs) < queue_size ts"
      using queue_size_branch [of "tree_root t" bs ts'] bs(1) Cons by (simp add: queue_size_def)
    moreover have "\<forall>u \<in> set (ts' @ map snd bs). shown_tree plan children u" using bs(3) less.prems by (auto simp: Cons)
    ultimately have "returns (mermaid_edges_loop children ids (map tree_root (ts' @ map snd bs)) ls)" for ls
      using less.hyps by blast
    moreover have "map de_child (map fst bs) = map tree_root (map snd bs)" using bs(3) by simp
    ultimately have "returns (mermaid_edges_loop children ids (map tree_root ts' @ map de_child (map fst bs)) ls)" for ls
      by (simp only: map_append)
    then show ?thesis by (simp only: Cons list.map mermaid_edges_loop.simps [of _ _ "_ # _"] list.case sum.case bs(2) new)
  qed (simp add: mermaid_edges_loop.simps)
qed

subsection \<open>Drawing\<close>

lemma add_lines_succeed: "succeeds (add_horizontal y a b cv)" "succeeds (add_vertical x a b cv)"
  by (auto simp: add_horizontal_def add_vertical_def connect_cells_def intro!: res_fold_right)

lemma draw_succeeds: "succeeds (draw_box p cv)" "succeeds (draw_tree_edge p c e cv)"
  by (auto simp: draw_box_def draw_tree_edge_def Let_def intro!: res_bind_right add_lines_succeed)

lemma draw_tree_edges_succeed:
  assumes "parent \<in> set (dict_keys by_name)" "\<forall>e \<in> set edges. de_child e \<in> set (dict_keys by_name)"
  shows "succeeds (draw_tree_edges by_name (parent, edges) cv)"
  unfolding draw_tree_edges_def prod.case
  by (intro res_fold_right res_bind_right draw_succeeds) (use assms in \<open>auto simp only: dict_lookup_right\<close>)

text \<open>The parts of a component that the renderers look up.\<close>

definition drawable :: "topology_plan \<Rightarrow> display_component \<Rightarrow> bool" where
  "drawable plan c \<longleftrightarrow>
     (\<exists>t. tree_root t = dc_root c \<and> shown_tree plan (dc_children c) t) \<and>
     (\<forall>(p, es) \<in> set (dc_children c). \<forall>e \<in> set es. de_child e \<in> set (component_members c)) \<and>
     (\<forall>e \<in> set (tree_edges (dc_children c)). de_parent e \<in> set (dict_keys (tpl_nodes plan)) \<and>
       de_child e \<in> set (dict_keys (tpl_nodes plan))) \<and>
     (\<forall>l \<in> set (dc_cross_links c). ep_node (lk_left l) \<in> set (dict_keys (tpl_nodes plan)) \<and>
       ep_node (lk_right l) \<in> set (dict_keys (tpl_nodes plan)))"

lemma compiled_components_drawable:
  assumes "printable_plan plan" "build_display_forest plan = Inr components" "c \<in> set components"
  shows "drawable plan c"
proof -
  note c = compiled_components [OF assms]
  have links: "ep_node (lk_left l) \<in> set (dict_keys (tpl_nodes plan))" "ep_node (lk_right l) \<in> set (dict_keys (tpl_nodes plan))"
    if "l \<in> set (tpl_links plan)" for l
    using assms(1) that by (auto simp: printable_plan_def linked_plan_def)
  obtain t where t: "tree_of (dc_children c) t" "tree_root t = dc_root c" "mset (tree_nodes t) = mset (component_members c)"
    using c(1) by (auto simp: spanning_def)
  note nodes = mset_eq_setD [OF t(3)]
  have "de_child e \<in> set (component_members c)" if "(p, es) \<in> set (dc_children c)" "e \<in> set es" for p es e
  proof -
    have "dict_get (dc_children c) p = Some es" using that(1) c(3) by (simp add: component_members_def)
    moreover have "p \<in> set (tree_nodes t)" unfolding nodes component_members_def using that(1) by force
    ultimately show ?thesis using tree_closed [OF t(1)] that(2) nodes by blast
  qed
  moreover have "de_parent e \<in> set (dict_keys (tpl_nodes plan)) \<and> de_child e \<in> set (dict_keys (tpl_nodes plan))"
    if "e \<in> set (tree_edges (dc_children c))" for e
  proof -
    have "de_link e \<in> set (tpl_links plan)" "joins (de_link e) (de_parent e) (de_child e)"
      using that c(1) by (auto simp: spanning_def shows_link_def)
    then show ?thesis using links [of "de_link e"] unfolding joins_def by metis
  qed
  moreover have "set (dc_cross_links c) \<subseteq> set (tpl_links plan)" using c(4) by (simp add: shown_links_def)
  moreover have "shown_tree plan (dc_children c) t" using t(1) c(2) nodes by (simp only: shown_tree_def)
  ultimately show ?thesis using t(2) links unfolding drawable_def by blast
qed

lemma tree_component_returns:
  assumes "drawable plan c"
  shows "returns (tree_component_lines plan detail c)"
proof -
  obtain t where t: "tree_root t = dc_root c" "shown_tree plan (dc_children c) t" using assms by (auto simp: drawable_def)
  obtain ts where ts: "dict_lookup (dc_children c) (dc_root c) = Inr (map fst ts)"
      "\<forall>b \<in> set ts. tree_root (snd b) = de_child (fst b) \<and> shown_tree plan (dc_children c) (snd b)"
      "dc_root c \<in> set (dict_keys (tpl_nodes plan))"
    using branch_of_root [OF t(2)] unfolding t(1) by metis
  have "map (\<lambda>e. de_child (fst e)) (branch_entries (map fst ts) []) = map tree_root (map snd ts)"
    using ts(2) by (simp add: branch_entries_children)
  then have "returns (append_tree_children plan detail c (dc_root c) [] lines)" for lines
    using tree_lines_loop_returns [of "map snd ts"] ts(1,2) by (simp add: append_tree_children_def)
  moreover have "succeeds (dict_lookup (tpl_nodes plan) (dc_root c))" using ts(3) by (simp only: dict_lookup_right)
  ultimately show ?thesis unfolding tree_component_lines_def by (intro returns_bind) simp_all
qed

lemma box_component_returns:
  assumes "drawable plan c" "spanning (tpl_links plan) c" "set (component_members c) \<subseteq> set (dict_keys (tpl_nodes plan))"
    "distinct (component_members c)"
  shows "returns (render_box_component plan detail c)"
proof -
  obtain boxes ps where ps: "component_boxes plan detail c = Inr boxes" "place_component c boxes = Some (Inr ps)"
      "mset (map pl_node ps) = mset (component_members c)"
    using spanning_placed [OF assms(2-4), of detail] by blast
  let ?by_name = "dict_of (map (\<lambda>placement. (pl_node placement, placement)) ps)"
  have "set (dict_keys ?by_name) = set (map pl_node ps)" by (simp only: dict_keys_of map_map comp_def fst_conv)
  then have keys: "set (dict_keys ?by_name) = set (component_members c)" using mset_eq_setD [OF ps(3)] by (simp only:)
  have "succeeds (res_fold (draw_tree_edges ?by_name) (dc_children c) empty_canvas)"
  proof (rule res_fold_right)
    fix entry cv
    assume entry: "entry \<in> set (dc_children c)"
    obtain p es where pe: "entry = (p, es)" by (cases entry)
    have "p \<in> set (component_members c)" using entry by (force simp: pe component_members_def)
    moreover have "\<forall>e \<in> set es. de_child e \<in> set (component_members c)" using assms(1) entry by (auto simp: pe drawable_def)
    ultimately show "succeeds (draw_tree_edges ?by_name entry cv)"
      unfolding pe by (intro draw_tree_edges_succeed) (simp_all only: keys)
  qed
  then have "succeeds (res_bind (res_fold (draw_tree_edges ?by_name) (dc_children c) empty_canvas) (\<lambda>cv.
      res_bind (res_fold draw_box ps cv) (\<lambda>cv. Inr (render_canvas cv))))"
    by (intro res_bind_right) (auto intro!: res_bind_right res_fold_right draw_succeeds)
  then show ?thesis by (simp add: render_box_component_def ps Let_def)
qed

subsection \<open>Mermaid\<close>

lemma node_ids_keys [simp]: "set (dict_keys (node_ids plan)) = set (dict_keys (tpl_nodes plan))"
proof -
  have "map fst (node_ids plan) = map snd (enumerate 0 (dict_keys (tpl_nodes plan)))"
    unfolding node_ids_def map_map by (rule map_cong) (auto simp: comp_def)
  then show ?thesis by (simp only: map_snd_enumerate)
qed

lemma node_id_known: "n \<in> set (dict_keys (tpl_nodes plan)) \<Longrightarrow> succeeds (dict_lookup (node_ids plan) n)"
  by (simp only: dict_lookup_right node_ids_keys)

lemma mermaid_nodes_succeed:
  assumes "set xs \<subseteq> set (tpl_nodes plan)"
  shows "succeeds (res_map (\<lambda>(name, node). res_bind (dict_lookup (node_ids plan) name) (\<lambda>node_id. Inr (f node node_id))) xs)"
proof (rule res_map_right)
  fix entry
  assume "entry \<in> set xs"
  then have "fst entry \<in> set (dict_keys (tpl_nodes plan))" using assms by force
  then show "succeeds (case entry of (name, node) \<Rightarrow> res_bind (dict_lookup (node_ids plan) name) (\<lambda>node_id. Inr (f node node_id)))"
    unfolding case_prod_unfold by (intro res_bind_right node_id_known succeeds_simps)
qed

lemma mermaid_lines_succeed:
  "de_parent e \<in> set (dict_keys (tpl_nodes plan)) \<Longrightarrow> de_child e \<in> set (dict_keys (tpl_nodes plan)) \<Longrightarrow>
     succeeds (mermaid_edge_line (node_ids plan) e)"
  "ep_node (lk_left l) \<in> set (dict_keys (tpl_nodes plan)) \<Longrightarrow> ep_node (lk_right l) \<in> set (dict_keys (tpl_nodes plan)) \<Longrightarrow>
     succeeds (mermaid_cross_line (node_ids plan) l) \<and> succeeds (mermaid_link_line (node_ids plan) l)"
  unfolding mermaid_edge_line_def mermaid_cross_line_def mermaid_link_line_def
  by (intro conjI res_bind_right node_id_known succeeds_simps; assumption)+

lemma mermaid_component_returns:
  assumes "drawable plan c"
  shows "returns (append_mermaid_box_component plan (node_ids plan) c)"
proof -
  obtain t where t: "tree_root t = dc_root c" "shown_tree plan (dc_children c) t" using assms by (auto simp: drawable_def)
  have "\<forall>e \<in> set (tree_edges (dc_children c)). succeeds (mermaid_edge_line (node_ids plan) e)"
    using assms mermaid_lines_succeed(1) unfolding drawable_def by blast
  then have "returns (mermaid_edges_loop (dc_children c) (node_ids plan) [dc_root c] lines)" for lines
    using mermaid_edges_loop_returns [of "[t]"] t by simp
  moreover have "succeeds (res_map (mermaid_cross_line (node_ids plan)) (dc_cross_links c))"
    using assms mermaid_lines_succeed(2) unfolding drawable_def by (intro res_map_right) blast
  moreover have "succeeds (res_map (\<lambda>(name, node). res_bind (dict_lookup (node_ids plan) name) (\<lambda>node_id.
         Inr (plain ''    '' @ mermaid_box_node_line node node_id plan)))
       (filter (\<lambda>(name, node). name \<in> set (dict_keys (dc_children c))) (tpl_nodes plan)))"
    by (rule mermaid_nodes_succeed) auto
  ultimately show ?thesis unfolding append_mermaid_box_component_def by (intro returns_bind) simp_all
qed

lemma mermaid_returns:
  assumes "printable_plan plan" "build_display_forest plan = Inr components"
  shows "returns (render_mermaid plan)"
proof (cases "vxlan_nodes plan = []")
  case True
  have "succeeds (res_map (mermaid_link_line (node_ids plan)) (tpl_links plan))"
    using assms(1) mermaid_lines_succeed(2) unfolding printable_plan_def linked_plan_def by (intro res_map_right) blast
  then have "succeeds (res_bind (res_map (\<lambda>(name, node). res_bind (dict_lookup (node_ids plan) name) (\<lambda>node_id.
          Inr (plain ''    '' @ mermaid_node_line node node_id False))) (tpl_nodes plan)) (\<lambda>nodes.
        res_bind (res_map (mermaid_link_line (node_ids plan)) (tpl_links plan)) (\<lambda>links.
        Inr (line_text ([plain ''flowchart LR''] @ nodes @ links)))))"
    by (intro res_bind_right mermaid_nodes_succeed) simp_all
  then show ?thesis using True by (simp add: render_mermaid_def)
next
  case False
  have "returns (run_map (append_mermaid_box_component plan (node_ids plan)) components)"
    by (intro returns_map mermaid_component_returns compiled_components_drawable [OF assms])
  then have "returns (render_vxlan_mermaid plan)" unfolding render_vxlan_mermaid_def assms(2) by (intro returns_bind) simp_all
  then show ?thesis using False by (simp add: render_mermaid_def)
qed

subsection \<open>JSON\<close>

lemma json_text_succeeds: "json_able v \<Longrightarrow> succeeds (json_text x level v)"
proof (induction x level v rule: json_text.induct)
  case (8 x level d)
  have "succeeds (case fst p of PStr k \<Rightarrow> res_bind (json_text x (level + 1) (snd p)) (\<lambda>v. Inr (k, v))
       | _ \<Rightarrow> Inl (type_error ''keys must be str, int, float, bool or None''))" if p: "p \<in> set d" for p
  proof -
    obtain k where "fst p = PStr k" "json_able (snd p)" using "8.prems" p by auto
    then show ?thesis using "8.IH" [OF p] by (auto intro!: res_bind_right)
  qed
  then show ?case unfolding json_text.simps by (intro res_bind_right res_map_right) simp_all
qed (auto intro!: res_bind_right res_map_right)

definition json_items :: "(string \<times> pyobj) list \<Rightarrow> bool" where
  "json_items items \<longleftrightarrow> (\<forall>p \<in> set items. json_able (snd p))"

lemma json_able_pdict [simp]: "json_able (pdict d) = json_items d"
  by (auto simp: pdict_def json_items_def)

lemma json_items_simps [simp]: "json_items []" "json_items (p # items) \<longleftrightarrow> json_able (snd p) \<and> json_items items"
  "json_items (items @ items') \<longleftrightarrow> json_items items \<and> json_items items'"
  "json_items (opt_item k f v) \<longleftrightarrow> (\<forall>y. v = Some y \<longrightarrow> json_able (f y))"
  by (auto simp: json_items_def opt_item_def split: option.splits)

lemma json_able_parts [simp]: "json_able (addresses_document as)" "json_able (names_document ns)"
  "json_items (addresses_item as)" "json_able (pint_opt i)"
  by (auto simp: addresses_document_def names_document_def addresses_item_def pint_opt_def split: option.splits)

lemma json_able_device: "json_able (device_document d)"
  by (cases d) simp_all

lemma json_able_simple: "\<forall>v \<in> set (dict_values (sq_options q)). json_able v \<Longrightarrow> json_able (simple_document q)"
  by (auto simp: simple_document_def json_items_def dest!: subsetD [OF set_dict_update])

lemma json_able_qdisc:
  assumes "\<forall>v \<in> set (dict_values (qdisc_options q)). json_able v"
  shows "json_able (qdisc_document q)"
proof (cases q)
  case (HtbQdisc h)
  then show ?thesis using assms by (cases "htb_leaf h") (simp_all add: fq_codel_document_def json_able_simple)
qed (use assms in \<open>simp_all add: fq_codel_document_def json_able_simple\<close>)

lemma json_able_graph:
  assumes "printable_plan plan"
  shows "json_able (graph_document plan)"
proof -
  have "json_able (link_document link)" if "link \<in> set (tpl_links plan)" for link
    using assms that json_able_qdisc by (auto simp: link_document_def endpoint_document_def netem_document_def
      printable_plan_def printable_link_def)
  moreover have "json_able (node_document node)" for node
    by (simp add: node_document_def json_able_device)
  ultimately show ?thesis by (simp add: graph_document_def)
qed

subsection \<open>All formats\<close>

lemma render_tree_returns:
  assumes "printable_plan plan" "build_display_forest plan = Inr components"
  shows "returns (render_tree plan detail)"
proof -
  have "returns (run_map (tree_component_lines plan detail) components)"
    by (intro returns_map tree_component_returns compiled_components_drawable [OF assms])
  then show ?thesis unfolding render_tree_def assms(2) by (intro returns_bind) simp_all
qed

lemma render_box_returns:
  assumes "printable_plan plan" "build_display_forest plan = Inr components"
  shows "returns (render_box plan detail)"
proof -
  have "returns (render_box_component plan detail c)" if "c \<in> set components" for c
    using compiled_components [OF assms that] compiled_components_drawable [OF assms that] by (intro box_component_returns)
  then have "returns (run_map (\<lambda>component. run_bind (render_box_component plan detail component) (\<lambda>canvas.
       Some (Inr (line_text (canvas # cross_lines box_cross_link_line (dc_cross_links component)))))) components)"
    by (intro returns_map returns_bind) simp_all
  then show ?thesis unfolding render_box_def assms(2) by (intro returns_bind) simp_all
qed

text \<open>
  C27. Every supported format of a compiled plan is rendered: the loops over the display trees end, no
  lookup fails and no segment of a line joins cells that are apart. Any other format, and \<open>detail\<close> with a
  format that does not support it, is refused with its own error.
\<close>

theorem every_format_rendered:
  assumes "compile_plan x m name = Inr plan" and "distinct (dict_keys (tp_nodes (mf_topology m)))"
  shows "(if format \<notin> set [''tree'', ''box'', ''mermaid'', ''dot'', ''json''] then
      render_graph x plan format detail = Some (Inl (graph_format_invalid format))
    else if detail \<and> format \<notin> set [''tree'', ''box''] then
      render_graph x plan format detail = Some (Inl (graph_detail_unsupported format))
    else \<exists>text. render_graph x plan format detail = Some (Inr text))"
proof -
  have plan: "printable_plan plan" by (rule compiled_plan_printable [OF assms])
  then obtain components where "build_display_forest plan = Inr components"
    using display_forest_spans [of plan] by (auto simp: printable_plan_def)
  note forest = plan this
  have "returns (render_tree plan detail)" "returns (render_box plan detail)" "returns (render_mermaid plan)"
      "succeeds (render_json x plan)"
    using render_tree_returns [OF forest] render_box_returns [OF forest] mermaid_returns [OF forest]
      json_text_succeeds [OF json_able_graph [OF plan]] by (auto simp: render_json_def)
  then show ?thesis by (simp add: render_graph_def returns_def succeeds_def)
qed

theorem every_format_rendered_witness:
  "render_graph ring_ext ring_plan ''svg'' True = Some (Inl (graph_format_invalid ''svg'')) \<and>
    render_graph ring_ext ring_plan ''dot'' True = Some (Inl (graph_detail_unsupported ''dot'')) \<and>
    (\<exists>text. render_graph ring_ext ring_plan ''box'' True = Some (Inr text))"
  using every_format_rendered [OF ring_plan_compiled ring_manifest_distinct, of "''svg''" True]
    every_format_rendered [OF ring_plan_compiled ring_manifest_distinct, of "''dot''" True]
    every_format_rendered [OF ring_plan_compiled ring_manifest_distinct, of "''box''" True] by simp

end
