(* ===== verification/Routing.thy ===== *)
theory Routing
  imports Planner
begin

text \<open>
  The part of \<open>src/nslab/routing.py\<close> without effects: the FRR configuration of a node, the daemons it
  needs, the names and markers of the directories of a deployment, and the record of a process.
\<close>

section \<open>The configuration of a node\<close>

definition frr_daemons :: "string list" where
  "frr_daemons = [''zebra'', ''ospfd'', ''bgpd'', ''pimd'']"

fun address_int :: "ip_address \<Rightarrow> nat" where
  "address_int (IPv4Address w) = unat w"
| "address_int (IPv6Address w s) = unat w"

text \<open>
  \<open>sorted(networks, key=lambda network: (int(network.network_address), network.prefixlen))\<close>: a stable
  sort by the second component and then one by the first.
\<close>

definition sort_networks :: "ip_network list \<Rightarrow> ip_network list" where
  "sort_networks networks = sort_key (\<lambda>n. address_int (net_address n)) (sort_key net_prefixlen networks)"

definition connected_ipv4_networks :: "node_plan \<Rightarrow> ip_network list" where
  "connected_ipv4_networks node = sort_networks (dedup (map if_network
     (filter (\<lambda>address. if_version address = 4) (concat (dict_values (node_interface_addresses node))))))"

definition configured_or_connected :: "ip_network list \<Rightarrow> node_plan \<Rightarrow> ip_network list" where
  "configured_or_connected configured node =
     dedup (sort_networks (if configured \<noteq> [] then configured else connected_ipv4_networks node))"

definition routing_hostname :: "node_plan \<Rightarrow> string" where
  "routing_hostname node = ''nslab-'' @ nd_name node"

definition runs_ospf :: "node_plan \<Rightarrow> bool" where
  "runs_ospf node \<longleftrightarrow> (\<exists>r. nd_routing node = Some r \<and> rp_ospf r \<noteq> None)"

lemma runs_ospf_code [code]:
  "runs_ospf node = (case nd_routing node of None \<Rightarrow> False | Some r \<Rightarrow> rp_ospf r \<noteq> None)"
  by (auto simp: runs_ospf_def split: option.split)

definition point_to_point_link :: "topology_plan \<Rightarrow> node_plan \<Rightarrow> link_plan \<Rightarrow> string list" where
  "point_to_point_link plan node link =
     (let ends = (if ep_node (lk_left link) = nd_name node then Some (lk_left link, lk_right link)
        else if ep_node (lk_right link) = nd_name node then Some (lk_right link, lk_left link) else None)
      in case ends of
        None \<Rightarrow> []
      | Some (endpoint, peer) \<Rightarrow> (case dict_get (tpl_nodes plan) (ep_node peer) of
          None \<Rightarrow> []
        | Some peer_node \<Rightarrow>
            if nd_kind peer_node = LinuxKind \<and> runs_ospf peer_node then [ep_interface endpoint] else []))"

definition ospf_point_to_point_interfaces :: "node_plan \<Rightarrow> topology_plan option \<Rightarrow> string list" where
  "ospf_point_to_point_interfaces node plan_opt = (case plan_opt of
      None \<Rightarrow> []
    | Some plan \<Rightarrow> if \<not> runs_ospf node then []
        else dedup (concat (map (point_to_point_link plan node) (tpl_links plan))))"

definition ospf_lines :: "node_plan \<Rightarrow> topology_plan option \<Rightarrow> ospf_plan \<Rightarrow> string list" where
  "ospf_lines node plan_opt ospf =
     [''router ospf'', '' ospf router-id '' @ show_ipv4 (op_router_id ospf)] @
     map (\<lambda>network. '' network '' @ show_network network @ '' area '' @ show_ipv4 (op_area ospf))
       (configured_or_connected (op_networks ospf) node) @
     map (\<lambda>i. '' passive-interface '' @ i) (op_passive_interfaces ospf) @
     concat (map (\<lambda>i. [''interface '' @ i, '' ip ospf network point-to-point'', ''!''])
       (ospf_point_to_point_interfaces node plan_opt)) @
     [''!'', []]"

definition bgp_lines :: "node_plan \<Rightarrow> bgp_plan \<Rightarrow> string list" where
  "bgp_lines node bgp =
     [''router bgp '' @ show_int (bgp_local_as bgp), '' bgp router-id '' @ show_ipv4 (bgp_router_id bgp),
      '' no bgp ebgp-requires-policy'', '' bgp log-neighbor-changes''] @
     map (\<lambda>n. '' neighbor '' @ show_ipv4 (bnp_address n) @ '' remote-as '' @ show_int (bnp_remote_as n)) (bgp_neighbors bgp) @
     ['' address-family ipv4 unicast''] @
     map (\<lambda>network. ''  network '' @ show_network network) (configured_or_connected (bgp_networks bgp) node) @
     map (\<lambda>n. ''  neighbor '' @ show_ipv4 (bnp_address n) @ '' activate'') (bgp_neighbors bgp) @
     ['' exit-address-family'', ''!'', []]"

definition pim_lines :: "pim_plan \<Rightarrow> string list" where
  "pim_lines pim =
     [''ip pim rp '' @ show_ipv4 (pim_rp_address pim) @ '' 224.0.0.0/4'', ''!''] @
     concat (map (\<lambda>i. [''interface '' @ i, '' ip pim''] @
       (if i \<in> set (pim_igmp_interfaces pim) then ['' ip igmp''] else []) @ [''!'']) (pim_interfaces pim)) @
     [[]]"

definition opt_lines :: "('a \<Rightarrow> string list) \<Rightarrow> 'a option \<Rightarrow> string list" where
  "opt_lines f v = (case v of None \<Rightarrow> [] | Some x \<Rightarrow> f x)"

definition render_frr_config :: "node_plan \<Rightarrow> topology_plan option \<Rightarrow> string res" where
  "render_frr_config node plan_opt = (case nd_routing node of
      None \<Rightarrow> Inl (value_error (''node has no routing configuration: '' @ nd_name node))
    | Some routing \<Rightarrow> Inr (join [CHR 10] (
        [''frr defaults traditional'', ''hostname '' @ routing_hostname node, ''service integrated-vtysh-config'', ''!''] @
        opt_lines (ospf_lines node plan_opt) (rp_ospf routing) @
        opt_lines (bgp_lines node) (rp_bgp routing) @
        opt_lines pim_lines (rp_pim routing) @
        [''line vty'', []])))"

section \<open>Protocols and daemons\<close>

definition routing_protocols :: "routing_plan option \<Rightarrow> string list" where
  "routing_protocols routing = (case routing of
      None \<Rightarrow> []
    | Some r \<Rightarrow>
        (if rp_ospf r \<noteq> None then [''ospf''] else []) @
        (if rp_bgp r \<noteq> None then [''bgp''] else []) @
        (if rp_pim r \<noteq> None then [''pim''] else []))"

definition routing_daemons :: "routing_plan option \<Rightarrow> string list" where
  "routing_daemons routing = (case routing of
      None \<Rightarrow> []
    | Some r \<Rightarrow>
        (if rp_ospf r \<noteq> None then [''ospfd''] else []) @
        (if rp_bgp r \<noteq> None then [''bgpd''] else []) @
        (if rp_pim r \<noteq> None then [''pimd''] else []))"

definition routing_pathspace :: "topology_plan \<Rightarrow> node_plan \<Rightarrow> string" where
  "routing_pathspace plan node = ''nslab-'' @ tpl_name plan @ ''-'' @ nd_name node"

section \<open>Markers and records\<close>

record process_record =
  pr_daemon :: string
  pr_pid :: int

record routing_status =
  rs_node :: string
  rs_protocols :: "string list"
  rs_ready :: bool
  rs_pids :: "int list"

record frr_identity =
  fi_uid :: int
  fi_gid :: int

definition marker_file :: string where
  "marker_file = ''.nslab-marker''"

definition marker_text :: "string list \<Rightarrow> string" where
  "marker_text lines = concat (map (\<lambda>line. line @ [CHR 10]) lines)"

definition runtime_marker :: "topology_plan \<Rightarrow> string" where
  "runtime_marker plan = marker_text [''nslab-managed-runtime-v1'',
     ''name='' @ tpl_name plan, ''fingerprint='' @ tpl_fingerprint plan]"

definition runtime_node_marker :: "topology_plan \<Rightarrow> node_plan \<Rightarrow> string" where
  "runtime_node_marker plan node = marker_text [''nslab-managed-runtime-node-v1'',
     ''name='' @ tpl_name plan, ''node='' @ nd_name node, ''fingerprint='' @ tpl_fingerprint plan]"

definition state_marker :: "topology_plan \<Rightarrow> node_plan \<Rightarrow> string" where
  "state_marker plan node = marker_text [''nslab-managed-state-pathspace-v1'',
     ''name='' @ tpl_name plan, ''node='' @ nd_name node, ''pathspace='' @ routing_pathspace plan node,
     ''fingerprint='' @ tpl_fingerprint plan]"

definition vty_config_marker :: "topology_plan \<Rightarrow> node_plan \<Rightarrow> string" where
  "vty_config_marker plan node = marker_text [''nslab-managed-pathspace-v1'',
     ''name='' @ tpl_name plan, ''node='' @ nd_name node, ''fingerprint='' @ tpl_fingerprint plan]"

text \<open>\<open>type(pid) is int\<close> refuses a \<open>bool\<close>.\<close>

definition record_from_fields :: "pyobj option \<Rightarrow> pyobj option \<Rightarrow> process_record option" where
  "record_from_fields daemon pid = (case (daemon, pid) of
      (Some (PStr d), Some (PInt p)) \<Rightarrow>
        if d \<in> set frr_daemons \<and> 0 < p then Some \<lparr>pr_daemon = d, pr_pid = p\<rparr> else None
    | _ \<Rightarrow> None)"

end
