(* ===== verification/Frr_Host.thy ===== *)
theory Frr_Host
  imports Routing Graph_Json Store
begin

text \<open>
  The machine \<open>src/nslab/routing.py\<close> runs on: a file system, the processes, and a clock. Any system
  call may fail before or after its effect, as \<open>fh_faults\<close> says, and before any call other processes
  may act, as \<open>fh_events\<close> says: a process ends, a file appears or vanishes. The signals this process
  sends are noted in \<open>fh_signals\<close>, with whether it was \<open>SIGKILL\<close>, and the processes it creates in
  \<open>fh_spawned\<close>, with the name space they enter and their command line.

  A path is the list of its components. The code looks for a symbolic link before it follows a path,
  so links are not resolved. The tests of a path (\<open>lstat\<close>) do not fail.
\<close>

section \<open>Files\<close>

type_synonym path = "string list"

definition path_text :: "path \<Rightarrow> string" where
  "path_text path = (if path = [] then ''/'' else concat (map (\<lambda>c. ''/'' @ c) path))"

definition path_name :: "path \<Rightarrow> string" where
  "path_name path = (if path = [] then [] else last path)"

text \<open>
  What the bytes of a file give when they are read: the text, if they are ASCII, and the value
  \<open>json.load\<close> makes of them, if they are JSON.
\<close>

record file_bytes =
  fb_text :: "string option"
  fb_json :: "pyobj option"

datatype file_kind =
  RegularFile file_bytes
| Directory
| Symlink
| SpecialFile

record fs_node =
  fn_kind :: file_kind
  fn_mode :: int
  fn_owner :: "int \<times> int"

section \<open>Processes\<close>

text \<open>
  A process is in a process group. The end of a child leaves its exit code until it is polled for; the
  end of another process leaves nothing, since its parent reaps it.
\<close>

record os_process =
  op_group :: int
  op_child :: bool
  op_exit :: "int option"

datatype host_event =
  ProcessEnds int int
| FileAppears path fs_node
| FileVanishes path

record frr_host =
  fh_files :: "(path, fs_node) dict"
  fh_processes :: "(int, os_process) dict"
  fh_clock :: rat
  fh_calls :: nat
  fh_faults :: "nat \<Rightarrow> fault"
  fh_events :: "nat \<Rightarrow> host_event list"
  fh_random :: "nat \<Rightarrow> string"
  fh_pids :: "nat \<Rightarrow> int"
  fh_draws :: nat
  fh_signals :: "(int \<times> bool) list"
  fh_spawned :: "(string \<times> string list) list"

type_synonym 'a host_io = "(frr_host, 'a) io"

definition end_process :: "int \<Rightarrow> int \<Rightarrow> frr_host \<Rightarrow> frr_host" where
  "end_process pid code w = (case dict_get (fh_processes w) pid of
      None \<Rightarrow> w
    | Some p \<Rightarrow> w\<lparr>fh_processes := (if op_child p then dict_set pid (p\<lparr>op_exit := Some code\<rparr>) (fh_processes w)
        else dict_del pid (fh_processes w))\<rparr>)"

fun apply_event :: "host_event \<Rightarrow> frr_host \<Rightarrow> frr_host" where
  "apply_event (ProcessEnds pid code) w = end_process pid code w"
| "apply_event (FileAppears path node) w = w\<lparr>fh_files := dict_set path node (fh_files w)\<rparr>"
| "apply_event (FileVanishes path) w = w\<lparr>fh_files := dict_del path (fh_files w)\<rparr>"

definition next_moment :: "frr_host \<Rightarrow> frr_host" where
  "next_moment w = fold apply_event (fh_events w (fh_calls w)) (w\<lparr>fh_calls := fh_calls w + 1\<rparr>)"

definition host_call :: "'a host_io \<Rightarrow> 'a host_io" where
  "host_call act w = (case fh_faults w (fh_calls w) of
      NoFault \<Rightarrow> act (next_moment w)
    | FailBefore e \<Rightarrow> (Inl e, next_moment w)
    | FailAfter e \<Rightarrow> (Inl e, snd (act (next_moment w))))"

definition host_test :: "(frr_host \<Rightarrow> 'a) \<Rightarrow> 'a host_io" where
  "host_test f w = (Inr (f (next_moment w)), next_moment w)"

section \<open>Testing a path\<close>

definition kind_at :: "path \<Rightarrow> frr_host \<Rightarrow> file_kind option" where
  "kind_at path w = map_option fn_kind (dict_get (fh_files w) path)"

definition path_exists :: "path \<Rightarrow> bool host_io" where
  "path_exists path = host_test (\<lambda>w. kind_at path w \<noteq> None)"

definition is_symlink :: "path \<Rightarrow> bool host_io" where
  "is_symlink path = host_test (\<lambda>w. kind_at path w = Some Symlink)"

definition is_directory :: "path \<Rightarrow> bool host_io" where
  "is_directory path = host_test (\<lambda>w. kind_at path w = Some Directory)"

definition is_regular :: "file_kind option \<Rightarrow> bool" where
  "is_regular k = (case k of Some (RegularFile c) \<Rightarrow> True | _ \<Rightarrow> False)"

definition is_regular_file :: "path \<Rightarrow> bool host_io" where
  "is_regular_file path = host_test (\<lambda>w. is_regular (kind_at path w))"

text \<open>\<open>path.exists()\<close> follows a link; one that is met here leads nowhere.\<close>

definition target_exists :: "path \<Rightarrow> bool host_io" where
  "target_exists path = host_test (\<lambda>w. kind_at path w \<notin> {None, Some Symlink})"

definition child_names :: "path \<Rightarrow> frr_host \<Rightarrow> string list" where
  "child_names path w = map last (filter (\<lambda>p. p \<noteq> [] \<and> butlast p = path) (dict_keys (fh_files w)))"

text \<open>\<open>path.iterdir()\<close>\<close>

definition list_directory :: "path \<Rightarrow> path list host_io" where
  "list_directory path = host_call (\<lambda>w. case kind_at path w of
      None \<Rightarrow> (Inl (file_not_found (path_text path)), w)
    | Some Directory \<Rightarrow> (Inr (map (\<lambda>c. path @ [c]) (child_names path w)), w)
    | Some _ \<Rightarrow> (Inl (os_error ''NotADirectoryError'' (''[Errno 20] Not a directory: '' @ py_repr (path_text path)) 20), w))"

section \<open>Changing files\<close>

definition is_a_directory :: "path \<Rightarrow> exc" where
  "is_a_directory path = os_error ''IsADirectoryError'' (''[Errno 21] Is a directory: '' @ py_repr (path_text path)) 21"

definition put_node :: "path \<Rightarrow> fs_node \<Rightarrow> frr_host \<Rightarrow> frr_host" where
  "put_node path node w = w\<lparr>fh_files := dict_set path node (fh_files w)\<rparr>"

definition remove_node :: "path \<Rightarrow> frr_host \<Rightarrow> frr_host" where
  "remove_node path w = w\<lparr>fh_files := dict_del path (fh_files w)\<rparr>"

text \<open>A node as this process, running as root, creates it.\<close>

definition new_node :: "file_kind \<Rightarrow> int \<Rightarrow> fs_node" where
  "new_node k mode = \<lparr>fn_kind = k, fn_mode = mode, fn_owner = (0, 0)\<rparr>"

definition empty_bytes :: file_bytes where
  "empty_bytes = \<lparr>fb_text = Some [], fb_json = None\<rparr>"

text \<open>One step of \<open>path.mkdir(parents=True, exist_ok=True)\<close>.\<close>

definition make_directory :: "int \<Rightarrow> path \<Rightarrow> unit host_io" where
  "make_directory mode path = host_call (\<lambda>w. case kind_at path w of
      None \<Rightarrow> (Inr (), put_node path (new_node Directory mode) w)
    | Some Directory \<Rightarrow> (Inr (), w)
    | Some _ \<Rightarrow> (Inl (file_exists (path_text path)), w))"

definition ancestors :: "path \<Rightarrow> path list" where
  "ancestors path = map (\<lambda>n. take n path) [1..<length path]"

definition make_directories :: "path \<Rightarrow> int \<Rightarrow> unit host_io" where
  "make_directories path mode = io_seq (io_for (make_directory 511) (ancestors path)) (make_directory mode path)"

definition change_node :: "(fs_node \<Rightarrow> fs_node) \<Rightarrow> path \<Rightarrow> unit host_io" where
  "change_node f path = host_call (\<lambda>w. case dict_get (fh_files w) path of
      None \<Rightarrow> (Inl (file_not_found (path_text path)), w)
    | Some node \<Rightarrow> (Inr (), put_node path (f node) w))"

definition sys_chmod :: "path \<Rightarrow> int \<Rightarrow> unit host_io" where
  "sys_chmod path mode = change_node (\<lambda>node. node\<lparr>fn_mode := mode\<rparr>) path"

definition sys_chown :: "path \<Rightarrow> int \<Rightarrow> int \<Rightarrow> unit host_io" where
  "sys_chown path uid gid = change_node (\<lambda>node. node\<lparr>fn_owner := (uid, gid)\<rparr>) path"

text \<open>\<open>tempfile.mkstemp\<close>, as in \<open>Store\<close>.\<close>

definition create_exclusive :: "path \<Rightarrow> unit host_io" where
  "create_exclusive path = host_call (\<lambda>w. case kind_at path w of
      None \<Rightarrow> if kind_at (butlast path) w = Some Directory
        then (Inr (), put_node path (new_node (RegularFile empty_bytes) 384) w)
        else (Inl (file_not_found (path_text path)), w)
    | Some _ \<Rightarrow> (Inl (file_exists (path_text path)), w))"

definition draw_name :: "string host_io" where
  "draw_name w = (Inr (fh_random w (fh_draws w)), w\<lparr>fh_draws := fh_draws w + 1\<rparr>)"

fun make_temporary :: "nat \<Rightarrow> path \<Rightarrow> string \<Rightarrow> path host_io" where
  "make_temporary 0 directory prefix = io_raise (os_error ''FileExistsError''
     ''[Errno 17] No usable temporary file name found'' 17)"
| "make_temporary (Suc n) directory prefix =
     io_bind draw_name (\<lambda>characters.
     io_bind (io_attempt (create_exclusive (directory @ [prefix @ characters]))) (\<lambda>r. case r of
        Inl e \<Rightarrow> if exc_type_in [''FileExistsError''] e then make_temporary n directory prefix else io_raise e
      | Inr _ \<Rightarrow> io_return (directory @ [prefix @ characters])))"

text \<open>The body of \<open>with os.fdopen(...) as handle\<close>: the bytes are there once they are flushed.\<close>

definition write_bytes :: "path \<Rightarrow> file_bytes \<Rightarrow> unit host_io" where
  "write_bytes path content =
     io_seq (host_call (io_return ()))
    (io_seq (change_node (\<lambda>node. node\<lparr>fn_kind := RegularFile content\<rparr>) path)
    (io_seq (host_call (io_return ())) (host_call (io_return ()))))"

definition sys_rename :: "path \<Rightarrow> path \<Rightarrow> unit host_io" where
  "sys_rename source target = host_call (\<lambda>w. case dict_get (fh_files w) source of
      None \<Rightarrow> (Inl (file_not_found (path_text source)), w)
    | Some node \<Rightarrow> if kind_at target w = Some Directory then (Inl (is_a_directory target), w)
        else (Inr (), put_node target node (remove_node source w)))"

definition remove_file :: "path \<Rightarrow> unit host_io" where
  "remove_file path = host_call (\<lambda>w. if kind_at path w = None then (Inl (file_not_found (path_text path)), w)
     else (Inr (), remove_node path w))"

definition remove_directory :: "path \<Rightarrow> unit host_io" where
  "remove_directory path = host_call (\<lambda>w.
     if kind_at path w = None then (Inl (file_not_found (path_text path)), w)
     else if child_names path w \<noteq> []
       then (Inl (os_error ''OSError'' (''[Errno 39] Directory not empty: '' @ py_repr (path_text path)) 39), w)
     else (Inr (), remove_node path w))"

text \<open>\<open>shutil.rmtree\<close>: what is below the directory, what lies deeper first, and then the directory.\<close>

definition below :: "path \<Rightarrow> path \<Rightarrow> bool" where
  "below base path \<longleftrightarrow> take (length base) path = base"

definition tree_paths :: "path \<Rightarrow> frr_host \<Rightarrow> path list" where
  "tree_paths path w = rev (sort_key length (filter (below path) (dict_keys (fh_files w))))"

definition remove_entry :: "path \<Rightarrow> unit host_io" where
  "remove_entry path = io_bind (is_directory path) (\<lambda>d. if d then remove_directory path else remove_file path)"

definition remove_tree :: "path \<Rightarrow> unit host_io" where
  "remove_tree path =
     io_bind (host_call (\<lambda>w. (if kind_at path w = Some Directory then Inr (tree_paths path w)
       else Inl (file_not_found (path_text path)), w))) (\<lambda>paths.
     io_for remove_entry paths)"

section \<open>Reading files\<close>

definition read_bytes :: "path \<Rightarrow> file_bytes host_io" where
  "read_bytes path = host_call (\<lambda>w. (case kind_at path w of
      Some (RegularFile content) \<Rightarrow> Inr content
    | Some Directory \<Rightarrow> Inl (is_a_directory path)
    | Some SpecialFile \<Rightarrow> Inl (os_error ''OSError'' (''[Errno 6] No such device or address: '' @ py_repr (path_text path)) 6)
    | _ \<Rightarrow> Inl (file_not_found (path_text path)), w))"

definition read_ascii :: "path \<Rightarrow> string host_io" where
  "read_ascii path = io_bind (read_bytes path) (\<lambda>content. io_lift (case fb_text content of
      None \<Rightarrow> Inl (PyError ''UnicodeDecodeError'' ''ordinal not in range(128)'' None [])
    | Some text \<Rightarrow> Inr text))"

definition read_json :: "path \<Rightarrow> pyobj host_io" where
  "read_json path = io_bind (read_bytes path) (\<lambda>content. io_lift (case fb_json content of
      None \<Rightarrow> Inl (PyError ''JSONDecodeError'' ''Expecting value: line 1 column 1 (char 0)'' None [])
    | Some d \<Rightarrow> Inr d))"

text \<open>\<open>path.touch(mode)\<close> and \<open>path.open("ab")\<close>, which create a file that is not there.\<close>

definition create_or_keep :: "int \<Rightarrow> path \<Rightarrow> unit host_io" where
  "create_or_keep mode path = host_call (\<lambda>w. case kind_at path w of
      None \<Rightarrow> if kind_at (butlast path) w = Some Directory
        then (Inr (), put_node path (new_node (RegularFile empty_bytes) mode) w)
        else (Inl (file_not_found (path_text path)), w)
    | Some Directory \<Rightarrow> (Inl (is_a_directory path), w)
    | Some _ \<Rightarrow> (Inr (), w))"

section \<open>Processes and the clock\<close>

text \<open>A process that gets \<open>SIGKILL\<close> ends; one that gets \<open>SIGTERM\<close> ends by an event or not at all.\<close>

definition deliver :: "bool \<Rightarrow> int \<Rightarrow> frr_host \<Rightarrow> frr_host" where
  "deliver kill pid w =
     (let w1 = w\<lparr>fh_signals := fh_signals w @ [(pid, kill)]\<rparr> in if kill then end_process pid (-9) w1 else w1)"

definition no_such_process :: exc where
  "no_such_process = os_error ''ProcessLookupError'' ''[Errno 3] No such process'' 3"

definition sys_kill :: "int \<Rightarrow> bool \<Rightarrow> unit host_io" where
  "sys_kill pid kill = host_call (\<lambda>w. if dict_get (fh_processes w) pid = None then (Inl no_such_process, w)
     else (Inr (), deliver kill pid w))"

definition group_members :: "int \<Rightarrow> frr_host \<Rightarrow> int list" where
  "group_members g w = map fst (filter (\<lambda>(pid, p). op_group p = g) (fh_processes w))"

definition sys_killpg :: "int \<Rightarrow> bool \<Rightarrow> unit host_io" where
  "sys_killpg g kill = host_call (\<lambda>w. if group_members g w = [] then (Inl no_such_process, w)
     else (Inr (), fold (deliver kill) (group_members g w) w))"

text \<open>\<open>os.kill(pid, 0)\<close>: is there such a process; the end of a child that was not polled does not count.\<close>

definition sys_probe :: "int \<Rightarrow> unit host_io" where
  "sys_probe pid = host_call (\<lambda>w. (if dict_get (fh_processes w) pid = None then Inl no_such_process else Inr (), w))"

text \<open>
  \<open>process_factory(argv, start_new_session=True, preexec_fn=partial(namespace_setter, namespace), ...)\<close>: a
  child in the name space that leads a group of its own.
\<close>

definition spawn_process :: "string \<Rightarrow> string list \<Rightarrow> int host_io" where
  "spawn_process namespace argv = host_call (\<lambda>w. let pid = fh_pids w (fh_draws w) in
     (Inr pid, w\<lparr>fh_draws := fh_draws w + 1, fh_spawned := fh_spawned w @ [(namespace, argv)],
       fh_processes := dict_set pid \<lparr>op_group = pid, op_child = True, op_exit = None\<rparr> (fh_processes w)\<rparr>))"

text \<open>\<open>process.poll()\<close> reaps a child that has ended.\<close>

definition poll_process :: "int \<Rightarrow> int option host_io" where
  "poll_process pid = host_call (\<lambda>w. case dict_get (fh_processes w) pid of
      None \<Rightarrow> (Inr (Some 0), w)
    | Some p \<Rightarrow> (case op_exit p of
          None \<Rightarrow> (Inr None, w)
        | Some code \<Rightarrow> (Inr (Some code), w\<lparr>fh_processes := dict_del pid (fh_processes w)\<rparr>)))"

definition sleep_for :: "rat \<Rightarrow> unit host_io" where
  "sleep_for seconds = host_call (io_modify (\<lambda>w. w\<lparr>fh_clock := fh_clock w + seconds\<rparr>))"

end
