(* ===== verification/Frr_Runtime.thy ===== *)
theory Frr_Runtime
  imports Frr_Host
begin

text \<open>
  \<open>FrrRuntime\<close> of \<open>src/nslab/routing.py\<close>: the directories of a deployment with the markers that say whose
  they are, the start of the FRR daemons of every node, their status, and stopping them. The accounts,
  the lookup of the daemons and the effective user are fields of \<open>frr_runtime\<close>.
\<close>

section \<open>The runtime\<close>

record account =
  ac_uid :: int
  ac_gid :: int
  ac_name :: string

record account_group =
  ag_gid :: int
  ag_members :: "string list"

record frr_runtime =
  rt_ext :: ext
  rt_runtime_root :: path
  rt_state_root :: path
  rt_config_root :: path
  rt_resolver :: "string \<Rightarrow> string option"
  rt_startup_timeout :: rat
  rt_stop_timeout :: rat
  rt_require_socket :: bool
  rt_user :: string
  rt_group :: string
  rt_euid :: int
  rt_accounts :: "string \<Rightarrow> account option"
  rt_groups :: "string \<Rightarrow> account_group option"

text \<open>The time limits the constructor keeps.\<close>

definition with_timeouts :: "rat \<Rightarrow> rat \<Rightarrow> frr_runtime \<Rightarrow> frr_runtime" where
  "with_timeouts startup stop rt = rt\<lparr>rt_startup_timeout := max 0 startup, rt_stop_timeout := max 0 stop\<rparr>"

definition deployment_dir :: "frr_runtime \<Rightarrow> topology_plan \<Rightarrow> path" where
  "deployment_dir rt plan = rt_runtime_root rt @ [tpl_name plan]"

definition node_dir :: "frr_runtime \<Rightarrow> topology_plan \<Rightarrow> node_plan \<Rightarrow> path" where
  "node_dir rt plan node = deployment_dir rt plan @ [nd_name node]"

definition metadata_path :: "frr_runtime \<Rightarrow> topology_plan \<Rightarrow> node_plan \<Rightarrow> path" where
  "metadata_path rt plan node = node_dir rt plan node @ [''processes.json'']"

definition state_dir :: "frr_runtime \<Rightarrow> topology_plan \<Rightarrow> node_plan \<Rightarrow> path" where
  "state_dir rt plan node = rt_state_root rt @ [routing_pathspace plan node]"

definition vty_config_dir :: "frr_runtime \<Rightarrow> topology_plan \<Rightarrow> node_plan \<Rightarrow> path" where
  "vty_config_dir rt plan node = rt_config_root rt @ [routing_pathspace plan node]"

definition marker_path :: "path \<Rightarrow> path" where
  "marker_path directory = directory @ [marker_file]"

definition routing_nodes :: "topology_plan \<Rightarrow> node_plan list" where
  "routing_nodes plan = filter (\<lambda>node. nd_routing node \<noteq> None) (plan_nodes plan)"

section \<open>Errors\<close>

definition invalid_path :: "path \<Rightarrow> string \<Rightarrow> exc" where
  "invalid_path path description = NslabError ''ROUTING_RUNTIME_INVALID''
     (description @ '': '' @ path_text path) [(''path'', PStr (path_text path))]"

definition conflicting_path :: "path \<Rightarrow> string \<Rightarrow> exc" where
  "conflicting_path path description = NslabError ''ROUTING_RUNTIME_CONFLICT''
     (description @ '': '' @ path_text path) [(''path'', PStr (path_text path))]"

definition runtime_failure :: "string \<Rightarrow> path \<Rightarrow> exc \<Rightarrow> exc" where
  "runtime_failure text path e = NslabError ''ROUTING_RUNTIME_INVALID''
     (text @ '': '' @ path_text path) [(''path'', PStr (path_text path)), (''error'', PStr (exc_text e))]"

text \<open>\<open>except OSError as error: raise NslabError(...) from error\<close>\<close>

definition wrap_os_error :: "(exc \<Rightarrow> exc) \<Rightarrow> 'a host_io \<Rightarrow> 'a host_io" where
  "wrap_os_error f m = io_bind (io_attempt m) (\<lambda>r. case r of
      Inl e \<Rightarrow> io_raise (if is_os_error e then f e else e)
    | Inr x \<Rightarrow> io_return x)"

text \<open>\<open>if condition: raise error\<close>\<close>

definition refuse_if :: "bool host_io \<Rightarrow> exc \<Rightarrow> unit host_io" where
  "refuse_if test e = io_bind test (\<lambda>b. if b then io_raise e else io_return ())"

section \<open>Markers\<close>

text \<open>\<open>_read_matching_marker\<close> with \<open>required\<close>, the only way it is called.\<close>

definition read_matching_marker :: "path \<Rightarrow> string \<Rightarrow> unit host_io" where
  "read_matching_marker directory expected =
     (let marker = marker_path directory in
      io_seq (refuse_if (is_symlink marker) (invalid_path marker ''routing runtime marker is a symlink''))
     (io_bind (path_exists marker) (\<lambda>present.
      if \<not> present then io_raise (conflicting_path directory ''routing pathspace is not managed by nslab'')
      else io_bind (is_regular_file marker) (\<lambda>regular.
      if \<not> regular then io_raise (invalid_path marker ''routing runtime marker is not a regular file'')
      else io_bind (io_attempt (read_ascii marker)) (\<lambda>r. case r of
         Inl e \<Rightarrow> io_raise (if is_os_error e \<or> is_unicode_error e
           then runtime_failure ''cannot read routing runtime marker'' marker e else e)
       | Inr current \<Rightarrow> if current \<noteq> expected
           then io_raise (conflicting_path directory ''routing pathspace is owned by another configuration'')
           else io_return ())))))"

definition frr_ensure_directory :: "path \<Rightarrow> unit host_io" where
  "frr_ensure_directory path =
     io_seq (refuse_if (is_symlink path) (invalid_path path ''routing runtime path is a symlink''))
    (io_bind (path_exists path) (\<lambda>present.
     io_bind (if present then is_directory path else io_return True) (\<lambda>directory.
     if \<not> directory then io_raise (invalid_path path ''routing runtime path is not a directory'')
     else wrap_os_error (runtime_failure ''failed to prepare routing runtime directory'' path)
       (io_seq (make_directories path 493) (sys_chmod path 493)))))"

text \<open>
  \<open>_write_text\<close>: the temporary file is replaced or, whatever happened, removed; errors of the removal
  are suppressed.
\<close>

definition fill_and_replace :: "path \<Rightarrow> file_bytes \<Rightarrow> int \<Rightarrow> path \<Rightarrow> unit host_io" where
  "fill_and_replace path content mode temporary =
     io_seq (write_bytes temporary content)
    (io_seq (sys_chmod temporary mode)
    (io_seq (refuse_if (is_symlink path) (invalid_path path ''routing runtime file is a symlink''))
            (sys_rename temporary path)))"

definition write_temporary :: "path \<Rightarrow> file_bytes \<Rightarrow> int \<Rightarrow> (unit res \<times> path option) host_io" where
  "write_temporary path content mode =
     io_bind (io_attempt (make_temporary tmp_max (butlast path) (''.'' @ path_name path @ ''.tmp-''))) (\<lambda>r. case r of
        Inl e \<Rightarrow> io_return (Inl e, None)
      | Inr temporary \<Rightarrow> io_bind (io_attempt (fill_and_replace path content mode temporary)) (\<lambda>r. case r of
          Inl e \<Rightarrow> io_return (Inl e, Some temporary)
        | Inr _ \<Rightarrow> io_return (Inr (), None)))"

definition remove_leftover :: "path option \<Rightarrow> unit host_io" where
  "remove_leftover temporary_opt = (case temporary_opt of
      None \<Rightarrow> io_return ()
    | Some temporary \<Rightarrow> io_bind (path_exists temporary) (\<lambda>present.
        if \<not> present then io_return ()
        else io_bind (io_attempt (remove_file temporary)) (\<lambda>r. case r of
            Inl e \<Rightarrow> if is_os_error e then io_return () else io_raise e
          | Inr _ \<Rightarrow> io_return ())))"

definition write_file :: "path \<Rightarrow> file_bytes \<Rightarrow> int \<Rightarrow> unit host_io" where
  "write_file path content mode =
     io_seq (refuse_if (is_symlink path) (invalid_path path ''routing runtime file is a symlink''))
    (io_bind (write_temporary path content mode) (\<lambda>(outcome, leftover).
     io_seq (remove_leftover leftover)
     (io_lift (case outcome of
        Inl e \<Rightarrow> if is_nslab_error e then Inl e
          else if is_os_error e then Inl (runtime_failure ''failed to write routing runtime file'' path e) else Inl e
      | Inr _ \<Rightarrow> Inr ()))))"

text \<open>The bytes of a text that is not JSON: the markers and configurations all start with a letter.\<close>

definition text_bytes :: "string \<Rightarrow> file_bytes" where
  "text_bytes text = \<lparr>fb_text = (if list_all (\<lambda>c. (of_char c :: nat) < 128) text then Some text else None), fb_json = None\<rparr>"

definition write_text :: "path \<Rightarrow> string \<Rightarrow> unit host_io" where
  "write_text path text = write_file path (text_bytes text) 416"

definition prepare_owned :: "string \<Rightarrow> path \<Rightarrow> frr_identity option \<Rightarrow> int \<Rightarrow> unit host_io" where
  "prepare_owned failure path identity mode = (case identity of
      None \<Rightarrow> io_return ()
    | Some i \<Rightarrow>
        io_seq (refuse_if (is_symlink path) (invalid_path path ''cannot change ownership of symlink''))
        (wrap_os_error (runtime_failure failure path)
          (io_seq (sys_chown path (fi_uid i) (fi_gid i)) (sys_chmod path mode))))"

definition prepare_owned_directory :: "path \<Rightarrow> frr_identity option \<Rightarrow> unit host_io" where
  "prepare_owned_directory path identity =
     prepare_owned ''failed to prepare FRRouting runtime directory'' path identity 493"

definition prepare_owned_file :: "path \<Rightarrow> frr_identity option \<Rightarrow> int \<Rightarrow> unit host_io" where
  "prepare_owned_file path identity mode =
     prepare_owned ''failed to prepare FRRouting runtime file'' path identity mode"

definition prepare_managed_directory :: "path \<Rightarrow> string \<Rightarrow> frr_identity option \<Rightarrow> unit host_io" where
  "prepare_managed_directory path marker identity =
     io_bind (path_exists path) (\<lambda>existed.
     io_seq (frr_ensure_directory path)
    (io_seq (if existed then read_matching_marker path marker else write_text (marker_path path) marker)
    (io_seq (prepare_owned_directory path identity)
            (prepare_owned_file (marker_path path) identity 416))))"

definition validate_managed_directory :: "path \<Rightarrow> string \<Rightarrow> bool host_io" where
  "validate_managed_directory path marker =
     io_bind (path_exists path) (\<lambda>present.
     if \<not> present then io_return False
     else io_seq (refuse_if (is_symlink path) (invalid_path path ''routing pathspace is a symlink''))
      (io_bind (is_directory path) (\<lambda>directory.
       if \<not> directory then io_raise (invalid_path path ''routing pathspace is not a directory'')
       else io_seq (read_matching_marker path marker) (io_return True))))"

section \<open>What is there of a deployment\<close>

text \<open>\<open>all(...)\<close> and \<open>any(...)\<close> over tests that take a system call each.\<close>

fun io_all :: "('a \<Rightarrow> bool host_io) \<Rightarrow> 'a list \<Rightarrow> bool host_io" where
  "io_all f [] = io_return True"
| "io_all f (x # xs) = io_bind (f x) (\<lambda>b. if b then io_all f xs else io_return False)"

fun io_any :: "('a \<Rightarrow> bool host_io) \<Rightarrow> 'a list \<Rightarrow> bool host_io" where
  "io_any f [] = io_return False"
| "io_any f (x # xs) = io_bind (f x) (\<lambda>b. if b then io_return True else io_any f xs)"

definition legacy_files :: "string list" where
  "legacy_files = [''processes.json'', ''frr.conf'', ''zebra.api'', ''zebra.pid'', ''ospfd.pid'', ''bgpd.pid'',
     ''zebra.log'', ''ospfd.log'', ''bgpd.log'']"

definition ends_with_pid :: "string \<Rightarrow> bool" where
  "ends_with_pid name \<longleftrightarrow> 4 \<le> length name \<and> drop (length name - 4) name = ''.pid''"

definition legacy_item :: "path \<Rightarrow> bool host_io" where
  "legacy_item item = io_bind (is_symlink item) (\<lambda>symlink.
     if symlink \<or> path_name item \<notin> set legacy_files then io_return False
     else io_bind (is_directory item) (\<lambda>directory. io_return (\<not> directory)))"

definition legacy_runtime_node_safe :: "path \<Rightarrow> bool host_io" where
  "legacy_runtime_node_safe path =
     io_bind (is_symlink path) (\<lambda>symlink.
     if symlink then io_return False
     else io_bind (is_directory path) (\<lambda>directory.
     if \<not> directory then io_return False
     else io_bind (list_directory path) (\<lambda>children.
     if \<not> list_ex (\<lambda>item. ends_with_pid (path_name item)) children then io_return False
     else io_all legacy_item children)))"

definition expected_nodes :: "topology_plan \<Rightarrow> string list" where
  "expected_nodes plan = map nd_name (routing_nodes plan)"

text \<open>A child of a deployment directory that has a marker.\<close>

definition check_runtime_child :: "topology_plan \<Rightarrow> path \<Rightarrow> unit host_io" where
  "check_runtime_child plan child =
     (if path_name child = marker_file then io_return ()
      else if path_name child \<notin> set (expected_nodes plan)
        then io_raise (conflicting_path child ''unexpected routing runtime path'')
      else io_seq (refuse_if (is_symlink child) (invalid_path child ''routing runtime node path is a symlink''))
       (io_bind (is_directory child) (\<lambda>directory. if directory then io_return ()
        else io_raise (invalid_path child ''routing runtime node path is not a directory''))))"

definition unsafe_child :: "path \<Rightarrow> bool host_io" where
  "unsafe_child child = io_bind (legacy_runtime_node_safe child) (\<lambda>safe. io_return (\<not> safe))"

text \<open>Whether the deployment directory is one of the time before markers.\<close>

definition validate_runtime_artifacts :: "frr_runtime \<Rightarrow> topology_plan \<Rightarrow> bool host_io" where
  "validate_runtime_artifacts rt plan =
     (let dir = deployment_dir rt plan; marker = marker_path dir in
      io_bind (path_exists dir) (\<lambda>present.
      if \<not> present then io_return False
      else io_seq (refuse_if (is_symlink dir) (invalid_path dir ''routing pathspace is a symlink''))
       (io_bind (is_directory dir) (\<lambda>directory.
        if \<not> directory then io_raise (invalid_path dir ''routing pathspace is not a directory'')
        else io_seq (refuse_if (is_symlink marker) (invalid_path marker ''routing runtime marker is a symlink''))
         (io_bind (path_exists marker) (\<lambda>marked.
          if marked then
            io_seq (read_matching_marker dir (runtime_marker plan))
           (io_bind (list_directory dir) (\<lambda>children.
            io_seq (io_for (check_runtime_child plan) children) (io_return False)))
          else io_bind (list_directory dir) (\<lambda>children.
            io_bind (if children = [] \<or> \<not> set (map path_name children) \<subseteq> set (expected_nodes plan)
              then io_return True else io_any unsafe_child children) (\<lambda>conflict.
            if conflict then io_raise (conflicting_path dir ''routing runtime is not managed by nslab'')
            else io_return True))))))))"

definition refuse_symlinks :: "path \<Rightarrow> unit host_io" where
  "refuse_symlinks dir = io_bind (path_exists dir) (\<lambda>present.
     if \<not> present then io_return ()
     else io_bind (list_directory dir) (io_for (\<lambda>child.
       refuse_if (is_symlink child) (invalid_path child ''routing runtime file is a symlink''))))"

text \<open>The directory of a node in the deployment, which has a marker unless it is older than markers.\<close>

definition validate_node_runtime :: "frr_runtime \<Rightarrow> topology_plan \<Rightarrow> bool \<Rightarrow> node_plan \<Rightarrow> unit host_io" where
  "validate_node_runtime rt plan legacy node =
     (let dir = node_dir rt plan node in
      if \<not> legacy then io_seq (validate_managed_directory dir (runtime_node_marker plan node)) (io_return ())
      else io_bind (path_exists dir) (\<lambda>present.
        if \<not> present then io_return ()
        else io_bind (legacy_runtime_node_safe dir) (\<lambda>safe. if safe then io_return ()
          else io_raise (conflicting_path dir ''routing runtime is not managed by nslab''))))"

definition validate_node_artifacts :: "frr_runtime \<Rightarrow> topology_plan \<Rightarrow> bool \<Rightarrow> node_plan \<Rightarrow> unit host_io" where
  "validate_node_artifacts rt plan legacy node =
     io_seq (validate_node_runtime rt plan legacy node)
    (io_seq (refuse_symlinks (node_dir rt plan node))
    (io_seq (validate_managed_directory (state_dir rt plan node) (state_marker plan node))
    (io_seq (validate_managed_directory (vty_config_dir rt plan node) (vty_config_marker plan node))
            (io_return ()))))"

definition validate_artifacts :: "frr_runtime \<Rightarrow> topology_plan \<Rightarrow> bool host_io" where
  "validate_artifacts rt plan =
     io_bind (validate_runtime_artifacts rt plan) (\<lambda>legacy.
     io_seq (io_for (validate_node_artifacts rt plan legacy) (routing_nodes plan)) (io_return legacy))"

definition has_artifacts :: "frr_runtime \<Rightarrow> topology_plan \<Rightarrow> bool host_io" where
  "has_artifacts rt plan =
     io_bind (path_exists (deployment_dir rt plan)) (\<lambda>present.
     if present then io_return True
     else io_any (\<lambda>node. io_bind (path_exists (state_dir rt plan node)) (\<lambda>present.
       if present then io_return True else path_exists (vty_config_dir rt plan node))) (routing_nodes plan))"

section \<open>Which processes run\<close>

text \<open>
  \<open>int(path.read_text(encoding="ascii").strip())\<close>: a decimal numeral with an optional sign and single
  underscores between digits; a \<open>ValueError\<close> otherwise.
\<close>

fun numeral_digits :: "string \<Rightarrow> string option" where
  "numeral_digits [] = None"
| "numeral_digits [c] = (if is_digit c then Some [c] else None)"
| "numeral_digits (c # d # s) =
     (if \<not> is_digit c then None
      else if d = CHR 0x5F then map_option (\<lambda>ds. c # ds) (numeral_digits s)
      else map_option (\<lambda>ds. c # ds) (numeral_digits (d # s)))"

definition read_unsigned :: "string \<Rightarrow> int option" where
  "read_unsigned s = (case numeral_digits s of
      None \<Rightarrow> None
    | Some ds \<Rightarrow> (case py_int ds of Inl e \<Rightarrow> None | Inr i \<Rightarrow> Some i))"

definition read_numeral :: "string \<Rightarrow> int option" where
  "read_numeral text = (case strip text of
      [] \<Rightarrow> None
    | c # s \<Rightarrow> if c = CHR ''-'' then map_option uminus (read_unsigned s)
        else if c = CHR ''+'' then read_unsigned s else read_unsigned (c # s))"

definition pid_path :: "path \<Rightarrow> string \<Rightarrow> path" where
  "pid_path dir daemon = dir @ [daemon @ ''.pid'']"

text \<open>What a pid file says; \<open>None\<close> if it cannot be read.\<close>

definition read_pid_file :: "path \<Rightarrow> string \<Rightarrow> int option host_io" where
  "read_pid_file dir daemon =
     io_bind (is_symlink (pid_path dir daemon)) (\<lambda>symlink.
     if symlink then io_return None
     else io_bind (io_attempt (read_ascii (pid_path dir daemon))) (\<lambda>r. case r of
        Inl e \<Rightarrow> if is_os_error e \<or> is_unicode_error e \<or> is_value_error e then io_return None else io_raise e
      | Inr text \<Rightarrow> io_return (read_numeral text)))"

definition add_pid_record :: "path \<Rightarrow> string \<Rightarrow> process_record list \<Rightarrow> process_record list host_io" where
  "add_pid_record dir daemon records =
     io_bind (read_pid_file dir daemon) (\<lambda>pid. io_return (case pid of
        None \<Rightarrow> records
      | Some p \<Rightarrow> if 0 < p \<and> daemon \<notin> pr_daemon ` set records
          then records @ [\<lparr>pr_daemon = daemon, pr_pid = p\<rparr>] else records))"

fun document_get :: "string \<Rightarrow> pyobj \<Rightarrow> pyobj option" where
  "document_get k (PDict d) = dict_get d (PStr k)"
| "document_get k _ = None"

fun list_items :: "pyobj option \<Rightarrow> pyobj list option" where
  "list_items (Some (PList vs)) = Some vs"
| "list_items _ = None"

fun is_dict :: "pyobj \<Rightarrow> bool" where
  "is_dict (PDict d) = True"
| "is_dict _ = False"

definition record_of :: "pyobj \<Rightarrow> process_record option" where
  "record_of raw = (if is_dict raw then record_from_fields (document_get ''daemon'' raw) (document_get ''pid'' raw) else None)"

text \<open>The records of a metadata document, the first of each daemon.\<close>

definition document_records :: "pyobj option \<Rightarrow> process_record list" where
  "document_records document = (case document of
      None \<Rightarrow> []
    | Some d \<Rightarrow> if \<not> is_dict d then [] else (case list_items (document_get ''processes'' d) of
          None \<Rightarrow> []
        | Some raws \<Rightarrow> fold (\<lambda>raw records. case record_of raw of
              None \<Rightarrow> records
            | Some r \<Rightarrow> if pr_daemon r \<in> pr_daemon ` set records then records else records @ [r]) raws []))"

definition read_metadata :: "path \<Rightarrow> pyobj option host_io" where
  "read_metadata path =
     io_bind (is_symlink path) (\<lambda>symlink.
     if symlink then io_return None
     else io_bind (io_attempt (read_json path)) (\<lambda>r. case r of
        Inl e \<Rightarrow> if is_os_error e \<or> is_unicode_error e \<or> exc_type_in [''JSONDecodeError''] e then io_return None else io_raise e
      | Inr document \<Rightarrow> io_return (Some document)))"

definition read_records :: "frr_runtime \<Rightarrow> topology_plan \<Rightarrow> node_plan \<Rightarrow> process_record list host_io" where
  "read_records rt plan node =
     (let dir = node_dir rt plan node in
      io_bind (is_symlink dir) (\<lambda>symlink.
      if symlink then io_return []
      else io_bind (is_directory dir) (\<lambda>directory.
      if \<not> directory then io_return []
      else io_bind (read_metadata (metadata_path rt plan node)) (\<lambda>document.
        io_fold (add_pid_record dir) frr_daemons (document_records document)))))"

definition required_daemons :: "node_plan \<Rightarrow> string list" where
  "required_daemons node = ''zebra'' # routing_daemons (nd_routing node)"

text \<open>The records of a valid list of processes: one of each required daemon.\<close>

fun expected_records :: "string list \<Rightarrow> pyobj list \<Rightarrow> process_record list \<Rightarrow> process_record list option" where
  "expected_records expected [] records = Some records"
| "expected_records expected (item # items) records = (case record_of item of
      None \<Rightarrow> None
    | Some r \<Rightarrow> if pr_daemon r \<notin> set expected \<or> pr_daemon r \<in> pr_daemon ` set records then None
        else expected_records expected items (records @ [r]))"

text \<open>\<open>document.get(key) == value\<close>\<close>

definition field_is :: "pyobj \<Rightarrow> string \<Rightarrow> pyobj \<Rightarrow> bool" where
  "field_is document key v = (case document_get key document of None \<Rightarrow> False | Some u \<Rightarrow> py_eq u v)"

definition metadata_document_matches :: "topology_plan \<Rightarrow> node_plan \<Rightarrow> pyobj \<Rightarrow> bool" where
  "metadata_document_matches plan node document \<longleftrightarrow>
     is_dict document \<and> field_is document ''version'' (PInt 1) \<and>
     field_is document ''fingerprint'' (PStr (tpl_fingerprint plan)) \<and>
     field_is document ''node'' (PStr (nd_name node)) \<and> field_is document ''namespace'' (PStr (nd_namespace node)) \<and>
     field_is document ''pathspace'' (PStr (routing_pathspace plan node)) \<and>
     field_is document ''protocols'' (PList (map PStr (routing_protocols (nd_routing node)))) \<and>
     (case list_items (document_get ''processes'' document) of
        None \<Rightarrow> False
      | Some items \<Rightarrow> (case expected_records (required_daemons node) items [] of
            None \<Rightarrow> False
          | Some records \<Rightarrow> length records = length (required_daemons node) \<and>
              set (map pr_daemon records) = set (required_daemons node)))"

text \<open>The part of \<open>_metadata_matches\<close> that raises \<open>NslabError\<close>, whether or not all directories are there.\<close>

definition managed_directories_present :: "frr_runtime \<Rightarrow> topology_plan \<Rightarrow> node_plan \<Rightarrow> bool host_io" where
  "managed_directories_present rt plan node =
     io_bind (path_exists (deployment_dir rt plan)) (\<lambda>present.
     if \<not> present then io_return False
     else io_seq (validate_runtime_artifacts rt plan)
      (io_bind (validate_managed_directory (node_dir rt plan node) (runtime_node_marker plan node)) (\<lambda>node_present.
       if \<not> node_present then io_return False
       else io_bind (validate_managed_directory (state_dir rt plan node) (state_marker plan node)) (\<lambda>state_present.
       if \<not> state_present then io_return False
       else io_bind (path_exists (vty_config_dir rt plan node)) (\<lambda>config_present.
       if config_present
       then io_seq (validate_managed_directory (vty_config_dir rt plan node) (vty_config_marker plan node)) (io_return True)
       else io_return True)))))"

definition metadata_matches :: "frr_runtime \<Rightarrow> topology_plan \<Rightarrow> node_plan \<Rightarrow> bool host_io" where
  "metadata_matches rt plan node =
     io_bind (io_attempt (managed_directories_present rt plan node)) (\<lambda>r. case r of
        Inl e \<Rightarrow> if is_nslab_error e then io_return False else io_raise e
      | Inr present \<Rightarrow> if \<not> present then io_return False
          else io_bind (read_metadata (metadata_path rt plan node)) (\<lambda>document. io_return (case document of
             None \<Rightarrow> False | Some d \<Rightarrow> metadata_document_matches plan node d)))"

definition pid_exists :: "int \<Rightarrow> bool host_io" where
  "pid_exists pid =
     (if pid \<le> 0 then io_return False
      else io_bind (io_attempt (sys_probe pid)) (\<lambda>r. case r of
         Inr _ \<Rightarrow> io_return True
       | Inl e \<Rightarrow> if exc_type_in [''ProcessLookupError''] e then io_return False
           else if exc_type_in [''PermissionError''] e then io_return True
           else if is_os_error e then io_return (errno_of e \<noteq> Some 3) else io_raise e))"

definition status_for_node :: "frr_runtime \<Rightarrow> topology_plan \<Rightarrow> node_plan \<Rightarrow> routing_status host_io" where
  "status_for_node rt plan node =
     io_bind (read_records rt plan node) (\<lambda>records.
     io_bind (metadata_matches rt plan node) (\<lambda>matches.
     io_bind (if matches then io_all (\<lambda>r. pid_exists (pr_pid r)) records else io_return False) (\<lambda>alive.
     io_return \<lparr>rs_node = nd_name node, rs_protocols = routing_protocols (nd_routing node),
       rs_ready = (alive \<and> set (map pr_daemon records) = set (required_daemons node)),
       rs_pids = map pr_pid records\<rparr>)))"

fun io_map :: "('a \<Rightarrow> 'b host_io) \<Rightarrow> 'a list \<Rightarrow> 'b list host_io" where
  "io_map f [] = io_return []"
| "io_map f (x # xs) = io_bind (f x) (\<lambda>y. io_bind (io_map f xs) (\<lambda>ys. io_return (y # ys)))"

definition runtime_status :: "frr_runtime \<Rightarrow> topology_plan \<Rightarrow> routing_status list host_io" where
  "runtime_status rt plan = io_map (status_for_node rt plan) (routing_nodes plan)"

definition runtime_ready :: "frr_runtime \<Rightarrow> topology_plan \<Rightarrow> bool host_io" where
  "runtime_ready rt plan = io_bind (runtime_status rt plan) (\<lambda>statuses. io_return (list_all rs_ready statuses))"

section \<open>What a start needs\<close>

definition binary_missing :: "string \<Rightarrow> exc" where
  "binary_missing daemon = NslabError ''ROUTING_DEPENDENCY_MISSING''
     (''FRRouting daemon is not installed: '' @ daemon) [(''daemon'', PStr daemon), (''package'', PStr ''frr'')]"

definition resolve_binaries :: "frr_runtime \<Rightarrow> node_plan \<Rightarrow> (string, string) dict res" where
  "resolve_binaries rt node = res_map (\<lambda>daemon. case rt_resolver rt daemon of
      None \<Rightarrow> Inl (binary_missing daemon)
    | Some binary \<Rightarrow> Inr (daemon, binary)) (required_daemons node)"

definition account_missing :: "frr_runtime \<Rightarrow> string \<Rightarrow> exc" where
  "account_missing rt missing = NslabError ''ROUTING_DEPENDENCY_MISSING''
     (''FRRouting account is not installed: '' @ missing)
     [(''user'', PStr (rt_user rt)), (''group'', PStr (rt_group rt)), (''vty_group'', PStr ''frrvty''),
      (''package'', PStr ''frr'')]"

text \<open>\<open>str(error).strip("'")\<close> for the \<open>KeyError\<close>s of \<open>getpwnam\<close> and \<open>getgrnam\<close>, whose \<open>str\<close> is the \<open>repr\<close> of a text.\<close>

definition strip_quotes :: "string \<Rightarrow> string" where
  "strip_quotes s = rev (dropWhile (\<lambda>c. c = CHR 0x27) (rev (dropWhile (\<lambda>c. c = CHR 0x27) s)))"

definition no_account :: "frr_runtime \<Rightarrow> string \<Rightarrow> string \<Rightarrow> exc" where
  "no_account rt lookup name = account_missing rt (strip_quotes (py_repr (lookup @ ''(): name not found: '' @ py_repr name)))"

definition resolve_frr_identity :: "frr_runtime \<Rightarrow> frr_identity option res" where
  "resolve_frr_identity rt =
     (if rt_euid rt \<noteq> 0 then Inr None
      else case rt_accounts rt (rt_user rt) of
        None \<Rightarrow> Inl (no_account rt ''getpwnam'' (rt_user rt))
      | Some user \<Rightarrow> (case rt_groups rt (rt_group rt) of
          None \<Rightarrow> Inl (no_account rt ''getgrnam'' (rt_group rt))
        | Some frr \<Rightarrow> (case rt_groups rt ''frrvty'' of
            None \<Rightarrow> Inl (no_account rt ''getgrnam'' ''frrvty'')
          | Some vty \<Rightarrow>
              if ac_gid user \<noteq> ag_gid vty \<and> ac_name user \<notin> set (ag_members vty)
              then Inl (NslabError ''ROUTING_DEPENDENCY_MISSING''
                (''FRRouting user is not a member of frrvty: '' @ rt_user rt)
                [(''user'', PStr (rt_user rt)), (''vty_group'', PStr ''frrvty''), (''package'', PStr ''frr'')])
              else Inr (Some \<lparr>fi_uid = ac_uid user, fi_gid = ag_gid frr\<rparr>))))"

definition prepare_vty_config :: "frr_runtime \<Rightarrow> topology_plan \<Rightarrow> node_plan \<Rightarrow> frr_identity option \<Rightarrow> unit host_io" where
  "prepare_vty_config rt plan node identity =
     (if identity = None \<and> rt_config_root rt = [''etc'', ''frr''] then io_return ()
      else let dir = vty_config_dir rt plan node in
        io_seq (frr_ensure_directory (rt_config_root rt))
       (io_seq (prepare_managed_directory dir (vty_config_marker plan node) identity)
       (io_seq (write_text (dir @ [''vtysh.conf'']) (''service integrated-vtysh-config'' @ [CHR 10]))
       (io_seq (prepare_owned_file (dir @ [''vtysh.conf'']) identity 416)
       (io_seq (io_bind (io_lift (render_frr_config node (Some plan))) (write_text (dir @ [''frr.conf''])))
               (prepare_owned_file (dir @ [''frr.conf'']) identity 416))))))"

section \<open>Starting one daemon\<close>

definition refuse_unsafe_file :: "path \<Rightarrow> unit host_io" where
  "refuse_unsafe_file path =
     io_seq (refuse_if (is_symlink path) (invalid_path path ''FRRouting runtime file is a symlink''))
    (io_bind (path_exists path) (\<lambda>present.
     refuse_if (if present then is_directory path else io_return False)
       (invalid_path path ''FRRouting runtime file is a directory'')))"

definition start_failed :: "string \<Rightarrow> (string, pyobj) dict \<Rightarrow> exc" where
  "start_failed text details = NslabError ''ROUTING_START_FAILED'' text details"

definition daemon_argv :: "frr_runtime \<Rightarrow> topology_plan \<Rightarrow> node_plan \<Rightarrow> string \<Rightarrow> string \<Rightarrow> string list" where
  "daemon_argv rt plan node daemon binary =
     (let dir = node_dir rt plan node in
      [binary, ''-N'', routing_pathspace plan node, ''-f'', path_text (dir @ [''frr.conf'']),
       ''-z'', path_text (dir @ [''zebra.api'']), ''-i'', path_text (pid_path dir daemon),
       ''-u'', rt_user rt, ''-g'', rt_group rt, ''-P'', ''0'',
       ''--vty_socket'', path_text (state_dir rt plan node), ''--log'', ''file:'' @ path_text (dir @ [daemon @ ''.log''])])"

text \<open>\<open>_spawn\<close>: the checks of its files, the log file and the new process. What the daemon does is in the schedule of events.\<close>

definition spawn_daemon ::
  "frr_runtime \<Rightarrow> topology_plan \<Rightarrow> node_plan \<Rightarrow> string \<Rightarrow> string \<Rightarrow> frr_identity option \<Rightarrow> int host_io" where
  "spawn_daemon rt plan node daemon binary identity =
     (let dir = node_dir rt plan node; zapi = dir @ [''zebra.api'']; log = dir @ [daemon @ ''.log''] in
      io_seq (refuse_if (is_symlink log) (invalid_path log ''FRRouting log path is a symlink''))
     (io_bind (path_exists log) (\<lambda>present.
      io_bind (if present then is_regular_file log else io_return True) (\<lambda>regular.
      io_seq (if regular then io_return () else io_raise (invalid_path log ''FRRouting log path is not a regular file''))
     (io_seq (io_for refuse_unsafe_file [dir @ [''frr.conf''], zapi, pid_path dir daemon])
     (io_bind (path_exists log) (\<lambda>present.
      io_seq (if present then io_return ()
        else wrap_os_error (runtime_failure ''failed to create FRRouting log file'' log) (create_or_keep 432 log))
     (io_seq (prepare_owned_file log identity 432)
     (io_seq (create_or_keep 438 log)
     (wrap_os_error (\<lambda>e. start_failed (''failed to start FRRouting daemon: '' @ daemon)
         [(''daemon'', PStr daemon), (''node'', PStr (nd_name node)), (''error'', PStr (exc_text e))])
       (spawn_process (nd_namespace node) (daemon_argv rt plan node daemon binary))))))))))))"

definition poll_interval :: rat where
  "poll_interval = 1 / 20"

definition socket_ready :: "frr_runtime \<Rightarrow> path option \<Rightarrow> bool host_io" where
  "socket_ready rt socket = (case socket of
      None \<Rightarrow> io_return True
    | Some path \<Rightarrow> io_bind (target_exists path) (\<lambda>present. io_return (present \<or> \<not> rt_require_socket rt)))"

text \<open>One round of the loop of \<open>_wait_started\<close>: whether the daemon has started.\<close>

definition check_started ::
  "frr_runtime \<Rightarrow> int \<Rightarrow> string \<Rightarrow> node_plan \<Rightarrow> path option \<Rightarrow> rat \<Rightarrow> bool host_io" where
  "check_started rt pid daemon node socket deadline =
     io_bind (poll_process pid) (\<lambda>code. case code of
        Some c \<Rightarrow> io_raise (start_failed (''FRRouting daemon exited during startup: '' @ daemon)
          [(''daemon'', PStr daemon), (''node'', PStr (nd_name node)), (''returncode'', PInt c)])
      | None \<Rightarrow> io_bind (socket_ready rt socket) (\<lambda>ready.
          if ready then io_return True
          else io_bind (io_get fh_clock) (\<lambda>now.
            if deadline \<le> now then io_raise (start_failed (''FRRouting zebra socket was not ready: '' @ nd_name node)
              [(''node'', PStr (nd_name node)),
               (''socket'', PStr (case socket of None \<Rightarrow> ''None'' | Some p \<Rightarrow> path_text p))])
            else io_seq (sleep_for poll_interval) (io_return False))))"

text \<open>Every round that does not end the loop sleeps, so the deadline ends it.\<close>

definition rounds_left :: "rat \<Rightarrow> rat \<Rightarrow> frr_host \<Rightarrow> nat" where
  "rounds_left interval deadline w = nat \<lceil>(deadline - fh_clock w) / interval\<rceil>"

lemma rounds_left_decreases:
  assumes "0 < interval" "fh_clock w < deadline" "fh_clock w' = fh_clock w + interval"
  shows "rounds_left interval deadline w' < rounds_left interval deadline w"
proof -
  let ?d = "(deadline - fh_clock w) / interval"
  have "(deadline - fh_clock w') / interval = ?d - 1" using assms by (simp add: field_simps)
  moreover have "0 < ?d" using assms by simp
  ultimately show ?thesis by (simp add: rounds_left_def ceiling_diff_one)
qed

lemma clock_of_events [simp]: "fh_clock (next_moment w) = fh_clock w"
proof -
  have "fh_clock (apply_event e w) = fh_clock w" for e w
    by (cases e) (auto simp: end_process_def split: option.splits)
  then have "fh_clock (fold apply_event es w) = fh_clock w" for es w by (induction es arbitrary: w) simp_all
  then show ?thesis by (simp add: next_moment_def)
qed

text \<open>An operation that takes no time.\<close>

definition instant :: "'a host_io \<Rightarrow> bool" where
  "instant m \<longleftrightarrow> (\<forall>w. fh_clock (snd (m w)) = fh_clock w)"

lemma instant_simps [simp, intro]: "instant (io_return x)" "instant (io_raise e)" "instant (io_lift r)" "instant (io_get f)"
  "instant (host_test g)"
  by (simp_all add: instant_def host_test_def)

lemma instant_bind [intro]: "instant m \<Longrightarrow> (\<And>x. instant (f x)) \<Longrightarrow> instant (io_bind m f)"
  unfolding instant_def io_bind_def by (auto split: prod.split sum.split) (metis snd_conv)+

lemma instant_attempt [intro]: "instant m \<Longrightarrow> instant (io_attempt m)"
  by (auto simp: instant_def io_attempt_def split: prod.split) (metis snd_conv)

lemma instant_call [intro]: "instant m \<Longrightarrow> instant (host_call m)"
  by (simp add: instant_def host_call_def split: fault.split)

lemma instant_poll [intro]: "instant (poll_process pid)"
  unfolding poll_process_def by (rule instant_call) (auto simp: instant_def split: option.split)

lemma instant_probe [intro]: "instant (pid_exists pid)"
  unfolding pid_exists_def sys_probe_def
  by (auto intro!: instant_bind instant_attempt instant_call split: sum.split) (simp add: instant_def)

lemma instant_socket [intro]: "instant (socket_ready rt socket)"
  unfolding socket_ready_def target_exists_def by (auto split: option.split)

lemma sleep_clock: "sleep_for d w = (Inr u, w') \<Longrightarrow> fh_clock w' = fh_clock w + d"
  by (auto simp: sleep_for_def host_call_def split: fault.splits)

lemma instant_step: "instant m \<Longrightarrow> m w = (r, w') \<Longrightarrow> fh_clock w' = fh_clock w"
  by (metis instant_def snd_conv)

lemma check_started_waits:
  assumes "check_started rt pid daemon node socket deadline w = (Inr False, w')"
  shows "fh_clock w < deadline \<and> fh_clock w' = fh_clock w + poll_interval"
  using assms unfolding check_started_def io_seq_def
  by (auto elim!: io_bind_cases split: option.splits if_splits dest!: sleep_clock
    instant_step [OF instant_poll] instant_step [OF instant_socket])

function wait_started ::
  "frr_runtime \<Rightarrow> int \<Rightarrow> string \<Rightarrow> node_plan \<Rightarrow> path option \<Rightarrow> rat \<Rightarrow> frr_host \<Rightarrow> unit res \<times> frr_host" where
  "wait_started rt pid daemon node socket deadline w =
     (case check_started rt pid daemon node socket deadline w of
       (Inl e, w') \<Rightarrow> (Inl e, w')
     | (Inr started, w') \<Rightarrow> if started then (Inr (), w') else wait_started rt pid daemon node socket deadline w')"
  by pat_completeness auto

termination
proof (relation "measure (\<lambda>(rt, pid, daemon, node, socket, deadline, w). rounds_left poll_interval deadline w)", goal_cases)
  case (2 rt pid daemon node socket deadline w r w' started)
  then have "check_started rt pid daemon node socket deadline w = (Inr False, w')" by simp
  then show ?case using rounds_left_decreases [of poll_interval w deadline w'] check_started_waits
    by (simp add: poll_interval_def)
qed simp

declare wait_started.simps [simp del]

definition await_started :: "frr_runtime \<Rightarrow> int \<Rightarrow> string \<Rightarrow> node_plan \<Rightarrow> path option \<Rightarrow> unit host_io" where
  "await_started rt pid daemon node socket =
     io_bind (io_get fh_clock) (\<lambda>now. wait_started rt pid daemon node socket (now + rt_startup_timeout rt))"

section \<open>Metadata\<close>

definition metadata_document :: "topology_plan \<Rightarrow> node_plan \<Rightarrow> process_record list \<Rightarrow> pyobj" where
  "metadata_document plan node records = pdict [
     (''version'', PInt 1),
     (''fingerprint'', PStr (tpl_fingerprint plan)),
     (''node'', PStr (nd_name node)),
     (''namespace'', PStr (nd_namespace node)),
     (''pathspace'', PStr (routing_pathspace plan node)),
     (''protocols'', PList (map PStr (routing_protocols (nd_routing node)))),
     (''processes'', PList (map (\<lambda>r. pdict [(''daemon'', PStr (pr_daemon r)), (''pid'', PInt (pr_pid r))]) records))]"

definition json_bytes :: "ext \<Rightarrow> pyobj \<Rightarrow> file_bytes res" where
  "json_bytes x document = res_bind (json_text x 0 document) (\<lambda>text.
     Inr \<lparr>fb_text = Some (concat (map ascii_glyph text) @ [CHR 10]), fb_json = Some document\<rparr>)"

definition save_metadata :: "frr_runtime \<Rightarrow> topology_plan \<Rightarrow> node_plan \<Rightarrow> process_record list \<Rightarrow> unit host_io" where
  "save_metadata rt plan node records =
     io_bind (io_lift (json_bytes (rt_ext rt) (metadata_document plan node records))) (\<lambda>content.
     write_file (metadata_path rt plan node) content 416)"

section \<open>Stopping processes\<close>

text \<open>\<open>with suppress(OSError, ProcessLookupError)\<close>\<close>

definition suppress_os_error :: "unit host_io \<Rightarrow> unit host_io" where
  "suppress_os_error m = io_bind (io_attempt m) (\<lambda>r. case r of
      Inl e \<Rightarrow> if is_os_error e then io_return () else io_raise e
    | Inr _ \<Rightarrow> io_return ())"

definition stop_interval :: rat where
  "stop_interval = 1 / 50"

text \<open>One round of waiting for a process: whether the loop goes on.\<close>

definition check_gone :: "int \<Rightarrow> rat \<Rightarrow> bool host_io" where
  "check_gone pid deadline = io_bind (pid_exists pid) (\<lambda>present.
     if \<not> present then io_return False
     else io_bind (io_get fh_clock) (\<lambda>now.
       if deadline \<le> now then io_return False else io_seq (sleep_for stop_interval) (io_return True)))"

lemma check_gone_waits:
  assumes "check_gone pid deadline w = (Inr True, w')"
  shows "fh_clock w < deadline \<and> fh_clock w' = fh_clock w + stop_interval"
  using assms unfolding check_gone_def io_seq_def
  by (auto elim!: io_bind_cases split: if_splits dest!: sleep_clock instant_step [OF instant_probe])

function wait_gone :: "int \<Rightarrow> rat \<Rightarrow> frr_host \<Rightarrow> unit res \<times> frr_host" where
  "wait_gone pid deadline w =
     (case check_gone pid deadline w of
       (Inl e, w') \<Rightarrow> (Inl e, w')
     | (Inr again, w') \<Rightarrow> if again then wait_gone pid deadline w' else (Inr (), w'))"
  by pat_completeness auto

termination
proof (relation "measure (\<lambda>(pid, deadline, w). rounds_left stop_interval deadline w)", goal_cases)
  case (2 pid deadline w r w' again)
  then have "check_gone pid deadline w = (Inr True, w')" by simp
  then show ?case using rounds_left_decreases [of stop_interval w deadline w'] check_gone_waits
    by (simp add: stop_interval_def)
qed simp

declare wait_gone.simps [simp del]

text \<open>The rest of a round of \<open>_terminate_processes\<close>, after the first signal.\<close>

definition await_end :: "frr_runtime \<Rightarrow> int \<Rightarrow> unit host_io" where
  "await_end rt pid =
     io_bind (io_get fh_clock) (\<lambda>now.
     io_seq (wait_gone pid (now + rt_stop_timeout rt))
    (io_bind (pid_exists pid) (\<lambda>present.
     if present then io_seq (suppress_os_error (sys_killpg pid True)) (suppress_os_error (sys_kill pid True))
     else io_return ())))"

definition terminate_process :: "frr_runtime \<Rightarrow> process_record \<Rightarrow> unit host_io" where
  "terminate_process rt record =
     (let pid = pr_pid record in
      io_bind (io_attempt (sys_killpg pid False)) (\<lambda>r. case r of
        Inr _ \<Rightarrow> await_end rt pid
      | Inl e \<Rightarrow> if exc_type_in [''ProcessLookupError''] e then io_return ()
          else if is_os_error e then io_seq (suppress_os_error (sys_kill pid False)) (await_end rt pid)
          else io_raise e))"

definition terminate_processes :: "frr_runtime \<Rightarrow> process_record list \<Rightarrow> unit host_io" where
  "terminate_processes rt records = io_for (terminate_process rt) (rev records)"

section \<open>Removing a deployment\<close>

definition remove_artifact :: "string \<Rightarrow> path \<Rightarrow> unit host_io" where
  "remove_artifact failure dir = io_bind (path_exists dir) (\<lambda>present.
     if \<not> present then io_return ()
     else io_seq (refuse_if (is_symlink dir) (invalid_path dir ''routing pathspace is a symlink''))
       (wrap_os_error (runtime_failure failure dir) (remove_tree dir)))"

definition cleanup_deployment :: "frr_runtime \<Rightarrow> topology_plan \<Rightarrow> unit host_io" where
  "cleanup_deployment rt plan =
     io_seq (validate_artifacts rt plan)
    (io_seq (io_for (\<lambda>node.
         io_seq (validate_managed_directory (state_dir rt plan node) (state_marker plan node))
        (io_seq (validate_managed_directory (vty_config_dir rt plan node) (vty_config_marker plan node)) (io_return ())))
       (routing_nodes plan))
    (io_seq (remove_artifact ''failed to remove routing runtime directory'' (deployment_dir rt plan))
            (io_for (\<lambda>node.
         io_seq (remove_artifact ''failed to remove FRRouting state directory'' (state_dir rt plan node))
                (remove_artifact ''failed to remove FRRouting config directory'' (vty_config_dir rt plan node)))
       (routing_nodes plan))))"

text \<open>The records of the processes of a node that are alive.\<close>

definition live_records :: "frr_runtime \<Rightarrow> topology_plan \<Rightarrow> node_plan \<Rightarrow> process_record list \<Rightarrow> process_record list host_io" where
  "live_records rt plan node processes =
     io_bind (read_records rt plan node) (\<lambda>records.
     io_fold (\<lambda>r processes. io_bind (pid_exists (pr_pid r)) (\<lambda>present.
       io_return (if present then processes @ [r] else processes))) records processes)"

definition stop_runtime :: "frr_runtime \<Rightarrow> topology_plan \<Rightarrow> unit host_io" where
  "stop_runtime rt plan =
     io_seq (validate_artifacts rt plan)
    (io_bind (io_fold (live_records rt plan) (routing_nodes plan) []) (\<lambda>processes.
     io_seq (terminate_processes rt processes) (cleanup_deployment rt plan)))"

section \<open>Starting\<close>

text \<open>
  What a part of \<open>start\<close> does comes with the processes it has started, which the handler of its
  exceptions needs.
\<close>

type_synonym started = "unit res \<times> process_record list"

definition then_start :: "started host_io \<Rightarrow> (process_record list \<Rightarrow> started host_io) \<Rightarrow> started host_io" where
  "then_start m f = io_bind m (\<lambda>(outcome, started). case outcome of
      Inl e \<Rightarrow> io_return (Inl e, started)
    | Inr _ \<Rightarrow> f started)"

text \<open>A step that starts nothing.\<close>

definition plain_step :: "unit host_io \<Rightarrow> process_record list \<Rightarrow> started host_io" where
  "plain_step m started = io_bind (io_attempt m) (\<lambda>r. io_return (r, started))"

definition start_daemon ::
  "frr_runtime \<Rightarrow> topology_plan \<Rightarrow> node_plan \<Rightarrow> (string, string) dict \<Rightarrow> frr_identity option \<Rightarrow> string \<Rightarrow>
   process_record list \<Rightarrow> process_record list \<Rightarrow> (unit res \<times> process_record list \<times> process_record list) host_io" where
  "start_daemon rt plan node binaries identity daemon records started =
     (let dir = node_dir rt plan node; zapi = dir @ [''zebra.api''] in
      io_bind (io_attempt (io_bind (io_lift (res_of_option (key_error daemon) (dict_get binaries daemon)))
        (\<lambda>binary. spawn_daemon rt plan node daemon binary identity))) (\<lambda>r. case r of
        Inl e \<Rightarrow> io_return (Inl e, records, started)
      | Inr pid \<Rightarrow>
          let record = \<lparr>pr_daemon = daemon, pr_pid = pid\<rparr> in
          io_bind (io_attempt (
            io_seq (await_started rt pid daemon node (if daemon = ''zebra'' then Some zapi else None))
                   (save_metadata rt plan node (records @ [record])))) (\<lambda>r.
          io_return (r, records @ [record], started @ [record]))))"

fun start_daemons ::
  "frr_runtime \<Rightarrow> topology_plan \<Rightarrow> node_plan \<Rightarrow> (string, string) dict \<Rightarrow> frr_identity option \<Rightarrow> string list \<Rightarrow>
   process_record list \<Rightarrow> process_record list \<Rightarrow> started host_io" where
  "start_daemons rt plan node binaries identity [] records started = io_return (Inr (), started)"
| "start_daemons rt plan node binaries identity (daemon # daemons) records started =
     io_bind (start_daemon rt plan node binaries identity daemon records started) (\<lambda>(outcome, records, started).
     case outcome of
       Inl e \<Rightarrow> io_return (Inl e, started)
     | Inr _ \<Rightarrow> start_daemons rt plan node binaries identity daemons records started)"

definition prepare_node :: "frr_runtime \<Rightarrow> topology_plan \<Rightarrow> node_plan \<Rightarrow> frr_identity option \<Rightarrow> unit host_io" where
  "prepare_node rt plan node identity =
     (let dir = node_dir rt plan node in
      io_seq (prepare_managed_directory dir (runtime_node_marker plan node) identity)
     (io_seq (prepare_managed_directory (state_dir rt plan node) (state_marker plan node) identity)
     (io_seq (prepare_vty_config rt plan node identity)
     (io_seq (io_bind (io_lift (render_frr_config node (Some plan))) (write_text (dir @ [''frr.conf''])))
             (prepare_owned_file (dir @ [''frr.conf'']) identity 416)))))"

fun start_nodes ::
  "frr_runtime \<Rightarrow> topology_plan \<Rightarrow> (string, (string, string) dict) dict \<Rightarrow> frr_identity option \<Rightarrow> node_plan list \<Rightarrow> process_record list \<Rightarrow> started host_io" where
  "start_nodes rt plan binaries identity [] started = io_return (Inr (), started)"
| "start_nodes rt plan binaries identity (node # nodes) started =
     (case dict_get binaries (nd_name node) of
        None \<Rightarrow> io_return (Inl (key_error (nd_name node)), started)
      | Some bins \<Rightarrow>
          then_start (plain_step (prepare_node rt plan node identity) started) (\<lambda>started.
          then_start (start_daemons rt plan node bins identity (required_daemons node) [] started) (\<lambda>started.
          start_nodes rt plan binaries identity nodes started)))"

text \<open>The account and the binaries, and the directories all nodes share.\<close>

type_synonym daemon_binaries = "(string, (string, string) dict) dict"

definition binaries_by_node :: "frr_runtime \<Rightarrow> topology_plan \<Rightarrow> daemon_binaries res" where
  "binaries_by_node rt plan = res_bind (res_map (\<lambda>node.
       res_bind (resolve_binaries rt node) (\<lambda>binaries. Inr (nd_name node, binaries))) (routing_nodes plan))
     (\<lambda>entries. Inr (dict_of entries))"

definition prepare_deployment :: "frr_runtime \<Rightarrow> topology_plan \<Rightarrow> (frr_identity option \<times> daemon_binaries) host_io" where
  "prepare_deployment rt plan =
     io_bind (io_lift (resolve_frr_identity rt)) (\<lambda>identity.
     io_bind (io_lift (binaries_by_node rt plan)) (\<lambda>binaries.
     io_seq (frr_ensure_directory (rt_runtime_root rt))
    (io_seq (frr_ensure_directory (rt_state_root rt))
    (io_seq (prepare_managed_directory (deployment_dir rt plan) (runtime_marker plan) identity)
            (io_return (identity, binaries))))))"

definition start_fresh :: "frr_runtime \<Rightarrow> topology_plan \<Rightarrow> started host_io" where
  "start_fresh rt plan =
     io_bind (io_attempt (prepare_deployment rt plan)) (\<lambda>r. case r of
        Inl e \<Rightarrow> io_return (Inl e, [])
      | Inr (identity, binaries) \<Rightarrow> start_nodes rt plan binaries identity (routing_nodes plan) [])"

definition start_exception :: "topology_plan \<Rightarrow> exc \<Rightarrow> exc" where
  "start_exception plan e =
     (if is_interrupt e \<or> exc_type_in [''SystemExit''] e \<or> is_nslab_error e then e
      else start_failed (''failed to start routing daemons: '' @ tpl_name plan)
        [(''name'', PStr (tpl_name plan)), (''error'', PStr (exc_text e))])"

text \<open>The handler: \<open>try: terminate finally: clean up\<close>, and then the exception.\<close>

definition abandon_start :: "frr_runtime \<Rightarrow> topology_plan \<Rightarrow> process_record list \<Rightarrow> exc \<Rightarrow> unit host_io" where
  "abandon_start rt plan started e =
     io_bind (io_attempt (terminate_processes rt started)) (\<lambda>terminated.
     io_seq (cleanup_deployment rt plan)
     (io_raise (case terminated of Inl t \<Rightarrow> t | Inr _ \<Rightarrow> start_exception plan e)))"

definition start_runtime :: "frr_runtime \<Rightarrow> topology_plan \<Rightarrow> unit host_io" where
  "start_runtime rt plan =
     (if routing_nodes plan = [] then io_return ()
      else io_bind (has_artifacts rt plan) (\<lambda>present.
        io_bind (if present then io_seq (validate_artifacts rt plan) (runtime_ready rt plan) else io_return False) (\<lambda>ready.
        if ready then io_return ()
        else io_seq (if present then stop_runtime rt plan else io_return ())
          (io_bind (start_fresh rt plan) (\<lambda>(outcome, started). case outcome of
             Inr _ \<Rightarrow> io_return ()
           | Inl e \<Rightarrow> abandon_start rt plan started e)))))"

end
