(* ===== verification/Frr_Samples.thy ===== *)
theory Frr_Samples
  imports Frr_Runtime
begin

text \<open>
  A router with OSPF, an empty machine to start it on, and ways to make the machine fail. The examples of
  the theories on \<open>routing.py\<close> use them.
\<close>

definition router_node :: node_plan where
  "router_node = \<lparr>
     nd_name = ''r1'', nd_kind = LinuxKind, nd_namespace = ''nslab-net-r1-0'', nd_interfaces = [(''eth0'', [IPInterface (IPv4Address (ipv4_of 10 0 0 1)) 24])],
     nd_routes = [], nd_sysctls = [], nd_mac_addresses = [], nd_neighbors = [], nd_rules = [],
     nd_devices = [], nd_bridge_name = None, nd_stp = None, nd_vlan_filtering = None,
     nd_bridge_priority = None, nd_bridge_ports = [],
     nd_routing = Some \<lparr>rp_ospf = Some \<lparr>op_router_id = ipv4_of 1 1 1 1, op_area = 0, op_networks = [],
       op_passive_interfaces = []\<rparr>, rp_bgp = None, rp_pim = None\<rparr>\<rparr>"

definition router_plan :: topology_plan where
  "router_plan = \<lparr>tpl_name = ''net'', tpl_fingerprint = ''f0'', tpl_nodes = [(''r1'', router_node)], tpl_links = []\<rparr>"

definition sample_runtime :: frr_runtime where
  "sample_runtime = \<lparr>rt_ext = sample_ext, rt_runtime_root = [''run'', ''nslab''], rt_state_root = [''run'', ''frr''],
     rt_config_root = [''etc'', ''frr''], rt_resolver = (\<lambda>daemon. Some (''/usr/lib/frr/'' @ daemon)),
     rt_startup_timeout = 5, rt_stop_timeout = 3, rt_require_socket = False, rt_user = ''frr'', rt_group = ''frr'',
     rt_euid = 1000, rt_accounts = (\<lambda>_. None), rt_groups = (\<lambda>_. None)\<rparr>"

definition sample_host :: "(nat \<Rightarrow> fault) \<Rightarrow> frr_host" where
  "sample_host faults = \<lparr>fh_files = [], fh_processes = [], fh_clock = 0, fh_calls = 0, fh_faults = faults,
     fh_events = (\<lambda>_. []), fh_random = show_nat, fh_pids = (\<lambda>n. 100 + int n), fh_draws = 0, fh_signals = [], fh_spawned = []\<rparr>"

definition fails_at :: "nat \<Rightarrow> exc \<Rightarrow> nat \<Rightarrow> fault" where
  "fails_at k e = (\<lambda>n. if n = k then FailBefore e else NoFault)"

definition no_space :: exc where
  "no_space = os_error ''OSError'' ''[Errno 28] No space left on device'' 28"

text \<open>A machine with the given files, on which nothing else happens.\<close>

definition quiet_host :: "(path, fs_node) dict \<Rightarrow> (int, os_process) dict \<Rightarrow> frr_host" where
  "quiet_host files processes = (sample_host (\<lambda>_. NoFault))\<lparr>fh_files := files, fh_processes := processes\<rparr>"

lemma routing_nodes_router [simp]: "routing_nodes router_plan = [router_node]"
  by (simp add: routing_nodes_def plan_nodes_def router_plan_def router_node_def)

end
