(* ===== verification/Frr_Facts.thy ===== *)
theory Frr_Facts
  imports Frr_Samples
begin

text \<open>
  What \<open>start_runtime\<close> and \<open>stop_runtime\<close> leave alone. Operations that only look let time pass and nothing
  else; the others change files only below the directories of the deployment, and only after every
  directory has turned out to be its own.
\<close>

section \<open>Operations that only look\<close>

definition passes :: "frr_host \<Rightarrow> frr_host \<Rightarrow> bool" where
  "passes w w' \<longleftrightarrow> (\<exists>k. w' = (next_moment ^^ k) w)"

lemma passes_refl [simp, intro]: "passes w w"
  unfolding passes_def by (rule exI [of _ 0]) simp

lemma passes_next [simp, intro]: "passes w (next_moment w)"
  unfolding passes_def by (rule exI [of _ 1]) simp

lemma passes_trans: "passes w w' \<Longrightarrow> passes w' w'' \<Longrightarrow> passes w w''"
  unfolding passes_def by (metis comp_apply funpow_add)

definition observes :: "'a host_io \<Rightarrow> bool" where
  "observes m \<longleftrightarrow> (\<forall>w. passes w (snd (m w)))"

named_theorems observing \<open>operations that only look\<close>

lemma observes_simps [simp, observing]: "observes (io_return x)" "observes (io_raise e)" "observes (io_lift r)"
  "observes (io_get f)" "observes (host_test g)"
  by (simp_all add: observes_def host_test_def)

lemma observes_bind [observing]: "observes m \<Longrightarrow> (\<And>x. observes (f x)) \<Longrightarrow> observes (io_bind m f)"
  unfolding observes_def io_bind_def by (auto split: prod.split sum.split) (metis passes_trans snd_conv)+

lemma observes_seq [observing]: "observes m \<Longrightarrow> observes n \<Longrightarrow> observes (io_seq m n)"
  unfolding io_seq_def by (rule observes_bind)

lemma observes_attempt [observing]: "observes m \<Longrightarrow> observes (io_attempt m)"
  by (simp add: observes_def io_attempt_app)

lemma observes_call: "(\<And>w. snd (act w) = w) \<Longrightarrow> observes (host_call act)"
  by (simp add: observes_def host_call_def split: fault.split)

lemma observes_for [observing]: "(\<And>x. observes (f x)) \<Longrightarrow> observes (io_for f xs)"
  by (induction xs) (simp_all add: observes_seq)

lemma observes_fold [observing]: "(\<And>x b. observes (f x b)) \<Longrightarrow> observes (io_fold f xs b)"
  by (induction xs arbitrary: b) (simp_all add: observes_bind)

lemma observes_all [observing]: "(\<And>x. observes (f x)) \<Longrightarrow> observes (io_all f xs)"
  by (induction xs) (simp_all add: observes_bind)

lemma observes_any [observing]: "(\<And>x. observes (f x)) \<Longrightarrow> observes (io_any f xs)"
  by (induction xs) (simp_all add: observes_bind)

lemma observes_if [observing]: "observes m \<Longrightarrow> observes n \<Longrightarrow> observes (if b then m else n)"
  by simp

lemma observes_sum [observing]:
  "(\<And>e. observes (f e)) \<Longrightarrow> (\<And>x. observes (g x)) \<Longrightarrow> observes (case r of Inl e \<Rightarrow> f e | Inr x \<Rightarrow> g x)"
  by (cases r) simp_all

lemma observes_tests [simp, observing]: "observes (path_exists p)" "observes (is_symlink p)" "observes (is_directory p)"
  "observes (is_regular_file p)"
  by (simp_all add: path_exists_def is_symlink_def is_directory_def is_regular_file_def)

lemma observes_reads [observing]: "observes (list_directory p)" "observes (read_bytes p)" "observes (read_ascii p)"
  "observes (read_json p)" "observes (sys_probe pid)"
  unfolding list_directory_def read_bytes_def read_ascii_def read_json_def sys_probe_def
  by (auto intro!: observes_call observes_bind split: option.split file_kind.split)

lemma observes_refuse [observing]: "observes test \<Longrightarrow> observes (refuse_if test e)"
  unfolding refuse_if_def by (intro observing)

lemma observes_marker [observing]: "observes (read_matching_marker d m)"
  unfolding read_matching_marker_def Let_def by (intro observing)

lemma observes_managed [observing]: "observes (validate_managed_directory d m)"
  unfolding validate_managed_directory_def by (intro observing)

lemma observes_legacy [observing]: "observes (legacy_runtime_node_safe p)"
  unfolding legacy_runtime_node_safe_def legacy_item_def by (intro observing)

lemma observes_runtime_artifacts [observing]: "observes (validate_runtime_artifacts rt plan)"
  unfolding validate_runtime_artifacts_def Let_def check_runtime_child_def unsafe_child_def by (intro observing)

lemma observes_node_runtime [observing]: "observes (validate_node_runtime rt plan legacy node)" "observes (refuse_symlinks d)"
  unfolding validate_node_runtime_def Let_def refuse_symlinks_def by (intro observing)+

lemma observes_node_artifacts [observing]: "observes (validate_node_artifacts rt plan legacy node)"
  unfolding validate_node_artifacts_def by (intro observing)

lemma observes_artifacts [observing]: "observes (validate_artifacts rt plan)" "observes (has_artifacts rt plan)"
  unfolding validate_artifacts_def has_artifacts_def by (intro observing)+

section \<open>Foreign directories\<close>

fun event_touches :: "path \<Rightarrow> host_event \<Rightarrow> bool" where
  "event_touches path (ProcessEnds pid code) = False"
| "event_touches path (FileAppears p node) = (p = path)"
| "event_touches path (FileVanishes p) = (p = path)"

definition undisturbed_path :: "frr_host \<Rightarrow> path \<Rightarrow> bool" where
  "undisturbed_path w path \<longleftrightarrow> (\<forall>n. \<forall>e \<in> set (fh_events w n). \<not> event_touches path e)"

lemma end_process_fields [simp]: "fh_events (end_process pid c w) = fh_events w" "fh_files (end_process pid c w) = fh_files w"
  "fh_faults (end_process pid c w) = fh_faults w" "fh_clock (end_process pid c w) = fh_clock w"
  "fh_signals (end_process pid c w) = fh_signals w"
  by (simp_all add: end_process_def split: option.split)

lemma apply_event_fields [simp]: "fh_events (apply_event e w) = fh_events w" "fh_signals (apply_event e w) = fh_signals w"
  by (cases e; simp)+

lemma events_fields: "fh_events (fold apply_event es w) = fh_events w" "fh_signals (fold apply_event es w) = fh_signals w"
  by (induction es arbitrary: w) simp_all

lemma next_moment_fields [simp]: "fh_events (next_moment w) = fh_events w" "fh_signals (next_moment w) = fh_signals w"
  by (simp_all add: next_moment_def events_fields)

lemma events_untouched:
  "\<forall>e \<in> set es. \<not> event_touches p e \<Longrightarrow> dict_get (fh_files (fold apply_event es w)) p = dict_get (fh_files w) p"
proof (induction es arbitrary: w)
  case (Cons e es)
  then show ?case by (cases e) auto
qed simp

lemma next_moment_untouched: "undisturbed_path w p \<Longrightarrow> dict_get (fh_files (next_moment w)) p = dict_get (fh_files w) p"
  by (simp add: next_moment_def events_untouched undisturbed_path_def)

lemma passes_untouched:
  assumes "passes w w'"
  shows "undisturbed_path w' p = undisturbed_path w p"
    and "undisturbed_path w p \<Longrightarrow> dict_get (fh_files w') p = dict_get (fh_files w) p"
    and "fh_signals w' = fh_signals w"
proof -
  obtain k where k: "w' = (next_moment ^^ k) w" using assms by (auto simp: passes_def)
  have "fh_events ((next_moment ^^ k) w) = fh_events w \<and> fh_signals ((next_moment ^^ k) w) = fh_signals w \<and>
      (undisturbed_path w p \<longrightarrow> dict_get (fh_files ((next_moment ^^ k) w)) p = dict_get (fh_files w) p)" for k
    by (induction k) (auto simp: next_moment_untouched undisturbed_path_def)
  then show "undisturbed_path w' p = undisturbed_path w p"
      "undisturbed_path w p \<Longrightarrow> dict_get (fh_files w') p = dict_get (fh_files w) p" "fh_signals w' = fh_signals w"
    by (simp_all add: k undisturbed_path_def)
qed

lemma passes_kind: "passes w w' \<Longrightarrow> undisturbed_path w p \<Longrightarrow> kind_at p w' = kind_at p w"
  using passes_untouched(2) by (simp add: kind_at_def)

text \<open>The directory is there and has the marker.\<close>

definition managed :: "path \<Rightarrow> string \<Rightarrow> frr_host \<Rightarrow> bool" where
  "managed dir marker w \<longleftrightarrow> kind_at dir w = Some Directory \<and>
     (\<exists>c. kind_at (marker_path dir) w = Some (RegularFile c) \<and> fb_text c = Some marker)"

definition foreign_directory :: "path \<Rightarrow> string \<Rightarrow> frr_host \<Rightarrow> bool" where
  "foreign_directory dir marker w \<longleftrightarrow> kind_at dir w \<noteq> None \<and> \<not> managed dir marker w \<and>
     undisturbed_path w dir \<and> undisturbed_path w (marker_path dir)"

lemma foreign_passes: "passes w w' \<Longrightarrow> foreign_directory dir marker w \<Longrightarrow> foreign_directory dir marker w'"
  by (simp add: foreign_directory_def managed_def passes_kind passes_untouched)

lemma observes_step: "observes m \<Longrightarrow> m w = (r, w') \<Longrightarrow> passes w w'"
  by (metis observes_def snd_conv)

lemma test_value: "host_test g w = (Inr b, w') \<Longrightarrow> b = g (next_moment w) \<and> w' = next_moment w"
  by (auto simp: host_test_def)

lemma refuse_passed: "refuse_if (host_test g) e w = (Inr u, w') \<Longrightarrow> \<not> g (next_moment w) \<and> w' = next_moment w"
  by (auto simp: refuse_if_def elim!: io_bind_cases split: if_splits dest!: test_value)

lemma read_bytes_value:
  "read_bytes p w = (Inr c, w') \<Longrightarrow> kind_at p (next_moment w) = Some (RegularFile c) \<and> w' = next_moment w"
  by (auto simp: read_bytes_def host_call_def split: fault.splits option.splits file_kind.splits)

lemma read_ascii_value:
  "read_ascii p w = (Inr t, w') \<Longrightarrow> \<exists>c. kind_at p (next_moment w) = Some (RegularFile c) \<and> fb_text c = Some t"
  by (auto simp: read_ascii_def elim!: io_bind_cases split: option.splits dest!: read_bytes_value)

lemma marker_matched:
  assumes "read_matching_marker dir marker w = (Inr u, w')"
  obtains w1 c where "passes w w1" "kind_at (marker_path dir) w1 = Some (RegularFile c)" "fb_text c = Some marker"
proof -
  have "\<exists>w1 w2. passes w w1 \<and> read_ascii (marker_path dir) w1 = (Inr marker, w2)"
    using assms unfolding read_matching_marker_def Let_def io_seq_def
    by (auto elim!: io_bind_cases split: if_splits sum.splits simp: io_attempt_def split: prod.splits
      dest!: observes_step [OF observes_refuse [OF observes_tests(2)]] observes_step [OF observes_tests(1)]
        observes_step [OF observes_tests(4)]) (meson passes_trans)
  then show thesis using read_ascii_value passes_trans [OF _ passes_next] that by blast
qed

lemma managed_validated:
  assumes "validate_managed_directory dir marker w = (Inr present, w')"
  shows "kind_at dir (next_moment w) = None \<and> \<not> present \<or>
    (present \<and> (\<exists>w1 w2 c. passes w w1 \<and> kind_at dir w1 = Some Directory \<and> passes w w2 \<and>
      kind_at (marker_path dir) w2 = Some (RegularFile c) \<and> fb_text c = Some marker))"
proof -
  note test_defs = path_exists_def is_symlink_def is_directory_def
  have "kind_at dir (next_moment w) = None \<and> \<not> present \<or> (\<exists>w1 u w'. passes w w1 \<and> present \<and>
      kind_at dir w1 = Some Directory \<and> read_matching_marker dir marker w1 = (Inr u, w'))"
    using assms unfolding validate_managed_directory_def io_seq_def test_defs
    by (auto elim!: io_bind_cases split: if_splits dest!: test_value refuse_passed) (metis passes_next passes_trans)+
  then show ?thesis by (metis marker_matched passes_trans)
qed

lemma foreign_not_validated:
  assumes "foreign_directory dir marker w"
  shows "validate_managed_directory dir marker w \<noteq> (Inr present, w')"
proof
  assume "validate_managed_directory dir marker w = (Inr present, w')"
  from managed_validated [OF this] show False
  proof (elim disjE conjE exE)
    assume "kind_at dir (next_moment w) = None"
    then show False using assms passes_kind [OF passes_next] by (simp add: foreign_directory_def)
  next
    fix w1 w2 c
    assume "passes w w1" "kind_at dir w1 = Some Directory" "passes w w2"
      "kind_at (marker_path dir) w2 = Some (RegularFile c)" "fb_text c = Some marker"
    then have "managed dir marker w" using assms passes_kind by (auto simp: foreign_directory_def managed_def)
    then show False using assms by (simp add: foreign_directory_def)
  qed
qed

lemma seq_returned:
  assumes "io_seq m n w = (Inr y, w')"
  obtains x w1 where "m w = (Inr x, w1)" "n w1 = (Inr y, w')"
  using assms by (auto elim: io_seq_cases)

lemma bind_returned:
  assumes "io_bind m f w = (Inr y, w')"
  obtains x w1 where "m w = (Inr x, w1)" "f x w1 = (Inr y, w')"
  using assms by (auto elim: io_bind_cases)

lemma bool_exists [simp]: "\<exists>b. b" "\<exists>b. \<not> b"
  by blast+

lemma for_returned:
  assumes "\<And>x. observes (f x)" "io_for f xs w = (Inr u, w')" "x \<in> set xs"
  shows "\<exists>w1 w2 u. passes w w1 \<and> f x w1 = (Inr u, w2)"
  using assms(2,3)
proof (induction xs arbitrary: w)
  case (Cons y ys)
  obtain u1 w1 where w1: "f y w = (Inr u1, w1)" "io_for f ys w1 = (Inr u, w')"
    using Cons.prems(1) by (auto elim: seq_returned)
  show ?case
  proof (cases "x = y")
    case False
    then obtain w2 w3 u2 where "passes w1 w2" "f x w2 = (Inr u2, w3)" using Cons.IH [OF w1(2)] Cons.prems(2) by auto
    then show ?thesis using passes_trans [OF observes_step [OF assms(1) w1(1)]] by blast
  qed (use w1(1) passes_refl in blast)
qed simp

text \<open>A directory of a node in FRR's own roots, which must have the marker of the deployment.\<close>

definition pathspace_dir :: "frr_runtime \<Rightarrow> topology_plan \<Rightarrow> path \<Rightarrow> string \<Rightarrow> bool" where
  "pathspace_dir rt plan dir marker \<longleftrightarrow> (\<exists>node \<in> set (routing_nodes plan).
     dir = state_dir rt plan node \<and> marker = state_marker plan node \<or>
     dir = vty_config_dir rt plan node \<and> marker = vty_config_marker plan node)"

lemma node_artifacts_validated:
  assumes "validate_node_artifacts rt plan legacy node w = (Inr u, w')"
    and "dir = state_dir rt plan node \<and> marker = state_marker plan node \<or>
      dir = vty_config_dir rt plan node \<and> marker = vty_config_marker plan node"
  shows "\<exists>w1 w2 present. passes w w1 \<and> validate_managed_directory dir marker w1 = (Inr present, w2)"
proof -
  obtain x1 w1 x2 w2 x3 w3 x4 w4 where steps: "validate_node_runtime rt plan legacy node w = (Inr x1, w1)"
      "refuse_symlinks (node_dir rt plan node) w1 = (Inr x2, w2)"
      "validate_managed_directory (state_dir rt plan node) (state_marker plan node) w2 = (Inr x3, w3)"
      "validate_managed_directory (vty_config_dir rt plan node) (vty_config_marker plan node) w3 = (Inr x4, w4)"
    using assms(1) unfolding validate_node_artifacts_def by (elim seq_returned) (rule that)
  have w2: "passes w w2"
    using passes_trans [OF observes_step [OF observes_node_runtime(1) steps(1)] observes_step [OF observes_node_runtime(2) steps(2)]] .
  have w3: "passes w w3" using passes_trans [OF w2 observes_step [OF observes_managed steps(3)]] .
  from assms(2) show ?thesis
  proof (elim disjE conjE)
    assume "dir = state_dir rt plan node" "marker = state_marker plan node"
    then show ?thesis using w2 steps(3) by metis
  next
    assume "dir = vty_config_dir rt plan node" "marker = vty_config_marker plan node"
    then show ?thesis using w3 steps(4) by metis
  qed
qed

lemma foreign_artifacts_refused:
  assumes "pathspace_dir rt plan dir marker" "foreign_directory dir marker w"
  shows "validate_artifacts rt plan w \<noteq> (Inr legacy, w')"
proof
  assume "validate_artifacts rt plan w = (Inr legacy, w')"
  then obtain l w1 u w2 where w1: "validate_runtime_artifacts rt plan w = (Inr l, w1)"
      "io_for (validate_node_artifacts rt plan l) (routing_nodes plan) w1 = (Inr u, w2)"
    unfolding validate_artifacts_def by (elim bind_returned seq_returned) (rule that)
  obtain node where node: "node \<in> set (routing_nodes plan)"
      "dir = state_dir rt plan node \<and> marker = state_marker plan node \<or>
      dir = vty_config_dir rt plan node \<and> marker = vty_config_marker plan node"
    using assms(1) by (auto simp: pathspace_dir_def)
  obtain w3 w4 u' where w3: "passes w1 w3" "validate_node_artifacts rt plan l node w3 = (Inr u', w4)"
    using for_returned [OF observes_node_artifacts w1(2) node(1)] by blast
  obtain w5 present w6 where w5: "passes w3 w5" "validate_managed_directory dir marker w5 = (Inr present, w6)"
    using node_artifacts_validated [OF w3(2) node(2)] by blast
  have "passes w w5"
    using observes_step [OF observes_runtime_artifacts w1(1)] w3(1) w5(1) passes_trans by blast
  then show False using foreign_not_validated [OF foreign_passes [OF _ assms(2)]] w5(2) by blast
qed

text \<open>The search for artifacts only tests, so it does not fail, and finds what is there.\<close>

lemma any_found:
  assumes "\<And>x w. \<exists>b. f x w = (Inr b, snd (f x w))" "\<And>x. observes (f x)"
  shows "\<exists>b. io_any f xs w = (Inr b, snd (io_any f xs w)) \<and>
    (\<not> b \<longrightarrow> (\<forall>x \<in> set xs. \<exists>w1 w2. passes w w1 \<and> f x w1 = (Inr False, w2)))"
proof (induction xs arbitrary: w)
  case (Cons y ys)
  obtain b w1 where b: "f y w = (Inr b, w1)" using assms(1) [of y w] by blast
  have w1: "passes w w1" using observes_step [OF assms(2) b] .
  show ?case
  proof (cases b)
    case False
    obtain c where c: "io_any f ys w1 = (Inr c, snd (io_any f ys w1))"
        "\<not> c \<Longrightarrow> \<forall>x \<in> set ys. \<exists>w2 w3. passes w1 w2 \<and> f x w2 = (Inr False, w3)"
      using Cons.IH [of w1] by blast
    have "io_any f (y # ys) w = io_any f ys w1" using b False by (simp add: io_simps)
    moreover have "\<exists>w2 w3. passes w w2 \<and> f x w2 = (Inr False, w3)" if "\<not> c" "x \<in> set (y # ys)" for x
      using that c(2) b False passes_trans [OF w1] by auto blast+
    ultimately show ?thesis using c(1) by (intro exI [of _ c]) auto
  next
    case True
    then show ?thesis using b by (intro exI [of _ True]) (simp add: io_simps)
  qed
qed simp

lemma foreign_artifacts_found:
  assumes "pathspace_dir rt plan dir marker" "foreign_directory dir marker w"
  shows "has_artifacts rt plan w = (Inr True, snd (has_artifacts rt plan w))"
proof -
  let ?f = "\<lambda>node. io_bind (path_exists (state_dir rt plan node)) (\<lambda>present.
       if present then io_return True else path_exists (vty_config_dir rt plan node))"
  have f: "observes (?f node)" for node by (intro observing)
  have total: "\<exists>b. ?f node w = (Inr b, snd (?f node w))" for node w
    unfolding io_bind_def path_exists_def host_test_def by (simp del: not_None_eq)
  obtain node where node: "node \<in> set (routing_nodes plan)" "dir = state_dir rt plan node \<or> dir = vty_config_dir rt plan node"
    using assms(1) by (auto simp: pathspace_dir_def)
  have there: "kind_at dir (next_moment w1) \<noteq> None" if "passes w w1" for w1
    using assms(2) passes_kind [of w "next_moment w1"] passes_trans [OF that passes_next] by (auto simp: foreign_directory_def)
  have "\<not> (passes w w1 \<and> ?f node w1 = (Inr False, w2))" for w1 w2
  proof
    assume "passes w w1 \<and> ?f node w1 = (Inr False, w2)"
    then show False using there [of w1] there [of "next_moment w1"] node(2) passes_trans [OF _ passes_next]
      by (auto simp: io_bind_def path_exists_def host_test_def split: if_splits)
  qed
  then have never: "\<not> (\<exists>w1 w2. passes (next_moment w) w1 \<and> ?f node w1 = (Inr False, w2))"
    using passes_trans [OF passes_next] by blast
  obtain b where b: "io_any ?f (routing_nodes plan) (next_moment w) = (Inr b, snd (io_any ?f (routing_nodes plan) (next_moment w)))"
      "\<not> b \<Longrightarrow> \<forall>x \<in> set (routing_nodes plan). \<exists>w1 w2. passes (next_moment w) w1 \<and> ?f x w1 = (Inr False, w2)"
    using any_found [where f = ?f and w = "next_moment w" and xs = "routing_nodes plan", OF total f] by blast
  have "b" using b(2) never node(1) by blast
  with b(1) show ?thesis
    unfolding has_artifacts_def by (simp add: io_bind_def path_exists_def host_test_def)
qed

section \<open>Foreign directories are left alone\<close>

text \<open>
  C29. When a directory that \<open>start\<close> or \<open>stop\<close> would use in FRR's state or configuration root is there
  without the marker of this deployment, both raise and have done nothing: the world is as the other
  processes alone would have left it, with no signal sent and no file changed.
\<close>

theorem foreign_pathspace_untouched:
  assumes "pathspace_dir rt plan dir marker" and "foreign_directory dir marker w"
  shows "(\<exists>e w'. start_runtime rt plan w = (Inl e, w') \<and> passes w w' \<and> fh_signals w' = fh_signals w) \<and>
    (\<exists>e w'. stop_runtime rt plan w = (Inl e, w') \<and> passes w w' \<and> fh_signals w' = fh_signals w)"
proof
  note result = passes_untouched(3)
  have refused: "\<exists>e w'. validate_artifacts rt plan w1 = (Inl e, w') \<and> passes w1 w'" if "passes w w1" for w1
  proof -
    obtain r w' where r: "validate_artifacts rt plan w1 = (r, w')" by fastforce
    then have "passes w1 w'" using observes_step [OF observes_artifacts(1)] by blast
    then show ?thesis
      using r foreign_artifacts_refused [OF assms(1) foreign_passes [OF that assms(2)]] by (cases r) auto
  qed
  obtain e w1 where stop: "validate_artifacts rt plan w = (Inl e, w1)" "passes w w1" using refused [OF passes_refl] by blast
  then show "\<exists>e w'. stop_runtime rt plan w = (Inl e, w') \<and> passes w w' \<and> fh_signals w' = fh_signals w"
    using result by (auto simp: stop_runtime_def io_simps)
  let ?w1 = "snd (has_artifacts rt plan w)"
  note found = foreign_artifacts_found [OF assms]
  have w1: "passes w ?w1" using observes_step [OF observes_artifacts(2) found] .
  obtain e' w2 where start: "validate_artifacts rt plan ?w1 = (Inl e', w2)" "passes ?w1 w2" using refused [OF w1] by blast
  have "routing_nodes plan \<noteq> []" using assms(1) by (auto simp: pathspace_dir_def)
  then have "start_runtime rt plan w = (Inl e', w2)"
    by (simp add: start_runtime_def io_bind_Inr [of "has_artifacts rt plan", OF found] io_simps start(1))
  then show "\<exists>e w'. start_runtime rt plan w = (Inl e, w') \<and> passes w w' \<and> fh_signals w' = fh_signals w"
    using passes_trans [OF w1 start(2)] result by blast
qed

text \<open>A directory with the name of the router's state directory that someone else has made.\<close>

definition foreign_host :: frr_host where
  "foreign_host = quiet_host [(state_dir sample_runtime router_plan router_node, new_node Directory 493)] []"

lemma foreign_pathspace_untouched_witness:
  "\<exists>e w'. start_runtime sample_runtime router_plan foreign_host = (Inl e, w') \<and> fh_signals w' = []"
proof -
  have "foreign_directory (state_dir sample_runtime router_plan router_node) (state_marker router_plan router_node) foreign_host"
    by (simp add: foreign_directory_def managed_def undisturbed_path_def foreign_host_def quiet_host_def sample_host_def
      kind_at_def marker_path_def new_node_def)
  then have "\<exists>e w'. start_runtime sample_runtime router_plan foreign_host = (Inl e, w') \<and> passes foreign_host w' \<and>
      fh_signals w' = fh_signals foreign_host"
    using foreign_pathspace_untouched [of sample_runtime router_plan
      "state_dir sample_runtime router_plan router_node" "state_marker router_plan router_node" foreign_host]
    by (simp add: pathspace_dir_def)
  then show ?thesis by (simp add: foreign_host_def quiet_host_def sample_host_def) blast
qed

end
