(* ===== verification/Frr_Frames.thy ===== *)
theory Frr_Frames
  imports Frr_Facts
begin

text \<open>
  Which files \<open>start_runtime\<close> and \<open>stop_runtime\<close> can change: the three roots with the directories above
  them, and what is below the directories of the deployment.
\<close>

section \<open>Operations that leave a path alone\<close>

definition spares :: "path \<Rightarrow> 'a host_io \<Rightarrow> bool" where
  "spares p m \<longleftrightarrow> (\<forall>w. undisturbed_path w p \<longrightarrow>
     dict_get (fh_files (snd (m w))) p = dict_get (fh_files w) p \<and> fh_events (snd (m w)) = fh_events w)"

named_theorems sparing \<open>operations that leave a path alone\<close>

lemma spares_step:
  assumes "spares p m" "undisturbed_path w p" "m w = (r, w')"
  shows "undisturbed_path w' p" "dict_get (fh_files w') p = dict_get (fh_files w) p" "fh_events w' = fh_events w"
  using assms by (auto simp: spares_def undisturbed_path_def) (metis snd_conv)+

lemma passes_events: "passes w w' \<Longrightarrow> fh_events w' = fh_events w"
proof -
  assume "passes w w'"
  then obtain k where "w' = (next_moment ^^ k) w" by (auto simp: passes_def)
  then show ?thesis by (induction k arbitrary: w') simp_all
qed

lemma spares_observes: "observes m \<Longrightarrow> spares p m"
  unfolding spares_def observes_def by (blast intro: passes_untouched(2) passes_events)

lemma spares_bind_value:
  assumes "spares p m" "\<And>w x w'. m w = (Inr x, w') \<Longrightarrow> spares p (f x)"
  shows "spares p (io_bind m f)"
  unfolding spares_def
proof (intro allI impI)
  fix w
  assume w: "undisturbed_path w p"
  obtain r w1 where m: "m w = (r, w1)" by fastforce
  note w1 = spares_step [OF assms(1) w m]
  show "dict_get (fh_files (snd (io_bind m f w))) p = dict_get (fh_files w) p \<and>
      fh_events (snd (io_bind m f w)) = fh_events w"
  proof (cases r)
    case (Inr x)
    then have "spares p (f x)" using assms(2) m by blast
    then show ?thesis using w1 m Inr by (auto simp: spares_def io_bind_def)
  qed (use w1 m in \<open>simp add: io_bind_def\<close>)
qed

lemma spares_bind [sparing]: "spares p m \<Longrightarrow> (\<And>x. spares p (f x)) \<Longrightarrow> spares p (io_bind m f)"
  by (rule spares_bind_value)

lemma spares_seq [sparing]: "spares p m \<Longrightarrow> spares p n \<Longrightarrow> spares p (io_seq m n)"
  unfolding io_seq_def by (rule spares_bind)

lemma spares_attempt [sparing]: "spares p m \<Longrightarrow> spares p (io_attempt m)"
  by (simp add: spares_def io_attempt_app)

lemma spares_basic [sparing]: "spares p (io_return x)" "spares p (io_raise e)" "spares p (io_lift r)" "spares p (io_get f)"
  by (simp_all add: spares_def)

lemma spares_for [sparing]: "(\<And>x. x \<in> set xs \<Longrightarrow> spares p (f x)) \<Longrightarrow> spares p (io_for f xs)"
  by (induction xs) (auto intro: sparing)

lemma spares_fold [sparing]: "(\<And>x b. x \<in> set xs \<Longrightarrow> spares p (f x b)) \<Longrightarrow> spares p (io_fold f xs b)"
  by (induction xs arbitrary: b) (auto intro: sparing)

lemma spares_if [sparing]: "(b \<Longrightarrow> spares p m) \<Longrightarrow> (\<not> b \<Longrightarrow> spares p n) \<Longrightarrow> spares p (if b then m else n)"
  by simp

lemma spares_sum [sparing]:
  "(\<And>e. spares p (f e)) \<Longrightarrow> (\<And>x. spares p (g x)) \<Longrightarrow> spares p (case r of Inl e \<Rightarrow> f e | Inr x \<Rightarrow> g x)"
  by (cases r) simp_all

lemma spares_option [sparing]:
  "spares p f \<Longrightarrow> (\<And>x. spares p (g x)) \<Longrightarrow> spares p (case r of None \<Rightarrow> f | Some x \<Rightarrow> g x)"
  by (cases r) simp_all

lemma spares_pair [sparing]: "(\<And>a b. spares p (f a b)) \<Longrightarrow> spares p (case r of (a, b) \<Rightarrow> f a b)"
  by (cases r) simp

lemma spares_call:
  assumes "\<And>w. dict_get (fh_files (snd (act w))) p = dict_get (fh_files w) p \<and> fh_events (snd (act w)) = fh_events w"
  shows "spares p (host_call act)"
  using assms by (auto simp: spares_def host_call_def next_moment_untouched split: fault.split)

section \<open>System calls\<close>

lemma spares_tests [sparing]: "spares p (path_exists q)" "spares p (is_symlink q)" "spares p (is_directory q)"
  "spares p (is_regular_file q)" "spares p (target_exists q)" "spares p (list_directory q)" "spares p (read_ascii q)"
  "spares p (read_json q)" "spares p (sys_probe pid)"
  by (simp_all add: target_exists_def spares_observes observes_reads)

lemma spares_refuse [sparing]: "spares p test \<Longrightarrow> spares p (refuse_if test e)"
  unfolding refuse_if_def by (intro sparing)

lemma spares_changes [sparing]:
  "p \<noteq> q \<Longrightarrow> spares p (make_directory mode q)" "p \<noteq> q \<Longrightarrow> spares p (change_node f q)"
  "p \<noteq> q \<Longrightarrow> spares p (create_exclusive q)" "p \<noteq> q \<Longrightarrow> spares p (remove_file q)"
  "p \<noteq> q \<Longrightarrow> spares p (remove_directory q)" "p \<noteq> q \<Longrightarrow> spares p (create_or_keep mode q)"
  "p \<noteq> q \<Longrightarrow> p \<noteq> t \<Longrightarrow> spares p (sys_rename q t)"
  unfolding make_directory_def change_node_def create_exclusive_def remove_file_def remove_directory_def
    create_or_keep_def sys_rename_def
  by (rule spares_call; auto simp: put_node_def remove_node_def split: option.split file_kind.split)+

lemma spares_modes [sparing]: "p \<noteq> q \<Longrightarrow> spares p (sys_chmod q mode)" "p \<noteq> q \<Longrightarrow> spares p (sys_chown q u g)"
  unfolding sys_chmod_def sys_chown_def by (intro sparing; assumption)+

lemma deliver_files [simp]: "fh_files (deliver k pid w) = fh_files w" "fh_events (deliver k pid w) = fh_events w"
  by (simp_all add: deliver_def Let_def)

lemma deliver_all_files [simp]: "fh_files (fold (deliver k) pids w) = fh_files w" "fh_events (fold (deliver k) pids w) = fh_events w"
  by (induction pids arbitrary: w) simp_all

lemma spares_processes [sparing]: "spares p (sys_kill pid k)" "spares p (sys_killpg pid k)" "spares p (spawn_process ns argv)"
  "spares p (poll_process pid)" "spares p (sleep_for s)"
  unfolding sys_kill_def sys_killpg_def spawn_process_def poll_process_def sleep_for_def
  by (rule spares_call; auto simp: Let_def split: option.split)+

lemma spares_draw [sparing]: "spares p draw_name"
  by (simp add: spares_def draw_name_def)

lemma not_below_child: "\<not> below dir p \<Longrightarrow> p \<noteq> dir @ xs"
  by (auto simp: below_def)

lemma spares_temporary [sparing]: "\<not> below dir p \<Longrightarrow> spares p (make_temporary n dir prefix)"
  by (induction n) (auto intro!: sparing dest: not_below_child)

lemma temporary_value: "make_temporary n dir prefix w = (Inr t, w') \<Longrightarrow> \<exists>c. t = dir @ [c]"
  by (induction n arbitrary: w) (auto elim!: io_bind_cases split: sum.splits if_splits)

lemma tree_paths_below: "q \<in> set (tree_paths dir w) \<Longrightarrow> below dir q"
  by (simp add: tree_paths_def)

lemma spares_tree [sparing]:
  assumes "\<not> below dir p"
  shows "spares p (remove_tree dir)"
  unfolding remove_tree_def
proof (rule spares_bind_value)
  fix w paths w'
  assume "host_call (\<lambda>w. (if kind_at dir w = Some Directory then Inr (tree_paths dir w)
       else Inl (file_not_found (path_text dir)), w)) w = (Inr paths, w')"
  then have "\<forall>q \<in> set paths. below dir q"
    by (auto simp: host_call_def tree_paths_below split: fault.splits if_splits)
  then have "\<forall>q \<in> set paths. p \<noteq> q" using assms by blast
  then show "spares p (io_for remove_entry paths)"
    unfolding remove_entry_def by (auto intro!: sparing)
qed (rule spares_call, simp)

section \<open>The operations of the runtime\<close>

text \<open>\<open>p\<close> neither lies below the directory nor is one that it lies in.\<close>

definition off :: "path \<Rightarrow> path \<Rightarrow> bool" where
  "off dir p \<longleftrightarrow> \<not> below dir p \<and> \<not> below p dir"

lemma off_child: "off dir p \<Longrightarrow> p \<noteq> dir @ xs" "off dir p \<Longrightarrow> p \<noteq> dir" "off dir p \<Longrightarrow> \<not> below dir p"
  "off dir p \<Longrightarrow> \<not> below p dir"
  by (auto simp: off_def below_def)

lemma ancestors_below: "q \<in> set (ancestors dir) \<Longrightarrow> below q dir"
  by (auto simp: ancestors_def below_def min_def)

lemma spares_directories [sparing]: "\<not> below p dir \<Longrightarrow> spares p (make_directories dir mode)"
  unfolding make_directories_def by (auto intro!: sparing dest: ancestors_below simp: below_def)

lemma spares_wrap [sparing]: "spares p m \<Longrightarrow> spares p (wrap_os_error f m)"
  unfolding wrap_os_error_def by (intro sparing)

lemma spares_ensure [sparing]: "\<not> below p dir \<Longrightarrow> spares p (frr_ensure_directory dir)"
  unfolding frr_ensure_directory_def by (intro sparing) (auto simp: below_def)

lemma spares_marker [sparing]: "spares p (read_matching_marker dir m)" "spares p (validate_managed_directory dir m)"
  "spares p (validate_artifacts rt plan)" "spares p (has_artifacts rt plan)" "spares p (validate_runtime_artifacts rt plan)"
  by (simp_all add: spares_observes observes_marker observes_managed observes_artifacts observes_runtime_artifacts)

lemma spares_fill [sparing]: "p \<noteq> t \<Longrightarrow> p \<noteq> q \<Longrightarrow> spares p (fill_and_replace q content mode t)"
  unfolding fill_and_replace_def write_bytes_def by (auto intro!: sparing spares_call)

lemma attempt_value: "io_attempt m w = (Inr (Inr x), w') \<Longrightarrow> m w = (Inr x, w')"
  by (auto simp: io_attempt_def split: prod.splits)

lemma spares_write_temporary [sparing]:
  assumes "\<not> below dir p"
  shows "spares p (write_temporary (dir @ [name]) content mode)"
  unfolding write_temporary_def
proof (rule spares_bind_value)
  fix w x w'
  assume x: "io_attempt (make_temporary tmp_max (butlast (dir @ [name])) (''.'' @ path_name (dir @ [name]) @ ''.tmp-'')) w = (Inr x, w')"
  show "spares p (case x of Inl e \<Rightarrow> io_return (Inl e, None) | Inr temporary \<Rightarrow>
      io_bind (io_attempt (fill_and_replace (dir @ [name]) content mode temporary)) (\<lambda>r. case r of
          Inl e \<Rightarrow> io_return (Inl e, Some temporary) | Inr _ \<Rightarrow> io_return (Inr (), None)))"
  proof (cases x)
    case (Inr t)
    obtain c where "t = dir @ [c]"
      using temporary_value [OF attempt_value [OF x [unfolded Inr]]] by auto
    then show ?thesis using assms not_below_child by (auto simp: Inr intro!: sparing)
  qed (simp add: sparing)
qed (use assms in \<open>auto intro!: sparing\<close>)

lemma write_temporary_leftover:
  assumes "write_temporary (dir @ [name]) content mode w = (Inr (r, Some t), w')"
  shows "\<exists>c. t = dir @ [c]"
proof -
  obtain w1 where "make_temporary tmp_max dir (''.'' @ name @ ''.tmp-'') w = (Inr t, w1)"
    using assms unfolding write_temporary_def
    by (auto elim!: io_bind_cases split: sum.splits simp: io_attempt_def path_name_def split: prod.splits)
  then show ?thesis by (rule temporary_value)
qed

lemma spares_leftover [sparing]: "(\<And>t. leftover = Some t \<Longrightarrow> p \<noteq> t) \<Longrightarrow> spares p (remove_leftover leftover)"
  unfolding remove_leftover_def by (cases leftover) (auto intro!: sparing)

lemma spares_write_file [sparing]:
  assumes "\<not> below dir p"
  shows "spares p (write_file (dir @ [name]) content mode)"
  unfolding write_file_def
proof (intro spares_seq spares_bind_value)
  fix w x w'
  assume written: "write_temporary (dir @ [name]) content mode w = (Inr x, w')"
  obtain outcome leftover where x: "x = (outcome, leftover)" by (cases x)
  have "p \<noteq> t" if "leftover = Some t" for t
    using write_temporary_leftover [OF written [unfolded x that]] assms not_below_child by blast
  then show "spares p (case x of (outcome, leftover) \<Rightarrow> io_seq (remove_leftover leftover)
     (io_lift (case outcome of
        Inl e \<Rightarrow> if is_nslab_error e then Inl e
          else if is_os_error e then Inl (runtime_failure ''failed to write routing runtime file'' (dir @ [name]) e) else Inl e
      | Inr _ \<Rightarrow> Inr ())))"
    unfolding x by (auto intro!: sparing)
qed (intro sparing assms)+

lemma spares_write_text [sparing]: "\<not> below dir p \<Longrightarrow> spares p (write_text (dir @ [name]) text)"
  unfolding write_text_def by (intro sparing)

lemma spares_owned [sparing]: "p \<noteq> q \<Longrightarrow> spares p (prepare_owned_directory q i)" "p \<noteq> q \<Longrightarrow> spares p (prepare_owned_file q i mode)"
  unfolding prepare_owned_directory_def prepare_owned_file_def prepare_owned_def by (intro sparing; assumption)+

lemma spares_managed [sparing]: "off dir p \<Longrightarrow> spares p (prepare_managed_directory dir m i)"
proof -
  assume "off dir p"
  then have "p \<noteq> dir" "p \<noteq> dir @ [marker_file]" "\<not> below dir p" "\<not> below p dir"
    by (simp_all add: off_child)
  then show "spares p (prepare_managed_directory dir m i)"
    unfolding prepare_managed_directory_def marker_path_def by (auto intro!: sparing)
qed

lemma spares_reading [sparing]: "spares p (read_records rt plan node)" "spares p (read_metadata q)" "spares p (pid_exists pid)"
  unfolding read_records_def Let_def add_pid_record_def read_pid_file_def read_metadata_def pid_exists_def
  by (intro sparing)+

lemma spares_all [sparing]: "(\<And>x. spares p (f x)) \<Longrightarrow> spares p (io_all f xs)"
  by (induction xs) (auto intro!: sparing)

lemma spares_map [sparing]: "(\<And>x. spares p (f x)) \<Longrightarrow> spares p (io_map f xs)"
  by (induction xs) (auto intro!: sparing)

lemma spares_ready [sparing]: "spares p (runtime_ready rt plan)"
  unfolding runtime_ready_def runtime_status_def status_for_node_def metadata_matches_def managed_directories_present_def
  by (intro sparing)

lemma spares_vty [sparing]:
  "\<not> below p (rt_config_root rt) \<Longrightarrow> off (vty_config_dir rt plan node) p \<Longrightarrow> spares p (prepare_vty_config rt plan node i)"
  unfolding prepare_vty_config_def Let_def by (intro sparing) (auto simp: off_child)

lemma spares_spawn [sparing]: "\<not> below (node_dir rt plan node) p \<Longrightarrow> spares p (spawn_daemon rt plan node daemon binary i)"
  unfolding spawn_daemon_def Let_def refuse_unsafe_file_def by (intro sparing) (auto simp: not_below_child)

lemma spares_started: "spares p (check_started rt pid daemon node socket deadline)"
  unfolding check_started_def socket_ready_def by (intro sparing)

lemma spares_wait_started: "spares p (wait_started rt pid daemon node socket deadline)"
  unfolding spares_def
proof (intro allI impI)
  fix w
  show "undisturbed_path w p \<Longrightarrow> dict_get (fh_files (snd (wait_started rt pid daemon node socket deadline w))) p = dict_get (fh_files w) p \<and>
      fh_events (snd (wait_started rt pid daemon node socket deadline w)) = fh_events w"
  proof (induction rt pid daemon node socket deadline w rule: wait_started.induct)
    case (1 rt pid daemon node socket deadline w)
    obtain r w' where r: "check_started rt pid daemon node socket deadline w = (r, w')" by fastforce
    note w' = spares_step [OF spares_started 1(2) r]
    show ?case
      using r w' 1(1) [OF r [symmetric]] by (subst (1 2) wait_started.simps) (auto split: sum.split)
  qed
qed

lemma spares_wait_gone: "spares p (wait_gone pid deadline)"
  unfolding spares_def
proof (intro allI impI)
  fix w
  have check: "spares p (check_gone pid deadline)" unfolding check_gone_def by (intro sparing)
  show "undisturbed_path w p \<Longrightarrow> dict_get (fh_files (snd (wait_gone pid deadline w))) p = dict_get (fh_files w) p \<and>
      fh_events (snd (wait_gone pid deadline w)) = fh_events w"
    using check
  proof (induction pid deadline w rule: wait_gone.induct)
    case (1 pid deadline w)
    obtain r w' where r: "check_gone pid deadline w = (r, w')" by fastforce
    note w' = spares_step [OF 1(3) 1(2) r]
    show ?case
      using r w' 1(3) 1(1) [OF r [symmetric]] by (subst (1 2) wait_gone.simps) (auto split: sum.split)
  qed
qed

lemma spares_await [sparing]: "spares p (await_started rt pid daemon node socket)" "spares p (await_end rt pid)"
  unfolding await_started_def await_end_def suppress_os_error_def by (intro sparing spares_wait_started spares_wait_gone)+

lemma spares_terminate [sparing]: "spares p (terminate_processes rt records)"
  unfolding terminate_processes_def terminate_process_def Let_def suppress_os_error_def by (intro sparing)

lemma spares_metadata [sparing]: "\<not> below (node_dir rt plan node) p \<Longrightarrow> spares p (save_metadata rt plan node records)"
  unfolding save_metadata_def metadata_path_def by (intro sparing)

lemma spares_artifact [sparing]: "\<not> below dir p \<Longrightarrow> spares p (remove_artifact text dir)"
  unfolding remove_artifact_def by (intro sparing)

section \<open>Starting and stopping\<close>

text \<open>The paths \<open>start\<close> and \<open>stop\<close> may change.\<close>

definition own_path :: "frr_runtime \<Rightarrow> topology_plan \<Rightarrow> path \<Rightarrow> bool" where
  "own_path rt plan p \<longleftrightarrow>
     below p (rt_runtime_root rt) \<or> below p (rt_state_root rt) \<or> below p (rt_config_root rt) \<or>
     below (deployment_dir rt plan) p \<or>
     (\<exists>node \<in> set (routing_nodes plan). below (state_dir rt plan node) p \<or> below (vty_config_dir rt plan node) p)"

lemma below_snoc: "below p (dir @ [c]) \<Longrightarrow> below p dir \<or> below (dir @ [c]) p"
  by (cases "length p \<le> length dir") (auto simp: below_def)

lemma below_parent: "below (dir @ xs) p \<Longrightarrow> below dir p"
  unfolding below_def by (metis append_take_drop_id append_assoc append_eq_conv_conj)

lemma not_own:
  assumes "\<not> own_path rt plan p"
  shows "off (deployment_dir rt plan) p" "off (node_dir rt plan node) p" "\<not> below p (rt_runtime_root rt)"
    "\<not> below p (rt_state_root rt)" "\<not> below p (rt_config_root rt)"
    "node \<in> set (routing_nodes plan) \<Longrightarrow> off (state_dir rt plan node) p \<and> off (vty_config_dir rt plan node) p"
proof -
  show roots: "\<not> below p (rt_runtime_root rt)" "\<not> below p (rt_state_root rt)" "\<not> below p (rt_config_root rt)"
    using assms by (simp_all add: own_path_def)
  show dep: "off (deployment_dir rt plan) p"
    using assms below_snoc [of p "rt_runtime_root rt"] by (auto simp: own_path_def off_def deployment_dir_def)
  then have "\<not> below (node_dir rt plan node) p" using below_parent by (auto simp: off_def node_dir_def)
  then show "off (node_dir rt plan node) p"
    using dep below_snoc [of p "deployment_dir rt plan"] by (auto simp: off_def node_dir_def)
  show "node \<in> set (routing_nodes plan) \<Longrightarrow> off (state_dir rt plan node) p \<and> off (vty_config_dir rt plan node) p"
    using assms below_snoc [of p "rt_state_root rt"] below_snoc [of p "rt_config_root rt"]
    by (auto simp: own_path_def off_def state_dir_def vty_config_dir_def)
qed

lemma spares_cleanup:
  assumes "\<not> own_path rt plan p"
  shows "spares p (cleanup_deployment rt plan)"
  unfolding cleanup_deployment_def using not_own [OF assms]
  by (intro sparing) (auto simp: off_child)

lemma spares_stop:
  assumes "\<not> own_path rt plan p"
  shows "spares p (stop_runtime rt plan)"
  unfolding stop_runtime_def live_records_def by (intro sparing spares_cleanup assms)

lemma spares_daemons:
  "\<not> below (node_dir rt plan node) p \<Longrightarrow> spares p (start_daemons rt plan node bs i daemons records started)"
proof (induction daemons arbitrary: records started)
  case (Cons daemon daemons)
  have "spares p (start_daemon rt plan node bs i daemon records started)"
    unfolding start_daemon_def Let_def by (intro sparing Cons.prems)
  then show ?case using Cons by (auto intro!: sparing)
qed (simp add: sparing)

lemma spares_nodes:
  assumes "\<not> own_path rt plan p" "set nodes \<subseteq> set (routing_nodes plan)"
  shows "spares p (start_nodes rt plan binaries i nodes started)"
  using assms(2)
proof (induction nodes arbitrary: started)
  case (Cons node nodes)
  note off = not_own(1-5) [OF assms(1)] not_own(6) [OF assms(1), of node]
  have "spares p (prepare_node rt plan node i)"
    unfolding prepare_node_def Let_def using off Cons.prems
    by (intro sparing) (auto simp: off_child)
  moreover have "spares p (start_daemons rt plan node bs i ds rs st)" for bs ds rs st
    using off(2) by (intro spares_daemons off_child)
  ultimately show ?case
    using Cons by (auto simp: then_start_def plain_step_def intro!: sparing)
qed (simp add: sparing)

lemma spares_start:
  assumes "\<not> own_path rt plan p"
  shows "spares p (start_runtime rt plan)"
proof -
  have "spares p (prepare_deployment rt plan)"
    unfolding prepare_deployment_def using not_own [OF assms] by (intro sparing) (auto simp: off_child)
  then have "spares p (start_fresh rt plan)"
    unfolding start_fresh_def by (intro sparing spares_nodes assms subset_refl)
  then show ?thesis
    unfolding start_runtime_def abandon_start_def by (intro sparing spares_stop spares_cleanup assms)
qed



end
