(* ===== verification/Frr_Stops.thy ===== *)
theory Frr_Stops
  imports Frr_Frames
begin

text \<open>
  What a \<open>stop_runtime\<close> that returns has achieved: nothing of the deployment is left.
\<close>

text \<open>An operation that does not create the path.\<close>

definition uncreating :: "path \<Rightarrow> 'a host_io \<Rightarrow> bool" where
  "uncreating p m \<longleftrightarrow> (\<forall>w. undisturbed_path w p \<longrightarrow>
     (kind_at p w = None \<longrightarrow> kind_at p (snd (m w)) = None) \<and> fh_events (snd (m w)) = fh_events w)"

lemma uncreating_spares: "spares p m \<Longrightarrow> uncreating p m"
  by (simp add: uncreating_def spares_def kind_at_def)

lemma uncreating_step:
  assumes "uncreating p m" "undisturbed_path w p" "m w = (r, w')"
  shows "undisturbed_path w' p" "kind_at p w = None \<Longrightarrow> kind_at p w' = None"
  using assms by (auto simp: uncreating_def undisturbed_path_def) (metis snd_conv)+

lemma uncreating_bind:
  assumes "uncreating p m" "\<And>x. uncreating p (f x)"
  shows "uncreating p (io_bind m f)"
  unfolding uncreating_def
proof (intro allI impI)
  fix w
  assume w: "undisturbed_path w p"
  obtain r w1 where m: "m w = (r, w1)" by fastforce
  have w1: "undisturbed_path w1 p" "kind_at p w = None \<Longrightarrow> kind_at p w1 = None" "fh_events w1 = fh_events w"
    using uncreating_step [OF assms(1) w m] assms(1) w m by (auto simp: uncreating_def)
  then show "(kind_at p w = None \<longrightarrow> kind_at p (snd (io_bind m f w)) = None) \<and>
      fh_events (snd (io_bind m f w)) = fh_events w"
    using assms(2) m by (cases r) (auto simp: io_bind_def uncreating_def)
qed

lemma uncreating_seq: "uncreating p m \<Longrightarrow> uncreating p n \<Longrightarrow> uncreating p (io_seq m n)"
  unfolding io_seq_def by (rule uncreating_bind)

lemma uncreating_for: "(\<And>x. uncreating p (f x)) \<Longrightarrow> uncreating p (io_for f xs)"
  by (induction xs) (auto intro: uncreating_seq uncreating_spares sparing)

lemma uncreating_call:
  assumes "\<And>w. (kind_at p w = None \<longrightarrow> kind_at p (snd (act w)) = None) \<and> fh_events (snd (act w)) = fh_events w"
  shows "uncreating p (host_call act)"
  using assms by (auto simp: uncreating_def host_call_def next_moment_untouched kind_at_def split: fault.split)

lemma uncreating_remove: "uncreating p (remove_entry q)"
  unfolding remove_entry_def
proof (intro uncreating_bind)
  show "uncreating p (is_directory q)" by (intro uncreating_spares sparing)
  show "uncreating p (if d then remove_directory q else remove_file q)" for d
    unfolding remove_directory_def remove_file_def
    by (cases d) (auto intro!: uncreating_call simp: remove_node_def kind_at_def)
qed

lemma uncreating_tree: "uncreating p (remove_tree dir)"
  unfolding remove_tree_def
  by (intro uncreating_bind uncreating_for uncreating_remove uncreating_spares spares_call) simp

lemma uncreating_attempt: "uncreating p m \<Longrightarrow> uncreating p (io_attempt m)"
  by (simp add: uncreating_def io_attempt_app)

lemma uncreating_wrap: "uncreating p m \<Longrightarrow> uncreating p (wrap_os_error f m)"
  unfolding wrap_os_error_def
  by (rule uncreating_bind, erule uncreating_attempt, rule uncreating_spares, intro sparing)

lemma uncreating_artifact: "uncreating p (remove_artifact text dir)"
proof -
  have "uncreating p (refuse_if (is_symlink dir) e)" for e by (intro uncreating_spares sparing)
  moreover have "uncreating p (path_exists dir)" by (intro uncreating_spares sparing)
  moreover have "uncreating p (io_return ())" by (intro uncreating_spares sparing)
  ultimately show ?thesis
    unfolding remove_artifact_def by (auto intro!: uncreating_bind uncreating_seq uncreating_wrap uncreating_tree)
qed

lemma removed_entry: "remove_entry q w = (Inr u, w') \<Longrightarrow> kind_at q w' = None"
  by (auto simp: remove_entry_def remove_directory_def remove_file_def host_call_def kind_at_def remove_node_def
    elim!: io_bind_cases split: if_splits fault.splits)

lemma removed_for:
  assumes "io_for remove_entry paths w = (Inr u, w')" "undisturbed_path w dir" "dir \<in> set paths \<or> kind_at dir w = None"
  shows "kind_at dir w' = None"
  using assms
proof (induction paths arbitrary: w)
  case (Cons q qs)
  obtain u1 w1 where w1: "remove_entry q w = (Inr u1, w1)" "io_for remove_entry qs w1 = (Inr u, w')"
    using Cons.prems(1) by (auto elim: seq_returned)
  note step = uncreating_step [OF uncreating_remove Cons.prems(2) w1(1)]
  show ?case
    using Cons.IH [OF w1(2) step(1)] Cons.prems(3) step(2) removed_entry [OF w1(1)] by auto
qed simp

lemma removed_tree:
  assumes "remove_tree dir w = (Inr u, w')" "undisturbed_path w dir"
  shows "kind_at dir w' = None"
proof -
  obtain w1 where w1: "kind_at dir w1 = Some Directory" "io_for remove_entry (tree_paths dir w1) w1 = (Inr u, w')"
      "fh_events w1 = fh_events w"
    using assms(1) unfolding remove_tree_def
    by (auto elim!: io_bind_cases simp: host_call_def split: fault.splits if_splits)
  have "dir \<in> set (tree_paths dir w1)"
    using w1(1) dict_get_SomeD [of "fh_files w1" dir] by (auto simp: tree_paths_def below_def kind_at_def)
  moreover have "undisturbed_path w1 dir" using assms(2) w1(3) by (simp add: undisturbed_path_def)
  ultimately show ?thesis using removed_for [OF w1(2)] by blast
qed

lemma removed_artifact:
  assumes "remove_artifact text dir w = (Inr u, w')" "undisturbed_path w dir"
  shows "kind_at dir w' = None"
proof -
  have "kind_at dir w' = None \<or> (\<exists>w1. passes w w1 \<and> remove_tree dir w1 = (Inr u, w'))"
    using assms(1) unfolding remove_artifact_def io_seq_def wrap_os_error_def path_exists_def is_symlink_def
    by (auto elim!: io_bind_cases split: if_splits sum.splits dest!: test_value refuse_passed attempt_value)
      (metis passes_next passes_trans)
  then show ?thesis using removed_tree passes_untouched(1) assms(2) by blast
qed

text \<open>The directories of a deployment.\<close>

definition artifact_dirs :: "frr_runtime \<Rightarrow> topology_plan \<Rightarrow> path list" where
  "artifact_dirs rt plan = deployment_dir rt plan #
     concat (map (\<lambda>node. [state_dir rt plan node, vty_config_dir rt plan node]) (routing_nodes plan))"

lemma removed_nodes:
  assumes "io_for (\<lambda>node. io_seq (remove_artifact s (state_dir rt plan node)) (remove_artifact c (vty_config_dir rt plan node)))
      nodes w = (Inr u, w')" "undisturbed_path w dir"
    "kind_at dir w = None \<or> (\<exists>node \<in> set nodes. dir = state_dir rt plan node \<or> dir = vty_config_dir rt plan node)"
  shows "kind_at dir w' = None"
  using assms
proof (induction nodes arbitrary: w)
  case (Cons node nodes)
  obtain u1 w1 u2 w2 where steps: "remove_artifact s (state_dir rt plan node) w = (Inr u1, w1)"
      "remove_artifact c (vty_config_dir rt plan node) w1 = (Inr u2, w2)"
      "io_for (\<lambda>node. io_seq (remove_artifact s (state_dir rt plan node)) (remove_artifact c (vty_config_dir rt plan node)))
        nodes w2 = (Inr u, w')"
    using Cons.prems(1) unfolding io_for.simps by (elim seq_returned) (rule that)
  note w1 = uncreating_step [OF uncreating_artifact Cons.prems(2) steps(1)]
  note w2 = uncreating_step [OF uncreating_artifact w1(1) steps(2)]
  show ?case
    using Cons.IH [OF steps(3) w2(1)] Cons.prems(2,3) w1 w2 removed_artifact [OF steps(1)] removed_artifact [OF steps(2)] by auto
qed simp

lemma cleaned_up:
  assumes "cleanup_deployment rt plan w = (Inr u, w')" "dir \<in> set (artifact_dirs rt plan)" "undisturbed_path w dir"
  shows "kind_at dir w' = None"
proof -
  let ?check = "io_for (\<lambda>node.
         io_seq (validate_managed_directory (state_dir rt plan node) (state_marker plan node))
        (io_seq (validate_managed_directory (vty_config_dir rt plan node) (vty_config_marker plan node)) (io_return ())))
       (routing_nodes plan)"
  have check: "observes ?check" by (intro observing)
  obtain x1 w1 x2 w2 x3 w3 where steps: "validate_artifacts rt plan w = (Inr x1, w1)" "?check w1 = (Inr x2, w2)"
      "remove_artifact ''failed to remove routing runtime directory'' (deployment_dir rt plan) w2 = (Inr x3, w3)"
      "io_for (\<lambda>node.
         io_seq (remove_artifact ''failed to remove FRRouting state directory'' (state_dir rt plan node))
                (remove_artifact ''failed to remove FRRouting config directory'' (vty_config_dir rt plan node)))
       (routing_nodes plan) w3 = (Inr u, w')"
    using assms(1) unfolding cleanup_deployment_def by (elim seq_returned) (rule that)
  have "passes w w2" using passes_trans [OF observes_step [OF observes_artifacts(1) steps(1)] observes_step [OF check steps(2)]] .
  then have w2: "undisturbed_path w2 dir" using passes_untouched(1) assms(3) by blast
  note w3 = uncreating_step [OF uncreating_artifact w2 steps(3)]
  show ?thesis
    using removed_nodes [OF steps(4) w3(1)] removed_artifact [OF steps(3)] w2 assms(2) by (auto simp: artifact_dirs_def)
qed

lemma stop_removes_directory:
  assumes "stop_runtime rt plan w = (Inr u, w')" "\<forall>dir \<in> set (artifact_dirs rt plan). undisturbed_path w dir"
    and dir: "dir \<in> set (artifact_dirs rt plan)"
  shows "kind_at dir w' = None \<and> undisturbed_path w' dir"
proof -
  obtain x1 w1 x2 w2 x3 w3 where steps: "validate_artifacts rt plan w = (Inr x1, w1)"
      "io_fold (live_records rt plan) (routing_nodes plan) [] w1 = (Inr x2, w2)"
      "terminate_processes rt x2 w2 = (Inr x3, w3)" "cleanup_deployment rt plan w3 = (Inr u, w')"
    using assms(1) unfolding stop_runtime_def by (elim seq_returned bind_returned) (rule that)
  have live: "spares dir (io_fold (live_records rt plan) (routing_nodes plan) [])"
    unfolding live_records_def by (intro sparing)
  have "undisturbed_path w3 dir"
    using spares_step(1) [OF spares_terminate spares_step(1) [OF live spares_step(1) [OF spares_marker(3) _ steps(1)] steps(2)] steps(3)]
      assms(2) dir by blast
  moreover have "uncreating dir (cleanup_deployment rt plan)"
    unfolding cleanup_deployment_def
    by (intro uncreating_seq uncreating_for uncreating_artifact uncreating_spares sparing)
  ultimately show ?thesis using cleaned_up [OF steps(4) dir] uncreating_step(1) steps(4) by blast
qed

text \<open>
  C31. When \<open>stop\<close> returns, no directory of the deployment is left, so a later \<open>has_artifacts\<close> says no,
  as long as no other process creates one of these directories.
\<close>

theorem stop_removes_artifacts:
  assumes "stop_runtime rt plan w = (Inr u, w')" and "\<forall>dir \<in> set (artifact_dirs rt plan). undisturbed_path w dir"
  shows "(\<forall>dir \<in> set (artifact_dirs rt plan). kind_at dir w' = None) \<and> fst (has_artifacts rt plan w') = Inr False"
proof -
  note dirs = stop_removes_directory [OF assms]
  have gone: "kind_at dir w1 = None" if "passes w' w1" "dir \<in> set (artifact_dirs rt plan)" for dir w1
    using dirs passes_kind that by metis
  have any: "fst (io_any (\<lambda>node. io_bind (path_exists (state_dir rt plan node)) (\<lambda>present.
       if present then io_return True else path_exists (vty_config_dir rt plan node))) nodes w1) = Inr False"
    if "passes w' w1" "set nodes \<subseteq> set (routing_nodes plan)" for nodes w1
    using that
  proof (induction nodes arbitrary: w1)
    case (Cons node nodes)
    let ?w3 = "next_moment (next_moment w1)"
    have passed: "passes w' (next_moment w1)" "passes w' ?w3"
      using passes_trans [OF Cons.prems(1)] passes_next passes_trans by blast+
    have "state_dir rt plan node \<in> set (artifact_dirs rt plan)" "vty_config_dir rt plan node \<in> set (artifact_dirs rt plan)"
      using Cons.prems(2) by (auto simp: artifact_dirs_def)
    then have "kind_at (state_dir rt plan node) (next_moment w1) = None" "kind_at (vty_config_dir rt plan node) ?w3 = None"
      using gone passed by blast+
    then show ?case using Cons.IH [OF passed(2)] Cons.prems(2)
      by (simp add: io_bind_def path_exists_def host_test_def)
  qed simp
  have "deployment_dir rt plan \<in> set (artifact_dirs rt plan)" by (simp add: artifact_dirs_def)
  then have "kind_at (deployment_dir rt plan) (next_moment w') = None" using gone [OF passes_next] by blast
  then have "fst (has_artifacts rt plan w') = Inr False"
    using any [OF passes_next, of "routing_nodes plan"] by (simp add: has_artifacts_def io_bind_def path_exists_def host_test_def)
  then show ?thesis using dirs by blast
qed

text \<open>What is left of the router when its deployment directory is already gone.\<close>

definition leftover_host :: frr_host where
  "leftover_host = (let dir = state_dir sample_runtime router_plan router_node in quiet_host
     [(dir, new_node Directory 493),
      (marker_path dir, new_node (RegularFile (text_bytes (state_marker router_plan router_node))) 416)] [])"

lemma leftover_stopped: "fst (stop_runtime sample_runtime router_plan leftover_host) = Inr ()"
  by code_simp

lemma stop_removes_artifacts_witness:
  "kind_at (state_dir sample_runtime router_plan router_node) leftover_host = Some Directory \<and>
   kind_at (state_dir sample_runtime router_plan router_node)
     (snd (stop_runtime sample_runtime router_plan leftover_host)) = None"
proof -
  have "undisturbed_path leftover_host p" for p
    by (simp add: undisturbed_path_def leftover_host_def quiet_host_def sample_host_def Let_def)
  moreover have "stop_runtime sample_runtime router_plan leftover_host =
      (Inr (), snd (stop_runtime sample_runtime router_plan leftover_host))"
    using leftover_stopped by (simp add: prod_eq_iff)
  moreover have "kind_at (state_dir sample_runtime router_plan router_node) leftover_host = Some Directory"
    by (simp add: leftover_host_def quiet_host_def sample_host_def kind_at_def new_node_def Let_def)
  ultimately show ?thesis
    using stop_removes_artifacts [of sample_runtime router_plan leftover_host "()"] by (simp add: artifact_dirs_def)
qed

end
