(* ===== verification/Frr_Signals.thy ===== *)
theory Frr_Signals
  imports Frr_Stops
begin

text \<open>
  What \<open>_terminate_processes\<close> achieves: a daemon that leads its process group has ended when it returns, and
  one that does not gets no signal. And what a start that fails between the creation of a directory and its
  marker leaves behind.
\<close>

section \<open>Daemons that lead their group\<close>

definition running :: "frr_host \<Rightarrow> int \<Rightarrow> bool" where
  "running w pid = (case dict_get (fh_processes w) pid of None \<Rightarrow> False | Some p \<Rightarrow> op_exit p = None)"

definition group_leader :: "frr_host \<Rightarrow> int \<Rightarrow> bool" where
  "group_leader w pid = (case dict_get (fh_processes w) pid of None \<Rightarrow> True | Some p \<Rightarrow> op_group p = pid)"

text \<open>Processes only end from one world to the next, and keep their groups.\<close>

definition only_ends :: "frr_host \<Rightarrow> frr_host \<Rightarrow> bool" where
  "only_ends w w' \<longleftrightarrow> fh_faults w' = fh_faults w \<and>
     (\<forall>pid. (running w' pid \<longrightarrow> running w pid) \<and> (group_leader w pid \<longrightarrow> group_leader w' pid))"

lemma only_ends_refl [simp, intro]: "only_ends w w"
  by (simp add: only_ends_def)

lemma only_ends_trans: "only_ends w w' \<Longrightarrow> only_ends w' w'' \<Longrightarrow> only_ends w w''"
  by (simp add: only_ends_def)

lemma only_ends_process: "only_ends w (end_process pid code w)"
  by (auto simp: only_ends_def end_process_def running_def group_leader_def dict_get_set dict_get_del split: option.splits)

lemma only_ends_deliver: "only_ends w (deliver kill pid w)"
proof -
  have "only_ends w (w\<lparr>fh_signals := s\<rparr>)" for s by (simp add: only_ends_def running_def group_leader_def)
  then show ?thesis unfolding deliver_def Let_def by (auto intro: only_ends_trans only_ends_process)
qed

lemma only_ends_delivers: "only_ends w (fold (deliver kill) pids w)"
  by (induction pids arbitrary: w) (auto intro: only_ends_trans only_ends_deliver)

lemma only_ends_event: "only_ends w (apply_event e w)"
  by (cases e) (auto simp: only_ends_process, auto simp: only_ends_def running_def group_leader_def)

lemma only_ends_moment: "only_ends w (next_moment w)"
proof -
  have "only_ends w (fold apply_event es w)" for es w
    by (induction es arbitrary: w) (auto intro: only_ends_trans only_ends_event)
  moreover have "only_ends w (w\<lparr>fh_calls := n\<rparr>)" for n by (simp add: only_ends_def running_def group_leader_def)
  ultimately show ?thesis unfolding next_moment_def using only_ends_trans by blast
qed

lemma killed_not_running: "\<not> running (deliver True pid w) pid"
  by (auto simp: deliver_def Let_def end_process_def running_def dict_get_set dict_get_del split: option.splits)

section \<open>Steps that return when no call fails\<close>

definition faultless :: "frr_host \<Rightarrow> bool" where
  "faultless w \<longleftrightarrow> (\<forall>n. fh_faults w n = NoFault)"

text \<open>Whatever world it meets, the step returns, processes at most end, and the result is as it says.\<close>

definition returns_with :: "'a host_io \<Rightarrow> ('a \<Rightarrow> frr_host \<Rightarrow> frr_host \<Rightarrow> bool) \<Rightarrow> bool" where
  "returns_with m P \<longleftrightarrow> (\<forall>w. faultless w \<longrightarrow>
     (\<exists>x w'. m w = (Inr x, w') \<and> only_ends w w' \<and> faultless w' \<and> P x w w'))"

lemma only_ends_faultless: "only_ends w w' \<Longrightarrow> faultless w \<Longrightarrow> faultless w'"
  by (simp add: only_ends_def faultless_def)

lemma steady_call:
  assumes "\<And>w. \<exists>x w'. act w = (Inr x, w') \<and> only_ends w w' \<and> P x w w'" "\<And>x w w'. P x (next_moment w) w' \<Longrightarrow> Q x w w'"
  shows "returns_with (host_call act) Q"
  unfolding returns_with_def
proof (intro allI impI)
  fix w
  assume w: "faultless w"
  obtain x w' where "act (next_moment w) = (Inr x, w')" "only_ends (next_moment w) w'" "P x (next_moment w) w'"
    using assms(1) by blast
  moreover have "only_ends w w'" using only_ends_trans [OF only_ends_moment] calculation by blast
  ultimately show "\<exists>x w'. host_call act w = (Inr x, w') \<and> only_ends w w' \<and> faultless w' \<and> Q x w w'"
    using w assms(2) only_ends_faultless by (auto simp: host_call_def faultless_def)
qed

lemma steady_bind:
  assumes "returns_with m P" "\<And>x w w1. P x w w1 \<Longrightarrow> returns_with (f x) (Q x)"
    "\<And>x y w w1 w'. P x w w1 \<Longrightarrow> only_ends w w1 \<Longrightarrow> Q x y w1 w' \<Longrightarrow> only_ends w1 w' \<Longrightarrow> R y w w'"
  shows "returns_with (io_bind m f) R"
  unfolding returns_with_def
proof (intro allI impI)
  fix w
  assume w: "faultless w"
  obtain x w1 where m: "m w = (Inr x, w1)" "only_ends w w1" "faultless w1" "P x w w1"
    using assms(1) w by (auto simp: returns_with_def)
  obtain y w' where f: "f x w1 = (Inr y, w')" "only_ends w1 w'" "faultless w'" "Q x y w1 w'"
    using assms(2) [OF m(4)] m(3) unfolding returns_with_def by blast
  show "\<exists>y w'. io_bind m f w = (Inr y, w') \<and> only_ends w w' \<and> faultless w' \<and> R y w w'"
    using m f assms(3) only_ends_trans [OF m(2) f(2)] by (auto simp: io_bind_def)
qed

lemma steady_attempt:
  assumes "\<And>w. only_ends w (snd (act w))"
    "\<And>w. Q (fst (act (next_moment w))) w (snd (act (next_moment w)))"
  shows "returns_with (io_attempt (host_call act)) Q"
  unfolding returns_with_def
proof (intro allI impI)
  fix w
  assume w: "faultless w"
  have "only_ends w (snd (act (next_moment w)))" using only_ends_trans [OF only_ends_moment assms(1)] .
  then show "\<exists>x w'. io_attempt (host_call act) w = (Inr x, w') \<and> only_ends w w' \<and> faultless w' \<and> Q x w w'"
    using w assms(2) only_ends_faultless by (auto simp: io_attempt_app host_call_def faultless_def)
qed

lemma steady_return: "returns_with (io_return x) (\<lambda>y w w'. y = x \<and> w' = w)"
  by (auto simp: returns_with_def)

lemma steady_get: "returns_with (io_get f) (\<lambda>y w w'. True)"
  by (auto simp: returns_with_def)

lemma steady_weaken: "returns_with m P \<Longrightarrow> (\<And>x w w'. P x w w' \<Longrightarrow> Q x w w') \<Longrightarrow> returns_with m Q"
  unfolding returns_with_def by meson

lemma steady_seq:
  "returns_with m P \<Longrightarrow> returns_with n Q \<Longrightarrow> (\<And>y w1 w w'. Q y w1 w' \<Longrightarrow> R y w w') \<Longrightarrow> returns_with (io_seq m n) R"
  unfolding io_seq_def by (rule steady_bind)

lemma steady_sleep: "returns_with (sleep_for d) (\<lambda>x w w'. True)"
  unfolding sleep_for_def
  by (rule steady_call [where P = "\<lambda>x w w'. True"]) (auto simp: only_ends_def running_def group_leader_def)

text \<open>A process that is not there does not run.\<close>

lemma no_such_process_os [simp]: "is_os_error no_such_process" "exc_type_in [''ProcessLookupError''] no_such_process"
  by code_simp+

lemma steady_exists: "returns_with (pid_exists pid) (\<lambda>present w w'. present \<or> pid \<le> 0 \<or> \<not> running w' pid)"
proof (cases "pid \<le> 0")
  case False
  let ?p = "\<lambda>r w w'. case r of Inl e \<Rightarrow> e = no_such_process \<and> \<not> running w' pid | Inr u \<Rightarrow> True"
  have "returns_with (io_attempt (sys_probe pid)) ?p"
    unfolding sys_probe_def by (rule steady_attempt) (auto simp: running_def)
  then show ?thesis
    unfolding pid_exists_def if_not_P [OF False]
  proof (rule steady_bind [where Q = "\<lambda>r b w w'. b = (r = Inr ()) \<and> w' = w"])
    fix r :: "exc + unit" and w w1
    assume "?p r w w1"
    then show "returns_with (case r of
           Inr _ \<Rightarrow> io_return True
         | Inl e \<Rightarrow> if exc_type_in [''ProcessLookupError''] e then io_return False
             else if exc_type_in [''PermissionError''] e then io_return True
             else if is_os_error e then io_return (errno_of e \<noteq> Some 3) else io_raise e)
        (\<lambda>b w w'. b = (r = Inr ()) \<and> w' = w)"
      by (cases r) (auto simp: returns_with_def)
  qed (auto split: sum.splits)
qed (auto simp: pid_exists_def returns_with_def)

abbreviation steady :: "'a host_io \<Rightarrow> bool" where
  "steady m \<equiv> returns_with m (\<lambda>x w w'. True)"

named_theorems steadying \<open>steps that return\<close>

lemma steady_any [steadying]: "returns_with m P \<Longrightarrow> steady m"
  by (auto elim: steady_weaken)

lemma steady_binds [steadying]: "steady m \<Longrightarrow> (\<And>x. steady (f x)) \<Longrightarrow> steady (io_bind m f)"
  by (rule steady_bind)

lemma steady_seqs [steadying]: "steady m \<Longrightarrow> steady n \<Longrightarrow> steady (io_seq m n)"
  by (rule steady_seq)

lemma steady_check: "steady (check_gone pid d)"
proof -
  have "steady (io_return x)" for x :: bool by (rule steady_any [OF steady_return])
  moreover have "steady (io_seq (sleep_for stop_interval) (io_return True))"
    by (rule steady_seqs [OF steady_sleep calculation])
  ultimately have "steady (if d \<le> now then io_return False else io_seq (sleep_for stop_interval) (io_return True))" for now
    by simp
  then have "steady (io_bind (io_get fh_clock) (\<lambda>now.
      if d \<le> now then io_return False else io_seq (sleep_for stop_interval) (io_return True)))"
    by (rule steady_binds [OF steady_get])
  with \<open>\<And>x :: bool. steady (io_return x)\<close> show ?thesis
    unfolding check_gone_def by (intro steady_binds [OF steady_any [OF steady_exists]]) simp
qed

lemma waits: "faultless w \<Longrightarrow> \<exists>w'. wait_gone pid d w = (Inr (), w') \<and> only_ends w w' \<and> faultless w'"
proof (induction pid d w rule: wait_gone.induct)
  case (1 pid d w)
  obtain again w1 where check: "check_gone pid d w = (Inr again, w1)" "only_ends w w1" "faultless w1"
    using steady_check [of pid d] 1(2) unfolding returns_with_def by blast
  have step: "wait_gone pid d w = (if again then wait_gone pid d w1 else (Inr (), w1))"
    using check by (subst wait_gone.simps) simp
  show ?case
  proof (cases again)
    case True
    then obtain w' where "wait_gone pid d w1 = (Inr (), w')" "only_ends w1 w'" "faultless w'"
      using 1(1) [of "Inr again" w1 again] check by auto
    then show ?thesis using step True only_ends_trans [OF check(2)] by auto
  qed (use step check in simp)
qed

lemma steady_wait: "steady (wait_gone pid d)"
  using waits by (auto simp: returns_with_def)

section \<open>The end of a daemon\<close>

text \<open>What is sent to a group arrives, and without faults the only error is that there is no such group.\<close>

lemma steady_killpg:
  "returns_with (io_attempt (sys_killpg g kill)) (\<lambda>r w w'. case r of
      Inl e \<Rightarrow> e = no_such_process \<and> (group_leader w g \<longrightarrow> \<not> running w' g)
    | Inr u \<Rightarrow> True)"
  unfolding sys_killpg_def
proof (rule steady_attempt)
  fix w :: frr_host
  let ?act = "\<lambda>w. if group_members g w = [] then (Inl no_such_process, w) else (Inr (), fold (deliver kill) (group_members g w) w)"
  show "only_ends w (snd (?act w))" by (simp add: only_ends_delivers)
  have "\<not> running v g" if "group_members g v = []" "group_leader v g" for v
    using that dict_get_SomeD [of "fh_processes v" g]
    by (auto simp: group_members_def running_def group_leader_def filter_empty_conv split: option.splits)
  moreover have "group_leader w g \<Longrightarrow> group_leader (next_moment w) g"
    using only_ends_moment by (simp add: only_ends_def)
  ultimately show "case fst (?act (next_moment w)) of
      Inl e \<Rightarrow> e = no_such_process \<and> (group_leader w g \<longrightarrow> \<not> running (snd (?act (next_moment w))) g)
    | Inr u \<Rightarrow> True" by simp
qed

lemma steady_kill: "returns_with (io_attempt (sys_kill pid True)) (\<lambda>r w w'. \<not> running w' pid \<and> (\<forall>e. r = Inl e \<longrightarrow> e = no_such_process))"
  unfolding sys_kill_def
  by (rule steady_attempt) (auto simp: only_ends_deliver killed_not_running, simp add: running_def)

lemma steady_suppressed:
  assumes "returns_with (io_attempt m) (\<lambda>r w w'. P w' \<and> (\<forall>e. r = Inl e \<longrightarrow> e = no_such_process))"
  shows "returns_with (suppress_os_error m) (\<lambda>x w w'. P w')"
  unfolding suppress_os_error_def
proof (rule steady_bind [OF assms, where Q = "\<lambda>r b w w'. w' = w"])
  fix r :: "exc + unit" and w w1
  assume "P w1 \<and> (\<forall>e. r = Inl e \<longrightarrow> e = no_such_process)"
  then show "returns_with (case r of Inl e \<Rightarrow> if is_os_error e then io_return () else io_raise e | Inr _ \<Rightarrow> io_return ())
      (\<lambda>b w w'. w' = w)"
    by (cases r) (auto simp: returns_with_def)
qed auto

lemma steady_kill_group: "steady (suppress_os_error (sys_killpg g kill))"
  by (rule steady_suppressed, rule steady_weaken [OF steady_killpg]) (auto split: sum.splits)

lemma steady_await_end: "returns_with (await_end rt pid) (\<lambda>x w w'. 0 < pid \<longrightarrow> \<not> running w' pid)"
  unfolding await_end_def
proof (rule steady_bind [OF steady_get])
  fix now
  let ?kill = "io_seq (suppress_os_error (sys_killpg pid True)) (suppress_os_error (sys_kill pid True))"
  have kill: "returns_with ?kill (\<lambda>x w w'. \<not> running w' pid)"
    by (rule steady_seq [OF steady_kill_group steady_suppressed [OF steady_kill]])
  have "returns_with (io_bind (pid_exists pid) (\<lambda>present. if present then ?kill else io_return ()))
      (\<lambda>x w w'. 0 < pid \<longrightarrow> \<not> running w' pid)"
  proof (rule steady_bind [OF steady_exists [of pid], where Q = "\<lambda>present x w w'. if present then \<not> running w' pid else w' = w"])
    show "returns_with (if present then ?kill else io_return ())
        (\<lambda>x w w'. if present then \<not> running w' pid else w' = w)" for present
      using kill steady_return [of "()"] by (cases present) (auto elim: steady_weaken)
  qed (auto split: if_splits)
  then show "returns_with (io_seq (wait_gone pid (now + rt_stop_timeout rt))
      (io_bind (pid_exists pid) (\<lambda>present. if present then ?kill else io_return ())))
      (\<lambda>x w w'. 0 < pid \<longrightarrow> \<not> running w' pid)"
    by (rule steady_seq [OF steady_wait])
qed

lemma steady_terminate:
  "returns_with (terminate_process rt r) (\<lambda>x w w'. 0 < pr_pid r \<longrightarrow> group_leader w (pr_pid r) \<longrightarrow> \<not> running w' (pr_pid r))"
  unfolding terminate_process_def Let_def
proof (rule steady_bind [OF steady_killpg, where Q = "\<lambda>a x w w'. (a = Inr () \<longrightarrow> 0 < pr_pid r \<longrightarrow> \<not> running w' (pr_pid r))
    \<and> (a \<noteq> Inr () \<longrightarrow> w' = w)"])
  let ?pid = "pr_pid r"
  fix a :: "exc + unit" and w w1
  assume "case a of Inl e \<Rightarrow> e = no_such_process \<and> (group_leader w ?pid \<longrightarrow> \<not> running w1 ?pid) | Inr u \<Rightarrow> True"
  then show "returns_with (case a of
        Inr _ \<Rightarrow> await_end rt ?pid
      | Inl e \<Rightarrow> if exc_type_in [''ProcessLookupError''] e then io_return ()
          else if is_os_error e then io_seq (suppress_os_error (sys_kill ?pid False)) (await_end rt ?pid)
          else io_raise e)
      (\<lambda>x w w'. (a = Inr () \<longrightarrow> 0 < ?pid \<longrightarrow> \<not> running w' ?pid) \<and> (a \<noteq> Inr () \<longrightarrow> w' = w))"
    using steady_await_end [of rt ?pid] by (cases a) (auto simp: returns_with_def)
qed (auto split: sum.splits)

lemma terminated_all:
  "faultless w \<Longrightarrow> \<exists>w'. io_for (terminate_process rt) rs w = (Inr (), w') \<and> only_ends w w' \<and> faultless w' \<and>
     (\<forall>r \<in> set rs. 0 < pr_pid r \<longrightarrow> group_leader w (pr_pid r) \<longrightarrow> \<not> running w' (pr_pid r))"
proof (induction rs arbitrary: w)
  case (Cons r rs)
  obtain w1 where w1: "terminate_process rt r w = (Inr (), w1)" "only_ends w w1" "faultless w1"
      "0 < pr_pid r \<longrightarrow> group_leader w (pr_pid r) \<longrightarrow> \<not> running w1 (pr_pid r)"
    using steady_terminate [of rt r] Cons.prems by (auto simp: returns_with_def)
  obtain w2 where w2: "io_for (terminate_process rt) rs w1 = (Inr (), w2)" "only_ends w1 w2" "faultless w2"
      "\<forall>r \<in> set rs. 0 < pr_pid r \<longrightarrow> group_leader w1 (pr_pid r) \<longrightarrow> \<not> running w2 (pr_pid r)"
    using Cons.IH [OF w1(3)] by blast
  have "group_leader w pid \<Longrightarrow> group_leader w1 pid" "running w2 pid \<Longrightarrow> running w1 pid" for pid
    using w1(2) w2(2) by (simp_all add: only_ends_def)
  then have "\<forall>x \<in> set (r # rs). 0 < pr_pid x \<longrightarrow> group_leader w (pr_pid x) \<longrightarrow> \<not> running w2 (pr_pid x)"
    using w1(4) w2(4) by auto
  moreover have "io_for (terminate_process rt) (r # rs) w = (Inr (), w2)" using w1(1) w2(1) by (simp add: io_seq_def io_bind_def)
  ultimately show ?case using only_ends_trans [OF w1(2) w2(2)] w2(3) by blast
qed auto

text \<open>
  C32. When no system call fails, \<open>_terminate_processes\<close> always returns, and every recorded daemon that leads
  its process group has ended then, whether it reacts to \<open>SIGTERM\<close> or not, and whatever ends meanwhile.
\<close>

theorem leaders_terminated:
  assumes "faultless w"
  shows "\<exists>w'. terminate_processes rt records w = (Inr (), w') \<and>
    (\<forall>r \<in> set records. 0 < pr_pid r \<longrightarrow> group_leader w (pr_pid r) \<longrightarrow> \<not> running w' (pr_pid r))"
  using terminated_all [OF assms, of rt "rev records"] by (auto simp: terminate_processes_def)

text \<open>A daemon that does not react to \<open>SIGTERM\<close>.\<close>

definition stubborn_host :: "int \<Rightarrow> frr_host" where
  "stubborn_host g = quiet_host [] [(107, \<lparr>op_group = g, op_child = False, op_exit = None\<rparr>)]"

lemma quiet_faultless [simp]: "faultless (quiet_host files processes)"
  by (simp add: faultless_def quiet_host_def sample_host_def)

lemma leaders_terminated_witness:
  "running (stubborn_host 107) 107 \<and>
   \<not> running (snd (terminate_processes sample_runtime [\<lparr>pr_daemon = ''zebra'', pr_pid = 107\<rparr>] (stubborn_host 107))) 107"
proof -
  have "group_leader (stubborn_host 107) 107" "running (stubborn_host 107) 107"
    by (simp_all add: stubborn_host_def quiet_host_def running_def group_leader_def)
  moreover have "faultless (stubborn_host 107)" by (simp add: stubborn_host_def)
  ultimately show ?thesis
    using leaders_terminated [of "stubborn_host 107" sample_runtime "[\<lparr>pr_daemon = ''zebra'', pr_pid = 107\<rparr>]"] by auto
qed

section \<open>A daemon that does not lead its group\<close>

lemma ungrouped_spared:
  assumes "faultless w" "\<forall>n. fh_events w n = []" "\<forall>r \<in> set rs. group_members (pr_pid r) w = []"
  shows "\<exists>w'. io_for (terminate_process rt) rs w = (Inr (), w') \<and> fh_processes w' = fh_processes w \<and> fh_signals w' = fh_signals w"
  using assms
proof (induction rs arbitrary: w)
  case (Cons r rs)
  have moment: "next_moment w = w\<lparr>fh_calls := fh_calls w + 1\<rparr>" using Cons.prems(2) by (simp add: next_moment_def)
  have "terminate_process rt r w = (Inr (), next_moment w)"
    using Cons.prems(1,3) moment
    by (simp add: terminate_process_def Let_def sys_killpg_def io_bind_def io_attempt_app host_call_def faultless_def
      group_members_def)
  moreover have "\<exists>w'. io_for (terminate_process rt) rs (next_moment w) = (Inr (), w') \<and>
      fh_processes w' = fh_processes (next_moment w) \<and> fh_signals w' = fh_signals (next_moment w)"
    using Cons.prems moment by (intro Cons.IH) (auto simp: faultless_def group_members_def)
  ultimately show ?case using moment by (auto simp: io_seq_def io_bind_def)
qed auto

text \<open>
  C34. A recorded daemon whose process group is not its own, so that there is no group with its number, is
  not stopped: \<open>killpg\<close> raises \<open>ProcessLookupError\<close>, which is taken to mean that the process has ended. No
  signal is sent, and \<open>_terminate_processes\<close> returns. The comment in the code says that the recorded PID is
  signalled in this case.
\<close>

theorem ungrouped_daemon_survives:
  assumes "faultless w" and "\<forall>n. fh_events w n = []" and "\<forall>r \<in> set records. group_members (pr_pid r) w = []"
  shows "\<exists>w'. terminate_processes rt records w = (Inr (), w') \<and> fh_processes w' = fh_processes w \<and>
    fh_signals w' = fh_signals w"
  using ungrouped_spared [of w "rev records"] assms by (simp add: terminate_processes_def)

lemma ungrouped_daemon_survives_witness:
  "running (snd (terminate_processes sample_runtime [\<lparr>pr_daemon = ''zebra'', pr_pid = 107\<rparr>] (stubborn_host 90))) 107"
proof -
  have "group_members 107 (stubborn_host 90) = []" "faultless (stubborn_host 90)" "\<forall>n. fh_events (stubborn_host 90) n = []"
    by (simp_all add: stubborn_host_def, simp_all add: quiet_host_def group_members_def sample_host_def)
  then obtain w' where "terminate_processes sample_runtime [\<lparr>pr_daemon = ''zebra'', pr_pid = 107\<rparr>] (stubborn_host 90) = (Inr (), w')"
      "fh_processes w' = fh_processes (stubborn_host 90)"
    using ungrouped_daemon_survives [of "stubborn_host 90" "[\<lparr>pr_daemon = ''zebra'', pr_pid = 107\<rparr>]" sample_runtime] by auto
  then show ?thesis by (simp add: stubborn_host_def quiet_host_def running_def)
qed

section \<open>A start that fails before a marker is written\<close>

text \<open>The machine after a start during which the disk is full when the first marker is to be written.\<close>

definition stranded_host :: frr_host where
  "stranded_host = (snd (start_runtime sample_runtime router_plan (sample_host (fails_at 19 no_space))))\<lparr>fh_faults := \<lambda>_. NoFault\<rparr>"


end
