(* ===== verification/Frr_Starts.thy ===== *)
theory Frr_Starts
  imports Frr_Stops
begin

text \<open>
  What a \<open>start_runtime\<close> that returns has started, and what its metadata say to a later \<open>status\<close> and \<open>stop\<close>.
\<close>

section \<open>Steps that create no process\<close>

definition unspawning :: "'a host_io \<Rightarrow> bool" where
  "unspawning m \<longleftrightarrow> (\<forall>w. fh_spawned (snd (m w)) = fh_spawned w)"

named_theorems spawnless \<open>steps that create no process\<close>

lemma spawned_moment [simp]: "fh_spawned (next_moment w) = fh_spawned w"
proof -
  have "fh_spawned (apply_event e v) = fh_spawned v" for e v
    by (cases e) (auto simp: end_process_def split: option.split)
  then have "fh_spawned (fold apply_event es v) = fh_spawned v" for es v by (induction es arbitrary: v) simp_all
  then show ?thesis by (simp add: next_moment_def)
qed

lemma unspawning_step: "unspawning m \<Longrightarrow> m w = (r, w') \<Longrightarrow> fh_spawned w' = fh_spawned w"
  by (metis unspawning_def snd_conv)

lemma unspawning_observes: "observes m \<Longrightarrow> unspawning m"
  unfolding unspawning_def observes_def passes_def
proof
  fix w
  assume "\<forall>w. \<exists>k. snd (m w) = (next_moment ^^ k) w"
  then obtain k where "snd (m w) = (next_moment ^^ k) w" by blast
  moreover have "fh_spawned ((next_moment ^^ k) w) = fh_spawned w" for k by (induction k) simp_all
  ultimately show "fh_spawned (snd (m w)) = fh_spawned w" by simp
qed

lemma unspawning_bind [spawnless]: "unspawning m \<Longrightarrow> (\<And>x. unspawning (f x)) \<Longrightarrow> unspawning (io_bind m f)"
  unfolding unspawning_def io_bind_def by (auto split: prod.split sum.split) (metis snd_conv)+

lemma unspawning_seq [spawnless]: "unspawning m \<Longrightarrow> unspawning n \<Longrightarrow> unspawning (io_seq m n)"
  unfolding io_seq_def by (rule unspawning_bind)

lemma unspawning_attempt [spawnless]: "unspawning m \<Longrightarrow> unspawning (io_attempt m)"
  by (simp add: unspawning_def io_attempt_app)

lemma unspawning_basic [spawnless]: "unspawning (io_return x)" "unspawning (io_raise e)" "unspawning (io_lift r)"
  "unspawning (io_get f)"
  by (simp_all add: unspawning_def)

lemma unspawning_for [spawnless]: "(\<And>x. unspawning (f x)) \<Longrightarrow> unspawning (io_for f xs)"
  by (induction xs) (auto intro: spawnless)

lemma unspawning_fold [spawnless]: "(\<And>x b. unspawning (f x b)) \<Longrightarrow> unspawning (io_fold f xs b)"
  by (induction xs arbitrary: b) (auto intro: spawnless)

lemma unspawning_if [spawnless]: "unspawning m \<Longrightarrow> unspawning n \<Longrightarrow> unspawning (if b then m else n)"
  by simp

lemma unspawning_sum [spawnless]:
  "(\<And>e. unspawning (f e)) \<Longrightarrow> (\<And>x. unspawning (g x)) \<Longrightarrow> unspawning (case r of Inl e \<Rightarrow> f e | Inr x \<Rightarrow> g x)"
  by (cases r) simp_all

lemma unspawning_option [spawnless]:
  "unspawning f \<Longrightarrow> (\<And>x. unspawning (g x)) \<Longrightarrow> unspawning (case r of None \<Rightarrow> f | Some x \<Rightarrow> g x)"
  by (cases r) simp_all

lemma unspawning_pair [spawnless]: "(\<And>a b. unspawning (f a b)) \<Longrightarrow> unspawning (case r of (a, b) \<Rightarrow> f a b)"
  by (cases r) simp

lemma unspawning_call: "(\<And>w. fh_spawned (snd (act w)) = fh_spawned w) \<Longrightarrow> unspawning (host_call act)"
  by (simp add: unspawning_def host_call_def split: fault.split)

section \<open>System calls and files\<close>

lemma unspawning_looks [spawnless]: "unspawning (path_exists q)" "unspawning (is_symlink q)" "unspawning (is_directory q)"
  "unspawning (is_regular_file q)" "unspawning (target_exists q)" "unspawning (list_directory q)" "unspawning (read_ascii q)"
  "unspawning (read_json q)" "unspawning (sys_probe pid)" "unspawning (validate_artifacts rt plan)"
  "unspawning (validate_runtime_artifacts rt plan)" "unspawning (validate_managed_directory d m)"
  "unspawning (read_matching_marker d m)" "unspawning (has_artifacts rt plan)"
  by (simp_all add: target_exists_def unspawning_observes observing)

lemma unspawning_refuse [spawnless]: "unspawning test \<Longrightarrow> unspawning (refuse_if test e)"
  unfolding refuse_if_def by (intro spawnless)

lemma delivered_spawned [simp]: "fh_spawned (deliver k pid w) = fh_spawned w"
  by (auto simp: deliver_def Let_def end_process_def split: option.split)

lemma delivered_all_spawned [simp]: "fh_spawned (fold (deliver k) pids w) = fh_spawned w"
  by (induction pids arbitrary: w) simp_all

lemma unspawning_calls [spawnless]: "unspawning (make_directory mode q)" "unspawning (change_node f q)"
  "unspawning (create_exclusive q)" "unspawning (remove_file q)" "unspawning (remove_directory q)"
  "unspawning (create_or_keep mode q)" "unspawning (sys_rename q t)" "unspawning (sys_kill pid k)"
  "unspawning (sys_killpg pid k)" "unspawning (poll_process pid)" "unspawning (sleep_for s)" "unspawning (host_call (io_return ()))"
  unfolding make_directory_def change_node_def create_exclusive_def remove_file_def remove_directory_def
    create_or_keep_def sys_rename_def sys_kill_def sys_killpg_def poll_process_def sleep_for_def
  by (rule unspawning_call; auto simp: put_node_def remove_node_def split: option.split file_kind.split)+

lemma unspawning_draw [spawnless]: "unspawning draw_name"
  by (simp add: unspawning_def draw_name_def)

lemma unspawning_temporary [spawnless]: "unspawning (make_temporary n dir prefix)"
  by (induction n; unfold make_temporary.simps; intro spawnless; assumption)

lemma unspawning_tree [spawnless]: "unspawning (remove_tree dir)"
  unfolding remove_tree_def remove_entry_def by (intro spawnless unspawning_call) simp

lemma unspawning_files [spawnless]: "unspawning (frr_ensure_directory dir)" "unspawning (write_file q content mode)"
  "unspawning (prepare_owned_file q i mode)" "unspawning (prepare_owned_directory q i)" "unspawning (remove_artifact t dir)"
  unfolding frr_ensure_directory_def write_file_def prepare_owned_file_def prepare_owned_directory_def prepare_owned_def
    make_directories_def sys_chmod_def sys_chown_def write_temporary_def fill_and_replace_def remove_leftover_def
    write_bytes_def wrap_os_error_def remove_artifact_def
  by (intro spawnless)+

lemma unspawning_text [spawnless]: "unspawning (write_text q text)"
  unfolding write_text_def by (intro spawnless)

lemma unspawning_managed [spawnless]: "unspawning (prepare_managed_directory dir m i)"
  unfolding prepare_managed_directory_def by (intro spawnless)

lemma unspawning_vty [spawnless]: "unspawning (prepare_vty_config rt plan node i)"
  unfolding prepare_vty_config_def Let_def by (intro spawnless)

lemma unspawning_node [spawnless]: "unspawning (prepare_node rt plan node i)"
  unfolding prepare_node_def Let_def by (intro spawnless)

lemma unspawning_reading [spawnless]: "unspawning (read_records rt plan node)" "unspawning (read_metadata q)" "unspawning (pid_exists pid)"
  unfolding read_records_def Let_def add_pid_record_def read_pid_file_def read_metadata_def pid_exists_def
  by (intro spawnless)+

lemma unspawning_all [spawnless]: "(\<And>x. unspawning (f x)) \<Longrightarrow> unspawning (io_all f xs)"
  by (induction xs) (auto intro!: spawnless)

lemma unspawning_map [spawnless]: "(\<And>x. unspawning (f x)) \<Longrightarrow> unspawning (io_map f xs)"
  by (induction xs) (auto intro!: spawnless)

lemma unspawning_ready [spawnless]: "unspawning (runtime_ready rt plan)"
  unfolding runtime_ready_def runtime_status_def status_for_node_def metadata_matches_def managed_directories_present_def
  by (intro spawnless)

section \<open>The loops\<close>

lemma unspawning_check: "unspawning (check_started rt pid daemon node socket deadline)" "unspawning (check_gone pid deadline)"
  unfolding check_started_def socket_ready_def check_gone_def by (intro spawnless)+

lemma unspawning_wait_started [spawnless]: "unspawning (wait_started rt pid daemon node socket deadline)"
  unfolding unspawning_def
proof
  show "fh_spawned (snd (wait_started rt pid daemon node socket deadline w)) = fh_spawned w" for w
  proof (induction rt pid daemon node socket deadline w rule: wait_started.induct)
    case (1 rt pid daemon node socket deadline w)
    obtain r w' where r: "check_started rt pid daemon node socket deadline w = (r, w')" by fastforce
    show ?case
      using unspawning_step [OF unspawning_check(1) r] r 1 [OF r [symmetric]]
      by (subst wait_started.simps) (auto split: sum.split)
  qed
qed

lemma unspawning_wait_gone [spawnless]: "unspawning (wait_gone pid deadline)"
  unfolding unspawning_def
proof
  show "fh_spawned (snd (wait_gone pid deadline w)) = fh_spawned w" for w
  proof (induction pid deadline w rule: wait_gone.induct)
    case (1 pid deadline w)
    obtain r w' where r: "check_gone pid deadline w = (r, w')" by fastforce
    show ?case
      using unspawning_step [OF unspawning_check(2) r] r 1 [OF r [symmetric]]
      by (subst wait_gone.simps) (auto split: sum.split)
  qed
qed

lemma unspawning_stop [spawnless]: "unspawning (stop_runtime rt plan)"
  unfolding stop_runtime_def live_records_def terminate_processes_def terminate_process_def Let_def await_end_def
    suppress_os_error_def cleanup_deployment_def
  by (intro spawnless)

section \<open>The daemons of a start\<close>

lemma unspawning_metadata [spawnless]: "unspawning (save_metadata rt plan node records)"
  unfolding save_metadata_def by (intro spawnless)

lemma unspawning_await [spawnless]: "unspawning (await_started rt pid daemon node socket)"
  unfolding await_started_def by (intro spawnless)

text \<open>The step, when it returns, has created these processes.\<close>

definition spawning :: "(string \<times> string list) list \<Rightarrow> 'a host_io \<Rightarrow> bool" where
  "spawning xs m \<longleftrightarrow> (\<forall>w x w'. m w = (Inr x, w') \<longrightarrow> fh_spawned w' = fh_spawned w @ xs)"

lemma spawning_bind: "unspawning m \<Longrightarrow> (\<And>x. spawning xs (f x)) \<Longrightarrow> spawning xs (io_bind m f)"
  unfolding spawning_def by (metis bind_returned unspawning_step)

lemma spawning_seq: "unspawning m \<Longrightarrow> spawning xs n \<Longrightarrow> spawning xs (io_seq m n)"
  unfolding io_seq_def by (rule spawning_bind)

lemma spawning_wrap: "spawning xs m \<Longrightarrow> spawning xs (wrap_os_error f m)"
  unfolding wrap_os_error_def spawning_def
  by (auto elim!: io_bind_cases split: sum.splits dest!: attempt_value)

lemma spawning_process: "spawning [(ns, argv)] (spawn_process ns argv)"
  by (auto simp: spawning_def spawn_process_def host_call_def Let_def split: fault.splits)

lemma spawning_daemon:
  "spawning [(nd_namespace node, daemon_argv rt plan node daemon binary)] (spawn_daemon rt plan node daemon binary i)"
  unfolding spawn_daemon_def Let_def refuse_unsafe_file_def
  by (intro spawning_bind spawning_seq spawning_wrap spawning_process spawnless)
    (auto simp: wrap_os_error_def intro!: spawnless)

text \<open>The binaries found are those of the resolver.\<close>

definition resolved :: "frr_runtime \<Rightarrow> (string, string) dict \<Rightarrow> bool" where
  "resolved rt binaries \<longleftrightarrow> (\<forall>daemon binary. dict_get binaries daemon = Some binary \<longrightarrow> rt_resolver rt daemon = Some binary)"

definition daemon_start :: "frr_runtime \<Rightarrow> topology_plan \<Rightarrow> node_plan \<Rightarrow> string \<Rightarrow> string \<times> string list" where
  "daemon_start rt plan node daemon =
     (nd_namespace node, daemon_argv rt plan node daemon (the (rt_resolver rt daemon)))"

lemma start_daemon_value:
  assumes "start_daemon rt plan node binaries i daemon records started w = (Inr (Inr u, rest), w')" "resolved rt binaries"
  shows "fh_spawned w' = fh_spawned w @ [daemon_start rt plan node daemon]"
proof -
  let ?zapi = "node_dir rt plan node @ [''zebra.api'']"
  let ?wait = "\<lambda>pid. io_seq (await_started rt pid daemon node (if daemon = ''zebra'' then Some ?zapi else None))
                   (save_metadata rt plan node (records @ [\<lparr>pr_daemon = daemon, pr_pid = pid\<rparr>]))"
  obtain binary where found: "dict_get binaries daemon = Some binary"
    using assms(1) unfolding start_daemon_def Let_def
    by (cases "dict_get binaries daemon") (auto simp: io_bind_def io_attempt_app)
  let ?spawn = "spawn_daemon rt plan node daemon binary i"
  obtain r w1 where r: "?spawn w = (r, w1)" by fastforce
  then obtain pid where "r = Inr pid"
    using assms(1) found unfolding start_daemon_def Let_def by (cases r) (auto simp: io_bind_def io_attempt_app)
  with r found have binary: "dict_get binaries daemon = Some binary" "?spawn w = (Inr pid, w1)" by simp_all
  have "unspawning (?wait pid)" by (intro spawnless)
  moreover have "snd (?wait pid w1) = w'"
    using assms(1) binary unfolding start_daemon_def Let_def by (auto simp: io_bind_def io_attempt_app)
  ultimately have "fh_spawned w' = fh_spawned w1" by (auto simp: unspawning_def)
  then show ?thesis
    using binary assms(2) spawning_daemon [of node rt plan daemon binary i] by (auto simp: spawning_def daemon_start_def resolved_def)
qed

lemma start_daemons_value:
  assumes "start_daemons rt plan node binaries i daemons records started w = (Inr (Inr u, rest), w')" "resolved rt binaries"
  shows "fh_spawned w' = fh_spawned w @ map (daemon_start rt plan node) daemons"
  using assms(1)
proof (induction daemons arbitrary: records started w)
  case (Cons daemon daemons)
  obtain outcome records1 started1 w1 where first: "start_daemon rt plan node binaries i daemon records started w = (Inr (outcome, records1, started1), w1)"
      "(case outcome of Inl e \<Rightarrow> io_return (Inl e, started1)
        | Inr _ \<Rightarrow> start_daemons rt plan node binaries i daemons records1 started1) w1 = (Inr (Inr u, rest), w')"
    using Cons.prems by (auto elim!: io_bind_cases)
  then obtain u1 where "outcome = Inr u1" by (cases outcome) auto
  then show ?case using start_daemon_value [OF first(1) [unfolded \<open>outcome = Inr u1\<close>] assms(2)] first(2) Cons.IH by auto
qed auto

lemma start_nodes_value:
  assumes "start_nodes rt plan binaries i nodes started w = (Inr (Inr u, rest), w')"
    "\<forall>name bins. dict_get binaries name = Some bins \<longrightarrow> resolved rt bins"
  shows "fh_spawned w' = fh_spawned w @ concat (map (\<lambda>node. map (daemon_start rt plan node) (required_daemons node)) nodes)"
  using assms(1)
proof (induction nodes arbitrary: started w)
  case (Cons node nodes)
  obtain bins where bins: "dict_get binaries (nd_name node) = Some bins"
    using Cons.prems by (cases "dict_get binaries (nd_name node)") auto
  obtain r1 s1 w1 where node: "plain_step (prepare_node rt plan node i) started w = (Inr (r1, s1), w1)"
      "r1 = Inr ()"
    using Cons.prems bins by (auto simp: then_start_def io_bind_def split: prod.splits sum.splits)
  obtain r2 s2 w2 where daemons: "start_daemons rt plan node bins i (required_daemons node) [] s1 w1 = (Inr (r2, s2), w2)"
      "r2 = Inr ()" "start_nodes rt plan binaries i nodes s2 w2 = (Inr (Inr u, rest), w')"
    using Cons.prems bins node by (auto simp: then_start_def io_bind_def split: prod.splits sum.splits)
  have "unspawning (plain_step (prepare_node rt plan node i) started)" unfolding plain_step_def by (intro spawnless)
  from unspawning_step [OF this node(1)] show ?case
    using start_daemons_value [OF daemons(1) [unfolded daemons(2)]] assms(2) bins Cons.IH [OF daemons(3)] by auto
qed auto

lemma resolved_binaries:
  assumes "resolve_binaries rt node = Inr bins"
  shows "resolved rt bins"
  unfolding resolved_def
proof (intro allI impI)
  fix daemon binary
  assume "dict_get bins daemon = Some binary"
  then have "(daemon, binary) \<in> set bins" by (rule map_of_SomeD)
  then show "rt_resolver rt daemon = Some binary"
    using assms by (auto simp: resolve_binaries_def dest!: res_map_in split: option.splits)
qed

lemma resolved_by_node:
  assumes "binaries_by_node rt plan = Inr binaries" "dict_get binaries name = Some bins"
  shows "resolved rt bins"
proof -
  obtain entries where entries: "res_map (\<lambda>node. res_bind (resolve_binaries rt node) (\<lambda>binaries. Inr (nd_name node, binaries)))
      (routing_nodes plan) = Inr entries" "binaries = dict_of entries"
    using assms(1) by (auto simp: binaries_by_node_def split: sum.splits simp: res_bind_def)
  have "(name, bins) \<in> set entries" using map_of_SomeD [OF assms(2)] set_dict_of entries(2) by blast
  then show ?thesis using entries(1) resolved_binaries by (auto dest!: res_map_in split: sum.splits simp: res_bind_def)
qed

lemma prepared_binaries:
  assumes "prepare_deployment rt plan w = (Inr (identity, binaries), w')"
  shows "binaries_by_node rt plan = Inr binaries"
  using assms unfolding prepare_deployment_def by (auto elim!: io_bind_cases io_seq_cases)

lemma start_fresh_value:
  assumes "start_fresh rt plan w = (Inr (Inr u, started), w')"
  shows "fh_spawned w' = fh_spawned w @ concat (map (\<lambda>node. map (daemon_start rt plan node) (required_daemons node)) (routing_nodes plan))"
proof -
  obtain identity binaries w1 where w1: "prepare_deployment rt plan w = (Inr (identity, binaries), w1)"
      "start_nodes rt plan binaries identity (routing_nodes plan) [] w1 = (Inr (Inr u, started), w')"
    using assms unfolding start_fresh_def
    by (cases "prepare_deployment rt plan w") (auto elim!: bind_returned simp: io_attempt_app split: sum.splits prod.splits)
  have "unspawning (prepare_deployment rt plan)" unfolding prepare_deployment_def by (intro spawnless)
  then show ?thesis
    using unspawning_step w1(1) start_nodes_value [OF w1(2)] resolved_by_node [OF prepared_binaries [OF w1(1)]] by auto
qed


text \<open>A router without protocols, which runs \<open>zebra\<close> alone.\<close>

definition bare_node :: node_plan where
  "bare_node = router_node\<lparr>nd_routing := Some \<lparr>rp_ospf = None, rp_bgp = None, rp_pim = None\<rparr>\<rparr>"

definition bare_plan :: topology_plan where
  "bare_plan = router_plan\<lparr>tpl_nodes := [(''r1'', bare_node)]\<rparr>"


section \<open>The metadata of a start\<close>

text \<open>
  C33. The document that is written when all daemons of a node have started is the one \<open>status\<close> accepts, and
  \<open>stop\<close> reads from it exactly the daemons that were started.
\<close>

theorem metadata_reads_back:
  assumes "map pr_daemon records = required_daemons node" and "\<forall>r \<in> set records. 0 < pr_pid r"
  shows "metadata_document_matches plan node (metadata_document plan node records) \<and>
    document_records (Some (metadata_document plan node records)) = records"
proof -
  let ?raw = "\<lambda>r. pdict [(''daemon'', PStr (pr_daemon r)), (''pid'', PInt (pr_pid r))]"
  let ?doc = "metadata_document plan node records"
  have daemons: "set (map pr_daemon records) \<subseteq> set frr_daemons" "distinct (map pr_daemon records)"
    unfolding assms(1) required_daemons_def routing_daemons_def frr_daemons_def by (auto split: option.split)
  have raw: "record_of (?raw r) = Some r" if "r \<in> set records" for r
    using that daemons(1) assms(2) by (auto simp: record_of_def pdict_def record_from_fields_def)
  have fields: "document_get ''processes'' ?doc = Some (PList (map ?raw records))"
      "document_get ''version'' ?doc = Some (PInt 1)"
      "document_get ''fingerprint'' ?doc = Some (PStr (tpl_fingerprint plan))"
      "document_get ''node'' ?doc = Some (PStr (nd_name node))"
      "document_get ''namespace'' ?doc = Some (PStr (nd_namespace node))"
      "document_get ''pathspace'' ?doc = Some (PStr (routing_pathspace plan node))"
      "document_get ''protocols'' ?doc = Some (PList (map PStr (routing_protocols (nd_routing node))))"
      "is_dict ?doc"
    by (simp_all add: metadata_document_def pdict_def)
  have expected: "expected_records ds (map ?raw rs) old = Some (old @ rs)"
    if "set rs \<subseteq> set records" "pr_daemon ` set rs \<subseteq> set ds" "distinct (map pr_daemon (old @ rs))" for ds rs old
    using that by (induction rs arbitrary: old) (auto simp: raw)
  have read: "fold (\<lambda>raw records. case record_of raw of
              None \<Rightarrow> records
            | Some r \<Rightarrow> if pr_daemon r \<in> pr_daemon ` set records then records else records @ [r]) (map ?raw rs) old = old @ rs"
    if "set rs \<subseteq> set records" "distinct (map pr_daemon (old @ rs))" for rs old
    using that by (induction rs arbitrary: old) (auto simp: raw)
  have "expected_records (required_daemons node) (map ?raw records) [] = Some records"
    using expected [of records "required_daemons node" "[]"] daemons(2) unfolding assms(1) [symmetric] by simp
  moreover have "length records = length (required_daemons node)" unfolding assms(1) [symmetric] by simp
  ultimately have "metadata_document_matches plan node ?doc"
    by (simp add: metadata_document_matches_def field_is_def fields assms(1) list_all2_map1 list_all2_map2 list.rel_refl)
  moreover have "document_records (Some ?doc) = records"
    using read [of records "[]"] daemons(2) by (simp add: document_records_def fields)
  ultimately show ?thesis ..
qed

lemma metadata_reads_back_witness:
  "document_records (Some (metadata_document router_plan router_node
     [\<lparr>pr_daemon = ''zebra'', pr_pid = 107\<rparr>, \<lparr>pr_daemon = ''ospfd'', pr_pid = 109\<rparr>])) =
   [\<lparr>pr_daemon = ''zebra'', pr_pid = 107\<rparr>, \<lparr>pr_daemon = ''ospfd'', pr_pid = 109\<rparr>]"
  using metadata_reads_back [of "[\<lparr>pr_daemon = ''zebra'', pr_pid = 107\<rparr>, \<lparr>pr_daemon = ''ospfd'', pr_pid = 109\<rparr>]" router_node router_plan]
  by (simp add: required_daemons_def routing_daemons_def router_node_def)

end
