(* ===== verification/Inspect_Views.thy ===== *)
theory Inspect_Views
  imports Routing Inventory Graph_Json
begin

text \<open>
  The views of \<open>src/nslab/inspector.py\<close>: the dataclasses with the documents \<open>to_dict\<close> makes of them, and the
  texts and orders in which addresses, VLANs, qdiscs, routes, neighbors and rules are shown. A view
  holds \<open>ifindex\<close> and \<open>link_id\<close> as they are in a state document, so these are Python values here.
  Where the source iterates over a set and sorts the result, the model sorts the values in the order in
  which they first occur; the order of values with the same key is Python's hash order.
\<close>

section \<open>Documents\<close>

definition pbool_opt :: "bool option \<Rightarrow> pyobj" where
  "pbool_opt b = (case b of None \<Rightarrow> PNone | Some c \<Rightarrow> PBool c)"

definition strings_document :: "string list \<Rightarrow> pyobj" where
  "strings_document ss = PList (map PStr ss)"

text \<open>\<open>_value_document\<close>: an \<open>InspectionValue\<close> is \<open>None\<close>, a bool, an int, a text, or a tuple.\<close>

fun value_document :: "pyobj \<Rightarrow> pyobj" where
  "value_document (PTuple vs) = PList vs"
| "value_document v = v"

section \<open>Interfaces\<close>

record interface_view =
  iw_name :: string
  iw_kind :: string
  iw_master :: "string option"
  iw_mtu :: "int option"
  iw_up :: bool
  iw_addresses :: "string list"
  iw_mac :: "string option"
  iw_stp :: "bool option"
  iw_vlan_filtering :: "bool option"
  iw_bridge_priority :: "int option"
  iw_path_cost :: "int option"
  iw_port_priority :: "int option"
  iw_hairpin :: "bool option"
  iw_isolated :: "bool option"
  iw_learning :: "bool option"
  iw_flood :: "bool option"
  iw_multicast_flood :: "bool option"
  iw_bridge_vlans :: "string list"
  iw_netem :: "string option"
  iw_qdisc :: "string option"
  iw_ifindex :: pyobj
  iw_link_id :: pyobj
  iw_parent :: "string option"
  iw_vlan_id :: "int option"
  iw_vrf_table :: "int option"
  iw_bond_mode :: "string option"
  iw_bond_miimon_ms :: "int option"
  iw_bond_primary :: "string option"
  iw_bond_lacp_rate :: "string option"
  iw_bond_xmit_hash_policy :: "string option"
  iw_bond_min_links :: "int option"
  iw_vxlan_vni :: "int option"
  iw_vxlan_link :: "string option"
  iw_vxlan_local :: "string option"
  iw_vxlan_remote :: "string option"
  iw_vxlan_dst_port :: "int option"
  iw_vxlan_learning :: "bool option"
  iw_geneve_vni :: "int option"
  iw_geneve_link :: "string option"
  iw_geneve_remote :: "string option"
  iw_geneve_dst_port :: "int option"
  iw_gre_link :: "string option"
  iw_gre_local :: "string option"
  iw_gre_remote :: "string option"
  iw_gre_key :: "int option"
  iw_gre_ttl :: "int option"
  iw_ipip_link :: "string option"
  iw_ipip_local :: "string option"
  iw_ipip_remote :: "string option"
  iw_ipip_ttl :: "int option"
  iw_macvlan_mode :: "string option"
  iw_ipvlan_mode :: "string option"

definition new_view :: "string \<Rightarrow> string \<Rightarrow> string option \<Rightarrow> int option \<Rightarrow> bool \<Rightarrow> string list \<Rightarrow> interface_view" where
  "new_view name kind master mtu up addresses = \<lparr>
     iw_name = name,
     iw_kind = kind,
     iw_master = master,
     iw_mtu = mtu,
     iw_up = up,
     iw_addresses = addresses,
     iw_mac = None,
     iw_stp = None,
     iw_vlan_filtering = None,
     iw_bridge_priority = None,
     iw_path_cost = None,
     iw_port_priority = None,
     iw_hairpin = None,
     iw_isolated = None,
     iw_learning = None,
     iw_flood = None,
     iw_multicast_flood = None,
     iw_bridge_vlans = [],
     iw_netem = None,
     iw_qdisc = None,
     iw_ifindex = PNone,
     iw_link_id = PNone,
     iw_parent = None,
     iw_vlan_id = None,
     iw_vrf_table = None,
     iw_bond_mode = None,
     iw_bond_miimon_ms = None,
     iw_bond_primary = None,
     iw_bond_lacp_rate = None,
     iw_bond_xmit_hash_policy = None,
     iw_bond_min_links = None,
     iw_vxlan_vni = None,
     iw_vxlan_link = None,
     iw_vxlan_local = None,
     iw_vxlan_remote = None,
     iw_vxlan_dst_port = None,
     iw_vxlan_learning = None,
     iw_geneve_vni = None,
     iw_geneve_link = None,
     iw_geneve_remote = None,
     iw_geneve_dst_port = None,
     iw_gre_link = None,
     iw_gre_local = None,
     iw_gre_remote = None,
     iw_gre_key = None,
     iw_gre_ttl = None,
     iw_ipip_link = None,
     iw_ipip_local = None,
     iw_ipip_remote = None,
     iw_ipip_ttl = None,
     iw_macvlan_mode = None,
     iw_ipvlan_mode = None\<rparr>"

definition interface_view_document :: "interface_view \<Rightarrow> pyobj" where
  "interface_view_document v = pdict [
     (''name'', PStr (iw_name v)),
     (''kind'', PStr (iw_kind v)),
     (''master'', pstr_opt (iw_master v)),
     (''mtu'', pint_opt (iw_mtu v)),
     (''up'', PBool (iw_up v)),
     (''addresses'', strings_document (iw_addresses v)),
     (''mac'', pstr_opt (iw_mac v)),
     (''stp'', pbool_opt (iw_stp v)),
     (''vlan_filtering'', pbool_opt (iw_vlan_filtering v)),
     (''bridge_priority'', pint_opt (iw_bridge_priority v)),
     (''path_cost'', pint_opt (iw_path_cost v)),
     (''port_priority'', pint_opt (iw_port_priority v)),
     (''hairpin'', pbool_opt (iw_hairpin v)),
     (''isolated'', pbool_opt (iw_isolated v)),
     (''learning'', pbool_opt (iw_learning v)),
     (''flood'', pbool_opt (iw_flood v)),
     (''multicast_flood'', pbool_opt (iw_multicast_flood v)),
     (''bridge_vlans'', strings_document (iw_bridge_vlans v)),
     (''netem'', pstr_opt (iw_netem v)),
     (''qdisc'', pstr_opt (iw_qdisc v)),
     (''ifindex'', iw_ifindex v),
     (''link_id'', iw_link_id v),
     (''parent'', pstr_opt (iw_parent v)),
     (''vlan_id'', pint_opt (iw_vlan_id v)),
     (''vrf_table'', pint_opt (iw_vrf_table v)),
     (''bond_mode'', pstr_opt (iw_bond_mode v)),
     (''bond_miimon_ms'', pint_opt (iw_bond_miimon_ms v)),
     (''bond_primary'', pstr_opt (iw_bond_primary v)),
     (''bond_lacp_rate'', pstr_opt (iw_bond_lacp_rate v)),
     (''bond_xmit_hash_policy'', pstr_opt (iw_bond_xmit_hash_policy v)),
     (''bond_min_links'', pint_opt (iw_bond_min_links v)),
     (''vxlan_vni'', pint_opt (iw_vxlan_vni v)),
     (''vxlan_link'', pstr_opt (iw_vxlan_link v)),
     (''vxlan_local'', pstr_opt (iw_vxlan_local v)),
     (''vxlan_remote'', pstr_opt (iw_vxlan_remote v)),
     (''vxlan_dst_port'', pint_opt (iw_vxlan_dst_port v)),
     (''vxlan_learning'', pbool_opt (iw_vxlan_learning v)),
     (''geneve_vni'', pint_opt (iw_geneve_vni v)),
     (''geneve_link'', pstr_opt (iw_geneve_link v)),
     (''geneve_remote'', pstr_opt (iw_geneve_remote v)),
     (''geneve_dst_port'', pint_opt (iw_geneve_dst_port v)),
     (''gre_link'', pstr_opt (iw_gre_link v)),
     (''gre_local'', pstr_opt (iw_gre_local v)),
     (''gre_remote'', pstr_opt (iw_gre_remote v)),
     (''gre_key'', pint_opt (iw_gre_key v)),
     (''gre_ttl'', pint_opt (iw_gre_ttl v)),
     (''ipip_link'', pstr_opt (iw_ipip_link v)),
     (''ipip_local'', pstr_opt (iw_ipip_local v)),
     (''ipip_remote'', pstr_opt (iw_ipip_remote v)),
     (''ipip_ttl'', pint_opt (iw_ipip_ttl v)),
     (''macvlan_mode'', pstr_opt (iw_macvlan_mode v)),
     (''ipvlan_mode'', pstr_opt (iw_ipvlan_mode v))]"

section \<open>Routes, neighbors, rules and sysctls\<close>

record route_nexthop_view =
  hw_via :: "string option"
  hw_dev :: string
  hw_weight :: int

definition nexthop_view_document :: "route_nexthop_view \<Rightarrow> pyobj" where
  "nexthop_view_document v = pdict [(''via'', pstr_opt (hw_via v)), (''dev'', PStr (hw_dev v)), (''weight'', PInt (hw_weight v))]"

record neighbor_view =
  bw_dst :: string
  bw_dev :: string
  bw_lladdr :: "string option"
  bw_state :: "string option"
  bw_proxy :: bool

definition neighbor_view_document :: "neighbor_view \<Rightarrow> pyobj" where
  "neighbor_view_document v = pdict [
     (''dst'', PStr (bw_dst v)),
     (''dev'', PStr (bw_dev v)),
     (''lladdr'', pstr_opt (bw_lladdr v)),
     (''state'', pstr_opt (bw_state v)),
     (''proxy'', PBool (bw_proxy v))]"

record route_view =
  rw_dst :: string
  rw_via :: "string option"
  rw_dev :: "string option"
  rw_table :: int
  rw_nexthops :: "route_nexthop_view list"

definition route_view_document :: "route_view \<Rightarrow> pyobj" where
  "route_view_document v = pdict ([(''dst'', PStr (rw_dst v)), (''table'', PInt (rw_table v))] @
     (if rw_nexthops v \<noteq> [] then [(''nexthops'', PList (map nexthop_view_document (rw_nexthops v)))]
      else [(''via'', pstr_opt (rw_via v)), (''dev'', pstr_opt (rw_dev v))]))"

record policy_rule_view =
  pw_priority :: int
  pw_family :: string
  pw_action :: string
  pw_table :: "int option"
  pw_goto :: "int option"
  pw_source :: "string option"
  pw_destination :: "string option"
  pw_invert :: bool
  pw_tos :: "int option"
  pw_fwmark :: "int option"
  pw_fwmask :: "int option"
  pw_iif :: "string option"
  pw_oif :: "string option"
  pw_l3mdev :: bool
  pw_uid_range :: "(int \<times> int) option"
  pw_protocol :: int
  pw_ip_protocol :: "int option"
  pw_source_port :: "(int \<times> int) option"
  pw_destination_port :: "(int \<times> int) option"
  pw_tunnel_id :: "int option"
  pw_suppress_prefix_length :: "int option"
  pw_suppress_interface_group :: "int option"
  pw_realms :: "(int \<times> int) option"

definition pair_document :: "string \<Rightarrow> string \<Rightarrow> (int \<times> int) option \<Rightarrow> pyobj" where
  "pair_document first second bounds = (case bounds of
      None \<Rightarrow> PNone
    | Some (a, b) \<Rightarrow> pdict [(first, PInt a), (second, PInt b)])"

definition rule_view_document :: "policy_rule_view \<Rightarrow> pyobj" where
  "rule_view_document v = pdict [
     (''priority'', PInt (pw_priority v)),
     (''family'', PStr (pw_family v)),
     (''action'', PStr (pw_action v)),
     (''table'', pint_opt (pw_table v)),
     (''goto'', pint_opt (pw_goto v)),
     (''from'', pstr_opt (pw_source v)),
     (''to'', pstr_opt (pw_destination v)),
     (''not'', PBool (pw_invert v)),
     (''tos'', pint_opt (pw_tos v)),
     (''fwmark'', pint_opt (pw_fwmark v)),
     (''fwmask'', pint_opt (pw_fwmask v)),
     (''iif'', pstr_opt (pw_iif v)),
     (''oif'', pstr_opt (pw_oif v)),
     (''l3mdev'', PBool (pw_l3mdev v)),
     (''uid_range'', pair_document ''start'' ''end'' (pw_uid_range v)),
     (''protocol'', PInt (pw_protocol v)),
     (''ip_protocol'', pint_opt (pw_ip_protocol v)),
     (''source_port'', pair_document ''start'' ''end'' (pw_source_port v)),
     (''destination_port'', pair_document ''start'' ''end'' (pw_destination_port v)),
     (''tunnel_id'', pint_opt (pw_tunnel_id v)),
     (''suppress_prefix_length'', pint_opt (pw_suppress_prefix_length v)),
     (''suppress_interface_group'', pint_opt (pw_suppress_interface_group v)),
     (''realms'', pair_document ''source'' ''destination'' (pw_realms v))]"

record sysctl_view =
  sw_name :: string
  sw_value :: "int option"

definition sysctl_view_document :: "sysctl_view \<Rightarrow> pyobj" where
  "sysctl_view_document v = pdict [(''name'', PStr (sw_name v)), (''value'', pint_opt (sw_value v))]"

section \<open>Links and temporaries\<close>

record link_view =
  lw_index :: "nat option"
  lw_kind :: "string option"
  lw_mtu :: "int option"
  lw_endpoints :: "string list"
  lw_endpoint_kinds :: "string option list"
  lw_endpoint_mtus :: "int option list"
  lw_present :: bool
  lw_link_ids :: "pyobj list"

definition link_view_document :: "link_view \<Rightarrow> pyobj" where
  "link_view_document v = pdict [
     (''index'', pint_opt (map_option int (lw_index v))),
     (''kind'', pstr_opt (lw_kind v)),
     (''mtu'', pint_opt (lw_mtu v)),
     (''endpoints'', strings_document (lw_endpoints v)),
     (''endpoint_kinds'', PList (map pstr_opt (lw_endpoint_kinds v))),
     (''endpoint_mtus'', PList (map pint_opt (lw_endpoint_mtus v))),
     (''present'', PBool (lw_present v)),
     (''link_ids'', PList (lw_link_ids v))]"

record root_temporary_view =
  tw_name :: string
  tw_present :: bool
  tw_kind :: "string option"
  tw_master :: "string option"
  tw_mtu :: "int option"
  tw_up :: "bool option"
  tw_addresses :: "string list"
  tw_ifindex :: "int option"
  tw_link_id :: "string option"

definition temporary_view_document :: "root_temporary_view \<Rightarrow> pyobj" where
  "temporary_view_document v = pdict [
     (''name'', PStr (tw_name v)),
     (''present'', PBool (tw_present v)),
     (''kind'', pstr_opt (tw_kind v)),
     (''master'', pstr_opt (tw_master v)),
     (''mtu'', pint_opt (tw_mtu v)),
     (''up'', pbool_opt (tw_up v)),
     (''addresses'', strings_document (tw_addresses v)),
     (''ifindex'', pint_opt (tw_ifindex v)),
     (''link_id'', pstr_opt (tw_link_id v))]"

section \<open>Nodes and the report\<close>

record node_resource_view =
  nw_name :: "string option"
  nw_kind :: "node_kind option"
  nw_namespace :: "string option"
  nw_present :: bool
  nw_interfaces :: "interface_view list"
  nw_routes :: "route_view list"
  nw_rules :: "policy_rule_view list"
  nw_neighbors :: "neighbor_view list"
  nw_sysctls :: "sysctl_view list"
  nw_links :: "link_view list"
  nw_root_temporaries :: "root_temporary_view list"

definition resource_view_document :: "node_resource_view \<Rightarrow> pyobj" where
  "resource_view_document v = pdict [
     (''name'', pstr_opt (nw_name v)),
     (''kind'', pstr_opt (map_option kind_text (nw_kind v))),
     (''namespace'', pstr_opt (nw_namespace v)),
     (''present'', PBool (nw_present v)),
     (''interfaces'', PList (map interface_view_document (nw_interfaces v))),
     (''routes'', PList (map route_view_document (nw_routes v))),
     (''rules'', PList (map rule_view_document (nw_rules v))),
     (''neighbors'', PList (map neighbor_view_document (nw_neighbors v))),
     (''sysctls'', PList (map sysctl_view_document (nw_sysctls v))),
     (''links'', PList (map link_view_document (nw_links v))),
     (''root_temporaries'', PList (map temporary_view_document (nw_root_temporaries v)))]"

record node_report =
  nr_name :: string
  nr_kind :: node_kind
  nr_namespace :: string
  nr_status :: string
  nr_desired :: node_resource_view
  nr_state :: "node_resource_view option"
  nr_actual :: node_resource_view

definition node_report_document :: "node_report \<Rightarrow> pyobj" where
  "node_report_document v = pdict [
     (''name'', PStr (nr_name v)),
     (''kind'', PStr (kind_text (nr_kind v))),
     (''namespace'', PStr (nr_namespace v)),
     (''status'', PStr (nr_status v)),
     (''desired'', resource_view_document (nr_desired v)),
     (''state'', (case nr_state v of None \<Rightarrow> PNone | Some s \<Rightarrow> resource_view_document s)),
     (''actual'', resource_view_document (nr_actual v))]"

record difference =
  df_scope :: string
  df_source :: string
  df_property :: string
  df_desired :: pyobj
  df_actual :: pyobj
  df_node :: "string option"
  df_interface :: "string option"

definition difference_document :: "difference \<Rightarrow> pyobj" where
  "difference_document d = pdict [
     (''scope'', PStr (df_scope d)),
     (''source'', PStr (df_source d)),
     (''node'', pstr_opt (df_node d)),
     (''interface'', pstr_opt (df_interface d)),
     (''property'', PStr (df_property d)),
     (''desired'', value_document (df_desired d)),
     (''actual'', value_document (df_actual d))]"

record inspection_report =
  ir_status :: string
  ir_nodes :: "node_report list"
  ir_differences :: "difference list"

definition report_document :: "inspection_report \<Rightarrow> pyobj" where
  "report_document r = pdict [
     (''status'', PStr (ir_status r)),
     (''nodes'', PList (map node_report_document (ir_nodes r))),
     (''differences'', PList (map difference_document (ir_differences r)))]"

section \<open>Addresses, VLANs and qdiscs\<close>

text \<open>Tuples of numbers are compared like lists of the same length.\<close>

definition address_key :: "ip_interface \<Rightarrow> int list" where
  "address_key a = [if_version a, int (address_int (if_ip a)), int (net_prefixlen (if_network a))]"

definition address_strings :: "ip_interface list \<Rightarrow> string list" where
  "address_strings addresses = map show_interface (sort_key address_key (dedup addresses))"

definition bridge_vlan_string :: "bridge_vlan_plan \<Rightarrow> string" where
  "bridge_vlan_string v =
     (let flags = (if bv_pvid v then [''pvid''] else []) @ (if bv_untagged v then [''untagged''] else [])
      in show_int (bv_vid v) @ (if flags \<noteq> [] then '' '' @ join '' '' flags else []))"

definition bridge_vlan_strings :: "bridge_vlan_plan list \<Rightarrow> string list" where
  "bridge_vlan_strings vlans = map bridge_vlan_string (sort_key bv_vid (dedup vlans))"

definition netem_string :: "netem_plan option \<Rightarrow> string option" where
  "netem_string netem = map_option (\<lambda>n. join '' '' (
     (case ne_rate n of None \<Rightarrow> [] | Some rate \<Rightarrow> if rate = [] then [] else [''rate '' @ rate]) @
     (if ne_delay_ms n \<noteq> 0 then [''delay '' @ show_int (ne_delay_ms n) @ ''ms''] else []) @
     (if ne_jitter_ms n \<noteq> 0 then [''jitter '' @ show_int (ne_jitter_ms n) @ ''ms''] else []) @
     (if ne_loss_percent n \<noteq> 0 then [''loss '' @ show_int (ne_loss_percent n) @ ''%''] else []))) netem"

definition fq_codel_string :: "fq_codel_plan \<Rightarrow> string" where
  "fq_codel_string q = ''fq_codel target '' @ show_int (fq_target_ms q) @ ''ms interval '' @ show_int (fq_interval_ms q) @
     ''ms limit '' @ show_int (fq_limit q) @ '' ecn '' @ (if fq_ecn q then ''on'' else ''off'')"

fun leaf_string :: "htb_leaf_plan \<Rightarrow> string" where
  "leaf_string (LeafFqCodel q) = fq_codel_string q"
| "leaf_string (LeafSimple q) = sq_kind q"

fun qdisc_plan_string :: "qdisc_plan \<Rightarrow> string" where
  "qdisc_plan_string (TbfQdisc q) = ''tbf rate '' @ tbf_rate q @ '' burst '' @ show_int (tbf_burst_bytes q) @
     ''B latency '' @ show_int (tbf_latency_ms q) @ ''ms''"
| "qdisc_plan_string (FqCodelQdisc q) = fq_codel_string q"
| "qdisc_plan_string (HtbQdisc q) = ''htb rate '' @ htb_rate q @ '' leaf '' @ leaf_string (htb_leaf q)"
| "qdisc_plan_string (SimpleQdisc q) = sq_kind q"
| "qdisc_plan_string (CakeQdisc q) = ''cake bandwidth '' @ cake_bandwidth q @ '' flow-mode '' @ cake_flow_mode q @
     '' diffserv '' @ cake_diffserv_mode q @ '' rtt '' @ show_int (cake_rtt_ms q) @ ''ms nat '' @
     (if cake_nat q then ''on'' else ''off'')"

definition qdisc_string :: "qdisc_plan option \<Rightarrow> string option" where
  "qdisc_string = map_option qdisc_plan_string"

section \<open>The order and text of routes\<close>

definition gateway_string :: "string \<Rightarrow> ip_address option \<Rightarrow> string" where
  "gateway_string missing via = (case via of None \<Rightarrow> missing | Some a \<Rightarrow> show_ip a)"

definition nexthop_string :: "route_nexthop_plan \<Rightarrow> string" where
  "nexthop_string h = gateway_string ''-'' (nh_via h) @ ''@'' @ nh_dev h @ ''*'' @ show_int (nh_weight h)"

definition route_numbers :: "route_plan \<Rightarrow> int list" where
  "route_numbers r = [rt_table r, net_version (rt_dst r), int (address_int (net_address (rt_dst r))), int (net_prefixlen (rt_dst r))]"

definition route_texts :: "route_plan \<Rightarrow> string list" where
  "route_texts r = [gateway_string [] (rt_via r), (case rt_dev r of None \<Rightarrow> [] | Some d \<Rightarrow> d),
     join '','' (map nexthop_string (rt_nexthops r))]"

text \<open>\<open>sorted(..., key=_route_key)\<close>: by the texts and then, stably, by the numbers before them.\<close>

definition sort_routes :: "route_plan list \<Rightarrow> route_plan list" where
  "sort_routes routes = sort_key route_numbers (sort_key route_texts routes)"

definition make_route_view :: "route_plan \<Rightarrow> route_view" where
  "make_route_view r = \<lparr>rw_dst = show_network (rt_dst r), rw_via = map_option show_ip (rt_via r), rw_dev = rt_dev r,
     rw_table = rt_table r,
     rw_nexthops = map (\<lambda>h. \<lparr>hw_via = map_option show_ip (nh_via h), hw_dev = nh_dev h, hw_weight = nh_weight h\<rparr>) (rt_nexthops r)\<rparr>"

definition route_string :: "route_plan \<Rightarrow> string" where
  "route_string r = show_int (rt_table r) @ ''|'' @ show_network (rt_dst r) @
     (if rt_nexthops r \<noteq> [] then ''|ecmp|'' @ join '','' (map nexthop_string (rt_nexthops r))
      else ''|'' @ gateway_string ''-'' (rt_via r) @ ''|'' @ (case rt_dev r of None \<Rightarrow> ''None'' | Some d \<Rightarrow> d))"

definition route_strings :: "route_plan list \<Rightarrow> string list" where
  "route_strings routes = map route_string (sort_routes (dedup routes))"

definition ordered_actual_routes :: "route_plan list \<Rightarrow> route_plan list \<Rightarrow> route_plan list" where
  "ordered_actual_routes desired actual =
     (let ordered = filter (\<lambda>r. r \<in> set actual) desired
      in ordered @ sort_routes (filter (\<lambda>r. r \<notin> set ordered) (dedup actual)))"

section \<open>The order and text of neighbors\<close>

definition neighbor_numbers :: "neighbor_plan \<Rightarrow> int list" where
  "neighbor_numbers n = [ip_version (nb_dst n), int (address_int (nb_dst n))]"

definition sort_neighbors :: "neighbor_plan list \<Rightarrow> neighbor_plan list" where
  "sort_neighbors neighbors = sort_key neighbor_numbers (sort_key nb_dev neighbors)"

definition make_neighbor_view :: "neighbor_plan \<Rightarrow> neighbor_view" where
  "make_neighbor_view n = \<lparr>bw_dst = show_ip (nb_dst n), bw_dev = nb_dev n, bw_lladdr = nb_lladdr n, bw_state = nb_state n,
     bw_proxy = nb_proxy n\<rparr>"

definition none_or :: "string option \<Rightarrow> string" where
  "none_or s = (case s of None \<Rightarrow> ''None'' | Some t \<Rightarrow> t)"

definition neighbor_string :: "neighbor_plan \<Rightarrow> string" where
  "neighbor_string n = show_ip (nb_dst n) @ ''@'' @ nb_dev n @
     (if nb_proxy n then ''|proxy'' else ''|'' @ none_or (nb_lladdr n) @ ''|'' @ none_or (nb_state n))"

definition neighbor_strings :: "neighbor_plan list \<Rightarrow> string list" where
  "neighbor_strings neighbors = map neighbor_string (sort_neighbors neighbors)"

definition neighbor_key :: "neighbor_plan \<Rightarrow> ip_address \<times> string" where
  "neighbor_key n = (nb_dst n, nb_dev n)"

definition ordered_actual_neighbors :: "neighbor_plan list \<Rightarrow> neighbor_plan list \<Rightarrow> neighbor_plan list" where
  "ordered_actual_neighbors desired actual =
     (let by_identity = dict_of (map (\<lambda>n. (neighbor_key n, n)) actual);
          ordered = List.map_filter (\<lambda>n. dict_get by_identity (neighbor_key n)) desired
      in ordered @ sort_neighbors (filter (\<lambda>n. neighbor_key n \<notin> set (map neighbor_key ordered)) actual))"

section \<open>The order and text of rules\<close>

definition make_rule_view :: "policy_rule_plan \<Rightarrow> policy_rule_view" where
  "make_rule_view r = \<lparr>
     pw_priority = pr_priority r,
     pw_family = ''ipv'' @ show_int (pr_family r),
     pw_action = pr_action r,
     pw_table = pr_table r,
     pw_goto = pr_goto r,
     pw_source = map_option show_network (pr_source r),
     pw_destination = map_option show_network (pr_destination r),
     pw_invert = pr_invert r,
     pw_tos = pr_tos r,
     pw_fwmark = pr_fwmark r,
     pw_fwmask = pr_fwmask r,
     pw_iif = pr_iif r,
     pw_oif = pr_oif r,
     pw_l3mdev = pr_l3mdev r,
     pw_uid_range = pr_uid_range r,
     pw_protocol = pr_protocol r,
     pw_ip_protocol = pr_ip_protocol r,
     pw_source_port = pr_source_port r,
     pw_destination_port = pr_destination_port r,
     pw_tunnel_id = pr_tunnel_id r,
     pw_suppress_prefix_length = pr_suppress_prefix_length r,
     pw_suppress_interface_group = pr_suppress_interface_group r,
     pw_realms = pr_realms r\<rparr>"

text \<open>
  \<open>json.dumps(document, sort_keys=True, separators=(",", ":"))\<close> of a document of dicts with text keys,
  texts, ints, bools and \<open>None\<close>, which the document of a rule is.
\<close>

definition compact_block :: "(string \<times> string) list \<Rightarrow> string" where
  "compact_block items = ''{'' @ join '','' (map (\<lambda>(k, v). concat (map ascii_glyph (json_string k)) @ '':'' @ v)
     (sort_key fst items)) @ ''}''"

fun compact_json :: "pyobj \<Rightarrow> string" where
  "compact_json PNone = ''null''"
| "compact_json (PBool b) = (if b then ''true'' else ''false'')"
| "compact_json (PInt i) = show_int i"
| "compact_json (PStr s) = concat (map ascii_glyph (json_string s))"
| "compact_json (PDict d) = compact_block (concat (map (\<lambda>p. case fst p of PStr k \<Rightarrow> [(k, compact_json (snd p))] | _ \<Rightarrow> []) d))"
| "compact_json _ = []"

definition rule_string :: "policy_rule_plan \<Rightarrow> string" where
  "rule_string r = compact_json (rule_view_document (make_rule_view r))"

definition sort_rules :: "policy_rule_plan list \<Rightarrow> policy_rule_plan list" where
  "sort_rules rules = sort_key pr_family (sort_key pr_priority (sort_key rule_string rules))"

definition rule_strings :: "policy_rule_plan list \<Rightarrow> string list" where
  "rule_strings rules = map rule_string (sort_rules (dedup rules))"

definition ordered_actual_rules :: "policy_rule_plan list \<Rightarrow> policy_rule_plan list \<Rightarrow> policy_rule_plan list" where
  "ordered_actual_rules desired actual =
     (let ordered = filter (\<lambda>r. r \<in> set actual) desired
      in ordered @ sort_rules (filter (\<lambda>r. r \<notin> set ordered) (dedup actual)))"

end
