(* ===== verification/Inspector.thy ===== *)
theory Inspector
  imports Inspect_Views Match Snapshot
begin

text \<open>
  \<open>src/nslab/inspector.py\<close>: the desired, the recorded and the observed view of every node, the differences
  between them, and \<open>inspect_topology\<close>. A part that can raise is of a \<open>res\<close> type. The nodes a difference
  impacts are a list.
\<close>

section \<open>Desired interfaces\<close>

definition view_port :: "bridge_port_plan option \<Rightarrow> interface_view \<Rightarrow> interface_view" where
  "view_port port v = v\<lparr>
     iw_path_cost := Option.bind port bp_path_cost,
     iw_port_priority := Option.bind port bp_priority,
     iw_hairpin := Option.bind port bp_hairpin,
     iw_isolated := Option.bind port bp_isolated,
     iw_learning := Option.bind port bp_learning,
     iw_flood := Option.bind port bp_flood,
     iw_multicast_flood := Option.bind port bp_multicast_flood\<rparr>"

definition desired_loopback :: interface_view where
  "desired_loopback = new_view ''lo'' ''loopback'' None None True [''127.0.0.1/8'']"

definition desired_bridge :: "node_plan \<Rightarrow> string \<Rightarrow> interface_view" where
  "desired_bridge node bridge_name =
     (new_view bridge_name ''bridge'' None None True (address_strings (interface_addresses node bridge_name)))\<lparr>
       iw_stp := nd_stp node,
       iw_vlan_filtering := nd_vlan_filtering node,
       iw_bridge_priority := nd_bridge_priority node\<rparr>"

definition desired_veth :: "node_plan \<Rightarrow> link_plan \<Rightarrow> string \<Rightarrow> interface_view" where
  "desired_veth node link interface =
     (view_port (dict_get (nd_bridge_ports node) interface)
       (new_view interface ''veth'' (node_interface_master node interface) (Some (lk_mtu link)) True
         (address_strings (interface_addresses node interface))))\<lparr>
       iw_bridge_vlans := bridge_vlan_strings (expected_bridge_port_vlans node interface),
       iw_netem := netem_string (lk_netem link),
       iw_qdisc := qdisc_string (lk_qdisc link)\<rparr>"

fun desired_device :: "node_plan \<Rightarrow> topology_plan \<Rightarrow> device_plan \<Rightarrow> interface_view res" where
  "desired_device node plan (VlanDevice device) = Inr
     ((new_view (vlan_name device) ''vlan'' (node_interface_master node (vlan_name device)) None True
        (address_strings (vlan_addresses device)))\<lparr>
        iw_parent := Some (vlan_link device), iw_vlan_id := Some (vlan_vid device)\<rparr>)"
| "desired_device node plan (VrfDevice device) = Inr
     ((new_view (vrf_name device) ''vrf'' None None True [])\<lparr>iw_vrf_table := Some (vrf_table device)\<rparr>)"
| "desired_device node plan (BondDevice device) =
     res_bind (bond_device_mtu node plan device) (\<lambda>mtu. Inr
     ((new_view (bond_name device) ''bond'' (node_interface_master node (bond_name device)) (Some mtu) True
        (address_strings (bond_addresses device)))\<lparr>
        iw_bond_mode := Some (bond_mode device),
        iw_bond_miimon_ms := Some (bond_miimon_ms device),
        iw_bond_primary := bond_primary device,
        iw_bond_lacp_rate := bond_lacp_rate device,
        iw_bond_xmit_hash_policy := bond_xmit_hash_policy device,
        iw_bond_min_links := bond_min_links device\<rparr>))"
| "desired_device node plan (DummyDevice device) = Inr
     (new_view (dummy_name device) ''dummy'' (node_interface_master node (dummy_name device))
        (Some (dummy_device_mtu node plan device)) True (address_strings (dummy_addresses device)))"
| "desired_device node plan (GreDevice device) =
     res_bind (gre_device_mtu node plan device) (\<lambda>mtu. Inr
     ((new_view (gre_name device) ''gre'' (node_interface_master node (gre_name device)) (Some mtu) True
        (address_strings (gre_addresses device)))\<lparr>
        iw_gre_link := Some (gre_link device),
        iw_gre_local := Some (show_ipv4 (gre_local device)),
        iw_gre_remote := Some (show_ipv4 (gre_remote device)),
        iw_gre_key := gre_key device,
        iw_gre_ttl := Some (gre_ttl device)\<rparr>))"
| "desired_device node plan (IpipDevice device) =
     res_bind (ipip_device_mtu node plan device) (\<lambda>mtu. Inr
     ((new_view (ipip_name device) ''ipip'' (node_interface_master node (ipip_name device)) (Some mtu) True
        (address_strings (ipip_addresses device)))\<lparr>
        iw_ipip_link := Some (ipip_link device),
        iw_ipip_local := Some (show_ipv4 (ipip_local device)),
        iw_ipip_remote := Some (show_ipv4 (ipip_remote device)),
        iw_ipip_ttl := Some (ipip_ttl device)\<rparr>))"
| "desired_device node plan (GeneveDevice device) =
     res_bind (geneve_device_mtu node plan device) (\<lambda>mtu. Inr
     ((view_port (dict_get (nd_bridge_ports node) (geneve_name device))
        (new_view (geneve_name device) ''geneve'' (node_interface_master node (geneve_name device)) (Some mtu) True
          (address_strings (geneve_addresses device))))\<lparr>
        iw_bridge_vlans := bridge_vlan_strings (expected_bridge_port_vlans node (geneve_name device)),
        iw_geneve_vni := Some (geneve_vni device),
        iw_geneve_link := Some (geneve_link device),
        iw_geneve_remote := Some (show_ip (geneve_remote device)),
        iw_geneve_dst_port := Some (geneve_dst_port device)\<rparr>))"
| "desired_device node plan (MacvlanDevice device) =
     res_bind (macvlan_device_mtu node plan device) (\<lambda>mtu. Inr
     ((new_view (macvlan_name device) ''macvlan'' (node_interface_master node (macvlan_name device)) (Some mtu) True
        (address_strings (macvlan_addresses device)))\<lparr>
        iw_parent := Some (macvlan_link device),
        iw_macvlan_mode := Some (macvlan_mode device)\<rparr>))"
| "desired_device node plan (IpvlanDevice device) =
     res_bind (ipvlan_device_mtu node plan device) (\<lambda>mtu. Inr
     ((new_view (ipvlan_name device) ''ipvlan'' (node_interface_master node (ipvlan_name device)) (Some mtu) True
        (address_strings (ipvlan_addresses device)))\<lparr>
        iw_parent := Some (ipvlan_link device),
        iw_ipvlan_mode := Some (ipvlan_mode device)\<rparr>))"
| "desired_device node plan (VxlanDevice device) =
     res_bind (vxlan_device_mtu node plan device) (\<lambda>mtu. Inr
     ((view_port (dict_get (nd_bridge_ports node) (vxlan_name device))
        (new_view (vxlan_name device) ''vxlan'' (node_interface_master node (vxlan_name device)) (Some mtu) True
          (address_strings (vxlan_addresses device))))\<lparr>
        iw_bridge_vlans := bridge_vlan_strings (expected_bridge_port_vlans node (vxlan_name device)),
        iw_vxlan_vni := Some (vxlan_vni device),
        iw_vxlan_link := Some (vxlan_link device),
        iw_vxlan_local := Some (show_ip (vxlan_local device)),
        iw_vxlan_remote := Some (show_ip (vxlan_remote device)),
        iw_vxlan_dst_port := Some (vxlan_dst_port device),
        iw_vxlan_learning := Some (vxlan_learning device)\<rparr>))"

definition desired_bridges :: "node_plan \<Rightarrow> interface_view list res" where
  "desired_bridges node = (case nd_kind node of
      LinuxKind \<Rightarrow> Inr []
    | BridgeKind \<Rightarrow> (case nd_bridge_name node of
        None \<Rightarrow> Inl assertion_error
      | Some bridge_name \<Rightarrow> Inr [desired_bridge node bridge_name]))"

definition desired_interfaces :: "node_plan \<Rightarrow> topology_plan \<Rightarrow> interface_view list res" where
  "desired_interfaces node plan =
     res_bind (desired_bridges node) (\<lambda>bridges.
     res_bind (res_map (desired_device node plan) (dict_values (nd_devices node))) (\<lambda>devices.
     Inr (map (\<lambda>v. v\<lparr>iw_mac := dict_get (nd_mac_addresses node) (iw_name v)\<rparr>)
       ([desired_loopback] @ bridges @
        map (\<lambda>(link, endpoint). desired_veth node link (ep_interface endpoint)) (namespace_endpoints plan (nd_namespace node)) @
        devices))))"

section \<open>Observed interfaces and links\<close>

definition make_interface_view :: "interface_inventory \<Rightarrow> interface_view" where
  "make_interface_view i = (new_view (iv_name i) (iv_kind i) (iv_master i) (Some (iv_mtu i)) (iv_up i)
     (address_strings (iv_addresses i)))\<lparr>
     iw_mac := iv_mac i,
     iw_stp := iv_stp i,
     iw_vlan_filtering := iv_vlan_filtering i,
     iw_bridge_priority := iv_bridge_priority i,
     iw_path_cost := iv_path_cost i,
     iw_port_priority := iv_port_priority i,
     iw_hairpin := iv_hairpin i,
     iw_isolated := iv_isolated i,
     iw_learning := iv_learning i,
     iw_flood := iv_flood i,
     iw_multicast_flood := iv_multicast_flood i,
     iw_bridge_vlans := bridge_vlan_strings (iv_bridge_vlans i),
     iw_netem := netem_string (iv_netem i),
     iw_qdisc := qdisc_string (iv_qdisc i),
     iw_ifindex := pint_opt (iv_ifindex i),
     iw_link_id := pstr_opt (iv_link_id i),
     iw_parent := iv_parent i,
     iw_vlan_id := iv_vlan_id i,
     iw_vrf_table := iv_vrf_table i,
     iw_bond_mode := iv_bond_mode i,
     iw_bond_miimon_ms := iv_bond_miimon_ms i,
     iw_bond_primary := iv_bond_primary i,
     iw_bond_lacp_rate := iv_bond_lacp_rate i,
     iw_bond_xmit_hash_policy := iv_bond_xmit_hash_policy i,
     iw_bond_min_links := iv_bond_min_links i,
     iw_vxlan_vni := iv_vxlan_vni i,
     iw_vxlan_link := iv_vxlan_link i,
     iw_vxlan_local := map_option show_ip (iv_vxlan_local i),
     iw_vxlan_remote := map_option show_ip (iv_vxlan_remote i),
     iw_vxlan_dst_port := iv_vxlan_dst_port i,
     iw_vxlan_learning := iv_vxlan_learning i,
     iw_geneve_vni := iv_geneve_vni i,
     iw_geneve_link := iv_geneve_link i,
     iw_geneve_remote := map_option show_ip (iv_geneve_remote i),
     iw_geneve_dst_port := iv_geneve_dst_port i,
     iw_gre_link := iv_gre_link i,
     iw_gre_local := map_option show_ip (iv_gre_local i),
     iw_gre_remote := map_option show_ip (iv_gre_remote i),
     iw_gre_key := iv_gre_key i,
     iw_gre_ttl := iv_gre_ttl i,
     iw_ipip_link := iv_ipip_link i,
     iw_ipip_local := map_option show_ip (iv_ipip_local i),
     iw_ipip_remote := map_option show_ip (iv_ipip_remote i),
     iw_ipip_ttl := iv_ipip_ttl i,
     iw_macvlan_mode := iv_macvlan_mode i,
     iw_ipvlan_mode := iv_ipvlan_mode i\<rparr>"

definition planned_links_for_node :: "topology_plan \<Rightarrow> string \<Rightarrow> link_plan list" where
  "planned_links_for_node plan node = filter (\<lambda>link. node = ep_node (lk_left link) \<or> node = ep_node (lk_right link)) (tpl_links plan)"

definition endpoint_label :: "endpoint_plan \<Rightarrow> string" where
  "endpoint_label e = ep_node e @ '':'' @ ep_interface e"

definition endpoint_labels :: "link_plan \<Rightarrow> string list" where
  "endpoint_labels link = map endpoint_label (link_endpoints link)"

text \<open>The view of a planned link as it should be; every link of a plan is a \<open>veth\<close>.\<close>

definition planned_link_view :: "link_plan \<Rightarrow> pyobj list \<Rightarrow> link_view" where
  "planned_link_view link ids = \<lparr>lw_index = Some (lk_index link), lw_kind = Some ''veth'', lw_mtu = Some (lk_mtu link),
     lw_endpoints = endpoint_labels link, lw_endpoint_kinds = [Some ''veth'', Some ''veth''],
     lw_endpoint_mtus = [Some (lk_mtu link), Some (lk_mtu link)], lw_present = True, lw_link_ids = ids\<rparr>"

definition desired_link_view :: "link_plan \<Rightarrow> link_view" where
  "desired_link_view link = planned_link_view link [PNone, PNone]"

text \<open>\<open>_ownership\<close>, and \<open>get\<close> on the record it returns.\<close>

definition recorded_ownership :: "state_snapshot \<Rightarrow> string \<Rightarrow> string \<Rightarrow> pyobj res" where
  "recorded_ownership s node interface = (let key = ownership_key node interface in
     res_of_option (key_error key) (dict_get (ss_interfaces s) key))"

definition recorded_field :: "pyobj \<Rightarrow> string \<Rightarrow> pyobj" where
  "recorded_field v k = (case mapping_get v k of None \<Rightarrow> PNone | Some u \<Rightarrow> u)"

definition recorded_link_ids :: "state_snapshot \<Rightarrow> link_plan \<Rightarrow> pyobj list res" where
  "recorded_link_ids s link = res_map (\<lambda>e. res_bind (recorded_ownership s (ep_node e) (ep_interface e))
     (\<lambda>v. Inr (recorded_field v ''link_id''))) (link_endpoints link)"

definition state_link_view :: "state_snapshot \<Rightarrow> link_plan \<Rightarrow> link_view res" where
  "state_link_view s link = res_bind (recorded_link_ids s link) (\<lambda>ids. Inr (planned_link_view link ids))"

definition observed_endpoint :: "live_inventory \<Rightarrow> string \<Rightarrow> string \<Rightarrow> interface_inventory option" where
  "observed_endpoint inventory namespace interface = (case dict_get (li_namespaces inventory) namespace of
      None \<Rightarrow> None
    | Some n \<Rightarrow> if ni_exists n then dict_get (ni_interfaces n) interface else None)"

type_synonym link_groups = "(string, (string \<times> string) list) dict"

text \<open>The veth interfaces of the existing namespaces that have a link id, and the groups of those with the same.\<close>

definition linked_entries :: "live_inventory \<Rightarrow> ((string \<times> string) \<times> string) list" where
  "linked_entries inventory = concat (map (\<lambda>(namespace, n). if \<not> ni_exists n then []
     else concat (map (\<lambda>(name, i). if iv_kind i \<noteq> ''veth'' then [] else (case iv_link_id i of
         None \<Rightarrow> []
       | Some link_id \<Rightarrow> if link_id = [] then [] else [((namespace, name), link_id)])) (ni_interfaces n)))
     (li_namespaces inventory))"

definition add_to_group :: "(string \<times> string) \<times> string \<Rightarrow> link_groups \<Rightarrow> link_groups" where
  "add_to_group entry groups =
     (let members = (case dict_get groups (snd entry) of None \<Rightarrow> [] | Some m \<Rightarrow> m)
      in dict_set (snd entry) (if fst entry \<in> set members then members else members @ [fst entry]) groups)"

definition observed_link_groups :: "live_inventory \<Rightarrow> link_groups" where
  "observed_link_groups inventory = fold add_to_group (linked_entries inventory) []"

text \<open>\<open>_uniform_kind\<close> and \<open>_uniform_mtu\<close>\<close>

definition uniform :: "'a option list \<Rightarrow> 'a option" where
  "uniform values = (case values of [] \<Rightarrow> None | v # vs \<Rightarrow> if list_all (\<lambda>u. u = v) vs then v else None)"

definition observed_ends :: "live_inventory \<Rightarrow> link_plan \<Rightarrow> interface_inventory option list" where
  "observed_ends inventory link = map (\<lambda>e. observed_endpoint inventory (ep_namespace e) (ep_interface e)) (link_endpoints link)"

definition end_link_id :: "interface_inventory option \<Rightarrow> string option" where
  "end_link_id observed = Option.bind observed iv_link_id"

definition is_veth_end :: "interface_inventory option \<Rightarrow> bool" where
  "is_veth_end observed = (case observed of None \<Rightarrow> False | Some i \<Rightarrow> iv_kind i = ''veth'')"

definition link_present :: "live_inventory \<Rightarrow> link_plan \<Rightarrow> link_groups \<Rightarrow> bool" where
  "link_present inventory link groups =
     (let observed = observed_ends inventory link; identities = map end_link_id observed in
      list_all is_veth_end observed \<and>
      (case hd identities of
         None \<Rightarrow> False
       | Some link_id \<Rightarrow> link_id \<noteq> [] \<and> last identities = Some link_id \<and>
           (case dict_get groups link_id of
              None \<Rightarrow> False
            | Some members \<Rightarrow> set members = set (map endpoint_key (link_endpoints link)))))"

definition actual_link_view :: "live_inventory \<Rightarrow> link_plan \<Rightarrow> link_groups \<Rightarrow> link_view" where
  "actual_link_view inventory link groups =
     (let observed = observed_ends inventory link;
          kinds = map (map_option iv_kind) observed; mtus = map (map_option iv_mtu) observed in
      \<lparr>lw_index = Some (lk_index link), lw_kind = uniform kinds, lw_mtu = uniform mtus,
       lw_endpoints = endpoint_labels link, lw_endpoint_kinds = kinds, lw_endpoint_mtus = mtus,
       lw_present = link_present inventory link groups, lw_link_ids = map (pstr_opt \<circ> end_link_id) observed\<rparr>)"

definition make_temporary_view :: "string \<Rightarrow> interface_inventory option \<Rightarrow> root_temporary_view" where
  "make_temporary_view name interface = (case interface of
      None \<Rightarrow> \<lparr>tw_name = name, tw_present = False, tw_kind = None, tw_master = None, tw_mtu = None, tw_up = None,
        tw_addresses = [], tw_ifindex = None, tw_link_id = None\<rparr>
    | Some i \<Rightarrow> \<lparr>tw_name = name, tw_present = True, tw_kind = Some (iv_kind i), tw_master = iv_master i,
        tw_mtu = Some (iv_mtu i), tw_up = Some (iv_up i), tw_addresses = address_strings (iv_addresses i),
        tw_ifindex = iv_ifindex i, tw_link_id = iv_link_id i\<rparr>)"

definition node_temporaries :: "topology_plan \<Rightarrow> string \<Rightarrow> string list" where
  "node_temporaries plan node = map ep_temporary_name
     (filter (\<lambda>e. ep_node e = node) (concat (map link_endpoints (tpl_links plan))))"

section \<open>The views of a node\<close>

text \<open>The view of a planned node, of its interfaces and of its links.\<close>

definition planned_node_view :: "node_plan \<Rightarrow> topology_plan \<Rightarrow> interface_view list \<Rightarrow> link_view list \<Rightarrow> node_resource_view res" where
  "planned_node_view node plan interfaces links =
     res_bind (expected_routes node) (\<lambda>routes. Inr \<lparr>
       nw_name = Some (nd_name node),
       nw_kind = Some (nd_kind node),
       nw_namespace = Some (nd_namespace node),
       nw_present = True,
       nw_interfaces = interfaces,
       nw_routes = map make_route_view routes,
       nw_rules = map make_rule_view (nd_rules node),
       nw_neighbors = map make_neighbor_view (nd_neighbors node),
       nw_sysctls = map (\<lambda>(name, v). \<lparr>sw_name = name, sw_value = Some v\<rparr>) (sort_key fst (nd_sysctls node)),
       nw_links = links,
       nw_root_temporaries = map (\<lambda>name. make_temporary_view name None) (node_temporaries plan (nd_name node))\<rparr>)"

definition desired_node_view :: "node_plan \<Rightarrow> topology_plan \<Rightarrow> node_resource_view res" where
  "desired_node_view node plan =
     res_bind (desired_interfaces node plan) (\<lambda>interfaces.
     planned_node_view node plan interfaces (map desired_link_view (planned_links_for_node plan (nd_name node))))"

definition state_interface_view :: "state_snapshot \<Rightarrow> node_plan \<Rightarrow> interface_view \<Rightarrow> interface_view res" where
  "state_interface_view s node desired =
     (if iw_name desired = ''lo'' then Inr desired
      else res_bind (recorded_ownership s (nd_name node) (iw_name desired)) (\<lambda>v.
        Inr (desired\<lparr>iw_ifindex := recorded_field v ''ifindex'', iw_link_id := recorded_field v ''link_id''\<rparr>)))"

definition state_node_view :: "node_plan \<Rightarrow> topology_plan \<Rightarrow> state_snapshot \<Rightarrow> node_resource_view res" where
  "state_node_view node plan s =
     res_bind (desired_interfaces node plan) (\<lambda>desired.
     res_bind (res_map (state_interface_view s node) desired) (\<lambda>interfaces.
     res_bind (planned_node_view node plan interfaces []) (\<lambda>view.
     res_bind (res_map (state_link_view s) (planned_links_for_node plan (nd_name node))) (\<lambda>links.
     Inr (view\<lparr>nw_links := links\<rparr>)))))"

text \<open>The groups of interfaces that share a link id and are no link of the plan.\<close>

definition node_position :: "topology_plan \<Rightarrow> string \<Rightarrow> nat" where
  "node_position plan name = length (takeWhile (\<lambda>k. k \<noteq> name) (dict_keys (tpl_nodes plan)))"

definition namespace_owner :: "topology_plan \<Rightarrow> string \<Rightarrow> string" where
  "namespace_owner plan namespace =
     (case dict_get (dict_of (map (\<lambda>n. (nd_namespace n, nd_name n)) (plan_nodes plan))) namespace of
        None \<Rightarrow> namespace | Some name \<Rightarrow> name)"

definition entry_label :: "topology_plan \<Rightarrow> string \<times> string \<Rightarrow> string" where
  "entry_label plan entry = namespace_owner plan (fst entry) @ '':'' @ snd entry"

definition is_planned_group :: "topology_plan \<Rightarrow> (string \<times> string) list \<Rightarrow> bool" where
  "is_planned_group plan group_entries \<longleftrightarrow>
     list_ex (\<lambda>link. set group_entries = set (map endpoint_key (link_endpoints link))) (tpl_links plan)"

definition observed_entry :: "live_inventory \<Rightarrow> string \<times> string \<Rightarrow> interface_inventory res" where
  "observed_entry inventory entry =
     res_bind (res_of_option (key_error (fst entry)) (dict_get (li_namespaces inventory) (fst entry))) (\<lambda>n.
     res_of_option (key_error (snd entry)) (dict_get (ni_interfaces n) (snd entry)))"

definition sort_entries :: "topology_plan \<Rightarrow> (string \<times> string) list \<Rightarrow> (string \<times> string) list" where
  "sort_entries plan entries =
     sort_key (\<lambda>e. node_position plan (namespace_owner plan (fst e))) (sort_key (entry_label plan) entries)"

definition actual_only_link_view ::
  "node_plan \<Rightarrow> topology_plan \<Rightarrow> live_inventory \<Rightarrow> string \<times> (string \<times> string) list \<Rightarrow> link_view list res" where
  "actual_only_link_view node plan inventory shared =
     (let link_id = fst shared; entries = sort_entries plan (snd shared); labels = map (entry_label plan) entries in
      if is_planned_group plan (snd shared) then Inr []
      else if nd_name node \<notin> set (map (fst \<circ> partition_colon) labels) then Inr []
      else res_bind (res_map (observed_entry inventory) entries) (\<lambda>observed.
        let kinds = map (Some \<circ> iv_kind) observed; mtus = map (Some \<circ> iv_mtu) observed in
        Inr [\<lparr>lw_index = None, lw_kind = uniform kinds, lw_mtu = uniform mtus, lw_endpoints = labels,
          lw_endpoint_kinds = kinds, lw_endpoint_mtus = mtus, lw_present = (length labels = 2),
          lw_link_ids = map (\<lambda>_. PStr link_id) labels\<rparr>]))"

definition actual_only_link_views ::
  "node_plan \<Rightarrow> topology_plan \<Rightarrow> live_inventory \<Rightarrow> link_groups \<Rightarrow> link_view list res" where
  "actual_only_link_views node plan inventory groups =
     res_bind (res_map (actual_only_link_view node plan inventory) (sort_key fst groups)) (\<lambda>views. Inr (concat views))"

definition actual_interfaces :: "node_plan \<Rightarrow> interface_view list \<Rightarrow> (string, interface_inventory) dict \<Rightarrow> interface_view list" where
  "actual_interfaces node desired interfaces =
     (let expected_names = map iw_name desired @ runtime_managed_interface_names node in
      map make_interface_view (List.map_filter (\<lambda>v. dict_get interfaces (iw_name v)) desired) @
      map (make_interface_view \<circ> snd) (sort_key fst (filter (\<lambda>(name, i). name \<notin> set expected_names) interfaces)))"

definition actual_node_view ::
  "node_plan \<Rightarrow> topology_plan \<Rightarrow> live_inventory \<Rightarrow> link_groups \<Rightarrow> node_resource_view res" where
  "actual_node_view node plan inventory groups =
     (let observed = dict_get (li_namespaces inventory) (nd_namespace node) in
      res_bind (desired_interfaces node plan) (\<lambda>desired.
      res_bind (case observed of None \<Rightarrow> Inr [] | Some n \<Rightarrow> expected_routes node) (\<lambda>routes.
      res_bind (actual_only_link_views node plan inventory groups) (\<lambda>unplanned.
      Inr \<lparr>
        nw_name = map_option ni_node observed,
        nw_kind = map_option ni_kind observed,
        nw_namespace = map_option ni_namespace observed,
        nw_present = (case observed of None \<Rightarrow> False | Some n \<Rightarrow> ni_exists n),
        nw_interfaces = (case observed of None \<Rightarrow> [] | Some n \<Rightarrow> actual_interfaces node desired (ni_interfaces n)),
        nw_routes = (case observed of None \<Rightarrow> [] | Some n \<Rightarrow> map make_route_view (ordered_actual_routes routes (ni_routes n))),
        nw_rules = (case observed of None \<Rightarrow> [] | Some n \<Rightarrow> map make_rule_view (ordered_actual_rules (nd_rules node) (ni_rules n))),
        nw_neighbors = (case observed of None \<Rightarrow> [] | Some n \<Rightarrow>
          map make_neighbor_view (ordered_actual_neighbors (nd_neighbors node) (ni_neighbors n))),
        nw_sysctls = map (\<lambda>name. \<lparr>sw_name = name, sw_value = (case observed of None \<Rightarrow> None | Some n \<Rightarrow> dict_get (ni_sysctls n) name)\<rparr>)
          (sort (dict_keys (nd_sysctls node))),
        nw_links = map (\<lambda>link. actual_link_view inventory link groups) (planned_links_for_node plan (nd_name node)) @ unplanned,
        nw_root_temporaries = map (\<lambda>name. make_temporary_view name (dict_get (li_root_interfaces inventory) name))
          (node_temporaries plan (nd_name node))\<rparr>))))"

section \<open>Differences of a node\<close>

definition strings_tuple :: "string list \<Rightarrow> pyobj" where
  "strings_tuple ss = PTuple (map PStr ss)"

definition node_difference :: "string \<Rightarrow> string \<Rightarrow> pyobj \<Rightarrow> pyobj \<Rightarrow> difference" where
  "node_difference node property desired actual = \<lparr>df_scope = ''node'', df_source = ''live'', df_property = property,
     df_desired = desired, df_actual = actual, df_node = Some node, df_interface = None\<rparr>"

definition interface_difference :: "string \<Rightarrow> string \<Rightarrow> string \<Rightarrow> pyobj \<Rightarrow> pyobj \<Rightarrow> difference" where
  "interface_difference node interface property desired actual = \<lparr>df_scope = ''interface'', df_source = ''live'',
     df_property = property, df_desired = desired, df_actual = actual, df_node = Some node, df_interface = Some interface\<rparr>"

definition deployment_difference :: "string \<Rightarrow> string \<Rightarrow> pyobj \<Rightarrow> pyobj \<Rightarrow> difference" where
  "deployment_difference source property desired actual = \<lparr>df_scope = ''deployment'', df_source = source,
     df_property = property, df_desired = desired, df_actual = actual, df_node = None, df_interface = None\<rparr>"

definition link_difference :: "string \<Rightarrow> link_plan \<Rightarrow> string \<Rightarrow> pyobj \<Rightarrow> pyobj \<Rightarrow> difference" where
  "link_difference source link property desired actual = \<lparr>df_scope = ''link'', df_source = source,
     df_property = property, df_desired = desired, df_actual = actual, df_node = Some (ep_node (lk_left link)),
     df_interface = Some (ep_interface (lk_left link))\<rparr>"

text \<open>
  What \<open>_compare_interface\<close> compares: the property, the desired and the observed value. Linux reports no
  underlay of a Geneve device, so its link is compared only where there is one.
\<close>

definition compared_fields :: "interface_view \<Rightarrow> interface_inventory \<Rightarrow> (string \<times> pyobj \<times> pyobj) list" where
  "compared_fields desired actual =
     [(''name'', PStr (iw_name desired), PStr (iv_name actual)),
      (''kind'', PStr (iw_kind desired), PStr (iv_kind actual)),
      (''master'', pstr_opt (iw_master desired), pstr_opt (iv_master actual))] @
     (if iw_mtu desired \<noteq> None then [(''mtu'', pint_opt (iw_mtu desired), pint_opt (Some (iv_mtu actual)))] else []) @
     [(''up'', PBool (iw_up desired), PBool (iv_up actual)),
      (''addresses'', strings_tuple (iw_addresses desired), strings_tuple (address_strings (iv_addresses actual)))] @
     (if iw_mac desired \<noteq> None then [(''mac'', pstr_opt (iw_mac desired), pstr_opt (iv_mac actual))] else []) @
     [(''stp'', pbool_opt (iw_stp desired), pbool_opt (iv_stp actual)),
      (''vlan_filtering'', pbool_opt (iw_vlan_filtering desired), pbool_opt (iv_vlan_filtering actual))] @
     (if iw_bridge_priority desired \<noteq> None then [(''bridge_priority'', pint_opt (iw_bridge_priority desired), pint_opt (iv_bridge_priority actual))] else []) @
     (if iw_path_cost desired \<noteq> None then [(''path_cost'', pint_opt (iw_path_cost desired), pint_opt (iv_path_cost actual))] else []) @
     (if iw_port_priority desired \<noteq> None then [(''port_priority'', pint_opt (iw_port_priority desired), pint_opt (iv_port_priority actual))] else []) @
     (if iw_hairpin desired \<noteq> None then [(''hairpin'', pbool_opt (iw_hairpin desired), pbool_opt (iv_hairpin actual))] else []) @
     (if iw_isolated desired \<noteq> None then [(''isolated'', pbool_opt (iw_isolated desired), pbool_opt (iv_isolated actual))] else []) @
     (if iw_learning desired \<noteq> None then [(''learning'', pbool_opt (iw_learning desired), pbool_opt (iv_learning actual))] else []) @
     (if iw_flood desired \<noteq> None then [(''flood'', pbool_opt (iw_flood desired), pbool_opt (iv_flood actual))] else []) @
     (if iw_multicast_flood desired \<noteq> None then [(''multicast_flood'', pbool_opt (iw_multicast_flood desired), pbool_opt (iv_multicast_flood actual))] else []) @
     [(''bridge_vlans'', strings_tuple (iw_bridge_vlans desired), strings_tuple (bridge_vlan_strings (iv_bridge_vlans actual))),
      (''netem'', pstr_opt (iw_netem desired), pstr_opt (netem_string (iv_netem actual))),
      (''qdisc'', pstr_opt (iw_qdisc desired), pstr_opt (qdisc_string (iv_qdisc actual))),
      (''parent'', pstr_opt (iw_parent desired), pstr_opt (iv_parent actual)),
      (''vlan_id'', pint_opt (iw_vlan_id desired), pint_opt (iv_vlan_id actual)),
      (''vrf_table'', pint_opt (iw_vrf_table desired), pint_opt (iv_vrf_table actual)),
      (''bond_mode'', pstr_opt (iw_bond_mode desired), pstr_opt (iv_bond_mode actual)),
      (''bond_miimon_ms'', pint_opt (iw_bond_miimon_ms desired), pint_opt (iv_bond_miimon_ms actual)),
      (''bond_primary'', pstr_opt (iw_bond_primary desired), pstr_opt (iv_bond_primary actual)),
      (''bond_lacp_rate'', pstr_opt (iw_bond_lacp_rate desired), pstr_opt (iv_bond_lacp_rate actual)),
      (''bond_xmit_hash_policy'', pstr_opt (iw_bond_xmit_hash_policy desired), pstr_opt (iv_bond_xmit_hash_policy actual)),
      (''bond_min_links'', pint_opt (iw_bond_min_links desired), pint_opt (iv_bond_min_links actual)),
      (''vxlan_vni'', pint_opt (iw_vxlan_vni desired), pint_opt (iv_vxlan_vni actual)),
      (''vxlan_link'', pstr_opt (iw_vxlan_link desired), pstr_opt (iv_vxlan_link actual)),
      (''vxlan_local'', pstr_opt (iw_vxlan_local desired), pstr_opt (map_option show_ip (iv_vxlan_local actual))),
      (''vxlan_remote'', pstr_opt (iw_vxlan_remote desired), pstr_opt (map_option show_ip (iv_vxlan_remote actual))),
      (''vxlan_dst_port'', pint_opt (iw_vxlan_dst_port desired), pint_opt (iv_vxlan_dst_port actual)),
      (''vxlan_learning'', pbool_opt (iw_vxlan_learning desired), pbool_opt (iv_vxlan_learning actual)),
      (''geneve_vni'', pint_opt (iw_geneve_vni desired), pint_opt (iv_geneve_vni actual))] @
     (if iv_geneve_link actual \<noteq> None then [(''geneve_link'', pstr_opt (iw_geneve_link desired), pstr_opt (iv_geneve_link actual))] else []) @
     [(''geneve_remote'', pstr_opt (iw_geneve_remote desired), pstr_opt (map_option show_ip (iv_geneve_remote actual))),
      (''geneve_dst_port'', pint_opt (iw_geneve_dst_port desired), pint_opt (iv_geneve_dst_port actual)),
      (''gre_link'', pstr_opt (iw_gre_link desired), pstr_opt (iv_gre_link actual)),
      (''gre_local'', pstr_opt (iw_gre_local desired), pstr_opt (map_option show_ip (iv_gre_local actual))),
      (''gre_remote'', pstr_opt (iw_gre_remote desired), pstr_opt (map_option show_ip (iv_gre_remote actual))),
      (''gre_key'', pint_opt (iw_gre_key desired), pint_opt (iv_gre_key actual)),
      (''gre_ttl'', pint_opt (iw_gre_ttl desired), pint_opt (iv_gre_ttl actual)),
      (''ipip_link'', pstr_opt (iw_ipip_link desired), pstr_opt (iv_ipip_link actual)),
      (''ipip_local'', pstr_opt (iw_ipip_local desired), pstr_opt (map_option show_ip (iv_ipip_local actual))),
      (''ipip_remote'', pstr_opt (iw_ipip_remote desired), pstr_opt (map_option show_ip (iv_ipip_remote actual))),
      (''ipip_ttl'', pint_opt (iw_ipip_ttl desired), pint_opt (iv_ipip_ttl actual)),
      (''macvlan_mode'', pstr_opt (iw_macvlan_mode desired), pstr_opt (iv_macvlan_mode actual)),
      (''ipvlan_mode'', pstr_opt (iw_ipvlan_mode desired), pstr_opt (iv_ipvlan_mode actual))]"

definition compare_interface :: "node_plan \<Rightarrow> interface_view \<Rightarrow> interface_inventory \<Rightarrow> difference list" where
  "compare_interface node desired actual =
     map (\<lambda>(property, expected, observed). interface_difference (nd_name node) (iw_name desired) property expected observed)
       (filter (\<lambda>(property, expected, observed). expected \<noteq> observed) (compared_fields desired actual))"

definition missing_node :: "node_plan \<Rightarrow> difference" where
  "missing_node node = node_difference (nd_name node) ''exists'' (PBool True) (PBool False)"

definition identity_differences :: "node_plan \<Rightarrow> namespace_inventory \<Rightarrow> difference list" where
  "identity_differences node observed =
     map (\<lambda>(property, desired, actual). node_difference (nd_name node) property (PStr desired) (PStr actual))
       (filter (\<lambda>(property, desired, actual). desired \<noteq> actual)
         [(''name'', nd_name node, ni_node observed),
          (''kind'', kind_text (nd_kind node), kind_text (ni_kind observed)),
          (''namespace'', nd_namespace node, ni_namespace observed)])"

definition interface_differences :: "node_plan \<Rightarrow> (string, interface_view) dict \<Rightarrow> (string, interface_inventory) dict \<Rightarrow> difference list" where
  "interface_differences node desired observed =
     map (\<lambda>name. interface_difference (nd_name node) name ''present'' (PBool True) (PBool False))
       (sort (filter (\<lambda>name. name \<notin> set (dict_keys observed)) (dict_keys desired))) @
     map (\<lambda>name. interface_difference (nd_name node) name ''present'' (PBool False) (PBool True))
       (sort (filter (\<lambda>name. name \<notin> set (dict_keys desired) \<and> name \<notin> set (runtime_managed_interface_names node))
         (dict_keys observed))) @
     concat (map (\<lambda>(name, v). case dict_get observed name of None \<Rightarrow> [] | Some i \<Rightarrow> compare_interface node v i) desired)"

definition route_differences :: "node_plan \<Rightarrow> route_plan list \<Rightarrow> route_plan list \<Rightarrow> difference list" where
  "route_differences node desired observed =
     (if (if nd_routing node \<noteq> None then set desired \<subseteq> set observed else set desired = set observed) then []
      else [node_difference (nd_name node) ''routes'' (strings_tuple (route_strings desired)) (strings_tuple (route_strings observed))])"

definition rule_differences :: "node_plan \<Rightarrow> policy_rule_plan list \<Rightarrow> difference list" where
  "rule_differences node observed = (if set (nd_rules node) = set observed then []
     else [node_difference (nd_name node) ''rules'' (strings_tuple (rule_strings (nd_rules node))) (strings_tuple (rule_strings observed))])"

definition neighbor_differences :: "node_plan \<Rightarrow> neighbor_plan list \<Rightarrow> difference list" where
  "neighbor_differences node observed = (if neighbors_match (nd_neighbors node) observed then []
     else [node_difference (nd_name node) ''neighbors'' (strings_tuple (neighbor_strings (nd_neighbors node)))
       (strings_tuple (neighbor_strings observed))])"

definition sysctl_differences :: "node_plan \<Rightarrow> (string, int) dict \<Rightarrow> difference list" where
  "sysctl_differences node observed =
     map (\<lambda>(name, v). node_difference (nd_name node) (''sysctl.'' @ name) (PInt v) (pint_opt (dict_get observed name)))
       (filter (\<lambda>(name, v). dict_get observed name \<noteq> Some v) (nd_sysctls node))"

definition node_differences :: "topology_plan \<Rightarrow> live_inventory \<Rightarrow> node_plan \<Rightarrow> difference list res" where
  "node_differences plan inventory node = (case dict_get (li_namespaces inventory) (nd_namespace node) of
      None \<Rightarrow> Inr [missing_node node]
    | Some observed \<Rightarrow>
        if \<not> ni_exists observed then Inr (identity_differences node observed @ [missing_node node])
        else res_bind (desired_interfaces node plan) (\<lambda>views.
          res_bind (expected_routes node) (\<lambda>routes.
          Inr (identity_differences node observed @
            interface_differences node (dict_of (map (\<lambda>v. (iw_name v, v)) views)) (ni_interfaces observed) @
            route_differences node routes (ni_routes observed) @
            rule_differences node (ni_rules observed) @
            neighbor_differences node (ni_neighbors observed) @
            sysctl_differences node (ni_sysctls observed)))))"

section \<open>Differences of the deployment\<close>

definition namespace_differences :: "topology_plan \<Rightarrow> live_inventory \<Rightarrow> difference list" where
  "namespace_differences plan inventory =
     (let expected = map nd_namespace (plan_nodes plan); observed = dict_keys (li_namespaces inventory) in
      if set observed = set expected then []
      else [deployment_difference ''live'' ''inventory.namespaces'' (strings_tuple (sort (dedup expected))) (strings_tuple (sort observed))])"

definition link_signature :: "live_inventory \<Rightarrow> link_plan \<Rightarrow> string list" where
  "link_signature inventory link = map (\<lambda>e. endpoint_label e @ ''#'' @
     (case end_link_id (observed_endpoint inventory (ep_namespace e) (ep_interface e)) of
        None \<Rightarrow> ''<missing>'' | Some link_id \<Rightarrow> if link_id = [] then ''<missing>'' else link_id)) (link_endpoints link)"

definition link_ends_of :: "link_plan \<Rightarrow> string list" where
  "link_ends_of link = map ep_node (link_endpoints link)"

definition temporary_owners :: "topology_plan \<Rightarrow> (string, string) dict" where
  "temporary_owners plan = dict_of (map (\<lambda>e. (ep_temporary_name e, ep_node e)) (concat (map link_endpoints (tpl_links plan))))"

definition temporary_differences :: "topology_plan \<Rightarrow> live_inventory \<Rightarrow> difference list" where
  "temporary_differences plan inventory =
     map (\<lambda>name. \<lparr>df_scope = ''interface'', df_source = ''live'', df_property = ''root_temporary.present'',
       df_desired = PBool False, df_actual = PBool True, df_node = dict_get (temporary_owners plan) name, df_interface = Some name\<rparr>)
     (sort (dict_keys (li_root_interfaces inventory)))"

text \<open>Every difference of a node impacts the node, and a missing link the nodes of its ends.\<close>

definition live_differences ::
  "topology_plan \<Rightarrow> live_inventory \<Rightarrow> link_groups \<Rightarrow> (difference list \<times> string list) res" where
  "live_differences plan inventory groups =
     res_bind (res_map (\<lambda>node. res_bind (node_differences plan inventory node) (\<lambda>ds. Inr (nd_name node, ds))) (plan_nodes plan)) (\<lambda>nodes.
     let missing_links = filter (\<lambda>link. \<not> lw_present (actual_link_view inventory link groups)) (tpl_links plan);
         temporaries = temporary_differences plan inventory in
     Inr (namespace_differences plan inventory @ concat (map snd nodes) @
         map (\<lambda>link. link_difference ''live'' link ''link'' (strings_tuple (endpoint_labels link))
           (strings_tuple (link_signature inventory link))) missing_links @ temporaries,
       map fst (filter (\<lambda>(name, ds). ds \<noteq> []) nodes) @ concat (map link_ends_of missing_links) @
         List.map_filter df_node temporaries))"

definition collapse_ids :: "pyobj list \<Rightarrow> pyobj" where
  "collapse_ids ids = (if hd ids = last ids then hd ids else PTuple ids)"

definition observed_link_ids :: "live_inventory \<Rightarrow> link_plan \<Rightarrow> pyobj list" where
  "observed_link_ids inventory link = map (pstr_opt \<circ> end_link_id) (observed_ends inventory link)"

definition link_state_difference :: "state_snapshot \<Rightarrow> live_inventory \<Rightarrow> link_plan \<Rightarrow> (difference list \<times> string list) res" where
  "link_state_difference s inventory link =
     res_bind (recorded_link_ids s link) (\<lambda>recorded.
     let observed = observed_link_ids inventory link in
     if PNone \<in> set recorded then
       Inr ([link_difference ''state'' link ''link_id''
         (if collapse_ids observed = PNone then PStr ''<non-empty>'' else collapse_ids observed) (collapse_ids recorded)], link_ends_of link)
     else if recorded \<noteq> observed then
       Inr ([link_difference ''live'' link ''link_id'' (collapse_ids recorded) (collapse_ids observed)], link_ends_of link)
     else Inr ([], []))"

definition state_differences ::
  "topology_plan \<Rightarrow> snapshot_validation option \<Rightarrow> live_inventory \<Rightarrow> bool \<Rightarrow> (difference list \<times> string list) res" where
  "state_differences plan validated inventory live_absent = (case validated of
      None \<Rightarrow> Inr (if live_absent then [] else [deployment_difference ''state'' ''snapshot.present'' (PBool True) (PBool False)], [])
    | Some v \<Rightarrow>
        if ss_status (sv_snapshot v) \<noteq> ''deployed''
        then Inr ([deployment_difference ''state'' ''snapshot.status'' (PStr ''deployed'') (PStr (ss_status (sv_snapshot v)))], [])
        else res_bind (res_map (link_state_difference (sv_snapshot v) inventory) (tpl_links plan)) (\<lambda>parts.
          Inr (concat (map fst parts), concat (map snd parts))))"

section \<open>The report\<close>

definition inspected_absent :: "topology_plan \<Rightarrow> live_inventory \<Rightarrow> bool" where
  "inspected_absent plan inventory \<longleftrightarrow>
     li_root_interfaces inventory = [] \<and>
     set (dict_keys (li_namespaces inventory)) = set (map nd_namespace (plan_nodes plan)) \<and>
     list_all (\<lambda>node. case dict_get (li_namespaces inventory) (nd_namespace node) of
        None \<Rightarrow> False
      | Some observed \<Rightarrow> ni_node observed = nd_name node \<and> ni_kind observed = nd_kind node \<and>
          ni_namespace observed = nd_namespace node \<and> \<not> ni_exists observed \<and> ni_interfaces observed = [] \<and>
          ni_routes observed = [] \<and> ni_rules observed = [] \<and> ni_neighbors observed = [] \<and> ni_sysctls observed = [])
       (plan_nodes plan)"

definition inspected_snapshot :: "ext \<Rightarrow> state_snapshot \<Rightarrow> topology_plan \<Rightarrow> snapshot_validation res" where
  "inspected_snapshot x s plan =
     res_bind (validate_snapshot x s) (\<lambda>validated.
     if \<not> plan_eq (sv_plan validated) plan
     then Inl (NslabError ''PLAN_STATE_MISMATCH''
       (''selected topology does not match stored deployment state: '' @ tpl_name plan)
       [(''name'', PStr (tpl_name plan)), (''plan_fingerprint'', PStr (tpl_fingerprint plan)),
        (''snapshot_fingerprint'', PStr (ss_fingerprint s))])
     else Inr validated)"

definition difference_key :: "difference \<Rightarrow> string list" where
  "difference_key d = [(case df_node d of None \<Rightarrow> [] | Some n \<Rightarrow> n), (case df_interface d of None \<Rightarrow> [] | Some i \<Rightarrow> i),
     df_property d, df_source d, df_scope d]"

definition report_status :: "snapshot_validation option \<Rightarrow> topology_plan \<Rightarrow> live_inventory \<Rightarrow> bool \<Rightarrow> string" where
  "report_status validated plan inventory live_matches =
     (let recorded_matches = (case validated of None \<Rightarrow> False | Some v \<Rightarrow> sv_link_ids_complete v \<and>
            recorded_link_ids_match_inventory plan inventory (ss_interfaces (sv_snapshot v)));
          recorded_deployed = (case validated of None \<Rightarrow> False | Some v \<Rightarrow> ss_status (sv_snapshot v) = ''deployed'') in
      if inspected_absent plan inventory then (if validated = None then ''absent'' else ''stale'')
      else if recorded_deployed \<and> live_matches \<and> recorded_matches then ''deployed''
      else ''degraded'')"

definition node_report_of ::
  "topology_plan \<Rightarrow> live_inventory \<Rightarrow> link_groups \<Rightarrow> snapshot_validation option \<Rightarrow> string list \<Rightarrow> node_plan \<Rightarrow> node_report res" where
  "node_report_of plan inventory groups validated impacted node =
     res_bind (actual_node_view node plan inventory groups) (\<lambda>actual.
     res_bind (desired_node_view node plan) (\<lambda>desired.
     res_bind (case validated of None \<Rightarrow> Inr None | Some v \<Rightarrow>
       res_bind (state_node_view node plan (sv_snapshot v)) (\<lambda>state. Inr (Some state))) (\<lambda>state.
     Inr \<lparr>nr_name = nd_name node, nr_kind = nd_kind node, nr_namespace = nd_namespace node,
       nr_status = (if \<not> nw_present actual then ''absent'' else if nd_name node \<in> set impacted then ''degraded'' else ''matching''),
       nr_desired = desired, nr_state = state, nr_actual = actual\<rparr>)))"

text \<open>The differences of the report, with one that says so when none was found.\<close>

definition reported_differences :: "string \<Rightarrow> difference list \<Rightarrow> difference list" where
  "reported_differences status found =
     (let differences = (if status = ''absent'' then [] else found) in
      sort_key difference_key (if status \<in> {''degraded'', ''stale''} \<and> differences = []
        then [deployment_difference ''live'' ''inventory.match'' (PBool True) (PBool False)] else differences))"

definition inspect_topology ::
  "ext \<Rightarrow> topology_plan \<Rightarrow> state_snapshot option \<Rightarrow> live_inventory \<Rightarrow> inspection_report res" where
  "inspect_topology x plan snapshot inventory =
     res_bind (case snapshot of None \<Rightarrow> Inr None | Some s \<Rightarrow>
       res_bind (inspected_snapshot x s plan) (\<lambda>v. Inr (Some v))) (\<lambda>validated.
     res_bind (inventory_matches_plan x plan inventory) (\<lambda>live_matches.
     let live_absent = inspected_absent plan inventory;
         status = report_status validated plan inventory live_matches;
         groups = observed_link_groups inventory in
     res_bind (live_differences plan inventory groups) (\<lambda>(live, live_impacted).
     res_bind (state_differences plan validated inventory live_absent) (\<lambda>(recorded, state_impacted).
     res_bind (res_map (node_report_of plan inventory groups validated (live_impacted @ state_impacted)) (plan_nodes plan)) (\<lambda>nodes.
     Inr \<lparr>ir_status = status, ir_nodes = nodes, ir_differences = reported_differences status (live @ recorded)\<rparr>)))))"

end
