(* ===== verification/Inspector_Facts.thy ===== *)
theory Inspector_Facts
  imports Inspector
begin

text \<open>
  \<open>inspect_topology\<close> and the drift detection of \<open>backend/base.py\<close> compare the same things in two ways: the one
  shows what differs, the other says whether anything does. The lemmas relate the two.
\<close>

section \<open>The view of an expected interface\<close>

definition view_of :: "string \<Rightarrow> expected_interface \<Rightarrow> interface_view" where
  "view_of name e = (new_view name (ex_kind e) (ex_master e) (ex_mtu e) (ex_up e) (address_strings (ex_addresses e)))\<lparr>
     iw_mac := ex_mac e,
     iw_stp := ex_stp e,
     iw_vlan_filtering := ex_vlan_filtering e,
     iw_bridge_priority := ex_bridge_priority e,
     iw_path_cost := ex_path_cost e,
     iw_port_priority := ex_port_priority e,
     iw_hairpin := ex_hairpin e,
     iw_isolated := ex_isolated e,
     iw_learning := ex_learning e,
     iw_flood := ex_flood e,
     iw_multicast_flood := ex_multicast_flood e,
     iw_bridge_vlans := bridge_vlan_strings (ex_bridge_vlans e),
     iw_netem := netem_string (ex_netem e),
     iw_qdisc := qdisc_string (ex_qdisc e),
     iw_parent := ex_parent e,
     iw_vlan_id := ex_vlan_id e,
     iw_vrf_table := ex_vrf_table e,
     iw_bond_mode := ex_bond_mode e,
     iw_bond_miimon_ms := ex_bond_miimon_ms e,
     iw_bond_primary := ex_bond_primary e,
     iw_bond_lacp_rate := ex_bond_lacp_rate e,
     iw_bond_xmit_hash_policy := ex_bond_xmit_hash_policy e,
     iw_bond_min_links := ex_bond_min_links e,
     iw_vxlan_vni := ex_vxlan_vni e,
     iw_vxlan_link := ex_vxlan_link e,
     iw_vxlan_local := map_option show_ip (ex_vxlan_local e),
     iw_vxlan_remote := map_option show_ip (ex_vxlan_remote e),
     iw_vxlan_dst_port := ex_vxlan_dst_port e,
     iw_vxlan_learning := ex_vxlan_learning e,
     iw_geneve_vni := ex_geneve_vni e,
     iw_geneve_link := ex_geneve_link e,
     iw_geneve_remote := map_option show_ip (ex_geneve_remote e),
     iw_geneve_dst_port := ex_geneve_dst_port e,
     iw_gre_link := ex_gre_link e,
     iw_gre_local := map_option show_ip (ex_gre_local e),
     iw_gre_remote := map_option show_ip (ex_gre_remote e),
     iw_gre_key := ex_gre_key e,
     iw_gre_ttl := ex_gre_ttl e,
     iw_ipip_link := ex_ipip_link e,
     iw_ipip_local := map_option show_ip (ex_ipip_local e),
     iw_ipip_remote := map_option show_ip (ex_ipip_remote e),
     iw_ipip_ttl := ex_ipip_ttl e,
     iw_macvlan_mode := ex_macvlan_mode e,
     iw_ipvlan_mode := ex_ipvlan_mode e\<rparr>"

lemma view_of_name [simp]: "iw_name (view_of name e) = name"
  by (simp add: view_of_def new_view_def)

lemma empty_strings [simp]: "address_strings [] = []" "bridge_vlan_strings [] = []" "netem_string None = None"
  "qdisc_string None = None"
  by (simp_all add: address_strings_def bridge_vlan_strings_def netem_string_def qdisc_string_def dedup_def)

lemma address_strings_loopback: "address_strings [loopback_interface] = [''127.0.0.1/8'']"
  by code_simp

lemmas view_defs = view_of_def new_view_def new_expected_def expect_port_def view_port_def

lemma desired_loopback_view: "desired_loopback = view_of ''lo'' expected_loopback"
  by (simp add: desired_loopback_def expected_loopback_def view_defs address_strings_loopback)

lemma desired_bridge_view: "desired_bridge node b = view_of b (expected_bridge node b)"
  by (simp add: desired_bridge_def expected_bridge_def view_defs)

lemma desired_veth_view: "desired_veth node link i = view_of i (expected_veth node link i)"
  by (simp add: desired_veth_def expected_veth_def view_defs)

lemma desired_device_view:
  "desired_device node plan d = res_bind (expected_device node plan d) (\<lambda>e. Inr (view_of (device_name d) e))"
  by (cases d) (simp_all add: view_defs res_bind_def split: sum.split)

lemma view_of_mac: "(view_of name e)\<lparr>iw_mac := m\<rparr> = view_of name (e\<lparr>ex_mac := m\<rparr>)"
  by (simp add: view_defs)

text \<open>The interfaces of a node before those of the same name are merged.\<close>

definition planned_interfaces :: "node_plan \<Rightarrow> topology_plan \<Rightarrow> (string \<times> expected_interface) list res" where
  "planned_interfaces node plan =
     res_bind (case nd_kind node of LinuxKind \<Rightarrow> Inr [] | BridgeKind \<Rightarrow> (case nd_bridge_name node of
         None \<Rightarrow> Inl assertion_error | Some b \<Rightarrow> Inr [(b, expected_bridge node b)])) (\<lambda>bridges.
     res_bind (res_map (\<lambda>d. res_bind (expected_device node plan d) (\<lambda>e. Inr (device_name d, e))) (dict_values (nd_devices node)))
       (\<lambda>devices. Inr ([(''lo'', expected_loopback)] @ bridges @
         map (\<lambda>(link, e). (ep_interface e, expected_veth node link (ep_interface e))) (namespace_endpoints plan (nd_namespace node)) @
         devices)))"

definition with_mac :: "node_plan \<Rightarrow> string \<Rightarrow> expected_interface \<Rightarrow> expected_interface" where
  "with_mac node name e = e\<lparr>ex_mac := dict_get (nd_mac_addresses node) name\<rparr>"

lemma res_map_compose: "res_map (\<lambda>x. res_bind (f x) (\<lambda>y. Inr (g y))) xs = res_bind (res_map f xs) (\<lambda>ys. Inr (map g ys))"
  by (induction xs) (auto simp: res_bind_def split: sum.split)

lemma desired_planned:
  "desired_interfaces node plan = res_bind (planned_interfaces node plan) (\<lambda>items.
     Inr (map (\<lambda>(name, e). view_of name (with_mac node name e)) items))"
proof -
  have devices: "res_map (desired_device node plan) ds = res_bind (res_map (\<lambda>d. res_bind (expected_device node plan d)
      (\<lambda>e. Inr (device_name d, e))) ds) (\<lambda>items. Inr (map (\<lambda>(name, e). view_of name e) items))" for ds
    unfolding res_map_compose [symmetric]
    by (intro arg_cong [where f = "\<lambda>f. res_map f ds"]) (simp add: fun_eq_iff desired_device_view res_bind_def split: sum.split)
  show ?thesis
    unfolding desired_interfaces_def planned_interfaces_def devices
    by (auto simp: desired_bridges_def res_bind_def view_of_mac with_mac_def desired_loopback_view desired_bridge_view
      desired_veth_view case_prod_unfold split: sum.split node_kind.split option.split)
qed

lemma dict_update_fold: "fold (\<lambda>x. dict_set (k x) (v x)) xs d = dict_update (map (\<lambda>x. (k x, v x)) xs) d"
  by (induction xs arbitrary: d) (simp_all add: dict_update_def)

lemma dict_update_Cons: "dict_update (p # ps) d = dict_update ps (dict_set (fst p) (snd p) d)"
  by (simp add: dict_update_def case_prod_unfold)

lemma dict_update_Nil [simp]: "dict_update [] d = d"
  by (simp add: dict_update_def)

lemma dict_update_append: "dict_update (xs @ ys) d = dict_update ys (dict_update xs d)"
  by (simp add: dict_update_def)

lemma res_fold_update:
  "res_fold (\<lambda>x d. res_bind (f x) (\<lambda>v. Inr (dict_set (k x) v d))) xs d =
   res_bind (res_map (\<lambda>x. res_bind (f x) (\<lambda>v. Inr (k x, v))) xs) (\<lambda>ps. Inr (dict_update ps d))"
  by (induction xs arbitrary: d) (auto simp: dict_update_def res_bind_def split: sum.split)

lemma expected_planned:
  "expected_interfaces node plan = res_bind (planned_interfaces node plan) (\<lambda>items.
     Inr (map (\<lambda>(name, e). (name, with_mac node name e)) (dict_of items)))"
proof -
  have "res_bind (res_bind r f) g = res_bind r (\<lambda>x. res_bind (f x) g)" for r f and g :: "'b \<Rightarrow> 'c res"
    by (simp add: res_bind_def split: sum.split)
  note assoc = this
  show ?thesis
    unfolding expected_interfaces_def planned_interfaces_def Let_def res_fold_update assoc
    by (auto simp: case_prod_unfold dict_update_fold [where k = "\<lambda>x. ep_interface (snd x)"] dict_of_def dict_update_append
      with_mac_def dict_update_Cons res_bind_def split: node_kind.split option.split sum.split)
qed

lemma dict_get_update: "dict_get (dict_update ps d) k = (case map_of (rev ps) k of None \<Rightarrow> dict_get d k | Some v \<Rightarrow> Some v)"
  by (induction ps arbitrary: d) (auto simp: dict_update_def map_add_def split: option.split)

lemma dict_get_of: "dict_get (dict_of ps) = map_of (rev ps)"
  by (rule ext) (simp add: dict_of_def dict_get_update split: option.split)

lemma dict_get_image:
  "dict_get (map (\<lambda>(k, v). (k, f k v)) ps) k = map_option (f k) (dict_get ps k)"
  by (induction ps) auto

text \<open>Both ways keep the last interface of a name.\<close>

lemma desired_expected:
  assumes "desired_interfaces node plan = Inr views"
  obtains expected where "expected_interfaces node plan = Inr expected"
    "\<And>name. dict_get (dict_of (map (\<lambda>v. (iw_name v, v)) views)) name = map_option (view_of name) (dict_get expected name)"
proof -
  obtain items where items: "planned_interfaces node plan = Inr items"
      "views = map (\<lambda>(name, e). view_of name (with_mac node name e)) items"
    using assms by (auto simp: desired_planned res_bind_eq_Inr)
  let ?E = "map (\<lambda>(name, e). (name, with_mac node name e)) (dict_of items)"
  have "dict_get (dict_of (map (\<lambda>v. (iw_name v, v)) views)) name = map_option (view_of name) (dict_get ?E name)" for name
  proof -
    have "map (\<lambda>v. (iw_name v, v)) views = map (\<lambda>(name, e). (name, view_of name (with_mac node name e))) items"
      using items(2) by (simp add: case_prod_unfold)
    then show ?thesis
      by (simp only: dict_get_of rev_map dict_get_image [where f = "\<lambda>k v. view_of k (with_mac node k v)"]
        dict_get_image [where f = "\<lambda>k v. with_mac node k v"] option.map_comp) (simp add: comp_def)
  qed
  with that items(1) show thesis by (simp add: expected_planned)
qed

section \<open>Interfaces that match show no difference\<close>

text \<open>An address without scope id is determined by its key.\<close>

fun unscoped :: "ip_interface \<Rightarrow> bool" where
  "unscoped (IPInterface (IPv6Address w (Some z)) p) = False"
| "unscoped _ = True"

lemma prefixlen_of_network [simp]: "net_prefixlen (if_network a) = if_prefixlen a"
  by (cases a rule: if_network.cases) simp_all

lemma address_key_inject: "unscoped a \<Longrightarrow> unscoped b \<Longrightarrow> address_key a = address_key b \<Longrightarrow> a = b"
  by (cases a rule: unscoped.cases; cases b rule: unscoped.cases)
    (simp_all add: address_key_def if_version_def word_uint_eq_iff)

lemma sort_key_unique:
  assumes "set xs = set ys" "inj_on f (set xs)" "distinct xs" "distinct ys"
  shows "sort_key f xs = sort_key f ys"
proof (rule map_inj_on)
  show "map f (sort_key f xs) = map f (sort_key f ys)"
    by (rule sorted_distinct_set_unique) (use assms in \<open>simp_all add: distinct_map\<close>)
  show "inj_on f (set (sort_key f xs) \<union> set (sort_key f ys))" using assms by simp
qed

lemma address_strings_cong:
  assumes "set xs = set ys" "\<forall>a \<in> set xs. unscoped a"
  shows "address_strings xs = address_strings ys"
  unfolding address_strings_def
  by (intro arg_cong [where f = "map show_interface"] sort_key_unique)
    (use assms in \<open>auto simp: set_dedup distinct_dedup inj_on_def intro: address_key_inject\<close>)

fun is_tbf :: "qdisc_plan option \<Rightarrow> bool" where
  "is_tbf (Some (TbfQdisc q)) = True"
| "is_tbf _ = False"

lemma simple_matches_kind: "simple_qdisc_matches x a b \<Longrightarrow> sq_kind a = sq_kind b"
  by (auto simp: simple_qdisc_matches_def split: if_splits)

lemma qdisc_matches_string:
  assumes "qdisc_matches x a b" "\<not> is_tbf a"
  shows "qdisc_string a = qdisc_string b"
proof -
  have leaf: "htb_leaf_matches x p q \<Longrightarrow> leaf_string p = leaf_string q" for p q
    by (cases p; cases q) (simp_all add: simple_matches_kind)
  have "qdisc_plan_matches x p q \<Longrightarrow> \<not> is_tbf (Some p) \<Longrightarrow> qdisc_plan_string p = qdisc_plan_string q" for p q
    by (cases p; cases q) (auto simp: simple_matches_kind dest: leaf)
  then show ?thesis using assms by (auto simp: qdisc_matches_def qdisc_string_def split: option.splits)
qed

lemma document_opts [simp]: "pstr_opt a = pstr_opt b \<longleftrightarrow> a = b" "pint_opt i = pint_opt j \<longleftrightarrow> i = j"
  "pbool_opt p = pbool_opt q \<longleftrightarrow> p = q" "strings_tuple s = strings_tuple t \<longleftrightarrow> s = t"
  by (auto simp: pstr_opt_def pint_opt_def pbool_opt_def strings_tuple_def inj_map_eq_map inj_def split: option.splits)

definition agree :: "string \<times> pyobj \<times> pyobj \<Rightarrow> bool" where
  "agree f \<longleftrightarrow> fst (snd f) = snd (snd f)"

lemma agree_if:
  "unset_or_equal i j \<Longrightarrow> list_all agree (if i \<noteq> None then [(p, pint_opt i, pint_opt j)] else [])"
  "unset_or_equal b c \<Longrightarrow> list_all agree (if b \<noteq> None then [(p, pbool_opt b, pbool_opt c)] else [])"
  "unset_or_equal s t \<Longrightarrow> list_all agree (if s \<noteq> None then [(p, pstr_opt s, pstr_opt t)] else [])"
  by (auto simp: unset_or_equal_def agree_def)

lemma agree_if_observed: "(t \<noteq> None \<longrightarrow> t = s) \<Longrightarrow> list_all agree (if t \<noteq> None then [(p, pstr_opt s, pstr_opt t)] else [])"
  by (simp add: agree_def)

lemma compared_equal:
  assumes "interface_matches x name e i" "\<forall>a \<in> set (ex_addresses e). unscoped a" "\<not> is_tbf (ex_qdisc e)"
  shows "compare_interface node (view_of name e) i = []"
proof -
  have "address_strings (iv_addresses i) = address_strings (ex_addresses e)"
    using assms by (intro address_strings_cong) (auto simp: interface_matches_def common_fields_match_def)
  moreover have "qdisc_string (ex_qdisc e) = qdisc_string (iv_qdisc i)"
    using assms by (intro qdisc_matches_string) (auto simp: interface_matches_def common_fields_match_def)
  moreover note m = assms(1) [unfolded interface_matches_def common_fields_match_def device_fields_match_def]
  ultimately have "list_all agree (compared_fields (view_of name e) i)"
    unfolding compared_fields_def list_all_append
    by (intro conjI agree_if agree_if_observed; (simp add: view_of_def new_view_def agree_def)?)
  then have "\<forall>f \<in> set (compared_fields (view_of name e) i). agree f" by (simp add: list_all_iff)
  then show ?thesis by (auto simp: compare_interface_def filter_empty_conv agree_def)
qed


text \<open>The interfaces of a node whose texts say whether they match: no scope ids and no TBF qdiscs, which match with a tolerance.\<close>

definition compared_exactly :: "topology_plan \<Rightarrow> node_plan \<Rightarrow> bool" where
  "compared_exactly plan node \<longleftrightarrow> (case expected_interfaces node plan of
      Inl e \<Rightarrow> True
    | Inr expected \<Rightarrow> list_all (\<lambda>(name, e). list_all unscoped (ex_addresses e) \<and> \<not> is_tbf (ex_qdisc e)) expected)"

lemma dict_get_managed:
  "dict_get (managed_interfaces node d) name = (if name \<in> set (runtime_managed_interface_names node) then None else dict_get d name)"
  by (induction d) (auto simp: managed_interfaces_def)

lemma managed_keys: "set (dict_keys (managed_interfaces node d)) = set (dict_keys d) - set (runtime_managed_interface_names node)"
  by (auto simp: managed_interfaces_def image_iff)

lemma get_in_keys: "name \<in> set (dict_keys d) \<longleftrightarrow> dict_get d name \<noteq> None"
  by (simp add: map_of_eq_None_iff)

lemma interface_differences_none:
  assumes views: "desired_interfaces node plan = Inr views"
    and expected: "expected_interfaces node plan = Inr expected"
    and matches: "interfaces_match x expected (managed_interfaces node observed)"
    and exact: "compared_exactly plan node"
  shows "interface_differences node (dict_of (map (\<lambda>v. (iw_name v, v)) views)) observed = []"
proof -
  let ?D = "dict_of (map (\<lambda>v. (iw_name v, v)) views)"
  have get: "dict_get ?D name = map_option (view_of name) (dict_get expected name)" for name
    using desired_expected [OF views] expected by (metis Inr_inject)
  have keys: "set (dict_keys expected) = set (dict_keys observed) - set (runtime_managed_interface_names node)"
    using matches managed_keys [of node observed] by (simp add: interfaces_match_def)
  have same: "set (dict_keys ?D) = set (dict_keys expected)"
    by (simp only: set_eq_iff get_in_keys get) simp
  have "compare_interface node v i = []" if "(name, v) \<in> set ?D" "dict_get observed name = Some i" for name v i
  proof -
    have "dict_get ?D name = Some v"
      using that(1) by (simp add: distinct_dict_of)
    then obtain e where e: "dict_get expected name = Some e" "v = view_of name e"
      by (auto simp: get)
    then have mem: "(name, e) \<in> set expected" by (simp add: map_of_SomeD)
    have "name \<notin> set (runtime_managed_interface_names node)"
      using keys dict_get_SomeD [OF e(1)] by blast
    then have "interface_matches x name e i"
      using matches mem that(2) by (auto simp: interfaces_match_def list_all_iff dict_get_managed)
    moreover have "\<forall>a \<in> set (ex_addresses e). unscoped a" "\<not> is_tbf (ex_qdisc e)"
      using exact mem expected by (auto simp: compared_exactly_def list_all_iff)
    ultimately show ?thesis using compared_equal e(2) by blast
  qed
  then have "\<forall>p \<in> set ?D. (case dict_get observed (fst p) of None \<Rightarrow> [] | Some i \<Rightarrow> compare_interface node (snd p) i) = []"
    by (auto split: option.split)
  moreover have "filter (\<lambda>name. name \<notin> set (dict_keys observed)) (dict_keys ?D) = []"
    using same keys by (auto simp: filter_empty_conv)
  moreover have "filter (\<lambda>name. name \<notin> set (dict_keys ?D) \<and> name \<notin> set (runtime_managed_interface_names node)) (dict_keys observed) = []"
    using same keys by (auto simp: filter_empty_conv)
  ultimately show ?thesis
    by (simp add: interface_differences_def case_prod_unfold concat_eq_Nil_conv)
qed

lemma desired_of_expected:
  assumes "expected_interfaces node plan = Inr expected"
  obtains views where "desired_interfaces node plan = Inr views"
  using assms by (auto simp: expected_planned desired_planned res_bind_eq_Inr)

lemma node_matches_clean:
  assumes "node_matches x plan inventory node = Inr True" "compared_exactly plan node"
  shows "node_differences plan inventory node = Inr []"
proof -
  obtain observed expected routes where m: "dict_get (li_namespaces inventory) (nd_namespace node) = Some observed"
    "ni_exists observed" "ni_node observed = nd_name node" "ni_kind observed = nd_kind node"
    "ni_namespace observed = nd_namespace node" "expected_interfaces node plan = Inr expected"
    "interfaces_match x expected (managed_interfaces node (ni_interfaces observed))"
    "expected_routes node = Inr routes" "routes_match node routes (ni_routes observed)"
    "set (ni_rules observed) = set (nd_rules node)" "neighbors_match (nd_neighbors node) (ni_neighbors observed)"
    "declared_sysctls_match (nd_sysctls node) (ni_sysctls observed)"
    using assms(1) by (auto simp: node_matches_def res_bind_eq_Inr split: option.splits if_splits)
  obtain views where views: "desired_interfaces node plan = Inr views"
    using desired_of_expected [OF m(6)] .
  have "sysctl_differences node (ni_sysctls observed) = []"
    using m(12) by (auto simp: sysctl_differences_def declared_sysctls_match_def list_all_iff filter_empty_conv)
  moreover have "route_differences node routes (ni_routes observed) = []"
    using m(9) by (auto simp: route_differences_def routes_match_def split: if_splits)
  ultimately show ?thesis
    using m interface_differences_none [OF views m(6) m(7) assms(2)]
    by (simp add: node_differences_def views identity_differences_def rule_differences_def neighbor_differences_def res_bind_def)
qed


section \<open>Links that match are present\<close>

text \<open>The inventories the backends return have one entry per namespace and per interface.\<close>

definition proper_inventory :: "live_inventory \<Rightarrow> bool" where
  "proper_inventory inventory \<longleftrightarrow> distinct (dict_keys (li_namespaces inventory)) \<and>
     list_all (\<lambda>(namespace, n). distinct (dict_keys (ni_interfaces n))) (li_namespaces inventory)"

lemma proper_get:
  assumes "proper_inventory inventory" "(namespace, n) \<in> set (li_namespaces inventory)"
  shows "dict_get (li_namespaces inventory) namespace = Some n"
    and "(name, i) \<in> set (ni_interfaces n) \<Longrightarrow> dict_get (ni_interfaces n) name = Some i"
  using assms by (auto simp: proper_inventory_def list_all_iff)

definition members_with_id :: "link_groups \<Rightarrow> string \<Rightarrow> (string \<times> string) set" where
  "members_with_id groups link_id = (case dict_get groups link_id of None \<Rightarrow> {} | Some members \<Rightarrow> set members)"

lemma members_of_groups:
  "members_with_id (fold add_to_group entries groups) link_id = members_with_id groups link_id \<union> {e. (e, link_id) \<in> set entries}"
proof (induction entries arbitrary: groups)
  case (Cons entry entries)
  have "members_with_id (add_to_group entry groups) link_id =
      members_with_id groups link_id \<union> {e. (e, link_id) = entry}"
    by (cases entry) (auto simp: members_with_id_def add_to_group_def Let_def split: option.split)
  then show ?case using Cons by auto
qed simp

definition is_veth_entry :: "live_inventory \<Rightarrow> string \<times> string \<Rightarrow> namespace_inventory \<Rightarrow> interface_inventory \<Rightarrow> bool" where
  "is_veth_entry inventory entry n i \<longleftrightarrow> (fst entry, n) \<in> set (li_namespaces inventory) \<and>
     (snd entry, i) \<in> set (ni_interfaces n) \<and> iv_kind i = ''veth''"

lemma in_observed_group: "entry \<in> set (observed_group inventory link_id) \<longleftrightarrow>
    (\<exists>n i. is_veth_entry inventory entry n i \<and> iv_link_id i = Some link_id)"
  by (cases entry) (force simp: observed_group_def veth_entries_def is_veth_entry_def)

lemma in_linked_entries: "(entry, link_id) \<in> set (linked_entries inventory) \<longleftrightarrow>
    (\<exists>n i. is_veth_entry inventory entry n i \<and> ni_exists n \<and> iv_link_id i = Some link_id \<and> link_id \<noteq> [])"
proof
  assume "(entry, link_id) \<in> set (linked_entries inventory)"
  then show "\<exists>n i. is_veth_entry inventory entry n i \<and> ni_exists n \<and> iv_link_id i = Some link_id \<and> link_id \<noteq> []"
    unfolding linked_entries_def by (fastforce simp: is_veth_entry_def split: if_splits option.splits)
next
  assume "\<exists>n i. is_veth_entry inventory entry n i \<and> ni_exists n \<and> iv_link_id i = Some link_id \<and> link_id \<noteq> []"
  then obtain n i where "(fst entry, n) \<in> set (li_namespaces inventory)" "(snd entry, i) \<in> set (ni_interfaces n)"
      "iv_kind i = ''veth''" "ni_exists n" "iv_link_id i = Some link_id" "link_id \<noteq> []"
    by (auto simp: is_veth_entry_def)
  then show "(entry, link_id) \<in> set (linked_entries inventory)"
    unfolding linked_entries_def set_concat set_map image_image
    by (intro UN_I [where a = "(fst entry, n)"] UN_I [where a = "(snd entry, i)"])
      (simp_all, intro bexI [of _ "(snd entry, i)"], simp_all, rule exI [of _ i], simp_all,
        rule exI [of _ link_id], simp_all)
qed

lemma observed_members:
  assumes "\<forall>(namespace, n) \<in> set (li_namespaces inventory). ni_exists n" "link_id \<noteq> []"
  shows "members_with_id (observed_link_groups inventory) link_id = set (observed_group inventory link_id)"
proof -
  have "(e, link_id) \<in> set (linked_entries inventory) \<longleftrightarrow> e \<in> set (observed_group inventory link_id)" for e
    using assms by (fastforce simp: in_linked_entries in_observed_group is_veth_entry_def)
  then show ?thesis
    by (simp add: observed_link_groups_def members_of_groups) (simp add: members_with_id_def)
qed

lemma links_match_from_link:
  assumes "links_match_from inventory links seen" "link \<in> set links"
  obtains link_id where "observed_link_id inventory (lk_left link) = Some link_id"
    "observed_link_id inventory (lk_right link) = Some link_id"
    "set (observed_group inventory link_id) = set (map endpoint_key (link_endpoints link))"
  using assms by (induction links arbitrary: seen) (auto split: option.splits)

lemma observed_veth:
  assumes "proper_inventory inventory" "\<forall>(namespace, n) \<in> set (li_namespaces inventory). ni_exists n"
    and "endpoint_key e \<in> set (observed_group inventory link_id)"
  obtains i where "observed_endpoint inventory (ep_namespace e) (ep_interface e) = Some i"
    "iv_kind i = ''veth''" "iv_link_id i = Some link_id"
proof -
  obtain n i where n: "(ep_namespace e, n) \<in> set (li_namespaces inventory)" "(ep_interface e, i) \<in> set (ni_interfaces n)"
      "iv_kind i = ''veth''" "iv_link_id i = Some link_id"
    using assms(3) by (auto simp: in_observed_group is_veth_entry_def endpoint_key_def)
  then have "ni_exists n" using assms(2) by auto
  then show thesis
    using that n(3,4) proper_get [OF assms(1) n(1)] n(2) by (simp add: observed_endpoint_def)
qed

lemma matched_link_present:
  assumes proper: "proper_inventory inventory" and exist: "\<forall>(namespace, n) \<in> set (li_namespaces inventory). ni_exists n"
    and match: "links_match_from inventory links []" "link \<in> set links"
  shows "link_present inventory link (observed_link_groups inventory)"
proof -
  obtain link_id where l: "observed_link_id inventory (lk_left link) = Some link_id"
      "set (observed_group inventory link_id) = set (map endpoint_key (link_endpoints link))"
    using links_match_from_link [OF match] by metis
  then have id: "link_id \<noteq> []"
    by (auto simp: observed_link_id_def split: Option.bind_splits option.splits if_splits)
  have ends: "endpoint_key (lk_left link) \<in> set (observed_group inventory link_id)"
      "endpoint_key (lk_right link) \<in> set (observed_group inventory link_id)"
    by (simp_all add: l(2) link_endpoints_def)
  obtain i j where ij: "observed_endpoint inventory (ep_namespace (lk_left link)) (ep_interface (lk_left link)) = Some i"
      "iv_kind i = ''veth''" "iv_link_id i = Some link_id"
      "observed_endpoint inventory (ep_namespace (lk_right link)) (ep_interface (lk_right link)) = Some j"
      "iv_kind j = ''veth''" "iv_link_id j = Some link_id"
    using observed_veth [OF proper exist ends(1)] observed_veth [OF proper exist ends(2)] by metis
  have "members_with_id (observed_link_groups inventory) link_id = set (map endpoint_key (link_endpoints link))"
    using observed_members [OF exist id] l(2) by simp
  moreover have "set (map endpoint_key (link_endpoints link)) \<noteq> {}"
    by (simp add: link_endpoints_def)
  ultimately obtain members where "dict_get (observed_link_groups inventory) link_id = Some members"
      "set members = set (map endpoint_key (link_endpoints link))"
    by (auto simp: members_with_id_def split: option.splits)
  then show ?thesis
    using ij id by (simp add: link_present_def observed_ends_def link_endpoints_def is_veth_end_def end_link_id_def Let_def)
qed

section \<open>Link ids that match their record\<close>

lemma recorded_links_from_link:
  assumes "recorded_links_from inventory recorded links seen" "link \<in> set links"
  obtains link_id where "recorded_endpoint_id inventory recorded (lk_left link) = Some link_id"
    "recorded_endpoint_id inventory recorded (lk_right link) = Some link_id"
  using assms by (induction links arbitrary: seen) (auto split: option.splits)

lemma recorded_end:
  assumes "recorded_endpoint_id inventory (ss_interfaces s) e = Some link_id"
  obtains v where "recorded_ownership s (ep_node e) (ep_interface e) = Inr v" "recorded_field v ''link_id'' = PStr link_id"
    "Option.bind (observed_interface inventory e) iv_link_id = Some link_id"
  using assms by (auto simp: recorded_endpoint_id_def recorded_link_id_def recorded_ownership_def ownership_key_def
    recorded_field_def res_of_option_def Let_def split: option.splits if_splits pyobj.splits)

lemma observed_interface_endpoint:
  assumes "\<forall>(namespace, n) \<in> set (li_namespaces inventory). ni_exists n"
  shows "observed_endpoint inventory (ep_namespace e) (ep_interface e) = observed_interface inventory e"
  using assms by (auto simp: observed_endpoint_def observed_interface_def split: option.split dest: map_of_SomeD)

lemma recorded_link_clean:
  assumes exist: "\<forall>(namespace, n) \<in> set (li_namespaces inventory). ni_exists n"
    and match: "recorded_links_from inventory (ss_interfaces s) links []" "link \<in> set links"
  shows "link_state_difference s inventory link = Inr ([], [])"
proof -
  obtain link_id where l: "recorded_endpoint_id inventory (ss_interfaces s) (lk_left link) = Some link_id"
      "recorded_endpoint_id inventory (ss_interfaces s) (lk_right link) = Some link_id"
    using recorded_links_from_link [OF match] .
  obtain v w where "recorded_ownership s (ep_node (lk_left link)) (ep_interface (lk_left link)) = Inr v"
      "recorded_field v ''link_id'' = PStr link_id"
      "Option.bind (observed_interface inventory (lk_left link)) iv_link_id = Some link_id"
      "recorded_ownership s (ep_node (lk_right link)) (ep_interface (lk_right link)) = Inr w"
      "recorded_field w ''link_id'' = PStr link_id"
      "Option.bind (observed_interface inventory (lk_right link)) iv_link_id = Some link_id"
    using recorded_end [OF l(1)] recorded_end [OF l(2)] by metis
  then show ?thesis
    by (simp add: link_state_difference_def recorded_link_ids_def observed_link_ids_def observed_ends_def
      link_endpoints_def observed_interface_endpoint [OF exist] end_link_id_def res_bind_def pstr_opt_def)
qed


section \<open>A deployment that matches shows no difference\<close>

lemma matching_exists:
  assumes "node_matches x plan inventory node = Inr True"
  obtains observed where "dict_get (li_namespaces inventory) (nd_namespace node) = Some observed" "ni_exists observed"
  using assms by (auto simp: node_matches_def res_bind_eq_Inr split: option.splits if_splits)

lemma matching_plan:
  assumes "inventory_matches_plan x plan inventory = Inr True"
  shows "li_root_interfaces inventory = []"
    and "set (dict_keys (li_namespaces inventory)) = set (map nd_namespace (plan_nodes plan))"
    and "node \<in> set (plan_nodes plan) \<Longrightarrow> node_matches x plan inventory node = Inr True"
    and "links_match plan inventory"
  using assms by (auto simp: inventory_matches_plan_def res_bind_eq_Inr dest: res_all_TrueD split: if_splits)

lemma matching_namespaces_exist:
  assumes "inventory_matches_plan x plan inventory = Inr True" "proper_inventory inventory"
  shows "\<forall>(namespace, n) \<in> set (li_namespaces inventory). ni_exists n"
proof clarify
  fix namespace n assume mem: "(namespace, n) \<in> set (li_namespaces inventory)"
  then have "namespace \<in> set (dict_keys (li_namespaces inventory))" by force
  then obtain node where node: "node \<in> set (plan_nodes plan)" "namespace = nd_namespace node"
    using matching_plan(2) [OF assms(1)] by auto
  then show "ni_exists n"
    using matching_exists [OF matching_plan(3) [OF assms(1) node(1)]] proper_get(1) [OF assms(2) mem] by auto
qed

lemma live_differences_clean:
  assumes match: "inventory_matches_plan x plan inventory = Inr True" and proper: "proper_inventory inventory"
    and exact: "\<forall>node \<in> set (plan_nodes plan). compared_exactly plan node"
  shows "live_differences plan inventory (observed_link_groups inventory) = Inr ([], [])"
proof -
  have nodes: "res_map (\<lambda>node. res_bind (node_differences plan inventory node) (\<lambda>ds. Inr (nd_name node, ds))) (plan_nodes plan)
      = Inr (map (\<lambda>node. (nd_name node, [])) (plan_nodes plan))"
    by (intro res_map_all) (simp add: node_matches_clean [OF matching_plan(3) [OF match]] exact res_bind_def)
  have "link_present inventory link (observed_link_groups inventory)" if "link \<in> set (tpl_links plan)" for link
    using matched_link_present [OF proper matching_namespaces_exist [OF match proper] _ that] matching_plan(4) [OF match]
    by (simp add: links_match_def)
  then have "filter (\<lambda>link. \<not> lw_present (actual_link_view inventory link (observed_link_groups inventory))) (tpl_links plan) = []"
    by (simp add: filter_empty_conv actual_link_view_def Let_def)
  moreover have "namespace_differences plan inventory = []"
    using matching_plan(2) [OF match] by (simp add: namespace_differences_def Let_def)
  moreover have "temporary_differences plan inventory = []"
    using matching_plan(1) [OF match] by (simp add: temporary_differences_def)
  ultimately show ?thesis
    by (simp add: live_differences_def nodes comp_def)
qed

lemma state_differences_clean:
  assumes "recorded_link_ids_match_inventory plan inventory (ss_interfaces (sv_snapshot v))"
    and "ss_status (sv_snapshot v) = ''deployed''"
    and exist: "\<forall>(namespace, n) \<in> set (li_namespaces inventory). ni_exists n"
  shows "state_differences plan (Some v) inventory absent = Inr ([], [])"
proof -
  have "res_map (link_state_difference (sv_snapshot v) inventory) (tpl_links plan) = Inr (map (\<lambda>_. ([], [])) (tpl_links plan))"
    using assms(1) by (intro res_map_all recorded_link_clean [OF exist]) (auto simp: recorded_link_ids_match_inventory_def)
  then show ?thesis
    using assms(2) by (simp add: state_differences_def res_bind_def comp_def)
qed

lemma sorted_empty [simp]: "sort_key f xs = [] \<longleftrightarrow> xs = []"
  by (metis length_0_conv length_sort)

lemma reported_none: "reported_differences status found = [] \<longleftrightarrow> status = ''absent'' \<or> (found = [] \<and> status \<notin> {''degraded'', ''stale''})"
  by (auto simp: reported_differences_def Let_def)

lemma report_status_cases: "report_status v plan inventory m \<in> {''absent'', ''stale'', ''deployed'', ''degraded''}"
  by (simp add: report_status_def Let_def)

lemma deployed_status:
  assumes "report_status validated plan inventory m = ''deployed''"
  obtains v where "validated = Some v" "m" "ss_status (sv_snapshot v) = ''deployed''"
    "recorded_link_ids_match_inventory plan inventory (ss_interfaces (sv_snapshot v))"
  using assms by (auto simp: report_status_def Let_def split: if_splits option.splits)

text \<open>The parts of a report.\<close>

lemma inspected:
  assumes "inspect_topology x plan snapshot inventory = Inr report"
  obtains validated m live li recorded ri where "inventory_matches_plan x plan inventory = Inr m"
    "ir_status report = report_status validated plan inventory m"
    "live_differences plan inventory (observed_link_groups inventory) = Inr (live, li)"
    "state_differences plan validated inventory (inspected_absent plan inventory) = Inr (recorded, ri)"
    "res_map (node_report_of plan inventory (observed_link_groups inventory) validated (li @ ri)) (plan_nodes plan) = Inr (ir_nodes report)"
    "ir_differences report = reported_differences (ir_status report) (live @ recorded)"
    "validated = None \<longleftrightarrow> snapshot = None"
  using assms by (auto simp: inspect_topology_def res_bind_eq_Inr Let_def split: option.splits)


lemma node_report_fields:
  assumes "node_report_of plan inventory groups validated impacted node = Inr r"
  shows "nr_name r = nd_name node" "nr_status r = (case dict_get (li_namespaces inventory) (nd_namespace node) of
      None \<Rightarrow> ''absent''
    | Some n \<Rightarrow> if \<not> ni_exists n then ''absent'' else if nd_name node \<in> set impacted then ''degraded'' else ''matching'')"
  using assms by (auto simp: node_report_of_def res_bind_eq_Inr actual_node_view_def Let_def split: option.splits)

lemma res_map_mem: "res_map f xs = Inr ys \<Longrightarrow> y \<in> set ys \<Longrightarrow> \<exists>x \<in> set xs. f x = Inr y"
  by (induction xs arbitrary: ys) (auto simp: res_bind_eq_Inr)

lemma deployed_clean:
  assumes deployed: "report_status validated plan inventory m = ''deployed''"
    and parts: "inventory_matches_plan x plan inventory = Inr m"
      "live_differences plan inventory (observed_link_groups inventory) = Inr (live, li)"
      "state_differences plan validated inventory absent = Inr (recorded, ri)"
    and proper: "proper_inventory inventory" and exact: "\<forall>node \<in> set (plan_nodes plan). compared_exactly plan node"
  shows "m" "live @ recorded = []" "li @ ri = []"
proof -
  obtain v where v: "validated = Some v" "m" "ss_status (sv_snapshot v) = ''deployed''"
      "recorded_link_ids_match_inventory plan inventory (ss_interfaces (sv_snapshot v))"
    using deployed_status [OF deployed] by metis
  then have match: "inventory_matches_plan x plan inventory = Inr True" using parts(1) by simp
  show "m" "live @ recorded = []" "li @ ri = []"
    using parts(2,3) v live_differences_clean [OF match proper exact]
      state_differences_clean [OF v(4) v(3) matching_namespaces_exist [OF match proper]] by simp_all
qed

end
