(* ===== verification/Inspections.thy ===== *)
theory Inspections
  imports Inspector_Facts Sample_Lab
begin

text \<open>
  The properties of \<open>inspect_topology\<close>, and inspections of the sample topology: its two hosts as a deployment
  leaves them, with or without a queueing discipline on the link.
\<close>

definition lab_veth :: "qdisc_plan option \<Rightarrow> interface_inventory" where
  "lab_veth q = (new_interface ''eth0'' ''veth'' (Some 2) None 1500 True)\<lparr>iv_qdisc := q, iv_link_id := Some ''fake-link-1''\<rparr>"

definition lab_loopback :: interface_inventory where
  "lab_loopback = (new_interface ''lo'' ''loopback'' (Some 1) None 65536 True)\<lparr>
     iv_addresses := [IPInterface (IPv4Address 2130706433) 8]\<rparr>"

definition lab_namespace :: "string \<Rightarrow> string \<Rightarrow> qdisc_plan option \<Rightarrow> namespace_inventory" where
  "lab_namespace name namespace q = \<lparr>ni_node = name, ni_kind = LinuxKind, ni_namespace = namespace, ni_exists = True,
     ni_interfaces = [(''lo'', lab_loopback), (''eth0'', lab_veth q)],
     ni_routes = [\<lparr>rt_dst = IPNetwork (IPv4Address 2130706432) 8, rt_via = None, rt_dev = Some ''lo'', rt_table = 254,
       rt_nexthops = []\<rparr>],
     ni_sysctls = [], ni_rules = [], ni_neighbors = []\<rparr>"

definition lab_live :: "qdisc_plan option \<Rightarrow> live_inventory" where
  "lab_live q = \<lparr>li_namespaces = [
     (''nslab-lab-h1-0000000000000000'', lab_namespace ''h1'' ''nslab-lab-h1-0000000000000000'' q),
     (''nslab-lab-h2-0000000000000000'', lab_namespace ''h2'' ''nslab-lab-h2-0000000000000000'' q)],
     li_root_interfaces = []\<rparr>"

definition lab_record :: "string \<Rightarrow> string \<Rightarrow> pyobj" where
  "lab_record namespace temporary = pdict [(''ifindex'', PInt 2), (''kind'', PStr ''veth''), (''link_id'', PStr ''fake-link-1''),
     (''name'', PStr ''eth0''), (''namespace'', PStr namespace), (''temporary_name'', PStr temporary)]"

definition lab_recorded :: "string \<Rightarrow> state_snapshot" where
  "lab_recorded status = \<lparr>ss_schema = 1, ss_name = ''lab'', ss_fingerprint = replicate 64 (CHR ''0''),
     ss_manifest = [(''version'', PInt 1), (''name'', PStr ''lab'')],
     ss_namespaces = [(''h1'', ''nslab-lab-h1-0000000000000000''), (''h2'', ''nslab-lab-h2-0000000000000000'')],
     ss_interfaces = [(''h1:eth0'', lab_record ''nslab-lab-h1-0000000000000000'' ''nl0000000000a''),
       (''h2:eth0'', lab_record ''nslab-lab-h2-0000000000000000'' ''nl0000000000b'')],
     ss_created_at = ''2024-01-01T00:00:00+00:00'', ss_status = status\<rparr>"

definition summary :: "inspection_report res \<Rightarrow> (string \<times> string list \<times> difference list) res" where
  "summary r = res_bind r (\<lambda>r. Inr (ir_status r, map nr_status (ir_nodes r), ir_differences r))"

definition lab_report :: "inspection_report res" where
  "lab_report = inspect_topology lab_ext lab_plan (Some (lab_recorded ''deployed'')) (lab_live None)"

lemma lab_reported: "summary lab_report = Inr (''deployed'', [''matching'', ''matching''], [])"
  by code_simp

lemma lab_proper: "proper_inventory (lab_live q)"
  by (simp add: proper_inventory_def lab_live_def lab_namespace_def)

lemma lab_exact: "list_all (compared_exactly lab_plan) (plan_nodes lab_plan)"
  by code_simp



text \<open>The same topology with a queueing discipline on its link, as its manifest, its plan and its deployment have it.\<close>

definition shaped_ext :: "qdisc_config \<Rightarrow> ext" where
  "shaped_ext q = lab_ext\<lparr>x_model_validate := (\<lambda>_. Inr (lab_manifest\<lparr>mf_topology := \<lparr>
     tp_nodes = [(''h1'', lab_host []), (''h2'', lab_host [])],
     tp_links = [\<lparr>lc_endpoints = (''h1:eth0'', ''h2:eth0''), lc_mtu = 1500, lc_netem = None, lc_qdisc = Some q\<rparr>]\<rparr>\<rparr>))\<rparr>"

definition shaped_plan :: "qdisc_config \<Rightarrow> topology_plan" where
  "shaped_plan q = lab_plan\<lparr>tpl_links := map (\<lambda>link. link\<lparr>lk_qdisc := Some (compile_qdisc q)\<rparr>) (tpl_links lab_plan)\<rparr>"

definition shaped_report :: "qdisc_config \<Rightarrow> qdisc_plan \<Rightarrow> (string \<times> string list \<times> difference list) res" where
  "shaped_report q observed =
     summary (inspect_topology (shaped_ext q) (shaped_plan q) (Some (lab_recorded ''deployed'')) (lab_live (Some observed)))"


definition fifo :: "int \<Rightarrow> simple_qdisc_config" where
  "fifo limit = \<lparr>sqc_kind = ''pfifo'', sqc_limit = Some limit, sqc_target_ms = None, sqc_interval_ms = None, sqc_flows = None,
     sqc_quantum = None, sqc_perturb = None, sqc_min = None, sqc_max = None, sqc_avpkt = None, sqc_burst = None,
     sqc_probability = None, sqc_ecn = None, sqc_tupdate_ms = None, sqc_alpha = None, sqc_beta = None, sqc_bytemode = None\<rparr>"


end
