(* ===== verification/Spec2Isabelle.thy ===== *)
theory Spec2Isabelle
  imports Tc Naming Compile Match Fake_Backend Store Lock Snapshot Lifecycle Deployments Planned_Mtus
    Forest_Facts Display_Text Graph_Renders Frr_Signals Frr_Starts Inspections
begin

text \<open>
  nslab builds network labs out of Linux network namespaces. A manifest (YAML) names nodes, their
  devices and the links between them; \<open>manifest.py\<close> validates it, \<open>planner.py\<close> compiles it into a plan,
  \<open>lifecycle.py\<close> carries the plan out through a network backend, and \<open>state.py\<close> records what it did in
  one state file per deployment, under a lock. The backends of \<open>backend/\<close> create the namespaces, devices
  and links; \<open>backend/base.py\<close> decides whether what is there matches a plan, and \<open>inspector.py\<close> reports
  what differs. \<open>graph.py\<close> draws plans, and \<open>routing.py\<close> runs the FRR daemons of nodes with routing protocols. All files are those of \<open>src/nslab/\<close> in the repository.

  \<^bold>\<open>Conventions.\<close> Python's records are records, its tagged unions datatypes, its ints \<open>int\<close>, IPv4 and
  IPv6 addresses words of 32 and 128 bits; a dict is an association list in insertion order. Code that
  may raise returns \<open>exc + 'a\<close>; code with effects is a function from the world to a result and the world
  it leaves (\<open>Prelude\<close>), so what was done before an exception stays done. Every exception of the source
  is a value: \<open>NslabError\<close> with code and details, \<open>OperationCancelled\<close>, the built-in exceptions, and
  \<open>KeyboardInterrupt\<close>. The names of the source are kept where HOL allows it.

  \<^bold>\<open>The theories and the code they model.\<close>

  \<^item> \<open>Prelude\<close>, \<open>Text\<close>, \<open>Ip_Address\<close>: Python values and dicts, results and effects with their weakest
    preconditions, printing and reading of numbers, what is used of the module \<open>ipaddress\<close>.
  \<^item> \<open>Tc\<close> (\<open>tc.py\<close>), \<open>Naming\<close> (\<open>naming.py\<close>), \<open>Tc_Qdisc\<close> (\<open>backend/tc_qdisc.py\<close>).
  \<^item> \<open>Manifest\<close>, \<open>Checks\<close>, \<open>Manifest_Rules\<close>, \<open>Node_Rules\<close>, \<open>Topology_Rules\<close> (\<open>manifest.py\<close>): the
    configuration classes and all their validators, from single fields to the references between nodes.
  \<^item> \<open>Planner\<close>, \<open>Compile\<close> (\<open>planner.py\<close>): plans, MTUs, route tables, and \<open>compile_plan\<close>.
  \<^item> \<open>Manifest_Compiles\<close>, \<open>Planned_Mtus\<close>: validators and planner together.
  \<^item> \<open>Inventory\<close>, \<open>Match\<close> (\<open>backend/base.py\<close>): observed and expected state and their comparison.
  \<^item> \<open>Fake_Backend\<close> (\<open>backend/fake.py\<close>): the in-memory backend, all methods.
  \<^item> \<open>State\<close>, \<open>Documents\<close>, \<open>Store\<close>, \<open>Lock\<close> (\<open>state.py\<close>): snapshots and their documents, the state
    directory with atomic replacement, and the deployment lock; \<open>Snapshot\<close> (\<open>snapshot.py\<close>).
  \<^item> \<open>Services\<close> (\<open>executor.py\<close>, parts of \<open>lifecycle.py\<close>), \<open>Lifecycle\<close> (\<open>lifecycle.py\<close>): deploy,
    destroy and redeploy with verification, rollback and reconciliation.
  \<^item> \<open>Display_Forest\<close>, \<open>Display_Text\<close>, \<open>Display_Layout\<close>, \<open>Graph_Formats\<close>, \<open>Graph_Json\<close> (\<open>graph.py\<close>): the
    trees a topology is drawn as, the texts, the placement of the boxes and the canvas, and the five
    formats. The loops over a tree are partial functions, since only a tree makes them end.
  \<^item> \<open>Routing\<close>, \<open>Frr_Host\<close>, \<open>Frr_Runtime\<close> (\<open>routing.py\<close>): the FRR configuration of a node, the machine the
    daemons run on, and the class \<open>FrrRuntime\<close>: markers, start, status and stop.
  \<^item> \<open>Inspect_Views\<close>, \<open>Inspector\<close> (\<open>inspector.py\<close>): what is desired, recorded and observed of every node as
    views, the texts they hold, the differences between them, and \<open>inspect_topology\<close>.

  \<^bold>\<open>Interfaces.\<close> The lifecycle calls a backend and a host. \<open>Interfaces\<close> states what it relies on as the
  locales \<open>network_backend\<close> (an operation touches the namespaces of its own plan only, an inventory shows
  what is there) and \<open>state_store\<close> (what was saved is loaded, an error code says whether the file
  changed); \<open>lifecycle\<close> of \<open>Lifecycle_Frames\<close> joins them, and \<open>Lifecycle_Frames\<close>, \<open>Lifecycle_Outcomes\<close>
  and \<open>Lifecycle_Commands\<close> prove the client's lemmas inside it. \<open>Fake_Facts\<close> interprets the first locale
  for the in-memory backend, \<open>Disk_Host\<close> the second for the state directory, and \<open>Deployments\<close> the third
  for the two together; its properties are the locale's lemmas at that interpretation.

  \<^bold>\<open>What the lemmas show.\<close> \<open>Deployments\<close>: commands on some deployments leave all others alone; what a
  deploy, destroy or redeploy that returns has achieved; what a completed rollback means; the phases of
  a state file form a small machine that every command follows. \<open>Store\<close>, \<open>Lock\<close>, \<open>State\<close>: atomicity of
  save and delete whatever system call fails, round trips of documents, and that waiting for the lock
  ends by its deadline. \<open>Manifest_Compiles\<close>, \<open>Planned_Mtus\<close>: a validated manifest compiles, and the
  planned MTU of a device with its encapsulation fits into the device that carries it. \<open>Tc\<close>, \<open>Naming\<close>,
  \<open>Manifest_Rules\<close>: normal forms of rates, sizes and MAC addresses, names of namespaces.
  \<open>Forest_Facts\<close>, \<open>Layout_Facts\<close>, \<open>Graph_Facts\<close>: the display forest is a spanning forest that shows every
  link once, and the boxes of its components never overlap; \<open>Graph_Renders\<close>: every format of a compiled
  plan is rendered, and DOT reads back. \<open>Frr_Facts\<close>, \<open>Frr_Frames\<close>, \<open>Frr_Stops\<close>, \<open>Frr_Starts\<close>, \<open>Frr_Signals\<close>: the
  routing runtime leaves alone what is not its own, starts and stops exactly the daemons of the plan,
  and two ways in which it fails; \<open>Frr_Samples\<close> holds their examples. \<open>Inspector_Facts\<close>, \<open>Inspections\<close>: the
  inspector and the drift detection, which compare the same state by two different routines, agree, but for
  two kinds of queueing discipline.

  \<^bold>\<open>Faults and bounds.\<close> Every system call of \<open>Store\<close> and \<open>Lock\<close> takes its outcome from a schedule of
  faults, an arbitrary function of the number of calls made; properties hold for every schedule. The
  temporary file of \<open>save\<close> draws at most \<open>tmp_max\<close> names, as \<open>mkstemp\<close> does, and then raises. The
  loop of the lock terminates because every round sleeps towards the deadline (\<open>polls_left\<close>), and so do
  the two loops of \<open>Frr_Runtime\<close> (\<open>rounds_left\<close>). Between any two system calls of \<open>Frr_Runtime\<close> a schedule
  of events lets other processes end, create and remove files.

  \<^bold>\<open>Parameters.\<close> The record \<open>ext\<close> holds what lies outside the repository: the digests, compact JSON,
  pydantic's dump and validation, two integer functions of the tc library and \<open>str\<close>/\<open>repr\<close> of
  floats. What a property needs of them is a hypothesis in its statement.

  \<^bold>\<open>Not modelled.\<close> \<open>backend/pyroute2.py\<close> talks netlink to the kernel through the pyroute2 library;
  \<open>cli.py\<close>, \<open>completion.py\<close> and \<open>version.py\<close> are the command line. \<open>load_manifest\<close> is YAML parsing and the
  formatting of pydantic's report: the model of the validators stops at the first message. The
  decoding of kernel attributes in \<open>tc_qdisc.py\<close> is left out.
\<close>

end
